(* ===== verification/Prelude.thy ===== *)
theory Prelude
  imports Main "HOL-Library.Word"
begin

unbundle bit_operations_syntax

section \<open>Shared vocabulary of the development\<close>

text \<open>
  The types and the generic facts that the component theories share.  The C++ sources use the
  fixed-width integers \<open>u8\<close>, \<open>u16\<close>, \<open>u32\<close>, \<open>u64\<close>; each is a
  \<open>word\<close> of that width here.  \<open>v << n\<close> is \<open>push_bit n v\<close>, \<open>v >> n\<close> on an
  unsigned value is \<open>drop_bit n v\<close>, and on an \<open>s32\<close> it is \<open>signed_drop_bit n v\<close>.
  A byte array such as the wave memory is a function from a byte index to a byte.
\<close>

type_synonym u8 = "8 word"
type_synonym u16 = "16 word"
type_synonym u32 = "32 word"
type_synonym u64 = "64 word"

named_theorems word_bits "bit-level unfolding of the field accessors"
named_theorems frame "what an operation leaves unchanged"
named_theorems inv_intros "an operation keeps the invariant of its component"

subsection \<open>Fields and single bits of a word\<close>

definition fld :: "u32 \<Rightarrow> nat \<Rightarrow> nat" where
  "fld w n = unat (drop_bit n w AND 15)"

definition put_bit :: "nat \<Rightarrow> bool \<Rightarrow> u32 \<Rightarrow> u32" where
  "put_bit n v w = (if v then set_bit n w else unset_bit n w)"

lemma fld_less [simp]: "fld w n < 16"
proof -
  have "unat (drop_bit n w AND 15) \<le> unat (15 :: u32)"
    by (rule word_and_le1 [THEN word_le_nat_alt [THEN iffD1]])
  then show ?thesis by (simp add: fld_def)
qed

lemma fld_le [simp]: "fld w n \<le> 15"
  using fld_less [of w n] by linarith

lemma fld_neq [simp]: "16 \<le> k \<Longrightarrow> fld w n \<noteq> k" "16 \<le> k \<Longrightarrow> k \<noteq> fld w n"
  using fld_less [of w n] by linarith+

lemma bit_put_bit [simp]:
  "k < 32 \<Longrightarrow> bit (put_bit n v w) k = (if n = k then v else bit w k)"
  by (auto simp: put_bit_def bit_set_bit_iff bit_unset_bit_iff)

lemma put_bit_put_bit [simp]: "put_bit n v (put_bit n u w) = put_bit n v w"
  by (rule bit_word_eqI) auto

lemma put_bit_id: "n < 32 \<Longrightarrow> put_bit n (bit w n) w = w"
  by (rule bit_word_eqI) auto

lemma put_bit_swap: "n \<noteq> m \<Longrightarrow> put_bit n v (put_bit m u w) = put_bit m u (put_bit n v w)"
  by (rule bit_word_eqI) auto

text \<open>The masks the sources test bits with.\<close>

lemma and_bit_0 [word_bits]: "w AND 1 = 0 \<longleftrightarrow> \<not> bit w 0" for w :: u32
  using and_exp_eq_0_iff_not_bit [of w 0] by simp

lemma and_bit_31 [word_bits]: "w AND 0x80000000 = 0 \<longleftrightarrow> \<not> bit w 31" for w :: u32
  using and_exp_eq_0_iff_not_bit [of w 31] by simp

lemma and_bit_20 [word_bits]: "w AND 0x100000 = 0 \<longleftrightarrow> \<not> bit w 20" for w :: u32
  using and_exp_eq_0_iff_not_bit [of w 20] by simp

lemma and_bit_7 [word_bits]: "w AND 0x80 = 0 \<longleftrightarrow> \<not> bit w 7" for w :: u32
  using and_exp_eq_0_iff_not_bit [of w 7] by simp

lemma and_bit_6 [word_bits]: "w AND 0x40 = 0 \<longleftrightarrow> \<not> bit w 6" for w :: u32
  using and_exp_eq_0_iff_not_bit [of w 6] by simp

text \<open>The bits of the constants that occur as masks.\<close>

lemma bit_exp_u32: "n < 32 \<Longrightarrow> bit (2 ^ n :: u32) k \<longleftrightarrow> k = n"
  by (auto simp: bit_exp_iff)

lemma bit_mask_u32: "n \<le> 32 \<Longrightarrow> bit (mask n :: u32) k \<longleftrightarrow> k < n"
  by (auto simp: bit_mask_iff)

lemma bit_const_0x10 [word_bits]: "bit (0x10 :: u32) k \<longleftrightarrow> k = 4"
  using bit_exp_u32 [of 4 k] by simp

lemma bit_const_0x40 [word_bits]: "bit (0x40 :: u32) k \<longleftrightarrow> k = 6"
  using bit_exp_u32 [of 6 k] by simp

lemma bit_const_0x80 [word_bits]: "bit (0x80 :: u32) k \<longleftrightarrow> k = 7"
  using bit_exp_u32 [of 7 k] by simp

lemma bit_const_0x80000000 [word_bits]: "bit (0x80000000 :: u32) k \<longleftrightarrow> k = 31"
  using bit_exp_u32 [of 31 k] by simp

lemma bit_const_0xf [word_bits]: "bit (0xf :: u32) k \<longleftrightarrow> k < 4"
  using bit_mask_u32 [of 4 k] by (simp add: mask_eq_exp_minus_1)

lemma bit_const_0x1f [word_bits]: "bit (0x1f :: u32) k \<longleftrightarrow> k < 5"
  using bit_mask_u32 [of 5 k] by (simp add: mask_eq_exp_minus_1)

lemma bit_const_0xff [word_bits]: "bit (0xff :: u32) k \<longleftrightarrow> k < 8"
  using bit_mask_u32 [of 8 k] by (simp add: mask_eq_exp_minus_1)

lemma bit_const_0xffffff [word_bits]: "bit (0xffffff :: u32) k \<longleftrightarrow> k < 24"
  using bit_mask_u32 [of 24 k] by (simp add: mask_eq_exp_minus_1)

lemma bit_const_0xfffffff [word_bits]: "bit (0xfffffff :: u32) k \<longleftrightarrow> k < 28"
  using bit_mask_u32 [of 28 k] by (simp add: mask_eq_exp_minus_1)

lemma bit_high_mask [word_bits]: "bit (0xF0000000 :: u32) k \<longleftrightarrow> 28 \<le> k \<and> k < 32"
proof -
  have "(0xF0000000 :: u32) = NOT 0x0FFFFFFF" by simp
  then show ?thesis
    using bit_const_0xfffffff [of k] by (simp only: bit_not_iff) auto
qed

subsection \<open>Little-endian access to byte arrays\<close>

definition rd16 :: "(u32 \<Rightarrow> u8) \<Rightarrow> u32 \<Rightarrow> u16" where
  "rd16 m a = ucast (m a) OR push_bit 8 (ucast (m (a + 1)))"

definition rd32 :: "(u32 \<Rightarrow> u8) \<Rightarrow> u32 \<Rightarrow> u32" where
  "rd32 m a = ucast (m a) OR push_bit 8 (ucast (m (a + 1)))
     OR push_bit 16 (ucast (m (a + 2))) OR push_bit 24 (ucast (m (a + 3)))"

definition wr16 :: "(u32 \<Rightarrow> u8) \<Rightarrow> u32 \<Rightarrow> u16 \<Rightarrow> (u32 \<Rightarrow> u8)" where
  "wr16 m a v = m(a := ucast v, a + 1 := ucast (drop_bit 8 v))"

definition wr32 :: "(u32 \<Rightarrow> u8) \<Rightarrow> u32 \<Rightarrow> u32 \<Rightarrow> (u32 \<Rightarrow> u8)" where
  "wr32 m a v = m(a := ucast v, a + 1 := ucast (drop_bit 8 v),
     a + 2 := ucast (drop_bit 16 v), a + 3 := ucast (drop_bit 24 v))"

lemma word_add_neq [simp]: "c \<noteq> 0 \<Longrightarrow> a + c \<noteq> a" "c \<noteq> 0 \<Longrightarrow> a \<noteq> a + c" for a c :: u32
  by simp_all

lemma bytes_of_u32:
  "ucast (ucast v :: u8) OR push_bit 8 (ucast (ucast (drop_bit 8 v) :: u8))
     OR push_bit 16 (ucast (ucast (drop_bit 16 v) :: u8))
     OR push_bit 24 (ucast (ucast (drop_bit 24 v) :: u8)) = v" (is "?l = v") for v :: u32
proof (rule bit_word_eqI)
  fix n assume "n < LENGTH(32)"
  then consider "n < 8" | "8 \<le> n" "n < 16" | "16 \<le> n" "n < 24" | "24 \<le> n" "n < 32"
    by fastforce
  then show "bit ?l n = bit v n"
    by cases (auto simp: bit_simps)
qed

lemma rd32_wr32_same: "rd32 (wr32 m a v) a = v"
proof -
  have "a + 1 \<noteq> a + 2" "a + 1 \<noteq> a + 3" "a + 2 \<noteq> a + 3" "a \<noteq> a + 1" "a \<noteq> a + 2" "a \<noteq> a + 3"
    by simp_all
  then show ?thesis
    using bytes_of_u32 [of v] by (simp add: rd32_def wr32_def)
qed

lemma rd16_wr16_same: "rd16 (wr16 m a v) a = v"
proof -
  have "rd16 (wr16 m a v) a = ucast (ucast v :: u8) OR push_bit 8 (ucast (ucast (drop_bit 8 v) :: u8))"
    by (simp add: rd16_def wr16_def)
  also have "\<dots> = v"
    by (rule bit_word_eqI) (auto simp: bit_simps)
  finally show ?thesis .
qed

end
