(* ===== verification/Arm7_State.thy ===== *)
theory Arm7_State
  imports Prelude
begin

unbundle bit_operations_syntax

section \<open>The AICA sound processor: ARM7 registers, modes, interrupt lines, memory\<close>

text \<open>
  Models \<^verbatim>\<open>core/hw/arm7/arm7.h\<close>, the mode and exception code of
  \<^verbatim>\<open>core/hw/arm7/arm7.cpp\<close>, and \<^verbatim>\<open>core/hw/arm7/arm_mem.{h,cpp}\<close>.

  The namespace-level variables of \<open>aica::arm\<close> become one record.  \<open>arm_Reg\<close>, an array of
  50 register words whose union members all view the same \<open>u32 I\<close>, is a function from the
  register index; the \<open>FLG\<close> and \<open>PSR\<close> views are bit accessors on the word.
  \<open>armMode\<close> is an \<open>int\<close> in the source that only ever holds five bits (the invariant
  \<open>arm_inv\<close> states it), so it is kept as a word.  The part of the AICA register file that the ARM
  reaches through \<open>readRegInternal\<close> and \<open>writeRegInternal\<close> is the record \<open>aica_bus\<close>: the
  definitions take it as an argument, and the theory of the AICA supplies it.
\<close>

subsection \<open>Registers and state\<close>

abbreviation (input) RN_LR :: nat where "RN_LR \<equiv> 14"
abbreviation (input) RN_PC :: nat where "RN_PC \<equiv> 15"
abbreviation (input) RN_CPSR :: nat where "RN_CPSR \<equiv> 16"
abbreviation (input) RN_SPSR :: nat where "RN_SPSR \<equiv> 17"
abbreviation (input) R13_IRQ :: nat where "R13_IRQ \<equiv> 18"
abbreviation (input) R14_IRQ :: nat where "R14_IRQ \<equiv> 19"
abbreviation (input) SPSR_IRQ :: nat where "SPSR_IRQ \<equiv> 20"
abbreviation (input) R13_USR :: nat where "R13_USR \<equiv> 26"
abbreviation (input) R14_USR :: nat where "R14_USR \<equiv> 27"
abbreviation (input) R13_SVC :: nat where "R13_SVC \<equiv> 28"
abbreviation (input) R14_SVC :: nat where "R14_SVC \<equiv> 29"
abbreviation (input) SPSR_SVC :: nat where "SPSR_SVC \<equiv> 30"
abbreviation (input) R13_ABT :: nat where "R13_ABT \<equiv> 31"
abbreviation (input) R14_ABT :: nat where "R14_ABT \<equiv> 32"
abbreviation (input) SPSR_ABT :: nat where "SPSR_ABT \<equiv> 33"
abbreviation (input) R13_UND :: nat where "R13_UND \<equiv> 34"
abbreviation (input) R14_UND :: nat where "R14_UND \<equiv> 35"
abbreviation (input) SPSR_UND :: nat where "SPSR_UND \<equiv> 36"
abbreviation (input) R8_FIQ :: nat where "R8_FIQ \<equiv> 37"
abbreviation (input) R9_FIQ :: nat where "R9_FIQ \<equiv> 38"
abbreviation (input) R10_FIQ :: nat where "R10_FIQ \<equiv> 39"
abbreviation (input) R11_FIQ :: nat where "R11_FIQ \<equiv> 40"
abbreviation (input) R12_FIQ :: nat where "R12_FIQ \<equiv> 41"
abbreviation (input) R13_FIQ :: nat where "R13_FIQ \<equiv> 42"
abbreviation (input) R14_FIQ :: nat where "R14_FIQ \<equiv> 43"
abbreviation (input) SPSR_FIQ :: nat where "SPSR_FIQ \<equiv> 44"
abbreviation (input) RN_PSR_FLAGS :: nat where "RN_PSR_FLAGS \<equiv> 45"
abbreviation (input) R15_ARM_NEXT :: nat where "R15_ARM_NEXT \<equiv> 46"
abbreviation (input) INTR_PEND :: nat where "INTR_PEND \<equiv> 47"

record 'p arm_state =
  reg :: "nat \<Rightarrow> u32"
  armIrqEnable :: bool
  armFiqEnable :: bool
  armMode :: u32
  Arm7Enabled :: bool
  arm7ClockTicks :: int
  aica_interr :: bool
  aica_reg_L :: u32
  e68k_out :: bool
  e68k_reg_L :: u32
  e68k_reg_M :: u32
  aica_ram :: "u32 \<Rightarrow> u8"
  periph :: 'p

text \<open>The template parameter \<open>T\<close> of the memory accessors.\<close>

datatype msize = U8 | U16 | U32

record 'p aica_bus =
  aram_mask :: u32
  readRegInternal :: "msize \<Rightarrow> u32 \<Rightarrow> 'p arm_state \<Rightarrow> u32 \<times> 'p arm_state"
  writeRegInternal :: "msize \<Rightarrow> u32 \<Rightarrow> u32 \<Rightarrow> 'p arm_state \<Rightarrow> 'p arm_state"

type_synonym 'p arm_op = "'p aica_bus \<Rightarrow> u32 \<Rightarrow> 'p arm_state \<Rightarrow> 'p arm_state"

definition set_reg :: "nat \<Rightarrow> u32 \<Rightarrow> 'p arm_state \<Rightarrow> 'p arm_state" where
  "set_reg i v s = s\<lparr>reg := (reg s)(i := v)\<rparr>"

definition add_ticks :: "int \<Rightarrow> 'p arm_state \<Rightarrow> 'p arm_state" where
  "add_ticks n s = s\<lparr>arm7ClockTicks := arm7ClockTicks s + n\<rparr>"

abbreviation armNextPC :: "'p arm_state \<Rightarrow> u32" where
  "armNextPC s \<equiv> reg s R15_ARM_NEXT"

definition N_FLAG :: "'p arm_state \<Rightarrow> bool" where "N_FLAG s = bit (reg s RN_PSR_FLAGS) 31"
definition Z_FLAG :: "'p arm_state \<Rightarrow> bool" where "Z_FLAG s = bit (reg s RN_PSR_FLAGS) 30"
definition C_FLAG :: "'p arm_state \<Rightarrow> bool" where "C_FLAG s = bit (reg s RN_PSR_FLAGS) 29"
definition V_FLAG :: "'p arm_state \<Rightarrow> bool" where "V_FLAG s = bit (reg s RN_PSR_FLAGS) 28"

definition set_N :: "bool \<Rightarrow> 'p arm_state \<Rightarrow> 'p arm_state" where
  "set_N v s = set_reg RN_PSR_FLAGS (put_bit 31 v (reg s RN_PSR_FLAGS)) s"

definition set_Z :: "bool \<Rightarrow> 'p arm_state \<Rightarrow> 'p arm_state" where
  "set_Z v s = set_reg RN_PSR_FLAGS (put_bit 30 v (reg s RN_PSR_FLAGS)) s"

definition set_C :: "bool \<Rightarrow> 'p arm_state \<Rightarrow> 'p arm_state" where
  "set_C v s = set_reg RN_PSR_FLAGS (put_bit 29 v (reg s RN_PSR_FLAGS)) s"

definition set_V :: "bool \<Rightarrow> 'p arm_state \<Rightarrow> 'p arm_state" where
  "set_V v s = set_reg RN_PSR_FLAGS (put_bit 28 v (reg s RN_PSR_FLAGS)) s"

subsection \<open>Interrupt lines\<close>

definition update_armintc :: "'p arm_state \<Rightarrow> 'p arm_state" where
  "update_armintc s = set_reg INTR_PEND (of_bool (e68k_out s \<and> armFiqEnable s)) s"

definition update_e68k :: "'p arm_state \<Rightarrow> 'p arm_state" where
  "update_e68k s =
     (if \<not> e68k_out s \<and> aica_interr s
      then update_armintc (s\<lparr>e68k_out := True, e68k_reg_L := aica_reg_L s\<rparr>)
      else s)"

definition interruptChange :: "u32 \<Rightarrow> u32 \<Rightarrow> 'p arm_state \<Rightarrow> 'p arm_state" where
  "interruptChange bits L s =
     (let s = s\<lparr>aica_interr := bits \<noteq> 0\<rparr>;
          s = (if aica_interr s then s\<lparr>aica_reg_L := L\<rparr> else s)
      in update_e68k s)"

definition e68k_AcceptInterrupt :: "'p arm_state \<Rightarrow> 'p arm_state" where
  "e68k_AcceptInterrupt s = update_armintc (update_e68k (s\<lparr>e68k_out := False\<rparr>))"

subsection \<open>Memory\<close>

definition REG_L :: u32 where "REG_L = 0x2D00"
definition REG_M :: u32 where "REG_M = 0x2D04"

fun sizeof :: "msize \<Rightarrow> u32" where
  "sizeof U8 = 1" | "sizeof U16 = 2" | "sizeof U32 = 4"

text \<open>The cast \<open>(T)v\<close>, its value again held in a \<open>u32\<close>.\<close>

fun cast :: "msize \<Rightarrow> u32 \<Rightarrow> u32" where
  "cast U8 v = v AND 0xFF" | "cast U16 v = v AND 0xFFFF" | "cast U32 v = v"

definition readReg :: "'p aica_bus \<Rightarrow> msize \<Rightarrow> u32 \<Rightarrow> 'p arm_state \<Rightarrow> u32 \<times> 'p arm_state" where
  "readReg b T addr s =
     (let addr = addr AND 0x7FFF in
      if addr = REG_L then (cast T (e68k_reg_L s), s)
      else if addr = REG_M then (cast T (e68k_reg_M s), s)
      else if T = U32 then readRegInternal b U16 addr s
      else readRegInternal b T addr s)"

definition writeReg :: "'p aica_bus \<Rightarrow> msize \<Rightarrow> u32 \<Rightarrow> u32 \<Rightarrow> 'p arm_state \<Rightarrow> 'p arm_state" where
  "writeReg b T addr data s =
     (let addr = addr AND 0x7FFF in
      if addr = REG_L then s
      else if addr = REG_M then (if data AND 1 \<noteq> 0 then e68k_AcceptInterrupt s else s)
      else if T = U32 then writeRegInternal b U16 addr (cast U16 data) s
      else writeRegInternal b T addr data s)"

fun ram_read :: "msize \<Rightarrow> (u32 \<Rightarrow> u8) \<Rightarrow> u32 \<Rightarrow> u32" where
  "ram_read U8 m a = ucast (m a)"
| "ram_read U16 m a = ucast (rd16 m a)"
| "ram_read U32 m a = rd32 m a"

fun ram_write :: "msize \<Rightarrow> (u32 \<Rightarrow> u8) \<Rightarrow> u32 \<Rightarrow> u32 \<Rightarrow> (u32 \<Rightarrow> u8)" where
  "ram_write U8 m a v = m(a := ucast v)"
| "ram_write U16 m a v = wr16 m a (ucast v)"
| "ram_write U32 m a v = wr32 m a v"

definition readMem :: "'p aica_bus \<Rightarrow> msize \<Rightarrow> u32 \<Rightarrow> 'p arm_state \<Rightarrow> u32 \<times> 'p arm_state" where
  "readMem b T addr s =
     (let addr = addr AND 0x00FFFFFF in
      if addr < 0x800000 then
        (let rv = ram_read T (aica_ram s) (addr AND (aram_mask b - (sizeof T - 1))) in
         if T = U32 \<and> addr AND 3 \<noteq> 0 then
           (let sf = unat ((addr AND 3) * 8)
            in (drop_bit sf rv OR push_bit (32 - sf) rv, s))
         else (rv, s))
      else readReg b T addr s)"

definition writeMem :: "'p aica_bus \<Rightarrow> msize \<Rightarrow> u32 \<Rightarrow> u32 \<Rightarrow> 'p arm_state \<Rightarrow> 'p arm_state" where
  "writeMem b T addr data s =
     (let addr = addr AND 0x00FFFFFF in
      if addr < 0x800000 then
        s\<lparr>aica_ram := ram_write T (aica_ram s) (addr AND (aram_mask b - (sizeof T - 1))) data\<rparr>
      else writeReg b T addr data s)"

definition CPUReadMemoryQuick :: "'p aica_bus \<Rightarrow> u32 \<Rightarrow> 'p arm_state \<Rightarrow> u32" where
  "CPUReadMemoryQuick b addr s = rd32 (aica_ram s) (addr AND aram_mask b)"

abbreviation CPUReadMemory :: "'p aica_bus \<Rightarrow> u32 \<Rightarrow> 'p arm_state \<Rightarrow> u32 \<times> 'p arm_state" where
  "CPUReadMemory b a s \<equiv> readMem b U32 a s"

abbreviation CPUReadByte :: "'p aica_bus \<Rightarrow> u32 \<Rightarrow> 'p arm_state \<Rightarrow> u32 \<times> 'p arm_state" where
  "CPUReadByte b a s \<equiv> readMem b U8 a s"

abbreviation CPUReadHalfWord :: "'p aica_bus \<Rightarrow> u32 \<Rightarrow> 'p arm_state \<Rightarrow> u32 \<times> 'p arm_state" where
  "CPUReadHalfWord b a s \<equiv> readMem b U16 a s"

abbreviation CPUWriteMemory :: "'p aica_bus \<Rightarrow> u32 \<Rightarrow> u32 \<Rightarrow> 'p arm_state \<Rightarrow> 'p arm_state" where
  "CPUWriteMemory b a v s \<equiv> writeMem b U32 a v s"

text \<open>The argument of \<open>writeMem<u8>\<close> is converted to \<open>u8\<close> at the call.\<close>

abbreviation CPUWriteByte :: "'p aica_bus \<Rightarrow> u32 \<Rightarrow> u32 \<Rightarrow> 'p arm_state \<Rightarrow> 'p arm_state" where
  "CPUWriteByte b a v s \<equiv> writeMem b U8 a (cast U8 v) s"

subsection \<open>Program status registers and mode switches\<close>

definition CPUUpdateCPSR :: "'p arm_state \<Rightarrow> 'p arm_state" where
  "CPUUpdateCPSR s =
     (let CPSR = reg s RN_CPSR AND 0x40;
          CPSR = (CPSR AND 0x0FFFFFFF) OR (reg s RN_PSR_FLAGS AND 0xF0000000);
          CPSR = (if \<not> armFiqEnable s then CPSR OR 0x40 else CPSR);
          CPSR = (if \<not> armIrqEnable s then CPSR OR 0x80 else CPSR);
          CPSR = (CPSR AND NOT 0x1F) OR (armMode s AND 0x1F)
      in set_reg RN_CPSR CPSR s)"

definition CPUUpdateFlags :: "'p arm_state \<Rightarrow> 'p arm_state" where
  "CPUUpdateFlags s =
     (let CPSR = reg s RN_CPSR;
          s = set_reg RN_PSR_FLAGS
                ((reg s RN_PSR_FLAGS AND 0x0FFFFFFF) OR (CPSR AND 0xF0000000)) s;
          s = s\<lparr>armIrqEnable := CPSR AND 0x80 = 0, armFiqEnable := CPSR AND 0x40 = 0\<rparr>
      in update_armintc s)"

definition CPUSwap :: "nat \<Rightarrow> nat \<Rightarrow> 'p arm_state \<Rightarrow> 'p arm_state" where
  "CPUSwap a b s = (let c = reg s b; s = set_reg b (reg s a) s in set_reg a c s)"

text \<open>\<open>mov_reg d r\<close> is the assignment \<open>reg[d].I = reg[r].I\<close>.\<close>

definition mov_reg :: "nat \<Rightarrow> nat \<Rightarrow> 'p arm_state \<Rightarrow> 'p arm_state" where
  "mov_reg d r s = set_reg d (reg s r) s"

text \<open>The first \<open>switch\<close> of \<open>CPUSwitchMode\<close>: the registers of the mode that is left.\<close>

definition save_bank :: "'p arm_state \<Rightarrow> 'p arm_state" where
  "save_bank s =
     (if armMode s = 0x10 \<or> armMode s = 0x1F then
        mov_reg RN_SPSR RN_CPSR (mov_reg R14_USR 14 (mov_reg R13_USR 13 s))
      else if armMode s = 0x11 then
        (let s = CPUSwap R8_FIQ 8 s;
             s = CPUSwap R9_FIQ 9 s;
             s = CPUSwap R10_FIQ 10 s;
             s = CPUSwap R11_FIQ 11 s;
             s = CPUSwap R12_FIQ 12 s
         in mov_reg SPSR_FIQ RN_SPSR (mov_reg R14_FIQ 14 (mov_reg R13_FIQ 13 s)))
      else if armMode s = 0x12 then
        mov_reg SPSR_IRQ RN_SPSR (mov_reg R14_IRQ 14 (mov_reg R13_IRQ 13 s))
      else if armMode s = 0x13 then
        mov_reg SPSR_SVC RN_SPSR (mov_reg R14_SVC 14 (mov_reg R13_SVC 13 s))
      else if armMode s = 0x17 then
        mov_reg SPSR_ABT RN_SPSR (mov_reg R14_ABT 14 (mov_reg R13_ABT 13 s))
      else if armMode s = 0x1b then
        mov_reg SPSR_UND RN_SPSR (mov_reg R14_UND 14 (mov_reg R13_UND 13 s))
      else s)"

text \<open>One arm of the second \<open>switch\<close>, for a mode with its own \<open>R13\<close>, \<open>R14\<close> and \<open>SPSR\<close>.\<close>

definition load_priv :: "nat \<Rightarrow> nat \<Rightarrow> nat \<Rightarrow> bool \<Rightarrow> u32 \<Rightarrow> u32 \<Rightarrow> 'p arm_state \<Rightarrow> 'p arm_state" where
  "load_priv r13 r14 spsr saveState CPSR SPSR s =
     (let s = mov_reg 14 r14 (mov_reg 13 r13 s);
          s = set_reg RN_CPSR SPSR s
      in if saveState then set_reg RN_SPSR CPSR s else mov_reg RN_SPSR spsr s)"

definition load_bank :: "u32 \<Rightarrow> bool \<Rightarrow> u32 \<Rightarrow> u32 \<Rightarrow> 'p arm_state \<Rightarrow> 'p arm_state" where
  "load_bank mode saveState CPSR SPSR s =
     (if mode = 0x10 \<or> mode = 0x1F then
        set_reg RN_CPSR SPSR (mov_reg 14 R14_USR (mov_reg 13 R13_USR s))
      else if mode = 0x11 then
        (let s = CPUSwap 8 R8_FIQ s;
             s = CPUSwap 9 R9_FIQ s;
             s = CPUSwap 10 R10_FIQ s;
             s = CPUSwap 11 R11_FIQ s;
             s = CPUSwap 12 R12_FIQ s;
             s = mov_reg 14 R14_FIQ (mov_reg 13 R13_FIQ s)
         in if saveState then set_reg RN_SPSR CPSR s else mov_reg RN_SPSR SPSR_FIQ s)
      else if mode = 0x12 then load_priv R13_IRQ R14_IRQ SPSR_IRQ saveState CPSR SPSR s
      else if mode = 0x13 then load_priv R13_SVC R14_SVC SPSR_SVC saveState CPSR SPSR s
      else if mode = 0x17 then load_priv R13_ABT R14_ABT SPSR_ABT saveState CPSR SPSR s
      else if mode = 0x1b then load_priv R13_UND R14_UND SPSR_UND saveState CPSR SPSR s
      else s\<lparr>Arm7Enabled := False\<rparr>)"

definition CPUSwitchMode :: "u32 \<Rightarrow> bool \<Rightarrow> 'p arm_state \<Rightarrow> 'p arm_state" where
  "CPUSwitchMode mode saveState s =
     (let s = CPUUpdateCPSR s;
          s = save_bank s;
          CPSR = reg s RN_CPSR;
          SPSR = reg s RN_SPSR;
          s = load_bank mode saveState CPSR SPSR s;
          s = s\<lparr>armMode := mode\<rparr>
      in CPUUpdateCPSR (CPUUpdateFlags s))"

subsection \<open>Exceptions and reset\<close>

definition CPUSoftwareInterrupt :: "u32 \<Rightarrow> 'p arm_state \<Rightarrow> 'p arm_state" where
  "CPUSoftwareInterrupt comm s =
     (let PC = reg s R15_ARM_NEXT + 4;
          s = CPUSwitchMode 0x13 True s;
          s = set_reg 14 PC s;
          s = s\<lparr>armIrqEnable := False\<rparr>
      in set_reg R15_ARM_NEXT 0x08 s)"

definition CPUUndefinedException :: "'p arm_state \<Rightarrow> 'p arm_state" where
  "CPUUndefinedException s =
     (let PC = reg s R15_ARM_NEXT + 4;
          s = CPUSwitchMode 0x1b True s;
          s = set_reg 14 PC s;
          s = s\<lparr>armIrqEnable := False\<rparr>
      in set_reg R15_ARM_NEXT 0x04 s)"

definition CPUFiq :: "'p arm_state \<Rightarrow> 'p arm_state" where
  "CPUFiq s =
     (let PC = reg s R15_ARM_NEXT + 4;
          s = CPUSwitchMode 0x11 True s;
          s = set_reg 14 PC s;
          s = s\<lparr>armIrqEnable := False, armFiqEnable := False\<rparr>;
          s = update_armintc s
      in set_reg R15_ARM_NEXT 0x1c s)"

definition arm_reset :: "'p arm_state \<Rightarrow> 'p arm_state" where
  "arm_reset s =
     (let s = s\<lparr>aica_interr := False, aica_reg_L := 0, e68k_out := False,
                e68k_reg_L := 0, e68k_reg_M := 0, Arm7Enabled := False,
                reg := (\<lambda>_. 0), armMode := 0x13\<rparr>;
          s = set_reg 13 0x03007F00 s;
          s = set_reg 15 0 s;
          s = set_reg RN_CPSR 0 s;
          s = set_reg R13_IRQ 0x03007FA0 s;
          s = set_reg R13_SVC 0x03007FE0 s;
          s = update_armintc (s\<lparr>armIrqEnable := True, armFiqEnable := False\<rparr>);
          s = set_C False (set_V False (set_N False (set_Z False s)));
          s = set_reg RN_CPSR (reg s RN_CPSR OR 0x40) s;
          s = CPUUpdateCPSR s;
          s = set_reg R15_ARM_NEXT (reg s 15) s
      in set_reg 15 (reg s 15 + 4) s)"

definition enable :: "bool \<Rightarrow> 'p arm_state \<Rightarrow> 'p arm_state" where
  "enable enabled s =
     (let s = (if \<not> Arm7Enabled s \<and> enabled then arm_reset s else s)
      in s\<lparr>Arm7Enabled := enabled\<rparr>)"

definition avoidRaceCondition :: "'p arm_state \<Rightarrow> 'p arm_state" where
  "avoidRaceCondition s = s\<lparr>arm7ClockTicks := min (arm7ClockTicks s) (-50)\<rparr>"

text \<open>A blank state and a bus without registers, the inputs on which examples are evaluated.\<close>

definition arm_zero :: "unit arm_state" where
  "arm_zero = \<lparr>reg = (\<lambda>_. 0), armIrqEnable = False, armFiqEnable = False, armMode = 0,
     Arm7Enabled = False, arm7ClockTicks = 0, aica_interr = False, aica_reg_L = 0, e68k_out = False,
     e68k_reg_L = 0, e68k_reg_M = 0, aica_ram = (\<lambda>_. 0), periph = ()\<rparr>"

definition flat_bus :: "unit aica_bus" where
  "flat_bus = \<lparr>aram_mask = 0x1FFFFF, readRegInternal = (\<lambda>T a s. (0, s)), writeRegInternal = (\<lambda>T a v s. s)\<rparr>"

subsection \<open>Reading back what was written\<close>

lemma reg_set_reg [simp]: "reg (set_reg i v s) j = (if j = i then v else reg s j)"
  by (simp add: set_reg_def)

lemma set_reg_frame [simp]:
  "armIrqEnable (set_reg i v s) = armIrqEnable s"
  "armFiqEnable (set_reg i v s) = armFiqEnable s"
  "armMode (set_reg i v s) = armMode s"
  "Arm7Enabled (set_reg i v s) = Arm7Enabled s"
  "arm7ClockTicks (set_reg i v s) = arm7ClockTicks s"
  "aica_interr (set_reg i v s) = aica_interr s"
  "aica_reg_L (set_reg i v s) = aica_reg_L s"
  "e68k_out (set_reg i v s) = e68k_out s"
  "e68k_reg_L (set_reg i v s) = e68k_reg_L s"
  "e68k_reg_M (set_reg i v s) = e68k_reg_M s"
  "aica_ram (set_reg i v s) = aica_ram s"
  "periph (set_reg i v s) = periph s"
  by (simp_all add: set_reg_def)

lemma add_ticks_frame [simp]:
  "reg (add_ticks n s) = reg s"
  "arm7ClockTicks (add_ticks n s) = arm7ClockTicks s + n"
  "armIrqEnable (add_ticks n s) = armIrqEnable s"
  "armFiqEnable (add_ticks n s) = armFiqEnable s"
  "armMode (add_ticks n s) = armMode s"
  "Arm7Enabled (add_ticks n s) = Arm7Enabled s"
  "aica_interr (add_ticks n s) = aica_interr s"
  "aica_reg_L (add_ticks n s) = aica_reg_L s"
  "e68k_out (add_ticks n s) = e68k_out s"
  "e68k_reg_L (add_ticks n s) = e68k_reg_L s"
  "e68k_reg_M (add_ticks n s) = e68k_reg_M s"
  "aica_ram (add_ticks n s) = aica_ram s"
  "periph (add_ticks n s) = periph s"
  by (simp_all add: add_ticks_def)

lemma arm_state_eqI:
  assumes "\<And>i. reg s i = reg t i" "armIrqEnable s = armIrqEnable t" "armFiqEnable s = armFiqEnable t"
    "armMode s = armMode t" "Arm7Enabled s = Arm7Enabled t" "arm7ClockTicks s = arm7ClockTicks t"
    "aica_interr s = aica_interr t" "aica_reg_L s = aica_reg_L t" "e68k_out s = e68k_out t"
    "e68k_reg_L s = e68k_reg_L t" "e68k_reg_M s = e68k_reg_M t" "aica_ram s = aica_ram t"
    "periph s = periph t"
  shows "s = (t :: 'p arm_state)"
  using assms by (cases s, cases t) (auto simp: fun_eq_iff)

lemma set_reg_same [simp]: "set_reg i v (set_reg i u s) = set_reg i v s"
  by (rule arm_state_eqI) auto

lemma set_reg_id: "set_reg i (reg s i) s = s"
  by (rule arm_state_eqI) auto

lemma set_reg_swap: "i \<noteq> j \<Longrightarrow> set_reg i v (set_reg j u s) = set_reg j u (set_reg i v s)"
  by (rule arm_state_eqI) auto

lemma add_ticks_set_reg: "add_ticks n (set_reg i v s) = set_reg i v (add_ticks n s)"
  by (rule arm_state_eqI) auto

lemma add_ticks_add [simp]: "add_ticks n (add_ticks m s) = add_ticks (m + n) s"
  by (rule arm_state_eqI) auto

lemmas flag_defs = N_FLAG_def Z_FLAG_def C_FLAG_def V_FLAG_def
lemmas set_flag_defs = set_N_def set_Z_def set_C_def set_V_def

lemma flag_of_set_flag [simp]:
  "N_FLAG (set_N v s) = v" "N_FLAG (set_Z v s) = N_FLAG s" "N_FLAG (set_C v s) = N_FLAG s" "N_FLAG (set_V v s) = N_FLAG s"
  "Z_FLAG (set_N v s) = Z_FLAG s" "Z_FLAG (set_Z v s) = v" "Z_FLAG (set_C v s) = Z_FLAG s" "Z_FLAG (set_V v s) = Z_FLAG s"
  "C_FLAG (set_N v s) = C_FLAG s" "C_FLAG (set_Z v s) = C_FLAG s" "C_FLAG (set_C v s) = v" "C_FLAG (set_V v s) = C_FLAG s"
  "V_FLAG (set_N v s) = V_FLAG s" "V_FLAG (set_Z v s) = V_FLAG s" "V_FLAG (set_C v s) = V_FLAG s" "V_FLAG (set_V v s) = v"
  by (simp_all add: flag_defs set_flag_defs)

lemma flag_of_set_reg [simp]:
  "i \<noteq> RN_PSR_FLAGS \<Longrightarrow> N_FLAG (set_reg i v s) = N_FLAG s"
  "i \<noteq> RN_PSR_FLAGS \<Longrightarrow> Z_FLAG (set_reg i v s) = Z_FLAG s"
  "i \<noteq> RN_PSR_FLAGS \<Longrightarrow> C_FLAG (set_reg i v s) = C_FLAG s"
  "i \<noteq> RN_PSR_FLAGS \<Longrightarrow> V_FLAG (set_reg i v s) = V_FLAG s"
  by (simp_all add: flag_defs)

lemma flag_of_add_ticks [simp]:
  "N_FLAG (add_ticks n s) = N_FLAG s" "Z_FLAG (add_ticks n s) = Z_FLAG s"
  "C_FLAG (add_ticks n s) = C_FLAG s" "V_FLAG (add_ticks n s) = V_FLAG s"
  by (simp_all add: flag_defs)

lemma reg_set_flag [simp]:
  "i \<noteq> RN_PSR_FLAGS \<Longrightarrow> reg (set_N v s) i = reg s i"
  "i \<noteq> RN_PSR_FLAGS \<Longrightarrow> reg (set_Z v s) i = reg s i"
  "i \<noteq> RN_PSR_FLAGS \<Longrightarrow> reg (set_C v s) i = reg s i"
  "i \<noteq> RN_PSR_FLAGS \<Longrightarrow> reg (set_V v s) i = reg s i"
  by (simp_all add: set_flag_defs)

lemma set_flag_swap:
  "set_N n (set_Z z s) = set_Z z (set_N n s)" "set_N n (set_C c s) = set_C c (set_N n s)"
  "set_N n (set_V v s) = set_V v (set_N n s)" "set_Z z (set_C c s) = set_C c (set_Z z s)"
  "set_Z z (set_V v s) = set_V v (set_Z z s)" "set_C c (set_V v s) = set_V v (set_C c s)"
  by (simp_all add: set_flag_defs put_bit_swap)

lemma set_V_id: "set_V (V_FLAG s) s = s"
  by (simp add: set_V_def V_FLAG_def put_bit_id set_reg_id)

end
