(* ===== verification/Arm7_Alu.thy ===== *)
theory Arm7_Alu
  imports Arm7_State
begin

unbundle bit_operations_syntax

section \<open>Data-processing instructions\<close>

text \<open>
  Models the macros of \<^verbatim>\<open>core/hw/arm7/arm-new.h\<close> that make up the data-processing
  instructions: the condition-flag macros, the sixteen \<open>OP_xxx\<close> bodies with and without flags,
  the shifter macros, and the nine \<open>case\<close> blocks each of \<open>LOGICAL_DATA_OPCODE\<close>,
  \<open>LOGICAL_DATA_OPCODE_WITHOUT_base\<close> and \<open>ARITHMETIC_DATA_OPCODE\<close>.
  A macro body that reads the local variables \<open>base\<close>, \<open>dest\<close>, \<open>value\<close> and \<open>C_OUT\<close> takes them as
  arguments; the macro parameters \<open>OPCODE\<close> and \<open>OPCODE2\<close> are the function arguments
  \<open>OPC\<close> and \<open>OPC2\<close>.  A shift macro that assigns \<open>value\<close> and \<open>C_OUT\<close> returns the pair.
\<close>

type_synonym 'p nop = "u32 \<Rightarrow> nat \<Rightarrow> u32 \<Rightarrow> bool \<Rightarrow> 'p arm_state \<Rightarrow> 'p arm_state"
type_synonym 'p lop = "nat \<Rightarrow> nat \<Rightarrow> u32 \<Rightarrow> bool \<Rightarrow> 'p arm_state \<Rightarrow> 'p arm_state"
type_synonym 'p aop = "nat \<Rightarrow> nat \<Rightarrow> u32 \<Rightarrow> 'p arm_state \<Rightarrow> 'p arm_state"

definition imm5 :: "u32 \<Rightarrow> nat" where
  "imm5 opcode = unat (drop_bit 7 opcode AND 0x1F)"

subsection \<open>Flag macros\<close>

definition NEG :: "u32 \<Rightarrow> u32" where "NEG i = drop_bit 31 i"
definition POS :: "u32 \<Rightarrow> u32" where "POS i = drop_bit 31 (NOT i)"

definition ADDCARRY :: "u32 \<Rightarrow> u32 \<Rightarrow> u32 \<Rightarrow> bool" where
  "ADDCARRY a b c \<longleftrightarrow>
     (NEG a AND NEG b) OR (NEG a AND POS c) OR (NEG b AND POS c) \<noteq> 0"

definition ADDOVERFLOW :: "u32 \<Rightarrow> u32 \<Rightarrow> u32 \<Rightarrow> bool" where
  "ADDOVERFLOW a b c \<longleftrightarrow>
     (NEG a AND NEG b AND POS c) OR (POS a AND POS b AND NEG c) \<noteq> 0"

definition SUBCARRY :: "u32 \<Rightarrow> u32 \<Rightarrow> u32 \<Rightarrow> bool" where
  "SUBCARRY a b c \<longleftrightarrow>
     (NEG a AND POS b) OR (NEG a AND POS c) OR (POS b AND POS c) \<noteq> 0"

definition SUBOVERFLOW :: "u32 \<Rightarrow> u32 \<Rightarrow> u32 \<Rightarrow> bool" where
  "SUBOVERFLOW a b c \<longleftrightarrow>
     (NEG a AND POS b AND POS c) OR (POS a AND NEG b AND NEG c) \<noteq> 0"

text \<open>The four assignments that end every flag-setting sum or difference.\<close>

definition add_flags :: "u32 \<Rightarrow> u32 \<Rightarrow> u32 \<Rightarrow> 'p arm_state \<Rightarrow> 'p arm_state" where
  "add_flags lhs rhs res s =
     (let s = set_Z (res = 0) s;
          s = set_N (NEG res \<noteq> 0) s;
          s = set_C (ADDCARRY lhs rhs res) s
      in set_V (ADDOVERFLOW lhs rhs res) s)"

definition sub_flags :: "u32 \<Rightarrow> u32 \<Rightarrow> u32 \<Rightarrow> 'p arm_state \<Rightarrow> 'p arm_state" where
  "sub_flags lhs rhs res s =
     (let s = set_Z (res = 0) s;
          s = set_N (NEG res \<noteq> 0) s;
          s = set_C (SUBCARRY lhs rhs res) s
      in set_V (SUBOVERFLOW lhs rhs res) s)"

text \<open>The three assignments that end every flag-setting logical operation.\<close>

definition logic_flags :: "u32 \<Rightarrow> bool \<Rightarrow> 'p arm_state \<Rightarrow> 'p arm_state" where
  "logic_flags res C_OUT s =
     (let s = set_N (res AND 0x80000000 \<noteq> 0) s;
          s = set_Z (if res \<noteq> 0 then False else True) s
      in set_C C_OUT s)"

subsection \<open>Operation bodies\<close>

definition OP_AND :: "'p nop" where
  "OP_AND opcode dest val C_OUT s = set_reg dest (reg s (fld opcode 16) AND val) s"

definition OP_ANDS :: "'p nop" where
  "OP_ANDS opcode dest val C_OUT s =
     (let s = set_reg dest (reg s (fld opcode 16) AND val) s
      in logic_flags (reg s dest) C_OUT s)"

definition OP_EOR :: "'p nop" where
  "OP_EOR opcode dest val C_OUT s = set_reg dest (reg s (fld opcode 16) XOR val) s"

definition OP_EORS :: "'p nop" where
  "OP_EORS opcode dest val C_OUT s =
     (let s = set_reg dest (reg s (fld opcode 16) XOR val) s
      in logic_flags (reg s dest) C_OUT s)"

definition OP_SUB :: "'p aop" where
  "OP_SUB base dest val s = set_reg dest (reg s base - val) s"

definition OP_SUBS :: "'p aop" where
  "OP_SUBS base dest val s =
     (let lhs = reg s base; rhs = val; res = lhs - rhs
      in sub_flags lhs rhs res (set_reg dest res s))"

definition OP_RSB :: "'p aop" where
  "OP_RSB base dest val s = set_reg dest (val - reg s base) s"

definition OP_RSBS :: "'p aop" where
  "OP_RSBS base dest val s =
     (let lhs = reg s base; rhs = val; res = rhs - lhs
      in sub_flags rhs lhs res (set_reg dest res s))"

definition OP_ADD :: "'p aop" where
  "OP_ADD base dest val s = set_reg dest (reg s base + val) s"

definition OP_ADDS :: "'p aop" where
  "OP_ADDS base dest val s =
     (let lhs = reg s base; rhs = val; res = lhs + rhs
      in add_flags lhs rhs res (set_reg dest res s))"

definition OP_ADC :: "'p aop" where
  "OP_ADC base dest val s = set_reg dest (reg s base + val + of_bool (C_FLAG s)) s"

definition OP_ADCS :: "'p aop" where
  "OP_ADCS base dest val s =
     (let lhs = reg s base; rhs = val; res = lhs + rhs + of_bool (C_FLAG s)
      in add_flags lhs rhs res (set_reg dest res s))"

definition OP_SBC :: "'p aop" where
  "OP_SBC base dest val s = set_reg dest (reg s base - val - of_bool (\<not> C_FLAG s)) s"

definition OP_SBCS :: "'p aop" where
  "OP_SBCS base dest val s =
     (let lhs = reg s base; rhs = val; res = lhs - rhs - of_bool (\<not> C_FLAG s)
      in sub_flags lhs rhs res (set_reg dest res s))"

definition OP_RSC :: "'p aop" where
  "OP_RSC base dest val s = set_reg dest (val - reg s base - of_bool (\<not> C_FLAG s)) s"

definition OP_RSCS :: "'p aop" where
  "OP_RSCS base dest val s =
     (let lhs = reg s base; rhs = val; res = rhs - lhs - of_bool (\<not> C_FLAG s)
      in sub_flags rhs lhs res (set_reg dest res s))"

definition OP_CMP :: "'p aop" where
  "OP_CMP base dest val s =
     (let lhs = reg s base; rhs = val; res = lhs - rhs in sub_flags lhs rhs res s)"

definition OP_CMN :: "'p aop" where
  "OP_CMN base dest val s =
     (let lhs = reg s base; rhs = val; res = lhs + rhs in add_flags lhs rhs res s)"

definition OP_TST :: "'p lop" where
  "OP_TST base dest val C_OUT s = (let res = reg s base AND val in logic_flags res C_OUT s)"

definition OP_TEQ :: "'p lop" where
  "OP_TEQ base dest val C_OUT s = (let res = reg s base XOR val in logic_flags res C_OUT s)"

definition OP_ORR :: "'p lop" where
  "OP_ORR base dest val C_OUT s = set_reg dest (reg s base OR val) s"

definition OP_ORRS :: "'p lop" where
  "OP_ORRS base dest val C_OUT s =
     (let s = set_reg dest (reg s base OR val) s in logic_flags (reg s dest) C_OUT s)"

definition OP_MOV :: "'p nop" where
  "OP_MOV opcode dest val C_OUT s = set_reg dest val s"

definition OP_MOVS :: "'p nop" where
  "OP_MOVS opcode dest val C_OUT s =
     (let s = set_reg dest val s in logic_flags (reg s dest) C_OUT s)"

definition OP_BIC :: "'p lop" where
  "OP_BIC base dest val C_OUT s = set_reg dest (reg s base AND NOT val) s"

definition OP_BICS :: "'p lop" where
  "OP_BICS base dest val C_OUT s =
     (let s = set_reg dest (reg s base AND NOT val) s in logic_flags (reg s dest) C_OUT s)"

definition OP_MVN :: "'p nop" where
  "OP_MVN opcode dest val C_OUT s = set_reg dest (NOT val) s"

definition OP_MVNS :: "'p nop" where
  "OP_MVNS opcode dest val C_OUT s =
     (let s = set_reg dest (NOT val) s in logic_flags (reg s dest) C_OUT s)"

subsection \<open>Shifter macros\<close>

text \<open>
  \<open>ARITHMETIC_ROR_IMM\<close> is reached with a zero rotation, where the source evaluates
  \<open>v << 32\<close>, which C++ leaves undefined: an x86 host yields \<open>v\<close>, an ARM host 0.  The definition
  has \<open>push_bit 32 v = 0\<close>; \<open>ror_imm_zero_host\<close> below shows that the value does not depend
  on the host.
\<close>

definition LOGICAL_LSL_REG :: "u32 \<Rightarrow> nat \<Rightarrow> 'p arm_state \<Rightarrow> u32 \<times> bool" where
  "LOGICAL_LSL_REG opcode shift s =
     (let v = reg s (fld opcode 0)
      in (push_bit shift v, drop_bit (32 - shift) v AND 1 \<noteq> 0))"

definition LOGICAL_LSR_REG :: "u32 \<Rightarrow> nat \<Rightarrow> 'p arm_state \<Rightarrow> u32 \<times> bool" where
  "LOGICAL_LSR_REG opcode shift s =
     (let v = reg s (fld opcode 0)
      in (drop_bit shift v, drop_bit (shift - 1) v AND 1 \<noteq> 0))"

definition LOGICAL_ASR_REG :: "u32 \<Rightarrow> nat \<Rightarrow> 'p arm_state \<Rightarrow> u32 \<times> bool" where
  "LOGICAL_ASR_REG opcode shift s =
     (let v = reg s (fld opcode 0)
      in (signed_drop_bit shift v, signed_drop_bit (shift - 1) v AND 1 \<noteq> 0))"

definition LOGICAL_ROR_REG :: "u32 \<Rightarrow> nat \<Rightarrow> 'p arm_state \<Rightarrow> u32 \<times> bool" where
  "LOGICAL_ROR_REG opcode shift s =
     (let v = reg s (fld opcode 0)
      in (push_bit (32 - shift) v OR drop_bit shift v, drop_bit (shift - 1) v AND 1 \<noteq> 0))"

definition LOGICAL_RRX_REG :: "u32 \<Rightarrow> 'p arm_state \<Rightarrow> u32 \<times> bool" where
  "LOGICAL_RRX_REG opcode s =
     (let v = reg s (fld opcode 0);
          shift = of_bool (C_FLAG s)
      in (drop_bit 1 v OR push_bit 31 shift, v AND 1 \<noteq> 0))"

definition LOGICAL_ROR_IMM :: "u32 \<Rightarrow> nat \<Rightarrow> u32 \<times> bool" where
  "LOGICAL_ROR_IMM opcode shift =
     (let v = opcode AND 0xff
      in (push_bit (32 - shift) v OR drop_bit shift v, drop_bit (shift - 1) v AND 1 \<noteq> 0))"

definition ARITHMETIC_LSL_REG :: "u32 \<Rightarrow> nat \<Rightarrow> 'p arm_state \<Rightarrow> u32" where
  "ARITHMETIC_LSL_REG opcode shift s = push_bit shift (reg s (fld opcode 0))"

definition ARITHMETIC_LSR_REG :: "u32 \<Rightarrow> nat \<Rightarrow> 'p arm_state \<Rightarrow> u32" where
  "ARITHMETIC_LSR_REG opcode shift s = drop_bit shift (reg s (fld opcode 0))"

definition ARITHMETIC_ASR_REG :: "u32 \<Rightarrow> nat \<Rightarrow> 'p arm_state \<Rightarrow> u32" where
  "ARITHMETIC_ASR_REG opcode shift s = signed_drop_bit shift (reg s (fld opcode 0))"

definition ARITHMETIC_ROR_REG :: "u32 \<Rightarrow> nat \<Rightarrow> 'p arm_state \<Rightarrow> u32" where
  "ARITHMETIC_ROR_REG opcode shift s =
     (let v = reg s (fld opcode 0) in push_bit (32 - shift) v OR drop_bit shift v)"

definition ARITHMETIC_RRX_REG :: "u32 \<Rightarrow> 'p arm_state \<Rightarrow> u32" where
  "ARITHMETIC_RRX_REG opcode s =
     (let v = reg s (fld opcode 0);
          shift = of_bool (C_FLAG s)
      in drop_bit 1 v OR push_bit 31 shift)"

definition ARITHMETIC_ROR_IMM :: "u32 \<Rightarrow> nat \<Rightarrow> u32" where
  "ARITHMETIC_ROR_IMM opcode shift =
     (let v = opcode AND 0xff in push_bit (32 - shift) v OR drop_bit shift v)"

definition ROR_IMM_MSR :: "u32 \<Rightarrow> nat \<Rightarrow> u32" where
  "ROR_IMM_MSR opcode shift =
     (let v = opcode AND 0xff in push_bit (32 - shift) v OR drop_bit shift v)"

definition ROR_VALUE :: "u32 \<Rightarrow> nat \<Rightarrow> u32" where
  "ROR_VALUE val shift = push_bit (32 - shift) val OR drop_bit shift val"

definition RCR_VALUE :: "u32 \<Rightarrow> 'p arm_state \<Rightarrow> u32" where
  "RCR_VALUE val s =
     (let shift = of_bool (C_FLAG s) in drop_bit 1 val OR push_bit 31 shift)"

subsection \<open>The case blocks of the three data-opcode macros\<close>

text \<open>The write to the program counter that follows a result in register 15.\<close>

definition flush_pc :: "'p arm_state \<Rightarrow> 'p arm_state" where
  "flush_pc s =
     (let s = set_reg 15 (reg s 15 AND 0xFFFFFFFC) s;
          s = set_reg R15_ARM_NEXT (reg s 15) s
      in set_reg 15 (reg s 15 + 4) s)"

definition data_tail :: "u32 \<Rightarrow> nat \<Rightarrow> ('p arm_state \<Rightarrow> 'p arm_state) \<Rightarrow>
    ('p arm_state \<Rightarrow> 'p arm_state) \<Rightarrow> 'p arm_state \<Rightarrow> 'p arm_state" where
  "data_tail opcode dest OPC OPC2 s =
     (if dest = 15 then
        (let s = OPC2 s;
             s = (if opcode AND 0x00100000 \<noteq> 0
                  then (let s = add_ticks 1 s in CPUSwitchMode (reg s 17 AND 0x1f) False s)
                  else s)
         in flush_pc s)
      else OPC s)"

definition LOGICAL_LSL_imm :: "'p lop \<Rightarrow> 'p lop \<Rightarrow> 'p arm_op" where
  "LOGICAL_LSL_imm OPC OPC2 b opcode s =
     (let base = fld opcode 16;
          shift = imm5 opcode;
          dest = fld opcode 12;
          C_OUT = C_FLAG s;
          (value, C_OUT) = (if shift \<noteq> 0 then LOGICAL_LSL_REG opcode shift s
             else (reg s (fld opcode 0), C_OUT))
      in data_tail opcode dest (OPC base dest value C_OUT) (OPC2 base dest value C_OUT) s)"

definition LOGICAL_LSR_imm :: "'p lop \<Rightarrow> 'p lop \<Rightarrow> 'p arm_op" where
  "LOGICAL_LSR_imm OPC OPC2 b opcode s =
     (let base = fld opcode 16;
          shift = imm5 opcode;
          dest = fld opcode 12;
          C_OUT = C_FLAG s;
          (value, C_OUT) = (if shift \<noteq> 0 then LOGICAL_LSR_REG opcode shift s
             else (0, reg s (fld opcode 0) AND 0x80000000 \<noteq> 0))
      in data_tail opcode dest (OPC base dest value C_OUT) (OPC2 base dest value C_OUT) s)"

definition LOGICAL_ASR_imm :: "'p lop \<Rightarrow> 'p lop \<Rightarrow> 'p arm_op" where
  "LOGICAL_ASR_imm OPC OPC2 b opcode s =
     (let base = fld opcode 16;
          shift = imm5 opcode;
          dest = fld opcode 12;
          C_OUT = C_FLAG s;
          (value, C_OUT) = (if shift \<noteq> 0 then LOGICAL_ASR_REG opcode shift s
             else if reg s (fld opcode 0) AND 0x80000000 \<noteq> 0 then (0xFFFFFFFF, True) else (0, False))
      in data_tail opcode dest (OPC base dest value C_OUT) (OPC2 base dest value C_OUT) s)"

definition LOGICAL_ROR_imm :: "'p lop \<Rightarrow> 'p lop \<Rightarrow> 'p arm_op" where
  "LOGICAL_ROR_imm OPC OPC2 b opcode s =
     (let base = fld opcode 16;
          shift = imm5 opcode;
          dest = fld opcode 12;
          C_OUT = C_FLAG s;
          (value, C_OUT) = (if shift \<noteq> 0 then LOGICAL_ROR_REG opcode shift s
             else LOGICAL_RRX_REG opcode s)
      in data_tail opcode dest (OPC base dest value C_OUT) (OPC2 base dest value C_OUT) s)"

definition LOGICAL_LSL_Rs :: "'p lop \<Rightarrow> 'p lop \<Rightarrow> 'p arm_op" where
  "LOGICAL_LSL_Rs OPC OPC2 b opcode s =
     (let s = add_ticks 1 s;
          base = fld opcode 16;
          shift = unat (reg s (fld opcode 8) AND 0xFF);
          s = set_reg 15 (reg s 15 + 4) s;
          dest = fld opcode 12;
          C_OUT = C_FLAG s;
          (value, C_OUT) = (if shift \<noteq> 0 then
               (if shift = 32 then (0, reg s (fld opcode 0) AND 1 \<noteq> 0)
                else if shift < 32 then LOGICAL_LSL_REG opcode shift s
                else (0, False))
             else (reg s (fld opcode 0), C_OUT))
      in data_tail opcode dest (OPC base dest value C_OUT) (OPC2 base dest value C_OUT) s)"

definition LOGICAL_LSR_Rs :: "'p lop \<Rightarrow> 'p lop \<Rightarrow> 'p arm_op" where
  "LOGICAL_LSR_Rs OPC OPC2 b opcode s =
     (let s = add_ticks 1 s;
          base = fld opcode 16;
          shift = unat (reg s (fld opcode 8) AND 0xFF);
          s = set_reg 15 (reg s 15 + 4) s;
          dest = fld opcode 12;
          C_OUT = C_FLAG s;
          (value, C_OUT) = (if shift \<noteq> 0 then
               (if shift = 32 then (0, reg s (fld opcode 0) AND 0x80000000 \<noteq> 0)
                else if shift < 32 then LOGICAL_LSR_REG opcode shift s
                else (0, False))
             else (reg s (fld opcode 0), C_OUT))
      in data_tail opcode dest (OPC base dest value C_OUT) (OPC2 base dest value C_OUT) s)"

definition LOGICAL_ASR_Rs :: "'p lop \<Rightarrow> 'p lop \<Rightarrow> 'p arm_op" where
  "LOGICAL_ASR_Rs OPC OPC2 b opcode s =
     (let s = add_ticks 1 s;
          base = fld opcode 16;
          shift = unat (reg s (fld opcode 8) AND 0xFF);
          s = set_reg 15 (reg s 15 + 4) s;
          dest = fld opcode 12;
          C_OUT = C_FLAG s;
          (value, C_OUT) = (if shift < 32 then
               (if shift \<noteq> 0 then LOGICAL_ASR_REG opcode shift s else (reg s (fld opcode 0), C_OUT))
             else if reg s (fld opcode 0) AND 0x80000000 \<noteq> 0 then (0xFFFFFFFF, True) else (0, False))
      in data_tail opcode dest (OPC base dest value C_OUT) (OPC2 base dest value C_OUT) s)"

definition LOGICAL_ROR_Rs :: "'p lop \<Rightarrow> 'p lop \<Rightarrow> 'p arm_op" where
  "LOGICAL_ROR_Rs OPC OPC2 b opcode s =
     (let s = add_ticks 1 s;
          base = fld opcode 16;
          shift = unat (reg s (fld opcode 8) AND 0xFF);
          s = set_reg 15 (reg s 15 + 4) s;
          dest = fld opcode 12;
          C_OUT = C_FLAG s;
          (value, C_OUT) = (if shift \<noteq> 0 then
               (let shift = shift mod 32 in
                if shift \<noteq> 0 then LOGICAL_ROR_REG opcode shift s
                else (reg s (fld opcode 0), reg s (fld opcode 0) AND 0x80000000 \<noteq> 0))
             else (reg s (fld opcode 0), reg s (fld opcode 0) AND 0x80000000 \<noteq> 0))
      in data_tail opcode dest (OPC base dest value C_OUT) (OPC2 base dest value C_OUT) s)"

definition LOGICAL_IMM :: "'p lop \<Rightarrow> 'p lop \<Rightarrow> 'p arm_op" where
  "LOGICAL_IMM OPC OPC2 b opcode s =
     (let shift = unat (drop_bit 7 (opcode AND 0xF00));
          base = fld opcode 16;
          dest = fld opcode 12;
          C_OUT = C_FLAG s;
          (value, C_OUT) = (if shift \<noteq> 0 then LOGICAL_ROR_IMM opcode shift else (opcode AND 0xff, C_OUT))
      in data_tail opcode dest (OPC base dest value C_OUT) (OPC2 base dest value C_OUT) s)"

definition LOGICAL_nobase_LSL_imm :: "'p nop \<Rightarrow> 'p nop \<Rightarrow> 'p arm_op" where
  "LOGICAL_nobase_LSL_imm OPC OPC2 b opcode s =
     (let shift = imm5 opcode;
          dest = fld opcode 12;
          C_OUT = C_FLAG s;
          (value, C_OUT) = (if shift \<noteq> 0 then LOGICAL_LSL_REG opcode shift s
             else (reg s (fld opcode 0), C_OUT))
      in data_tail opcode dest (OPC opcode dest value C_OUT) (OPC2 opcode dest value C_OUT) s)"

definition LOGICAL_nobase_LSR_imm :: "'p nop \<Rightarrow> 'p nop \<Rightarrow> 'p arm_op" where
  "LOGICAL_nobase_LSR_imm OPC OPC2 b opcode s =
     (let shift = imm5 opcode;
          dest = fld opcode 12;
          C_OUT = C_FLAG s;
          (value, C_OUT) = (if shift \<noteq> 0 then LOGICAL_LSR_REG opcode shift s
             else (0, reg s (fld opcode 0) AND 0x80000000 \<noteq> 0))
      in data_tail opcode dest (OPC opcode dest value C_OUT) (OPC2 opcode dest value C_OUT) s)"

definition LOGICAL_nobase_ASR_imm :: "'p nop \<Rightarrow> 'p nop \<Rightarrow> 'p arm_op" where
  "LOGICAL_nobase_ASR_imm OPC OPC2 b opcode s =
     (let shift = imm5 opcode;
          dest = fld opcode 12;
          C_OUT = C_FLAG s;
          (value, C_OUT) = (if shift \<noteq> 0 then LOGICAL_ASR_REG opcode shift s
             else if reg s (fld opcode 0) AND 0x80000000 \<noteq> 0 then (0xFFFFFFFF, True) else (0, False))
      in data_tail opcode dest (OPC opcode dest value C_OUT) (OPC2 opcode dest value C_OUT) s)"

definition LOGICAL_nobase_ROR_imm :: "'p nop \<Rightarrow> 'p nop \<Rightarrow> 'p arm_op" where
  "LOGICAL_nobase_ROR_imm OPC OPC2 b opcode s =
     (let shift = imm5 opcode;
          dest = fld opcode 12;
          C_OUT = C_FLAG s;
          (value, C_OUT) = (if shift \<noteq> 0 then LOGICAL_ROR_REG opcode shift s
             else LOGICAL_RRX_REG opcode s)
      in data_tail opcode dest (OPC opcode dest value C_OUT) (OPC2 opcode dest value C_OUT) s)"

definition LOGICAL_nobase_LSL_Rs :: "'p nop \<Rightarrow> 'p nop \<Rightarrow> 'p arm_op" where
  "LOGICAL_nobase_LSL_Rs OPC OPC2 b opcode s =
     (let s = add_ticks 1 s;
          shift = unat (reg s (fld opcode 8) AND 0xFF);
          s = set_reg 15 (reg s 15 + 4) s;
          dest = fld opcode 12;
          C_OUT = C_FLAG s;
          (value, C_OUT) = (if shift \<noteq> 0 then
               (if shift = 32 then (0, reg s (fld opcode 0) AND 1 \<noteq> 0)
                else if shift < 32 then LOGICAL_LSL_REG opcode shift s
                else (0, False))
             else (reg s (fld opcode 0), C_OUT))
      in data_tail opcode dest (OPC opcode dest value C_OUT) (OPC2 opcode dest value C_OUT) s)"

definition LOGICAL_nobase_LSR_Rs :: "'p nop \<Rightarrow> 'p nop \<Rightarrow> 'p arm_op" where
  "LOGICAL_nobase_LSR_Rs OPC OPC2 b opcode s =
     (let s = add_ticks 1 s;
          shift = unat (reg s (fld opcode 8) AND 0xFF);
          s = set_reg 15 (reg s 15 + 4) s;
          dest = fld opcode 12;
          C_OUT = C_FLAG s;
          (value, C_OUT) = (if shift \<noteq> 0 then
               (if shift = 32 then (0, reg s (fld opcode 0) AND 0x80000000 \<noteq> 0)
                else if shift < 32 then LOGICAL_LSR_REG opcode shift s
                else (0, False))
             else (reg s (fld opcode 0), C_OUT))
      in data_tail opcode dest (OPC opcode dest value C_OUT) (OPC2 opcode dest value C_OUT) s)"

definition LOGICAL_nobase_ASR_Rs :: "'p nop \<Rightarrow> 'p nop \<Rightarrow> 'p arm_op" where
  "LOGICAL_nobase_ASR_Rs OPC OPC2 b opcode s =
     (let s = add_ticks 1 s;
          shift = unat (reg s (fld opcode 8) AND 0xFF);
          s = set_reg 15 (reg s 15 + 4) s;
          dest = fld opcode 12;
          C_OUT = C_FLAG s;
          (value, C_OUT) = (if shift < 32 then
               (if shift \<noteq> 0 then LOGICAL_ASR_REG opcode shift s else (reg s (fld opcode 0), C_OUT))
             else if reg s (fld opcode 0) AND 0x80000000 \<noteq> 0 then (0xFFFFFFFF, True) else (0, False))
      in data_tail opcode dest (OPC opcode dest value C_OUT) (OPC2 opcode dest value C_OUT) s)"

definition LOGICAL_nobase_ROR_Rs :: "'p nop \<Rightarrow> 'p nop \<Rightarrow> 'p arm_op" where
  "LOGICAL_nobase_ROR_Rs OPC OPC2 b opcode s =
     (let s = add_ticks 1 s;
          shift = unat (reg s (fld opcode 8) AND 0xFF);
          s = set_reg 15 (reg s 15 + 4) s;
          dest = fld opcode 12;
          C_OUT = C_FLAG s;
          (value, C_OUT) = (if shift \<noteq> 0 then
               (let shift = shift mod 32 in
                if shift \<noteq> 0 then LOGICAL_ROR_REG opcode shift s
                else (reg s (fld opcode 0), reg s (fld opcode 0) AND 0x80000000 \<noteq> 0))
             else (reg s (fld opcode 0), reg s (fld opcode 0) AND 0x80000000 \<noteq> 0))
      in data_tail opcode dest (OPC opcode dest value C_OUT) (OPC2 opcode dest value C_OUT) s)"

definition LOGICAL_nobase_IMM :: "'p nop \<Rightarrow> 'p nop \<Rightarrow> 'p arm_op" where
  "LOGICAL_nobase_IMM OPC OPC2 b opcode s =
     (let shift = unat (drop_bit 7 (opcode AND 0xF00));
          dest = fld opcode 12;
          C_OUT = C_FLAG s;
          (value, C_OUT) = (if shift \<noteq> 0 then LOGICAL_ROR_IMM opcode shift else (opcode AND 0xff, C_OUT))
      in data_tail opcode dest (OPC opcode dest value C_OUT) (OPC2 opcode dest value C_OUT) s)"

definition ARITHMETIC_LSL_imm :: "'p aop \<Rightarrow> 'p aop \<Rightarrow> 'p arm_op" where
  "ARITHMETIC_LSL_imm OPC OPC2 b opcode s =
     (let base = fld opcode 16;
          shift = imm5 opcode;
          dest = fld opcode 12;
          value = (if shift \<noteq> 0 then ARITHMETIC_LSL_REG opcode shift s else reg s (fld opcode 0))
      in data_tail opcode dest (OPC base dest value) (OPC2 base dest value) s)"

definition ARITHMETIC_LSR_imm :: "'p aop \<Rightarrow> 'p aop \<Rightarrow> 'p arm_op" where
  "ARITHMETIC_LSR_imm OPC OPC2 b opcode s =
     (let base = fld opcode 16;
          shift = imm5 opcode;
          dest = fld opcode 12;
          value = (if shift \<noteq> 0 then ARITHMETIC_LSR_REG opcode shift s else 0)
      in data_tail opcode dest (OPC base dest value) (OPC2 base dest value) s)"

definition ARITHMETIC_ASR_imm :: "'p aop \<Rightarrow> 'p aop \<Rightarrow> 'p arm_op" where
  "ARITHMETIC_ASR_imm OPC OPC2 b opcode s =
     (let base = fld opcode 16;
          shift = imm5 opcode;
          dest = fld opcode 12;
          value = (if shift \<noteq> 0 then ARITHMETIC_ASR_REG opcode shift s
             else if reg s (fld opcode 0) AND 0x80000000 \<noteq> 0 then 0xFFFFFFFF else 0)
      in data_tail opcode dest (OPC base dest value) (OPC2 base dest value) s)"

definition ARITHMETIC_ROR_imm :: "'p aop \<Rightarrow> 'p aop \<Rightarrow> 'p arm_op" where
  "ARITHMETIC_ROR_imm OPC OPC2 b opcode s =
     (let base = fld opcode 16;
          shift = imm5 opcode;
          dest = fld opcode 12;
          value = (if shift \<noteq> 0 then ARITHMETIC_ROR_REG opcode shift s
             else ARITHMETIC_RRX_REG opcode s)
      in data_tail opcode dest (OPC base dest value) (OPC2 base dest value) s)"

definition ARITHMETIC_LSL_Rs :: "'p aop \<Rightarrow> 'p aop \<Rightarrow> 'p arm_op" where
  "ARITHMETIC_LSL_Rs OPC OPC2 b opcode s =
     (let s = add_ticks 1 s;
          base = fld opcode 16;
          shift = unat (reg s (fld opcode 8) AND 0xFF);
          s = set_reg 15 (reg s 15 + 4) s;
          dest = fld opcode 12;
          value = (if shift \<noteq> 0 then
               (if shift = 32 then 0
                else if shift < 32 then ARITHMETIC_LSL_REG opcode shift s else 0)
             else reg s (fld opcode 0))
      in data_tail opcode dest (OPC base dest value) (OPC2 base dest value) s)"

definition ARITHMETIC_LSR_Rs :: "'p aop \<Rightarrow> 'p aop \<Rightarrow> 'p arm_op" where
  "ARITHMETIC_LSR_Rs OPC OPC2 b opcode s =
     (let s = add_ticks 1 s;
          base = fld opcode 16;
          shift = unat (reg s (fld opcode 8) AND 0xFF);
          s = set_reg 15 (reg s 15 + 4) s;
          dest = fld opcode 12;
          value = (if shift \<noteq> 0 then
               (if shift = 32 then 0
                else if shift < 32 then ARITHMETIC_LSR_REG opcode shift s else 0)
             else reg s (fld opcode 0))
      in data_tail opcode dest (OPC base dest value) (OPC2 base dest value) s)"

definition ARITHMETIC_ASR_Rs :: "'p aop \<Rightarrow> 'p aop \<Rightarrow> 'p arm_op" where
  "ARITHMETIC_ASR_Rs OPC OPC2 b opcode s =
     (let s = add_ticks 1 s;
          base = fld opcode 16;
          shift = unat (reg s (fld opcode 8) AND 0xFF);
          s = set_reg 15 (reg s 15 + 4) s;
          dest = fld opcode 12;
          value = (if shift < 32 then
               (if shift \<noteq> 0 then ARITHMETIC_ASR_REG opcode shift s else reg s (fld opcode 0))
             else if reg s (fld opcode 0) AND 0x80000000 \<noteq> 0 then 0xFFFFFFFF else 0)
      in data_tail opcode dest (OPC base dest value) (OPC2 base dest value) s)"

definition ARITHMETIC_ROR_Rs :: "'p aop \<Rightarrow> 'p aop \<Rightarrow> 'p arm_op" where
  "ARITHMETIC_ROR_Rs OPC OPC2 b opcode s =
     (let s = add_ticks 1 s;
          base = fld opcode 16;
          shift = unat (reg s (fld opcode 8) AND 0xFF);
          s = set_reg 15 (reg s 15 + 4) s;
          dest = fld opcode 12;
          value = (if shift \<noteq> 0 then
               (let shift = shift mod 32 in
                if shift \<noteq> 0 then ARITHMETIC_ROR_REG opcode shift s else reg s (fld opcode 0))
             else reg s (fld opcode 0))
      in data_tail opcode dest (OPC base dest value) (OPC2 base dest value) s)"

definition ARITHMETIC_IMM :: "'p aop \<Rightarrow> 'p aop \<Rightarrow> 'p arm_op" where
  "ARITHMETIC_IMM OPC OPC2 b opcode s =
     (let shift = unat (drop_bit 7 (opcode AND 0xF00));
          base = fld opcode 16;
          dest = fld opcode 12;
          value = ARITHMETIC_ROR_IMM opcode shift
      in data_tail opcode dest (OPC base dest value) (OPC2 base dest value) s)"

end
