(* ===== verification/Arm7_Modes.thy ===== *)
theory Arm7_Modes
  imports Arm7_State
begin

unbundle bit_operations_syntax

section \<open>Mode switches as a banked register file\<close>

text \<open>
  The contract of \<open>CPUSwitchMode\<close> in \<^verbatim>\<open>core/hw/arm7/arm7.cpp\<close>: the architecture gives every
  mode its own view of \<open>R8\<close> to \<open>R14\<close> and of the saved status register; the code keeps the
  current view in \<open>reg[8..14]\<close>, \<open>reg[17]\<close> and the others in the slots of \<open>arm_Reg\<close>, and moves them on
  a switch.  \<open>phys\<close> is the abstract register file; the lemmas show that a switch never changes it,
  what becomes of the status bits, and that an exception entry is undone by the matching return.
\<close>

subsection \<open>The abstract register file\<close>

definition valid_mode :: "u32 \<Rightarrow> bool" where
  "valid_mode m \<longleftrightarrow> m \<in> set [0x10, 0x11, 0x12, 0x13, 0x17, 0x1b, 0x1f]"

definition user_mode :: "u32 \<Rightarrow> bool" where
  "user_mode m \<longleftrightarrow> m = 0x10 \<or> m = 0x1f"

text \<open>Where a mode keeps \<open>R13\<close> while another mode runs; \<open>R14\<close> follows it, then the \<open>SPSR\<close>.\<close>

definition bank13 :: "u32 \<Rightarrow> nat" where
  "bank13 m = (if m = 0x11 then 42 else if m = 0x12 then 18 else if m = 0x13 then 28
     else if m = 0x17 then 31 else if m = 0x1b then 34 else 26)"

definition same_bank :: "u32 \<Rightarrow> u32 \<Rightarrow> bool" where
  "same_bank m n \<longleftrightarrow> m = n \<or> user_mode m \<and> user_mode n"

definition phys :: "'p arm_state \<Rightarrow> u32 \<Rightarrow> nat \<Rightarrow> u32" where
  "phys s m r =
     (if r = 13 \<or> r = 14 then (if same_bank (armMode s) m then reg s r else reg s (bank13 m + (r - 13)))
      else if 8 \<le> r \<and> r \<le> 12 then (if (armMode s = 0x11) = (m = 0x11) then reg s r else reg s (r + 29))
      else reg s r)"

definition phys_spsr :: "'p arm_state \<Rightarrow> u32 \<Rightarrow> u32" where
  "phys_spsr s m = (if armMode s = m then reg s 17 else reg s (bank13 m + 2))"

text \<open>The same file when every mode's registers are in their slots, between the two \<open>switch\<close>es.\<close>

definition stored :: "'p arm_state \<Rightarrow> u32 \<Rightarrow> nat \<Rightarrow> u32" where
  "stored s m r =
     (if r = 13 \<or> r = 14 then reg s (bank13 m + (r - 13))
      else if 8 \<le> r \<and> r \<le> 12 then (if m = 0x11 then reg s (r + 29) else reg s r)
      else reg s r)"

lemma valid_mode_cases:
  assumes "valid_mode m"
  obtains "m = 0x10" | "m = 0x11" | "m = 0x12" | "m = 0x13" | "m = 0x17" | "m = 0x1b" | "m = 0x1f"
  using assms unfolding valid_mode_def by auto

lemma visible_cases:
  fixes r :: nat
  assumes "r \<le> 15"
  obtains "r < 8" | "r = 8" | "r = 9" | "r = 10" | "r = 11" | "r = 12" | "r = 13" | "r = 14" | "r = 15"
  using assms by linarith

lemmas bank_moves = mov_reg_def CPUSwap_def Let_def bank13_def same_bank_def user_mode_def

lemma save_bank_stored:
  assumes "valid_mode (armMode s)" "valid_mode m" "r \<le> 15"
  shows "stored (save_bank s) m r = phys s m r"
  using assms(1)
proof (cases rule: valid_mode_cases)
  case 2
  then show ?thesis
    by (cases rule: visible_cases [OF assms(3)]) (auto simp: stored_def phys_def save_bank_def bank_moves)
qed (use assms(2,3) in \<open>auto simp: stored_def phys_def save_bank_def bank_moves valid_mode_def\<close>)

lemma load_bank_phys:
  assumes "valid_mode mode" "valid_mode m" "r \<le> 15"
  shows "phys ((load_bank mode sv c sp s)\<lparr>armMode := mode\<rparr>) m r = stored s m r"
  using assms(1)
proof (cases rule: valid_mode_cases)
  case 2
  then show ?thesis
    by (cases rule: visible_cases [OF assms(3)]) (auto simp: stored_def phys_def load_bank_def bank_moves)
qed (use assms(2,3) in \<open>auto simp: stored_def phys_def load_bank_def load_priv_def bank_moves valid_mode_def\<close>)


text \<open>The saved status registers of the privileged modes move with their bank.\<close>

lemma save_bank_spsr:
  assumes "valid_mode (armMode s)" "valid_mode m" "\<not> user_mode m"
  shows "reg (save_bank s) (bank13 m + 2) = phys_spsr s m"
  using assms(1)
  by (cases rule: valid_mode_cases)
    (use assms(2,3) in \<open>auto simp: phys_spsr_def save_bank_def bank_moves valid_mode_def\<close>)

lemma load_bank_spsr:
  assumes "valid_mode mode" "valid_mode m" "\<not> user_mode m"
  shows "phys_spsr ((load_bank mode sv c sp s)\<lparr>armMode := mode\<rparr>) m =
    (if m = mode \<and> sv then c else reg s (bank13 m + 2))"
  using assms(1)
  by (cases rule: valid_mode_cases)
    (use assms(2,3) in \<open>auto simp: phys_spsr_def load_bank_def load_priv_def bank_moves valid_mode_def\<close>)

lemma save_bank_frame [simp]:
  "armMode (save_bank s) = armMode s" "armIrqEnable (save_bank s) = armIrqEnable s"
  "armFiqEnable (save_bank s) = armFiqEnable s" "e68k_out (save_bank s) = e68k_out s"
  "Arm7Enabled (save_bank s) = Arm7Enabled s" "aica_ram (save_bank s) = aica_ram s"
  "arm7ClockTicks (save_bank s) = arm7ClockTicks s" "periph (save_bank s) = periph s"
  "reg (save_bank s) 16 = reg s 16" "reg (save_bank s) 45 = reg s 45"
  "reg (save_bank s) 46 = reg s 46" "reg (save_bank s) 47 = reg s 47"
  by (simp_all add: save_bank_def bank_moves)

lemma save_bank_17: "reg (save_bank s) 17 = (if user_mode (armMode s) then reg s 16 else reg s 17)"
  by (auto simp: save_bank_def bank_moves)

lemma load_bank_frame [simp]:
  "armMode (load_bank m sv c sp s) = armMode s" "armIrqEnable (load_bank m sv c sp s) = armIrqEnable s"
  "armFiqEnable (load_bank m sv c sp s) = armFiqEnable s" "e68k_out (load_bank m sv c sp s) = e68k_out s"
  "aica_ram (load_bank m sv c sp s) = aica_ram s"
  "arm7ClockTicks (load_bank m sv c sp s) = arm7ClockTicks s" "periph (load_bank m sv c sp s) = periph s"
  "reg (load_bank m sv c sp s) 45 = reg s 45"
  "reg (load_bank m sv c sp s) 46 = reg s 46" "reg (load_bank m sv c sp s) 47 = reg s 47"
  "valid_mode m \<Longrightarrow> Arm7Enabled (load_bank m sv c sp s) = Arm7Enabled s"
  by (auto simp: load_bank_def load_priv_def bank_moves valid_mode_def)

lemma load_bank_16:
  "valid_mode m \<Longrightarrow> reg (load_bank m sv c sp s) 16 = (if m = 0x11 then reg s 16 else sp)"
  by (auto simp: load_bank_def load_priv_def bank_moves valid_mode_def)

subsection \<open>Status bits\<close>

lemma update_cpsr_frame [simp]:
  "i \<noteq> 16 \<Longrightarrow> reg (CPUUpdateCPSR s) i = reg s i"
  "armMode (CPUUpdateCPSR s) = armMode s" "armIrqEnable (CPUUpdateCPSR s) = armIrqEnable s"
  "armFiqEnable (CPUUpdateCPSR s) = armFiqEnable s" "e68k_out (CPUUpdateCPSR s) = e68k_out s"
  "Arm7Enabled (CPUUpdateCPSR s) = Arm7Enabled s" "aica_ram (CPUUpdateCPSR s) = aica_ram s"
  "arm7ClockTicks (CPUUpdateCPSR s) = arm7ClockTicks s" "periph (CPUUpdateCPSR s) = periph s"
  by (simp_all add: CPUUpdateCPSR_def Let_def)

text \<open>The status word \<open>CPUUpdateCPSR\<close> assembles, bit by bit.\<close>

lemma cpsr_bits:
  assumes "k < 32"
  shows "bit (reg (CPUUpdateCPSR s) 16) k =
    (if 28 \<le> k then bit (reg s 45) k
     else if k = 7 then \<not> armIrqEnable s
     else if k = 6 then bit (reg s 16) 6 \<or> \<not> armFiqEnable s
     else k < 5 \<and> bit (armMode s) k)"
  using assms unfolding CPUUpdateCPSR_def Let_def
  by (auto simp: bit_simps word_bits simp del: bit_numeral_word_iff)

lemma cpsr_mode:
  assumes "valid_mode (armMode s)"
  shows "reg (CPUUpdateCPSR s) 16 AND 0x1f = armMode s"
proof (rule bit_word_eqI)
  fix k assume "k < LENGTH(32)"
  moreover have eq: "armMode s AND 0x1f = armMode s"
    using assms by (cases rule: valid_mode_cases) simp_all
  have "bit (armMode s) k \<Longrightarrow> k < 5"
    using bit_and_iff [of "armMode s" "0x1f" k] unfolding eq word_bits by blast
  ultimately show "bit (reg (CPUUpdateCPSR s) 16 AND 0x1f) k = bit (armMode s) k"
    by (auto simp: bit_and_iff word_bits cpsr_bits simp del: bit_numeral_word_iff)
qed

lemma update_flags_frame [simp]:
  "i \<noteq> 45 \<Longrightarrow> i \<noteq> 47 \<Longrightarrow> reg (CPUUpdateFlags s) i = reg s i"
  "armMode (CPUUpdateFlags s) = armMode s" "e68k_out (CPUUpdateFlags s) = e68k_out s"
  "Arm7Enabled (CPUUpdateFlags s) = Arm7Enabled s" "aica_ram (CPUUpdateFlags s) = aica_ram s"
  "arm7ClockTicks (CPUUpdateFlags s) = arm7ClockTicks s" "periph (CPUUpdateFlags s) = periph s"
  "armIrqEnable (CPUUpdateFlags s) = (\<not> bit (reg s 16) 7)"
  "armFiqEnable (CPUUpdateFlags s) = (\<not> bit (reg s 16) 6)"
  "reg (CPUUpdateFlags s) 47 = of_bool (e68k_out s \<and> \<not> bit (reg s 16) 6)"
  by (simp_all add: CPUUpdateFlags_def Let_def update_armintc_def and_bit_6 and_bit_7)

lemma update_flags_45:
  "k < 32 \<Longrightarrow> bit (reg (CPUUpdateFlags s) 45) k = (if 28 \<le> k then bit (reg s 16) k else bit (reg s 45) k)"
  by (auto simp: CPUUpdateFlags_def Let_def update_armintc_def bit_simps word_bits simp del: bit_numeral_word_iff)

lemma phys_status [simp]:
  "r \<le> 15 \<Longrightarrow> phys (CPUUpdateCPSR s) m r = phys s m r"
  "r \<le> 15 \<Longrightarrow> phys (CPUUpdateFlags s) m r = phys s m r"
  by (auto simp: phys_def bank13_def)

lemma phys_spsr_status [simp]:
  "phys_spsr (CPUUpdateCPSR s) m = phys_spsr s m" "phys_spsr (CPUUpdateFlags s) m = phys_spsr s m"
  by (auto simp: phys_spsr_def bank13_def)

subsection \<open>The contract of a mode switch\<close>

lemma switch_unfold:
  "CPUSwitchMode mode sv s =
     (let c = CPUUpdateCPSR s; t = save_bank c
      in CPUUpdateCPSR (CPUUpdateFlags ((load_bank mode sv (reg c 16) (reg t 17) t)\<lparr>armMode := mode\<rparr>)))"
  by (simp add: CPUSwitchMode_def Let_def)

lemma switch_phys:
  assumes "valid_mode (armMode s)" "valid_mode mode" "valid_mode m" "r \<le> 15"
  shows "phys (CPUSwitchMode mode sv s) m r = phys s m r"
  using assms by (simp add: switch_unfold Let_def load_bank_phys save_bank_stored)

lemma switch_spsr:
  assumes "valid_mode (armMode s)" "valid_mode mode" "valid_mode m" "\<not> user_mode m"
  shows "phys_spsr (CPUSwitchMode mode sv s) m =
    (if m = mode \<and> sv then reg (CPUUpdateCPSR s) 16 else phys_spsr s m)"
  using assms by (simp add: switch_unfold Let_def load_bank_spsr save_bank_spsr del: add_2_eq_Suc')

text \<open>The status word whose flags and masks are in force after the switch.\<close>

definition switch_source :: "u32 \<Rightarrow> 'p arm_state \<Rightarrow> u32" where
  "switch_source mode s =
     (if mode = 0x11 \<or> user_mode (armMode s) then reg (CPUUpdateCPSR s) 16 else reg s 17)"

lemma switch_status:
  assumes "valid_mode mode"
  shows "armMode (CPUSwitchMode mode sv s) = mode"
    "armIrqEnable (CPUSwitchMode mode sv s) = (\<not> bit (switch_source mode s) 7)"
    "armFiqEnable (CPUSwitchMode mode sv s) = (\<not> bit (switch_source mode s) 6)"
    "k < 32 \<Longrightarrow> bit (reg (CPUSwitchMode mode sv s) 45) k =
      (if 28 \<le> k then bit (switch_source mode s) k else bit (reg s 45) k)"
    "Arm7Enabled (CPUSwitchMode mode sv s) = Arm7Enabled s"
    "reg (CPUSwitchMode mode sv s) 46 = reg s 46"
  using assms
  by (simp_all add: switch_unfold Let_def update_flags_45 load_bank_16 save_bank_17 switch_source_def)

lemma phys_set_46 [simp]: "r \<le> 15 \<Longrightarrow> phys (set_reg 46 v s) m r = phys s m r"
  by (auto simp: phys_def bank13_def)

lemma phys_set_47 [simp]: "r \<le> 15 \<Longrightarrow> phys (set_reg 47 v s) m r = phys s m r"
  by (auto simp: phys_def bank13_def)

lemma phys_enables [simp]:
  "phys (s\<lparr>armIrqEnable := b\<rparr>) m r = phys s m r" "phys (s\<lparr>armFiqEnable := b\<rparr>) m r = phys s m r"
  "phys_spsr (s\<lparr>armIrqEnable := b\<rparr>) m = phys_spsr s m" "phys_spsr (s\<lparr>armFiqEnable := b\<rparr>) m = phys_spsr s m"
  by (simp_all add: phys_def phys_spsr_def)

lemma phys_set_14:
  "valid_mode m \<Longrightarrow> valid_mode (armMode s) \<Longrightarrow> r \<le> 15 \<Longrightarrow>
    phys (set_reg 14 v s) m r = (if r = 14 \<and> same_bank (armMode s) m then v else phys s m r)"
  by (auto simp: phys_def bank13_def same_bank_def)

lemma spsr_set_reg [simp]: "i < 16 \<or> 44 < i \<Longrightarrow> phys_spsr (set_reg i v s) m = phys_spsr s m"
  by (auto simp: phys_spsr_def bank13_def)

subsection \<open>Exception entry and return\<close>

text \<open>What an exception does: the mode, its link register and saved status, the vector, the IRQ mask.\<close>

definition entered :: "u32 \<Rightarrow> u32 \<Rightarrow> 'p arm_state \<Rightarrow> 'p arm_state \<Rightarrow> bool" where
  "entered mode vector s t \<longleftrightarrow>
     armMode t = mode \<and> armNextPC t = vector \<and> \<not> armIrqEnable t
     \<and> reg t 14 = armNextPC s + 4 \<and> reg t 17 = reg (CPUUpdateCPSR s) 16
     \<and> (\<forall>m r. valid_mode m \<longrightarrow> r \<le> 15 \<longrightarrow> \<not> (m = mode \<and> r = 14) \<longrightarrow> phys t m r = phys s m r)
     \<and> (\<forall>m. valid_mode m \<longrightarrow> \<not> user_mode m \<longrightarrow> m \<noteq> mode \<longrightarrow> phys_spsr t m = phys_spsr s m)"

lemma same_bank_priv: "\<not> user_mode m \<Longrightarrow> same_bank m n \<longleftrightarrow> m = n"
  by (auto simp: same_bank_def)

lemma switch_reg17:
  assumes "valid_mode (armMode s)" "valid_mode mode" "\<not> user_mode mode"
  shows "reg (CPUSwitchMode mode sv s) 17 = (if sv then reg (CPUUpdateCPSR s) 16 else phys_spsr s mode)"
  using switch_spsr [OF assms(1,2,2,3), of sv] assms(2)
  by (auto simp: phys_spsr_def switch_status split: if_splits)

lemma entered_switch:
  assumes "valid_mode (armMode s)" "valid_mode mode" "\<not> user_mode mode"
    and t: "t = set_reg 46 vector (set_reg 14 (armNextPC s + 4) (CPUSwitchMode mode True s)\<lparr>armIrqEnable := False\<rparr>)"
  shows "entered mode vector s t"
  using assms
  by (auto simp: entered_def switch_status switch_reg17 phys_set_14 same_bank_priv switch_phys switch_spsr)


text \<open>The register that decides the flags and masks of a return.\<close>

lemma return_status:
  assumes "valid_mode (armMode s)" "armMode s \<noteq> 0x11" "armFiqEnable s \<longrightarrow> \<not> bit (reg s 16) 6"
    and "armMode t = mode" "\<not> user_mode mode" "reg t 17 = reg (CPUUpdateCPSR s) 16"
  defines "u \<equiv> CPUSwitchMode (reg t 17 AND 0x1f) False t"
  shows "armMode u = armMode s" "armIrqEnable u = armIrqEnable s" "armFiqEnable u = armFiqEnable s"
    "28 \<le> k \<Longrightarrow> k < 32 \<Longrightarrow> bit (reg u 45) k = bit (reg s 45) k"
proof -
  have m: "reg t 17 AND 0x1f = armMode s" using assms(1,6) by (simp add: cpsr_mode)
  have src: "switch_source (armMode s) t = reg (CPUUpdateCPSR s) 16"
    using assms(2,4,5,6) by (simp add: switch_source_def)
  note st = switch_status [OF assms(1), where sv = False and s = t, unfolded src]
  show "armMode u = armMode s" "armIrqEnable u = armIrqEnable s" "armFiqEnable u = armFiqEnable s"
    using assms(3) st by (auto simp: u_def m cpsr_bits)
  show "28 \<le> k \<Longrightarrow> k < 32 \<Longrightarrow> bit (reg u 45) k = bit (reg s 45) k"
    using st(4) [of k] by (simp add: u_def m cpsr_bits)
qed

lemma flags_eqI:
  assumes "\<And>k. 28 \<le> k \<Longrightarrow> k < 32 \<Longrightarrow> bit (reg u 45) k = bit (reg s 45) k"
  shows "N_FLAG u = N_FLAG s" "Z_FLAG u = Z_FLAG s" "C_FLAG u = C_FLAG s" "V_FLAG u = V_FLAG s"
  using assms [of 28] assms [of 29] assms [of 30] assms [of 31] by (simp_all add: flag_defs)

subsection \<open>The invariant of the processor state\<close>

text \<open>
  The interrupt-pending word mirrors the line and the mask; the FIQ bit of the stored status word
  never contradicts an enabled FIQ (\<open>CPUUpdateCPSR\<close> keeps a stale set bit); while the processor is
  enabled its mode is one of the seven.
\<close>

definition arm_inv :: "'p arm_state \<Rightarrow> bool" where
  "arm_inv s \<longleftrightarrow>
     reg s 47 = of_bool (e68k_out s \<and> armFiqEnable s)
     \<and> (armFiqEnable s \<longrightarrow> \<not> bit (reg s 16) 6)
     \<and> (Arm7Enabled s \<longrightarrow> valid_mode (armMode s))"

lemma inv_set_reg [inv_intros]: "arm_inv s \<Longrightarrow> i \<noteq> 16 \<Longrightarrow> i \<noteq> 47 \<Longrightarrow> arm_inv (set_reg i v s)"
  by (simp add: arm_inv_def)

lemma inv_add_ticks [inv_intros]: "arm_inv s \<Longrightarrow> arm_inv (add_ticks n s)"
  by (simp add: arm_inv_def)

lemma inv_set_flag [inv_intros]:
  "arm_inv s \<Longrightarrow> arm_inv (set_N v s)" "arm_inv s \<Longrightarrow> arm_inv (set_Z v s)"
  "arm_inv s \<Longrightarrow> arm_inv (set_C v s)" "arm_inv s \<Longrightarrow> arm_inv (set_V v s)"
  by (simp_all add: set_flag_defs inv_set_reg)

lemma inv_update_cpsr [inv_intros]: "arm_inv s \<Longrightarrow> arm_inv (CPUUpdateCPSR s)"
  by (simp add: arm_inv_def cpsr_bits)

lemma inv_update_flags: "(Arm7Enabled s \<longrightarrow> valid_mode (armMode s)) \<Longrightarrow> arm_inv (CPUUpdateFlags s)"
  by (simp add: arm_inv_def)

lemma inv_update_e68k [inv_intros]: "arm_inv s \<Longrightarrow> arm_inv (update_e68k s)"
  by (auto simp: arm_inv_def update_e68k_def update_armintc_def)

lemma load_bank_invalid: "\<not> valid_mode m \<Longrightarrow> \<not> Arm7Enabled (load_bank m sv c sp s)"
  by (simp add: load_bank_def valid_mode_def)

lemma switch_enabled_valid:
  "Arm7Enabled (CPUSwitchMode mode sv s) \<longrightarrow> valid_mode mode"
  using load_bank_invalid [of mode] by (auto simp: switch_unfold Let_def)

lemma inv_switch_mode [inv_intros]: "arm_inv (CPUSwitchMode mode sv s)"
proof -
  let ?t = "save_bank (CPUUpdateCPSR s)"
  let ?l = "load_bank mode sv (reg (CPUUpdateCPSR s) 16) (reg ?t 17) ?t\<lparr>armMode := mode\<rparr>"
  have "Arm7Enabled ?l \<longrightarrow> valid_mode (armMode ?l)"
    using load_bank_invalid [of mode] by auto
  then have "arm_inv (CPUUpdateFlags ?l)" by (rule inv_update_flags)
  then show ?thesis by (simp add: switch_unfold Let_def inv_update_cpsr)
qed

lemma inv_irq_off [inv_intros]: "arm_inv s \<Longrightarrow> arm_inv (s\<lparr>armIrqEnable := b\<rparr>)"
  by (simp add: arm_inv_def)

lemma inv_exceptions [inv_intros]:
  "arm_inv (CPUSoftwareInterrupt c s)" "arm_inv (CPUUndefinedException s)" "arm_inv (CPUFiq s)"
proof -
  show "arm_inv (CPUSoftwareInterrupt c s)" "arm_inv (CPUUndefinedException s)"
    by (simp_all add: CPUSoftwareInterrupt_def CPUUndefinedException_def Let_def inv_intros)
  show "arm_inv (CPUFiq s)"
    using inv_switch_mode [of "0x11" True s]
    by (simp add: CPUFiq_def Let_def arm_inv_def update_armintc_def)
qed

lemma inv_reset [inv_intros]: "arm_inv (arm_reset s)"
  by (simp add: arm_reset_def Let_def arm_inv_def update_armintc_def valid_mode_def set_flag_defs)

lemma inv_enable [inv_intros]: "arm_inv s \<Longrightarrow> arm_inv (enable e s)"
  using inv_reset [of s]
  by (auto simp: enable_def Let_def arm_inv_def) (simp_all add: arm_reset_def Let_def update_armintc_def valid_mode_def set_flag_defs)

lemma arm_reset_mode [simp]: "armMode (arm_reset s) = 0x13"
  by (simp add: arm_reset_def Let_def update_armintc_def set_flag_defs)

lemma undefined_entered:
  "valid_mode (armMode s) \<Longrightarrow> entered 0x1b 0x04 s (CPUUndefinedException s)"
  by (auto intro!: entered_switch simp: CPUUndefinedException_def Let_def valid_mode_def user_mode_def)

lemma swi_entered: "valid_mode (armMode s) \<Longrightarrow> entered 0x13 0x08 s (CPUSoftwareInterrupt c s)"
  by (auto intro!: entered_switch simp: CPUSoftwareInterrupt_def Let_def valid_mode_def user_mode_def)

lemma fiq_entered: "valid_mode (armMode s) \<Longrightarrow> entered 0x11 0x1c s (CPUFiq s)"
proof -
  assume "valid_mode (armMode s)"
  then have "entered 0x11 0x1c s
      (set_reg 46 0x1c (set_reg 14 (armNextPC s + 4) (CPUSwitchMode 0x11 True s)\<lparr>armIrqEnable := False\<rparr>))"
    by (intro entered_switch) (auto simp: valid_mode_def user_mode_def)
  then show ?thesis
    by (simp add: entered_def CPUFiq_def Let_def update_armintc_def)
qed

lemma fiq_masked: "\<not> armFiqEnable (CPUFiq s)"
  by (simp add: CPUFiq_def Let_def update_armintc_def)

subsection \<open>Properties\<close>

text \<open>
  Property C3: a mode switch between any two of the seven modes changes no register of the banked register
  file, whichever mode owns it, and leaves the processor in the requested mode.
\<close>

theorem switch_mode_refines_banked_file:
  assumes "valid_mode (armMode s)" "valid_mode mode"
  shows "armMode (CPUSwitchMode mode sv s) = mode
    \<and> (\<forall>m r. valid_mode m \<and> r \<le> 15 \<longrightarrow> phys (CPUSwitchMode mode sv s) m r = phys s m r)
    \<and> (\<forall>m. valid_mode m \<and> \<not> user_mode m \<and> \<not> (sv \<and> m = mode) \<longrightarrow>
          phys_spsr (CPUSwitchMode mode sv s) m = phys_spsr s m)"
  using assms by (auto simp: switch_status switch_phys switch_spsr)

theorem switch_mode_refines_banked_file_witness:
  "phys (CPUSwitchMode 0x11 True (arm_reset arm_zero)) 0x13 13 = 0x03007F00"
proof -
  have v: "valid_mode (armMode (arm_reset arm_zero))" "valid_mode 0x11" "valid_mode 0x13"
    by (simp_all add: arm_reset_mode valid_mode_def)
  have "phys (CPUSwitchMode 0x11 True (arm_reset arm_zero)) 0x13 13 = phys (arm_reset arm_zero) 0x13 13"
    using switch_mode_refines_banked_file [OF v(1,2), of True] v(3) by simp
  also have "\<dots> = 0x03007F00"
    by (simp add: phys_def same_bank_def arm_reset_mode) (simp add: arm_reset_def Let_def update_armintc_def CPUUpdateCPSR_def set_flag_defs)
  finally show ?thesis .
qed

text \<open>
  Property C4: the software interrupt, the undefined-instruction exception and the FIQ enter their mode with
  the return address in the mode's own link register, the status word at the time of the exception in its
  \<open>SPSR\<close>, the next instruction at the vector and IRQs masked; no other register of any mode changes.
\<close>

theorem exception_entry:
  assumes "valid_mode (armMode s)"
  shows "entered 0x13 0x08 s (CPUSoftwareInterrupt c s)
    \<and> entered 0x1b 0x04 s (CPUUndefinedException s)
    \<and> entered 0x11 0x1c s (CPUFiq s) \<and> \<not> armFiqEnable (CPUFiq s)"
  using assms by (simp add: swi_entered undefined_entered fiq_entered fiq_masked)

theorem exception_entry_witness:
  "reg (CPUFiq (arm_reset arm_zero)) 14 = armNextPC (arm_reset arm_zero) + 4
   \<and> armNextPC (CPUFiq (arm_reset arm_zero)) = 0x1c"
  using exception_entry [of "arm_reset arm_zero" 0]
  by (simp add: arm_reset_mode valid_mode_def entered_def)

text \<open>
  Property C5: whatever a handler does, as long as it stays in its mode and keeps its \<open>SPSR\<close>, the return
  (\<open>CPUSwitchMode\<close> to the mode in the \<open>SPSR\<close>) brings back the mode, the condition flags and both interrupt
  masks of the interrupted program, unless that program ran in FIQ mode.
\<close>

theorem exception_return_restores:
  assumes "arm_inv s" "valid_mode (armMode s)" "armMode s \<noteq> 0x11"
    and "entered mode vector s t" "\<not> user_mode mode" "armMode t' = mode" "reg t' 17 = reg t 17"
  shows "let u = CPUSwitchMode (reg t' 17 AND 0x1f) False t' in
    armMode u = armMode s \<and> armIrqEnable u = armIrqEnable s \<and> armFiqEnable u = armFiqEnable s
    \<and> N_FLAG u = N_FLAG s \<and> Z_FLAG u = Z_FLAG s \<and> C_FLAG u = C_FLAG s \<and> V_FLAG u = V_FLAG s"
proof -
  have inv: "armFiqEnable s \<longrightarrow> \<not> bit (reg s 16) 6"
    and t: "reg t' 17 = reg (CPUUpdateCPSR s) 16"
    using assms(1,4,7) by (auto simp: arm_inv_def entered_def)
  note r = return_status [OF assms(2,3) inv assms(6,5) t]
  show ?thesis
    using r(1-3) flags_eqI [OF r(4)] by (simp add: Let_def)
qed

theorem exception_return_restores_witness:
  "armMode (CPUSwitchMode (reg (CPUUndefinedException (arm_reset arm_zero)) 17 AND 0x1f) False
     (CPUUndefinedException (arm_reset arm_zero))) = 0x13"
proof -
  let ?s = "arm_reset arm_zero" and ?t = "CPUUndefinedException (arm_reset arm_zero)"
  have v: "valid_mode (armMode ?s)" by (simp add: arm_reset_mode valid_mode_def)
  have e: "entered 0x1b 0x04 ?s ?t"
    using v by (simp add: undefined_entered)
  then have "armMode ?t = 0x1b" by (simp add: entered_def)
  then show ?thesis
    using exception_return_restores [OF inv_reset v _ e, of ?t] v
    by (simp add: arm_reset_mode user_mode_def Let_def)
qed

text \<open>
  A return to FIQ mode is the exception: the second \<open>switch\<close> of \<open>CPUSwitchMode\<close> does not load
  the saved status for FIQ, so the flags and masks stay those of the handler that returns.
\<close>

theorem return_to_fiq_keeps_status:
  assumes "arm_inv t"
  shows "let u = CPUSwitchMode 0x11 False t in
    armMode u = 0x11 \<and> armIrqEnable u = armIrqEnable t \<and> armFiqEnable u = armFiqEnable t
    \<and> N_FLAG u = N_FLAG t \<and> Z_FLAG u = Z_FLAG t \<and> C_FLAG u = C_FLAG t \<and> V_FLAG u = V_FLAG t"
proof -
  have v: "valid_mode 0x11" by (simp add: valid_mode_def)
  note st = switch_status [OF v, where sv = False and s = t]
  have src: "switch_source 0x11 t = reg (CPUUpdateCPSR t) 16" by (simp add: switch_source_def)
  have "bit (reg (CPUSwitchMode 0x11 False t) 45) k = bit (reg t 45) k" if "28 \<le> k" "k < 32" for k
    using st(4) [of k] that by (simp add: src cpsr_bits)
  note f = flags_eqI [OF this]
  show ?thesis
    using st(1-3) f assms by (auto simp: Let_def src cpsr_bits arm_inv_def)
qed

theorem return_to_fiq_keeps_status_witness:
  "armIrqEnable (CPUSwitchMode 0x11 False (arm_reset arm_zero)) = armIrqEnable (arm_reset arm_zero)"
  using return_to_fiq_keeps_status [OF inv_reset, of arm_zero] by (simp add: Let_def)

text \<open>
  Property C8: a software interrupt from user or system mode keeps the condition flags and the FIQ mask;
  from a privileged mode other than these, the switch loads the flags and the FIQ mask from the \<open>SPSR\<close> of
  the mode that is left instead of keeping the current ones.
\<close>

theorem exception_entry_status:
  assumes "arm_inv s"
  shows "let t = CPUSoftwareInterrupt c s in (user_mode (armMode s) \<longrightarrow>
      N_FLAG t = N_FLAG s \<and> Z_FLAG t = Z_FLAG s \<and> C_FLAG t = C_FLAG s \<and> V_FLAG t = V_FLAG s
      \<and> armFiqEnable t = armFiqEnable s)
    \<and> (\<not> user_mode (armMode s) \<longrightarrow>
      N_FLAG t = bit (reg s 17) 31 \<and> Z_FLAG t = bit (reg s 17) 30 \<and> C_FLAG t = bit (reg s 17) 29
      \<and> V_FLAG t = bit (reg s 17) 28 \<and> armFiqEnable t = (\<not> bit (reg s 17) 6))"
proof -
  have v: "valid_mode 0x13" by (simp add: valid_mode_def)
  note st = switch_status [OF v, where sv = True and s = s]
  have "reg (CPUSoftwareInterrupt c s) 45 = reg (CPUSwitchMode 0x13 True s) 45"
    "armFiqEnable (CPUSoftwareInterrupt c s) = armFiqEnable (CPUSwitchMode 0x13 True s)"
    by (simp_all add: CPUSoftwareInterrupt_def Let_def)
  then show ?thesis
    using assms(1) st(4) [of 28] st(4) [of 29] st(4) [of 30] st(4) [of 31]
    by (auto simp: Let_def flag_defs st switch_source_def cpsr_bits arm_inv_def)
qed

theorem exception_entry_status_witness:
  "N_FLAG (CPUSoftwareInterrupt 0 (set_reg 17 0x80000000 (arm_reset arm_zero)))"
  using exception_entry_status [OF inv_set_reg [OF inv_reset [of arm_zero], where i = 17 and v = "0x80000000"], of 0]
  by (simp add: user_mode_def Let_def)

end
