(* ===== verification/Arm7_Reference.thy ===== *)
theory Arm7_Reference
  imports Arm7_Alu Arm7_Modes
begin

unbundle bit_operations_syntax

section \<open>The data-processing instructions against the architecture\<close>

text \<open>
  A reference semantics written from the architecture's own terms: \<open>AddWithCarry\<close> compares the
  word sum with the integer sum, rotation is the library's \<open>word_rotr\<close>, and an instruction is
  operand, operation, flags.  The lemmas relate every macro of \<open>Arm7_Alu\<close> to it.
\<close>

subsection \<open>Reference definitions\<close>

definition AddWithCarry :: "u32 \<Rightarrow> u32 \<Rightarrow> bool \<Rightarrow> u32 \<times> bool \<times> bool" where
  "AddWithCarry x y c =
     (let unsigned_sum = uint x + uint y + of_bool c;
          signed_sum = sint x + sint y + of_bool c;
          res = word_of_int unsigned_sum
      in (res, uint (res :: u32) \<noteq> unsigned_sum, sint res \<noteq> signed_sum))"

datatype srtype = SR_LSL | SR_LSR | SR_ASR | SR_ROR | SR_RRX

fun Shift_C :: "srtype \<Rightarrow> nat \<Rightarrow> bool \<Rightarrow> u32 \<Rightarrow> u32 \<times> bool" where
  "Shift_C SR_LSL n c x = (if n = 0 then (x, c) else (push_bit n x, n \<le> 32 \<and> bit x (32 - n)))"
| "Shift_C SR_LSR n c x = (if n = 0 then (x, c) else (drop_bit n x, bit x (n - 1)))"
| "Shift_C SR_ASR n c x = (if n = 0 then (x, c) else (signed_drop_bit n x, bit x (min (n - 1) 31)))"
| "Shift_C SR_ROR n c x = (if n = 0 then (x, c) else (word_rotr n x, bit (word_rotr n x) 31))"
| "Shift_C SR_RRX n c x = (put_bit 31 c (drop_bit 1 x), bit x 0)"

text \<open>The shift type in bits 6:5 and the immediate amount in bits 11:7.\<close>

definition sr_of :: "nat \<Rightarrow> srtype" where
  "sr_of t = (if t = 0 then SR_LSL else if t = 1 then SR_LSR else if t = 2 then SR_ASR else SR_ROR)"

definition DecodeImmShift :: "nat \<Rightarrow> nat \<Rightarrow> srtype \<times> nat" where
  "DecodeImmShift t n =
     (if t = 0 then (SR_LSL, n)
      else if t = 1 then (SR_LSR, if n = 0 then 32 else n)
      else if t = 2 then (SR_ASR, if n = 0 then 32 else n)
      else if n = 0 then (SR_RRX, 1) else (SR_ROR, n))"

text \<open>The three forms of the second operand, with the carry out of the shifter.\<close>

definition ref_imm_shift :: "nat \<Rightarrow> u32 \<Rightarrow> 'p arm_state \<Rightarrow> u32 \<times> bool" where
  "ref_imm_shift t opcode s =
     (let (ty, n) = DecodeImmShift t (imm5 opcode)
      in Shift_C ty n (C_FLAG s) (reg s (fld opcode 0)))"

definition ref_rotated_imm :: "u32 \<Rightarrow> 'p arm_state \<Rightarrow> u32 \<times> bool" where
  "ref_rotated_imm opcode s = Shift_C SR_ROR (2 * fld opcode 8) (C_FLAG s) (opcode AND 0xff)"

text \<open>
  A shift by register reads its amount from the low byte of \<open>Rs\<close>; the program counter
  then reads 12 bytes ahead.
\<close>

definition rs_amount :: "u32 \<Rightarrow> 'p arm_state \<Rightarrow> nat" where
  "rs_amount opcode s = unat (reg s (fld opcode 8) AND 0xFF)"

definition rs_cycle :: "'p arm_state \<Rightarrow> 'p arm_state" where
  "rs_cycle s = set_reg 15 (reg s 15 + 4) (add_ticks 1 s)"

definition ref_reg_shift :: "nat \<Rightarrow> u32 \<Rightarrow> 'p arm_state \<Rightarrow> u32 \<times> bool" where
  "ref_reg_shift t opcode s =
     Shift_C (sr_of t) (rs_amount opcode s) (C_FLAG s) (reg (rs_cycle s) (fld opcode 0))"

text \<open>The sixteen operations: result, carry, overflow from the two operands and the old flags.\<close>

definition ref_alu :: "nat \<Rightarrow> u32 \<Rightarrow> u32 \<Rightarrow> bool \<Rightarrow> bool \<Rightarrow> bool \<Rightarrow> u32 \<times> bool \<times> bool" where
  "ref_alu opc rn op2 c sc v =
     (if opc = 0 \<or> opc = 8 then (rn AND op2, sc, v)
      else if opc = 1 \<or> opc = 9 then (rn XOR op2, sc, v)
      else if opc = 2 \<or> opc = 10 then AddWithCarry rn (NOT op2) True
      else if opc = 3 then AddWithCarry op2 (NOT rn) True
      else if opc = 4 \<or> opc = 11 then AddWithCarry rn op2 False
      else if opc = 5 then AddWithCarry rn op2 c
      else if opc = 6 then AddWithCarry rn (NOT op2) c
      else if opc = 7 then AddWithCarry op2 (NOT rn) c
      else if opc = 12 then (rn OR op2, sc, v)
      else if opc = 13 then (op2, sc, v)
      else if opc = 14 then (rn AND NOT op2, sc, v)
      else (NOT op2, sc, v))"

definition ref_finish :: "nat \<Rightarrow> bool \<Rightarrow> nat \<Rightarrow> nat \<Rightarrow> u32 \<Rightarrow> bool \<Rightarrow> 'p arm_state \<Rightarrow> 'p arm_state" where
  "ref_finish opc S rn dest op2 sc s =
     (let (res, c, v) = ref_alu opc (reg s rn) op2 (C_FLAG s) sc (V_FLAG s);
          s = (if 8 \<le> opc \<and> opc \<le> 11 then s else set_reg dest res s)
      in if S then set_V v (set_C c (set_Z (res = 0) (set_N (bit res 31) s))) else s)"

subsection \<open>Carry and overflow\<close>

lemma uint_u32_less: "uint x < 4294967296" for x :: u32
  using uint_lt2p [of x] by simp

lemma bit31_uint: "bit x 31 \<longleftrightarrow> 2147483648 \<le> uint x" for x :: u32
proof -
  have "bit x 31 \<longleftrightarrow> bit (uint x) 31" by (simp add: bit_uint_iff)
  also have "\<dots> \<longleftrightarrow> odd (uint x div 2147483648)" by (simp add: bit_iff_odd)
  finally have "bit x 31 \<longleftrightarrow> odd (uint x div 2147483648)" .
  moreover have "2147483648 \<le> uint x \<Longrightarrow> uint x div 2147483648 = 1"
    using uint_u32_less [of x] by (intro int_div_pos_eq [where r = "uint x - 2147483648"]) auto
  moreover have "\<not> 2147483648 \<le> uint x \<Longrightarrow> uint x div 2147483648 = 0"
    by (simp add: div_pos_pos_trivial)
  ultimately show ?thesis by fastforce
qed

lemma mod_2_32_cases:
  "0 \<le> k \<Longrightarrow> k < 2 * 4294967296 \<Longrightarrow> k mod 4294967296 = (if k < 4294967296 then k else k - 4294967296)"
  for k :: int
  by (auto intro!: int_mod_pos_eq [where q = 1])

lemma sint_cases: "sint x = (if bit x 31 then uint x - 4294967296 else uint x)" for x :: u32
proof -
  have "sint x = (uint x + 2147483648) mod 4294967296 - 2147483648"
    by (simp add: sint_uint signed_take_bit_eq_take_bit_shift take_bit_eq_mod)
  then show ?thesis
    using uint_u32_less [of x] uint_ge_0 [of x] by (simp add: bit31_uint mod_2_32_cases)
qed

lemma NEG_bit: "NEG x = of_bool (bit x 31)"
proof (rule bit_word_eqI)
  fix n assume "n < LENGTH(32)"
  show "bit (NEG x) n = bit (of_bool (bit x 31) :: u32) n"
    by (cases n) (auto simp: NEG_def bit_simps dest: bit_imp_le_length)
qed

lemma POS_bit: "POS x = of_bool (\<not> bit x 31)"
  by (rule bit_word_eqI) (auto simp: POS_def bit_simps dest: bit_imp_le_length)

lemma flag_formulas:
  "ADDCARRY a b c \<longleftrightarrow> (bit a 31 \<and> bit b 31) \<or> (bit a 31 \<and> \<not> bit c 31) \<or> (bit b 31 \<and> \<not> bit c 31)"
  "ADDOVERFLOW a b c \<longleftrightarrow> (bit a 31 \<and> bit b 31 \<and> \<not> bit c 31) \<or> (\<not> bit a 31 \<and> \<not> bit b 31 \<and> bit c 31)"
  by (simp_all add: ADDCARRY_def ADDOVERFLOW_def NEG_bit POS_bit)

lemma sub_flag_formulas:
  "SUBCARRY a b c \<longleftrightarrow> ADDCARRY a (NOT b) c"
  "SUBOVERFLOW a b c \<longleftrightarrow> ADDOVERFLOW a (NOT b) c"
  by (simp_all add: ADDCARRY_def ADDOVERFLOW_def SUBCARRY_def SUBOVERFLOW_def NEG_bit POS_bit bit_not_iff)

lemma uint_add3: "uint (x + y + of_bool c) = (uint x + uint y + of_bool c) mod 4294967296" for x y :: u32
  by (cases c) (simp_all add: uint_word_ariths mod_simps)

text \<open>Carry and overflow of a 32-bit sum, on the integers the words stand for.\<close>

lemma int_carry:
  fixes X Y C :: int
  assumes "0 \<le> X" "X < 4294967296" "0 \<le> Y" "Y < 4294967296" "0 \<le> C" "C \<le> 1"
    and R: "R = (if X + Y + C < 4294967296 then X + Y + C else X + Y + C - 4294967296)"
  shows "R \<noteq> X + Y + C \<longleftrightarrow>
    (2147483648 \<le> X \<and> 2147483648 \<le> Y) \<or> (2147483648 \<le> X \<and> \<not> 2147483648 \<le> R) \<or>
    (2147483648 \<le> Y \<and> \<not> 2147483648 \<le> R)"
  using assms by (simp only:) (simp split: if_splits, linarith)

lemma int_overflow:
  fixes X Y C :: int
  assumes "0 \<le> X" "X < 4294967296" "0 \<le> Y" "Y < 4294967296" "0 \<le> C" "C \<le> 1"
    and R: "R = (if X + Y + C < 4294967296 then X + Y + C else X + Y + C - 4294967296)"
  shows "(if 2147483648 \<le> R then R - 4294967296 else R) \<noteq>
      (if 2147483648 \<le> X then X - 4294967296 else X) + (if 2147483648 \<le> Y then Y - 4294967296 else Y) + C \<longleftrightarrow>
    (2147483648 \<le> X \<and> 2147483648 \<le> Y \<and> \<not> 2147483648 \<le> R) \<or>
    (\<not> 2147483648 \<le> X \<and> \<not> 2147483648 \<le> Y \<and> 2147483648 \<le> R)"
  using assms by (auto split: if_splits)

text \<open>The sign formulas of the source compute the architecture's carry and overflow.\<close>

lemma AddWithCarry_add:
  "AddWithCarry x y c =
     (x + y + of_bool c, ADDCARRY x y (x + y + of_bool c), ADDOVERFLOW x y (x + y + of_bool c))"
proof -
  let ?r = "x + y + of_bool c" and ?u = "uint x + uint y + of_bool c"
  have bounds: "0 \<le> uint x" "uint x < 4294967296" "0 \<le> uint y" "uint y < 4294967296"
    by (simp_all add: uint_u32_less)
  then have ur: "uint ?r = (if ?u < 4294967296 then ?u else ?u - 4294967296)"
    unfolding uint_add3 by (intro mod_2_32_cases) (auto simp: of_bool_def)
  have res: "word_of_int ?u = ?r"
    by (cases c) (simp_all add: wi_hom_add [symmetric])
  have carry: "uint ?r \<noteq> ?u \<longleftrightarrow> ADDCARRY x y ?r"
    unfolding flag_formulas bit31_uint by (rule int_carry [OF bounds _ _ ur]) auto
  have overflow: "sint ?r \<noteq> sint x + sint y + of_bool c \<longleftrightarrow> ADDOVERFLOW x y ?r"
    unfolding flag_formulas sint_cases bit31_uint by (rule int_overflow [OF bounds _ _ ur]) auto
  show ?thesis
    by (simp add: AddWithCarry_def Let_def res carry overflow)
qed

lemma sub_as_add:
  "x - y = x + NOT y + of_bool True"
  "x - y - of_bool (\<not> c) = x + NOT y + of_bool c" for x y :: u32
  by (simp_all add: not_eq_complement)

subsection \<open>The operation bodies\<close>

lemma logic_flags_ref:
  "logic_flags res c s = set_V (V_FLAG s) (set_C c (set_Z (res = 0) (set_N (bit res 31) s)))"
proof -
  have "set_V (V_FLAG s) (set_C c (set_Z (res = 0) (set_N (bit res 31) s)))
      = set_C c (set_Z (res = 0) (set_N (bit res 31) s))"
    using set_V_id [of "set_C c (set_Z (res = 0) (set_N (bit res 31) s))"] by simp
  then show ?thesis by (simp add: logic_flags_def Let_def and_bit_31)
qed

lemma add_flags_ref:
  "add_flags x y (x + y + of_bool c) s =
     (let (res, k, v) = AddWithCarry x y c
      in set_V v (set_C k (set_Z (res = 0) (set_N (bit res 31) s))))"
  by (simp add: add_flags_def AddWithCarry_add Let_def NEG_bit set_flag_swap)

lemma sub_flags_ref:
  "sub_flags x y (x + NOT y + of_bool c) s =
     (let (res, k, v) = AddWithCarry x (NOT y) c
      in set_V v (set_C k (set_Z (res = 0) (set_N (bit res 31) s))))"
  by (simp add: sub_flags_def AddWithCarry_add Let_def NEG_bit set_flag_swap sub_flag_formulas)

lemmas ref_finish_unfold = ref_finish_def ref_alu_def Let_def

lemma logical_ops_ref:
  assumes "dest < 16"
  shows "OP_AND opcode dest x c s = ref_finish 0 False (fld opcode 16) dest x c s"
    "OP_ANDS opcode dest x c s = ref_finish 0 True (fld opcode 16) dest x c s"
    "OP_EOR opcode dest x c s = ref_finish 1 False (fld opcode 16) dest x c s"
    "OP_EORS opcode dest x c s = ref_finish 1 True (fld opcode 16) dest x c s"
    "OP_MOV opcode dest x c s = ref_finish 13 False (fld opcode 16) dest x c s"
    "OP_MOVS opcode dest x c s = ref_finish 13 True (fld opcode 16) dest x c s"
    "OP_MVN opcode dest x c s = ref_finish 15 False (fld opcode 16) dest x c s"
    "OP_MVNS opcode dest x c s = ref_finish 15 True (fld opcode 16) dest x c s"
  using assms
  by (simp_all add: OP_AND_def OP_ANDS_def OP_EOR_def OP_EORS_def OP_MOV_def OP_MOVS_def
      OP_MVN_def OP_MVNS_def ref_finish_unfold logic_flags_ref)

lemma logical_base_ops_ref:
  assumes "dest < 16"
  shows "OP_TST base dest x c s = ref_finish 8 True base dest x c s"
    "OP_TEQ base dest x c s = ref_finish 9 True base dest x c s"
    "OP_ORR base dest x c s = ref_finish 12 False base dest x c s"
    "OP_ORRS base dest x c s = ref_finish 12 True base dest x c s"
    "OP_BIC base dest x c s = ref_finish 14 False base dest x c s"
    "OP_BICS base dest x c s = ref_finish 14 True base dest x c s"
  using assms
  by (simp_all add: OP_TST_def OP_TEQ_def OP_ORR_def OP_ORRS_def OP_BIC_def OP_BICS_def
      ref_finish_unfold logic_flags_ref)

lemma AddWithCarry_fst: "fst (AddWithCarry x y c) = x + y + of_bool c"
  by (simp add: AddWithCarry_add)

lemma finish_arith:
  assumes "ref_alu opc (reg s base) x (C_FLAG s) k (V_FLAG s) = AddWithCarry l r c" "opc < 8 \<or> 11 < opc"
  shows "set_reg dest (l + r + of_bool c) s = ref_finish opc False base dest x k s"
    "add_flags l r (l + r + of_bool c) (set_reg dest (l + r + of_bool c) s) = ref_finish opc True base dest x k s"
  using assms by (auto simp: ref_finish_def add_flags_ref AddWithCarry_add)

lemma finish_arith_sub:
  assumes "ref_alu opc (reg s base) x (C_FLAG s) k (V_FLAG s) = AddWithCarry l (NOT r) c" "opc < 8 \<or> 11 < opc"
  shows "sub_flags l r (l + NOT r + of_bool c) (set_reg dest (l + NOT r + of_bool c) s)
      = ref_finish opc True base dest x k s"
  using assms by (auto simp: ref_finish_def sub_flags_ref AddWithCarry_add)

lemma add_False: "x + y = x + y + of_bool False" for x y :: u32
  by simp

lemma add_ops_ref:
  "OP_ADD base dest x s = ref_finish 4 False base dest x c s"
  "OP_ADDS base dest x s = ref_finish 4 True base dest x c s"
  "OP_ADC base dest x s = ref_finish 5 False base dest x c s"
  "OP_ADCS base dest x s = ref_finish 5 True base dest x c s"
  using finish_arith [of 4 s base x c "reg s base" x False dest]
    finish_arith [of 5 s base x c "reg s base" x "C_FLAG s" dest]
  by (simp_all add: OP_ADD_def OP_ADDS_def OP_ADC_def OP_ADCS_def Let_def ref_alu_def)

lemma sub_ops_ref:
  "OP_SUB base dest x s = ref_finish 2 False base dest x c s"
  "OP_SUBS base dest x s = ref_finish 2 True base dest x c s"
  unfolding OP_SUB_def OP_SUBS_def Let_def sub_as_add(1)
  by (rule finish_arith(1) finish_arith_sub; simp add: ref_alu_def)+

lemma sbc_ops_ref:
  "OP_SBC base dest x s = ref_finish 6 False base dest x c s"
  "OP_SBCS base dest x s = ref_finish 6 True base dest x c s"
  unfolding OP_SBC_def OP_SBCS_def Let_def sub_as_add(2)
  by (rule finish_arith(1) finish_arith_sub; simp add: ref_alu_def)+

lemma rsb_ops_ref:
  "OP_RSB base dest x s = ref_finish 3 False base dest x c s"
  "OP_RSBS base dest x s = ref_finish 3 True base dest x c s"
  unfolding OP_RSB_def OP_RSBS_def Let_def sub_as_add(1)
  by (rule finish_arith(1) finish_arith_sub; simp add: ref_alu_def)+

lemma rsc_ops_ref:
  "OP_RSC base dest x s = ref_finish 7 False base dest x c s"
  "OP_RSCS base dest x s = ref_finish 7 True base dest x c s"
  unfolding OP_RSC_def OP_RSCS_def Let_def sub_as_add(2)
  by (rule finish_arith(1) finish_arith_sub; simp add: ref_alu_def)+

lemma cmp_ops_ref:
  "OP_CMP base dest x s = ref_finish 10 True base dest x c s"
  "OP_CMN base dest x s = ref_finish 11 True base dest x c s"
proof -
  show "OP_CMP base dest x s = ref_finish 10 True base dest x c s"
    unfolding OP_CMP_def Let_def sub_as_add(1) sub_flags_ref
    by (simp add: ref_finish_def ref_alu_def AddWithCarry_add)
  show "OP_CMN base dest x s = ref_finish 11 True base dest x c s"
    using add_flags_ref [of "reg s base" x False s]
    by (simp add: OP_CMN_def Let_def ref_finish_def ref_alu_def AddWithCarry_add)
qed

lemmas arithmetic_ops_ref = add_ops_ref sub_ops_ref sbc_ops_ref rsb_ops_ref rsc_ops_ref cmp_ops_ref

subsection \<open>The shifter\<close>

lemma and_1_bit: "drop_bit n v AND 1 = 0 \<longleftrightarrow> \<not> bit v n" for v :: u32
  by (simp add: and_bit_0 bit_drop_bit_eq)

lemma signed_and_1_bit: "signed_drop_bit n v AND 1 = 0 \<longleftrightarrow> \<not> bit v (min n 31)" for v :: u32
  by (simp add: and_bit_0 bit_signed_drop_bit_iff min_def)

lemma rotr_shifts:
  fixes v :: u32
  assumes "0 < n" "n < 32"
  shows "push_bit (32 - n) v OR drop_bit n v = word_rotr n v"
proof (rule bit_word_eqI)
  fix k assume "k < LENGTH(32)"
  then have k: "k < 32" by simp
  show "bit (push_bit (32 - n) v OR drop_bit n v) k = bit (word_rotr n v) k"
  proof (cases "k + n < 32")
    case True
    then have "\<not> 32 - n \<le> k" by linarith
    then show ?thesis using True k by (simp add: bit_simps add.commute)
  next
    case False
    then have "(k + n) mod 32 = k + n - 32" "\<not> bit v (n + k)" "32 - n \<le> k" "k - (32 - n) = k + n - 32"
      using assms k bit_imp_le_length [of v "n + k"] by (auto simp: mod_if)
    then show ?thesis using k by (simp add: bit_simps)
  qed
qed

lemma rotr_carry: "0 < n \<Longrightarrow> n < 32 \<Longrightarrow> bit (word_rotr n v) 31 = bit v (n - 1)" for v :: u32
  by (simp add: bit_word_rotr_iff mod_if)

lemma asr_sign: "32 \<le> n \<Longrightarrow> signed_drop_bit n v = (if bit v 31 then -1 else 0)" for v :: u32
  by (rule bit_word_eqI) (auto simp: bit_signed_drop_bit_iff)

lemma asr_all_ones: "32 \<le> n \<Longrightarrow> signed_drop_bit n v = (if bit v 31 then 0xFFFFFFFF else 0)" for v :: u32
  by (simp add: asr_sign)

lemma shift_macros_ref:
  assumes "0 < n" "n < 32"
  shows "LOGICAL_LSL_REG opcode n s = Shift_C SR_LSL n c (reg s (fld opcode 0))"
    "LOGICAL_LSR_REG opcode n s = Shift_C SR_LSR n c (reg s (fld opcode 0))"
    "LOGICAL_ASR_REG opcode n s = Shift_C SR_ASR n c (reg s (fld opcode 0))"
    "LOGICAL_ROR_REG opcode n s = Shift_C SR_ROR n c (reg s (fld opcode 0))"
    "LOGICAL_ROR_IMM opcode n = Shift_C SR_ROR n c (opcode AND 0xff)"
  using assms
  by (simp_all add: LOGICAL_LSL_REG_def LOGICAL_LSR_REG_def LOGICAL_ASR_REG_def LOGICAL_ROR_REG_def
      LOGICAL_ROR_IMM_def Let_def and_1_bit signed_and_1_bit rotr_shifts rotr_carry)

lemma rrx_ref: "LOGICAL_RRX_REG opcode s = Shift_C SR_RRX n (C_FLAG s) (reg s (fld opcode 0))"
proof -
  have "drop_bit 1 v OR push_bit 31 (of_bool c) = put_bit 31 c (drop_bit 1 v)" for v :: u32 and c
    by (rule bit_word_eqI) (auto simp: bit_simps dest: bit_imp_le_length)
  then show ?thesis
    by (simp add: LOGICAL_RRX_REG_def Let_def and_bit_0)
qed

lemma arith_macros_fst:
  "ARITHMETIC_LSL_REG opcode n s = fst (LOGICAL_LSL_REG opcode n s)"
  "ARITHMETIC_LSR_REG opcode n s = fst (LOGICAL_LSR_REG opcode n s)"
  "ARITHMETIC_ASR_REG opcode n s = fst (LOGICAL_ASR_REG opcode n s)"
  "ARITHMETIC_ROR_REG opcode n s = fst (LOGICAL_ROR_REG opcode n s)"
  "ARITHMETIC_RRX_REG opcode s = fst (LOGICAL_RRX_REG opcode s)"
  "ARITHMETIC_ROR_IMM opcode n = fst (LOGICAL_ROR_IMM opcode n)"
  by (simp_all add: ARITHMETIC_LSL_REG_def LOGICAL_LSL_REG_def ARITHMETIC_LSR_REG_def LOGICAL_LSR_REG_def
      ARITHMETIC_ASR_REG_def LOGICAL_ASR_REG_def ARITHMETIC_ROR_REG_def LOGICAL_ROR_REG_def
      ARITHMETIC_RRX_REG_def LOGICAL_RRX_REG_def ARITHMETIC_ROR_IMM_def LOGICAL_ROR_IMM_def Let_def)

text \<open>With a zero rotation the undefined \<open>v << 32\<close> cannot change the operand: either host value gives \<open>v\<close>.\<close>

lemma ror_imm_zero_host:
  "x = 0 \<or> x = opcode AND 0xff \<Longrightarrow> x OR drop_bit 0 (opcode AND 0xff) = ARITHMETIC_ROR_IMM opcode 0" for x :: u32
  by (auto simp: ARITHMETIC_ROR_IMM_def Let_def)

subsection \<open>The second operand\<close>

lemma imm5_less [simp]: "imm5 opcode < 32"
proof -
  have "unat (drop_bit 7 opcode AND 0x1F) \<le> unat (0x1F :: u32)"
    by (rule word_and_le1 [THEN word_le_nat_alt [THEN iffD1]])
  then show ?thesis by (simp add: imm5_def)
qed

lemma rotate_bits:
  fixes w :: u32
  assumes "m = 1"
  shows "drop_bit 7 (w AND push_bit 8 (mask 4)) = push_bit m (drop_bit 8 w AND mask 4)"
proof (rule bit_word_eqI)
  fix k assume "k < LENGTH(32)"
  then show "bit (drop_bit 7 (w AND push_bit 8 (mask 4))) k = bit (push_bit m (drop_bit 8 w AND mask 4)) k"
    using assms by (cases k) (auto simp: bit_simps simp del: push_bit_Suc push_bit_of_Suc_0)
qed

lemma rotate_field: "unat (drop_bit 7 (opcode AND 0xF00)) = 2 * fld opcode 8" for opcode :: u32
proof -
  have "drop_bit 7 (opcode AND 0xF00) = push_bit 1 (drop_bit 8 opcode AND 15)"
    using rotate_bits [of 1 opcode] by (simp add: mask_eq_exp_minus_1)
  then have "unat (drop_bit 7 (opcode AND 0xF00)) = unat (push_bit 1 (drop_bit 8 opcode AND 15))"
    by simp
  also have "unat (push_bit 1 v) = 2 * unat v" if "unat v < 16" for v :: u32
    using that by (simp add: unat_word_ariths)
  then have "unat (push_bit 1 (drop_bit 8 opcode AND 15)) = 2 * fld opcode 8"
    using fld_less [of opcode 8] unfolding fld_def .
  finally show ?thesis .
qed

text \<open>A macro block is its operand, then \<open>data_tail\<close>.\<close>

definition run_lop :: "'p lop \<Rightarrow> 'p lop \<Rightarrow> u32 \<Rightarrow> u32 \<times> bool \<Rightarrow> 'p arm_state \<Rightarrow> 'p arm_state" where
  "run_lop OPC OPC2 opcode vc s =
     data_tail opcode (fld opcode 12) (OPC (fld opcode 16) (fld opcode 12) (fst vc) (snd vc))
       (OPC2 (fld opcode 16) (fld opcode 12) (fst vc) (snd vc)) s"

definition run_nop :: "'p nop \<Rightarrow> 'p nop \<Rightarrow> u32 \<Rightarrow> u32 \<times> bool \<Rightarrow> 'p arm_state \<Rightarrow> 'p arm_state" where
  "run_nop OPC OPC2 opcode vc s =
     data_tail opcode (fld opcode 12) (OPC opcode (fld opcode 12) (fst vc) (snd vc))
       (OPC2 opcode (fld opcode 12) (fst vc) (snd vc)) s"

definition run_aop :: "'p aop \<Rightarrow> 'p aop \<Rightarrow> u32 \<Rightarrow> u32 \<times> bool \<Rightarrow> 'p arm_state \<Rightarrow> 'p arm_state" where
  "run_aop OPC OPC2 opcode vc s =
     data_tail opcode (fld opcode 12) (OPC (fld opcode 16) (fld opcode 12) (fst vc))
       (OPC2 (fld opcode 16) (fld opcode 12) (fst vc)) s"

lemmas run_defs = run_lop_def run_nop_def run_aop_def

lemma operand_imm_shift:
  "ref_imm_shift 0 opcode s =
     (if imm5 opcode \<noteq> 0 then LOGICAL_LSL_REG opcode (imm5 opcode) s
      else (reg s (fld opcode 0), C_FLAG s))"
  "ref_imm_shift 1 opcode s =
     (if imm5 opcode \<noteq> 0 then LOGICAL_LSR_REG opcode (imm5 opcode) s
      else (0, reg s (fld opcode 0) AND 0x80000000 \<noteq> 0))"
  "ref_imm_shift 2 opcode s =
     (if imm5 opcode \<noteq> 0 then LOGICAL_ASR_REG opcode (imm5 opcode) s
      else if reg s (fld opcode 0) AND 0x80000000 \<noteq> 0 then (0xFFFFFFFF, True) else (0, False))"
  "ref_imm_shift 3 opcode s =
     (if imm5 opcode \<noteq> 0 then LOGICAL_ROR_REG opcode (imm5 opcode) s else LOGICAL_RRX_REG opcode s)"
  by (simp_all add: ref_imm_shift_def DecodeImmShift_def shift_macros_ref [where c = "C_FLAG s"]
      rrx_ref [where n = 1] and_bit_31 asr_all_ones drop_bit_word_beyond)

lemma operand_rotated_imm:
  "ref_rotated_imm opcode s =
     (let shift = unat (drop_bit 7 (opcode AND 0xF00))
      in if shift \<noteq> 0 then LOGICAL_ROR_IMM opcode shift else (opcode AND 0xff, C_FLAG s))"
proof -
  have "2 * fld opcode 8 < 32" using fld_less [of opcode 8] by linarith
  then show ?thesis
    unfolding rotate_field Let_def
    by (simp add: ref_rotated_imm_def shift_macros_ref(5) [where c = "C_FLAG s"])
qed

lemma operand_rotated_imm_arith:
  "ARITHMETIC_ROR_IMM opcode (unat (drop_bit 7 (opcode AND 0xF00))) = fst (ref_rotated_imm opcode s)"
  unfolding operand_rotated_imm rotate_field Let_def arith_macros_fst
  by (simp add: LOGICAL_ROR_IMM_def Let_def)

text \<open>
  A shift by register.  The source agrees with the architecture for every amount of the first
  three shifts, and for \<open>ROR\<close> whenever the amount is not zero.
\<close>

lemma rs_amount_after: "rs_amount opcode (add_ticks n s) = rs_amount opcode s"
  by (simp add: rs_amount_def)

lemma operand_reg_shift:
  fixes s :: "'p arm_state" and opcode :: u32
  defines "n \<equiv> rs_amount opcode s" and "t \<equiv> rs_cycle s"
  shows "ref_reg_shift 0 opcode s =
     (if n \<noteq> 0 then
        (if n = 32 then (0, reg t (fld opcode 0) AND 1 \<noteq> 0)
         else if n < 32 then LOGICAL_LSL_REG opcode n t else (0, False))
      else (reg t (fld opcode 0), C_FLAG t))"
    "ref_reg_shift 1 opcode s =
     (if n \<noteq> 0 then
        (if n = 32 then (0, reg t (fld opcode 0) AND 0x80000000 \<noteq> 0)
         else if n < 32 then LOGICAL_LSR_REG opcode n t else (0, False))
      else (reg t (fld opcode 0), C_FLAG t))"
    "ref_reg_shift 2 opcode s =
     (if n < 32 then (if n \<noteq> 0 then LOGICAL_ASR_REG opcode n t else (reg t (fld opcode 0), C_FLAG t))
      else if reg t (fld opcode 0) AND 0x80000000 \<noteq> 0 then (0xFFFFFFFF, True) else (0, False))"
proof -
  have c: "C_FLAG t = C_FLAG s" by (simp add: t_def rs_cycle_def)
  have big: "32 < n \<Longrightarrow> \<not> bit (v :: u32) (n - 1)" "32 \<le> n \<Longrightarrow> push_bit n v = 0"
    "32 \<le> n \<Longrightarrow> drop_bit n v = 0" for v
    using bit_imp_le_length [of v "n - 1"]
    by (auto simp: drop_bit_word_beyond intro!: bit_word_eqI simp: bit_simps)
  show "ref_reg_shift 0 opcode s =
     (if n \<noteq> 0 then
        (if n = 32 then (0, reg t (fld opcode 0) AND 1 \<noteq> 0)
         else if n < 32 then LOGICAL_LSL_REG opcode n t else (0, False))
      else (reg t (fld opcode 0), C_FLAG t))"
    using big by (auto simp: ref_reg_shift_def sr_of_def n_def [symmetric] t_def [symmetric] c
        shift_macros_ref [where c = "C_FLAG s"] and_bit_0)
  show "ref_reg_shift 1 opcode s =
     (if n \<noteq> 0 then
        (if n = 32 then (0, reg t (fld opcode 0) AND 0x80000000 \<noteq> 0)
         else if n < 32 then LOGICAL_LSR_REG opcode n t else (0, False))
      else (reg t (fld opcode 0), C_FLAG t))"
    using big by (auto simp: ref_reg_shift_def sr_of_def n_def [symmetric] t_def [symmetric] c
        shift_macros_ref [where c = "C_FLAG s"] and_bit_31)
  show "ref_reg_shift 2 opcode s =
     (if n < 32 then (if n \<noteq> 0 then LOGICAL_ASR_REG opcode n t else (reg t (fld opcode 0), C_FLAG t))
      else if reg t (fld opcode 0) AND 0x80000000 \<noteq> 0 then (0xFFFFFFFF, True) else (0, False))"
    by (auto simp: ref_reg_shift_def sr_of_def n_def [symmetric] t_def [symmetric] c
        shift_macros_ref [where c = "C_FLAG s"] and_bit_31 asr_all_ones)
qed

lemma rotr_mod_32: "word_rotr n v = word_rotr (n mod 32) v" for v :: u32
  by (rule bit_word_eqI) (auto simp: bit_simps mod_simps)

lemma rotr_0 [simp]: "word_rotr 0 v = v" for v :: u32
  by (rule bit_word_eqI) (auto simp: bit_simps)

text \<open>What the source computes for \<open>ROR\<close> by register: with a zero amount the carry is bit 31 of \<open>Rm\<close>.\<close>

definition src_ror_rs :: "u32 \<Rightarrow> 'p arm_state \<Rightarrow> u32 \<times> bool" where
  "src_ror_rs opcode s =
     (if rs_amount opcode s = 0
      then (reg (rs_cycle s) (fld opcode 0), bit (reg (rs_cycle s) (fld opcode 0)) 31)
      else ref_reg_shift 3 opcode s)"

lemma operand_ror_rs:
  fixes s :: "'p arm_state" and opcode :: u32
  defines "n \<equiv> rs_amount opcode s" and "t \<equiv> rs_cycle s"
  shows "src_ror_rs opcode s =
     (if n \<noteq> 0 then
        (let m = n mod 32 in
         if m \<noteq> 0 then LOGICAL_ROR_REG opcode m t
         else (reg t (fld opcode 0), reg t (fld opcode 0) AND 0x80000000 \<noteq> 0))
      else (reg t (fld opcode 0), reg t (fld opcode 0) AND 0x80000000 \<noteq> 0))"
proof -
  have "word_rotr n v = word_rotr (n mod 32) v" for v :: u32 by (rule rotr_mod_32)
  then show ?thesis
    by (auto simp: src_ror_rs_def ref_reg_shift_def sr_of_def n_def [symmetric] t_def [symmetric]
        shift_macros_ref(4) [where c = "C_FLAG s"] and_bit_31 Let_def)
qed

subsection \<open>The macro blocks\<close>

text \<open>The source shifts the second operand, for an arithmetic operation, by the same amounts.\<close>

lemma rs_cycle_fold: "set_reg 15 (reg (add_ticks 1 s) 15 + 4) (add_ticks 1 s) = rs_cycle s"
  by (simp add: rs_cycle_def)

lemmas rs_fold = Let_def rs_amount_def [symmetric] rs_cycle_fold rs_amount_after

lemma LOGICAL_imm_blocks:
  "LOGICAL_LSL_imm OPC OPC2 b opcode s = run_lop OPC OPC2 opcode (ref_imm_shift 0 opcode s) s"
  "LOGICAL_LSR_imm OPC OPC2 b opcode s = run_lop OPC OPC2 opcode (ref_imm_shift 1 opcode s) s"
  "LOGICAL_ASR_imm OPC OPC2 b opcode s = run_lop OPC OPC2 opcode (ref_imm_shift 2 opcode s) s"
  "LOGICAL_ROR_imm OPC OPC2 b opcode s = run_lop OPC OPC2 opcode (ref_imm_shift 3 opcode s) s"
  by (simp_all add: LOGICAL_LSL_imm_def LOGICAL_LSR_imm_def LOGICAL_ASR_imm_def LOGICAL_ROR_imm_def
      operand_imm_shift run_lop_def Let_def split_def del: One_nat_def split del: if_split cong: if_cong)

lemma LOGICAL_Rs_blocks:
  "LOGICAL_LSL_Rs OPC OPC2 b opcode s = run_lop OPC OPC2 opcode (ref_reg_shift 0 opcode s) (rs_cycle s)"
  "LOGICAL_LSR_Rs OPC OPC2 b opcode s = run_lop OPC OPC2 opcode (ref_reg_shift 1 opcode s) (rs_cycle s)"
  "LOGICAL_ASR_Rs OPC OPC2 b opcode s = run_lop OPC OPC2 opcode (ref_reg_shift 2 opcode s) (rs_cycle s)"
  "LOGICAL_ROR_Rs OPC OPC2 b opcode s = run_lop OPC OPC2 opcode (src_ror_rs opcode s) (rs_cycle s)"
  unfolding LOGICAL_LSL_Rs_def LOGICAL_LSR_Rs_def LOGICAL_ASR_Rs_def LOGICAL_ROR_Rs_def rs_fold
  by (simp_all add: operand_reg_shift operand_ror_rs run_lop_def Let_def split_def
      del: One_nat_def split del: if_split cong: if_cong)

lemma LOGICAL_IMM_block:
  "LOGICAL_IMM OPC OPC2 b opcode s = run_lop OPC OPC2 opcode (ref_rotated_imm opcode s) s"
  unfolding LOGICAL_IMM_def operand_rotated_imm run_lop_def Let_def split_def by (rule refl)

lemma LOGICAL_nobase_imm_blocks:
  "LOGICAL_nobase_LSL_imm OPC OPC2 b opcode s = run_nop OPC OPC2 opcode (ref_imm_shift 0 opcode s) s"
  "LOGICAL_nobase_LSR_imm OPC OPC2 b opcode s = run_nop OPC OPC2 opcode (ref_imm_shift 1 opcode s) s"
  "LOGICAL_nobase_ASR_imm OPC OPC2 b opcode s = run_nop OPC OPC2 opcode (ref_imm_shift 2 opcode s) s"
  "LOGICAL_nobase_ROR_imm OPC OPC2 b opcode s = run_nop OPC OPC2 opcode (ref_imm_shift 3 opcode s) s"
  by (simp_all add: LOGICAL_nobase_LSL_imm_def LOGICAL_nobase_LSR_imm_def LOGICAL_nobase_ASR_imm_def LOGICAL_nobase_ROR_imm_def
      operand_imm_shift run_nop_def Let_def split_def del: One_nat_def split del: if_split cong: if_cong)

lemma LOGICAL_nobase_Rs_blocks:
  "LOGICAL_nobase_LSL_Rs OPC OPC2 b opcode s = run_nop OPC OPC2 opcode (ref_reg_shift 0 opcode s) (rs_cycle s)"
  "LOGICAL_nobase_LSR_Rs OPC OPC2 b opcode s = run_nop OPC OPC2 opcode (ref_reg_shift 1 opcode s) (rs_cycle s)"
  "LOGICAL_nobase_ASR_Rs OPC OPC2 b opcode s = run_nop OPC OPC2 opcode (ref_reg_shift 2 opcode s) (rs_cycle s)"
  "LOGICAL_nobase_ROR_Rs OPC OPC2 b opcode s = run_nop OPC OPC2 opcode (src_ror_rs opcode s) (rs_cycle s)"
  unfolding LOGICAL_nobase_LSL_Rs_def LOGICAL_nobase_LSR_Rs_def LOGICAL_nobase_ASR_Rs_def LOGICAL_nobase_ROR_Rs_def rs_fold
  by (simp_all add: operand_reg_shift operand_ror_rs run_nop_def Let_def split_def
      del: One_nat_def split del: if_split cong: if_cong)

lemma LOGICAL_nobase_IMM_block:
  "LOGICAL_nobase_IMM OPC OPC2 b opcode s = run_nop OPC OPC2 opcode (ref_rotated_imm opcode s) s"
  unfolding LOGICAL_nobase_IMM_def operand_rotated_imm run_nop_def Let_def split_def by (rule refl)

lemma ARITHMETIC_imm_blocks:
  "ARITHMETIC_LSL_imm OPC OPC2 b opcode s = run_aop OPC OPC2 opcode (ref_imm_shift 0 opcode s) s"
  "ARITHMETIC_LSR_imm OPC OPC2 b opcode s = run_aop OPC OPC2 opcode (ref_imm_shift 1 opcode s) s"
  "ARITHMETIC_ASR_imm OPC OPC2 b opcode s = run_aop OPC OPC2 opcode (ref_imm_shift 2 opcode s) s"
  "ARITHMETIC_ROR_imm OPC OPC2 b opcode s = run_aop OPC OPC2 opcode (ref_imm_shift 3 opcode s) s"
  by (simp_all add: ARITHMETIC_LSL_imm_def ARITHMETIC_LSR_imm_def ARITHMETIC_ASR_imm_def ARITHMETIC_ROR_imm_def
      operand_imm_shift run_aop_def Let_def split_def arith_macros_fst if_distrib [where f = fst] del: One_nat_def split del: if_split cong: if_cong)

lemma ARITHMETIC_Rs_blocks:
  "ARITHMETIC_LSL_Rs OPC OPC2 b opcode s = run_aop OPC OPC2 opcode (ref_reg_shift 0 opcode s) (rs_cycle s)"
  "ARITHMETIC_LSR_Rs OPC OPC2 b opcode s = run_aop OPC OPC2 opcode (ref_reg_shift 1 opcode s) (rs_cycle s)"
  "ARITHMETIC_ASR_Rs OPC OPC2 b opcode s = run_aop OPC OPC2 opcode (ref_reg_shift 2 opcode s) (rs_cycle s)"
  "ARITHMETIC_ROR_Rs OPC OPC2 b opcode s = run_aop OPC OPC2 opcode (src_ror_rs opcode s) (rs_cycle s)"
  unfolding ARITHMETIC_LSL_Rs_def ARITHMETIC_LSR_Rs_def ARITHMETIC_ASR_Rs_def ARITHMETIC_ROR_Rs_def rs_fold
  by (simp_all add: operand_reg_shift operand_ror_rs run_aop_def Let_def split_def arith_macros_fst if_distrib [where f = fst]
      del: One_nat_def split del: if_split cong: if_cong)

lemma ARITHMETIC_IMM_block:
  "ARITHMETIC_IMM OPC OPC2 b opcode s = run_aop OPC OPC2 opcode (ref_rotated_imm opcode s) s"
  unfolding ARITHMETIC_IMM_def Let_def operand_rotated_imm_arith [where s = s] run_aop_def by (rule refl)

end
