(* ===== verification/Arm7_Misc.thy ===== *)
theory Arm7_Misc
  imports Arm7_Reference
begin

unbundle bit_operations_syntax

section \<open>Multiplies, status-register moves, swaps, branches and software interrupts\<close>

text \<open>
  Models the single \<open>case\<close> blocks of \<^verbatim>\<open>core/hw/arm7/arm-new.h\<close> outside the data-processing
  macros and the transfers: the multiplies (hash \<open>0x009\<close> to \<open>0x0f9\<close>), \<open>MRS\<close>, \<open>MSR\<close> with a
  register and with an immediate, \<open>SWP\<close>, \<open>SWPB\<close>, \<open>B\<close>, \<open>BL\<close> and \<open>SWI\<close>.  A definition has the
  name of the instruction in the source's comment.  The lemmas state the products as integers, what
  \<open>MSR\<close> can change in user mode, and the branch targets.
\<close>

subsection \<open>Multiplies\<close>

text \<open>The early-termination timing shared by the multiplies: \<open>n\<close> ticks for one significant byte.\<close>

definition mult_ticks :: "int \<Rightarrow> u32 \<Rightarrow> 'p arm_state \<Rightarrow> 'p arm_state" where
  "mult_ticks n rs s =
     (if rs AND 0xFFFFFF00 = 0 then add_ticks n s
      else if rs AND 0xFFFF0000 = 0 then add_ticks (n + 1) s
      else if rs AND 0xFF000000 = 0 then add_ticks (n + 2) s
      else add_ticks (n + 3) s)"

definition flip_neg :: "u32 \<Rightarrow> u32" where
  "flip_neg rs = (if sint rs < 0 then NOT rs else rs)"

definition MUL :: "'p arm_op" where
  "MUL b opcode s =
     (let dest = fld opcode 16;
          mult = fld opcode 0;
          rs = reg s (fld opcode 8);
          s = set_reg dest (reg s mult * rs) s
      in mult_ticks 2 (flip_neg rs) s)"

definition MULS :: "'p arm_op" where
  "MULS b opcode s =
     (let dest = fld opcode 16;
          mult = fld opcode 0;
          rs = reg s (fld opcode 8);
          s = set_reg dest (reg s mult * rs) s;
          s = set_N (reg s dest AND 0x80000000 \<noteq> 0) s;
          s = set_Z (if reg s dest \<noteq> 0 then False else True) s
      in mult_ticks 2 (flip_neg rs) s)"

definition MLA :: "'p arm_op" where
  "MLA b opcode s =
     (let dest = fld opcode 16;
          mult = fld opcode 0;
          rs = reg s (fld opcode 8);
          s = set_reg dest (reg s mult * rs + reg s (fld opcode 12)) s
      in mult_ticks 3 (flip_neg rs) s)"

definition MLAS :: "'p arm_op" where
  "MLAS b opcode s =
     (let dest = fld opcode 16;
          mult = fld opcode 0;
          rs = reg s (fld opcode 8);
          s = set_reg dest (reg s mult * rs + reg s (fld opcode 12)) s;
          s = set_N (reg s dest AND 0x80000000 \<noteq> 0) s;
          s = set_Z (if reg s dest \<noteq> 0 then False else True) s
      in mult_ticks 3 (flip_neg rs) s)"

text \<open>The 64-bit product split over \<open>destLo\<close> and \<open>destHi\<close>, in this order.\<close>

definition set_long :: "nat \<Rightarrow> nat \<Rightarrow> u64 \<Rightarrow> 'p arm_state \<Rightarrow> 'p arm_state" where
  "set_long destLo destHi t s =
     (let s = set_reg destLo (ucast t) s in set_reg destHi (ucast (drop_bit 32 t)) s)"

definition UMULL :: "'p arm_op" where
  "UMULL b opcode s =
     (let umult = reg s (fld opcode 0);
          usource = reg s (fld opcode 8);
          destLo = fld opcode 12;
          destHi = fld opcode 16;
          uTemp = (ucast umult :: u64) * ucast usource;
          s = set_long destLo destHi uTemp s
      in mult_ticks 2 usource s)"

definition UMULLS :: "'p arm_op" where
  "UMULLS b opcode s =
     (let umult = reg s (fld opcode 0);
          usource = reg s (fld opcode 8);
          destLo = fld opcode 12;
          destHi = fld opcode 16;
          uTemp = (ucast umult :: u64) * ucast usource;
          s = set_long destLo destHi uTemp s;
          s = set_Z (if uTemp \<noteq> 0 then False else True) s;
          s = set_N (reg s destHi AND 0x80000000 \<noteq> 0) s
      in mult_ticks 2 usource s)"

definition UMLAL :: "'p arm_op" where
  "UMLAL b opcode s =
     (let umult = reg s (fld opcode 0);
          usource = reg s (fld opcode 8);
          destLo = fld opcode 12;
          destHi = fld opcode 16;
          uTemp = (ucast (reg s destHi) :: u64);
          uTemp = push_bit 32 uTemp;
          uTemp = uTemp OR ucast (reg s destLo);
          uTemp = uTemp + ucast umult * ucast usource;
          s = set_long destLo destHi uTemp s
      in mult_ticks 3 usource s)"

definition UMLALS :: "'p arm_op" where
  "UMLALS b opcode s =
     (let umult = reg s (fld opcode 0);
          usource = reg s (fld opcode 8);
          destLo = fld opcode 12;
          destHi = fld opcode 16;
          uTemp = (ucast (reg s destHi) :: u64);
          uTemp = push_bit 32 uTemp;
          uTemp = uTemp OR ucast (reg s destLo);
          uTemp = uTemp + ucast umult * ucast usource;
          s = set_long destLo destHi uTemp s;
          s = set_Z (if uTemp \<noteq> 0 then False else True) s;
          s = set_N (reg s destHi AND 0x80000000 \<noteq> 0) s
      in mult_ticks 3 usource s)"

text \<open>An \<open>s64\<close> is the same 64 bits; \<open>(s32)\<close> followed by widening is \<open>scast\<close>.\<close>

definition SMULL :: "'p arm_op" where
  "SMULL b opcode s =
     (let destLo = fld opcode 12;
          destHi = fld opcode 16;
          rs = reg s (fld opcode 8);
          m = (scast (reg s (fld opcode 0)) :: u64);
          sTemp = m * scast rs;
          s = set_long destLo destHi sTemp s
      in mult_ticks 2 (flip_neg rs) s)"

definition SMULLS :: "'p arm_op" where
  "SMULLS b opcode s =
     (let destLo = fld opcode 12;
          destHi = fld opcode 16;
          rs = reg s (fld opcode 8);
          m = (scast (reg s (fld opcode 0)) :: u64);
          sTemp = m * scast rs;
          s = set_long destLo destHi sTemp s;
          s = set_Z (if sTemp \<noteq> 0 then False else True) s;
          s = set_N (sint sTemp < 0) s
      in mult_ticks 2 (flip_neg rs) s)"

definition SMLAL :: "'p arm_op" where
  "SMLAL b opcode s =
     (let destLo = fld opcode 12;
          destHi = fld opcode 16;
          rs = reg s (fld opcode 8);
          m = (scast (reg s (fld opcode 0)) :: u64);
          sTemp = (ucast (reg s destHi) :: u64);
          sTemp = push_bit 32 sTemp;
          sTemp = sTemp OR ucast (reg s destLo);
          sTemp = sTemp + m * scast rs;
          s = set_long destLo destHi sTemp s
      in mult_ticks 3 (flip_neg rs) s)"

definition SMLALS :: "'p arm_op" where
  "SMLALS b opcode s =
     (let destLo = fld opcode 12;
          destHi = fld opcode 16;
          rs = reg s (fld opcode 8);
          m = (scast (reg s (fld opcode 0)) :: u64);
          sTemp = (ucast (reg s destHi) :: u64);
          sTemp = push_bit 32 sTemp;
          sTemp = sTemp OR ucast (reg s destLo);
          sTemp = sTemp + m * scast rs;
          s = set_long destLo destHi sTemp s;
          s = set_Z (if sTemp \<noteq> 0 then False else True) s;
          s = set_N (sint sTemp < 0) s
      in mult_ticks 3 (flip_neg rs) s)"

subsection \<open>Status registers\<close>

definition MRS_CPSR :: "'p arm_op" where
  "MRS_CPSR b opcode s = (let s = CPUUpdateCPSR s in set_reg (fld opcode 12) (reg s 16) s)"

definition MRS_SPSR :: "'p arm_op" where
  "MRS_SPSR b opcode s = set_reg (fld opcode 12) (reg s 17) s"

text \<open>The three control fields and the flag field of an \<open>MSR\<close>, copied under the opcode's field mask.\<close>

definition msr_control :: "u32 \<Rightarrow> u32 \<Rightarrow> u32 \<Rightarrow> u32" where
  "msr_control opcode value newValue =
     (let newValue = (if opcode AND 0x00010000 \<noteq> 0
            then (newValue AND 0xFFFFFF00) OR (value AND 0x000000FF) else newValue);
          newValue = (if opcode AND 0x00020000 \<noteq> 0
            then (newValue AND 0xFFFF00FF) OR (value AND 0x0000FF00) else newValue)
      in (if opcode AND 0x00040000 \<noteq> 0
            then (newValue AND 0xFF00FFFF) OR (value AND 0x00FF0000) else newValue))"

definition msr_flags :: "u32 \<Rightarrow> u32 \<Rightarrow> u32 \<Rightarrow> u32" where
  "msr_flags opcode value newValue =
     (if opcode AND 0x00080000 \<noteq> 0
      then (newValue AND 0x00FFFFFF) OR (value AND 0xFF000000) else newValue)"

definition msr_cpsr :: "u32 \<Rightarrow> u32 \<Rightarrow> 'p arm_state \<Rightarrow> 'p arm_state" where
  "msr_cpsr opcode value s =
     (let newValue = reg s 16;
          newValue = (if armMode s > 0x10 then msr_control opcode value newValue else newValue);
          newValue = msr_flags opcode value newValue;
          newValue = newValue OR 0x10;
          s = CPUSwitchMode (newValue AND 0x1f) False s;
          s = set_reg 16 newValue s
      in CPUUpdateFlags s)"

definition msr_spsr :: "u32 \<Rightarrow> u32 \<Rightarrow> 'p arm_state \<Rightarrow> 'p arm_state" where
  "msr_spsr opcode value s =
     (if armMode s > 0x10 \<and> armMode s < 0x1f
      then set_reg 17 (msr_flags opcode value (msr_control opcode value (reg s 17))) s
      else s)"

definition MSR_CPSR_reg :: "'p arm_op" where
  "MSR_CPSR_reg b opcode s =
     (let s = CPUUpdateCPSR s; value = reg s (fld opcode 0) in msr_cpsr opcode value s)"

definition MSR_SPSR_reg :: "'p arm_op" where
  "MSR_SPSR_reg b opcode s = (let value = reg s (fld opcode 0) in msr_spsr opcode value s)"

definition MSR_CPSR_imm :: "'p arm_op" where
  "MSR_CPSR_imm b opcode s =
     (let s = CPUUpdateCPSR s;
          value = opcode AND 0xFF;
          shift = unat (drop_bit 7 (opcode AND 0xF00));
          value = (if shift \<noteq> 0 then ROR_IMM_MSR opcode shift else value)
      in msr_cpsr opcode value s)"

definition MSR_SPSR_imm :: "'p arm_op" where
  "MSR_SPSR_imm b opcode s =
     (let value = opcode AND 0xFF;
          shift = unat (drop_bit 7 (opcode AND 0xF00));
          value = (if shift \<noteq> 0 then ROR_IMM_MSR opcode shift else value)
      in msr_spsr opcode value s)"

subsection \<open>Swaps, branches, software interrupts\<close>

definition SWP :: "'p arm_op" where
  "SWP b opcode s =
     (let address = reg s (fld opcode 16);
          (temp, s) = CPUReadMemory b address s;
          s = CPUWriteMemory b address (reg s (fld opcode 0)) s
      in set_reg (fld opcode 12) temp s)"

definition SWPB :: "'p arm_op" where
  "SWPB b opcode s =
     (let address = reg s (fld opcode 16);
          (temp, s) = CPUReadByte b address s;
          s = CPUWriteByte b address (reg s (fld opcode 0)) s
      in set_reg (fld opcode 12) temp s)"

definition branch_offset :: "u32 \<Rightarrow> u32" where
  "branch_offset opcode =
     (let offset = opcode AND 0x00FFFFFF;
          offset = (if offset AND 0x00800000 \<noteq> 0 then offset OR 0xFF000000 else offset)
      in push_bit 2 offset)"

definition ARM_B :: "'p arm_op" where
  "ARM_B b opcode s =
     (let s = add_ticks 3 s;
          s = set_reg 15 (reg s 15 + branch_offset opcode) s;
          s = set_reg R15_ARM_NEXT (reg s 15) s
      in set_reg 15 (reg s 15 + 4) s)"

definition ARM_BL :: "'p arm_op" where
  "ARM_BL b opcode s =
     (let s = add_ticks 3 s;
          s = set_reg 14 (reg s 15 - 4) s;
          s = set_reg 15 (reg s 15 + branch_offset opcode) s;
          s = set_reg R15_ARM_NEXT (reg s 15) s
      in set_reg 15 (reg s 15 + 4) s)"

definition ARM_SWI :: "'p arm_op" where
  "ARM_SWI b opcode s =
     (let s = add_ticks 3 s in CPUSoftwareInterrupt (opcode AND 0x00FFFFFF) s)"

subsection \<open>Products\<close>

lemma split_u64: "uint (ucast (drop_bit 32 t) :: u32) * 2 ^ 32 + uint (ucast t :: u32) = uint t" for t :: u64
proof -
  have "uint t div 2 ^ 32 < 2 ^ 32"
    using uint_lt2p [of t] by simp
  moreover have "uint (ucast (drop_bit 32 t) :: u32) = uint t div 2 ^ 32 mod 2 ^ 32"
    by (simp add: unsigned_ucast_eq unsigned_drop_bit_eq drop_bit_eq_div take_bit_eq_mod uint_div)
  ultimately have hi: "uint (ucast (drop_bit 32 t) :: u32) = uint t div 2 ^ 32"
    by (simp add: pos_imp_zdiv_nonneg_iff)
  have lo: "uint (ucast t :: u32) = uint t mod 2 ^ 32"
    by (simp add: unsigned_ucast_eq take_bit_eq_mod)
  show ?thesis unfolding hi lo by simp
qed

lemma sint_u64_cases: "sint t = (if uint t < 2 ^ 63 then uint t else uint t - 2 ^ 64)" for t :: u64
proof -
  have s: "sint t = (uint t + 2 ^ 63) mod 2 ^ 64 - 2 ^ 63"
    by (simp add: sint_uint signed_take_bit_eq_take_bit_shift take_bit_eq_mod)
  have "(uint t + 2 ^ 63) mod 2 ^ 64 = (if uint t < 2 ^ 63 then uint t + 2 ^ 63 else uint t + 2 ^ 63 - 2 ^ 64)"
    using uint_lt2p [of t] uint_ge_0 [of t] by (auto intro!: int_mod_pos_eq [where q = 1])
  then show ?thesis unfolding s by simp
qed

lemma split_s64: "sint (ucast (drop_bit 32 t) :: u32) * 2 ^ 32 + uint (ucast t :: u32) = sint t" for t :: u64
  using split_u64 [of t] uint_u32_less [of "ucast t"] uint_ge_0 [of "ucast t :: u32"]
  unfolding sint_cases sint_u64_cases bit31_uint
  by (simp split: if_splits) (use uint_ge_0 [of "ucast t :: u32"] in linarith)

text \<open>The 64-bit value a pair of registers holds.\<close>

definition long_of :: "nat \<Rightarrow> nat \<Rightarrow> 'p arm_state \<Rightarrow> u64" where
  "long_of destLo destHi s = push_bit 32 (ucast (reg s destHi)) OR ucast (reg s destLo)"

lemma join_u64: "push_bit 32 (ucast (ucast (drop_bit 32 t) :: u32)) OR ucast (ucast t :: u32) = t" for t :: u64
proof (rule bit_word_eqI)
  fix k assume "k < LENGTH(64)"
  then show "bit (push_bit 32 (ucast (ucast (drop_bit 32 t) :: u32)) OR ucast (ucast t :: u32) :: u64) k = bit t k"
    by (cases "k < 32") (auto simp: bit_simps)
qed

lemma long_of_set_long: "lo \<noteq> hi \<Longrightarrow> long_of lo hi (set_long lo hi t s) = t"
  by (simp add: long_of_def set_long_def Let_def join_u64)

lemma reg_mult_ticks [simp]: "reg (mult_ticks n rs s) = reg s"
  by (simp add: mult_ticks_def)

lemma flags_mult_ticks [simp]:
  "N_FLAG (mult_ticks n rs s) = N_FLAG s" "Z_FLAG (mult_ticks n rs s) = Z_FLAG s"
  "C_FLAG (mult_ticks n rs s) = C_FLAG s" "V_FLAG (mult_ticks n rs s) = V_FLAG s"
  by (simp_all add: mult_ticks_def)

lemma long_of_frame [simp]:
  "long_of lo hi (mult_ticks n rs s) = long_of lo hi s"
  "lo \<noteq> 45 \<Longrightarrow> hi \<noteq> 45 \<Longrightarrow> long_of lo hi (set_N v s) = long_of lo hi s"
  "lo \<noteq> 45 \<Longrightarrow> hi \<noteq> 45 \<Longrightarrow> long_of lo hi (set_Z v s) = long_of lo hi s"
  by (simp_all add: long_of_def)

lemma uint_prod: "uint (ucast x * ucast y :: u64) = uint x * uint y" for x y :: u32
proof -
  have "uint x * uint y \<le> 4294967295 * 4294967295"
    using uint_u32_less [of x] uint_u32_less [of y] by (intro mult_mono) auto
  then have "uint x * uint y < 2 ^ 64" by simp
  moreover have "uint (ucast v :: u64) = uint v" for v :: u32
    by (simp add: unsigned_ucast_eq take_bit_int_eq_self_iff) (use uint_u32_less [of v] in linarith)
  ultimately show ?thesis by (simp add: uint_word_ariths)
qed

lemma sint_prod: "sint (scast x * scast y :: u64) = sint x * sint y" for x y :: u32
proof -
  have "\<bar>sint x\<bar> \<le> 2 ^ 31" "\<bar>sint y\<bar> \<le> 2 ^ 31"
    using sint_range_size [of x] sint_range_size [of y] by (auto simp: word_size)
  then have "\<bar>sint x\<bar> * \<bar>sint y\<bar> \<le> 2 ^ 31 * 2 ^ 31" by (intro mult_mono) auto
  then have b: "\<bar>sint x * sint y\<bar> \<le> 2 ^ 62" by (simp add: abs_mult)
  have "(scast x * scast y :: u64) = word_of_int (sint x * sint y)"
    by simp
  then have "sint (scast x * scast y :: u64) = signed_take_bit 63 (sint x * sint y)"
    by (simp only: sint_sbintrunc') simp
  then show ?thesis
    using b by (simp add: signed_take_bit_int_eq_self)
qed

lemma bit63_sign: "sint t < 0 \<longleftrightarrow> bit t 63" for t :: u64
  using bit_last_iff [of t] by simp

lemma high_word_sign: "reg (set_long lo hi t s) hi AND 0x80000000 = 0 \<longleftrightarrow> \<not> bit t 63"
  by (simp add: set_long_def Let_def and_bit_31 bit_simps)

lemma flag_set_long [simp]:
  "lo \<noteq> 45 \<Longrightarrow> hi \<noteq> 45 \<Longrightarrow> C_FLAG (set_long lo hi t s) = C_FLAG s"
  "lo \<noteq> 45 \<Longrightarrow> hi \<noteq> 45 \<Longrightarrow> V_FLAG (set_long lo hi t s) = V_FLAG s"
  by (simp_all add: set_long_def Let_def)

definition long_flags_ok :: "u32 \<Rightarrow> 'p arm_state \<Rightarrow> 'p arm_state \<Rightarrow> 'p arm_state \<Rightarrow> bool" where
  "long_flags_ok opcode s plain flagged \<longleftrightarrow>
     (let lo = fld opcode 12; hi = fld opcode 16; t = long_of lo hi plain
      in long_of lo hi flagged = t \<and> N_FLAG flagged = bit t 63 \<and> (Z_FLAG flagged \<longleftrightarrow> t = 0)
         \<and> C_FLAG flagged = C_FLAG s \<and> V_FLAG flagged = V_FLAG s)"

subsection \<open>Status registers in user mode, branch targets\<close>

lemma bit_msr_consts:
  "bit (0x00FFFFFF :: u32) k \<longleftrightarrow> k < 24" "k < 32 \<Longrightarrow> bit (0xFF000000 :: u32) k \<longleftrightarrow> 24 \<le> k"
proof -
  have "(0xFF000000 :: u32) = NOT 0x00FFFFFF" by simp
  then show "k < 32 \<Longrightarrow> bit (0xFF000000 :: u32) k \<longleftrightarrow> 24 \<le> k"
    using bit_const_0xffffff [of k] by (simp only: bit_not_iff) auto
qed (rule bit_const_0xffffff)

lemma bit_msr_flags:
  "k < 32 \<Longrightarrow> bit (msr_flags opcode v w) k = (if opcode AND 0x00080000 \<noteq> 0 \<and> 24 \<le> k then bit v k else bit w k)"
  by (auto simp: msr_flags_def bit_simps bit_msr_consts simp del: bit_numeral_word_iff)

lemma msr_user_value:
  assumes "armMode s = 0x10"
  shows "(msr_flags opcode v (reg (CPUUpdateCPSR s) 16) OR 0x10) AND 0x1f = 0x10" (is "(?n OR 0x10) AND 0x1f = 0x10")
proof (rule bit_word_eqI)
  fix k assume "k < LENGTH(32)"
  then have "bit ?n k \<Longrightarrow> k < 5 \<Longrightarrow> k = 4"
    using assms by (simp add: bit_msr_flags cpsr_bits word_bits del: bit_numeral_word_iff)
  then show "bit ((?n OR 0x10) AND 0x1f) k = bit (0x10 :: u32) k"
    by (auto simp: bit_simps word_bits simp del: bit_numeral_word_iff)
qed

lemma msr_cpsr_user:
  assumes "armMode s = 0x10" "arm_inv s" "c = CPUUpdateCPSR s" and t_def: "t = msr_cpsr opcode v c"
  shows "armMode t = 0x10" "armIrqEnable t = armIrqEnable s" "armFiqEnable t = armFiqEnable s"
    "\<And>r. r \<le> 15 \<Longrightarrow> reg t r = reg s r"
    "\<And>k. 28 \<le> k \<Longrightarrow> k < 32 \<Longrightarrow>
       bit (reg t 45) k = (if opcode AND 0x00080000 \<noteq> 0 then bit v k else bit (reg s 45) k)"
proof -
  let ?n = "msr_flags opcode v (reg (CPUUpdateCPSR s) 16) OR 0x10"
  let ?w = "CPUSwitchMode 0x10 False c"
  have valid: "valid_mode 0x10" by (simp add: valid_mode_def)
  have t: "t = CPUUpdateFlags (set_reg 16 ?n ?w)"
    using assms(1,3) msr_user_value [of s opcode v] by (simp add: t_def msr_cpsr_def Let_def)
  have n: "bit ?n k = (k = 4 \<or> bit (msr_flags opcode v (reg (CPUUpdateCPSR s) 16)) k)" for k
    by (auto simp: bit_or_iff word_bits simp del: bit_numeral_word_iff)
  show "armMode t = 0x10" by (simp add: t switch_status [OF valid])
  show "armIrqEnable t = armIrqEnable s" "armFiqEnable t = armFiqEnable s"
    using assms(2) by (auto simp: t n bit_msr_flags assms(3) cpsr_bits arm_inv_def)
  show "reg t r = reg s r" if "r \<le> 15" for r
  proof -
    have "phys ?w 0x10 r = phys s 0x10 r"
      using that assms(1,3) switch_phys [of c "0x10" "0x10" r False] by (simp add: valid_mode_def)
    then show ?thesis
      using that assms(1) by (simp add: t phys_def same_bank_def user_mode_def switch_status [OF valid] split: if_splits)
  qed
  show "bit (reg t 45) k = (if opcode AND 0x00080000 \<noteq> 0 then bit v k else bit (reg s 45) k)"
    if "28 \<le> k" "k < 32" for k
    using that by (simp add: t update_flags_45 n bit_msr_flags assms(3) cpsr_bits)
qed

lemma branch_offset_scast: "branch_offset opcode = push_bit 2 (scast (ucast opcode :: 24 word))"
proof -
  have m: "(0x00FFFFFF :: u32) = mask 24" "(0xFF000000 :: u32) = push_bit 24 (mask 8)"
    by (simp_all add: mask_eq_exp_minus_1)
  have c: "(opcode AND mask 24) AND 0x00800000 \<noteq> 0 \<longleftrightarrow> bit opcode 23"
    using and_exp_eq_0_iff_not_bit [of "opcode AND mask 24" 23] by (simp add: bit_simps)
  show ?thesis
    unfolding branch_offset_def Let_def m c
  proof (rule bit_word_eqI)
    fix n assume "n < LENGTH(32)"
    then show "bit (push_bit 2 (if bit opcode 23 then (opcode AND mask 24) OR push_bit 24 (mask 8) else opcode AND mask 24)) n
        = bit (push_bit 2 (scast (ucast opcode :: 24 word)) :: u32) n"
      by (cases "n = 25") (auto simp: bit_simps min_def split: if_splits)
  qed
qed

lemma branch_offset_int: "branch_offset opcode = word_of_int (4 * sint (ucast opcode :: 24 word))"
  by (simp add: branch_offset_scast push_bit_eq_mult)

subsection \<open>Properties\<close>

text \<open>
  Property C6: a long multiply leaves in its register pair exactly the 64-bit product (unsigned or
  signed) of \<open>Rm\<close> and \<open>Rs\<close>, and a multiply-accumulate adds that product to the old pair modulo \<open>2^64\<close>.
\<close>

theorem long_multiply_products:
  assumes "fld opcode 12 \<noteq> fld opcode 16"
  shows "uint (long_of (fld opcode 12) (fld opcode 16) (UMULL b opcode s))
      = uint (reg s (fld opcode 0)) * uint (reg s (fld opcode 8))
    \<and> sint (long_of (fld opcode 12) (fld opcode 16) (SMULL b opcode s))
      = sint (reg s (fld opcode 0)) * sint (reg s (fld opcode 8))
    \<and> long_of (fld opcode 12) (fld opcode 16) (UMLAL b opcode s)
      = word_of_int (uint (long_of (fld opcode 12) (fld opcode 16) s)
          + uint (reg s (fld opcode 0)) * uint (reg s (fld opcode 8)))
    \<and> long_of (fld opcode 12) (fld opcode 16) (SMLAL b opcode s)
      = word_of_int (sint (long_of (fld opcode 12) (fld opcode 16) s)
          + sint (reg s (fld opcode 0)) * sint (reg s (fld opcode 8)))"
proof (intro conjI)
  note d = UMULL_def SMULL_def UMLAL_def SMLAL_def Let_def long_of_frame long_of_set_long [OF assms]
  let ?L = "long_of (fld opcode 12) (fld opcode 16)"
  show "uint (?L (UMULL b opcode s)) = uint (reg s (fld opcode 0)) * uint (reg s (fld opcode 8))"
    unfolding d by (rule uint_prod)
  show "sint (?L (SMULL b opcode s)) = sint (reg s (fld opcode 0)) * sint (reg s (fld opcode 8))"
    unfolding d by (rule sint_prod)
  show "?L (UMLAL b opcode s)
      = word_of_int (uint (?L s) + uint (reg s (fld opcode 0)) * uint (reg s (fld opcode 8)))"
    unfolding d by (simp add: long_of_def)
  show "?L (SMLAL b opcode s)
      = word_of_int (sint (?L s) + sint (reg s (fld opcode 0)) * sint (reg s (fld opcode 8)))"
    unfolding d by (simp add: long_of_def)
qed

theorem long_multiply_products_witness:
  "uint (long_of 0 1 (UMULL flat_bus 0xE0810392 (set_reg 2 0xFFFFFFFF (set_reg 3 0xFFFFFFFF arm_zero))))
     = 0xFFFFFFFE00000001
   \<and> sint (long_of 0 1 (SMULL flat_bus 0xE0C10392 (set_reg 2 0xFFFFFFFF (set_reg 3 5 arm_zero)))) = - 5"
proof -
  have f: "fld 0xE0810392 0 = 2" "fld 0xE0810392 8 = 3" "fld 0xE0810392 12 = 0" "fld 0xE0810392 16 = 1"
    "fld 0xE0C10392 0 = 2" "fld 0xE0C10392 8 = 3" "fld 0xE0C10392 12 = 0" "fld 0xE0C10392 16 = 1"
    by (code_simp)+
  have "sint (0xFFFFFFFF :: u32) = - 1" "sint (5 :: u32) = 5" by simp_all
  then show ?thesis
    using long_multiply_products [of "0xE0810392" flat_bus "set_reg 2 0xFFFFFFFF (set_reg 3 0xFFFFFFFF arm_zero)"]
      long_multiply_products [of "0xE0C10392" flat_bus "set_reg 2 0xFFFFFFFF (set_reg 3 5 arm_zero)"]
    by (simp add: f)
qed

text \<open>
  The flag-setting forms of the multiplies write the same result as the plain forms,
  set N to its top bit and Z to its being zero, and keep C and V.
\<close>

theorem long_multiply_flags:
  assumes "fld opcode 12 \<noteq> fld opcode 16"
  shows "long_flags_ok opcode s (UMULL b opcode s) (UMULLS b opcode s)
    \<and> long_flags_ok opcode s (UMLAL b opcode s) (UMLALS b opcode s)
    \<and> long_flags_ok opcode s (SMULL b opcode s) (SMULLS b opcode s)
    \<and> long_flags_ok opcode s (SMLAL b opcode s) (SMLALS b opcode s)"
proof (intro conjI)
  note d = long_flags_ok_def Let_def if_cancel long_of_frame long_of_set_long [OF assms]
  have z: "(if t \<noteq> 0 then False else True) \<longleftrightarrow> t = 0" for t :: u64 by simp
  show "long_flags_ok opcode s (UMULL b opcode s) (UMULLS b opcode s)"
    using assms unfolding UMULL_def UMULLS_def d z by (simp add: d high_word_sign)
  show "long_flags_ok opcode s (UMLAL b opcode s) (UMLALS b opcode s)"
    using assms unfolding UMLAL_def UMLALS_def d z by (simp add: d high_word_sign)
  show "long_flags_ok opcode s (SMULL b opcode s) (SMULLS b opcode s)"
    using assms unfolding SMULL_def SMULLS_def d z by (simp add: d bit63_sign)
  show "long_flags_ok opcode s (SMLAL b opcode s) (SMLALS b opcode s)"
    using assms unfolding SMLAL_def SMLALS_def d z by (simp add: d bit63_sign)
qed

theorem long_multiply_flags_witness:
  "long_flags_ok 0xE0910392 (set_reg 2 7 arm_zero)
     (UMULL flat_bus 0xE0910392 (set_reg 2 7 arm_zero)) (UMULLS flat_bus 0xE0910392 (set_reg 2 7 arm_zero))"
proof -
  have "fld 0xE0910392 12 \<noteq> fld 0xE0910392 16" by code_simp
  from long_multiply_flags [OF this, of "set_reg 2 7 arm_zero" flat_bus] show ?thesis by simp
qed

text \<open>
  Property C7: in user mode \<open>MSR CPSR\<close>, with a register or an immediate and any field mask, cannot leave user
  mode, cannot change either interrupt mask and changes no register; only the condition flags take the
  new value, and only when the flag field is selected.
\<close>

theorem msr_confined_in_user_mode:
  assumes "armMode s = 0x10" "arm_inv s"
  shows "\<forall>t \<in> {MSR_CPSR_reg b opcode s, MSR_CPSR_imm b opcode s}.
    armMode t = 0x10 \<and> armIrqEnable t = armIrqEnable s \<and> armFiqEnable t = armFiqEnable s
    \<and> (\<forall>r \<le> 15. reg t r = reg s r)
    \<and> (opcode AND 0x00080000 = 0 \<longrightarrow>
        N_FLAG t = N_FLAG s \<and> Z_FLAG t = Z_FLAG s \<and> C_FLAG t = C_FLAG s \<and> V_FLAG t = V_FLAG s)"
proof -
  have "armMode t = 0x10 \<and> armIrqEnable t = armIrqEnable s \<and> armFiqEnable t = armFiqEnable s
    \<and> (\<forall>r \<le> 15. reg t r = reg s r)
    \<and> (opcode AND 0x00080000 = 0 \<longrightarrow>
        N_FLAG t = N_FLAG s \<and> Z_FLAG t = Z_FLAG s \<and> C_FLAG t = C_FLAG s \<and> V_FLAG t = V_FLAG s)"
    if "t = msr_cpsr opcode v (CPUUpdateCPSR s)" for t v
    using msr_cpsr_user [OF assms refl that] by (auto simp: flag_defs)
  moreover have "\<exists>v. t = msr_cpsr opcode v (CPUUpdateCPSR s)"
    if "t \<in> {MSR_CPSR_reg b opcode s, MSR_CPSR_imm b opcode s}" for t
    using that by (auto simp only: MSR_CPSR_reg_def MSR_CPSR_imm_def Let_def)
  ultimately show ?thesis by blast
qed

theorem msr_confined_in_user_mode_witness:
  "armMode (MSR_CPSR_imm flat_bus 0xE321F013 (arm_zero\<lparr>armMode := 0x10\<rparr>)) = 0x10"
  using msr_confined_in_user_mode [of "arm_zero\<lparr>armMode := 0x10\<rparr>" flat_bus "0xE321F013"]
  by (simp add: arm_zero_def arm_inv_def valid_mode_def)

text \<open>
  \<open>B\<close> and \<open>BL\<close> reach the address that lies the signed 24-bit word offset of the opcode away from
  the program counter as read, and \<open>BL\<close> leaves in \<open>R14\<close> the address of the instruction after it (the program counter
  reads 8 bytes ahead of the branch).
\<close>

theorem branch_targets:
  "armNextPC (ARM_B b opcode s) = reg s 15 + word_of_int (4 * sint (ucast opcode :: 24 word))
   \<and> armNextPC (ARM_BL b opcode s) = reg s 15 + word_of_int (4 * sint (ucast opcode :: 24 word))
   \<and> reg (ARM_BL b opcode s) 14 = reg s 15 - 4
   \<and> reg (ARM_B b opcode s) 15 = armNextPC (ARM_B b opcode s) + 4
   \<and> reg (ARM_BL b opcode s) 15 = armNextPC (ARM_BL b opcode s) + 4"
  by (simp add: ARM_B_def ARM_BL_def Let_def branch_offset_int)

end
