(* ===== verification/Arm7_Transfer.thy ===== *)
theory Arm7_Transfer
  imports Arm7_Reference
begin

unbundle bit_operations_syntax

section \<open>Single data transfers\<close>

text \<open>
  Models the load and store \<open>case\<close> blocks of \<^verbatim>\<open>core/hw/arm7/arm-new.h\<close>: the signed byte and
  halfword loads (hash \<open>0x01d\<close> to \<open>0x1ff\<close>), the transfers with a 12-bit offset (\<open>0x400\<close> to
  \<open>0x5ff\<close>) and the transfers with a shifted register offset (\<open>0x600\<close> to \<open>0x7ff\<close>).  A definition is
  named after the instruction and the first hash its block handles.  \<open>CPUUpdateTicksAccess16\<close> and
  \<open>CPUUpdateTicksAccess32\<close> are the constant 1.  The blocks are 146 copies of two patterns; \<open>ref_load\<close> and
  \<open>ref_store\<close> are those patterns over the addressing bits of the opcode, and the lemmas show
  that every copy is an instance.
\<close>

definition sext8 :: "u32 \<Rightarrow> u32" where "sext8 v = scast (ucast v :: 8 word)"
definition sext16 :: "u32 \<Rightarrow> u32" where "sext16 v = scast (ucast v :: 16 word)"

subsection \<open>Signed byte and halfword loads\<close>

text \<open>\<^verbatim>\<open>LDRSB Rd, [Rn], -Rm\<close>\<close>

definition LDRSB_01d :: "'p arm_op" where
  "LDRSB_01d b opcode s =
     (let base = fld opcode 16;
          dest = fld opcode 12;
          address = reg s base;
          offset = reg s (fld opcode 0);
          s = add_ticks (3 + 1) s;
          (v, s) = CPUReadByte b address s;
          s = set_reg dest (sext8 v) s
      in (if dest \<noteq> base then set_reg base (address - offset) s else s))"

text \<open>\<^verbatim>\<open>LDRSB Rd, [Rn], #-offset\<close>\<close>

definition LDRSB_05d :: "'p arm_op" where
  "LDRSB_05d b opcode s =
     (let base = fld opcode 16;
          dest = fld opcode 12;
          address = reg s base;
          offset = (opcode AND 0x0F) OR (drop_bit 4 opcode AND 0xF0);
          s = add_ticks (3 + 1) s;
          (v, s) = CPUReadByte b address s;
          s = set_reg dest (sext8 v) s
      in (if dest \<noteq> base then set_reg base (address - offset) s else s))"

text \<open>\<^verbatim>\<open>LDRSB Rd, [Rn], Rm\<close>\<close>

definition LDRSB_09d :: "'p arm_op" where
  "LDRSB_09d b opcode s =
     (let base = fld opcode 16;
          dest = fld opcode 12;
          address = reg s base;
          offset = reg s (fld opcode 0);
          s = add_ticks (3 + 1) s;
          (v, s) = CPUReadByte b address s;
          s = set_reg dest (sext8 v) s
      in (if dest \<noteq> base then set_reg base (address + offset) s else s))"

text \<open>\<^verbatim>\<open>LDRSB Rd, [Rn], #offset\<close>\<close>

definition LDRSB_0dd :: "'p arm_op" where
  "LDRSB_0dd b opcode s =
     (let base = fld opcode 16;
          dest = fld opcode 12;
          address = reg s base;
          offset = (opcode AND 0x0F) OR (drop_bit 4 opcode AND 0xF0);
          s = add_ticks (3 + 1) s;
          (v, s) = CPUReadByte b address s;
          s = set_reg dest (sext8 v) s
      in (if dest \<noteq> base then set_reg base (address + offset) s else s))"

text \<open>\<^verbatim>\<open>LDRSB Rd, [Rn, -Rm]\<close>\<close>

definition LDRSB_11d :: "'p arm_op" where
  "LDRSB_11d b opcode s =
     (let base = fld opcode 16;
          dest = fld opcode 12;
          address = reg s base - reg s (fld opcode 0);
          s = add_ticks (3 + 1) s;
          (v, s) = CPUReadByte b address s
      in set_reg dest (sext8 v) s)"

text \<open>\<^verbatim>\<open>LDRSB Rd, [Rn, -Rm]!\<close>\<close>

definition LDRSB_13d :: "'p arm_op" where
  "LDRSB_13d b opcode s =
     (let base = fld opcode 16;
          dest = fld opcode 12;
          address = reg s base - reg s (fld opcode 0);
          s = add_ticks (3 + 1) s;
          (v, s) = CPUReadByte b address s;
          s = set_reg dest (sext8 v) s
      in (if dest \<noteq> base then set_reg base address s else s))"

text \<open>\<^verbatim>\<open>LDRSB Rd, [Rn, -#offset]\<close>\<close>

definition LDRSB_15d :: "'p arm_op" where
  "LDRSB_15d b opcode s =
     (let base = fld opcode 16;
          dest = fld opcode 12;
          address = reg s base - ((opcode AND 0x0F) OR (drop_bit 4 opcode AND 0xF0));
          s = add_ticks (3 + 1) s;
          (v, s) = CPUReadByte b address s
      in set_reg dest (sext8 v) s)"

text \<open>\<^verbatim>\<open>LDRSB Rd, [Rn, -#offset]!\<close>\<close>

definition LDRSB_17d :: "'p arm_op" where
  "LDRSB_17d b opcode s =
     (let base = fld opcode 16;
          dest = fld opcode 12;
          address = reg s base - ((opcode AND 0x0F) OR (drop_bit 4 opcode AND 0xF0));
          s = add_ticks (3 + 1) s;
          (v, s) = CPUReadByte b address s;
          s = set_reg dest (sext8 v) s
      in (if dest \<noteq> base then set_reg base address s else s))"

text \<open>\<^verbatim>\<open>LDRSB Rd, [Rn, Rm]\<close>\<close>

definition LDRSB_19d :: "'p arm_op" where
  "LDRSB_19d b opcode s =
     (let base = fld opcode 16;
          dest = fld opcode 12;
          address = reg s base + reg s (fld opcode 0);
          s = add_ticks (3 + 1) s;
          (v, s) = CPUReadByte b address s
      in set_reg dest (sext8 v) s)"

text \<open>\<^verbatim>\<open>LDRSB Rd, [Rn, Rm]!\<close>\<close>

definition LDRSB_1bd :: "'p arm_op" where
  "LDRSB_1bd b opcode s =
     (let base = fld opcode 16;
          dest = fld opcode 12;
          address = reg s base + reg s (fld opcode 0);
          s = add_ticks (3 + 1) s;
          (v, s) = CPUReadByte b address s;
          s = set_reg dest (sext8 v) s
      in (if dest \<noteq> base then set_reg base address s else s))"

text \<open>\<^verbatim>\<open>LDRSB Rd, [Rn, #offset]\<close>\<close>

definition LDRSB_1dd :: "'p arm_op" where
  "LDRSB_1dd b opcode s =
     (let base = fld opcode 16;
          dest = fld opcode 12;
          address = reg s base + ((opcode AND 0x0F) OR (drop_bit 4 opcode AND 0xF0));
          s = add_ticks (3 + 1) s;
          (v, s) = CPUReadByte b address s
      in set_reg dest (sext8 v) s)"

text \<open>\<^verbatim>\<open>LDRSB Rd, [Rn, #offset]!\<close>\<close>

definition LDRSB_1fd :: "'p arm_op" where
  "LDRSB_1fd b opcode s =
     (let base = fld opcode 16;
          dest = fld opcode 12;
          address = reg s base + ((opcode AND 0x0F) OR (drop_bit 4 opcode AND 0xF0));
          s = add_ticks (3 + 1) s;
          (v, s) = CPUReadByte b address s;
          s = set_reg dest (sext8 v) s
      in (if dest \<noteq> base then set_reg base address s else s))"

text \<open>\<^verbatim>\<open>LDRSH Rd, [Rn], -Rm\<close>\<close>

definition LDRSH_01f :: "'p arm_op" where
  "LDRSH_01f b opcode s =
     (let base = fld opcode 16;
          dest = fld opcode 12;
          address = reg s base;
          offset = reg s (fld opcode 0);
          s = add_ticks (3 + 1) s;
          (v, s) = CPUReadHalfWord b address s;
          s = set_reg dest (sext16 v) s
      in (if dest \<noteq> base then set_reg base (address - offset) s else s))"

text \<open>\<^verbatim>\<open>LDRSH Rd, [Rn], #-offset\<close>\<close>

definition LDRSH_05f :: "'p arm_op" where
  "LDRSH_05f b opcode s =
     (let base = fld opcode 16;
          dest = fld opcode 12;
          address = reg s base;
          offset = (opcode AND 0x0F) OR (drop_bit 4 opcode AND 0xF0);
          s = add_ticks (3 + 1) s;
          (v, s) = CPUReadHalfWord b address s;
          s = set_reg dest (sext16 v) s
      in (if dest \<noteq> base then set_reg base (address - offset) s else s))"

text \<open>\<^verbatim>\<open>LDRSH Rd, [Rn], Rm\<close>\<close>

definition LDRSH_09f :: "'p arm_op" where
  "LDRSH_09f b opcode s =
     (let base = fld opcode 16;
          dest = fld opcode 12;
          address = reg s base;
          offset = reg s (fld opcode 0);
          s = add_ticks (3 + 1) s;
          (v, s) = CPUReadHalfWord b address s;
          s = set_reg dest (sext16 v) s
      in (if dest \<noteq> base then set_reg base (address + offset) s else s))"

text \<open>\<^verbatim>\<open>LDRSH Rd, [Rn], #offset\<close>\<close>

definition LDRSH_0df :: "'p arm_op" where
  "LDRSH_0df b opcode s =
     (let base = fld opcode 16;
          dest = fld opcode 12;
          address = reg s base;
          offset = (opcode AND 0x0F) OR (drop_bit 4 opcode AND 0xF0);
          s = add_ticks (3 + 1) s;
          (v, s) = CPUReadHalfWord b address s;
          s = set_reg dest (sext16 v) s
      in (if dest \<noteq> base then set_reg base (address + offset) s else s))"

text \<open>\<^verbatim>\<open>LDRSH Rd, [Rn, -Rm]\<close>\<close>

definition LDRSH_11f :: "'p arm_op" where
  "LDRSH_11f b opcode s =
     (let base = fld opcode 16;
          dest = fld opcode 12;
          address = reg s base - reg s (fld opcode 0);
          s = add_ticks (3 + 1) s;
          (v, s) = CPUReadHalfWord b address s
      in set_reg dest (sext16 v) s)"

text \<open>\<^verbatim>\<open>LDRSH Rd, [Rn, -Rm]!\<close>\<close>

definition LDRSH_13f :: "'p arm_op" where
  "LDRSH_13f b opcode s =
     (let base = fld opcode 16;
          dest = fld opcode 12;
          address = reg s base - reg s (fld opcode 0);
          s = add_ticks (3 + 1) s;
          (v, s) = CPUReadHalfWord b address s;
          s = set_reg dest (sext16 v) s
      in (if dest \<noteq> base then set_reg base address s else s))"

text \<open>\<^verbatim>\<open>LDRSH Rd, [Rn, -#offset]\<close>\<close>

definition LDRSH_15f :: "'p arm_op" where
  "LDRSH_15f b opcode s =
     (let base = fld opcode 16;
          dest = fld opcode 12;
          address = reg s base - ((opcode AND 0x0F) OR (drop_bit 4 opcode AND 0xF0));
          s = add_ticks (3 + 1) s;
          (v, s) = CPUReadHalfWord b address s
      in set_reg dest (sext16 v) s)"

text \<open>\<^verbatim>\<open>LDRSH Rd, [Rn, -#offset]!\<close>\<close>

definition LDRSH_17f :: "'p arm_op" where
  "LDRSH_17f b opcode s =
     (let base = fld opcode 16;
          dest = fld opcode 12;
          address = reg s base - ((opcode AND 0x0F) OR (drop_bit 4 opcode AND 0xF0));
          s = add_ticks (3 + 1) s;
          (v, s) = CPUReadHalfWord b address s;
          s = set_reg dest (sext16 v) s
      in (if dest \<noteq> base then set_reg base address s else s))"

text \<open>\<^verbatim>\<open>LDRSH Rd, [Rn, Rm]\<close>\<close>

definition LDRSH_19f :: "'p arm_op" where
  "LDRSH_19f b opcode s =
     (let base = fld opcode 16;
          dest = fld opcode 12;
          address = reg s base + reg s (fld opcode 0);
          s = add_ticks (3 + 1) s;
          (v, s) = CPUReadHalfWord b address s
      in set_reg dest (sext16 v) s)"

text \<open>\<^verbatim>\<open>LDRSH Rd, [Rn, Rm]!\<close>\<close>

definition LDRSH_1bf :: "'p arm_op" where
  "LDRSH_1bf b opcode s =
     (let base = fld opcode 16;
          dest = fld opcode 12;
          address = reg s base + reg s (fld opcode 0);
          s = add_ticks (3 + 1) s;
          (v, s) = CPUReadHalfWord b address s;
          s = set_reg dest (sext16 v) s
      in (if dest \<noteq> base then set_reg base address s else s))"

text \<open>\<^verbatim>\<open>LDRSH Rd, [Rn, #offset]\<close>\<close>

definition LDRSH_1df :: "'p arm_op" where
  "LDRSH_1df b opcode s =
     (let base = fld opcode 16;
          dest = fld opcode 12;
          address = reg s base + ((opcode AND 0x0F) OR (drop_bit 4 opcode AND 0xF0));
          s = add_ticks (3 + 1) s;
          (v, s) = CPUReadHalfWord b address s
      in set_reg dest (sext16 v) s)"

text \<open>\<^verbatim>\<open>LDRSH Rd, [Rn, #offset]!\<close>\<close>

definition LDRSH_1ff :: "'p arm_op" where
  "LDRSH_1ff b opcode s =
     (let base = fld opcode 16;
          dest = fld opcode 12;
          address = reg s base + ((opcode AND 0x0F) OR (drop_bit 4 opcode AND 0xF0));
          s = add_ticks (3 + 1) s;
          (v, s) = CPUReadHalfWord b address s;
          s = set_reg dest (sext16 v) s
      in (if dest \<noteq> base then set_reg base address s else s))"

subsection \<open>Immediate offset\<close>

text \<open>\<^verbatim>\<open>STR Rd, [Rn], -#\<close>\<close>

definition STR_400 :: "'p arm_op" where
  "STR_400 b opcode s =
     (let offset = opcode AND 0xFFF;
          dest = fld opcode 12;
          base = fld opcode 16;
          address = reg s base;
          s = CPUWriteMemory b address (reg s dest) s;
          s = set_reg base (address - offset) s
      in add_ticks (2 + 1) s)"

text \<open>\<^verbatim>\<open>STR Rd, [Rn], #\<close>\<close>

definition STR_480 :: "'p arm_op" where
  "STR_480 b opcode s =
     (let offset = opcode AND 0xFFF;
          dest = fld opcode 12;
          base = fld opcode 16;
          address = reg s base;
          s = CPUWriteMemory b address (reg s dest) s;
          s = set_reg base (address + offset) s
      in add_ticks (2 + 1) s)"

text \<open>\<^verbatim>\<open>STR Rd, [Rn, -#]\<close>\<close>

definition STR_500 :: "'p arm_op" where
  "STR_500 b opcode s =
     (let offset = opcode AND 0xFFF;
          dest = fld opcode 12;
          base = fld opcode 16;
          address = reg s base - offset;
          s = CPUWriteMemory b address (reg s dest) s
      in add_ticks (2 + 1) s)"

text \<open>\<^verbatim>\<open>STR Rd, [Rn, -#]!\<close>\<close>

definition STR_520 :: "'p arm_op" where
  "STR_520 b opcode s =
     (let offset = opcode AND 0xFFF;
          dest = fld opcode 12;
          base = fld opcode 16;
          address = reg s base - offset;
          s = set_reg base address s;
          s = CPUWriteMemory b address (reg s dest) s
      in add_ticks (2 + 1) s)"

text \<open>\<^verbatim>\<open>STR Rd, [Rn, #]\<close>\<close>

definition STR_580 :: "'p arm_op" where
  "STR_580 b opcode s =
     (let offset = opcode AND 0xFFF;
          dest = fld opcode 12;
          base = fld opcode 16;
          address = reg s base + offset;
          s = CPUWriteMemory b address (reg s dest) s
      in add_ticks (2 + 1) s)"

text \<open>\<^verbatim>\<open>STR Rd, [Rn, #]!\<close>\<close>

definition STR_5a0 :: "'p arm_op" where
  "STR_5a0 b opcode s =
     (let offset = opcode AND 0xFFF;
          dest = fld opcode 12;
          base = fld opcode 16;
          address = reg s base + offset;
          s = set_reg base address s;
          s = CPUWriteMemory b address (reg s dest) s
      in add_ticks (2 + 1) s)"

text \<open>\<^verbatim>\<open>LDR Rd, [Rn], -#\<close>\<close>

definition LDR_410 :: "'p arm_op" where
  "LDR_410 b opcode s =
     (let offset = opcode AND 0xFFF;
          dest = fld opcode 12;
          base = fld opcode 16;
          address = reg s base;
          (v, s) = CPUReadMemory b address s;
          s = set_reg dest v s;
          s = (if dest \<noteq> base then set_reg base (reg s base - offset) s else s);
          s = add_ticks (3 + 1) s
      in (if dest = 15 then flush_pc (add_ticks 2 s) else s))"

text \<open>\<^verbatim>\<open>LDRT Rd, [Rn], -#\<close>\<close>

definition LDR_430 :: "'p arm_op" where
  "LDR_430 b opcode s =
     (let offset = opcode AND 0xFFF;
          dest = fld opcode 12;
          base = fld opcode 16;
          address = reg s base;
          (v, s) = CPUReadMemory b address s;
          s = set_reg dest v s;
          s = (if dest \<noteq> base then set_reg base (reg s base - offset) s else s)
      in add_ticks (3 + 1) s)"

text \<open>\<^verbatim>\<open>LDR Rd, [Rn], #\<close>\<close>

definition LDR_490 :: "'p arm_op" where
  "LDR_490 b opcode s =
     (let offset = opcode AND 0xFFF;
          dest = fld opcode 12;
          base = fld opcode 16;
          address = reg s base;
          (v, s) = CPUReadMemory b address s;
          s = set_reg dest v s;
          s = (if dest \<noteq> base then set_reg base (reg s base + offset) s else s);
          s = add_ticks (3 + 1) s
      in (if dest = 15 then flush_pc (add_ticks 2 s) else s))"

text \<open>\<^verbatim>\<open>LDRT Rd, [Rn], #\<close>\<close>

definition LDR_4b0 :: "'p arm_op" where
  "LDR_4b0 b opcode s =
     (let offset = opcode AND 0xFFF;
          dest = fld opcode 12;
          base = fld opcode 16;
          address = reg s base;
          (v, s) = CPUReadMemory b address s;
          s = set_reg dest v s;
          s = (if dest \<noteq> base then set_reg base (reg s base + offset) s else s)
      in add_ticks (3 + 1) s)"

text \<open>\<^verbatim>\<open>LDR Rd, [Rn, -#]\<close>\<close>

definition LDR_510 :: "'p arm_op" where
  "LDR_510 b opcode s =
     (let offset = opcode AND 0xFFF;
          dest = fld opcode 12;
          base = fld opcode 16;
          address = reg s base - offset;
          (v, s) = CPUReadMemory b address s;
          s = set_reg dest v s;
          s = add_ticks (3 + 1) s
      in (if dest = 15 then flush_pc (add_ticks 2 s) else s))"

text \<open>\<^verbatim>\<open>LDR Rd, [Rn, -#]!\<close>\<close>

definition LDR_530 :: "'p arm_op" where
  "LDR_530 b opcode s =
     (let offset = opcode AND 0xFFF;
          dest = fld opcode 12;
          base = fld opcode 16;
          address = reg s base - offset;
          (v, s) = CPUReadMemory b address s;
          s = set_reg dest v s;
          s = (if dest \<noteq> base then set_reg base address s else s);
          s = add_ticks (3 + 1) s
      in (if dest = 15 then flush_pc (add_ticks 2 s) else s))"

text \<open>\<^verbatim>\<open>LDR Rd, [Rn, #]\<close>\<close>

definition LDR_590 :: "'p arm_op" where
  "LDR_590 b opcode s =
     (let offset = opcode AND 0xFFF;
          dest = fld opcode 12;
          base = fld opcode 16;
          address = reg s base + offset;
          (v, s) = CPUReadMemory b address s;
          s = set_reg dest v s;
          s = add_ticks (3 + 1) s
      in (if dest = 15 then flush_pc (add_ticks 2 s) else s))"

text \<open>\<^verbatim>\<open>LDR Rd, [Rn, #]!\<close>\<close>

definition LDR_5b0 :: "'p arm_op" where
  "LDR_5b0 b opcode s =
     (let offset = opcode AND 0xFFF;
          dest = fld opcode 12;
          base = fld opcode 16;
          address = reg s base + offset;
          (v, s) = CPUReadMemory b address s;
          s = set_reg dest v s;
          s = (if dest \<noteq> base then set_reg base address s else s);
          s = add_ticks (3 + 1) s
      in (if dest = 15 then flush_pc (add_ticks 2 s) else s))"

text \<open>\<^verbatim>\<open>STRB Rd, [Rn], -#\<close>\<close>

definition STRB_440 :: "'p arm_op" where
  "STRB_440 b opcode s =
     (let offset = opcode AND 0xFFF;
          dest = fld opcode 12;
          base = fld opcode 16;
          address = reg s base;
          s = CPUWriteByte b address (reg s dest) s;
          s = set_reg base (address - offset) s
      in add_ticks (2 + 1) s)"

text \<open>\<^verbatim>\<open>STRB Rd, [Rn], #\<close>\<close>

definition STRB_4c0 :: "'p arm_op" where
  "STRB_4c0 b opcode s =
     (let offset = opcode AND 0xFFF;
          dest = fld opcode 12;
          base = fld opcode 16;
          address = reg s base;
          s = CPUWriteByte b address (reg s dest) s;
          s = set_reg base (address + offset) s
      in add_ticks (2 + 1) s)"

text \<open>\<^verbatim>\<open>STRB Rd, [Rn, -#]\<close>\<close>

definition STRB_540 :: "'p arm_op" where
  "STRB_540 b opcode s =
     (let offset = opcode AND 0xFFF;
          dest = fld opcode 12;
          base = fld opcode 16;
          address = reg s base - offset;
          s = CPUWriteByte b address (reg s dest) s
      in add_ticks (2 + 1) s)"

text \<open>\<^verbatim>\<open>STRB Rd, [Rn, -#]!\<close>\<close>

definition STRB_560 :: "'p arm_op" where
  "STRB_560 b opcode s =
     (let offset = opcode AND 0xFFF;
          dest = fld opcode 12;
          base = fld opcode 16;
          address = reg s base - offset;
          s = set_reg base address s;
          s = CPUWriteByte b address (reg s dest) s
      in add_ticks (2 + 1) s)"

text \<open>\<^verbatim>\<open>STRB Rd, [Rn, #]\<close>\<close>

definition STRB_5c0 :: "'p arm_op" where
  "STRB_5c0 b opcode s =
     (let offset = opcode AND 0xFFF;
          dest = fld opcode 12;
          base = fld opcode 16;
          address = reg s base + offset;
          s = CPUWriteByte b address (reg s dest) s
      in add_ticks (2 + 1) s)"

text \<open>\<^verbatim>\<open>STRB Rd, [Rn, #]!\<close>\<close>

definition STRB_5e0 :: "'p arm_op" where
  "STRB_5e0 b opcode s =
     (let offset = opcode AND 0xFFF;
          dest = fld opcode 12;
          base = fld opcode 16;
          address = reg s base + offset;
          s = set_reg base address s;
          s = CPUWriteByte b address (reg s dest) s
      in add_ticks (2 + 1) s)"

text \<open>\<^verbatim>\<open>LDRB Rd, [Rn], -#\<close>\<close>

definition LDRB_450 :: "'p arm_op" where
  "LDRB_450 b opcode s =
     (let offset = opcode AND 0xFFF;
          dest = fld opcode 12;
          base = fld opcode 16;
          address = reg s base;
          (v, s) = CPUReadByte b address s;
          s = set_reg dest v s;
          s = (if dest \<noteq> base then set_reg base (reg s base - offset) s else s)
      in add_ticks (3 + 1) s)"

text \<open>\<^verbatim>\<open>LDRB Rd, [Rn], #\<close>\<close>

definition LDRB_4d0 :: "'p arm_op" where
  "LDRB_4d0 b opcode s =
     (let offset = opcode AND 0xFFF;
          dest = fld opcode 12;
          base = fld opcode 16;
          address = reg s base;
          (v, s) = CPUReadByte b address s;
          s = set_reg dest v s;
          s = (if dest \<noteq> base then set_reg base (reg s base + offset) s else s)
      in add_ticks (3 + 1) s)"

text \<open>\<^verbatim>\<open>LDRB Rd, [Rn, -#]\<close>\<close>

definition LDRB_550 :: "'p arm_op" where
  "LDRB_550 b opcode s =
     (let offset = opcode AND 0xFFF;
          dest = fld opcode 12;
          base = fld opcode 16;
          address = reg s base - offset;
          (v, s) = CPUReadByte b address s;
          s = set_reg dest v s
      in add_ticks (3 + 1) s)"

text \<open>\<^verbatim>\<open>LDRB Rd, [Rn, -#]!\<close>\<close>

definition LDRB_570 :: "'p arm_op" where
  "LDRB_570 b opcode s =
     (let offset = opcode AND 0xFFF;
          dest = fld opcode 12;
          base = fld opcode 16;
          address = reg s base - offset;
          (v, s) = CPUReadByte b address s;
          s = set_reg dest v s;
          s = (if dest \<noteq> base then set_reg base address s else s)
      in add_ticks (3 + 1) s)"

text \<open>\<^verbatim>\<open>LDRB Rd, [Rn, #]\<close>\<close>

definition LDRB_5d0 :: "'p arm_op" where
  "LDRB_5d0 b opcode s =
     (let offset = opcode AND 0xFFF;
          dest = fld opcode 12;
          base = fld opcode 16;
          address = reg s base + offset;
          (v, s) = CPUReadByte b address s;
          s = set_reg dest v s
      in add_ticks (3 + 1) s)"

text \<open>\<^verbatim>\<open>LDRB Rd, [Rn, #]!\<close>\<close>

definition LDRB_5f0 :: "'p arm_op" where
  "LDRB_5f0 b opcode s =
     (let offset = opcode AND 0xFFF;
          dest = fld opcode 12;
          base = fld opcode 16;
          address = reg s base + offset;
          (v, s) = CPUReadByte b address s;
          s = set_reg dest v s;
          s = (if dest \<noteq> base then set_reg base address s else s)
      in add_ticks (3 + 1) s)"

subsection \<open>Shifted register offset\<close>

text \<open>\<^verbatim>\<open>STR Rd, [Rn], -Rm, LSL #\<close>\<close>

definition STR_600 :: "'p arm_op" where
  "STR_600 b opcode s =
     (let offset = push_bit (imm5 opcode) (reg s (fld opcode 0));
          dest = fld opcode 12;
          base = fld opcode 16;
          address = reg s base;
          s = CPUWriteMemory b address (reg s dest) s;
          s = set_reg base (address - offset) s
      in add_ticks (2 + 1) s)"

text \<open>\<^verbatim>\<open>STR Rd, [Rn], -Rm, LSR #\<close>\<close>

definition STR_602 :: "'p arm_op" where
  "STR_602 b opcode s =
     (let shift = imm5 opcode;
          offset = (if shift \<noteq> 0 then drop_bit shift (reg s (fld opcode 0)) else 0);
          dest = fld opcode 12;
          base = fld opcode 16;
          address = reg s base;
          s = CPUWriteMemory b address (reg s dest) s;
          s = set_reg base (address - offset) s
      in add_ticks (2 + 1) s)"

text \<open>\<^verbatim>\<open>STR Rd, [Rn], -Rm, ASR #\<close>\<close>

definition STR_604 :: "'p arm_op" where
  "STR_604 b opcode s =
     (let shift = imm5 opcode;
          offset = (if shift \<noteq> 0 then signed_drop_bit shift (reg s (fld opcode 0))
            else if reg s (fld opcode 0) AND 0x80000000 \<noteq> 0 then 0xFFFFFFFF else 0);
          dest = fld opcode 12;
          base = fld opcode 16;
          address = reg s base;
          s = CPUWriteMemory b address (reg s dest) s;
          s = set_reg base (address - offset) s
      in add_ticks (2 + 1) s)"

text \<open>\<^verbatim>\<open>STR Rd, [Rn], -Rm, ROR #\<close>\<close>

definition STR_606 :: "'p arm_op" where
  "STR_606 b opcode s =
     (let shift = imm5 opcode;
          value = reg s (fld opcode 0);
          value = (if shift \<noteq> 0 then ROR_VALUE value shift else RCR_VALUE value s);
          dest = fld opcode 12;
          base = fld opcode 16;
          address = reg s base;
          s = CPUWriteMemory b address (reg s dest) s;
          s = set_reg base (address - value) s
      in add_ticks (2 + 1) s)"

text \<open>\<^verbatim>\<open>STR Rd, [Rn], Rm, LSL #\<close>\<close>

definition STR_680 :: "'p arm_op" where
  "STR_680 b opcode s =
     (let offset = push_bit (imm5 opcode) (reg s (fld opcode 0));
          dest = fld opcode 12;
          base = fld opcode 16;
          address = reg s base;
          s = CPUWriteMemory b address (reg s dest) s;
          s = set_reg base (address + offset) s
      in add_ticks (2 + 1) s)"

text \<open>\<^verbatim>\<open>STR Rd, [Rn], Rm, LSR #\<close>\<close>

definition STR_682 :: "'p arm_op" where
  "STR_682 b opcode s =
     (let shift = imm5 opcode;
          offset = (if shift \<noteq> 0 then drop_bit shift (reg s (fld opcode 0)) else 0);
          dest = fld opcode 12;
          base = fld opcode 16;
          address = reg s base;
          s = CPUWriteMemory b address (reg s dest) s;
          s = set_reg base (address + offset) s
      in add_ticks (2 + 1) s)"

text \<open>\<^verbatim>\<open>STR Rd, [Rn], Rm, ASR #\<close>\<close>

definition STR_684 :: "'p arm_op" where
  "STR_684 b opcode s =
     (let shift = imm5 opcode;
          offset = (if shift \<noteq> 0 then signed_drop_bit shift (reg s (fld opcode 0))
            else if reg s (fld opcode 0) AND 0x80000000 \<noteq> 0 then 0xFFFFFFFF else 0);
          dest = fld opcode 12;
          base = fld opcode 16;
          address = reg s base;
          s = CPUWriteMemory b address (reg s dest) s;
          s = set_reg base (address + offset) s
      in add_ticks (2 + 1) s)"

text \<open>\<^verbatim>\<open>STR Rd, [Rn], Rm, ROR #\<close>\<close>

definition STR_686 :: "'p arm_op" where
  "STR_686 b opcode s =
     (let shift = imm5 opcode;
          value = reg s (fld opcode 0);
          value = (if shift \<noteq> 0 then ROR_VALUE value shift else RCR_VALUE value s);
          dest = fld opcode 12;
          base = fld opcode 16;
          address = reg s base;
          s = CPUWriteMemory b address (reg s dest) s;
          s = set_reg base (address + value) s
      in add_ticks (2 + 1) s)"

text \<open>\<^verbatim>\<open>STR Rd, [Rn, -Rm, LSL #]\<close>\<close>

definition STR_700 :: "'p arm_op" where
  "STR_700 b opcode s =
     (let offset = push_bit (imm5 opcode) (reg s (fld opcode 0));
          dest = fld opcode 12;
          base = fld opcode 16;
          address = reg s base - offset;
          s = CPUWriteMemory b address (reg s dest) s
      in add_ticks (2 + 1) s)"

text \<open>\<^verbatim>\<open>STR Rd, [Rn, -Rm, LSR #]\<close>\<close>

definition STR_702 :: "'p arm_op" where
  "STR_702 b opcode s =
     (let shift = imm5 opcode;
          offset = (if shift \<noteq> 0 then drop_bit shift (reg s (fld opcode 0)) else 0);
          dest = fld opcode 12;
          base = fld opcode 16;
          address = reg s base - offset;
          s = CPUWriteMemory b address (reg s dest) s
      in add_ticks (2 + 1) s)"

text \<open>\<^verbatim>\<open>STR Rd, [Rn, -Rm, ASR #]\<close>\<close>

definition STR_704 :: "'p arm_op" where
  "STR_704 b opcode s =
     (let shift = imm5 opcode;
          offset = (if shift \<noteq> 0 then signed_drop_bit shift (reg s (fld opcode 0))
            else if reg s (fld opcode 0) AND 0x80000000 \<noteq> 0 then 0xFFFFFFFF else 0);
          dest = fld opcode 12;
          base = fld opcode 16;
          address = reg s base - offset;
          s = CPUWriteMemory b address (reg s dest) s
      in add_ticks (2 + 1) s)"

text \<open>\<^verbatim>\<open>STR Rd, [Rn, -Rm, ROR #]\<close>\<close>

definition STR_706 :: "'p arm_op" where
  "STR_706 b opcode s =
     (let shift = imm5 opcode;
          value = reg s (fld opcode 0);
          value = (if shift \<noteq> 0 then ROR_VALUE value shift else RCR_VALUE value s);
          dest = fld opcode 12;
          base = fld opcode 16;
          address = reg s base - value;
          s = CPUWriteMemory b address (reg s dest) s
      in add_ticks (2 + 1) s)"

text \<open>\<^verbatim>\<open>STR Rd, [Rn, -Rm, LSL #]!\<close>\<close>

definition STR_720 :: "'p arm_op" where
  "STR_720 b opcode s =
     (let offset = push_bit (imm5 opcode) (reg s (fld opcode 0));
          dest = fld opcode 12;
          base = fld opcode 16;
          address = reg s base - offset;
          s = set_reg base address s;
          s = CPUWriteMemory b address (reg s dest) s
      in add_ticks (2 + 1) s)"

text \<open>\<^verbatim>\<open>STR Rd, [Rn, -Rm, LSR #]!\<close>\<close>

definition STR_722 :: "'p arm_op" where
  "STR_722 b opcode s =
     (let shift = imm5 opcode;
          offset = (if shift \<noteq> 0 then drop_bit shift (reg s (fld opcode 0)) else 0);
          dest = fld opcode 12;
          base = fld opcode 16;
          address = reg s base - offset;
          s = set_reg base address s;
          s = CPUWriteMemory b address (reg s dest) s
      in add_ticks (2 + 1) s)"

text \<open>\<^verbatim>\<open>STR Rd, [Rn, -Rm, ASR #]!\<close>\<close>

definition STR_724 :: "'p arm_op" where
  "STR_724 b opcode s =
     (let shift = imm5 opcode;
          offset = (if shift \<noteq> 0 then signed_drop_bit shift (reg s (fld opcode 0))
            else if reg s (fld opcode 0) AND 0x80000000 \<noteq> 0 then 0xFFFFFFFF else 0);
          dest = fld opcode 12;
          base = fld opcode 16;
          address = reg s base - offset;
          s = set_reg base address s;
          s = CPUWriteMemory b address (reg s dest) s
      in add_ticks (2 + 1) s)"

text \<open>\<^verbatim>\<open>STR Rd, [Rn, -Rm, ROR #]!\<close>\<close>

definition STR_726 :: "'p arm_op" where
  "STR_726 b opcode s =
     (let shift = imm5 opcode;
          value = reg s (fld opcode 0);
          value = (if shift \<noteq> 0 then ROR_VALUE value shift else RCR_VALUE value s);
          dest = fld opcode 12;
          base = fld opcode 16;
          address = reg s base - value;
          s = set_reg base address s;
          s = CPUWriteMemory b address (reg s dest) s
      in add_ticks (2 + 1) s)"

text \<open>\<^verbatim>\<open>STR Rd, [Rn, Rm, LSL #]\<close>\<close>

definition STR_780 :: "'p arm_op" where
  "STR_780 b opcode s =
     (let offset = push_bit (imm5 opcode) (reg s (fld opcode 0));
          dest = fld opcode 12;
          base = fld opcode 16;
          address = reg s base + offset;
          s = CPUWriteMemory b address (reg s dest) s
      in add_ticks (2 + 1) s)"

text \<open>\<^verbatim>\<open>STR Rd, [Rn, Rm, LSR #]\<close>\<close>

definition STR_782 :: "'p arm_op" where
  "STR_782 b opcode s =
     (let shift = imm5 opcode;
          offset = (if shift \<noteq> 0 then drop_bit shift (reg s (fld opcode 0)) else 0);
          dest = fld opcode 12;
          base = fld opcode 16;
          address = reg s base + offset;
          s = CPUWriteMemory b address (reg s dest) s
      in add_ticks (2 + 1) s)"

text \<open>\<^verbatim>\<open>STR Rd, [Rn, Rm, ASR #]\<close>\<close>

definition STR_784 :: "'p arm_op" where
  "STR_784 b opcode s =
     (let shift = imm5 opcode;
          offset = (if shift \<noteq> 0 then signed_drop_bit shift (reg s (fld opcode 0))
            else if reg s (fld opcode 0) AND 0x80000000 \<noteq> 0 then 0xFFFFFFFF else 0);
          dest = fld opcode 12;
          base = fld opcode 16;
          address = reg s base + offset;
          s = CPUWriteMemory b address (reg s dest) s
      in add_ticks (2 + 1) s)"

text \<open>\<^verbatim>\<open>STR Rd, [Rn, Rm, ROR #]\<close>\<close>

definition STR_786 :: "'p arm_op" where
  "STR_786 b opcode s =
     (let shift = imm5 opcode;
          value = reg s (fld opcode 0);
          value = (if shift \<noteq> 0 then ROR_VALUE value shift else RCR_VALUE value s);
          dest = fld opcode 12;
          base = fld opcode 16;
          address = reg s base + value;
          s = CPUWriteMemory b address (reg s dest) s
      in add_ticks (2 + 1) s)"

text \<open>\<^verbatim>\<open>STR Rd, [Rn, Rm, LSL #]!\<close>\<close>

definition STR_7a0 :: "'p arm_op" where
  "STR_7a0 b opcode s =
     (let offset = push_bit (imm5 opcode) (reg s (fld opcode 0));
          dest = fld opcode 12;
          base = fld opcode 16;
          address = reg s base + offset;
          s = set_reg base address s;
          s = CPUWriteMemory b address (reg s dest) s
      in add_ticks (2 + 1) s)"

text \<open>\<^verbatim>\<open>STR Rd, [Rn, Rm, LSR #]!\<close>\<close>

definition STR_7a2 :: "'p arm_op" where
  "STR_7a2 b opcode s =
     (let shift = imm5 opcode;
          offset = (if shift \<noteq> 0 then drop_bit shift (reg s (fld opcode 0)) else 0);
          dest = fld opcode 12;
          base = fld opcode 16;
          address = reg s base + offset;
          s = set_reg base address s;
          s = CPUWriteMemory b address (reg s dest) s
      in add_ticks (2 + 1) s)"

text \<open>\<^verbatim>\<open>STR Rd, [Rn, Rm, ASR #]!\<close>\<close>

definition STR_7a4 :: "'p arm_op" where
  "STR_7a4 b opcode s =
     (let shift = imm5 opcode;
          offset = (if shift \<noteq> 0 then signed_drop_bit shift (reg s (fld opcode 0))
            else if reg s (fld opcode 0) AND 0x80000000 \<noteq> 0 then 0xFFFFFFFF else 0);
          dest = fld opcode 12;
          base = fld opcode 16;
          address = reg s base + offset;
          s = set_reg base address s;
          s = CPUWriteMemory b address (reg s dest) s
      in add_ticks (2 + 1) s)"

text \<open>\<^verbatim>\<open>STR Rd, [Rn, Rm, ROR #]!\<close>\<close>

definition STR_7a6 :: "'p arm_op" where
  "STR_7a6 b opcode s =
     (let shift = imm5 opcode;
          value = reg s (fld opcode 0);
          value = (if shift \<noteq> 0 then ROR_VALUE value shift else RCR_VALUE value s);
          dest = fld opcode 12;
          base = fld opcode 16;
          address = reg s base + value;
          s = set_reg base address s;
          s = CPUWriteMemory b address (reg s dest) s
      in add_ticks (2 + 1) s)"

text \<open>\<^verbatim>\<open>LDR Rd, [Rn], -Rm, LSL #\<close>\<close>

definition LDR_610 :: "'p arm_op" where
  "LDR_610 b opcode s =
     (let offset = push_bit (imm5 opcode) (reg s (fld opcode 0));
          dest = fld opcode 12;
          base = fld opcode 16;
          address = reg s base;
          (v, s) = CPUReadMemory b address s;
          s = set_reg dest v s;
          s = (if dest \<noteq> base then set_reg base (address - offset) s else s);
          s = add_ticks (3 + 1) s
      in (if dest = 15 then flush_pc (add_ticks 2 s) else s))"

text \<open>\<^verbatim>\<open>LDR Rd, [Rn], -Rm, LSR #\<close>\<close>

definition LDR_612 :: "'p arm_op" where
  "LDR_612 b opcode s =
     (let shift = imm5 opcode;
          offset = (if shift \<noteq> 0 then drop_bit shift (reg s (fld opcode 0)) else 0);
          dest = fld opcode 12;
          base = fld opcode 16;
          address = reg s base;
          (v, s) = CPUReadMemory b address s;
          s = set_reg dest v s;
          s = (if dest \<noteq> base then set_reg base (address - offset) s else s);
          s = add_ticks (3 + 1) s
      in (if dest = 15 then flush_pc (add_ticks 2 s) else s))"

text \<open>\<^verbatim>\<open>LDR Rd, [Rn], -Rm, ASR #\<close>\<close>

definition LDR_614 :: "'p arm_op" where
  "LDR_614 b opcode s =
     (let shift = imm5 opcode;
          offset = (if shift \<noteq> 0 then signed_drop_bit shift (reg s (fld opcode 0))
            else if reg s (fld opcode 0) AND 0x80000000 \<noteq> 0 then 0xFFFFFFFF else 0);
          dest = fld opcode 12;
          base = fld opcode 16;
          address = reg s base;
          (v, s) = CPUReadMemory b address s;
          s = set_reg dest v s;
          s = (if dest \<noteq> base then set_reg base (address - offset) s else s);
          s = add_ticks (3 + 1) s
      in (if dest = 15 then flush_pc (add_ticks 2 s) else s))"

text \<open>\<^verbatim>\<open>LDR Rd, [Rn], -Rm, ROR #\<close>\<close>

definition LDR_616 :: "'p arm_op" where
  "LDR_616 b opcode s =
     (let shift = imm5 opcode;
          value = reg s (fld opcode 0);
          value = (if shift \<noteq> 0 then ROR_VALUE value shift else RCR_VALUE value s);
          dest = fld opcode 12;
          base = fld opcode 16;
          address = reg s base;
          (v, s) = CPUReadMemory b address s;
          s = set_reg dest v s;
          s = (if dest \<noteq> base then set_reg base (address - value) s else s);
          s = add_ticks (3 + 1) s
      in (if dest = 15 then flush_pc (add_ticks 2 s) else s))"

text \<open>\<^verbatim>\<open>LDR Rd, [Rn], Rm, LSL #\<close>\<close>

definition LDR_690 :: "'p arm_op" where
  "LDR_690 b opcode s =
     (let offset = push_bit (imm5 opcode) (reg s (fld opcode 0));
          dest = fld opcode 12;
          base = fld opcode 16;
          address = reg s base;
          (v, s) = CPUReadMemory b address s;
          s = set_reg dest v s;
          s = (if dest \<noteq> base then set_reg base (address + offset) s else s);
          s = add_ticks (3 + 1) s
      in (if dest = 15 then flush_pc (add_ticks 2 s) else s))"

text \<open>\<^verbatim>\<open>LDR Rd, [Rn], Rm, LSR #\<close>\<close>

definition LDR_692 :: "'p arm_op" where
  "LDR_692 b opcode s =
     (let shift = imm5 opcode;
          offset = (if shift \<noteq> 0 then drop_bit shift (reg s (fld opcode 0)) else 0);
          dest = fld opcode 12;
          base = fld opcode 16;
          address = reg s base;
          (v, s) = CPUReadMemory b address s;
          s = set_reg dest v s;
          s = (if dest \<noteq> base then set_reg base (address + offset) s else s);
          s = add_ticks (3 + 1) s
      in (if dest = 15 then flush_pc (add_ticks 2 s) else s))"

text \<open>\<^verbatim>\<open>LDR Rd, [Rn], Rm, ASR #\<close>\<close>

definition LDR_694 :: "'p arm_op" where
  "LDR_694 b opcode s =
     (let shift = imm5 opcode;
          offset = (if shift \<noteq> 0 then signed_drop_bit shift (reg s (fld opcode 0))
            else if reg s (fld opcode 0) AND 0x80000000 \<noteq> 0 then 0xFFFFFFFF else 0);
          dest = fld opcode 12;
          base = fld opcode 16;
          address = reg s base;
          (v, s) = CPUReadMemory b address s;
          s = set_reg dest v s;
          s = (if dest \<noteq> base then set_reg base (address + offset) s else s);
          s = add_ticks (3 + 1) s
      in (if dest = 15 then flush_pc (add_ticks 2 s) else s))"

text \<open>\<^verbatim>\<open>LDR Rd, [Rn], Rm, ROR #\<close>\<close>

definition LDR_696 :: "'p arm_op" where
  "LDR_696 b opcode s =
     (let shift = imm5 opcode;
          value = reg s (fld opcode 0);
          value = (if shift \<noteq> 0 then ROR_VALUE value shift else RCR_VALUE value s);
          dest = fld opcode 12;
          base = fld opcode 16;
          address = reg s base;
          (v, s) = CPUReadMemory b address s;
          s = set_reg dest v s;
          s = (if dest \<noteq> base then set_reg base (address + value) s else s);
          s = add_ticks (3 + 1) s
      in (if dest = 15 then flush_pc (add_ticks 2 s) else s))"

text \<open>\<^verbatim>\<open>LDR Rd, [Rn, -Rm, LSL #]\<close>\<close>

definition LDR_710 :: "'p arm_op" where
  "LDR_710 b opcode s =
     (let offset = push_bit (imm5 opcode) (reg s (fld opcode 0));
          dest = fld opcode 12;
          base = fld opcode 16;
          address = reg s base - offset;
          (v, s) = CPUReadMemory b address s;
          s = set_reg dest v s;
          s = add_ticks (3 + 1) s
      in (if dest = 15 then flush_pc (add_ticks 2 s) else s))"

text \<open>\<^verbatim>\<open>LDR Rd, [Rn, -Rm, LSR #]\<close>\<close>

definition LDR_712 :: "'p arm_op" where
  "LDR_712 b opcode s =
     (let shift = imm5 opcode;
          offset = (if shift \<noteq> 0 then drop_bit shift (reg s (fld opcode 0)) else 0);
          dest = fld opcode 12;
          base = fld opcode 16;
          address = reg s base - offset;
          (v, s) = CPUReadMemory b address s;
          s = set_reg dest v s;
          s = add_ticks (3 + 1) s
      in (if dest = 15 then flush_pc (add_ticks 2 s) else s))"

text \<open>\<^verbatim>\<open>LDR Rd, [Rn, -Rm, ASR #]\<close>\<close>

definition LDR_714 :: "'p arm_op" where
  "LDR_714 b opcode s =
     (let shift = imm5 opcode;
          offset = (if shift \<noteq> 0 then signed_drop_bit shift (reg s (fld opcode 0))
            else if reg s (fld opcode 0) AND 0x80000000 \<noteq> 0 then 0xFFFFFFFF else 0);
          dest = fld opcode 12;
          base = fld opcode 16;
          address = reg s base - offset;
          (v, s) = CPUReadMemory b address s;
          s = set_reg dest v s;
          s = add_ticks (3 + 1) s
      in (if dest = 15 then flush_pc (add_ticks 2 s) else s))"

text \<open>\<^verbatim>\<open>LDR Rd, [Rn, -Rm, ROR #]\<close>\<close>

definition LDR_716 :: "'p arm_op" where
  "LDR_716 b opcode s =
     (let shift = imm5 opcode;
          value = reg s (fld opcode 0);
          value = (if shift \<noteq> 0 then ROR_VALUE value shift else RCR_VALUE value s);
          dest = fld opcode 12;
          base = fld opcode 16;
          address = reg s base - value;
          (v, s) = CPUReadMemory b address s;
          s = set_reg dest v s;
          s = add_ticks (3 + 1) s
      in (if dest = 15 then flush_pc (add_ticks 2 s) else s))"

text \<open>\<^verbatim>\<open>LDR Rd, [Rn, -Rm, LSL #]!\<close>\<close>

definition LDR_730 :: "'p arm_op" where
  "LDR_730 b opcode s =
     (let offset = push_bit (imm5 opcode) (reg s (fld opcode 0));
          dest = fld opcode 12;
          base = fld opcode 16;
          address = reg s base - offset;
          (v, s) = CPUReadMemory b address s;
          s = set_reg dest v s;
          s = (if dest \<noteq> base then set_reg base address s else s);
          s = add_ticks (3 + 1) s
      in (if dest = 15 then flush_pc (add_ticks 2 s) else s))"

text \<open>\<^verbatim>\<open>LDR Rd, [Rn, -Rm, LSR #]!\<close>\<close>

definition LDR_732 :: "'p arm_op" where
  "LDR_732 b opcode s =
     (let shift = imm5 opcode;
          offset = (if shift \<noteq> 0 then drop_bit shift (reg s (fld opcode 0)) else 0);
          dest = fld opcode 12;
          base = fld opcode 16;
          address = reg s base - offset;
          (v, s) = CPUReadMemory b address s;
          s = set_reg dest v s;
          s = (if dest \<noteq> base then set_reg base address s else s);
          s = add_ticks (3 + 1) s
      in (if dest = 15 then flush_pc (add_ticks 2 s) else s))"

text \<open>\<^verbatim>\<open>LDR Rd, [Rn, -Rm, ASR #]!\<close>\<close>

definition LDR_734 :: "'p arm_op" where
  "LDR_734 b opcode s =
     (let shift = imm5 opcode;
          offset = (if shift \<noteq> 0 then signed_drop_bit shift (reg s (fld opcode 0))
            else if reg s (fld opcode 0) AND 0x80000000 \<noteq> 0 then 0xFFFFFFFF else 0);
          dest = fld opcode 12;
          base = fld opcode 16;
          address = reg s base - offset;
          (v, s) = CPUReadMemory b address s;
          s = set_reg dest v s;
          s = (if dest \<noteq> base then set_reg base address s else s);
          s = add_ticks (3 + 1) s
      in (if dest = 15 then flush_pc (add_ticks 2 s) else s))"

text \<open>\<^verbatim>\<open>LDR Rd, [Rn, -Rm, ROR #]!\<close>\<close>

definition LDR_736 :: "'p arm_op" where
  "LDR_736 b opcode s =
     (let shift = imm5 opcode;
          value = reg s (fld opcode 0);
          value = (if shift \<noteq> 0 then ROR_VALUE value shift else RCR_VALUE value s);
          dest = fld opcode 12;
          base = fld opcode 16;
          address = reg s base - value;
          (v, s) = CPUReadMemory b address s;
          s = set_reg dest v s;
          s = (if dest \<noteq> base then set_reg base address s else s);
          s = add_ticks (3 + 1) s
      in (if dest = 15 then flush_pc (add_ticks 2 s) else s))"

text \<open>\<^verbatim>\<open>LDR Rd, [Rn, Rm, LSL #]\<close>\<close>

definition LDR_790 :: "'p arm_op" where
  "LDR_790 b opcode s =
     (let offset = push_bit (imm5 opcode) (reg s (fld opcode 0));
          dest = fld opcode 12;
          base = fld opcode 16;
          address = reg s base + offset;
          (v, s) = CPUReadMemory b address s;
          s = set_reg dest v s;
          s = add_ticks (3 + 1) s
      in (if dest = 15 then flush_pc (add_ticks 2 s) else s))"

text \<open>\<^verbatim>\<open>LDR Rd, [Rn, Rm, LSR #]\<close>\<close>

definition LDR_792 :: "'p arm_op" where
  "LDR_792 b opcode s =
     (let shift = imm5 opcode;
          offset = (if shift \<noteq> 0 then drop_bit shift (reg s (fld opcode 0)) else 0);
          dest = fld opcode 12;
          base = fld opcode 16;
          address = reg s base + offset;
          (v, s) = CPUReadMemory b address s;
          s = set_reg dest v s;
          s = add_ticks (3 + 1) s
      in (if dest = 15 then flush_pc (add_ticks 2 s) else s))"

text \<open>\<^verbatim>\<open>LDR Rd, [Rn, Rm, ASR #]\<close>\<close>

definition LDR_794 :: "'p arm_op" where
  "LDR_794 b opcode s =
     (let shift = imm5 opcode;
          offset = (if shift \<noteq> 0 then signed_drop_bit shift (reg s (fld opcode 0))
            else if reg s (fld opcode 0) AND 0x80000000 \<noteq> 0 then 0xFFFFFFFF else 0);
          dest = fld opcode 12;
          base = fld opcode 16;
          address = reg s base + offset;
          (v, s) = CPUReadMemory b address s;
          s = set_reg dest v s;
          s = add_ticks (3 + 1) s
      in (if dest = 15 then flush_pc (add_ticks 2 s) else s))"

text \<open>\<^verbatim>\<open>LDR Rd, [Rn, Rm, ROR #]\<close>\<close>

definition LDR_796 :: "'p arm_op" where
  "LDR_796 b opcode s =
     (let shift = imm5 opcode;
          value = reg s (fld opcode 0);
          value = (if shift \<noteq> 0 then ROR_VALUE value shift else RCR_VALUE value s);
          dest = fld opcode 12;
          base = fld opcode 16;
          address = reg s base + value;
          (v, s) = CPUReadMemory b address s;
          s = set_reg dest v s;
          s = add_ticks (3 + 1) s
      in (if dest = 15 then flush_pc (add_ticks 2 s) else s))"

text \<open>\<^verbatim>\<open>LDR Rd, [Rn, Rm, LSL #]!\<close>\<close>

definition LDR_7b0 :: "'p arm_op" where
  "LDR_7b0 b opcode s =
     (let offset = push_bit (imm5 opcode) (reg s (fld opcode 0));
          dest = fld opcode 12;
          base = fld opcode 16;
          address = reg s base + offset;
          (v, s) = CPUReadMemory b address s;
          s = set_reg dest v s;
          s = (if dest \<noteq> base then set_reg base address s else s);
          s = add_ticks (3 + 1) s
      in (if dest = 15 then flush_pc (add_ticks 2 s) else s))"

text \<open>\<^verbatim>\<open>LDR Rd, [Rn, Rm, LSR #]!\<close>\<close>

definition LDR_7b2 :: "'p arm_op" where
  "LDR_7b2 b opcode s =
     (let shift = imm5 opcode;
          offset = (if shift \<noteq> 0 then drop_bit shift (reg s (fld opcode 0)) else 0);
          dest = fld opcode 12;
          base = fld opcode 16;
          address = reg s base + offset;
          (v, s) = CPUReadMemory b address s;
          s = set_reg dest v s;
          s = (if dest \<noteq> base then set_reg base address s else s);
          s = add_ticks (3 + 1) s
      in (if dest = 15 then flush_pc (add_ticks 2 s) else s))"

text \<open>\<^verbatim>\<open>LDR Rd, [Rn, Rm, ASR #]!\<close>\<close>

definition LDR_7b4 :: "'p arm_op" where
  "LDR_7b4 b opcode s =
     (let shift = imm5 opcode;
          offset = (if shift \<noteq> 0 then signed_drop_bit shift (reg s (fld opcode 0))
            else if reg s (fld opcode 0) AND 0x80000000 \<noteq> 0 then 0xFFFFFFFF else 0);
          dest = fld opcode 12;
          base = fld opcode 16;
          address = reg s base + offset;
          (v, s) = CPUReadMemory b address s;
          s = set_reg dest v s;
          s = (if dest \<noteq> base then set_reg base address s else s);
          s = add_ticks (3 + 1) s
      in (if dest = 15 then flush_pc (add_ticks 2 s) else s))"

text \<open>\<^verbatim>\<open>LDR Rd, [Rn, Rm, ROR #]!\<close>\<close>

definition LDR_7b6 :: "'p arm_op" where
  "LDR_7b6 b opcode s =
     (let shift = imm5 opcode;
          value = reg s (fld opcode 0);
          value = (if shift \<noteq> 0 then ROR_VALUE value shift else RCR_VALUE value s);
          dest = fld opcode 12;
          base = fld opcode 16;
          address = reg s base + value;
          (v, s) = CPUReadMemory b address s;
          s = set_reg dest v s;
          s = (if dest \<noteq> base then set_reg base address s else s);
          s = add_ticks (3 + 1) s
      in (if dest = 15 then flush_pc (add_ticks 2 s) else s))"

text \<open>\<^verbatim>\<open>STRB Rd, [Rn], -Rm, LSL #\<close>\<close>

definition STRB_640 :: "'p arm_op" where
  "STRB_640 b opcode s =
     (let offset = push_bit (imm5 opcode) (reg s (fld opcode 0));
          dest = fld opcode 12;
          base = fld opcode 16;
          address = reg s base;
          s = CPUWriteByte b address (reg s dest) s;
          s = set_reg base (address - offset) s
      in add_ticks (2 + 1) s)"

text \<open>\<^verbatim>\<open>STRB Rd, [Rn], -Rm, LSR #\<close>\<close>

definition STRB_642 :: "'p arm_op" where
  "STRB_642 b opcode s =
     (let shift = imm5 opcode;
          offset = (if shift \<noteq> 0 then drop_bit shift (reg s (fld opcode 0)) else 0);
          dest = fld opcode 12;
          base = fld opcode 16;
          address = reg s base;
          s = CPUWriteByte b address (reg s dest) s;
          s = set_reg base (address - offset) s
      in add_ticks (2 + 1) s)"

text \<open>\<^verbatim>\<open>STRB Rd, [Rn], -Rm, ASR #\<close>\<close>

definition STRB_644 :: "'p arm_op" where
  "STRB_644 b opcode s =
     (let shift = imm5 opcode;
          offset = (if shift \<noteq> 0 then signed_drop_bit shift (reg s (fld opcode 0))
            else if reg s (fld opcode 0) AND 0x80000000 \<noteq> 0 then 0xFFFFFFFF else 0);
          dest = fld opcode 12;
          base = fld opcode 16;
          address = reg s base;
          s = CPUWriteByte b address (reg s dest) s;
          s = set_reg base (address - offset) s
      in add_ticks (2 + 1) s)"

text \<open>\<^verbatim>\<open>STRB Rd, [Rn], -Rm, ROR #\<close>\<close>

definition STRB_646 :: "'p arm_op" where
  "STRB_646 b opcode s =
     (let shift = imm5 opcode;
          value = reg s (fld opcode 0);
          value = (if shift \<noteq> 0 then ROR_VALUE value shift else RCR_VALUE value s);
          dest = fld opcode 12;
          base = fld opcode 16;
          address = reg s base;
          s = CPUWriteByte b address (reg s dest) s;
          s = set_reg base (address - value) s
      in add_ticks (2 + 1) s)"

text \<open>\<^verbatim>\<open>STRB Rd, [Rn], Rm, LSL #\<close>\<close>

definition STRB_6c0 :: "'p arm_op" where
  "STRB_6c0 b opcode s =
     (let offset = push_bit (imm5 opcode) (reg s (fld opcode 0));
          dest = fld opcode 12;
          base = fld opcode 16;
          address = reg s base;
          s = CPUWriteByte b address (reg s dest) s;
          s = set_reg base (address + offset) s
      in add_ticks (2 + 1) s)"

text \<open>\<^verbatim>\<open>STRB Rd, [Rn], Rm, LSR #\<close>\<close>

definition STRB_6c2 :: "'p arm_op" where
  "STRB_6c2 b opcode s =
     (let shift = imm5 opcode;
          offset = (if shift \<noteq> 0 then drop_bit shift (reg s (fld opcode 0)) else 0);
          dest = fld opcode 12;
          base = fld opcode 16;
          address = reg s base;
          s = CPUWriteByte b address (reg s dest) s;
          s = set_reg base (address + offset) s
      in add_ticks (2 + 1) s)"

text \<open>\<^verbatim>\<open>STR Rd, [Rn], Rm, ASR #\<close>\<close>

definition STRB_6c4 :: "'p arm_op" where
  "STRB_6c4 b opcode s =
     (let shift = imm5 opcode;
          offset = (if shift \<noteq> 0 then signed_drop_bit shift (reg s (fld opcode 0))
            else if reg s (fld opcode 0) AND 0x80000000 \<noteq> 0 then 0xFFFFFFFF else 0);
          dest = fld opcode 12;
          base = fld opcode 16;
          address = reg s base;
          s = CPUWriteByte b address (reg s dest) s;
          s = set_reg base (address + offset) s
      in add_ticks (2 + 1) s)"

text \<open>\<^verbatim>\<open>STRB Rd, [Rn], Rm, ROR #\<close>\<close>

definition STRB_6c6 :: "'p arm_op" where
  "STRB_6c6 b opcode s =
     (let shift = imm5 opcode;
          value = reg s (fld opcode 0);
          value = (if shift \<noteq> 0 then ROR_VALUE value shift else RCR_VALUE value s);
          dest = fld opcode 12;
          base = fld opcode 16;
          address = reg s base;
          s = CPUWriteByte b address (reg s dest) s;
          s = set_reg base (address + value) s
      in add_ticks (2 + 1) s)"

text \<open>\<^verbatim>\<open>STRB Rd, [Rn, -Rm, LSL #]\<close>\<close>

definition STRB_740 :: "'p arm_op" where
  "STRB_740 b opcode s =
     (let offset = push_bit (imm5 opcode) (reg s (fld opcode 0));
          dest = fld opcode 12;
          base = fld opcode 16;
          address = reg s base - offset;
          s = CPUWriteByte b address (reg s dest) s
      in add_ticks (2 + 1) s)"

text \<open>\<^verbatim>\<open>STRB Rd, [Rn, -Rm, LSR #]\<close>\<close>

definition STRB_742 :: "'p arm_op" where
  "STRB_742 b opcode s =
     (let shift = imm5 opcode;
          offset = (if shift \<noteq> 0 then drop_bit shift (reg s (fld opcode 0)) else 0);
          dest = fld opcode 12;
          base = fld opcode 16;
          address = reg s base - offset;
          s = CPUWriteByte b address (reg s dest) s
      in add_ticks (2 + 1) s)"

text \<open>\<^verbatim>\<open>STRB Rd, [Rn, -Rm, ASR #]\<close>\<close>

definition STRB_744 :: "'p arm_op" where
  "STRB_744 b opcode s =
     (let shift = imm5 opcode;
          offset = (if shift \<noteq> 0 then signed_drop_bit shift (reg s (fld opcode 0))
            else if reg s (fld opcode 0) AND 0x80000000 \<noteq> 0 then 0xFFFFFFFF else 0);
          dest = fld opcode 12;
          base = fld opcode 16;
          address = reg s base - offset;
          s = CPUWriteByte b address (reg s dest) s
      in add_ticks (2 + 1) s)"

text \<open>\<^verbatim>\<open>STRB Rd, [Rn, -Rm, ROR #]\<close>\<close>

definition STRB_746 :: "'p arm_op" where
  "STRB_746 b opcode s =
     (let shift = imm5 opcode;
          value = reg s (fld opcode 0);
          value = (if shift \<noteq> 0 then ROR_VALUE value shift else RCR_VALUE value s);
          dest = fld opcode 12;
          base = fld opcode 16;
          address = reg s base - value;
          s = CPUWriteByte b address (reg s dest) s
      in add_ticks (2 + 1) s)"

text \<open>\<^verbatim>\<open>STRB Rd, [Rn, -Rm, LSL #]!\<close>\<close>

definition STRB_760 :: "'p arm_op" where
  "STRB_760 b opcode s =
     (let offset = push_bit (imm5 opcode) (reg s (fld opcode 0));
          dest = fld opcode 12;
          base = fld opcode 16;
          address = reg s base - offset;
          s = set_reg base address s;
          s = CPUWriteByte b address (reg s dest) s
      in add_ticks (2 + 1) s)"

text \<open>\<^verbatim>\<open>STRB Rd, [Rn, -Rm, LSR #]!\<close>\<close>

definition STRB_762 :: "'p arm_op" where
  "STRB_762 b opcode s =
     (let shift = imm5 opcode;
          offset = (if shift \<noteq> 0 then drop_bit shift (reg s (fld opcode 0)) else 0);
          dest = fld opcode 12;
          base = fld opcode 16;
          address = reg s base - offset;
          s = set_reg base address s;
          s = CPUWriteByte b address (reg s dest) s
      in add_ticks (2 + 1) s)"

text \<open>\<^verbatim>\<open>STRB Rd, [Rn, -Rm, ASR #]!\<close>\<close>

definition STRB_764 :: "'p arm_op" where
  "STRB_764 b opcode s =
     (let shift = imm5 opcode;
          offset = (if shift \<noteq> 0 then signed_drop_bit shift (reg s (fld opcode 0))
            else if reg s (fld opcode 0) AND 0x80000000 \<noteq> 0 then 0xFFFFFFFF else 0);
          dest = fld opcode 12;
          base = fld opcode 16;
          address = reg s base - offset;
          s = set_reg base address s;
          s = CPUWriteByte b address (reg s dest) s
      in add_ticks (2 + 1) s)"

text \<open>\<^verbatim>\<open>STRB Rd, [Rn, -Rm, ROR #]!\<close>\<close>

definition STRB_766 :: "'p arm_op" where
  "STRB_766 b opcode s =
     (let shift = imm5 opcode;
          value = reg s (fld opcode 0);
          value = (if shift \<noteq> 0 then ROR_VALUE value shift else RCR_VALUE value s);
          dest = fld opcode 12;
          base = fld opcode 16;
          address = reg s base - value;
          s = set_reg base address s;
          s = CPUWriteByte b address (reg s dest) s
      in add_ticks (2 + 1) s)"

text \<open>\<^verbatim>\<open>STRB Rd, [Rn, Rm, LSL #]\<close>\<close>

definition STRB_7c0 :: "'p arm_op" where
  "STRB_7c0 b opcode s =
     (let offset = push_bit (imm5 opcode) (reg s (fld opcode 0));
          dest = fld opcode 12;
          base = fld opcode 16;
          address = reg s base + offset;
          s = CPUWriteByte b address (reg s dest) s
      in add_ticks (2 + 1) s)"

text \<open>\<^verbatim>\<open>STRB Rd, [Rn, Rm, LSR #]\<close>\<close>

definition STRB_7c2 :: "'p arm_op" where
  "STRB_7c2 b opcode s =
     (let shift = imm5 opcode;
          offset = (if shift \<noteq> 0 then drop_bit shift (reg s (fld opcode 0)) else 0);
          dest = fld opcode 12;
          base = fld opcode 16;
          address = reg s base + offset;
          s = CPUWriteByte b address (reg s dest) s
      in add_ticks (2 + 1) s)"

text \<open>\<^verbatim>\<open>STRB Rd, [Rn, Rm, ASR #]\<close>\<close>

definition STRB_7c4 :: "'p arm_op" where
  "STRB_7c4 b opcode s =
     (let shift = imm5 opcode;
          offset = (if shift \<noteq> 0 then signed_drop_bit shift (reg s (fld opcode 0))
            else if reg s (fld opcode 0) AND 0x80000000 \<noteq> 0 then 0xFFFFFFFF else 0);
          dest = fld opcode 12;
          base = fld opcode 16;
          address = reg s base + offset;
          s = CPUWriteByte b address (reg s dest) s
      in add_ticks (2 + 1) s)"

text \<open>\<^verbatim>\<open>STRB Rd, [Rn, Rm, ROR #]\<close>\<close>

definition STRB_7c6 :: "'p arm_op" where
  "STRB_7c6 b opcode s =
     (let shift = imm5 opcode;
          value = reg s (fld opcode 0);
          value = (if shift \<noteq> 0 then ROR_VALUE value shift else RCR_VALUE value s);
          dest = fld opcode 12;
          base = fld opcode 16;
          address = reg s base + value;
          s = CPUWriteByte b address (reg s dest) s
      in add_ticks (2 + 1) s)"

text \<open>\<^verbatim>\<open>STRB Rd, [Rn, Rm, LSL #]!\<close>\<close>

definition STRB_7e0 :: "'p arm_op" where
  "STRB_7e0 b opcode s =
     (let offset = push_bit (imm5 opcode) (reg s (fld opcode 0));
          dest = fld opcode 12;
          base = fld opcode 16;
          address = reg s base + offset;
          s = set_reg base address s;
          s = CPUWriteByte b address (reg s dest) s
      in add_ticks (2 + 1) s)"

text \<open>\<^verbatim>\<open>STRB Rd, [Rn, Rm, LSR #]!\<close>\<close>

definition STRB_7e2 :: "'p arm_op" where
  "STRB_7e2 b opcode s =
     (let shift = imm5 opcode;
          offset = (if shift \<noteq> 0 then drop_bit shift (reg s (fld opcode 0)) else 0);
          dest = fld opcode 12;
          base = fld opcode 16;
          address = reg s base + offset;
          s = set_reg base address s;
          s = CPUWriteByte b address (reg s dest) s
      in add_ticks (2 + 1) s)"

text \<open>\<^verbatim>\<open>STRB Rd, [Rn, Rm, ASR #]!\<close>\<close>

definition STRB_7e4 :: "'p arm_op" where
  "STRB_7e4 b opcode s =
     (let shift = imm5 opcode;
          offset = (if shift \<noteq> 0 then signed_drop_bit shift (reg s (fld opcode 0))
            else if reg s (fld opcode 0) AND 0x80000000 \<noteq> 0 then 0xFFFFFFFF else 0);
          dest = fld opcode 12;
          base = fld opcode 16;
          address = reg s base + offset;
          s = set_reg base address s;
          s = CPUWriteByte b address (reg s dest) s
      in add_ticks (2 + 1) s)"

text \<open>\<^verbatim>\<open>STRB Rd, [Rn, Rm, ROR #]!\<close>\<close>

definition STRB_7e6 :: "'p arm_op" where
  "STRB_7e6 b opcode s =
     (let shift = imm5 opcode;
          value = reg s (fld opcode 0);
          value = (if shift \<noteq> 0 then ROR_VALUE value shift else RCR_VALUE value s);
          dest = fld opcode 12;
          base = fld opcode 16;
          address = reg s base + value;
          s = set_reg base address s;
          s = CPUWriteByte b address (reg s dest) s
      in add_ticks (2 + 1) s)"

text \<open>\<^verbatim>\<open>LDRB Rd, [Rn], -Rm, LSL #\<close>\<close>

definition LDRB_650 :: "'p arm_op" where
  "LDRB_650 b opcode s =
     (let offset = push_bit (imm5 opcode) (reg s (fld opcode 0));
          dest = fld opcode 12;
          base = fld opcode 16;
          address = reg s base;
          (v, s) = CPUReadByte b address s;
          s = set_reg dest v s;
          s = (if dest \<noteq> base then set_reg base (address - offset) s else s)
      in add_ticks (3 + 1) s)"

text \<open>\<^verbatim>\<open>LDRB Rd, [Rn], -Rm, LSR #\<close>\<close>

definition LDRB_652 :: "'p arm_op" where
  "LDRB_652 b opcode s =
     (let shift = imm5 opcode;
          offset = (if shift \<noteq> 0 then drop_bit shift (reg s (fld opcode 0)) else 0);
          dest = fld opcode 12;
          base = fld opcode 16;
          address = reg s base;
          (v, s) = CPUReadByte b address s;
          s = set_reg dest v s;
          s = (if dest \<noteq> base then set_reg base (address - offset) s else s)
      in add_ticks (3 + 1) s)"

text \<open>\<^verbatim>\<open>LDRB Rd, [Rn], -Rm, ASR #\<close>\<close>

definition LDRB_654 :: "'p arm_op" where
  "LDRB_654 b opcode s =
     (let shift = imm5 opcode;
          offset = (if shift \<noteq> 0 then signed_drop_bit shift (reg s (fld opcode 0))
            else if reg s (fld opcode 0) AND 0x80000000 \<noteq> 0 then 0xFFFFFFFF else 0);
          dest = fld opcode 12;
          base = fld opcode 16;
          address = reg s base;
          (v, s) = CPUReadByte b address s;
          s = set_reg dest v s;
          s = (if dest \<noteq> base then set_reg base (address - offset) s else s)
      in add_ticks (3 + 1) s)"

text \<open>\<^verbatim>\<open>LDRB Rd, [Rn], -Rm, ROR #\<close>\<close>

definition LDRB_656 :: "'p arm_op" where
  "LDRB_656 b opcode s =
     (let shift = imm5 opcode;
          value = reg s (fld opcode 0);
          value = (if shift \<noteq> 0 then ROR_VALUE value shift else RCR_VALUE value s);
          dest = fld opcode 12;
          base = fld opcode 16;
          address = reg s base;
          (v, s) = CPUReadByte b address s;
          s = set_reg dest v s;
          s = (if dest \<noteq> base then set_reg base (address - value) s else s)
      in add_ticks (3 + 1) s)"

text \<open>\<^verbatim>\<open>LDRB Rd, [Rn], Rm, LSL #\<close>\<close>

definition LDRB_6d0 :: "'p arm_op" where
  "LDRB_6d0 b opcode s =
     (let offset = push_bit (imm5 opcode) (reg s (fld opcode 0));
          dest = fld opcode 12;
          base = fld opcode 16;
          address = reg s base;
          (v, s) = CPUReadByte b address s;
          s = set_reg dest v s;
          s = (if dest \<noteq> base then set_reg base (address + offset) s else s)
      in add_ticks (3 + 1) s)"

text \<open>\<^verbatim>\<open>LDRB Rd, [Rn], Rm, LSR #\<close>\<close>

definition LDRB_6d2 :: "'p arm_op" where
  "LDRB_6d2 b opcode s =
     (let shift = imm5 opcode;
          offset = (if shift \<noteq> 0 then drop_bit shift (reg s (fld opcode 0)) else 0);
          dest = fld opcode 12;
          base = fld opcode 16;
          address = reg s base;
          (v, s) = CPUReadByte b address s;
          s = set_reg dest v s;
          s = (if dest \<noteq> base then set_reg base (address + offset) s else s)
      in add_ticks (3 + 1) s)"

text \<open>\<^verbatim>\<open>LDRB Rd, [Rn], Rm, ASR #\<close>\<close>

definition LDRB_6d4 :: "'p arm_op" where
  "LDRB_6d4 b opcode s =
     (let shift = imm5 opcode;
          offset = (if shift \<noteq> 0 then signed_drop_bit shift (reg s (fld opcode 0))
            else if reg s (fld opcode 0) AND 0x80000000 \<noteq> 0 then 0xFFFFFFFF else 0);
          dest = fld opcode 12;
          base = fld opcode 16;
          address = reg s base;
          (v, s) = CPUReadByte b address s;
          s = set_reg dest v s;
          s = (if dest \<noteq> base then set_reg base (address + offset) s else s)
      in add_ticks (3 + 1) s)"

text \<open>\<^verbatim>\<open>LDRB Rd, [Rn], Rm, ROR #\<close>\<close>

definition LDRB_6d6 :: "'p arm_op" where
  "LDRB_6d6 b opcode s =
     (let shift = imm5 opcode;
          value = reg s (fld opcode 0);
          value = (if shift \<noteq> 0 then ROR_VALUE value shift else RCR_VALUE value s);
          dest = fld opcode 12;
          base = fld opcode 16;
          address = reg s base;
          (v, s) = CPUReadByte b address s;
          s = set_reg dest v s;
          s = (if dest \<noteq> base then set_reg base (address + value) s else s)
      in add_ticks (3 + 1) s)"

text \<open>\<^verbatim>\<open>LDRB Rd, [Rn, -Rm, LSL #]\<close>\<close>

definition LDRB_750 :: "'p arm_op" where
  "LDRB_750 b opcode s =
     (let offset = push_bit (imm5 opcode) (reg s (fld opcode 0));
          dest = fld opcode 12;
          base = fld opcode 16;
          address = reg s base - offset;
          (v, s) = CPUReadByte b address s;
          s = set_reg dest v s
      in add_ticks (3 + 1) s)"

text \<open>\<^verbatim>\<open>LDRB Rd, [Rn, -Rm, LSR #]\<close>\<close>

definition LDRB_752 :: "'p arm_op" where
  "LDRB_752 b opcode s =
     (let shift = imm5 opcode;
          offset = (if shift \<noteq> 0 then drop_bit shift (reg s (fld opcode 0)) else 0);
          dest = fld opcode 12;
          base = fld opcode 16;
          address = reg s base - offset;
          (v, s) = CPUReadByte b address s;
          s = set_reg dest v s
      in add_ticks (3 + 1) s)"

text \<open>\<^verbatim>\<open>LDRB Rd, [Rn, -Rm, ASR #]\<close>\<close>

definition LDRB_754 :: "'p arm_op" where
  "LDRB_754 b opcode s =
     (let shift = imm5 opcode;
          offset = (if shift \<noteq> 0 then signed_drop_bit shift (reg s (fld opcode 0))
            else if reg s (fld opcode 0) AND 0x80000000 \<noteq> 0 then 0xFFFFFFFF else 0);
          dest = fld opcode 12;
          base = fld opcode 16;
          address = reg s base - offset;
          (v, s) = CPUReadByte b address s;
          s = set_reg dest v s
      in add_ticks (3 + 1) s)"

text \<open>\<^verbatim>\<open>LDRB Rd, [Rn, -Rm, ROR #]\<close>\<close>

definition LDRB_756 :: "'p arm_op" where
  "LDRB_756 b opcode s =
     (let shift = imm5 opcode;
          value = reg s (fld opcode 0);
          value = (if shift \<noteq> 0 then ROR_VALUE value shift else RCR_VALUE value s);
          dest = fld opcode 12;
          base = fld opcode 16;
          address = reg s base - value;
          (v, s) = CPUReadByte b address s;
          s = set_reg dest v s
      in add_ticks (3 + 1) s)"

text \<open>\<^verbatim>\<open>LDRB Rd, [Rn, -Rm, LSL #]!\<close>\<close>

definition LDRB_770 :: "'p arm_op" where
  "LDRB_770 b opcode s =
     (let offset = push_bit (imm5 opcode) (reg s (fld opcode 0));
          dest = fld opcode 12;
          base = fld opcode 16;
          address = reg s base - offset;
          (v, s) = CPUReadByte b address s;
          s = set_reg dest v s;
          s = (if dest \<noteq> base then set_reg base address s else s)
      in add_ticks (3 + 1) s)"

text \<open>\<^verbatim>\<open>LDRB Rd, [Rn, -Rm, LSR #]!\<close>\<close>

definition LDRB_772 :: "'p arm_op" where
  "LDRB_772 b opcode s =
     (let shift = imm5 opcode;
          offset = (if shift \<noteq> 0 then drop_bit shift (reg s (fld opcode 0)) else 0);
          dest = fld opcode 12;
          base = fld opcode 16;
          address = reg s base - offset;
          (v, s) = CPUReadByte b address s;
          s = set_reg dest v s;
          s = (if dest \<noteq> base then set_reg base address s else s)
      in add_ticks (3 + 1) s)"

text \<open>\<^verbatim>\<open>LDRB Rd, [Rn, -Rm, ASR #]!\<close>\<close>

definition LDRB_774 :: "'p arm_op" where
  "LDRB_774 b opcode s =
     (let shift = imm5 opcode;
          offset = (if shift \<noteq> 0 then signed_drop_bit shift (reg s (fld opcode 0))
            else if reg s (fld opcode 0) AND 0x80000000 \<noteq> 0 then 0xFFFFFFFF else 0);
          dest = fld opcode 12;
          base = fld opcode 16;
          address = reg s base - offset;
          (v, s) = CPUReadByte b address s;
          s = set_reg dest v s;
          s = (if dest \<noteq> base then set_reg base address s else s)
      in add_ticks (3 + 1) s)"

text \<open>\<^verbatim>\<open>LDRB Rd, [Rn, -Rm, ROR #]!\<close>\<close>

definition LDRB_776 :: "'p arm_op" where
  "LDRB_776 b opcode s =
     (let shift = imm5 opcode;
          value = reg s (fld opcode 0);
          value = (if shift \<noteq> 0 then ROR_VALUE value shift else RCR_VALUE value s);
          dest = fld opcode 12;
          base = fld opcode 16;
          address = reg s base - value;
          (v, s) = CPUReadByte b address s;
          s = set_reg dest v s;
          s = (if dest \<noteq> base then set_reg base address s else s)
      in add_ticks (3 + 1) s)"

text \<open>\<^verbatim>\<open>LDRB Rd, [Rn, Rm, LSL #]\<close>\<close>

definition LDRB_7d0 :: "'p arm_op" where
  "LDRB_7d0 b opcode s =
     (let offset = push_bit (imm5 opcode) (reg s (fld opcode 0));
          dest = fld opcode 12;
          base = fld opcode 16;
          address = reg s base + offset;
          (v, s) = CPUReadByte b address s;
          s = set_reg dest v s
      in add_ticks (3 + 1) s)"

text \<open>\<^verbatim>\<open>LDRB Rd, [Rn, Rm, LSR #]\<close>\<close>

definition LDRB_7d2 :: "'p arm_op" where
  "LDRB_7d2 b opcode s =
     (let shift = imm5 opcode;
          offset = (if shift \<noteq> 0 then drop_bit shift (reg s (fld opcode 0)) else 0);
          dest = fld opcode 12;
          base = fld opcode 16;
          address = reg s base + offset;
          (v, s) = CPUReadByte b address s;
          s = set_reg dest v s
      in add_ticks (3 + 1) s)"

text \<open>\<^verbatim>\<open>LDRB Rd, [Rn, Rm, ASR #]\<close>\<close>

definition LDRB_7d4 :: "'p arm_op" where
  "LDRB_7d4 b opcode s =
     (let shift = imm5 opcode;
          offset = (if shift \<noteq> 0 then signed_drop_bit shift (reg s (fld opcode 0))
            else if reg s (fld opcode 0) AND 0x80000000 \<noteq> 0 then 0xFFFFFFFF else 0);
          dest = fld opcode 12;
          base = fld opcode 16;
          address = reg s base + offset;
          (v, s) = CPUReadByte b address s;
          s = set_reg dest v s
      in add_ticks (3 + 1) s)"

text \<open>\<^verbatim>\<open>LDRB Rd, [Rn, Rm, ROR #]\<close>\<close>

definition LDRB_7d6 :: "'p arm_op" where
  "LDRB_7d6 b opcode s =
     (let shift = imm5 opcode;
          value = reg s (fld opcode 0);
          value = (if shift \<noteq> 0 then ROR_VALUE value shift else RCR_VALUE value s);
          dest = fld opcode 12;
          base = fld opcode 16;
          address = reg s base + value;
          (v, s) = CPUReadByte b address s;
          s = set_reg dest v s
      in add_ticks (3 + 1) s)"

text \<open>\<^verbatim>\<open>LDRB Rd, [Rn, Rm, LSL #]!\<close>\<close>

definition LDRB_7f0 :: "'p arm_op" where
  "LDRB_7f0 b opcode s =
     (let offset = push_bit (imm5 opcode) (reg s (fld opcode 0));
          dest = fld opcode 12;
          base = fld opcode 16;
          address = reg s base + offset;
          (v, s) = CPUReadByte b address s;
          s = set_reg dest v s;
          s = (if dest \<noteq> base then set_reg base address s else s)
      in add_ticks (3 + 1) s)"

text \<open>\<^verbatim>\<open>LDRB Rd, [Rn, Rm, LSR #]!\<close>\<close>

definition LDRB_7f2 :: "'p arm_op" where
  "LDRB_7f2 b opcode s =
     (let shift = imm5 opcode;
          offset = (if shift \<noteq> 0 then drop_bit shift (reg s (fld opcode 0)) else 0);
          dest = fld opcode 12;
          base = fld opcode 16;
          address = reg s base + offset;
          (v, s) = CPUReadByte b address s;
          s = set_reg dest v s;
          s = (if dest \<noteq> base then set_reg base address s else s)
      in add_ticks (3 + 1) s)"

text \<open>\<^verbatim>\<open>LDRB Rd, [Rn, Rm, ASR #]!\<close>\<close>

definition LDRB_7f4 :: "'p arm_op" where
  "LDRB_7f4 b opcode s =
     (let shift = imm5 opcode;
          offset = (if shift \<noteq> 0 then signed_drop_bit shift (reg s (fld opcode 0))
            else if reg s (fld opcode 0) AND 0x80000000 \<noteq> 0 then 0xFFFFFFFF else 0);
          dest = fld opcode 12;
          base = fld opcode 16;
          address = reg s base + offset;
          (v, s) = CPUReadByte b address s;
          s = set_reg dest v s;
          s = (if dest \<noteq> base then set_reg base address s else s)
      in add_ticks (3 + 1) s)"

text \<open>\<^verbatim>\<open>LDRB Rd, [Rn, Rm, ROR #]!\<close>\<close>

definition LDRB_7f6 :: "'p arm_op" where
  "LDRB_7f6 b opcode s =
     (let shift = imm5 opcode;
          value = reg s (fld opcode 0);
          value = (if shift \<noteq> 0 then ROR_VALUE value shift else RCR_VALUE value s);
          dest = fld opcode 12;
          base = fld opcode 16;
          address = reg s base + value;
          (v, s) = CPUReadByte b address s;
          s = set_reg dest v s;
          s = (if dest \<noteq> base then set_reg base address s else s)
      in add_ticks (3 + 1) s)"

subsection \<open>The two patterns\<close>

text \<open>
  \<open>P\<close> is pre-indexing, \<open>U\<close> adds the offset, \<open>W\<close> writes the address back; a post-indexed transfer always does.
\<close>

definition ref_load :: "msize \<Rightarrow> (u32 \<Rightarrow> u32) \<Rightarrow> bool \<Rightarrow> bool \<Rightarrow> bool \<Rightarrow> bool \<Rightarrow> bool \<Rightarrow>
    ('p arm_state \<Rightarrow> u32) \<Rightarrow> 'p arm_op" where
  "ref_load T ext early branch P U W off b opcode s =
     (let base = fld opcode 16;
          dest = fld opcode 12;
          ea = (if U then reg s base + off s else reg s base - off s);
          address = (if P then ea else reg s base);
          (v, s) = readMem b T address (if early then add_ticks 4 s else s);
          s = set_reg dest (ext v) s;
          s = (if (\<not> P \<or> W) \<and> dest \<noteq> base then set_reg base ea s else s);
          s = (if early then s else add_ticks 4 s)
      in if branch \<and> dest = 15 then flush_pc (add_ticks 2 s) else s)"

definition ref_store :: "msize \<Rightarrow> bool \<Rightarrow> bool \<Rightarrow> bool \<Rightarrow> ('p arm_state \<Rightarrow> u32) \<Rightarrow> 'p arm_op" where
  "ref_store T P U W off b opcode s =
     (let base = fld opcode 16;
          dest = fld opcode 12;
          ea = (if U then reg s base + off s else reg s base - off s);
          address = (if P then ea else reg s base);
          s = (if P \<and> W then set_reg base ea s else s);
          s = writeMem b T address (cast T (reg s dest)) s;
          s = (if P then s else set_reg base ea s)
      in add_ticks 3 s)"

text \<open>The offsets: 12 bits, two nibbles, a register, a register shifted by the barrel shifter.\<close>

definition off_imm12 :: "u32 \<Rightarrow> 'p arm_state \<Rightarrow> u32" where "off_imm12 opcode s = opcode AND 0xFFF"
definition off_imm8 :: "u32 \<Rightarrow> 'p arm_state \<Rightarrow> u32" where
  "off_imm8 opcode s = (opcode AND 0x0F) OR (drop_bit 4 opcode AND 0xF0)"
definition off_rm :: "u32 \<Rightarrow> 'p arm_state \<Rightarrow> u32" where "off_rm opcode s = reg s (fld opcode 0)"
definition off_shift :: "nat \<Rightarrow> u32 \<Rightarrow> 'p arm_state \<Rightarrow> u32" where
  "off_shift t opcode s = fst (ref_imm_shift t opcode s)"

text \<open>A bus whose register reads leave the processor's registers alone.\<close>

definition bus_keeps_regs :: "'p aica_bus \<Rightarrow> bool" where
  "bus_keeps_regs b \<longleftrightarrow> (\<forall>T a s. reg (snd (readRegInternal b T a s)) = reg s)"

lemma readMem_reg: "bus_keeps_regs b \<Longrightarrow> reg (snd (readMem b T a s)) = reg s"
  by (auto simp: bus_keeps_regs_def readMem_def readReg_def Let_def)

lemma shift_offsets:
  "push_bit (imm5 opcode) (reg s (fld opcode 0)) = off_shift 0 opcode s"
  "(if imm5 opcode \<noteq> 0 then drop_bit (imm5 opcode) (reg s (fld opcode 0)) else 0) = off_shift 1 opcode s"
  "(if imm5 opcode \<noteq> 0 then signed_drop_bit (imm5 opcode) (reg s (fld opcode 0))
    else if reg s (fld opcode 0) AND 0x80000000 \<noteq> 0 then 0xFFFFFFFF else 0) = off_shift 2 opcode s"
  "(if imm5 opcode \<noteq> 0 then ROR_VALUE (reg s (fld opcode 0)) (imm5 opcode)
    else RCR_VALUE (reg s (fld opcode 0)) s) = off_shift 3 opcode s"
  unfolding off_shift_def operand_imm_shift
  by (simp_all add: LOGICAL_LSL_REG_def LOGICAL_LSR_REG_def LOGICAL_ASR_REG_def LOGICAL_ROR_REG_def
      LOGICAL_RRX_REG_def ROR_VALUE_def RCR_VALUE_def Let_def)


subsection \<open>Every block is an instance\<close>

lemma signed_loads_sb:
  "LDRSB_01d b opcode s = ref_load U8 sext8 True False False False False (off_rm opcode) b opcode s"
  "LDRSB_05d b opcode s = ref_load U8 sext8 True False False False False (off_imm8 opcode) b opcode s"
  "LDRSB_09d b opcode s = ref_load U8 sext8 True False False True False (off_rm opcode) b opcode s"
  "LDRSB_0dd b opcode s = ref_load U8 sext8 True False False True False (off_imm8 opcode) b opcode s"
  "LDRSB_11d b opcode s = ref_load U8 sext8 True False True False False (off_rm opcode) b opcode s"
  "LDRSB_13d b opcode s = ref_load U8 sext8 True False True False True (off_rm opcode) b opcode s"
  "LDRSB_15d b opcode s = ref_load U8 sext8 True False True False False (off_imm8 opcode) b opcode s"
  "LDRSB_17d b opcode s = ref_load U8 sext8 True False True False True (off_imm8 opcode) b opcode s"
  "LDRSB_19d b opcode s = ref_load U8 sext8 True False True True False (off_rm opcode) b opcode s"
  "LDRSB_1bd b opcode s = ref_load U8 sext8 True False True True True (off_rm opcode) b opcode s"
  "LDRSB_1dd b opcode s = ref_load U8 sext8 True False True True False (off_imm8 opcode) b opcode s"
  "LDRSB_1fd b opcode s = ref_load U8 sext8 True False True True True (off_imm8 opcode) b opcode s"
  by (simp_all add: LDRSB_01d_def LDRSB_05d_def LDRSB_09d_def LDRSB_0dd_def LDRSB_11d_def LDRSB_13d_def LDRSB_15d_def LDRSB_17d_def LDRSB_19d_def LDRSB_1bd_def LDRSB_1dd_def LDRSB_1fd_def
      ref_load_def off_rm_def off_imm8_def Let_def split_def)

lemma signed_loads_sh:
  "LDRSH_01f b opcode s = ref_load U16 sext16 True False False False False (off_rm opcode) b opcode s"
  "LDRSH_05f b opcode s = ref_load U16 sext16 True False False False False (off_imm8 opcode) b opcode s"
  "LDRSH_09f b opcode s = ref_load U16 sext16 True False False True False (off_rm opcode) b opcode s"
  "LDRSH_0df b opcode s = ref_load U16 sext16 True False False True False (off_imm8 opcode) b opcode s"
  "LDRSH_11f b opcode s = ref_load U16 sext16 True False True False False (off_rm opcode) b opcode s"
  "LDRSH_13f b opcode s = ref_load U16 sext16 True False True False True (off_rm opcode) b opcode s"
  "LDRSH_15f b opcode s = ref_load U16 sext16 True False True False False (off_imm8 opcode) b opcode s"
  "LDRSH_17f b opcode s = ref_load U16 sext16 True False True False True (off_imm8 opcode) b opcode s"
  "LDRSH_19f b opcode s = ref_load U16 sext16 True False True True False (off_rm opcode) b opcode s"
  "LDRSH_1bf b opcode s = ref_load U16 sext16 True False True True True (off_rm opcode) b opcode s"
  "LDRSH_1df b opcode s = ref_load U16 sext16 True False True True False (off_imm8 opcode) b opcode s"
  "LDRSH_1ff b opcode s = ref_load U16 sext16 True False True True True (off_imm8 opcode) b opcode s"
  by (simp_all add: LDRSH_01f_def LDRSH_05f_def LDRSH_09f_def LDRSH_0df_def LDRSH_11f_def LDRSH_13f_def LDRSH_15f_def LDRSH_17f_def LDRSH_19f_def LDRSH_1bf_def LDRSH_1df_def LDRSH_1ff_def
      ref_load_def off_rm_def off_imm8_def Let_def split_def)

lemma imm_stores:
  "STR_400 b opcode s = ref_store U32 False False False (off_imm12 opcode) b opcode s"
  "STR_480 b opcode s = ref_store U32 False True False (off_imm12 opcode) b opcode s"
  "STR_500 b opcode s = ref_store U32 True False False (off_imm12 opcode) b opcode s"
  "STR_520 b opcode s = ref_store U32 True False True (off_imm12 opcode) b opcode s"
  "STR_580 b opcode s = ref_store U32 True True False (off_imm12 opcode) b opcode s"
  "STR_5a0 b opcode s = ref_store U32 True True True (off_imm12 opcode) b opcode s"
  "STRB_440 b opcode s = ref_store U8 False False False (off_imm12 opcode) b opcode s"
  "STRB_4c0 b opcode s = ref_store U8 False True False (off_imm12 opcode) b opcode s"
  "STRB_540 b opcode s = ref_store U8 True False False (off_imm12 opcode) b opcode s"
  "STRB_560 b opcode s = ref_store U8 True False True (off_imm12 opcode) b opcode s"
  "STRB_5c0 b opcode s = ref_store U8 True True False (off_imm12 opcode) b opcode s"
  "STRB_5e0 b opcode s = ref_store U8 True True True (off_imm12 opcode) b opcode s"
  by (simp_all add: STR_400_def STR_480_def STR_500_def STR_520_def STR_580_def STR_5a0_def STRB_440_def STRB_4c0_def STRB_540_def STRB_560_def STRB_5c0_def STRB_5e0_def
      ref_store_def off_imm12_def Let_def)

lemma imm_loads:
  assumes "bus_keeps_regs b"
  shows "LDR_410 b opcode s = ref_load U32 id False True False False False (off_imm12 opcode) b opcode s"
    "LDR_430 b opcode s = ref_load U32 id False False False False True (off_imm12 opcode) b opcode s"
    "LDR_490 b opcode s = ref_load U32 id False True False True False (off_imm12 opcode) b opcode s"
    "LDR_4b0 b opcode s = ref_load U32 id False False False True True (off_imm12 opcode) b opcode s"
    "LDR_510 b opcode s = ref_load U32 id False True True False False (off_imm12 opcode) b opcode s"
    "LDR_530 b opcode s = ref_load U32 id False True True False True (off_imm12 opcode) b opcode s"
    "LDR_590 b opcode s = ref_load U32 id False True True True False (off_imm12 opcode) b opcode s"
    "LDR_5b0 b opcode s = ref_load U32 id False True True True True (off_imm12 opcode) b opcode s"
    "LDRB_450 b opcode s = ref_load U8 id False False False False False (off_imm12 opcode) b opcode s"
    "LDRB_4d0 b opcode s = ref_load U8 id False False False True False (off_imm12 opcode) b opcode s"
    "LDRB_550 b opcode s = ref_load U8 id False False True False False (off_imm12 opcode) b opcode s"
    "LDRB_570 b opcode s = ref_load U8 id False False True False True (off_imm12 opcode) b opcode s"
    "LDRB_5d0 b opcode s = ref_load U8 id False False True True False (off_imm12 opcode) b opcode s"
    "LDRB_5f0 b opcode s = ref_load U8 id False False True True True (off_imm12 opcode) b opcode s"
  using readMem_reg [OF assms]
  by (simp_all add: LDR_410_def LDR_430_def LDR_490_def LDR_4b0_def LDR_510_def LDR_530_def LDR_590_def LDR_5b0_def LDRB_450_def LDRB_4d0_def LDRB_550_def LDRB_570_def LDRB_5d0_def LDRB_5f0_def
      ref_load_def off_imm12_def Let_def split_def)

lemma reg_str_0:
  "STR_600 b opcode s = ref_store U32 False False False (off_shift 0 opcode) b opcode s"
  "STR_680 b opcode s = ref_store U32 False True False (off_shift 0 opcode) b opcode s"
  "STR_700 b opcode s = ref_store U32 True False False (off_shift 0 opcode) b opcode s"
  "STR_720 b opcode s = ref_store U32 True False True (off_shift 0 opcode) b opcode s"
  "STR_780 b opcode s = ref_store U32 True True False (off_shift 0 opcode) b opcode s"
  "STR_7a0 b opcode s = ref_store U32 True True True (off_shift 0 opcode) b opcode s"
  unfolding STR_600_def STR_680_def STR_700_def STR_720_def STR_780_def STR_7a0_def Let_def shift_offsets
  by (simp_all add: ref_store_def Let_def split_def)

lemma reg_str_1:
  "STR_602 b opcode s = ref_store U32 False False False (off_shift 1 opcode) b opcode s"
  "STR_682 b opcode s = ref_store U32 False True False (off_shift 1 opcode) b opcode s"
  "STR_702 b opcode s = ref_store U32 True False False (off_shift 1 opcode) b opcode s"
  "STR_722 b opcode s = ref_store U32 True False True (off_shift 1 opcode) b opcode s"
  "STR_782 b opcode s = ref_store U32 True True False (off_shift 1 opcode) b opcode s"
  "STR_7a2 b opcode s = ref_store U32 True True True (off_shift 1 opcode) b opcode s"
  unfolding STR_602_def STR_682_def STR_702_def STR_722_def STR_782_def STR_7a2_def Let_def shift_offsets
  by (simp_all add: ref_store_def Let_def split_def)

lemma reg_str_2:
  "STR_604 b opcode s = ref_store U32 False False False (off_shift 2 opcode) b opcode s"
  "STR_684 b opcode s = ref_store U32 False True False (off_shift 2 opcode) b opcode s"
  "STR_704 b opcode s = ref_store U32 True False False (off_shift 2 opcode) b opcode s"
  "STR_724 b opcode s = ref_store U32 True False True (off_shift 2 opcode) b opcode s"
  "STR_784 b opcode s = ref_store U32 True True False (off_shift 2 opcode) b opcode s"
  "STR_7a4 b opcode s = ref_store U32 True True True (off_shift 2 opcode) b opcode s"
  unfolding STR_604_def STR_684_def STR_704_def STR_724_def STR_784_def STR_7a4_def Let_def shift_offsets
  by (simp_all add: ref_store_def Let_def split_def)

lemma reg_str_3:
  "STR_606 b opcode s = ref_store U32 False False False (off_shift 3 opcode) b opcode s"
  "STR_686 b opcode s = ref_store U32 False True False (off_shift 3 opcode) b opcode s"
  "STR_706 b opcode s = ref_store U32 True False False (off_shift 3 opcode) b opcode s"
  "STR_726 b opcode s = ref_store U32 True False True (off_shift 3 opcode) b opcode s"
  "STR_786 b opcode s = ref_store U32 True True False (off_shift 3 opcode) b opcode s"
  "STR_7a6 b opcode s = ref_store U32 True True True (off_shift 3 opcode) b opcode s"
  unfolding STR_606_def STR_686_def STR_706_def STR_726_def STR_786_def STR_7a6_def Let_def shift_offsets
  by (simp_all add: ref_store_def Let_def split_def)

lemma reg_strb_0:
  "STRB_640 b opcode s = ref_store U8 False False False (off_shift 0 opcode) b opcode s"
  "STRB_6c0 b opcode s = ref_store U8 False True False (off_shift 0 opcode) b opcode s"
  "STRB_740 b opcode s = ref_store U8 True False False (off_shift 0 opcode) b opcode s"
  "STRB_760 b opcode s = ref_store U8 True False True (off_shift 0 opcode) b opcode s"
  "STRB_7c0 b opcode s = ref_store U8 True True False (off_shift 0 opcode) b opcode s"
  "STRB_7e0 b opcode s = ref_store U8 True True True (off_shift 0 opcode) b opcode s"
  unfolding STRB_640_def STRB_6c0_def STRB_740_def STRB_760_def STRB_7c0_def STRB_7e0_def Let_def shift_offsets
  by (simp_all add: ref_store_def Let_def split_def)

lemma reg_strb_1:
  "STRB_642 b opcode s = ref_store U8 False False False (off_shift 1 opcode) b opcode s"
  "STRB_6c2 b opcode s = ref_store U8 False True False (off_shift 1 opcode) b opcode s"
  "STRB_742 b opcode s = ref_store U8 True False False (off_shift 1 opcode) b opcode s"
  "STRB_762 b opcode s = ref_store U8 True False True (off_shift 1 opcode) b opcode s"
  "STRB_7c2 b opcode s = ref_store U8 True True False (off_shift 1 opcode) b opcode s"
  "STRB_7e2 b opcode s = ref_store U8 True True True (off_shift 1 opcode) b opcode s"
  unfolding STRB_642_def STRB_6c2_def STRB_742_def STRB_762_def STRB_7c2_def STRB_7e2_def Let_def shift_offsets
  by (simp_all add: ref_store_def Let_def split_def)

lemma reg_strb_2:
  "STRB_644 b opcode s = ref_store U8 False False False (off_shift 2 opcode) b opcode s"
  "STRB_6c4 b opcode s = ref_store U8 False True False (off_shift 2 opcode) b opcode s"
  "STRB_744 b opcode s = ref_store U8 True False False (off_shift 2 opcode) b opcode s"
  "STRB_764 b opcode s = ref_store U8 True False True (off_shift 2 opcode) b opcode s"
  "STRB_7c4 b opcode s = ref_store U8 True True False (off_shift 2 opcode) b opcode s"
  "STRB_7e4 b opcode s = ref_store U8 True True True (off_shift 2 opcode) b opcode s"
  unfolding STRB_644_def STRB_6c4_def STRB_744_def STRB_764_def STRB_7c4_def STRB_7e4_def Let_def shift_offsets
  by (simp_all add: ref_store_def Let_def split_def)

lemma reg_strb_3:
  "STRB_646 b opcode s = ref_store U8 False False False (off_shift 3 opcode) b opcode s"
  "STRB_6c6 b opcode s = ref_store U8 False True False (off_shift 3 opcode) b opcode s"
  "STRB_746 b opcode s = ref_store U8 True False False (off_shift 3 opcode) b opcode s"
  "STRB_766 b opcode s = ref_store U8 True False True (off_shift 3 opcode) b opcode s"
  "STRB_7c6 b opcode s = ref_store U8 True True False (off_shift 3 opcode) b opcode s"
  "STRB_7e6 b opcode s = ref_store U8 True True True (off_shift 3 opcode) b opcode s"
  unfolding STRB_646_def STRB_6c6_def STRB_746_def STRB_766_def STRB_7c6_def STRB_7e6_def Let_def shift_offsets
  by (simp_all add: ref_store_def Let_def split_def)

lemma reg_ldr_0:
  "LDR_610 b opcode s = ref_load U32 id False True False False False (off_shift 0 opcode) b opcode s"
  "LDR_690 b opcode s = ref_load U32 id False True False True False (off_shift 0 opcode) b opcode s"
  "LDR_710 b opcode s = ref_load U32 id False True True False False (off_shift 0 opcode) b opcode s"
  "LDR_730 b opcode s = ref_load U32 id False True True False True (off_shift 0 opcode) b opcode s"
  "LDR_790 b opcode s = ref_load U32 id False True True True False (off_shift 0 opcode) b opcode s"
  "LDR_7b0 b opcode s = ref_load U32 id False True True True True (off_shift 0 opcode) b opcode s"
  unfolding LDR_610_def LDR_690_def LDR_710_def LDR_730_def LDR_790_def LDR_7b0_def Let_def shift_offsets
  by (simp_all add: ref_load_def Let_def split_def)

lemma reg_ldr_1:
  "LDR_612 b opcode s = ref_load U32 id False True False False False (off_shift 1 opcode) b opcode s"
  "LDR_692 b opcode s = ref_load U32 id False True False True False (off_shift 1 opcode) b opcode s"
  "LDR_712 b opcode s = ref_load U32 id False True True False False (off_shift 1 opcode) b opcode s"
  "LDR_732 b opcode s = ref_load U32 id False True True False True (off_shift 1 opcode) b opcode s"
  "LDR_792 b opcode s = ref_load U32 id False True True True False (off_shift 1 opcode) b opcode s"
  "LDR_7b2 b opcode s = ref_load U32 id False True True True True (off_shift 1 opcode) b opcode s"
  unfolding LDR_612_def LDR_692_def LDR_712_def LDR_732_def LDR_792_def LDR_7b2_def Let_def shift_offsets
  by (simp_all add: ref_load_def Let_def split_def)

lemma reg_ldr_2:
  "LDR_614 b opcode s = ref_load U32 id False True False False False (off_shift 2 opcode) b opcode s"
  "LDR_694 b opcode s = ref_load U32 id False True False True False (off_shift 2 opcode) b opcode s"
  "LDR_714 b opcode s = ref_load U32 id False True True False False (off_shift 2 opcode) b opcode s"
  "LDR_734 b opcode s = ref_load U32 id False True True False True (off_shift 2 opcode) b opcode s"
  "LDR_794 b opcode s = ref_load U32 id False True True True False (off_shift 2 opcode) b opcode s"
  "LDR_7b4 b opcode s = ref_load U32 id False True True True True (off_shift 2 opcode) b opcode s"
  unfolding LDR_614_def LDR_694_def LDR_714_def LDR_734_def LDR_794_def LDR_7b4_def Let_def shift_offsets
  by (simp_all add: ref_load_def Let_def split_def)

lemma reg_ldr_3:
  "LDR_616 b opcode s = ref_load U32 id False True False False False (off_shift 3 opcode) b opcode s"
  "LDR_696 b opcode s = ref_load U32 id False True False True False (off_shift 3 opcode) b opcode s"
  "LDR_716 b opcode s = ref_load U32 id False True True False False (off_shift 3 opcode) b opcode s"
  "LDR_736 b opcode s = ref_load U32 id False True True False True (off_shift 3 opcode) b opcode s"
  "LDR_796 b opcode s = ref_load U32 id False True True True False (off_shift 3 opcode) b opcode s"
  "LDR_7b6 b opcode s = ref_load U32 id False True True True True (off_shift 3 opcode) b opcode s"
  unfolding LDR_616_def LDR_696_def LDR_716_def LDR_736_def LDR_796_def LDR_7b6_def Let_def shift_offsets
  by (simp_all add: ref_load_def Let_def split_def)

lemma reg_ldrb_0:
  "LDRB_650 b opcode s = ref_load U8 id False False False False False (off_shift 0 opcode) b opcode s"
  "LDRB_6d0 b opcode s = ref_load U8 id False False False True False (off_shift 0 opcode) b opcode s"
  "LDRB_750 b opcode s = ref_load U8 id False False True False False (off_shift 0 opcode) b opcode s"
  "LDRB_770 b opcode s = ref_load U8 id False False True False True (off_shift 0 opcode) b opcode s"
  "LDRB_7d0 b opcode s = ref_load U8 id False False True True False (off_shift 0 opcode) b opcode s"
  "LDRB_7f0 b opcode s = ref_load U8 id False False True True True (off_shift 0 opcode) b opcode s"
  unfolding LDRB_650_def LDRB_6d0_def LDRB_750_def LDRB_770_def LDRB_7d0_def LDRB_7f0_def Let_def shift_offsets
  by (simp_all add: ref_load_def Let_def split_def)

lemma reg_ldrb_1:
  "LDRB_652 b opcode s = ref_load U8 id False False False False False (off_shift 1 opcode) b opcode s"
  "LDRB_6d2 b opcode s = ref_load U8 id False False False True False (off_shift 1 opcode) b opcode s"
  "LDRB_752 b opcode s = ref_load U8 id False False True False False (off_shift 1 opcode) b opcode s"
  "LDRB_772 b opcode s = ref_load U8 id False False True False True (off_shift 1 opcode) b opcode s"
  "LDRB_7d2 b opcode s = ref_load U8 id False False True True False (off_shift 1 opcode) b opcode s"
  "LDRB_7f2 b opcode s = ref_load U8 id False False True True True (off_shift 1 opcode) b opcode s"
  unfolding LDRB_652_def LDRB_6d2_def LDRB_752_def LDRB_772_def LDRB_7d2_def LDRB_7f2_def Let_def shift_offsets
  by (simp_all add: ref_load_def Let_def split_def)

lemma reg_ldrb_2:
  "LDRB_654 b opcode s = ref_load U8 id False False False False False (off_shift 2 opcode) b opcode s"
  "LDRB_6d4 b opcode s = ref_load U8 id False False False True False (off_shift 2 opcode) b opcode s"
  "LDRB_754 b opcode s = ref_load U8 id False False True False False (off_shift 2 opcode) b opcode s"
  "LDRB_774 b opcode s = ref_load U8 id False False True False True (off_shift 2 opcode) b opcode s"
  "LDRB_7d4 b opcode s = ref_load U8 id False False True True False (off_shift 2 opcode) b opcode s"
  "LDRB_7f4 b opcode s = ref_load U8 id False False True True True (off_shift 2 opcode) b opcode s"
  unfolding LDRB_654_def LDRB_6d4_def LDRB_754_def LDRB_774_def LDRB_7d4_def LDRB_7f4_def Let_def shift_offsets
  by (simp_all add: ref_load_def Let_def split_def)

lemma reg_ldrb_3:
  "LDRB_656 b opcode s = ref_load U8 id False False False False False (off_shift 3 opcode) b opcode s"
  "LDRB_6d6 b opcode s = ref_load U8 id False False False True False (off_shift 3 opcode) b opcode s"
  "LDRB_756 b opcode s = ref_load U8 id False False True False False (off_shift 3 opcode) b opcode s"
  "LDRB_776 b opcode s = ref_load U8 id False False True False True (off_shift 3 opcode) b opcode s"
  "LDRB_7d6 b opcode s = ref_load U8 id False False True True False (off_shift 3 opcode) b opcode s"
  "LDRB_7f6 b opcode s = ref_load U8 id False False True True True (off_shift 3 opcode) b opcode s"
  unfolding LDRB_656_def LDRB_6d6_def LDRB_756_def LDRB_776_def LDRB_7d6_def LDRB_7f6_def Let_def shift_offsets
  by (simp_all add: ref_load_def Let_def split_def)

end
