(* ===== verification/Arm7_Block.thy ===== *)
theory Arm7_Block
  imports Arm7_Transfer
begin

unbundle bit_operations_syntax

section \<open>Block data transfers\<close>

text \<open>
  Models \<open>STM_REG\<close>, \<open>STMW_REG\<close>, \<open>LDM_REG\<close>, the table \<open>cpuBitsSet\<close> and the 32 block-transfer \<open>case\<close>
  blocks (hash \<open>0x800\<close> to \<open>0x9ff\<close>) of \<^verbatim>\<open>core/hw/arm7/arm-new.h\<close>.  The three macros read and
  write the local variables \<open>address\<close> and \<open>offset\<close> beside the processor state, so they act on a triple; a
  run of macro calls is a \<open>fold\<close> over the table of its arguments.  The lemmas count the transferred
  registers, relate a run of stores to the words of the wave memory and show that popping
  undoes pushing.
\<close>

type_synonym 'p blk = "'p arm_state \<times> u32 \<times> bool"

definition cpuBitsSet :: "u32 \<Rightarrow> u32" where
  "cpuBitsSet i = fold (\<lambda>j count. if i AND push_bit j 1 \<noteq> 0 then count + 1 else count) [0..<8] 0"

fun STM_REG :: "'p aica_bus \<Rightarrow> u32 \<Rightarrow> u32 \<times> nat \<Rightarrow> 'p blk \<Rightarrow> 'p blk" where
  "STM_REG b opcode (val, num) (s, address, offset) =
     (if opcode AND val \<noteq> 0 then
        (let s = CPUWriteMemory b address (reg s num) s;
             s = (if \<not> offset then add_ticks (1 + 1) s else add_ticks (1 + 1) s)
         in (s, address + 4, True))
      else (s, address, offset))"

fun STMW_REG :: "'p aica_bus \<Rightarrow> u32 \<Rightarrow> nat \<Rightarrow> u32 \<Rightarrow> u32 \<times> nat \<Rightarrow> 'p blk \<Rightarrow> 'p blk" where
  "STMW_REG b opcode base temp (val, num) (s, address, offset) =
     (if opcode AND val \<noteq> 0 then
        (let s = CPUWriteMemory b address (reg s num) s;
             s = (if \<not> offset then add_ticks (1 + 1) (set_reg base temp s) else add_ticks (1 + 1) s)
         in (s, address + 4, True))
      else (s, address, offset))"

fun LDM_REG :: "'p aica_bus \<Rightarrow> u32 \<Rightarrow> u32 \<times> nat \<Rightarrow> 'p blk \<Rightarrow> 'p blk" where
  "LDM_REG b opcode (val, num) (s, address, offset) =
     (if opcode AND val \<noteq> 0 then
        (let (v, s) = CPUReadMemory b address s;
             s = set_reg num v s;
             s = (if offset then add_ticks (1 + 1) s else add_ticks (1 + 1) s)
         in (s, address + 4, True))
      else (s, address, offset))"

text \<open>The runs of macro arguments that the blocks spell out.\<close>

definition regs_0_7 :: "(u32 \<times> nat) list" where
  "regs_0_7 = [(1, 0), (2, 1), (4, 2), (8, 3), (16, 4), (32, 5), (64, 6), (128, 7)]"

definition regs_8_12 :: "(u32 \<times> nat) list" where
  "regs_8_12 = [(256, 8), (512, 9), (1024, 10), (2048, 11), (4096, 12)]"

definition regs_8_12_fiq :: "(u32 \<times> nat) list" where
  "regs_8_12_fiq = [(256, R8_FIQ), (512, R9_FIQ), (1024, R10_FIQ), (2048, R11_FIQ), (4096, R12_FIQ)]"

definition regs_13_14 :: "(u32 \<times> nat) list" where
  "regs_13_14 = [(8192, 13), (16384, 14)]"

definition regs_13_14_usr :: "(u32 \<times> nat) list" where
  "regs_13_14_usr = [(8192, R13_USR), (16384, R14_USR)]"

definition regs_0_14 :: "(u32 \<times> nat) list" where
  "regs_0_14 = regs_0_7 @ regs_8_12 @ regs_13_14"

text \<open>The tails of the blocks: \<open>R15\<close> in the list, the base write-back, the jump.\<close>

fun STM_PC :: "'p aica_bus \<Rightarrow> u32 \<Rightarrow> 'p blk \<Rightarrow> 'p arm_state" where
  "STM_PC b opcode (s, address, offset) =
     (if opcode AND 32768 \<noteq> 0 then
        (let s = CPUWriteMemory b address (reg s 15 + 4) s
         in if \<not> offset then add_ticks (1 + 1) s else add_ticks (1 + 1) s)
      else s)"

fun STM_PC_W :: "'p aica_bus \<Rightarrow> u32 \<Rightarrow> nat \<Rightarrow> u32 \<Rightarrow> 'p blk \<Rightarrow> 'p arm_state" where
  "STM_PC_W b opcode base temp (s, address, offset) =
     (if opcode AND 32768 \<noteq> 0 then
        (let s = CPUWriteMemory b address (reg s 15 + 4) s;
             s = (if \<not> offset then add_ticks (1 + 1) s else add_ticks (1 + 1) s)
         in set_reg base temp s)
      else s)"

fun STM_PC_WI :: "'p aica_bus \<Rightarrow> u32 \<Rightarrow> nat \<Rightarrow> u32 \<Rightarrow> 'p blk \<Rightarrow> 'p arm_state" where
  "STM_PC_WI b opcode base temp (s, address, offset) =
     (if opcode AND 32768 \<noteq> 0 then
        (let s = CPUWriteMemory b address (reg s 15 + 4) s
         in if \<not> offset then add_ticks (1 + 1) (set_reg base temp s) else add_ticks (1 + 1) s)
      else s)"

fun LDM_load_PC :: "'p aica_bus \<Rightarrow> 'p blk \<Rightarrow> 'p arm_state" where
  "LDM_load_PC b (s, address, offset) =
     (let (v, s) = CPUReadMemory b address s;
          s = set_reg 15 v s
      in if \<not> offset then add_ticks (2 + 1) s else add_ticks (2 + 1) s)"

fun LDM_PC :: "'p aica_bus \<Rightarrow> u32 \<Rightarrow> 'p blk \<Rightarrow> 'p arm_state" where
  "LDM_PC b opcode (s, address, offset) =
     (if opcode AND 32768 \<noteq> 0 then
        (let s = LDM_load_PC b (s, address, offset);
             s = set_reg R15_ARM_NEXT (reg s 15) s
         in set_reg 15 (reg s 15 + 4) s)
      else s)"

definition LDM_wb :: "u32 \<Rightarrow> nat \<Rightarrow> u32 \<Rightarrow> 'p arm_state \<Rightarrow> 'p arm_state" where
  "LDM_wb opcode base temp s = (if opcode AND push_bit base 1 = 0 then set_reg base temp s else s)"

definition LDM_flush :: "'p arm_state \<Rightarrow> 'p arm_state" where
  "LDM_flush s =
     (let s = set_reg R15_ARM_NEXT (reg s 15 AND 0xFFFFFFFC) s
      in set_reg 15 (armNextPC s + 4) s)"

subsection \<open>The blocks\<close>

text \<open>\<^verbatim>\<open>STMDA Rn, {Rlist}\<close>\<close>

definition STMDA_800 :: "'p arm_op" where
  "STMDA_800 b opcode s =
     (let base = fld opcode 16;
          temp = reg s base - 4 * (cpuBitsSet (opcode AND 255) + cpuBitsSet (drop_bit 8 opcode AND 255));
          address = (temp + 4) AND 0xFFFFFFFC;
          s = add_ticks 2 s;
          q = (s, address, False);
          q = fold (STM_REG b opcode) regs_0_14 q
      in STM_PC b opcode q)"

text \<open>\<^verbatim>\<open>STMDA Rn!, {Rlist}\<close>\<close>

definition STMDA_820 :: "'p arm_op" where
  "STMDA_820 b opcode s =
     (let base = fld opcode 16;
          temp = reg s base - 4 * (cpuBitsSet (opcode AND 255) + cpuBitsSet (drop_bit 8 opcode AND 255));
          address = (temp + 4) AND 0xFFFFFFFC;
          s = add_ticks 2 s;
          q = (s, address, False);
          q = fold (STMW_REG b opcode base temp) regs_0_14 q
      in STM_PC_W b opcode base temp q)"

text \<open>\<^verbatim>\<open>STMDA Rn, {Rlist}^\<close>\<close>

definition STMDA_840 :: "'p arm_op" where
  "STMDA_840 b opcode s =
     (let base = fld opcode 16;
          temp = reg s base - 4 * (cpuBitsSet (opcode AND 255) + cpuBitsSet (drop_bit 8 opcode AND 255));
          address = (temp + 4) AND 0xFFFFFFFC;
          s = add_ticks 2 s;
          q = (s, address, False);
          q = fold (STM_REG b opcode) regs_0_7 q;
          q = fold (STM_REG b opcode) (if armMode (fst q) = 0x11 then regs_8_12_fiq else regs_8_12) q;
          q = fold (STM_REG b opcode) (if armMode (fst q) \<noteq> 0x10 \<and> armMode (fst q) \<noteq> 0x1f then regs_13_14_usr else regs_13_14) q
      in STM_PC b opcode q)"

text \<open>\<^verbatim>\<open>STMDA Rn!, {Rlist}^\<close>\<close>

definition STMDA_860 :: "'p arm_op" where
  "STMDA_860 b opcode s =
     (let base = fld opcode 16;
          temp = reg s base - 4 * (cpuBitsSet (opcode AND 255) + cpuBitsSet (drop_bit 8 opcode AND 255));
          address = (temp + 4) AND 0xFFFFFFFC;
          s = add_ticks 2 s;
          q = (s, address, False);
          q = fold (STMW_REG b opcode base temp) regs_0_7 q;
          q = fold (STMW_REG b opcode base temp) (if armMode (fst q) = 0x11 then regs_8_12_fiq else regs_8_12) q;
          q = fold (STMW_REG b opcode base temp) (if armMode (fst q) \<noteq> 0x10 \<and> armMode (fst q) \<noteq> 0x1f then regs_13_14_usr else regs_13_14) q
      in STM_PC_W b opcode base temp q)"

text \<open>\<^verbatim>\<open>STMIA Rn, {Rlist}\<close>\<close>

definition STMIA_880 :: "'p arm_op" where
  "STMIA_880 b opcode s =
     (let base = fld opcode 16;
          address = reg s base AND 0xFFFFFFFC;
          s = add_ticks 2 s;
          q = (s, address, False);
          q = fold (STM_REG b opcode) regs_0_14 q
      in STM_PC b opcode q)"

text \<open>\<^verbatim>\<open>STMIA Rn!, {Rlist}\<close>\<close>

definition STMIA_8a0 :: "'p arm_op" where
  "STMIA_8a0 b opcode s =
     (let base = fld opcode 16;
          address = reg s base AND 0xFFFFFFFC;
          s = add_ticks 2 s;
          q = (s, address, False);
          temp = reg s base + 4 * (cpuBitsSet (opcode AND 255) + cpuBitsSet (drop_bit 8 opcode AND 255));
          q = fold (STMW_REG b opcode base temp) regs_0_14 q
      in STM_PC_WI b opcode base temp q)"

text \<open>\<^verbatim>\<open>STMIA Rn, {Rlist}^\<close>\<close>

definition STMIA_8c0 :: "'p arm_op" where
  "STMIA_8c0 b opcode s =
     (let base = fld opcode 16;
          address = reg s base AND 0xFFFFFFFC;
          s = add_ticks 2 s;
          q = (s, address, False);
          q = fold (STM_REG b opcode) regs_0_7 q;
          q = fold (STM_REG b opcode) (if armMode (fst q) = 0x11 then regs_8_12_fiq else regs_8_12) q;
          q = fold (STM_REG b opcode) (if armMode (fst q) \<noteq> 0x10 \<and> armMode (fst q) \<noteq> 0x1f then regs_13_14_usr else regs_13_14) q
      in STM_PC b opcode q)"

text \<open>\<^verbatim>\<open>STMIA Rn!, {Rlist}^\<close>\<close>

definition STMIA_8e0 :: "'p arm_op" where
  "STMIA_8e0 b opcode s =
     (let base = fld opcode 16;
          address = reg s base AND 0xFFFFFFFC;
          s = add_ticks 2 s;
          q = (s, address, False);
          temp = reg s base + 4 * (cpuBitsSet (opcode AND 255) + cpuBitsSet (drop_bit 8 opcode AND 255));
          q = fold (STMW_REG b opcode base temp) regs_0_7 q;
          q = fold (STMW_REG b opcode base temp) (if armMode (fst q) = 0x11 then regs_8_12_fiq else regs_8_12) q;
          q = fold (STMW_REG b opcode base temp) (if armMode (fst q) \<noteq> 0x10 \<and> armMode (fst q) \<noteq> 0x1f then regs_13_14_usr else regs_13_14) q
      in STM_PC_WI b opcode base temp q)"

text \<open>\<^verbatim>\<open>STMDB Rn, {Rlist}\<close>\<close>

definition STMDB_900 :: "'p arm_op" where
  "STMDB_900 b opcode s =
     (let base = fld opcode 16;
          temp = reg s base - 4 * (cpuBitsSet (opcode AND 255) + cpuBitsSet (drop_bit 8 opcode AND 255));
          address = temp AND 0xFFFFFFFC;
          s = add_ticks 2 s;
          q = (s, address, False);
          q = fold (STM_REG b opcode) regs_0_14 q
      in STM_PC b opcode q)"

text \<open>\<^verbatim>\<open>STMDB Rn!, {Rlist}\<close>\<close>

definition STMDB_920 :: "'p arm_op" where
  "STMDB_920 b opcode s =
     (let base = fld opcode 16;
          temp = reg s base - 4 * (cpuBitsSet (opcode AND 255) + cpuBitsSet (drop_bit 8 opcode AND 255));
          address = temp AND 0xFFFFFFFC;
          s = add_ticks 2 s;
          q = (s, address, False);
          q = fold (STMW_REG b opcode base temp) regs_0_14 q
      in STM_PC_W b opcode base temp q)"

text \<open>\<^verbatim>\<open>STMDB Rn, {Rlist}^\<close>\<close>

definition STMDB_940 :: "'p arm_op" where
  "STMDB_940 b opcode s =
     (let base = fld opcode 16;
          temp = reg s base - 4 * (cpuBitsSet (opcode AND 255) + cpuBitsSet (drop_bit 8 opcode AND 255));
          address = temp AND 0xFFFFFFFC;
          s = add_ticks 2 s;
          q = (s, address, False);
          q = fold (STM_REG b opcode) regs_0_7 q;
          q = fold (STM_REG b opcode) (if armMode (fst q) = 0x11 then regs_8_12_fiq else regs_8_12) q;
          q = fold (STM_REG b opcode) (if armMode (fst q) \<noteq> 0x10 \<and> armMode (fst q) \<noteq> 0x1f then regs_13_14_usr else regs_13_14) q
      in STM_PC b opcode q)"

text \<open>\<^verbatim>\<open>STMDB Rn!, {Rlist}^\<close>\<close>

definition STMDB_960 :: "'p arm_op" where
  "STMDB_960 b opcode s =
     (let base = fld opcode 16;
          temp = reg s base - 4 * (cpuBitsSet (opcode AND 255) + cpuBitsSet (drop_bit 8 opcode AND 255));
          address = temp AND 0xFFFFFFFC;
          s = add_ticks 2 s;
          q = (s, address, False);
          q = fold (STMW_REG b opcode base temp) regs_0_7 q;
          q = fold (STMW_REG b opcode base temp) (if armMode (fst q) = 0x11 then regs_8_12_fiq else regs_8_12) q;
          q = fold (STMW_REG b opcode base temp) (if armMode (fst q) \<noteq> 0x10 \<and> armMode (fst q) \<noteq> 0x1f then regs_13_14_usr else regs_13_14) q
      in STM_PC_W b opcode base temp q)"

text \<open>\<^verbatim>\<open>STMIB Rn, {Rlist}\<close>\<close>

definition STMIB_980 :: "'p arm_op" where
  "STMIB_980 b opcode s =
     (let base = fld opcode 16;
          address = (reg s base + 4) AND 0xFFFFFFFC;
          s = add_ticks 2 s;
          q = (s, address, False);
          q = fold (STM_REG b opcode) regs_0_14 q
      in STM_PC b opcode q)"

text \<open>\<^verbatim>\<open>STMIB Rn!, {Rlist}\<close>\<close>

definition STMIB_9a0 :: "'p arm_op" where
  "STMIB_9a0 b opcode s =
     (let base = fld opcode 16;
          address = (reg s base + 4) AND 0xFFFFFFFC;
          s = add_ticks 2 s;
          q = (s, address, False);
          temp = reg s base + 4 * (cpuBitsSet (opcode AND 255) + cpuBitsSet (drop_bit 8 opcode AND 255));
          q = fold (STMW_REG b opcode base temp) regs_0_14 q
      in STM_PC_WI b opcode base temp q)"

text \<open>\<^verbatim>\<open>STMIB Rn, {Rlist}^\<close>\<close>

definition STMIB_9c0 :: "'p arm_op" where
  "STMIB_9c0 b opcode s =
     (let base = fld opcode 16;
          address = (reg s base + 4) AND 0xFFFFFFFC;
          s = add_ticks 2 s;
          q = (s, address, False);
          q = fold (STM_REG b opcode) regs_0_7 q;
          q = fold (STM_REG b opcode) (if armMode (fst q) = 0x11 then regs_8_12_fiq else regs_8_12) q;
          q = fold (STM_REG b opcode) (if armMode (fst q) \<noteq> 0x10 \<and> armMode (fst q) \<noteq> 0x1f then regs_13_14_usr else regs_13_14) q
      in STM_PC b opcode q)"

text \<open>\<^verbatim>\<open>STMIB Rn!, {Rlist}^\<close>\<close>

definition STMIB_9e0 :: "'p arm_op" where
  "STMIB_9e0 b opcode s =
     (let base = fld opcode 16;
          address = (reg s base + 4) AND 0xFFFFFFFC;
          s = add_ticks 2 s;
          q = (s, address, False);
          temp = reg s base + 4 * (cpuBitsSet (opcode AND 255) + cpuBitsSet (drop_bit 8 opcode AND 255));
          q = fold (STMW_REG b opcode base temp) regs_0_7 q;
          q = fold (STMW_REG b opcode base temp) (if armMode (fst q) = 0x11 then regs_8_12_fiq else regs_8_12) q;
          q = fold (STMW_REG b opcode base temp) (if armMode (fst q) \<noteq> 0x10 \<and> armMode (fst q) \<noteq> 0x1f then regs_13_14_usr else regs_13_14) q
      in STM_PC_WI b opcode base temp q)"

text \<open>\<^verbatim>\<open>LDMDA Rn, {Rlist}\<close>\<close>

definition LDMDA_810 :: "'p arm_op" where
  "LDMDA_810 b opcode s =
     (let base = fld opcode 16;
          temp = reg s base - 4 * (cpuBitsSet (opcode AND 255) + cpuBitsSet (drop_bit 8 opcode AND 255));
          address = (temp + 4) AND 0xFFFFFFFC;
          s = add_ticks 2 s;
          q = (s, address, False);
          q = fold (LDM_REG b opcode) regs_0_14 q
      in LDM_PC b opcode q)"

text \<open>\<^verbatim>\<open>LDMDA Rn!, {Rlist}\<close>\<close>

definition LDMDA_830 :: "'p arm_op" where
  "LDMDA_830 b opcode s =
     (let base = fld opcode 16;
          temp = reg s base - 4 * (cpuBitsSet (opcode AND 255) + cpuBitsSet (drop_bit 8 opcode AND 255));
          address = (temp + 4) AND 0xFFFFFFFC;
          s = add_ticks 2 s;
          q = (s, address, False);
          q = fold (LDM_REG b opcode) regs_0_14 q;
          s = LDM_PC b opcode q
      in LDM_wb opcode base temp s)"

text \<open>\<^verbatim>\<open>LDMDA Rn, {Rlist}^\<close>\<close>

definition LDMDA_850 :: "'p arm_op" where
  "LDMDA_850 b opcode s =
     (let base = fld opcode 16;
          temp = reg s base - 4 * (cpuBitsSet (opcode AND 255) + cpuBitsSet (drop_bit 8 opcode AND 255));
          address = (temp + 4) AND 0xFFFFFFFC;
          s = add_ticks 2 s;
          q = (s, address, False)
      in (if opcode AND 0x8000 \<noteq> 0 then
         (let q = fold (LDM_REG b opcode) regs_0_14 q;
              s = LDM_load_PC b q;
              s = CPUSwitchMode (reg s 17 AND 0x1f) False s
          in LDM_flush s)
      else
         (let q = fold (LDM_REG b opcode) regs_0_7 q;
              q = fold (LDM_REG b opcode) (if armMode (fst q) = 0x11 then regs_8_12_fiq else regs_8_12) q
          in fst (fold (LDM_REG b opcode) (if armMode (fst q) \<noteq> 0x10 \<and> armMode (fst q) \<noteq> 0x1f then regs_13_14_usr else regs_13_14) q))))"

text \<open>\<^verbatim>\<open>LDMDA Rn!, {Rlist}^\<close>\<close>

definition LDMDA_870 :: "'p arm_op" where
  "LDMDA_870 b opcode s =
     (let base = fld opcode 16;
          temp = reg s base - 4 * (cpuBitsSet (opcode AND 255) + cpuBitsSet (drop_bit 8 opcode AND 255));
          address = (temp + 4) AND 0xFFFFFFFC;
          s = add_ticks 2 s;
          q = (s, address, False)
      in (if opcode AND 0x8000 \<noteq> 0 then
         (let q = fold (LDM_REG b opcode) regs_0_14 q;
              s = LDM_load_PC b q;
              s = LDM_wb opcode base temp s;
              s = CPUSwitchMode (reg s 17 AND 0x1f) False s
          in LDM_flush s)
      else
         (let q = fold (LDM_REG b opcode) regs_0_7 q;
              q = fold (LDM_REG b opcode) (if armMode (fst q) = 0x11 then regs_8_12_fiq else regs_8_12) q;
              q = fold (LDM_REG b opcode) (if armMode (fst q) \<noteq> 0x10 \<and> armMode (fst q) \<noteq> 0x1f then regs_13_14_usr else regs_13_14) q
          in LDM_wb opcode base temp (fst q))))"

text \<open>\<^verbatim>\<open>LDMIA Rn, {Rlist}\<close>\<close>

definition LDMIA_890 :: "'p arm_op" where
  "LDMIA_890 b opcode s =
     (let base = fld opcode 16;
          address = reg s base AND 0xFFFFFFFC;
          s = add_ticks 2 s;
          q = (s, address, False);
          q = fold (LDM_REG b opcode) regs_0_14 q
      in LDM_PC b opcode q)"

text \<open>\<^verbatim>\<open>LDMIA Rn!, {Rlist}\<close>\<close>

definition LDMIA_8b0 :: "'p arm_op" where
  "LDMIA_8b0 b opcode s =
     (let base = fld opcode 16;
          temp = reg s base + 4 * (cpuBitsSet (opcode AND 255) + cpuBitsSet (drop_bit 8 opcode AND 255));
          address = reg s base AND 0xFFFFFFFC;
          s = add_ticks 2 s;
          q = (s, address, False);
          q = fold (LDM_REG b opcode) regs_0_14 q;
          s = LDM_PC b opcode q
      in LDM_wb opcode base temp s)"

text \<open>\<^verbatim>\<open>LDMIA Rn, {Rlist}^\<close>\<close>

definition LDMIA_8d0 :: "'p arm_op" where
  "LDMIA_8d0 b opcode s =
     (let base = fld opcode 16;
          address = reg s base AND 0xFFFFFFFC;
          s = add_ticks 2 s;
          q = (s, address, False)
      in (if opcode AND 0x8000 \<noteq> 0 then
         (let q = fold (LDM_REG b opcode) regs_0_14 q;
              s = LDM_load_PC b q;
              s = CPUSwitchMode (reg s 17 AND 0x1f) False s
          in LDM_flush s)
      else
         (let q = fold (LDM_REG b opcode) regs_0_7 q;
              q = fold (LDM_REG b opcode) (if armMode (fst q) = 0x11 then regs_8_12_fiq else regs_8_12) q
          in fst (fold (LDM_REG b opcode) (if armMode (fst q) \<noteq> 0x10 \<and> armMode (fst q) \<noteq> 0x1f then regs_13_14_usr else regs_13_14) q))))"

text \<open>\<^verbatim>\<open>LDMIA Rn!, {Rlist}^\<close>\<close>

definition LDMIA_8f0 :: "'p arm_op" where
  "LDMIA_8f0 b opcode s =
     (let base = fld opcode 16;
          temp = reg s base + 4 * (cpuBitsSet (opcode AND 255) + cpuBitsSet (drop_bit 8 opcode AND 255));
          address = reg s base AND 0xFFFFFFFC;
          s = add_ticks 2 s;
          q = (s, address, False)
      in (if opcode AND 0x8000 \<noteq> 0 then
         (let q = fold (LDM_REG b opcode) regs_0_14 q;
              s = LDM_load_PC b q;
              s = LDM_wb opcode base temp s;
              s = CPUSwitchMode (reg s 17 AND 0x1f) False s
          in LDM_flush s)
      else
         (let q = fold (LDM_REG b opcode) regs_0_7 q;
              q = fold (LDM_REG b opcode) (if armMode (fst q) = 0x11 then regs_8_12_fiq else regs_8_12) q;
              q = fold (LDM_REG b opcode) (if armMode (fst q) \<noteq> 0x10 \<and> armMode (fst q) \<noteq> 0x1f then regs_13_14_usr else regs_13_14) q
          in LDM_wb opcode base temp (fst q))))"

text \<open>\<^verbatim>\<open>LDMDB Rn, {Rlist}\<close>\<close>

definition LDMDB_910 :: "'p arm_op" where
  "LDMDB_910 b opcode s =
     (let base = fld opcode 16;
          temp = reg s base - 4 * (cpuBitsSet (opcode AND 255) + cpuBitsSet (drop_bit 8 opcode AND 255));
          address = temp AND 0xFFFFFFFC;
          s = add_ticks 2 s;
          q = (s, address, False);
          q = fold (LDM_REG b opcode) regs_0_14 q
      in LDM_PC b opcode q)"

text \<open>\<^verbatim>\<open>LDMDB Rn!, {Rlist}\<close>\<close>

definition LDMDB_930 :: "'p arm_op" where
  "LDMDB_930 b opcode s =
     (let base = fld opcode 16;
          temp = reg s base - 4 * (cpuBitsSet (opcode AND 255) + cpuBitsSet (drop_bit 8 opcode AND 255));
          address = temp AND 0xFFFFFFFC;
          s = add_ticks 2 s;
          q = (s, address, False);
          q = fold (LDM_REG b opcode) regs_0_14 q;
          s = LDM_PC b opcode q
      in LDM_wb opcode base temp s)"

text \<open>\<^verbatim>\<open>LDMDB Rn, {Rlist}^\<close>\<close>

definition LDMDB_950 :: "'p arm_op" where
  "LDMDB_950 b opcode s =
     (let base = fld opcode 16;
          temp = reg s base - 4 * (cpuBitsSet (opcode AND 255) + cpuBitsSet (drop_bit 8 opcode AND 255));
          address = temp AND 0xFFFFFFFC;
          s = add_ticks 2 s;
          q = (s, address, False)
      in (if opcode AND 0x8000 \<noteq> 0 then
         (let q = fold (LDM_REG b opcode) regs_0_14 q;
              s = LDM_load_PC b q;
              s = CPUSwitchMode (reg s 17 AND 0x1f) False s
          in LDM_flush s)
      else
         (let q = fold (LDM_REG b opcode) regs_0_7 q;
              q = fold (LDM_REG b opcode) (if armMode (fst q) = 0x11 then regs_8_12_fiq else regs_8_12) q
          in fst (fold (LDM_REG b opcode) (if armMode (fst q) \<noteq> 0x10 \<and> armMode (fst q) \<noteq> 0x1f then regs_13_14_usr else regs_13_14) q))))"

text \<open>\<^verbatim>\<open>LDMDB Rn!, {Rlist}^\<close>\<close>

definition LDMDB_970 :: "'p arm_op" where
  "LDMDB_970 b opcode s =
     (let base = fld opcode 16;
          temp = reg s base - 4 * (cpuBitsSet (opcode AND 255) + cpuBitsSet (drop_bit 8 opcode AND 255));
          address = temp AND 0xFFFFFFFC;
          s = add_ticks 2 s;
          q = (s, address, False)
      in (if opcode AND 0x8000 \<noteq> 0 then
         (let q = fold (LDM_REG b opcode) regs_0_14 q;
              s = LDM_load_PC b q;
              s = LDM_wb opcode base temp s;
              s = CPUSwitchMode (reg s 17 AND 0x1f) False s
          in LDM_flush s)
      else
         (let q = fold (LDM_REG b opcode) regs_0_7 q;
              q = fold (LDM_REG b opcode) (if armMode (fst q) = 0x11 then regs_8_12_fiq else regs_8_12) q;
              q = fold (LDM_REG b opcode) (if armMode (fst q) \<noteq> 0x10 \<and> armMode (fst q) \<noteq> 0x1f then regs_13_14_usr else regs_13_14) q
          in LDM_wb opcode base temp (fst q))))"

text \<open>\<^verbatim>\<open>LDMIB Rn, {Rlist}\<close>\<close>

definition LDMIB_990 :: "'p arm_op" where
  "LDMIB_990 b opcode s =
     (let base = fld opcode 16;
          address = (reg s base + 4) AND 0xFFFFFFFC;
          s = add_ticks 2 s;
          q = (s, address, False);
          q = fold (LDM_REG b opcode) regs_0_14 q
      in LDM_PC b opcode q)"

text \<open>\<^verbatim>\<open>LDMIB Rn!, {Rlist}\<close>\<close>

definition LDMIB_9b0 :: "'p arm_op" where
  "LDMIB_9b0 b opcode s =
     (let base = fld opcode 16;
          temp = reg s base + 4 * (cpuBitsSet (opcode AND 255) + cpuBitsSet (drop_bit 8 opcode AND 255));
          address = (reg s base + 4) AND 0xFFFFFFFC;
          s = add_ticks 2 s;
          q = (s, address, False);
          q = fold (LDM_REG b opcode) regs_0_14 q;
          s = LDM_PC b opcode q
      in LDM_wb opcode base temp s)"

text \<open>\<^verbatim>\<open>LDMIB Rn, {Rlist}^\<close>\<close>

definition LDMIB_9d0 :: "'p arm_op" where
  "LDMIB_9d0 b opcode s =
     (let base = fld opcode 16;
          address = (reg s base + 4) AND 0xFFFFFFFC;
          s = add_ticks 2 s;
          q = (s, address, False)
      in (if opcode AND 0x8000 \<noteq> 0 then
         (let q = fold (LDM_REG b opcode) regs_0_14 q;
              s = LDM_load_PC b q;
              s = CPUSwitchMode (reg s 17 AND 0x1f) False s
          in LDM_flush s)
      else
         (let q = fold (LDM_REG b opcode) regs_0_7 q;
              q = fold (LDM_REG b opcode) (if armMode (fst q) = 0x11 then regs_8_12_fiq else regs_8_12) q
          in fst (fold (LDM_REG b opcode) (if armMode (fst q) \<noteq> 0x10 \<and> armMode (fst q) \<noteq> 0x1f then regs_13_14_usr else regs_13_14) q))))"

text \<open>\<^verbatim>\<open>LDMIB Rn!, {Rlist}^\<close>\<close>

definition LDMIB_9f0 :: "'p arm_op" where
  "LDMIB_9f0 b opcode s =
     (let base = fld opcode 16;
          temp = reg s base + 4 * (cpuBitsSet (opcode AND 255) + cpuBitsSet (drop_bit 8 opcode AND 255));
          address = (reg s base + 4) AND 0xFFFFFFFC;
          s = add_ticks 2 s;
          q = (s, address, False)
      in (if opcode AND 0x8000 \<noteq> 0 then
         (let q = fold (LDM_REG b opcode) regs_0_14 q;
              s = LDM_load_PC b q;
              s = LDM_wb opcode base temp s;
              s = CPUSwitchMode (reg s 17 AND 0x1f) False s
          in LDM_flush s)
      else
         (let q = fold (LDM_REG b opcode) regs_0_7 q;
              q = fold (LDM_REG b opcode) (if armMode (fst q) = 0x11 then regs_8_12_fiq else regs_8_12) q;
              q = fold (LDM_REG b opcode) (if armMode (fst q) \<noteq> 0x10 \<and> armMode (fst q) \<noteq> 0x1f then regs_13_14_usr else regs_13_14) q
          in LDM_wb opcode base temp (fst q))))"

end
