(* ===== verification/Arm7_Interp.thy ===== *)
theory Arm7_Interp
  imports Arm7_Misc Arm7_Block
begin

unbundle bit_operations_syntax

section \<open>The interpreter: conditions, the opcode switch, the run loop\<close>

text \<open>
  Models the head and the \<open>switch\<close> of \<^verbatim>\<open>core/hw/arm7/arm-new.h\<close> and \<open>runInterpreter\<close>,
  \<open>MSR_do\<close> of \<^verbatim>\<open>core/hw/arm7/arm7.cpp\<close>.  The \<open>switch\<close> is a list of pairs of case labels and
  block, in the order of the source; a hash without a label is the \<open>default\<close>, the undefined-instruction
  exception.  The run loop is a partial function: \<open>None\<close> is a loop that does not end.

  The locale \<open>arm_frame\<close> is the interface between the instructions and what they may do to the
  processor: a reflexive and transitive relation that holds across every primitive update holds across
  every instruction and across a step of the loop.  Its interpretations give the
  invariant of the processor state and the lower bound on the cycles of a step.
\<close>

subsection \<open>Condition field and hash\<close>

definition cond_res :: "u32 \<Rightarrow> 'p arm_state \<Rightarrow> bool" where
  "cond_res cond s =
     (if cond = 0x0e then True
      else if cond = 0x00 then Z_FLAG s
      else if cond = 0x01 then \<not> Z_FLAG s
      else if cond = 0x02 then C_FLAG s
      else if cond = 0x03 then \<not> C_FLAG s
      else if cond = 0x04 then N_FLAG s
      else if cond = 0x05 then \<not> N_FLAG s
      else if cond = 0x06 then V_FLAG s
      else if cond = 0x07 then \<not> V_FLAG s
      else if cond = 0x08 then C_FLAG s \<and> \<not> Z_FLAG s
      else if cond = 0x09 then \<not> C_FLAG s \<or> Z_FLAG s
      else if cond = 0x0A then N_FLAG s = V_FLAG s
      else if cond = 0x0B then N_FLAG s \<noteq> V_FLAG s
      else if cond = 0x0C then \<not> Z_FLAG s \<and> (N_FLAG s = V_FLAG s)
      else if cond = 0x0D then Z_FLAG s \<or> (N_FLAG s \<noteq> V_FLAG s)
      else False)"

definition opcode_hash :: "u32 \<Rightarrow> nat" where
  "opcode_hash opcode = unat ((drop_bit 16 opcode AND 0xFF0) OR (drop_bit 4 opcode AND 0x0F))"

subsection \<open>The switch\<close>

type_synonym 'p case_list = "(nat list \<times> 'p arm_op) list"

definition CASE_16 :: "nat \<Rightarrow> nat list" where "CASE_16 BASE = [BASE ..< BASE + 16]"

definition CASE_256 :: "nat \<Rightarrow> nat list" where
  "CASE_256 BASE = concat (map (\<lambda>i. CASE_16 (BASE + 16 * i)) [0 ..< 16])"

fun switch :: "'p case_list \<Rightarrow> nat \<Rightarrow> 'p arm_op option" where
  "switch [] h = None"
| "switch ((labels, block) # cs) h = (if h \<in> set labels then Some block else switch cs h)"

definition LOGICAL_DATA_OPCODE :: "'p lop \<Rightarrow> 'p lop \<Rightarrow> nat \<Rightarrow> 'p case_list" where
  "LOGICAL_DATA_OPCODE OPC OPC2 BASE = [
      ([BASE, BASE + 8], LOGICAL_LSL_imm OPC OPC2),
      ([BASE + 2, BASE + 10], LOGICAL_LSR_imm OPC OPC2),
      ([BASE + 4, BASE + 12], LOGICAL_ASR_imm OPC OPC2),
      ([BASE + 6, BASE + 14], LOGICAL_ROR_imm OPC OPC2),
      ([BASE + 1], LOGICAL_LSL_Rs OPC OPC2),
      ([BASE + 3], LOGICAL_LSR_Rs OPC OPC2),
      ([BASE + 5], LOGICAL_ASR_Rs OPC OPC2),
      ([BASE + 7], LOGICAL_ROR_Rs OPC OPC2),
      (CASE_16 (BASE + 0x200), LOGICAL_IMM OPC OPC2)]"

definition LOGICAL_DATA_OPCODE_WITHOUT_base :: "'p nop \<Rightarrow> 'p nop \<Rightarrow> nat \<Rightarrow> 'p case_list" where
  "LOGICAL_DATA_OPCODE_WITHOUT_base OPC OPC2 BASE = [
      ([BASE, BASE + 8], LOGICAL_nobase_LSL_imm OPC OPC2),
      ([BASE + 2, BASE + 10], LOGICAL_nobase_LSR_imm OPC OPC2),
      ([BASE + 4, BASE + 12], LOGICAL_nobase_ASR_imm OPC OPC2),
      ([BASE + 6, BASE + 14], LOGICAL_nobase_ROR_imm OPC OPC2),
      ([BASE + 1], LOGICAL_nobase_LSL_Rs OPC OPC2),
      ([BASE + 3], LOGICAL_nobase_LSR_Rs OPC OPC2),
      ([BASE + 5], LOGICAL_nobase_ASR_Rs OPC OPC2),
      ([BASE + 7], LOGICAL_nobase_ROR_Rs OPC OPC2),
      (CASE_16 (BASE + 0x200), LOGICAL_nobase_IMM OPC OPC2)]"

definition ARITHMETIC_DATA_OPCODE :: "'p aop \<Rightarrow> 'p aop \<Rightarrow> nat \<Rightarrow> 'p case_list" where
  "ARITHMETIC_DATA_OPCODE OPC OPC2 BASE = [
      ([BASE, BASE + 8], ARITHMETIC_LSL_imm OPC OPC2),
      ([BASE + 2, BASE + 10], ARITHMETIC_LSR_imm OPC OPC2),
      ([BASE + 4, BASE + 12], ARITHMETIC_ASR_imm OPC OPC2),
      ([BASE + 6, BASE + 14], ARITHMETIC_ROR_imm OPC OPC2),
      ([BASE + 1], ARITHMETIC_LSL_Rs OPC OPC2),
      ([BASE + 3], ARITHMETIC_LSR_Rs OPC OPC2),
      ([BASE + 5], ARITHMETIC_ASR_Rs OPC OPC2),
      ([BASE + 7], ARITHMETIC_ROR_Rs OPC OPC2),
      (CASE_16 (BASE + 0x200), ARITHMETIC_IMM OPC OPC2)]"

definition cases_low :: "'p case_list" where
  "cases_low =
     LOGICAL_DATA_OPCODE_WITHOUT_base OP_AND OP_AND 0x000 @
     LOGICAL_DATA_OPCODE_WITHOUT_base OP_ANDS OP_AND 0x010 @
     [([0x009], MUL),
        ([0x019], MULS),
        ([0x01d, 0x03d], LDRSB_01d),
        ([0x05d, 0x07d], LDRSB_05d),
        ([0x09d, 0x0bd], LDRSB_09d),
        ([0x0dd, 0x0fd], LDRSB_0dd),
        ([0x11d], LDRSB_11d),
        ([0x13d], LDRSB_13d),
        ([0x15d], LDRSB_15d),
        ([0x17d], LDRSB_17d),
        ([0x19d], LDRSB_19d),
        ([0x1bd], LDRSB_1bd),
        ([0x1dd], LDRSB_1dd),
        ([0x1fd], LDRSB_1fd),
        ([0x01f, 0x03f], LDRSH_01f),
        ([0x05f, 0x07f], LDRSH_05f),
        ([0x09f, 0x0bf], LDRSH_09f),
        ([0x0df, 0x0ff], LDRSH_0df),
        ([0x11f], LDRSH_11f),
        ([0x13f], LDRSH_13f),
        ([0x15f], LDRSH_15f),
        ([0x17f], LDRSH_17f),
        ([0x19f], LDRSH_19f),
        ([0x1bf], LDRSH_1bf),
        ([0x1df], LDRSH_1df),
        ([0x1ff], LDRSH_1ff)] @
     LOGICAL_DATA_OPCODE_WITHOUT_base OP_EOR OP_EOR 0x020 @
     LOGICAL_DATA_OPCODE_WITHOUT_base OP_EORS OP_EOR 0x030 @
     [([0x029], MLA),
        ([0x039], MLAS)] @
     ARITHMETIC_DATA_OPCODE OP_SUB OP_SUB 0x040 @
     ARITHMETIC_DATA_OPCODE OP_SUBS OP_SUB 0x050 @
     ARITHMETIC_DATA_OPCODE OP_RSB OP_RSB 0x060 @
     ARITHMETIC_DATA_OPCODE OP_RSBS OP_RSB 0x070 @
     ARITHMETIC_DATA_OPCODE OP_ADD OP_ADD 0x080 @
     ARITHMETIC_DATA_OPCODE OP_ADDS OP_ADD 0x090 @
     [([0x089], UMULL),
        ([0x099], UMULLS)] @
     ARITHMETIC_DATA_OPCODE OP_ADC OP_ADC 0x0a0 @
     ARITHMETIC_DATA_OPCODE OP_ADCS OP_ADC 0x0b0 @
     [([0x0a9], UMLAL),
        ([0x0b9], UMLALS)] @
     ARITHMETIC_DATA_OPCODE OP_SBC OP_SBC 0x0c0 @
     ARITHMETIC_DATA_OPCODE OP_SBCS OP_SBC 0x0d0 @
     [([0x0c9], SMULL),
        ([0x0d9], SMULLS)] @
     ARITHMETIC_DATA_OPCODE OP_RSC OP_RSC 0x0e0 @
     ARITHMETIC_DATA_OPCODE OP_RSCS OP_RSC 0x0f0 @
     [([0x0e9], SMLAL),
        ([0x0f9], SMLALS)] @
     LOGICAL_DATA_OPCODE OP_TST OP_TST 0x110 @
     [([0x100], MRS_CPSR),
        ([0x109], SWP)] @
     LOGICAL_DATA_OPCODE OP_TEQ OP_TEQ 0x130 @
     [([0x120], MSR_CPSR_reg)] @
     ARITHMETIC_DATA_OPCODE OP_CMP OP_CMP 0x150 @
     [([0x140], MRS_SPSR),
        ([0x149], SWPB)] @
     ARITHMETIC_DATA_OPCODE OP_CMN OP_CMN 0x170 @
     [([0x160], MSR_SPSR_reg)] @
     LOGICAL_DATA_OPCODE OP_ORR OP_ORR 0x180 @
     LOGICAL_DATA_OPCODE OP_ORRS OP_ORR 0x190 @
     LOGICAL_DATA_OPCODE_WITHOUT_base OP_MOV OP_MOV 0x1a0 @
     LOGICAL_DATA_OPCODE_WITHOUT_base OP_MOVS OP_MOV 0x1b0 @
     LOGICAL_DATA_OPCODE OP_BIC OP_BIC 0x1c0 @
     LOGICAL_DATA_OPCODE OP_BICS OP_BIC 0x1d0 @
     LOGICAL_DATA_OPCODE_WITHOUT_base OP_MVN OP_MVN 0x1e0 @
     LOGICAL_DATA_OPCODE_WITHOUT_base OP_MVNS OP_MVN 0x1f0 @
     [(CASE_16 0x320, MSR_CPSR_imm),
        (CASE_16 0x360, MSR_SPSR_imm)]"

definition cases_imm :: "'p case_list" where
  "cases_imm = [
      (CASE_16 0x400 @ CASE_16 0x420, STR_400),
      (CASE_16 0x480 @ CASE_16 0x4a0, STR_480),
      (CASE_16 0x500, STR_500),
      (CASE_16 0x520, STR_520),
      (CASE_16 0x580, STR_580),
      (CASE_16 0x5a0, STR_5a0),
      (CASE_16 0x410, LDR_410),
      (CASE_16 0x430, LDR_430),
      (CASE_16 0x490, LDR_490),
      (CASE_16 0x4b0, LDR_4b0),
      (CASE_16 0x510, LDR_510),
      (CASE_16 0x530, LDR_530),
      (CASE_16 0x590, LDR_590),
      (CASE_16 0x5b0, LDR_5b0),
      (CASE_16 0x440 @ CASE_16 0x460, STRB_440),
      (CASE_16 0x4c0 @ CASE_16 0x4e0, STRB_4c0),
      (CASE_16 0x540, STRB_540),
      (CASE_16 0x560, STRB_560),
      (CASE_16 0x5c0, STRB_5c0),
      (CASE_16 0x5e0, STRB_5e0),
      (CASE_16 0x450 @ CASE_16 0x470, LDRB_450),
      (CASE_16 0x4d0 @ CASE_16 0x4f0, LDRB_4d0),
      (CASE_16 0x550, LDRB_550),
      (CASE_16 0x570, LDRB_570),
      (CASE_16 0x5d0, LDRB_5d0),
      (CASE_16 0x5f0, LDRB_5f0)]"

definition cases_reg_STR :: "'p case_list" where
  "cases_reg_STR = [
      ([0x600, 0x608, 0x620, 0x628], STR_600),
      ([0x602, 0x60a, 0x622, 0x62a], STR_602),
      ([0x604, 0x60c, 0x624, 0x62c], STR_604),
      ([0x606, 0x60e, 0x626, 0x62e], STR_606),
      ([0x680, 0x688, 0x6a0, 0x6a8], STR_680),
      ([0x682, 0x68a, 0x6a2, 0x6aa], STR_682),
      ([0x684, 0x68c, 0x6a4, 0x6ac], STR_684),
      ([0x686, 0x68e, 0x6a6, 0x6ae], STR_686),
      ([0x700, 0x708], STR_700),
      ([0x702, 0x70a], STR_702),
      ([0x704, 0x70c], STR_704),
      ([0x706, 0x70e], STR_706),
      ([0x720, 0x728], STR_720),
      ([0x722, 0x72a], STR_722),
      ([0x724, 0x72c], STR_724),
      ([0x726, 0x72e], STR_726),
      ([0x780, 0x788], STR_780),
      ([0x782, 0x78a], STR_782),
      ([0x784, 0x78c], STR_784),
      ([0x786, 0x78e], STR_786),
      ([0x7a0, 0x7a8], STR_7a0),
      ([0x7a2, 0x7aa], STR_7a2),
      ([0x7a4, 0x7ac], STR_7a4),
      ([0x7a6, 0x7ae], STR_7a6)]"

definition cases_reg_LDR :: "'p case_list" where
  "cases_reg_LDR = [
      ([0x610, 0x618, 0x630, 0x638], LDR_610),
      ([0x612, 0x61a, 0x632, 0x63a], LDR_612),
      ([0x614, 0x61c, 0x634, 0x63c], LDR_614),
      ([0x616, 0x61e, 0x636, 0x63e], LDR_616),
      ([0x690, 0x698, 0x6b0, 0x6b8], LDR_690),
      ([0x692, 0x69a, 0x6b2, 0x6ba], LDR_692),
      ([0x694, 0x69c, 0x6b4, 0x6bc], LDR_694),
      ([0x696, 0x69e, 0x6b6, 0x6be], LDR_696),
      ([0x710, 0x718], LDR_710),
      ([0x712, 0x71a], LDR_712),
      ([0x714, 0x71c], LDR_714),
      ([0x716, 0x71e], LDR_716),
      ([0x730, 0x738], LDR_730),
      ([0x732, 0x73a], LDR_732),
      ([0x734, 0x73c], LDR_734),
      ([0x736, 0x73e], LDR_736),
      ([0x790, 0x798], LDR_790),
      ([0x792, 0x79a], LDR_792),
      ([0x794, 0x79c], LDR_794),
      ([0x796, 0x79e], LDR_796),
      ([0x7b0, 0x7b8], LDR_7b0),
      ([0x7b2, 0x7ba], LDR_7b2),
      ([0x7b4, 0x7bc], LDR_7b4),
      ([0x7b6, 0x7be], LDR_7b6)]"

definition cases_reg_STRB :: "'p case_list" where
  "cases_reg_STRB = [
      ([0x640, 0x648, 0x660, 0x668], STRB_640),
      ([0x642, 0x64a, 0x662, 0x66a], STRB_642),
      ([0x644, 0x64c, 0x664, 0x66c], STRB_644),
      ([0x646, 0x64e, 0x666, 0x66e], STRB_646),
      ([0x6c0, 0x6c8, 0x6e0, 0x6e8], STRB_6c0),
      ([0x6c2, 0x6ca, 0x6e2, 0x6ea], STRB_6c2),
      ([0x6c4, 0x6cc, 0x6e4, 0x6ec], STRB_6c4),
      ([0x6c6, 0x6ce, 0x6e6, 0x6ee], STRB_6c6),
      ([0x740, 0x748], STRB_740),
      ([0x742, 0x74a], STRB_742),
      ([0x744, 0x74c], STRB_744),
      ([0x746, 0x74e], STRB_746),
      ([0x760, 0x768], STRB_760),
      ([0x762, 0x76a], STRB_762),
      ([0x764, 0x76c], STRB_764),
      ([0x766, 0x76e], STRB_766),
      ([0x7c0, 0x7c8], STRB_7c0),
      ([0x7c2, 0x7ca], STRB_7c2),
      ([0x7c4, 0x7cc], STRB_7c4),
      ([0x7c6, 0x7ce], STRB_7c6),
      ([0x7e0, 0x7e8], STRB_7e0),
      ([0x7e2, 0x7ea], STRB_7e2),
      ([0x7e4, 0x7ec], STRB_7e4),
      ([0x7e6, 0x7ee], STRB_7e6)]"

definition cases_reg_LDRB :: "'p case_list" where
  "cases_reg_LDRB = [
      ([0x650, 0x658, 0x670, 0x678], LDRB_650),
      ([0x652, 0x65a, 0x672, 0x67a], LDRB_652),
      ([0x654, 0x65c, 0x674, 0x67c], LDRB_654),
      ([0x656, 0x65e, 0x676, 0x67e], LDRB_656),
      ([0x6d0, 0x6d8, 0x6f0, 0x6f8], LDRB_6d0),
      ([0x6d2, 0x6da, 0x6f2, 0x6fa], LDRB_6d2),
      ([0x6d4, 0x6dc, 0x6f4, 0x6fc], LDRB_6d4),
      ([0x6d6, 0x6de, 0x6f6, 0x6fe], LDRB_6d6),
      ([0x750, 0x758], LDRB_750),
      ([0x752, 0x75a], LDRB_752),
      ([0x754, 0x75c], LDRB_754),
      ([0x756, 0x75e], LDRB_756),
      ([0x770, 0x778], LDRB_770),
      ([0x772, 0x77a], LDRB_772),
      ([0x774, 0x77c], LDRB_774),
      ([0x776, 0x77e], LDRB_776),
      ([0x7d0, 0x7d8], LDRB_7d0),
      ([0x7d2, 0x7da], LDRB_7d2),
      ([0x7d4, 0x7dc], LDRB_7d4),
      ([0x7d6, 0x7de], LDRB_7d6),
      ([0x7f0, 0x7f8], LDRB_7f0),
      ([0x7f2, 0x7fa], LDRB_7f2),
      ([0x7f4, 0x7fc], LDRB_7f4),
      ([0x7f6, 0x7fe], LDRB_7f6)]"

definition cases_reg :: "'p case_list" where
  "cases_reg = cases_reg_STR @ cases_reg_LDR @ cases_reg_STRB @ cases_reg_LDRB"

definition cases_block :: "'p case_list" where
  "cases_block = [
      (CASE_16 0x800, STMDA_800),
      (CASE_16 0x820, STMDA_820),
      (CASE_16 0x840, STMDA_840),
      (CASE_16 0x860, STMDA_860),
      (CASE_16 0x880, STMIA_880),
      (CASE_16 0x8a0, STMIA_8a0),
      (CASE_16 0x8c0, STMIA_8c0),
      (CASE_16 0x8e0, STMIA_8e0),
      (CASE_16 0x900, STMDB_900),
      (CASE_16 0x920, STMDB_920),
      (CASE_16 0x940, STMDB_940),
      (CASE_16 0x960, STMDB_960),
      (CASE_16 0x980, STMIB_980),
      (CASE_16 0x9a0, STMIB_9a0),
      (CASE_16 0x9c0, STMIB_9c0),
      (CASE_16 0x9e0, STMIB_9e0),
      (CASE_16 0x810, LDMDA_810),
      (CASE_16 0x830, LDMDA_830),
      (CASE_16 0x850, LDMDA_850),
      (CASE_16 0x870, LDMDA_870),
      (CASE_16 0x890, LDMIA_890),
      (CASE_16 0x8b0, LDMIA_8b0),
      (CASE_16 0x8d0, LDMIA_8d0),
      (CASE_16 0x8f0, LDMIA_8f0),
      (CASE_16 0x910, LDMDB_910),
      (CASE_16 0x930, LDMDB_930),
      (CASE_16 0x950, LDMDB_950),
      (CASE_16 0x970, LDMDB_970),
      (CASE_16 0x990, LDMIB_990),
      (CASE_16 0x9b0, LDMIB_9b0),
      (CASE_16 0x9d0, LDMIB_9d0),
      (CASE_16 0x9f0, LDMIB_9f0)]"

definition cases_high :: "'p case_list" where
  "cases_high = [(CASE_256 0xa00, ARM_B), (CASE_256 0xb00, ARM_BL), (CASE_256 0xf00, ARM_SWI)]"

definition arm_switch :: "'p case_list" where
  "arm_switch = cases_low @ cases_imm @ cases_reg @ cases_block @ cases_high"

definition exec_opcode :: "'p arm_op" where
  "exec_opcode b opcode s =
     (let s = add_ticks 6 s;
          cond = drop_bit 28 opcode
      in if cond_res cond s then
           (case switch arm_switch (opcode_hash opcode) of
              Some block \<Rightarrow> block b opcode s
            | None \<Rightarrow> CPUUndefinedException s)
         else s)"

subsection \<open>The run loop\<close>

definition interp_step :: "'p aica_bus \<Rightarrow> 'p arm_state \<Rightarrow> 'p arm_state" where
  "interp_step b s =
     (let s = (if reg s INTR_PEND \<noteq> 0 then CPUFiq s else s);
          s = set_reg 15 (armNextPC s + 8) s;
          opcode = CPUReadMemoryQuick b (armNextPC s) s;
          s = set_reg R15_ARM_NEXT (armNextPC s + 4) s
      in exec_opcode b opcode s)"

partial_function (option) run_loop :: "'p aica_bus \<Rightarrow> 'p arm_state \<Rightarrow> 'p arm_state option" where
  "run_loop b s = (if arm7ClockTicks s < 0 then run_loop b (interp_step b s) else Some s)"

definition runInterpreter :: "'p aica_bus \<Rightarrow> u32 \<Rightarrow> 'p arm_state \<Rightarrow> 'p arm_state option" where
  "runInterpreter b CycleCount s =
     (if \<not> Arm7Enabled s then Some s
      else run_loop b (add_ticks (- uint CycleCount) s))"

subsection \<open>The recompiler's status-register write\<close>

definition MSR_do :: "bool \<Rightarrow> u32 \<Rightarrow> 'p arm_state \<Rightarrow> 'p arm_state" where
  "MSR_do Pd v s =
     (if Pd then
        (if armMode s > 0x10 \<and> armMode s < 0x1f
         then set_reg RN_SPSR ((reg s RN_SPSR AND 0x00FFFF00) OR (v AND 0xFF0000FF)) s
         else s)
      else
        (let s = CPUUpdateCPSR s;
             newValue = reg s RN_CPSR;
             newValue = (if armMode s > 0x10 then (newValue AND 0xFFFFFF00) OR (v AND 0x000000FF) else newValue);
             newValue = (newValue AND 0x00FFFFFF) OR (v AND 0xFF000000);
             newValue = newValue OR 0x10;
             s = (if armMode s > 0x10 then CPUSwitchMode (newValue AND 0x1f) False s else s);
             s = set_reg RN_CPSR newValue s
         in CPUUpdateFlags s))"

end
