(* ===== verification/Arm7_Decode.thy ===== *)
theory Arm7_Decode
  imports Arm7_Interp
begin

unbundle bit_operations_syntax

section \<open>Decoding: the switch against the instruction formats\<close>

text \<open>
  The hash that the \<open>switch\<close> looks up is the opcode's bits 27:20 and 7:4.  The lemmas find the block for
  every data-processing opcode, without enumerating the 4096 hashes, and put it together with the
  operand and operation lemmas into the architecture's definition of the instruction.
\<close>

subsection \<open>The instruction as the architecture has it\<close>

definition ref_data :: "nat \<Rightarrow> u32 \<Rightarrow> u32 \<times> bool \<Rightarrow> 'p arm_state \<Rightarrow> 'p arm_state" where
  "ref_data opc opcode vc s =
     (let rn = fld opcode 16;
          dest = fld opcode 12;
          S = bit opcode 20;
          test = (8 \<le> opc \<and> opc \<le> 11)
      in if dest = 15 then
           (let s = ref_finish opc (S \<and> test) rn dest (fst vc) (snd vc) s;
                s = (if S then (let s = add_ticks 1 s in CPUSwitchMode (reg s 17 AND 0x1f) False s) else s)
            in flush_pc s)
         else ref_finish opc S rn dest (fst vc) (snd vc) s)"

definition data_opc :: "u32 \<Rightarrow> nat" where "data_opc opcode = unat (drop_bit 21 opcode AND 15)"
definition shift_type :: "u32 \<Rightarrow> nat" where "shift_type opcode = unat (drop_bit 5 opcode AND 3)"

definition ref_data_instruction :: "u32 \<Rightarrow> 'p arm_state \<Rightarrow> 'p arm_state" where
  "ref_data_instruction opcode s =
     (if bit opcode 25 then ref_data (data_opc opcode) opcode (ref_rotated_imm opcode s) s
      else if bit opcode 4
      then ref_data (data_opc opcode) opcode (ref_reg_shift (shift_type opcode) opcode s) (rs_cycle s)
      else ref_data (data_opc opcode) opcode (ref_imm_shift (shift_type opcode) opcode s) s)"

text \<open>The data-processing formats: class 00, not a multiply or extra transfer, not a flagless comparison.\<close>

definition is_data :: "u32 \<Rightarrow> bool" where
  "is_data opcode \<longleftrightarrow>
     \<not> bit opcode 27 \<and> \<not> bit opcode 26
     \<and> (bit opcode 25 \<or> \<not> (bit opcode 7 \<and> bit opcode 4))
     \<and> (bit opcode 20 \<or> \<not> (8 \<le> data_opc opcode \<and> data_opc opcode \<le> 11))"

subsection \<open>Operations\<close>

lemma run_plain:
  assumes "\<not> bit opcode 20"
  shows "run_nop OP_AND OP_AND opcode vc s = ref_data 0 opcode vc s"
    "run_nop OP_EOR OP_EOR opcode vc s = ref_data 1 opcode vc s"
    "run_aop OP_SUB OP_SUB opcode vc s = ref_data 2 opcode vc s"
    "run_aop OP_RSB OP_RSB opcode vc s = ref_data 3 opcode vc s"
    "run_aop OP_ADD OP_ADD opcode vc s = ref_data 4 opcode vc s"
    "run_aop OP_ADC OP_ADC opcode vc s = ref_data 5 opcode vc s"
    "run_aop OP_SBC OP_SBC opcode vc s = ref_data 6 opcode vc s"
    "run_aop OP_RSC OP_RSC opcode vc s = ref_data 7 opcode vc s"
    "run_lop OP_ORR OP_ORR opcode vc s = ref_data 12 opcode vc s"
    "run_nop OP_MOV OP_MOV opcode vc s = ref_data 13 opcode vc s"
    "run_lop OP_BIC OP_BIC opcode vc s = ref_data 14 opcode vc s"
    "run_nop OP_MVN OP_MVN opcode vc s = ref_data 15 opcode vc s"
  using assms
  by (simp_all add: run_defs data_tail_def ref_data_def Let_def and_bit_20 logical_ops_ref logical_base_ops_ref
      arithmetic_ops_ref [where c = "snd vc"])

lemma run_flags:
  assumes "bit opcode 20"
  shows "run_nop OP_ANDS OP_AND opcode vc s = ref_data 0 opcode vc s"
    "run_nop OP_EORS OP_EOR opcode vc s = ref_data 1 opcode vc s"
    "run_aop OP_SUBS OP_SUB opcode vc s = ref_data 2 opcode vc s"
    "run_aop OP_RSBS OP_RSB opcode vc s = ref_data 3 opcode vc s"
    "run_aop OP_ADDS OP_ADD opcode vc s = ref_data 4 opcode vc s"
    "run_aop OP_ADCS OP_ADC opcode vc s = ref_data 5 opcode vc s"
    "run_aop OP_SBCS OP_SBC opcode vc s = ref_data 6 opcode vc s"
    "run_aop OP_RSCS OP_RSC opcode vc s = ref_data 7 opcode vc s"
    "run_lop OP_TST OP_TST opcode vc s = ref_data 8 opcode vc s"
    "run_lop OP_TEQ OP_TEQ opcode vc s = ref_data 9 opcode vc s"
    "run_aop OP_CMP OP_CMP opcode vc s = ref_data 10 opcode vc s"
    "run_aop OP_CMN OP_CMN opcode vc s = ref_data 11 opcode vc s"
    "run_lop OP_ORRS OP_ORR opcode vc s = ref_data 12 opcode vc s"
    "run_nop OP_MOVS OP_MOV opcode vc s = ref_data 13 opcode vc s"
    "run_lop OP_BICS OP_BIC opcode vc s = ref_data 14 opcode vc s"
    "run_nop OP_MVNS OP_MVN opcode vc s = ref_data 15 opcode vc s"
  using assms
  by (simp_all add: run_defs data_tail_def ref_data_def Let_def and_bit_20 logical_ops_ref logical_base_ops_ref
      arithmetic_ops_ref [where c = "snd vc"])

subsection \<open>Lookup\<close>

lemma switch_append: "switch (xs @ ys) h = (case switch xs h of None \<Rightarrow> switch ys h | Some f \<Rightarrow> Some f)"
  by (induction xs h rule: switch.induct) auto

definition labels_in :: "nat \<Rightarrow> nat \<Rightarrow> 'p case_list \<Rightarrow> bool" where
  "labels_in lo hi cs \<longleftrightarrow> (\<forall>(labels, block) \<in> set cs. \<forall>l \<in> set labels. lo \<le> l \<and> l < hi)"

lemma switch_outside: "labels_in lo hi cs \<Longrightarrow> h < lo \<or> hi \<le> h \<Longrightarrow> switch cs h = None"
  by (induction cs h rule: switch.induct) (auto simp: labels_in_def)

lemma set_CASE_16 [simp]: "h \<in> set (CASE_16 n) \<longleftrightarrow> n \<le> h \<and> h < n + 16"
  by (auto simp: CASE_16_def)

lemma set_CASE_256 [simp]: "h \<in> set (CASE_256 n) \<longleftrightarrow> n \<le> h \<and> h < n + 256"
proof -
  have "n \<le> h \<and> h < n + 256 \<Longrightarrow> \<exists>i < 16. n + 16 * i \<le> h \<and> h < n + 16 * i + 16"
    by (rule exI [of _ "(h - n) div 16"]) auto
  then show ?thesis by (auto simp: CASE_256_def Bex_def)
qed

lemma ranges:
  "labels_in 0x400 0x600 cases_imm" "labels_in 0x600 0x800 cases_reg" "labels_in 0x800 0xa00 cases_block"
  "labels_in 0xa00 0x1000 cases_high"
  by (auto simp: labels_in_def cases_imm_def cases_reg_def cases_reg_STR_def cases_reg_LDR_def cases_reg_STRB_def
      cases_reg_LDRB_def cases_block_def cases_high_def)

lemma switch_low: "h < 0x400 \<Longrightarrow> switch arm_switch h = switch cases_low h"
  by (simp add: arm_switch_def switch_append switch_outside [OF ranges(1)] switch_outside [OF ranges(2)]
      switch_outside [OF ranges(3)] switch_outside [OF ranges(4)] split: option.splits)

lemmas data_macros = LOGICAL_DATA_OPCODE_def LOGICAL_DATA_OPCODE_WITHOUT_base_def ARITHMETIC_DATA_OPCODE_def

lemma switch_macro_miss:
  assumes "h < BASE \<or> BASE + 16 \<le> h" "h < BASE + 0x200 \<or> BASE + 0x210 \<le> h"
  shows "switch (LOGICAL_DATA_OPCODE OPC OPC2 BASE @ cs) h = switch cs h"
    "switch (LOGICAL_DATA_OPCODE_WITHOUT_base OPD OPD2 BASE @ cs) h = switch cs h"
    "switch (ARITHMETIC_DATA_OPCODE OPE OPE2 BASE @ cs) h = switch cs h"
  using assms by (auto simp: data_macros)

text \<open>The block of a macro for the low nibble of the hash, and for the immediate form.\<close>

definition nibble_block :: "nat \<Rightarrow> 'p arm_op \<Rightarrow> 'p arm_op \<Rightarrow> 'p arm_op \<Rightarrow> 'p arm_op \<Rightarrow> 'p arm_op \<Rightarrow>
    'p arm_op \<Rightarrow> 'p arm_op \<Rightarrow> 'p arm_op \<Rightarrow> 'p arm_op" where
  "nibble_block l lsl lsr asr ror lsl' lsr' asr' ror' =
     (if l = 1 then lsl' else if l = 3 then lsr' else if l = 5 then asr' else if l = 7 then ror'
      else if l = 0 \<or> l = 8 then lsl else if l = 2 \<or> l = 10 then lsr
      else if l = 4 \<or> l = 12 then asr else ror)"

lemma switch_macro_hit:
  assumes "l < 16" "l \<notin> {9, 11, 13, 15}"
  shows "switch (LOGICAL_DATA_OPCODE OPC OPC2 BASE @ cs) (BASE + l) = Some (nibble_block l
      (LOGICAL_LSL_imm OPC OPC2) (LOGICAL_LSR_imm OPC OPC2) (LOGICAL_ASR_imm OPC OPC2) (LOGICAL_ROR_imm OPC OPC2)
      (LOGICAL_LSL_Rs OPC OPC2) (LOGICAL_LSR_Rs OPC OPC2) (LOGICAL_ASR_Rs OPC OPC2) (LOGICAL_ROR_Rs OPC OPC2))"
    "switch (LOGICAL_DATA_OPCODE_WITHOUT_base OPD OPD2 BASE @ cs) (BASE + l) = Some (nibble_block l
      (LOGICAL_nobase_LSL_imm OPD OPD2) (LOGICAL_nobase_LSR_imm OPD OPD2) (LOGICAL_nobase_ASR_imm OPD OPD2)
      (LOGICAL_nobase_ROR_imm OPD OPD2) (LOGICAL_nobase_LSL_Rs OPD OPD2) (LOGICAL_nobase_LSR_Rs OPD OPD2)
      (LOGICAL_nobase_ASR_Rs OPD OPD2) (LOGICAL_nobase_ROR_Rs OPD OPD2))"
    "switch (ARITHMETIC_DATA_OPCODE OPE OPE2 BASE @ cs) (BASE + l) = Some (nibble_block l
      (ARITHMETIC_LSL_imm OPE OPE2) (ARITHMETIC_LSR_imm OPE OPE2) (ARITHMETIC_ASR_imm OPE OPE2)
      (ARITHMETIC_ROR_imm OPE OPE2) (ARITHMETIC_LSL_Rs OPE OPE2) (ARITHMETIC_LSR_Rs OPE OPE2)
      (ARITHMETIC_ASR_Rs OPE OPE2) (ARITHMETIC_ROR_Rs OPE OPE2))"
proof -
  have "l \<in> {0, 1, 2, 3, 4, 5, 6, 7, 8, 10, 12, 14}" using assms by simp presburger
  then show "switch (LOGICAL_DATA_OPCODE OPC OPC2 BASE @ cs) (BASE + l) = Some (nibble_block l
      (LOGICAL_LSL_imm OPC OPC2) (LOGICAL_LSR_imm OPC OPC2) (LOGICAL_ASR_imm OPC OPC2) (LOGICAL_ROR_imm OPC OPC2)
      (LOGICAL_LSL_Rs OPC OPC2) (LOGICAL_LSR_Rs OPC OPC2) (LOGICAL_ASR_Rs OPC OPC2) (LOGICAL_ROR_Rs OPC OPC2))"
    "switch (LOGICAL_DATA_OPCODE_WITHOUT_base OPD OPD2 BASE @ cs) (BASE + l) = Some (nibble_block l
      (LOGICAL_nobase_LSL_imm OPD OPD2) (LOGICAL_nobase_LSR_imm OPD OPD2) (LOGICAL_nobase_ASR_imm OPD OPD2)
      (LOGICAL_nobase_ROR_imm OPD OPD2) (LOGICAL_nobase_LSL_Rs OPD OPD2) (LOGICAL_nobase_LSR_Rs OPD OPD2)
      (LOGICAL_nobase_ASR_Rs OPD OPD2) (LOGICAL_nobase_ROR_Rs OPD OPD2))"
    "switch (ARITHMETIC_DATA_OPCODE OPE OPE2 BASE @ cs) (BASE + l) = Some (nibble_block l
      (ARITHMETIC_LSL_imm OPE OPE2) (ARITHMETIC_LSR_imm OPE OPE2) (ARITHMETIC_ASR_imm OPE OPE2)
      (ARITHMETIC_ROR_imm OPE OPE2) (ARITHMETIC_LSL_Rs OPE OPE2) (ARITHMETIC_LSR_Rs OPE OPE2)
      (ARITHMETIC_ASR_Rs OPE OPE2) (ARITHMETIC_ROR_Rs OPE OPE2))"
    by (auto simp: data_macros nibble_block_def)
qed

lemma switch_macro_imm:
  assumes "l < 16"
  shows "switch (LOGICAL_DATA_OPCODE OPC OPC2 BASE @ cs) (BASE + 0x200 + l) = Some (LOGICAL_IMM OPC OPC2)"
    "switch (LOGICAL_DATA_OPCODE_WITHOUT_base OPD OPD2 BASE @ cs) (BASE + 0x200 + l) = Some (LOGICAL_nobase_IMM OPD OPD2)"
    "switch (ARITHMETIC_DATA_OPCODE OPE OPE2 BASE @ cs) (BASE + 0x200 + l) = Some (ARITHMETIC_IMM OPE OPE2)"
  using assms by (auto simp: data_macros)

text \<open>What the found block computes, in terms of the operand.\<close>

definition nibble_run :: "(u32 \<times> bool \<Rightarrow> 'p arm_state \<Rightarrow> 'p arm_state) \<Rightarrow> nat \<Rightarrow> u32 \<Rightarrow> 'p arm_state \<Rightarrow> 'p arm_state" where
  "nibble_run run l opcode s =
     (if l = 1 then run (ref_reg_shift 0 opcode s) (rs_cycle s)
      else if l = 3 then run (ref_reg_shift 1 opcode s) (rs_cycle s)
      else if l = 5 then run (ref_reg_shift 2 opcode s) (rs_cycle s)
      else if l = 7 then run (src_ror_rs opcode s) (rs_cycle s)
      else if l = 0 \<or> l = 8 then run (ref_imm_shift 0 opcode s) s
      else if l = 2 \<or> l = 10 then run (ref_imm_shift 1 opcode s) s
      else if l = 4 \<or> l = 12 then run (ref_imm_shift 2 opcode s) s
      else run (ref_imm_shift 3 opcode s) s)"

lemma LOGICAL_nobase_nibble:
  "nibble_block l (LOGICAL_nobase_LSL_imm OPC OPC2) (LOGICAL_nobase_LSR_imm OPC OPC2) (LOGICAL_nobase_ASR_imm OPC OPC2) (LOGICAL_nobase_ROR_imm OPC OPC2)
     (LOGICAL_nobase_LSL_Rs OPC OPC2) (LOGICAL_nobase_LSR_Rs OPC OPC2) (LOGICAL_nobase_ASR_Rs OPC OPC2) (LOGICAL_nobase_ROR_Rs OPC OPC2) b opcode s
   = nibble_run (run_nop OPC OPC2 opcode) l opcode s"
  by (simp add: nibble_block_def nibble_run_def LOGICAL_nobase_imm_blocks LOGICAL_nobase_Rs_blocks)

lemma LOGICAL_nibble:
  "nibble_block l (LOGICAL_LSL_imm OPC OPC2) (LOGICAL_LSR_imm OPC OPC2) (LOGICAL_ASR_imm OPC OPC2) (LOGICAL_ROR_imm OPC OPC2)
     (LOGICAL_LSL_Rs OPC OPC2) (LOGICAL_LSR_Rs OPC OPC2) (LOGICAL_ASR_Rs OPC OPC2) (LOGICAL_ROR_Rs OPC OPC2) b opcode s
   = nibble_run (run_lop OPC OPC2 opcode) l opcode s"
  by (simp add: nibble_block_def nibble_run_def LOGICAL_imm_blocks LOGICAL_Rs_blocks)

lemma ARITHMETIC_nibble:
  "nibble_block l (ARITHMETIC_LSL_imm OPC OPC2) (ARITHMETIC_LSR_imm OPC OPC2) (ARITHMETIC_ASR_imm OPC OPC2) (ARITHMETIC_ROR_imm OPC OPC2)
     (ARITHMETIC_LSL_Rs OPC OPC2) (ARITHMETIC_LSR_Rs OPC OPC2) (ARITHMETIC_ASR_Rs OPC OPC2) (ARITHMETIC_ROR_Rs OPC OPC2) b opcode s
   = nibble_run (run_aop OPC OPC2 opcode) l opcode s"
  by (simp add: nibble_block_def nibble_run_def ARITHMETIC_imm_blocks ARITHMETIC_Rs_blocks)

text \<open>The block a hash of class 00 selects, found by skipping the macros of the other operations.\<close>

definition finds :: "nat \<Rightarrow> (u32 \<Rightarrow> u32 \<times> bool \<Rightarrow> 'p arm_state \<Rightarrow> 'p arm_state) \<Rightarrow> bool" where
  "finds BASE run \<longleftrightarrow>
     (\<forall>l. l < 16 \<longrightarrow> l \<notin> {9, 11, 13, 15} \<longrightarrow>
        (\<exists>f. switch cases_low (BASE + l) = Some f \<and> (\<forall>b opcode s. f b opcode s = nibble_run (run opcode) l opcode s)))
     \<and> (\<forall>l. l < 16 \<longrightarrow>
        (\<exists>f. switch cases_low (BASE + 0x200 + l) = Some f \<and> (\<forall>b opcode s. f b opcode s = run opcode (ref_rotated_imm opcode s) s)))"

lemma switch_macro_at:
  assumes "h = BASE + l" "l < 16" "l \<notin> {9, 11, 13, 15}"
  shows "\<exists>f. switch (LOGICAL_DATA_OPCODE OPC OPC2 BASE @ cs) h = Some f \<and> (\<forall>b opcode s. f b opcode s = nibble_run (run_lop OPC OPC2 opcode) l opcode s)"
    "\<exists>f. switch (LOGICAL_DATA_OPCODE_WITHOUT_base OPD OPD2 BASE @ cs) h = Some f \<and> (\<forall>b opcode s. f b opcode s = nibble_run (run_nop OPD OPD2 opcode) l opcode s)"
    "\<exists>f. switch (ARITHMETIC_DATA_OPCODE OPE OPE2 BASE @ cs) h = Some f \<and> (\<forall>b opcode s. f b opcode s = nibble_run (run_aop OPE OPE2 opcode) l opcode s)"
  using assms
  by (simp_all add: switch_macro_hit LOGICAL_nibble LOGICAL_nobase_nibble ARITHMETIC_nibble)

lemma switch_macro_imm_at:
  assumes "BASE + 0x200 \<le> h" "h - (BASE + 0x200) < 16"
  shows "\<exists>f. switch (LOGICAL_DATA_OPCODE OPC OPC2 BASE @ cs) h = Some f \<and> (\<forall>b opcode s. f b opcode s = run_lop OPC OPC2 opcode (ref_rotated_imm opcode s) s)"
    "\<exists>f. switch (LOGICAL_DATA_OPCODE_WITHOUT_base OPD OPD2 BASE @ cs) h = Some f \<and> (\<forall>b opcode s. f b opcode s = run_nop OPD OPD2 opcode (ref_rotated_imm opcode s) s)"
    "\<exists>f. switch (ARITHMETIC_DATA_OPCODE OPE OPE2 BASE @ cs) h = Some f \<and> (\<forall>b opcode s. f b opcode s = run_aop OPE OPE2 opcode (ref_rotated_imm opcode s) s)"
  using assms le_Suc_ex [OF assms(1)]
  by (auto simp: switch_macro_imm LOGICAL_IMM_block LOGICAL_nobase_IMM_block ARITHMETIC_IMM_block)

lemma finds_OP_AND: "finds 0x0 (run_nop OP_AND OP_AND)"
  by (simp add: finds_def cases_low_def switch_macro_miss switch_macro_at switch_macro_imm_at)

lemma finds_OP_ANDS: "finds 0x10 (run_nop OP_ANDS OP_AND)"
  by (simp add: finds_def cases_low_def switch_macro_miss switch_macro_at switch_macro_imm_at)

lemma finds_OP_EOR: "finds 0x20 (run_nop OP_EOR OP_EOR)"
  by (simp add: finds_def cases_low_def switch_macro_miss switch_macro_at switch_macro_imm_at)

lemma finds_OP_EORS: "finds 0x30 (run_nop OP_EORS OP_EOR)"
  by (simp add: finds_def cases_low_def switch_macro_miss switch_macro_at switch_macro_imm_at)

lemma finds_OP_SUB: "finds 0x40 (run_aop OP_SUB OP_SUB)"
  by (simp add: finds_def cases_low_def switch_macro_miss switch_macro_at switch_macro_imm_at)

lemma finds_OP_SUBS: "finds 0x50 (run_aop OP_SUBS OP_SUB)"
  by (simp add: finds_def cases_low_def switch_macro_miss switch_macro_at switch_macro_imm_at)

lemma finds_OP_RSB: "finds 0x60 (run_aop OP_RSB OP_RSB)"
  by (simp add: finds_def cases_low_def switch_macro_miss switch_macro_at switch_macro_imm_at)

lemma finds_OP_RSBS: "finds 0x70 (run_aop OP_RSBS OP_RSB)"
  by (simp add: finds_def cases_low_def switch_macro_miss switch_macro_at switch_macro_imm_at)

lemma finds_OP_ADD: "finds 0x80 (run_aop OP_ADD OP_ADD)"
  by (simp add: finds_def cases_low_def switch_macro_miss switch_macro_at switch_macro_imm_at)

lemma finds_OP_ADDS: "finds 0x90 (run_aop OP_ADDS OP_ADD)"
  by (simp add: finds_def cases_low_def switch_macro_miss switch_macro_at switch_macro_imm_at)

lemma finds_OP_ADC: "finds 0xa0 (run_aop OP_ADC OP_ADC)"
  by (simp add: finds_def cases_low_def switch_macro_miss switch_macro_at switch_macro_imm_at)

lemma finds_OP_ADCS: "finds 0xb0 (run_aop OP_ADCS OP_ADC)"
  by (simp add: finds_def cases_low_def switch_macro_miss switch_macro_at switch_macro_imm_at)

lemma finds_OP_SBC: "finds 0xc0 (run_aop OP_SBC OP_SBC)"
  by (simp add: finds_def cases_low_def switch_macro_miss switch_macro_at switch_macro_imm_at)

lemma finds_OP_SBCS: "finds 0xd0 (run_aop OP_SBCS OP_SBC)"
  by (simp add: finds_def cases_low_def switch_macro_miss switch_macro_at switch_macro_imm_at)

lemma finds_OP_RSC: "finds 0xe0 (run_aop OP_RSC OP_RSC)"
  by (simp add: finds_def cases_low_def switch_macro_miss switch_macro_at switch_macro_imm_at)

lemma finds_OP_RSCS: "finds 0xf0 (run_aop OP_RSCS OP_RSC)"
  by (simp add: finds_def cases_low_def switch_macro_miss switch_macro_at switch_macro_imm_at)

lemma finds_OP_TST: "finds 0x110 (run_lop OP_TST OP_TST)"
  by (simp add: finds_def cases_low_def switch_macro_miss switch_macro_at switch_macro_imm_at)

lemma finds_OP_TEQ: "finds 0x130 (run_lop OP_TEQ OP_TEQ)"
  by (simp add: finds_def cases_low_def switch_macro_miss switch_macro_at switch_macro_imm_at)

lemma finds_OP_CMP: "finds 0x150 (run_aop OP_CMP OP_CMP)"
  by (simp add: finds_def cases_low_def switch_macro_miss switch_macro_at switch_macro_imm_at)

lemma finds_OP_CMN: "finds 0x170 (run_aop OP_CMN OP_CMN)"
  by (simp add: finds_def cases_low_def switch_macro_miss switch_macro_at switch_macro_imm_at)

lemma finds_OP_ORR: "finds 0x180 (run_lop OP_ORR OP_ORR)"
  by (simp add: finds_def cases_low_def switch_macro_miss switch_macro_at switch_macro_imm_at)

lemma finds_OP_ORRS: "finds 0x190 (run_lop OP_ORRS OP_ORR)"
  by (simp add: finds_def cases_low_def switch_macro_miss switch_macro_at switch_macro_imm_at)

lemma finds_OP_MOV: "finds 0x1a0 (run_nop OP_MOV OP_MOV)"
  by (simp add: finds_def cases_low_def switch_macro_miss switch_macro_at switch_macro_imm_at)

lemma finds_OP_MOVS: "finds 0x1b0 (run_nop OP_MOVS OP_MOV)"
  by (simp add: finds_def cases_low_def switch_macro_miss switch_macro_at switch_macro_imm_at)

lemma finds_OP_BIC: "finds 0x1c0 (run_lop OP_BIC OP_BIC)"
  by (simp add: finds_def cases_low_def switch_macro_miss switch_macro_at switch_macro_imm_at)

lemma finds_OP_BICS: "finds 0x1d0 (run_lop OP_BICS OP_BIC)"
  by (simp add: finds_def cases_low_def switch_macro_miss switch_macro_at switch_macro_imm_at)

lemma finds_OP_MVN: "finds 0x1e0 (run_nop OP_MVN OP_MVN)"
  by (simp add: finds_def cases_low_def switch_macro_miss switch_macro_at switch_macro_imm_at)

lemma finds_OP_MVNS: "finds 0x1f0 (run_nop OP_MVNS OP_MVN)"
  by (simp add: finds_def cases_low_def switch_macro_miss switch_macro_at switch_macro_imm_at)

subsection \<open>The hash of a data-processing opcode\<close>

lemma bit_unat: "bit (unat w) n = bit w n" for w :: u32
  by (simp add: bit_unsigned_iff)

lemma bit_odd_unat: "bit w n \<longleftrightarrow> odd (unat w div 2 ^ n)" for w :: u32
  using bit_unat [of w n] by (simp add: bit_iff_odd [of "unat w"])

lemma bit_const_0xff0: "bit (0xFF0 :: u32) k \<longleftrightarrow> 4 \<le> k \<and> k < 12"
proof -
  have "(0xFF0 :: u32) = push_bit 4 (mask 8)" by (simp add: mask_eq_exp_minus_1)
  then have "bit (0xFF0 :: u32) k \<longleftrightarrow> bit (push_bit 4 (mask 8) :: u32) k" by (rule arg_cong)
  also have "\<dots> \<longleftrightarrow> 4 \<le> k \<and> k < 12"
    unfolding bit_push_bit_iff bit_mask_iff by auto
  finally show ?thesis .
qed

lemma unat_nibble: "unat (drop_bit n w AND 15) = unat w div 2 ^ n mod 16" for w :: u32
proof -
  have "unat (drop_bit n w AND 15) = take_bit 4 (drop_bit n (unat w))"
    by (rule bit_eqI)
      (auto simp: bit_unat bit_and_iff bit_take_bit_iff bit_drop_bit_eq word_bits simp del: bit_numeral_word_iff)
  then show ?thesis by (simp add: take_bit_eq_mod drop_bit_eq_div)
qed

lemma unat_two_bits: "unat (drop_bit n w AND 3) = unat w div 2 ^ n mod 4" for w :: u32
proof -
  have m: "(3 :: u32) = mask 2" by (simp add: mask_eq_exp_minus_1)
  have "unat (drop_bit n w AND 3) = take_bit 2 (drop_bit n (unat w))"
    unfolding m by (rule bit_eqI) (auto simp: bit_unat bit_and_iff bit_take_bit_iff bit_drop_bit_eq bit_mask_iff)
  then show ?thesis by (simp add: take_bit_eq_mod drop_bit_eq_div)
qed

lemma opcode_hash_nat: "opcode_hash opcode = 16 * (unat opcode div 2 ^ 20 mod 256) + unat opcode div 16 mod 16"
proof -
  let ?hi = "push_bit 4 (take_bit 8 (drop_bit 20 (unat opcode)))" and ?lo = "take_bit 4 (drop_bit 4 (unat opcode))"
  have "opcode_hash opcode = ?hi OR ?lo"
    unfolding opcode_hash_def
    by (rule bit_eqI) (auto simp: bit_unat bit_and_iff bit_or_iff bit_push_bit_iff bit_take_bit_iff bit_drop_bit_eq
        word_bits bit_const_0xff0 simp del: bit_numeral_word_iff)
  also have "\<dots> = ?hi + ?lo"
    by (rule disjunctive_add [symmetric]) (auto simp: bit_push_bit_iff bit_take_bit_iff)
  finally show ?thesis
    by (simp add: take_bit_eq_mod drop_bit_eq_div push_bit_eq_mult)
qed

lemma class_00_hash:
  fixes k :: nat
  assumes "even (k div 2 ^ 27)" "even (k div 2 ^ 26)"
  shows "k div 2 ^ 20 mod 256 = 32 * (k div 2 ^ 25 mod 2) + 2 * (k div 2 ^ 21 mod 16) + k div 2 ^ 20 mod 2"
proof -
  define m where "m = k div 2 ^ 20"
  have "k div 2 ^ 27 = m div 128" "k div 2 ^ 26 = m div 64" "k div 2 ^ 25 = m div 32" "k div 2 ^ 21 = m div 2"
    by (simp_all add: m_def div_mult2_eq [symmetric])
  note e = this
  have "even (m div 128)" "even (m div 64)" using assms unfolding e by simp_all
  then have "m div 128 mod 2 = 0" "m div 64 mod 2 = 0" by simp_all
  moreover have "m mod 256 = 2 * (m div 2 mod 128) + m mod 2" using mod_mult2_eq [of m 2 128] by simp
  moreover have "m div 2 mod 128 = 16 * (m div 32 mod 8) + m div 2 mod 16"
    using mod_mult2_eq [of "m div 2" 16 8] by (simp add: div_mult2_eq [symmetric])
  moreover have "m div 32 mod 8 = 2 * (m div 64 mod 4) + m div 32 mod 2"
    using mod_mult2_eq [of "m div 32" 2 4] by (simp add: div_mult2_eq [symmetric])
  moreover have "m div 64 mod 4 = 2 * (m div 128 mod 2) + m div 64 mod 2"
    using mod_mult2_eq [of "m div 64" 2 2] by (simp add: div_mult2_eq [symmetric])
  ultimately have "m mod 256 = 32 * (m div 32 mod 2) + 2 * (m div 2 mod 16) + m mod 2" by linarith
  then show ?thesis unfolding e m_def [symmetric] .
qed

lemma hash_data:
  assumes "\<not> bit opcode 27" "\<not> bit opcode 26"
  shows "opcode_hash opcode = 0x200 * of_bool (bit opcode 25) + 0x20 * (unat opcode div 2 ^ 21 mod 16)
    + 0x10 * of_bool (bit opcode 20) + unat opcode div 16 mod 16"
  using class_00_hash [of "unat opcode"] assms
  by (simp add: opcode_hash_nat bit_odd_unat mod_2_eq_odd)

lemma upto_16:
  assumes "n < (16 :: nat)" "P 0" "P 1" "P 2" "P 3" "P 4" "P 5" "P 6" "P 7" "P 8" "P 9" "P 10" "P 11" "P 12" "P 13" "P 14" "P 15"
  shows "P n"
proof -
  have "n \<in> {0, 1, 2, 3, 4, 5, 6, 7, 8, 9, 10, 11, 12, 13, 14, 15}" using assms(1) by simp presburger
  then show ?thesis using assms(2-) by auto
qed

text \<open>For every operation and flag bit there is a macro in the switch, and it computes the reference.\<close>

definition data_run :: "nat \<Rightarrow> bool \<Rightarrow> u32 \<Rightarrow> u32 \<times> bool \<Rightarrow> 'p arm_state \<Rightarrow> 'p arm_state" where
  "data_run opc S =
     (if S then [run_nop OP_ANDS OP_AND, run_nop OP_EORS OP_EOR, run_aop OP_SUBS OP_SUB, run_aop OP_RSBS OP_RSB, run_aop OP_ADDS OP_ADD, run_aop OP_ADCS OP_ADC, run_aop OP_SBCS OP_SBC, run_aop OP_RSCS OP_RSC, run_lop OP_TST OP_TST, run_lop OP_TEQ OP_TEQ, run_aop OP_CMP OP_CMP, run_aop OP_CMN OP_CMN, run_lop OP_ORRS OP_ORR, run_nop OP_MOVS OP_MOV, run_lop OP_BICS OP_BIC, run_nop OP_MVNS OP_MVN] ! opc
      else [run_nop OP_AND OP_AND, run_nop OP_EOR OP_EOR, run_aop OP_SUB OP_SUB, run_aop OP_RSB OP_RSB, run_aop OP_ADD OP_ADD, run_aop OP_ADC OP_ADC, run_aop OP_SBC OP_SBC, run_aop OP_RSC OP_RSC, run_lop OP_TST OP_TST, run_lop OP_TEQ OP_TEQ, run_aop OP_CMP OP_CMP, run_aop OP_CMN OP_CMN, run_lop OP_ORR OP_ORR, run_nop OP_MOV OP_MOV, run_lop OP_BIC OP_BIC, run_nop OP_MVN OP_MVN] ! opc)"

lemma data_run_finds:
  assumes "opc < 16" "S \<or> \<not> (8 \<le> opc \<and> opc \<le> 11)"
  shows "finds (0x20 * opc + 0x10 * of_bool S) (data_run opc S)"
proof -
  have "(S \<or> \<not> (8 \<le> opc \<and> opc \<le> 11)) \<longrightarrow> finds (0x20 * opc + 0x10 * of_bool S) (data_run opc S)"
    by (rule upto_16 [OF assms(1),
          where P = "\<lambda>opc. (S \<or> \<not> (8 \<le> opc \<and> opc \<le> 11)) \<longrightarrow> finds (0x20 * opc + 0x10 * of_bool S) (data_run opc S)"]; cases S)
      (simp_all add: data_run_def finds_OP_ANDS finds_OP_EORS finds_OP_SUBS finds_OP_RSBS finds_OP_ADDS finds_OP_ADCS finds_OP_SBCS finds_OP_RSCS finds_OP_TST finds_OP_TEQ finds_OP_CMP finds_OP_CMN finds_OP_ORRS finds_OP_MOVS finds_OP_BICS finds_OP_MVNS
      finds_OP_AND finds_OP_EOR finds_OP_SUB finds_OP_RSB finds_OP_ADD finds_OP_ADC finds_OP_SBC finds_OP_RSC finds_OP_ORR finds_OP_MOV finds_OP_BIC finds_OP_MVN)
  then show ?thesis using assms(2) by blast
qed

lemma data_run_ref:
  assumes "opc < 16" "S \<or> \<not> (8 \<le> opc \<and> opc \<le> 11)" "bit opcode 20 = S"
  shows "data_run opc S opcode vc s = ref_data opc opcode vc s"
proof -
  have "(S \<or> \<not> (8 \<le> opc \<and> opc \<le> 11)) \<longrightarrow> data_run opc S opcode vc s = ref_data opc opcode vc s"
    by (rule upto_16 [OF assms(1),
          where P = "\<lambda>opc. (S \<or> \<not> (8 \<le> opc \<and> opc \<le> 11)) \<longrightarrow> data_run opc S opcode vc s = ref_data opc opcode vc s"]; cases S)
      (use assms(3) in \<open>simp_all add: data_run_def run_plain run_flags\<close>)
  then show ?thesis using assms(2) by blast
qed

subsection \<open>Data-processing instructions\<close>

lemma data_opc_less: "data_opc opcode < 16"
  by (simp add: data_opc_def unat_nibble)

lemma nibble_shift_type: "k div 32 mod 4 = k div 16 mod 16 div 2 mod 4" for k :: nat
proof -
  have "k div 16 mod 16 = 2 * (k div 32 mod 8) + k div 16 mod 2"
    using mod_mult2_eq [of "k div 16" 2 8] by (simp add: div_mult2_eq [symmetric])
  then have "k div 16 mod 16 div 2 = k div 32 mod 8" by simp
  then show ?thesis by (simp add: mod_mod_cancel)
qed

lemma nibble_bits:
  fixes opcode :: u32
  shows "bit opcode 4 \<longleftrightarrow> odd (unat opcode div 16 mod 16)" "bit opcode 7 \<longleftrightarrow> 8 \<le> unat opcode div 16 mod 16"
proof -
  show "bit opcode 4 \<longleftrightarrow> odd (unat opcode div 16 mod 16)"
    using bit_odd_unat [of opcode 4] by (simp add: dvd_mod_iff)
  define m where "m = unat opcode div 16"
  have "m mod 16 = 8 * (m div 8 mod 2) + m mod 8" using mod_mult2_eq [of m 8 2] by simp
  moreover have "m mod 8 < 8" by simp
  ultimately have "odd (m div 8) \<longleftrightarrow> 8 \<le> m mod 16" by (cases "odd (m div 8)") (auto simp: odd_iff_mod_2_eq_one)
  then show "bit opcode 7 \<longleftrightarrow> 8 \<le> unat opcode div 16 mod 16"
    by (simp add: bit_odd_unat m_def div_mult2_eq [symmetric])
qed

lemma nibble_run_ref:
  assumes l: "l = unat opcode div 16 mod 16" and "l \<notin> {9, 11, 13, 15}"
    and "\<not> (bit opcode 4 \<and> shift_type opcode = 3 \<and> rs_amount opcode s = 0)"
  shows "nibble_run run l opcode s =
    (if bit opcode 4 then run (ref_reg_shift (shift_type opcode) opcode s) (rs_cycle s)
     else run (ref_imm_shift (shift_type opcode) opcode s) s)"
proof -
  have "l < 16" by (simp add: l)
  have "bit opcode 4 \<longleftrightarrow> odd l" by (simp add: nibble_bits l)
  moreover have "shift_type opcode = l div 2 mod 4"
    by (simp add: shift_type_def unat_two_bits l nibble_shift_type)
  moreover have "l \<in> {0, 1, 2, 3, 4, 5, 6, 7, 8, 10, 12, 14}"
    using \<open>l < 16\<close> assms(2) by simp presburger
  ultimately show ?thesis
    using assms(3)
    by (simp only: insert_iff empty_iff simp_thms) (elim disjE; simp add: nibble_run_def src_ror_rs_def)
qed

text \<open>Every data-processing opcode is executed as the architecture defines it.\<close>

lemma exec_data:
  fixes b :: "'p aica_bus"
  assumes "is_data opcode" "cond_res (drop_bit 28 opcode) (add_ticks 6 s)"
    and "bit opcode 25 \<or> \<not> (bit opcode 4 \<and> shift_type opcode = 3 \<and> rs_amount opcode s = 0)"
  shows "exec_opcode b opcode s = ref_data_instruction opcode (add_ticks 6 s)"
proof -
  let ?S = "bit opcode 20" and ?o = "data_opc opcode" and ?l = "unat opcode div 16 mod 16" and ?t = "add_ticks 6 s"
  let ?B = "0x20 * ?o + 0x10 * of_bool ?S"
  have S: "?S \<or> \<not> (8 \<le> ?o \<and> ?o \<le> 11)" using assms(1) by (simp add: is_data_def)
  note o = data_opc_less [of opcode]
  have h: "opcode_hash opcode = ?B + 0x200 * of_bool (bit opcode 25) + ?l"
    using assms(1) hash_data [of opcode] by (simp add: is_data_def data_opc_def unat_nibble)
  have "?l < 16" by simp
  then have "opcode_hash opcode < 0x400" using o h by (cases "bit opcode 25"; cases ?S) auto
  then have sw: "switch (arm_switch :: 'p case_list) (opcode_hash opcode) = switch cases_low (opcode_hash opcode)"
    by (rule switch_low)
  note f = data_run_finds [OF o S, unfolded finds_def] and r = data_run_ref [OF o S refl]
  show ?thesis
  proof (cases "bit opcode 25")
    case True
    then have h': "opcode_hash opcode = ?B + 0x200 + ?l" using h by simp
    obtain g :: "'p arm_op" where "switch cases_low (opcode_hash opcode) = Some g"
      "\<forall>b opcode s. g b opcode s = data_run ?o ?S opcode (ref_rotated_imm opcode s) s"
      using f \<open>?l < 16\<close> unfolding h' by blast
    then show ?thesis
      using True assms(2) by (simp add: exec_opcode_def Let_def sw r ref_data_instruction_def)
  next
    case False
    have nib: "?l \<notin> {9, 11, 13, 15}"
      using assms(1) False by (auto simp: is_data_def nibble_bits)
    have h': "opcode_hash opcode = ?B + ?l" using h False by simp
    obtain g :: "'p arm_op" where "switch cases_low (opcode_hash opcode) = Some g"
      "\<forall>b opcode s. g b opcode s = nibble_run (data_run ?o ?S opcode) ?l opcode s"
      using f \<open>?l < 16\<close> nib unfolding h' by blast
    then show ?thesis
      using False assms(2,3) nibble_run_ref [OF refl nib, of ?t]
      by (simp add: exec_opcode_def Let_def sw r ref_data_instruction_def rs_amount_after)
  qed
qed

end
