(* ===== verification/Arm7_Decode_Transfer.thy ===== *)
theory Arm7_Decode_Transfer
  imports Arm7_Decode
begin

unbundle bit_operations_syntax

section \<open>Decoding the single data transfers\<close>

text \<open>
  The same for class 01: the hash selects, among the 122 load and store blocks with an immediate or a shifted
  register offset, the one that does what the addressing bits of the opcode say.
\<close>

definition single_ref :: "bool \<Rightarrow> bool \<Rightarrow> bool \<Rightarrow> bool \<Rightarrow> bool \<Rightarrow> bool \<Rightarrow> ('p arm_state \<Rightarrow> u32) \<Rightarrow> 'p arm_op" where
  "single_ref imm P U B W L off b opcode s =
     (let T = (if B then U8 else U32)
      in if L then ref_load T id False (\<not> B \<and> \<not> (imm \<and> \<not> P \<and> W)) P U W off b opcode s
         else ref_store T P U W off b opcode s)"

definition ref_single_transfer :: "'p arm_op" where
  "ref_single_transfer b opcode s =
     (let imm = (\<not> bit opcode 25);
          off = (if imm then off_imm12 opcode else off_shift (shift_type opcode) opcode)
      in single_ref imm (bit opcode 24) (bit opcode 23) (bit opcode 22) (bit opcode 21) (bit opcode 20) off b opcode s)"

lemma post_index_W:
  "ref_load T e early br False U W off b opcode s = ref_load T e early br False U False off b opcode s"
  "ref_store T False U W off b opcode s = ref_store T False U False off b opcode s"
  by (simp_all add: ref_load_def ref_store_def)

text \<open>The five addressing bits as a number below 32.\<close>

definition abits :: "nat \<Rightarrow> bool \<times> bool \<times> bool \<times> bool \<times> bool" where
  "abits n = (odd (n div 16), odd (n div 8), odd (n div 4), odd (n div 2), odd n)"

definition single_n :: "bool \<Rightarrow> nat \<Rightarrow> ('p arm_state \<Rightarrow> u32) \<Rightarrow> 'p arm_op" where
  "single_n imm n off = (case abits n of (P, U, B, W, L) \<Rightarrow> single_ref imm P U B W L off)"

lemma upto_32:
  assumes "n < (32 :: nat)" "\<And>m. m < 16 \<Longrightarrow> P m" "\<And>m. m < 16 \<Longrightarrow> P (16 + m)"
  shows "P n"
  using assms(2) [of n] assms(3) [of "n - 16"] assms(1) by (cases "n < 16") auto

lemmas imm_lookup = cases_imm_def single_n_def abits_def single_ref_def imm_stores imm_loads

lemma found_imm_lo:
  assumes "l < 16" "bus_keeps_regs b" "n < 16"
  shows "\<exists>f. switch cases_imm (0x400 + 16 * n + l) = Some f \<and> (\<forall>opcode s. f b opcode s = single_n True n (off_imm12 opcode) b opcode s)"
  by (rule upto_16 [OF assms(3)]) (use assms(1,2) in \<open>simp_all add: imm_lookup post_index_W [where W = True]\<close>)

lemma found_imm_hi:
  assumes "l < 16" "bus_keeps_regs b" "n < 16"
  shows "\<exists>f. switch cases_imm (0x400 + 16 * (16 + n) + l) = Some f \<and> (\<forall>opcode s. f b opcode s = single_n True (16 + n) (off_imm12 opcode) b opcode s)"
  by (rule upto_16 [OF assms(3)]) (use assms(1,2) in \<open>simp_all add: imm_lookup\<close>)

text \<open>The register-offset blocks come in four runs, by load or store and byte or word.\<close>

lemma switch_none: "(\<forall>(labels, block) \<in> set cs. \<forall>l \<in> set labels. Q l) \<Longrightarrow> \<not> Q h \<Longrightarrow> switch cs h = None"
  by (induction cs h rule: switch.induct) auto

lemma reg_runs:
  "odd (h div 16) \<or> odd (h div 64) \<Longrightarrow> switch cases_reg_STR h = None"
  "even (h div 16) \<or> odd (h div 64) \<Longrightarrow> switch cases_reg_LDR h = None"
  "odd (h div 16) \<or> even (h div 64) \<Longrightarrow> switch cases_reg_STRB h = None"
  "even (h div 16) \<or> even (h div 64) \<Longrightarrow> switch cases_reg_LDRB h = None"
  by (rule switch_none [where Q = "\<lambda>h. even (h div 16) \<and> even (h div 64)"], simp add: cases_reg_STR_def, simp)
    (rule switch_none [where Q = "\<lambda>h. odd (h div 16) \<and> even (h div 64)"], simp add: cases_reg_LDR_def, simp,
     rule switch_none [where Q = "\<lambda>h. even (h div 16) \<and> odd (h div 64)"], simp add: cases_reg_STRB_def, simp,
     rule switch_none [where Q = "\<lambda>h. odd (h div 16) \<and> odd (h div 64)"], simp add: cases_reg_LDRB_def, simp)

lemma reg_run:
  "even (h div 16) \<Longrightarrow> even (h div 64) \<Longrightarrow> switch cases_reg h = switch cases_reg_STR h"
  "odd (h div 16) \<Longrightarrow> even (h div 64) \<Longrightarrow> switch cases_reg h = switch cases_reg_LDR h"
  "even (h div 16) \<Longrightarrow> odd (h div 64) \<Longrightarrow> switch cases_reg h = switch cases_reg_STRB h"
  "odd (h div 16) \<Longrightarrow> odd (h div 64) \<Longrightarrow> switch cases_reg h = switch cases_reg_LDRB h"
  by (simp_all add: cases_reg_def switch_append reg_runs split: option.splits)

lemmas reg_lookup = reg_run cases_reg_STR_def cases_reg_LDR_def cases_reg_STRB_def cases_reg_LDRB_def single_n_def abits_def single_ref_def
  reg_str_0 reg_str_1 reg_str_2 reg_str_3 reg_strb_0 reg_strb_1 reg_strb_2 reg_strb_3 reg_ldr_0 reg_ldr_1 reg_ldr_2 reg_ldr_3 reg_ldrb_0 reg_ldrb_1 reg_ldrb_2 reg_ldrb_3

lemma even_nibble:
  assumes "l < (16 :: nat)" "even l"
  obtains "l = 0" | "l = 2" | "l = 4" | "l = 6" | "l = 8" | "l = 10" | "l = 12" | "l = 14"
proof -
  have "l = 0 \<or> l = 2 \<or> l = 4 \<or> l = 6 \<or> l = 8 \<or> l = 10 \<or> l = 12 \<or> l = 14"
    using assms by presburger
  then show thesis using that by blast
qed

lemma found_reg_lo:
  assumes "l < 16" "even l" "n < 16"
  shows "\<exists>f. switch cases_reg (0x600 + 16 * n + l) = Some f
    \<and> (\<forall>opcode s. f b opcode s = single_n False n (off_shift (l div 2 mod 4) opcode) b opcode s)"
  by (rule even_nibble [OF assms(1,2)]; simp only:; rule upto_16 [OF assms(3)])
    (simp_all add: reg_lookup post_index_W [where W = True])

lemma found_reg_hi:
  assumes "l < 16" "even l" "n < 16"
  shows "\<exists>f. switch cases_reg (0x600 + 16 * (16 + n) + l) = Some f
    \<and> (\<forall>opcode s. f b opcode s = single_n False (16 + n) (off_shift (l div 2 mod 4) opcode) b opcode s)"
  by (rule even_nibble [OF assms(1,2)]; simp only:; rule upto_16 [OF assms(3)]) (simp_all add: reg_lookup)

lemma class_01_hash:
  assumes "\<not> bit opcode 27" "bit opcode 26"
  defines "k \<equiv> unat opcode"
  shows "opcode_hash opcode = 0x400 + 0x200 * of_bool (bit opcode 25) + 16 * (k div 2 ^ 20 mod 32) + k div 16 mod 16"
proof -
  define m where "m = k div 2 ^ 20"
  have e: "k div 2 ^ 27 = m div 128" "k div 2 ^ 26 = m div 64" "k div 2 ^ 25 = m div 32"
    by (simp_all add: m_def div_mult2_eq [symmetric])
  have "even (m div 128)" "odd (m div 64)"
    using assms(1,2) unfolding bit_odd_unat k_def [symmetric] e by simp_all
  then have "m div 128 mod 2 = 0" "m div 64 mod 2 = 1" by (simp_all add: odd_iff_mod_2_eq_one)
  moreover have "m div 32 mod 2 = of_bool (bit opcode 25)"
    unfolding bit_odd_unat k_def [symmetric] e by (simp add: mod_2_eq_odd)
  moreover have "m mod 256 = 32 * (m div 32 mod 8) + m mod 32" using mod_mult2_eq [of m 32 8] by simp
  moreover have "m div 32 mod 8 = 2 * (m div 64 mod 4) + m div 32 mod 2"
    using mod_mult2_eq [of "m div 32" 2 4] by (simp add: div_mult2_eq [symmetric])
  moreover have "m div 64 mod 4 = 2 * (m div 128 mod 2) + m div 64 mod 2"
    using mod_mult2_eq [of "m div 64" 2 2] by (simp add: div_mult2_eq [symmetric])
  ultimately have "m mod 256 = 64 + 32 * of_bool (bit opcode 25) + m mod 32" by linarith
  then show ?thesis
    unfolding opcode_hash_nat k_def [symmetric] m_def [symmetric] by simp
qed

lemma abits_opcode:
  fixes opcode :: u32
  shows "abits (unat opcode div 2 ^ 20 mod 32) = (bit opcode 24, bit opcode 23, bit opcode 22, bit opcode 21, bit opcode 20)"
proof -
  define m where "m = unat opcode div 2 ^ 20"
  have "odd (m mod 32 div 2 ^ j) \<longleftrightarrow> odd (m div 2 ^ j)" if "j < 5" for j
  proof -
    have "bit (take_bit 5 m) j \<longleftrightarrow> bit m j" using that by (simp add: bit_take_bit_iff)
    then show ?thesis unfolding bit_iff_odd take_bit_eq_mod by simp
  qed
  from this [of 0] this [of 1] this [of 2] this [of 3] this [of 4] show ?thesis
    unfolding abits_def bit_odd_unat m_def by (simp add: div_mult2_eq [symmetric])
qed

lemma macro_range:
  assumes "BASE \<le> 0x1f0"
  shows "labels_in 0 0x400 (LOGICAL_DATA_OPCODE OPC OPC2 BASE)"
    "labels_in 0 0x400 (LOGICAL_DATA_OPCODE_WITHOUT_base OPD OPD2 BASE)"
    "labels_in 0 0x400 (ARITHMETIC_DATA_OPCODE OPE OPE2 BASE)"
  using assms by (auto simp: labels_in_def data_macros)

lemma labels_in_append: "labels_in lo hi (xs @ ys) \<longleftrightarrow> labels_in lo hi xs \<and> labels_in lo hi ys"
  by (auto simp: labels_in_def)

lemma labels_in_Cons:
  "labels_in lo hi ((labels, f) # cs) \<longleftrightarrow> (\<forall>l \<in> set labels. lo \<le> l \<and> l < hi) \<and> labels_in lo hi cs"
  "labels_in lo hi []"
  by (auto simp: labels_in_def)

lemma low_range: "labels_in 0 0x400 cases_low"
  unfolding cases_low_def
  by (auto simp: labels_in_append labels_in_Cons intro!: macro_range)

lemma switch_class_01:
  "0x400 \<le> h \<Longrightarrow> h < 0x600 \<Longrightarrow> switch arm_switch h = switch cases_imm h"
  "0x600 \<le> h \<Longrightarrow> h < 0x800 \<Longrightarrow> switch arm_switch h = switch cases_reg h"
  by (simp_all add: arm_switch_def switch_append switch_outside [OF low_range]
      switch_outside [OF ranges(1)] switch_outside [OF ranges(2)] switch_outside [OF ranges(3)]
      switch_outside [OF ranges(4)] split: option.splits)

text \<open>The transfer formats: class 01, an undefined encoding excluded.\<close>

definition is_transfer :: "u32 \<Rightarrow> bool" where
  "is_transfer opcode \<longleftrightarrow> \<not> bit opcode 27 \<and> bit opcode 26 \<and> \<not> (bit opcode 25 \<and> bit opcode 4)"

lemma found_imm:
  assumes "l < 16" "bus_keeps_regs b" "n < 32"
  shows "\<exists>f. switch cases_imm (0x400 + 16 * n + l) = Some f
    \<and> (\<forall>opcode s. f b opcode s = single_n True n (off_imm12 opcode) b opcode s)"
  by (rule upto_32 [OF assms(3)]) (use found_imm_lo [OF assms(1,2)] found_imm_hi [OF assms(1,2)] in auto)

lemma found_reg:
  assumes "l < 16" "even l" "n < 32"
  shows "\<exists>f. switch cases_reg (0x600 + 16 * n + l) = Some f
    \<and> (\<forall>opcode s. f b opcode s = single_n False n (off_shift (l div 2 mod 4) opcode) b opcode s)"
  by (rule upto_32 [OF assms(3)]) (use found_reg_lo [OF assms(1,2)] found_reg_hi [OF assms(1,2)] in auto)

lemma exec_transfer:
  fixes b :: "'p aica_bus"
  assumes "is_transfer opcode" "bus_keeps_regs b" "cond_res (drop_bit 28 opcode) (add_ticks 6 s)"
  shows "exec_opcode b opcode s = ref_single_transfer b opcode (add_ticks 6 s)"
proof -
  let ?n = "unat opcode div 2 ^ 20 mod 32" and ?l = "unat opcode div 16 mod 16"
  have n: "?n < 32" and l: "?l < 16" by simp_all
  have h: "opcode_hash opcode = 0x400 + 0x200 * of_bool (bit opcode 25) + 16 * ?n + ?l"
    using assms(1) by (intro class_01_hash) (auto simp: is_transfer_def)
  note s = single_n_def abits_opcode [simplified] ref_single_transfer_def Let_def
  show ?thesis
  proof (cases "bit opcode 25")
    case False
    then have h': "opcode_hash opcode = 0x400 + 16 * ?n + ?l" using h by simp
    have sw: "switch (arm_switch :: 'p case_list) (opcode_hash opcode) = switch cases_imm (opcode_hash opcode)"
      by (rule switch_class_01) (use n l in \<open>unfold h', linarith+\<close>)
    obtain g :: "'p arm_op" where "switch cases_imm (opcode_hash opcode) = Some g"
      "\<forall>opcode s. g b opcode s = single_n True ?n (off_imm12 opcode) b opcode s"
      using found_imm [OF l assms(2) n] unfolding h' by blast
    then show ?thesis using False assms(3) by (simp add: exec_opcode_def sw s)
  next
    case True
    then have h': "opcode_hash opcode = 0x600 + 16 * ?n + ?l" using h by simp
    have sw: "switch (arm_switch :: 'p case_list) (opcode_hash opcode) = switch cases_reg (opcode_hash opcode)"
      by (rule switch_class_01) (use n l in \<open>unfold h', linarith+\<close>)
    have "even ?l" using assms(1) True nibble_bits(1) [of opcode] by (simp add: is_transfer_def)
    then obtain g :: "'p arm_op" where "switch cases_reg (opcode_hash opcode) = Some g"
      "\<forall>opcode s. g b opcode s = single_n False ?n (off_shift (?l div 2 mod 4) opcode) b opcode s"
      using found_reg [OF l _ n, of b] unfolding h' by blast
    moreover have "?l div 2 mod 4 = shift_type opcode"
      by (simp add: shift_type_def unat_two_bits nibble_shift_type)
    ultimately show ?thesis using True assms(3) by (simp add: exec_opcode_def sw s)
  qed
qed

end
