(* ===== verification/Sh4_Intc.thy ===== *)
theory Sh4_Intc
  imports Prelude
begin

unbundle bit_operations_syntax

section \<open>The SH-4 interrupt controller\<close>

text \<open>
  Models \<^verbatim>\<open>core/hw/sh4/sh4_interrupts.{h,cpp}\<close>, \<^verbatim>\<open>core/hw/sh4/modules/intc.cpp\<close> and \<open>UpdateSR\<close> of
  \<^verbatim>\<open>core/hw/sh4/sh4_core_regs.cpp\<close>.  The static tables of the controller and the fields of \<open>Sh4cntx\<close> that it
  touches are one record; \<open>u16\<close> exception codes are kept as \<open>u32\<close>.  The controller keeps the 28 sources sorted
  by priority in a bit vector so that the interrupt to take is the highest set bit.  The lemmas relate this
  cache to the sources and their priority levels: every operation keeps the cache sorted, and the interrupt
  taken is the one of highest level.
\<close>

subsection \<open>State\<close>

record sh4_state =
  gpr :: "nat \<Rightarrow> u32"
  r_bank :: "nat \<Rightarrow> u32"
  ssr :: u32
  spc :: u32
  sgr :: u32
  vbr :: u32
  pc :: u32
  sr_status :: u32
  sr_T :: u32
  old_sr :: u32
  interrupt_pend :: u32
  CCN_INTEVT :: u32
  CCN_EXPEVT :: u32
  INTC_IPRA :: u16
  INTC_IPRB :: u16
  INTC_IPRC :: u16
  InterruptEnvId :: "nat \<Rightarrow> u32"
  InterruptBit :: "nat \<Rightarrow> u32"
  InterruptLevelBit :: "nat \<Rightarrow> u32"
  interrupt_vpend :: u32
  interrupt_vmask :: u32
  decoded_srimask :: u32

definition sr_BL :: "u32 \<Rightarrow> bool" where "sr_BL v = bit v 28"
definition sr_RB :: "u32 \<Rightarrow> bool" where "sr_RB v = bit v 29"
definition sr_MD :: "u32 \<Rightarrow> bool" where "sr_MD v = bit v 30"
definition sr_IMASK :: "u32 \<Rightarrow> nat" where "sr_IMASK v = unat (drop_bit 4 v AND 0xF)"

definition sr_getFull :: "sh4_state \<Rightarrow> u32" where
  "sr_getFull s = (sr_status s AND 0x700083F2) OR sr_T s"

subsection \<open>The table of interrupt sources\<close>

text \<open>The register a source takes its priority from: the fixed IRL priorities or one of the three IPR registers.\<close>

datatype prio_reg = IRLPriority | IPRA | IPRB | IPRC

record InterptSourceList_Entry =
  PrioReg :: prio_reg
  Shift :: nat
  IntEvnCode :: u32

definition int_source :: "prio_reg \<Rightarrow> nat \<Rightarrow> u32 \<Rightarrow> InterptSourceList_Entry" where
  "int_source p k c = \<lparr>PrioReg = p, Shift = 4 * k, IntEvnCode = c\<rparr>"

definition InterruptSourceList :: "InterptSourceList_Entry list" where
  "InterruptSourceList =
    [int_source IRLPriority 0 0x320, int_source IRLPriority 1 0x360, int_source IRLPriority 2 0x3a0,
     int_source IPRC 0 0x600,
     int_source IPRC 3 0x620,
     int_source IPRC 2 0x640, int_source IPRC 2 0x680, int_source IPRC 2 0x680, int_source IPRC 2 0x6a0, int_source IPRC 2 0x6c0,
     int_source IPRA 3 0x400, int_source IPRA 2 0x420, int_source IPRA 1 0x440, int_source IPRA 1 0x460,
     int_source IPRA 0 0x480, int_source IPRA 0 0x4a0, int_source IPRA 0 0x4c0,
     int_source IPRB 1 0x4e0, int_source IPRB 1 0x500, int_source IPRB 1 0x520, int_source IPRB 1 0x540,
     int_source IPRC 1 0x700, int_source IPRC 1 0x720, int_source IPRC 1 0x740, int_source IPRC 1 0x760,
     int_source IPRB 3 0x560,
     int_source IPRB 2 0x580, int_source IPRA 2 0x5a0]"

abbreviation (input) sh4_INT_ID_COUNT :: nat where "sh4_INT_ID_COUNT \<equiv> 28"

fun prio_value :: "sh4_state \<Rightarrow> prio_reg \<Rightarrow> u16" where
  "prio_value s IRLPriority = 0x0246"
| "prio_value s IPRA = INTC_IPRA s"
| "prio_value s IPRB = INTC_IPRB s"
| "prio_value s IPRC = INTC_IPRC s"

definition GetPrLvl :: "sh4_state \<Rightarrow> nat \<Rightarrow> nat" where
  "GetPrLvl s isrc =
     (let e = InterruptSourceList ! isrc
      in unat (drop_bit (Shift e) (prio_value s (PrioReg e)) AND 0xF))"

subsection \<open>Operations\<close>

definition recalc_pending_itrs :: "sh4_state \<Rightarrow> sh4_state" where
  "recalc_pending_itrs s =
     s\<lparr>interrupt_pend := interrupt_vpend s AND interrupt_vmask s AND decoded_srimask s\<rparr>"

definition SRdecode :: "sh4_state \<Rightarrow> sh4_state" where
  "SRdecode s =
     recalc_pending_itrs
       (if sr_BL (sr_status s) then s\<lparr>decoded_srimask := NOT 0xFFFFFFFF\<rparr>
        else s\<lparr>decoded_srimask := NOT (InterruptLevelBit s (sr_IMASK (sr_status s)))\<rparr>)"

text \<open>The body of the inner loop of \<open>SIIDRebuild\<close>, the outer loop's body and the function.\<close>

definition siid_src :: "u32 \<Rightarrow> u32 \<Rightarrow> nat \<Rightarrow> nat \<Rightarrow> nat \<times> sh4_state \<Rightarrow> nat \<times> sh4_state" where
  "siid_src vpend vmask ilevel isrc = (\<lambda>(cnt, s).
     if GetPrLvl s isrc = ilevel then
       (let s = s\<lparr>InterruptEnvId := (InterruptEnvId s)(cnt := IntEvnCode (InterruptSourceList ! isrc))\<rparr>;
            p = InterruptBit s isrc AND vpend;
            m = InterruptBit s isrc AND vmask;
            s = s\<lparr>InterruptBit := (InterruptBit s)(isrc := push_bit cnt 1)\<rparr>;
            s = (if p \<noteq> 0 then s\<lparr>interrupt_vpend := interrupt_vpend s OR InterruptBit s isrc\<rparr> else s);
            s = (if m \<noteq> 0 then s\<lparr>interrupt_vmask := interrupt_vmask s OR InterruptBit s isrc\<rparr> else s)
        in (cnt + 1, s))
     else (cnt, s))"

definition siid_level :: "u32 \<Rightarrow> u32 \<Rightarrow> nat \<Rightarrow> nat \<times> sh4_state \<Rightarrow> nat \<times> sh4_state" where
  "siid_level vpend vmask ilevel cs =
     (let (cnt, s) = fold (siid_src vpend vmask ilevel) [0..<sh4_INT_ID_COUNT] cs
      in (cnt, s\<lparr>InterruptLevelBit := (InterruptLevelBit s)(ilevel := push_bit cnt 1 - 1)\<rparr>))"

definition SIIDRebuild :: "sh4_state \<Rightarrow> sh4_state" where
  "SIIDRebuild s =
     (let vpend = interrupt_vpend s;
          vmask = interrupt_vmask s;
          s = s\<lparr>interrupt_vpend := 0, interrupt_vmask := 0\<rparr>;
          (cnt, s) = fold (siid_level vpend vmask) [0..<16] (0, s)
      in SRdecode s)"

definition SetInterruptPend :: "nat \<Rightarrow> sh4_state \<Rightarrow> sh4_state" where
  "SetInterruptPend intr s =
     recalc_pending_itrs (s\<lparr>interrupt_vpend := interrupt_vpend s OR InterruptBit s intr\<rparr>)"

definition ResetInterruptPend :: "nat \<Rightarrow> sh4_state \<Rightarrow> sh4_state" where
  "ResetInterruptPend intr s =
     recalc_pending_itrs (s\<lparr>interrupt_vpend := interrupt_vpend s AND NOT (InterruptBit s intr)\<rparr>)"

definition InterruptPend :: "nat \<Rightarrow> bool \<Rightarrow> sh4_state \<Rightarrow> sh4_state" where
  "InterruptPend intr v s = (if \<not> v then ResetInterruptPend intr s else SetInterruptPend intr s)"

definition SetInterruptMask :: "nat \<Rightarrow> sh4_state \<Rightarrow> sh4_state" where
  "SetInterruptMask intr s =
     recalc_pending_itrs (s\<lparr>interrupt_vmask := interrupt_vmask s OR InterruptBit s intr\<rparr>)"

definition ResetInterruptMask :: "nat \<Rightarrow> sh4_state \<Rightarrow> sh4_state" where
  "ResetInterruptMask intr s =
     recalc_pending_itrs (s\<lparr>interrupt_vmask := interrupt_vmask s AND NOT (InterruptBit s intr)\<rparr>)"

definition InterruptMask :: "nat \<Rightarrow> bool \<Rightarrow> sh4_state \<Rightarrow> sh4_state" where
  "InterruptMask intr v s = (if \<not> v then ResetInterruptMask intr s else SetInterruptMask intr s)"

definition ChangeGPR :: "sh4_state \<Rightarrow> sh4_state" where
  "ChangeGPR s = s\<lparr>gpr := (\<lambda>i. if i < 8 then r_bank s i else gpr s i), r_bank := (\<lambda>i. if i < 8 then gpr s i else r_bank s i)\<rparr>"

definition UpdateSR :: "sh4_state \<Rightarrow> sh4_state" where
  "UpdateSR s =
     (let s = (if sr_MD (sr_status s) then
                 (if sr_RB (old_sr s) \<noteq> sr_RB (sr_status s) then ChangeGPR s else s)
               else (if sr_RB (old_sr s) then ChangeGPR s else s));
          s = s\<lparr>old_sr := sr_status s\<rparr>;
          s = s\<lparr>old_sr := put_bit 29 (sr_RB (old_sr s) \<and> sr_MD (sr_status s)) (old_sr s)\<rparr>
      in SRdecode s)"

text \<open>What an accepted interrupt and an exception do alike, up to the program counter.\<close>

definition enter_handler :: "u32 \<Rightarrow> sh4_state \<Rightarrow> sh4_state" where
  "enter_handler epc s =
     (let s = s\<lparr>ssr := sr_getFull s, spc := epc, sgr := gpr s 15\<rparr>;
          s = s\<lparr>sr_status := put_bit 29 True (put_bit 30 True (put_bit 28 True (sr_status s)))\<rparr>
      in UpdateSR s)"

definition Do_Interrupt :: "u32 \<Rightarrow> sh4_state \<Rightarrow> sh4_state" where
  "Do_Interrupt intEvn s =
     (let s = enter_handler (pc s) (s\<lparr>CCN_INTEVT := intEvn\<rparr>)
      in s\<lparr>pc := vbr s + 0x600\<rparr>)"

text \<open>\<open>Do_Exception\<close> throws when exceptions are blocked.\<close>

definition Do_Exception :: "u32 \<Rightarrow> u32 \<Rightarrow> sh4_state \<Rightarrow> sh4_state option" where
  "Do_Exception epc expEvn s =
     (if sr_BL (sr_status s) then None
      else
        (let s = enter_handler epc (s\<lparr>CCN_EXPEVT := expEvn\<rparr>)
         in Some (s\<lparr>pc := vbr s + (if expEvn = 0x40 \<or> expEvn = 0x60 then 0x400 else 0x100)\<rparr>)))"

text \<open>\<open>bitscanrev\<close>: the index of the highest set bit.\<close>

fun bitscanrev_from :: "u32 \<Rightarrow> nat \<Rightarrow> nat" where
  "bitscanrev_from v 0 = 0"
| "bitscanrev_from v (Suc n) = (if bit v (Suc n) then Suc n else bitscanrev_from v n)"

definition bitscanrev :: "u32 \<Rightarrow> nat" where
  "bitscanrev v = bitscanrev_from v 31"

definition UpdateINTC :: "sh4_state \<Rightarrow> nat \<times> sh4_state" where
  "UpdateINTC s =
     (if interrupt_pend s = 0 then (0, s)
      else (1, Do_Interrupt (InterruptEnvId s (bitscanrev (interrupt_pend s))) s))"

definition interrupts_reset :: "sh4_state \<Rightarrow> sh4_state" where
  "interrupts_reset s =
     (let s = s\<lparr>interrupt_vpend := 0, interrupt_vmask := 0xFFFFFFFF, decoded_srimask := 0\<rparr>;
          s = s\<lparr>InterruptBit := (\<lambda>i. if i < sh4_INT_ID_COUNT then push_bit i 1 else InterruptBit s i)\<rparr>
      in SIIDRebuild s)"

definition write_INTC_IPRA :: "u16 \<Rightarrow> sh4_state \<Rightarrow> sh4_state" where
  "write_INTC_IPRA data s = (if INTC_IPRA s \<noteq> data then SIIDRebuild (s\<lparr>INTC_IPRA := data\<rparr>) else s)"

definition write_INTC_IPRB :: "u16 \<Rightarrow> sh4_state \<Rightarrow> sh4_state" where
  "write_INTC_IPRB data s = (if INTC_IPRB s \<noteq> data then SIIDRebuild (s\<lparr>INTC_IPRB := data\<rparr>) else s)"

definition write_INTC_IPRC :: "u16 \<Rightarrow> sh4_state \<Rightarrow> sh4_state" where
  "write_INTC_IPRC data s = (if INTC_IPRC s \<noteq> data then SIIDRebuild (s\<lparr>INTC_IPRC := data\<rparr>) else s)"

subsection \<open>The sources in the order of the cache\<close>

definition order_upto :: "sh4_state \<Rightarrow> nat \<Rightarrow> nat list" where
  "order_upto s l = concat (map (\<lambda>l. filter (\<lambda>i. GetPrLvl s i = l) [0..<28]) [0..<l])"

abbreviation int_order :: "sh4_state \<Rightarrow> nat list" where
  "int_order s \<equiv> order_upto s 16"

lemma level_bound: "GetPrLvl s i < 16"
proof -
  have "unat (x AND 0xF) < 16" for x :: u16
    using word_and_le1 [of x "0xF"] by (simp add: word_le_nat_alt and.commute)
  then show ?thesis by (simp add: GetPrLvl_def Let_def)
qed

lemma order_upto_Suc: "order_upto s (Suc l) = order_upto s l @ filter (\<lambda>i. GetPrLvl s i = l) [0..<28]"
  by (simp add: order_upto_def)

lemma set_order_upto: "set (order_upto s l) = {i. i < 28 \<and> GetPrLvl s i < l}"
  by (auto simp: order_upto_def)

lemma sorted_order_upto:
  "sorted_wrt (\<lambda>a b. GetPrLvl s a < GetPrLvl s b \<or> GetPrLvl s a = GetPrLvl s b \<and> a < b) (order_upto s l)"
proof (induction l)
  case (Suc l)
  have "sorted_wrt (<) (filter (\<lambda>i. GetPrLvl s i = l) [0..<28])"
    by (rule sorted_wrt_filter) simp
  then have "sorted_wrt (\<lambda>a b. GetPrLvl s a < GetPrLvl s b \<or> GetPrLvl s a = GetPrLvl s b \<and> a < b)
      (filter (\<lambda>i. GetPrLvl s i = l) [0..<28])"
    by (rule sorted_wrt_mono_rel [rotated]) auto
  then show ?case
    using Suc by (auto simp: order_upto_Suc sorted_wrt_append set_order_upto)
qed (simp add: order_upto_def)

lemma distinct_order_upto: "distinct (order_upto s l)"
proof (induction l)
  case (Suc l)
  then show ?case by (auto simp: order_upto_Suc set_order_upto)
qed (simp add: order_upto_def)

lemma length_order: "length (int_order s) = 28"
proof -
  have "set (int_order s) = {0..<28}" by (auto simp: set_order_upto level_bound)
  then show ?thesis using distinct_card [OF distinct_order_upto, of s 16] by simp
qed

lemma order_nth_less: "k < 28 \<Longrightarrow> int_order s ! k < 28"
  using nth_mem [of k "int_order s"] by (simp add: length_order set_order_upto)

lemma order_covers: "i < 28 \<Longrightarrow> \<exists>k < 28. int_order s ! k = i"
  using in_set_conv_nth [of i "int_order s"] by (simp add: length_order set_order_upto level_bound)

lemma order_nth_inj: "j < 28 \<Longrightarrow> k < 28 \<Longrightarrow> int_order s ! j = int_order s ! k \<longleftrightarrow> j = k"
  by (simp add: nth_eq_iff_index_eq distinct_order_upto length_order)

lemma order_prefix: "l \<le> 16 \<Longrightarrow> \<exists>ys. int_order s = order_upto s l @ ys \<and> (\<forall>i \<in> set ys. l \<le> GetPrLvl s i)"
proof (induction rule: inc_induct)
  case (step n)
  then obtain ys where "int_order s = order_upto s (Suc n) @ ys" "\<forall>i \<in> set ys. Suc n \<le> GetPrLvl s i" by blast
  then show ?case by (intro exI [of _ "filter (\<lambda>i. GetPrLvl s i = n) [0..<28] @ ys"]) (auto simp: order_upto_Suc)
qed simp

lemma below_level: "l < 16 \<Longrightarrow> k < 28 \<Longrightarrow> k < length (order_upto s (Suc l)) \<longleftrightarrow> GetPrLvl s (int_order s ! k) \<le> l"
proof -
  assume "l < 16" "k < 28"
  then obtain ys where ys: "int_order s = order_upto s (Suc l) @ ys" "\<forall>i \<in> set ys. Suc l \<le> GetPrLvl s i"
    using order_prefix [of "Suc l" s] by auto
  show ?thesis
  proof (cases "k < length (order_upto s (Suc l))")
    case True
    then have "order_upto s (Suc l) ! k \<in> set (order_upto s (Suc l))" by simp
    then show ?thesis using True by (simp add: ys(1) nth_append set_order_upto)
  next
    case False
    then have "ys ! (k - length (order_upto s (Suc l))) \<in> set ys"
      using length_order [of s] \<open>k < 28\<close> ys(1) by auto
    then show ?thesis using False ys(2) by (auto simp: ys(1) nth_append)
  qed
qed

subsection \<open>The rebuild loop\<close>

text \<open>What the loop has done after the sources \<open>xs\<close>, started in \<open>s0\<close>.\<close>

definition siid_done :: "u32 \<Rightarrow> u32 \<Rightarrow> sh4_state \<Rightarrow> nat list \<Rightarrow> nat \<times> sh4_state \<Rightarrow> bool" where
  "siid_done vpend vmask s0 xs = (\<lambda>(cnt, s).
     cnt = length xs \<and> GetPrLvl s = GetPrLvl s0 \<and> sr_status s = sr_status s0
     \<and> (\<forall>k < length xs. InterruptBit s (xs ! k) = push_bit k 1
          \<and> InterruptEnvId s k = IntEvnCode (InterruptSourceList ! (xs ! k)))
     \<and> (\<forall>i. i \<notin> set xs \<longrightarrow> InterruptBit s i = InterruptBit s0 i)
     \<and> (\<forall>k. bit (interrupt_vpend s) k \<longleftrightarrow> k < length xs \<and> k < 32 \<and> InterruptBit s0 (xs ! k) AND vpend \<noteq> 0)
     \<and> (\<forall>k. bit (interrupt_vmask s) k \<longleftrightarrow> k < length xs \<and> k < 32 \<and> InterruptBit s0 (xs ! k) AND vmask \<noteq> 0))"

lemma level_frame [simp]:
  "GetPrLvl (s\<lparr>InterruptEnvId := e\<rparr>) = GetPrLvl s" "GetPrLvl (s\<lparr>InterruptBit := b\<rparr>) = GetPrLvl s"
  "GetPrLvl (s\<lparr>InterruptLevelBit := b\<rparr>) = GetPrLvl s" "GetPrLvl (s\<lparr>interrupt_vpend := v\<rparr>) = GetPrLvl s"
  "GetPrLvl (s\<lparr>interrupt_vmask := v\<rparr>) = GetPrLvl s" "GetPrLvl (s\<lparr>decoded_srimask := v\<rparr>) = GetPrLvl s"
  "GetPrLvl (s\<lparr>interrupt_pend := v\<rparr>) = GetPrLvl s" "GetPrLvl (s\<lparr>sr_status := v\<rparr>) = GetPrLvl s"
  "GetPrLvl (s\<lparr>old_sr := v\<rparr>) = GetPrLvl s" "GetPrLvl (s\<lparr>pc := v\<rparr>) = GetPrLvl s"
proof -
  have "GetPrLvl s = GetPrLvl t" if "INTC_IPRA s = INTC_IPRA t" "INTC_IPRB s = INTC_IPRB t" "INTC_IPRC s = INTC_IPRC t" for t
  proof -
    have "prio_value s p = prio_value t p" for p using that by (cases p) auto
    then show ?thesis by (simp add: GetPrLvl_def fun_eq_iff)
  qed
  note f = this
  show "GetPrLvl (s\<lparr>InterruptEnvId := e\<rparr>) = GetPrLvl s" by (rule f [symmetric]) simp_all
  show "GetPrLvl (s\<lparr>InterruptBit := b\<rparr>) = GetPrLvl s" by (rule f [symmetric]) simp_all
  show "GetPrLvl (s\<lparr>InterruptLevelBit := b\<rparr>) = GetPrLvl s" by (rule f [symmetric]) simp_all
  show "GetPrLvl (s\<lparr>interrupt_vpend := v\<rparr>) = GetPrLvl s" by (rule f [symmetric]) simp_all
  show "GetPrLvl (s\<lparr>interrupt_vmask := v\<rparr>) = GetPrLvl s" by (rule f [symmetric]) simp_all
  show "GetPrLvl (s\<lparr>decoded_srimask := v\<rparr>) = GetPrLvl s" by (rule f [symmetric]) simp_all
  show "GetPrLvl (s\<lparr>interrupt_pend := v\<rparr>) = GetPrLvl s" by (rule f [symmetric]) simp_all
  show "GetPrLvl (s\<lparr>sr_status := v\<rparr>) = GetPrLvl s" by (rule f [symmetric]) simp_all
  show "GetPrLvl (s\<lparr>old_sr := v\<rparr>) = GetPrLvl s" by (rule f [symmetric]) simp_all
  show "GetPrLvl (s\<lparr>pc := v\<rparr>) = GetPrLvl s" by (rule f [symmetric]) simp_all
qed

lemma siid_src_fields:
  assumes "GetPrLvl s i = l" "s' = snd (siid_src vpend vmask l i (cnt, s))"
  shows "fst (siid_src vpend vmask l i (cnt, s)) = Suc cnt" "GetPrLvl s' = GetPrLvl s" "sr_status s' = sr_status s"
    "InterruptBit s' = (InterruptBit s)(i := push_bit cnt 1)"
    "InterruptEnvId s' = (InterruptEnvId s)(cnt := IntEvnCode (InterruptSourceList ! i))"
    "interrupt_vpend s' = (if InterruptBit s i AND vpend \<noteq> 0 then interrupt_vpend s OR push_bit cnt 1 else interrupt_vpend s)"
    "interrupt_vmask s' = (if InterruptBit s i AND vmask \<noteq> 0 then interrupt_vmask s OR push_bit cnt 1 else interrupt_vmask s)"
    "InterruptLevelBit s' = InterruptLevelBit s"
  using assms by (simp_all add: siid_src_def Let_def)

lemma grow_bits:
  fixes v :: u32
  assumes "\<forall>k. bit v k \<longleftrightarrow> k < n \<and> k < 32 \<and> P k" "n < 32"
  shows "bit (if P n then v OR push_bit n 1 else v) k \<longleftrightarrow> k < Suc n \<and> k < 32 \<and> P k"
proof (cases "k = n")
  case True
  then show ?thesis using assms(1) [rule_format, of n] assms(2) by (simp add: bit_or_iff bit_exp_iff)
next
  case False
  moreover have "\<not> bit (push_bit n (1 :: u32)) k" using False by (simp add: bit_exp_iff)
  ultimately show ?thesis using assms(1) [rule_format, of k] by (simp add: bit_or_iff less_Suc_eq)
qed

lemma siid_src_taken:
  assumes d: "siid_done vpend vmask s0 xs (cnt, s)" and l: "GetPrLvl s0 i = l" and i: "i \<notin> set xs" and n: "length xs < 28"
  shows "siid_done vpend vmask s0 (xs @ [i]) (siid_src vpend vmask l i (cnt, s))"
proof -
  have cnt: "cnt = length xs" and lv: "GetPrLvl s = GetPrLvl s0" and sr: "sr_status s = sr_status s0"
    and old: "\<forall>k < length xs. InterruptBit s (xs ! k) = push_bit k 1
          \<and> InterruptEnvId s k = IntEvnCode (InterruptSourceList ! (xs ! k))"
    and rest: "\<forall>i. i \<notin> set xs \<longrightarrow> InterruptBit s i = InterruptBit s0 i"
    and p: "\<forall>k. bit (interrupt_vpend s) k \<longleftrightarrow> k < length xs \<and> k < 32 \<and> InterruptBit s0 ((xs @ [i]) ! k) AND vpend \<noteq> 0"
    and m: "\<forall>k. bit (interrupt_vmask s) k \<longleftrightarrow> k < length xs \<and> k < 32 \<and> InterruptBit s0 ((xs @ [i]) ! k) AND vmask \<noteq> 0"
    using d by (auto simp: siid_done_def nth_append)
  let ?c = "siid_src vpend vmask l i (length xs, s)"
  have l': "GetPrLvl s i = l" using l lv by simp
  note f = siid_src_fields [OF l' refl, of vpend vmask "length xs"]
  have b: "InterruptBit s i = InterruptBit s0 ((xs @ [i]) ! length xs)" using rest i by simp
  have n': "length xs < 32" using n by simp
  have "bit (interrupt_vpend (snd ?c)) k \<longleftrightarrow> k < Suc (length xs) \<and> k < 32 \<and> InterruptBit s0 ((xs @ [i]) ! k) AND vpend \<noteq> 0"
    "bit (interrupt_vmask (snd ?c)) k \<longleftrightarrow> k < Suc (length xs) \<and> k < 32 \<and> InterruptBit s0 ((xs @ [i]) ! k) AND vmask \<noteq> 0" for k
    unfolding f(6,7) b using grow_bits [OF p n', of k] grow_bits [OF m n', of k] by simp_all
  moreover have "InterruptBit (snd ?c) ((xs @ [i]) ! k) = push_bit k 1
        \<and> InterruptEnvId (snd ?c) k = IntEvnCode (InterruptSourceList ! ((xs @ [i]) ! k))" if "k < Suc (length xs)" for k
    using that old i by (auto simp: f nth_append less_Suc_eq)
  ultimately show ?thesis
    using rest by (simp add: siid_done_def split_beta f lv sr cnt)
qed

lemma siid_src_skipped:
  assumes "siid_done vpend vmask s0 xs cs" "GetPrLvl s0 i \<noteq> l"
  shows "siid_src vpend vmask l i cs = cs"
  using assms by (auto simp: siid_done_def siid_src_def split: prod.splits)

lemma siid_sources:
  assumes "siid_done vpend vmask s0 xs cs" "distinct (xs @ filter (\<lambda>i. GetPrLvl s0 i = l) is)"
    "length (xs @ filter (\<lambda>i. GetPrLvl s0 i = l) is) \<le> 28"
  shows "siid_done vpend vmask s0 (xs @ filter (\<lambda>i. GetPrLvl s0 i = l) is) (fold (siid_src vpend vmask l) is cs)"
  using assms
proof (induction "is" arbitrary: xs cs)
  case (Cons i "is")
  show ?case
  proof (cases "GetPrLvl s0 i = l")
    case True
    have "siid_done vpend vmask s0 (xs @ [i]) (siid_src vpend vmask l i cs)"
      using siid_src_taken [of vpend vmask s0 xs "fst cs" "snd cs" i l] Cons.prems True by simp
    from Cons.IH [OF this] True Cons.prems show ?thesis by simp
  next
    case False
    then show ?thesis using Cons siid_src_skipped [OF Cons.prems(1) False] by simp
  qed
qed simp

text \<open>The state of the outer loop after the levels below \<open>l\<close>.\<close>

definition levels_done :: "sh4_state \<Rightarrow> nat \<Rightarrow> sh4_state \<Rightarrow> bool" where
  "levels_done s0 l s \<longleftrightarrow> (\<forall>j < l. InterruptLevelBit s j = push_bit (length (order_upto s0 (Suc j))) 1 - 1)"

lemma siid_src_level_bits: "InterruptLevelBit (snd (siid_src vpend vmask l i cs)) = InterruptLevelBit (snd cs)"
  by (simp add: siid_src_def Let_def split_beta)

lemma fold_src_level_bits: "InterruptLevelBit (snd (fold (siid_src vpend vmask l) xs cs)) = InterruptLevelBit (snd cs)"
  by (induction xs arbitrary: cs) (simp_all add: siid_src_level_bits)

lemma length_order_upto: "l \<le> 16 \<Longrightarrow> length (order_upto s l) \<le> 28"
  using order_prefix [of l s] length_order [of s] by (metis le_add1 length_append)

lemma siid_levels:
  assumes "l \<le> 16" "siid_done vpend vmask s0 [] (0, s0)"
  shows "siid_done vpend vmask s0 (order_upto s0 l) (fold (siid_level vpend vmask) [0..<l] (0, s0))
    \<and> levels_done s0 l (snd (fold (siid_level vpend vmask) [0..<l] (0, s0)))"
  using assms(1)
proof (induction l)
  case 0
  then show ?case using assms(2) by (simp add: order_upto_def levels_done_def)
next
  case (Suc l)
  let ?cs = "fold (siid_level vpend vmask) [0..<l] (0, s0)"
  let ?ds = "fold (siid_src vpend vmask l) [0..<28] ?cs"
  have IH: "siid_done vpend vmask s0 (order_upto s0 l) ?cs" "levels_done s0 l (snd ?cs)" using Suc by simp_all
  have d: "siid_done vpend vmask s0 (order_upto s0 (Suc l)) ?ds"
    using siid_sources [OF IH(1), of l "[0..<28]"] distinct_order_upto [of s0 "Suc l"]
      length_order_upto [OF Suc.prems, of s0]
    unfolding order_upto_Suc by blast
  have step: "fold (siid_level vpend vmask) [0..<Suc l] (0, s0)
      = (fst ?ds, (snd ?ds)\<lparr>InterruptLevelBit := (InterruptLevelBit (snd ?ds))(l := push_bit (fst ?ds) 1 - 1)\<rparr>)"
    by (simp add: siid_level_def split_beta)
  have "fst ?ds = length (order_upto s0 (Suc l))" using d by (simp add: siid_done_def split_beta)
  then have "levels_done s0 (Suc l) ((snd ?ds)\<lparr>InterruptLevelBit := (InterruptLevelBit (snd ?ds))(l := push_bit (fst ?ds) 1 - 1)\<rparr>)"
    using IH(2) by (auto simp: levels_done_def fold_src_level_bits less_Suc_eq)
  moreover have "siid_done vpend vmask s0 (order_upto s0 (Suc l))
      (fst ?ds, (snd ?ds)\<lparr>InterruptLevelBit := (InterruptLevelBit (snd ?ds))(l := push_bit (fst ?ds) 1 - 1)\<rparr>)"
    using d by (simp add: siid_done_def split_beta)
  ultimately show ?case unfolding step by simp
qed

subsection \<open>The cache invariant\<close>

definition pending :: "sh4_state \<Rightarrow> nat \<Rightarrow> bool" where
  "pending s i \<longleftrightarrow> InterruptBit s i AND interrupt_vpend s \<noteq> 0"

definition unmasked :: "sh4_state \<Rightarrow> nat \<Rightarrow> bool" where
  "unmasked s i \<longleftrightarrow> InterruptBit s i AND interrupt_vmask s \<noteq> 0"

definition accepted :: "sh4_state \<Rightarrow> nat \<Rightarrow> bool" where
  "accepted s i \<longleftrightarrow> i < 28 \<and> pending s i \<and> unmasked s i
     \<and> \<not> sr_BL (sr_status s) \<and> sr_IMASK (sr_status s) < GetPrLvl s i"

definition cache_ok :: "sh4_state \<Rightarrow> bool" where
  "cache_ok s \<longleftrightarrow>
     (\<forall>k < 28. InterruptBit s (int_order s ! k) = push_bit k 1
        \<and> InterruptEnvId s k = IntEvnCode (InterruptSourceList ! (int_order s ! k)))
     \<and> levels_done s 16 s
     \<and> (\<forall>k. bit (interrupt_vpend s) k \<longrightarrow> k < 28)"

definition mask_ok :: "sh4_state \<Rightarrow> bool" where
  "mask_ok s \<longleftrightarrow>
     decoded_srimask s = (if sr_BL (sr_status s) then 0 else NOT (InterruptLevelBit s (sr_IMASK (sr_status s))))
     \<and> interrupt_pend s = interrupt_vpend s AND interrupt_vmask s AND decoded_srimask s"

definition intc_ok :: "sh4_state \<Rightarrow> bool" where
  "intc_ok s \<longleftrightarrow> cache_ok s \<and> mask_ok s"

lemma lowest_bits: "n \<le> 28 \<Longrightarrow> bit (2 ^ n - 1 :: u32) k \<longleftrightarrow> k < n"
proof -
  assume "n \<le> 28"
  have "(2 ^ n - 1 :: u32) = mask n" by (simp add: mask_eq_decr_exp)
  then show ?thesis using \<open>n \<le> 28\<close> by (auto simp: bit_mask_iff)
qed

lemma imask_bound: "sr_IMASK v < 16"
  using word_and_le1 [of "drop_bit 4 v" "0xF"] by (simp add: sr_IMASK_def word_le_nat_alt)

lemma bit_pick: "k < 32 \<Longrightarrow> 2 ^ k AND v \<noteq> 0 \<longleftrightarrow> bit (v :: u32) k"
  by (simp add: and_exp_eq_0_iff_not_bit and.commute)

text \<open>The vector of pending interrupts, bit by bit.\<close>

lemma pend_bit:
  assumes "intc_ok s"
  shows "bit (interrupt_pend s) k \<longleftrightarrow> k < 28 \<and> accepted s (int_order s ! k)"
proof (cases "k < 28")
  case False
  then show ?thesis using assms by (auto simp: intc_ok_def mask_ok_def cache_ok_def bit_and_iff)
next
  case True
  have ib: "InterruptBit s (int_order s ! k) = push_bit k 1" using assms True by (simp add: intc_ok_def cache_ok_def)
  let ?l = "sr_IMASK (sr_status s)"
  have lb: "InterruptLevelBit s ?l = push_bit (length (order_upto s (Suc ?l))) 1 - 1"
    using assms imask_bound by (simp add: intc_ok_def cache_ok_def levels_done_def)
  have "bit (decoded_srimask s) k \<longleftrightarrow> \<not> sr_BL (sr_status s) \<and> ?l < GetPrLvl s (int_order s ! k)"
  proof (cases "sr_BL (sr_status s)")
    case False
    have "bit (decoded_srimask s) k \<longleftrightarrow> \<not> k < length (order_upto s (Suc ?l))"
      using assms False True length_order_upto [of "Suc ?l" s] imask_bound [of "sr_status s"]
      by (simp add: intc_ok_def mask_ok_def bit_not_iff lb lowest_bits)
    then show ?thesis using below_level [OF imask_bound True] False by (simp add: not_le)
  qed (use assms in \<open>simp add: intc_ok_def mask_ok_def\<close>)
  moreover have "interrupt_pend s = interrupt_vpend s AND interrupt_vmask s AND decoded_srimask s"
    using assms by (simp add: intc_ok_def mask_ok_def)
  ultimately show ?thesis
    using True order_nth_less [OF True, of s] by (auto simp: accepted_def pending_def unmasked_def ib bit_pick bit_and_iff)
qed

lemma bitscanrev_from_max: "bit v k \<Longrightarrow> k \<le> n \<Longrightarrow> bit v (bitscanrev_from v n) \<and> k \<le> bitscanrev_from v n"
  by (induction n) (auto simp: le_Suc_eq)

lemma bitscanrev_max: "bit v k \<Longrightarrow> bit v (bitscanrev v) \<and> k \<le> bitscanrev v"
  unfolding bitscanrev_def using bitscanrev_from_max [of v k 31] bit_imp_le_length [of v k] by fastforce

lemma interrupt_of_highest:
  assumes ok: "intc_ok s" and i: "accepted s i"
    and top: "\<And>j. accepted s j \<Longrightarrow> GetPrLvl s j < GetPrLvl s i \<or> GetPrLvl s j = GetPrLvl s i \<and> j \<le> i"
  shows "interrupt_pend s \<noteq> 0 \<and> InterruptEnvId s (bitscanrev (interrupt_pend s)) = IntEvnCode (InterruptSourceList ! i)"
proof -
  obtain k where k: "k < 28" "int_order s ! k = i" using order_covers i by (auto simp: accepted_def)
  then have bk: "bit (interrupt_pend s) k" using pend_bit [OF ok] i by simp
  let ?K = "bitscanrev (interrupt_pend s)"
  have K: "bit (interrupt_pend s) ?K" "k \<le> ?K" using bitscanrev_max [OF bk] by auto
  then have aK: "?K < 28" "accepted s (int_order s ! ?K)" using pend_bit [OF ok] by simp_all
  have "k = ?K"
  proof (rule ccontr)
    assume "k \<noteq> ?K"
    then have "k < ?K" using K by simp
    then have "GetPrLvl s i < GetPrLvl s (int_order s ! ?K) \<or> GetPrLvl s i = GetPrLvl s (int_order s ! ?K) \<and> i < int_order s ! ?K"
      using sorted_order_upto [of s 16] aK(1) k by (auto simp: sorted_wrt_iff_nth_less length_order)
    then show False using top [OF aK(2)] by auto
  qed
  then show ?thesis using ok k bk by (auto simp: intc_ok_def cache_ok_def)
qed

subsection \<open>Every operation keeps the cache\<close>

lemma rebuild_ok:
  assumes "\<forall>i < 28. \<exists>k < 32. InterruptBit s i = push_bit k 1"
  shows "intc_ok (SIIDRebuild s)"
    and "i < 28 \<Longrightarrow> pending (SIIDRebuild s) i = pending s i"
    and "i < 28 \<Longrightarrow> unmasked (SIIDRebuild s) i = unmasked s i"
    and "GetPrLvl (SIIDRebuild s) = GetPrLvl s" "sr_status (SIIDRebuild s) = sr_status s"
proof -
  let ?s0 = "s\<lparr>interrupt_vpend := 0, interrupt_vmask := 0\<rparr>"
  let ?f = "fold (siid_level (interrupt_vpend s) (interrupt_vmask s)) [0..<16] (0, ?s0)"
  let ?t = "snd ?f"
  have e: "SIIDRebuild s = SRdecode ?t" by (simp add: SIIDRebuild_def Let_def split_beta)
  have "siid_done (interrupt_vpend s) (interrupt_vmask s) ?s0 [] (0, ?s0)" by (simp add: siid_done_def)
  from siid_levels [OF le_refl this]
  have d: "siid_done (interrupt_vpend s) (interrupt_vmask s) ?s0 (int_order ?s0) ?f" and l: "levels_done ?s0 16 ?t" by simp_all
  have lv: "GetPrLvl ?t = GetPrLvl s" using d by (simp add: siid_done_def split_beta)
  have o: "order_upto ?s0 = order_upto s" "order_upto (SRdecode ?t) = order_upto s"
    by (simp_all add: fun_eq_iff order_upto_def SRdecode_def recalc_pending_itrs_def lv)
  have fr: "InterruptBit (SRdecode ?t) = InterruptBit ?t" "InterruptEnvId (SRdecode ?t) = InterruptEnvId ?t"
    "InterruptLevelBit (SRdecode ?t) = InterruptLevelBit ?t" "interrupt_vpend (SRdecode ?t) = interrupt_vpend ?t"
    "interrupt_vmask (SRdecode ?t) = interrupt_vmask ?t" "sr_status (SRdecode ?t) = sr_status ?t"
    by (simp_all add: SRdecode_def recalc_pending_itrs_def)
  have "cache_ok (SRdecode ?t)"
    using d l by (auto simp: cache_ok_def siid_done_def split_beta fr o levels_done_def length_order)
  moreover have "mask_ok (SRdecode ?t)" by (simp add: mask_ok_def SRdecode_def recalc_pending_itrs_def)
  ultimately show "intc_ok (SIIDRebuild s)" unfolding e intc_ok_def by simp
  show "GetPrLvl (SIIDRebuild s) = GetPrLvl s" "sr_status (SIIDRebuild s) = sr_status s"
    using d by (simp_all add: e siid_done_def split_beta SRdecode_def recalc_pending_itrs_def)
  assume "i < 28"
  then obtain k where k: "k < 28" "int_order s ! k = i" using order_covers by blast
  have "InterruptBit ?t i = push_bit k 1" "bit (interrupt_vpend ?t) k \<longleftrightarrow> InterruptBit s i AND interrupt_vpend s \<noteq> 0"
    "bit (interrupt_vmask ?t) k \<longleftrightarrow> InterruptBit s i AND interrupt_vmask s \<noteq> 0"
    using d k by (auto simp: siid_done_def split_beta o length_order)
  then show "pending (SIIDRebuild s) i = pending s i" "unmasked (SIIDRebuild s) i = unmasked s i"
    using k by (simp_all add: e fr pending_def unmasked_def bit_pick)
qed

text \<open>The pending and the enabled sources: what the controller looks like from outside.\<close>

definition pend_set :: "sh4_state \<Rightarrow> nat set" where "pend_set s = {i. i < 28 \<and> pending s i}"
definition mask_set :: "sh4_state \<Rightarrow> nat set" where "mask_set s = {i. i < 28 \<and> unmasked s i}"

lemma cache_bit: "cache_ok s \<Longrightarrow> i < 28 \<Longrightarrow> \<exists>k < 28. int_order s ! k = i \<and> InterruptBit s i = 2 ^ k"
  using order_covers [of i s] by (auto simp: cache_ok_def)

lemma exp_inj: "m < 32 \<Longrightarrow> n < 32 \<Longrightarrow> (2 ^ m :: u32) = 2 ^ n \<longleftrightarrow> m = n"
  using bit_exp_iff [of m n, where 'a = u32] bit_exp_iff [of n n, where 'a = u32] by auto

lemma cache_bit_inj:
  "cache_ok s \<Longrightarrow> i < 28 \<Longrightarrow> j < 28 \<Longrightarrow> k < 28 \<Longrightarrow> InterruptBit s i = 2 ^ k \<Longrightarrow> InterruptBit s j = 2 ^ k \<Longrightarrow> i = j"
proof -
  assume a: "cache_ok s" "i < 28" "j < 28" "k < 28" "InterruptBit s i = 2 ^ k" "InterruptBit s j = 2 ^ k"
  obtain m n where mn: "m < 28" "int_order s ! m = i" "InterruptBit s i = 2 ^ m" "n < 28" "int_order s ! n = j" "InterruptBit s j = 2 ^ n"
    using cache_bit [OF a(1,2)] cache_bit [OF a(1,3)] by blast
  then show ?thesis using a(5,6) exp_inj [of m n] by simp
qed

lemma cache_ok_frame:
  assumes "cache_ok s" "GetPrLvl t = GetPrLvl s" "InterruptBit t = InterruptBit s" "InterruptEnvId t = InterruptEnvId s"
    "InterruptLevelBit t = InterruptLevelBit s" "\<forall>k. bit (interrupt_vpend t) k \<longrightarrow> k < 28"
  shows "cache_ok t"
proof -
  have "order_upto t = order_upto s" using assms(2) by (simp add: fun_eq_iff order_upto_def)
  then show ?thesis using assms by (simp add: cache_ok_def levels_done_def)
qed

lemma recalc_frame [simp]:
  "GetPrLvl (recalc_pending_itrs s) = GetPrLvl s" "InterruptBit (recalc_pending_itrs s) = InterruptBit s"
  "InterruptEnvId (recalc_pending_itrs s) = InterruptEnvId s" "InterruptLevelBit (recalc_pending_itrs s) = InterruptLevelBit s"
  "interrupt_vpend (recalc_pending_itrs s) = interrupt_vpend s" "interrupt_vmask (recalc_pending_itrs s) = interrupt_vmask s"
  "decoded_srimask (recalc_pending_itrs s) = decoded_srimask s" "sr_status (recalc_pending_itrs s) = sr_status s"
  "interrupt_pend (recalc_pending_itrs s) = interrupt_vpend s AND interrupt_vmask s AND decoded_srimask s"
  "cache_ok (recalc_pending_itrs s) = cache_ok s"
proof -
  show l: "GetPrLvl (recalc_pending_itrs s) = GetPrLvl s" "InterruptBit (recalc_pending_itrs s) = InterruptBit s"
    "InterruptEnvId (recalc_pending_itrs s) = InterruptEnvId s" "InterruptLevelBit (recalc_pending_itrs s) = InterruptLevelBit s"
    "interrupt_vpend (recalc_pending_itrs s) = interrupt_vpend s" "interrupt_vmask (recalc_pending_itrs s) = interrupt_vmask s"
    "decoded_srimask (recalc_pending_itrs s) = decoded_srimask s" "sr_status (recalc_pending_itrs s) = sr_status s"
    "interrupt_pend (recalc_pending_itrs s) = interrupt_vpend s AND interrupt_vmask s AND decoded_srimask s"
    by (simp_all add: recalc_pending_itrs_def)
  show "cache_ok (recalc_pending_itrs s) = cache_ok s"
    by (auto simp: cache_ok_def levels_done_def l order_upto_def)
qed

lemma cache_ok_upd [simp]:
  "cache_ok s \<Longrightarrow> cache_ok (s\<lparr>decoded_srimask := v\<rparr>)" "cache_ok s \<Longrightarrow> cache_ok (s\<lparr>interrupt_vmask := v\<rparr>)"
  "cache_ok s \<Longrightarrow> \<forall>k. bit v k \<longrightarrow> k < 28 \<Longrightarrow> cache_ok (s\<lparr>interrupt_vpend := v\<rparr>)"
  by (rule cache_ok_frame [of s]; simp add: cache_ok_def)+

lemma SRdecode_ok: "cache_ok s \<Longrightarrow> intc_ok (SRdecode s)"
  by (simp add: intc_ok_def mask_ok_def SRdecode_def)

lemma vector_update_ok:
  assumes "intc_ok s"
  shows "\<forall>k. bit v k \<longrightarrow> k < 28 \<Longrightarrow> intc_ok (recalc_pending_itrs (s\<lparr>interrupt_vpend := v\<rparr>))"
    and "intc_ok (recalc_pending_itrs (s\<lparr>interrupt_vmask := w\<rparr>))"
  using assms by (simp_all add: intc_ok_def mask_ok_def)

lemma pend_ops_ok [inv_intros]:
  assumes "intc_ok s" "i < 28"
  shows "intc_ok (InterruptPend i v s)" "intc_ok (InterruptMask i v s)"
proof -
  obtain k where k: "k < 28" "InterruptBit s i = 2 ^ k" using cache_bit assms by (auto simp: intc_ok_def)
  have "\<forall>k. bit (interrupt_vpend s) k \<longrightarrow> k < 28" using assms by (simp add: intc_ok_def cache_ok_def)
  then have b: "\<forall>k. bit (interrupt_vpend s OR InterruptBit s i) k \<longrightarrow> k < 28"
    "\<forall>k. bit (interrupt_vpend s AND NOT (InterruptBit s i)) k \<longrightarrow> k < 28"
    using k by (auto simp: bit_or_iff bit_and_iff bit_exp_iff)
  show "intc_ok (InterruptPend i v s)"
    unfolding InterruptPend_def SetInterruptPend_def ResetInterruptPend_def
    using vector_update_ok(1) [OF assms(1) b(1)] vector_update_ok(1) [OF assms(1) b(2)] by simp
  show "intc_ok (InterruptMask i v s)"
    unfolding InterruptMask_def SetInterruptMask_def ResetInterruptMask_def
    using vector_update_ok(2) [OF assms(1)] by simp
qed

lemma pend_ops_sets:
  assumes "intc_ok s" "i < 28"
  shows "pend_set (InterruptPend i v s) = (if v then insert i (pend_set s) else pend_set s - {i})"
    "mask_set (InterruptPend i v s) = mask_set s"
    "mask_set (InterruptMask i v s) = (if v then insert i (mask_set s) else mask_set s - {i})"
    "pend_set (InterruptMask i v s) = pend_set s"
proof -
  have c: "cache_ok s" using assms by (simp add: intc_ok_def)
  obtain k where k: "k < 28" "InterruptBit s i = 2 ^ k" using cache_bit [OF c assms(2)] by blast
  have u: "InterruptBit s j AND (w OR 2 ^ k) \<noteq> 0 \<longleftrightarrow> j = i \<or> InterruptBit s j AND w \<noteq> 0"
    "InterruptBit s j AND (w AND NOT (2 ^ k)) \<noteq> 0 \<longleftrightarrow> j \<noteq> i \<and> InterruptBit s j AND w \<noteq> 0" if j: "j < 28" for j and w :: u32
  proof -
    obtain n where n: "n < 28" "InterruptBit s j = 2 ^ n" using cache_bit [OF c j] by blast
    have "n = k \<longleftrightarrow> j = i" using cache_bit_inj [OF c j assms(2), of n] n k exp_inj [of k n] by auto
    then show "InterruptBit s j AND (w OR 2 ^ k) \<noteq> 0 \<longleftrightarrow> j = i \<or> InterruptBit s j AND w \<noteq> 0"
      "InterruptBit s j AND (w AND NOT (2 ^ k)) \<noteq> 0 \<longleftrightarrow> j \<noteq> i \<and> InterruptBit s j AND w \<noteq> 0"
      using n k by (auto simp: bit_pick bit_or_iff bit_and_iff bit_not_iff bit_exp_iff)
  qed
  note d = pend_set_def mask_set_def pending_def unmasked_def InterruptPend_def SetInterruptPend_def ResetInterruptPend_def
    InterruptMask_def SetInterruptMask_def ResetInterruptMask_def
  show "pend_set (InterruptPend i v s) = (if v then insert i (pend_set s) else pend_set s - {i})"
    using u assms(2) k by (auto simp: d)
  show "mask_set (InterruptMask i v s) = (if v then insert i (mask_set s) else mask_set s - {i})"
    using u assms(2) k by (auto simp: d)
  show "mask_set (InterruptPend i v s) = mask_set s" "pend_set (InterruptMask i v s) = pend_set s"
    by (simp_all add: d)
qed

lemma cache_bits_are_powers: "cache_ok s \<Longrightarrow> \<forall>i < 28. \<exists>k < 32. InterruptBit s i = push_bit k 1"
proof (intro allI impI)
  fix i :: nat assume "cache_ok s" "i < 28"
  from cache_bit [OF this] obtain k where "k < 28" "InterruptBit s i = 2 ^ k" by blast
  then show "\<exists>k < 32. InterruptBit s i = push_bit k 1" by (intro exI [of _ k]) simp
qed

lemma iprs_ok [inv_intros]:
  assumes "intc_ok s"
  shows "intc_ok (write_INTC_IPRA d s)" "intc_ok (write_INTC_IPRB d s)" "intc_ok (write_INTC_IPRC d s)"
    "pend_set (write_INTC_IPRA d s) = pend_set s" "mask_set (write_INTC_IPRA d s) = mask_set s"
    "pend_set (write_INTC_IPRB d s) = pend_set s" "mask_set (write_INTC_IPRB d s) = mask_set s"
    "pend_set (write_INTC_IPRC d s) = pend_set s" "mask_set (write_INTC_IPRC d s) = mask_set s"
proof -
  have r: "intc_ok (SIIDRebuild t) \<and> pend_set (SIIDRebuild t) = pend_set s \<and> mask_set (SIIDRebuild t) = mask_set s"
    if "InterruptBit t = InterruptBit s" "interrupt_vpend t = interrupt_vpend s" "interrupt_vmask t = interrupt_vmask s" for t
    using rebuild_ok [of t] cache_bits_are_powers [of s] assms that
    by (auto simp: intc_ok_def pend_set_def mask_set_def pending_def unmasked_def)
  show "intc_ok (write_INTC_IPRA d s)" "pend_set (write_INTC_IPRA d s) = pend_set s" "mask_set (write_INTC_IPRA d s) = mask_set s"
    using r [of "s\<lparr>INTC_IPRA := d\<rparr>"] assms by (simp_all add: write_INTC_IPRA_def)
  show "intc_ok (write_INTC_IPRB d s)" "pend_set (write_INTC_IPRB d s) = pend_set s" "mask_set (write_INTC_IPRB d s) = mask_set s"
    using r [of "s\<lparr>INTC_IPRB := d\<rparr>"] assms by (simp_all add: write_INTC_IPRB_def)
  show "intc_ok (write_INTC_IPRC d s)" "pend_set (write_INTC_IPRC d s) = pend_set s" "mask_set (write_INTC_IPRC d s) = mask_set s"
    using r [of "s\<lparr>INTC_IPRC := d\<rparr>"] assms by (simp_all add: write_INTC_IPRC_def)
qed

lemma reset_ok [inv_intros]:
  "intc_ok (interrupts_reset s)" "pend_set (interrupts_reset s) = {}" "mask_set (interrupts_reset s) = {i. i < 28}"
  "GetPrLvl (interrupts_reset s) = GetPrLvl s" "sr_status (interrupts_reset s) = sr_status s"
proof -
  let ?t = "s\<lparr>interrupt_vpend := 0, interrupt_vmask := 0xFFFFFFFF, decoded_srimask := 0,
    InterruptBit := (\<lambda>i. if i < 28 then push_bit i 1 else InterruptBit s i)\<rparr>"
  have e: "interrupts_reset s = SIIDRebuild ?t" by (simp add: interrupts_reset_def Let_def cong: if_cong)
  have p: "\<forall>i < 28. \<exists>k < 32. InterruptBit ?t i = push_bit k 1"
  proof (intro allI impI)
    fix i :: nat assume "i < 28"
    then show "\<exists>k < 32. InterruptBit ?t i = push_bit k 1" by (intro exI [of _ i]) simp
  qed
  show "intc_ok (interrupts_reset s)" unfolding e by (rule rebuild_ok(1) [OF p])
  show "GetPrLvl (interrupts_reset s) = GetPrLvl s" "sr_status (interrupts_reset s) = sr_status s"
    unfolding e using rebuild_ok(4,5) [OF p] by simp_all
  have all: "2 ^ i AND (0xFFFFFFFF :: u32) \<noteq> 0" if "i < 28" for i
  proof -
    have eq: "(0xFFFFFFFF :: u32) = - 1" by simp
    show ?thesis unfolding eq using that bit_pick [of i "- 1"] by simp
  qed
  show "pend_set (interrupts_reset s) = {}" "mask_set (interrupts_reset s) = {i. i < 28}"
    using rebuild_ok(2,3) [OF p] all unfolding e pend_set_def mask_set_def
    by (auto simp: pending_def unmasked_def)
qed

text \<open>Changes of the context outside the controller, and of the status register through \<open>UpdateSR\<close>.\<close>

lemma cache_ok_context [simp]:
  "cache_ok (s\<lparr>sr_status := v\<rparr>) = cache_ok s" "cache_ok (s\<lparr>old_sr := v\<rparr>) = cache_ok s"
  "cache_ok (s\<lparr>gpr := g\<rparr>) = cache_ok s" "cache_ok (s\<lparr>r_bank := g\<rparr>) = cache_ok s"
  "cache_ok (s\<lparr>ssr := v\<rparr>) = cache_ok s" "cache_ok (s\<lparr>spc := v\<rparr>) = cache_ok s" "cache_ok (s\<lparr>sgr := v\<rparr>) = cache_ok s"
  "cache_ok (s\<lparr>vbr := v\<rparr>) = cache_ok s" "cache_ok (s\<lparr>pc := v\<rparr>) = cache_ok s" "cache_ok (s\<lparr>sr_T := v\<rparr>) = cache_ok s"
  "cache_ok (s\<lparr>CCN_INTEVT := v\<rparr>) = cache_ok s" "cache_ok (s\<lparr>CCN_EXPEVT := v\<rparr>) = cache_ok s"
proof -
  have "cache_ok t = cache_ok s"
    if "INTC_IPRA t = INTC_IPRA s" "INTC_IPRB t = INTC_IPRB s" "INTC_IPRC t = INTC_IPRC s" "InterruptBit t = InterruptBit s"
      "InterruptEnvId t = InterruptEnvId s" "InterruptLevelBit t = InterruptLevelBit s" "interrupt_vpend t = interrupt_vpend s" for t
  proof -
    have "prio_value t p = prio_value s p" for p using that by (cases p) auto
    then have "GetPrLvl t = GetPrLvl s" by (simp add: GetPrLvl_def fun_eq_iff)
    then have "order_upto t = order_upto s" by (simp add: fun_eq_iff order_upto_def)
    then show ?thesis using that by (simp add: cache_ok_def levels_done_def)
  qed
  note f = this
  show "cache_ok (s\<lparr>sr_status := v\<rparr>) = cache_ok s" "cache_ok (s\<lparr>old_sr := v\<rparr>) = cache_ok s"
    "cache_ok (s\<lparr>gpr := g\<rparr>) = cache_ok s" "cache_ok (s\<lparr>r_bank := g\<rparr>) = cache_ok s"
    "cache_ok (s\<lparr>ssr := v\<rparr>) = cache_ok s" "cache_ok (s\<lparr>spc := v\<rparr>) = cache_ok s" "cache_ok (s\<lparr>sgr := v\<rparr>) = cache_ok s"
    "cache_ok (s\<lparr>vbr := v\<rparr>) = cache_ok s" "cache_ok (s\<lparr>pc := v\<rparr>) = cache_ok s" "cache_ok (s\<lparr>sr_T := v\<rparr>) = cache_ok s"
    "cache_ok (s\<lparr>CCN_INTEVT := v\<rparr>) = cache_ok s" "cache_ok (s\<lparr>CCN_EXPEVT := v\<rparr>) = cache_ok s"
    by (rule f; simp)+
qed

lemma mask_ok_context [simp]:
  "mask_ok (s\<lparr>gpr := g\<rparr>) = mask_ok s" "mask_ok (s\<lparr>vbr := v\<rparr>) = mask_ok s" "mask_ok (s\<lparr>pc := v\<rparr>) = mask_ok s"
  "mask_ok (s\<lparr>ssr := v\<rparr>) = mask_ok s" "mask_ok (s\<lparr>spc := v\<rparr>) = mask_ok s" "mask_ok (s\<lparr>sr_T := v\<rparr>) = mask_ok s"
  by (simp_all add: mask_ok_def)

lemma UpdateSR_ok [inv_intros]: "cache_ok s \<Longrightarrow> intc_ok (UpdateSR s)"
  by (simp add: UpdateSR_def Let_def SRdecode_ok ChangeGPR_def)

lemma enter_handler_ok: "cache_ok s \<Longrightarrow> intc_ok (enter_handler e s)"
  by (simp add: enter_handler_def Let_def UpdateSR_ok)

lemma handlers_ok [inv_intros]:
  assumes "intc_ok s"
  shows "intc_ok (Do_Interrupt ev s)" "Do_Exception epc ev s = Some t \<Longrightarrow> intc_ok t"
proof -
  have "cache_ok s" using assms by (simp add: intc_ok_def)
  then have e: "intc_ok (enter_handler e (s\<lparr>CCN_INTEVT := v\<rparr>))" "intc_ok (enter_handler e (s\<lparr>CCN_EXPEVT := v\<rparr>))" for e v
    by (simp_all add: enter_handler_ok)
  show "intc_ok (Do_Interrupt ev s)"
    using e(1) [of "pc s" ev] by (simp add: Do_Interrupt_def Let_def intc_ok_def)
  show "Do_Exception epc ev s = Some t \<Longrightarrow> intc_ok t"
    using e(2) [of epc ev] by (auto simp: Do_Exception_def Let_def intc_ok_def split: if_splits)
qed

subsection \<open>Reachable states\<close>

text \<open>
  Everything that drives the controller: lines raised and lowered, sources enabled and disabled, priority
  registers written, the status register changed (\<open>UpdateSR\<close> follows every change), interrupts taken, exceptions,
  and instructions that change the other registers of the context.
\<close>

inductive cpu_step :: "sh4_state \<Rightarrow> sh4_state \<Rightarrow> bool" where
  mask: "i < 28 \<Longrightarrow> cpu_step s (InterruptMask i v s)"
| ipra: "cpu_step s (write_INTC_IPRA d s)"
| iprb: "cpu_step s (write_INTC_IPRB d s)"
| iprc: "cpu_step s (write_INTC_IPRC d s)"
| status: "cpu_step s (UpdateSR (s\<lparr>sr_status := v, sr_T := t\<rparr>))"
| interrupt: "cpu_step s (snd (UpdateINTC s))"
| exception: "Do_Exception epc ev s = Some t \<Longrightarrow> cpu_step s t"
| context_change: "cpu_step s (s\<lparr>gpr := g, vbr := v, pc := p, ssr := a, spc := b, sr_T := t\<rparr>)"

inductive intc_step :: "sh4_state \<Rightarrow> sh4_state \<Rightarrow> bool" where
  line: "i < 28 \<Longrightarrow> intc_step s (InterruptPend i v s)"
| cpu: "cpu_step s t \<Longrightarrow> intc_step s t"

inductive intc_reachable :: "sh4_state \<Rightarrow> bool" where
  reset: "intc_reachable (interrupts_reset s)"
| step: "intc_reachable s \<Longrightarrow> intc_step s t \<Longrightarrow> intc_reachable t"

lemma sr_pend_set:
  "pend_set (UpdateSR s) = pend_set s" "pend_set (Do_Interrupt ev s) = pend_set s"
  "Do_Exception epc ev s = Some t \<Longrightarrow> pend_set t = pend_set s"
proof -
  have u: "pend_set (UpdateSR s) = pend_set s" for s
    by (simp add: pend_set_def pending_def UpdateSR_def Let_def SRdecode_def ChangeGPR_def)
  show "pend_set (UpdateSR s) = pend_set s" by (rule u)
  have f: "pend_set (x\<lparr>pc := p\<rparr>) = pend_set x" for x p by (simp add: pend_set_def pending_def)
  have h: "pend_set (enter_handler e x) = pend_set x" for e x
    unfolding enter_handler_def Let_def u by (simp add: pend_set_def pending_def)
  have c: "pend_set (x\<lparr>CCN_INTEVT := v\<rparr>) = pend_set x" "pend_set (x\<lparr>CCN_EXPEVT := v\<rparr>) = pend_set x" for x v
    by (simp_all add: pend_set_def pending_def)
  show "pend_set (Do_Interrupt ev s) = pend_set s" by (simp add: Do_Interrupt_def Let_def f h c)
  show "Do_Exception epc ev s = Some t \<Longrightarrow> pend_set t = pend_set s"
    by (auto simp: Do_Exception_def Let_def f h c split: if_splits)
qed

lemma cpu_step_keeps: "cpu_step s t \<Longrightarrow> intc_ok s \<Longrightarrow> intc_ok t \<and> pend_set t = pend_set s"
proof (induction rule: cpu_step.induct)
  case (mask i s v)
  then show ?case by (simp add: pend_ops_ok pend_ops_sets)
next
  case (status s t v)
  have "intc_ok (UpdateSR (s\<lparr>sr_status := v, sr_T := t\<rparr>))"
    using status by (intro UpdateSR_ok) (simp add: intc_ok_def)
  then show ?case by (simp add: sr_pend_set) (simp add: pend_set_def pending_def)
next
  case (interrupt s)
  then show ?case by (simp add: UpdateINTC_def handlers_ok sr_pend_set)
next
  case (exception epc ev s t)
  then show ?case using handlers_ok(2) sr_pend_set(3) by blast
next
  case (context_change s g v p a b t)
  then show ?case by (simp add: intc_ok_def pend_set_def pending_def)
qed (simp_all add: iprs_ok)

lemma step_keeps_ok: "intc_step s t \<Longrightarrow> intc_ok s \<Longrightarrow> intc_ok t"
  by (induction rule: intc_step.induct) (simp_all add: pend_ops_ok cpu_step_keeps)

lemma reachable_ok: "intc_reachable s \<Longrightarrow> intc_ok s"
  by (induction rule: intc_reachable.induct) (auto intro: reset_ok step_keeps_ok)

subsection \<open>The interrupt that is taken\<close>

text \<open>The reference: scan the sources in table order and keep the last one of the highest level.\<close>

definition scan_step :: "sh4_state \<Rightarrow> nat \<Rightarrow> nat option \<Rightarrow> nat option" where
  "scan_step s i best =
     (if accepted s i \<and> (case best of None \<Rightarrow> True | Some b \<Rightarrow> GetPrLvl s b \<le> GetPrLvl s i) then Some i else best)"

definition highest_source :: "sh4_state \<Rightarrow> nat option" where
  "highest_source s = fold (scan_step s) [0..<28] None"

lemma scan_inv:
  defines "best s n i \<equiv> accepted s i \<and> i < n \<and> (\<forall>j < n. accepted s j \<longrightarrow> GetPrLvl s j < GetPrLvl s i \<or> GetPrLvl s j = GetPrLvl s i \<and> j \<le> i)"
  shows "case fold (scan_step s) [0..<n] None of None \<Rightarrow> (\<forall>j < n. \<not> accepted s j) | Some i \<Rightarrow> best s n i"
proof (induction n)
  case (Suc n)
  have grow: "case b of None \<Rightarrow> (\<forall>j < n. \<not> accepted s j) | Some i \<Rightarrow> best s n i \<Longrightarrow>
    case scan_step s n b of None \<Rightarrow> (\<forall>j < Suc n. \<not> accepted s j) | Some i \<Rightarrow> best s (Suc n) i" for b
    by (cases b) (auto simp: scan_step_def best_def less_Suc_eq)
  from grow [OF Suc] show ?case by simp
qed simp

lemma accepted_sets:
  "accepted s i \<longleftrightarrow> i \<in> pend_set s \<and> i \<in> mask_set s \<and> \<not> sr_BL (sr_status s) \<and> sr_IMASK (sr_status s) < GetPrLvl s i"
  by (auto simp: accepted_def pend_set_def mask_set_def)

lemma accepted_interrupts: "intc_ok s \<Longrightarrow> accepted s i \<Longrightarrow> fst (UpdateINTC s) = 1"
  using pend_bit [of s] order_covers [of i s] by (fastforce simp: UpdateINTC_def accepted_def)

lemma highest_source_single:
  assumes "\<And>i. accepted s i \<longleftrightarrow> i = k"
  shows "highest_source s = Some k"
proof -
  have "k < 28" using assms [of k] by (simp add: accepted_def)
  then show ?thesis
    using scan_inv [where s = s and n = 28] assms unfolding highest_source_def by (cases "fold (scan_step s) [0..<28] None") auto
qed

lemma UpdateINTC_highest:
  assumes "intc_ok s"
  shows "UpdateINTC s = (case highest_source s of None \<Rightarrow> (0, s)
     | Some i \<Rightarrow> (1, Do_Interrupt (IntEvnCode (InterruptSourceList ! i)) s))"
proof (cases "highest_source s")
  case None
  then have "\<not> accepted s j" for j
    using scan_inv [where s = s and n = 28] by (auto simp: highest_source_def accepted_def)
  then have "interrupt_pend s = 0" using pend_bit [OF assms] by (simp add: bit_eq_iff)
  then show ?thesis using None by (simp add: UpdateINTC_def)
next
  case (Some i)
  then have "accepted s i" "\<And>j. accepted s j \<Longrightarrow> GetPrLvl s j < GetPrLvl s i \<or> GetPrLvl s j = GetPrLvl s i \<and> j \<le> i"
    using scan_inv [where s = s and n = 28] by (auto simp: highest_source_def accepted_def)
  from interrupt_of_highest [OF assms this] Some show ?thesis by (simp add: UpdateINTC_def)
qed

subsection \<open>Taking an interrupt\<close>

text \<open>\<open>old_sr\<close> records which bank is in place: \<open>UpdateSR\<close> keeps it in step with the status register.\<close>

definition bank_ok :: "sh4_state \<Rightarrow> bool" where
  "bank_ok s \<longleftrightarrow> sr_RB (old_sr s) = (sr_RB (sr_status s) \<and> sr_MD (sr_status s))"

lemma UpdateSR_bank_ok: "bank_ok (UpdateSR s)"
  by (auto simp: bank_ok_def UpdateSR_def Let_def SRdecode_def recalc_pending_itrs_def ChangeGPR_def sr_RB_def sr_MD_def)

lemma UpdateSR_fields [simp]:
  "ssr (UpdateSR s) = ssr s" "spc (UpdateSR s) = spc s" "sgr (UpdateSR s) = sgr s" "vbr (UpdateSR s) = vbr s"
  "pc (UpdateSR s) = pc s" "sr_status (UpdateSR s) = sr_status s" "CCN_INTEVT (UpdateSR s) = CCN_INTEVT s"
  "CCN_EXPEVT (UpdateSR s) = CCN_EXPEVT s"
  by (simp_all add: UpdateSR_def Let_def SRdecode_def recalc_pending_itrs_def ChangeGPR_def)

lemma no_bits [simp]: "(- 0x100000000 :: u32) = 0"
  by simp

lemma UpdateSR_blocked: "sr_BL (sr_status s) \<Longrightarrow> interrupt_pend (UpdateSR s) = 0"
  by (simp add: UpdateSR_def Let_def SRdecode_def recalc_pending_itrs_def ChangeGPR_def)

lemma UpdateSR_gpr:
  "gpr (UpdateSR s) i = (if i < 8 \<and> sr_RB (old_sr s) \<noteq> (sr_MD (sr_status s) \<and> sr_RB (sr_status s)) then r_bank s i else gpr s i)"
  by (auto simp: UpdateSR_def Let_def SRdecode_def recalc_pending_itrs_def ChangeGPR_def)

lemma status_bits [simp]:
  "sr_BL (put_bit 29 a (put_bit 30 b (put_bit 28 c v))) = c" "sr_MD (put_bit 29 a (put_bit 30 b (put_bit 28 c v))) = b"
  "sr_RB (put_bit 29 a (put_bit 30 b (put_bit 28 c v))) = a"
  by (simp_all add: sr_BL_def sr_MD_def sr_RB_def)

text \<open>A state to start examples from.\<close>

definition sh4_zero :: sh4_state where
  "sh4_zero = \<lparr>gpr = (\<lambda>_. 0), r_bank = (\<lambda>_. 0), ssr = 0, spc = 0, sgr = 0, vbr = 0, pc = 0, sr_status = 0, sr_T = 0,
     old_sr = 0, interrupt_pend = 0, CCN_INTEVT = 0, CCN_EXPEVT = 0, INTC_IPRA = 0, INTC_IPRB = 0, INTC_IPRC = 0,
     InterruptEnvId = (\<lambda>_. 0), InterruptBit = (\<lambda>_. 0), InterruptLevelBit = (\<lambda>_. 0),
     interrupt_vpend = 0, interrupt_vmask = 0, decoded_srimask = 0\<rparr>"

subsection \<open>Properties\<close>

text \<open>
  Property C15: in every state the controller can reach, the cache is sorted: each source owns the bit of its rank in
  the order of level and table position, the event table and the level masks agree with that order, and the vector of
  pending interrupts is exactly the pending sources that are enabled and allowed by the status register.
\<close>

theorem intc_cache_invariant:
  assumes "intc_reachable s"
  shows "intc_ok s \<and> (\<forall>k. bit (interrupt_pend s) k \<longleftrightarrow> k < 28 \<and> accepted s (int_order s ! k))"
  using reachable_ok [OF assms] pend_bit by blast

theorem intc_cache_invariant_witness:
  "intc_ok (InterruptPend 10 True (interrupts_reset sh4_zero))"
proof -
  have "intc_reachable (InterruptPend 10 True (interrupts_reset sh4_zero))"
    by (rule intc_reachable.step [OF intc_reachable.reset intc_step.line]) simp
  from intc_cache_invariant [OF this] show ?thesis by simp
qed

text \<open>
  Property C14: \<open>UpdateINTC\<close>, which looks only at the highest set bit of the cached vector, takes the same interrupt as
  a scan of all sources for the highest level (the later source in the table when levels are equal), and does nothing
  when no source is acceptable.
\<close>

theorem intc_takes_highest:
  assumes "intc_reachable s"
  shows "UpdateINTC s = (case highest_source s of None \<Rightarrow> (0, s)
     | Some i \<Rightarrow> (1, Do_Interrupt (IntEvnCode (InterruptSourceList ! i)) s))"
  by (rule UpdateINTC_highest [OF reachable_ok [OF assms]])

theorem intc_takes_highest_witness:
  "CCN_INTEVT (snd (UpdateINTC (InterruptPend 10 True (interrupts_reset (sh4_zero\<lparr>INTC_IPRA := 0xF000\<rparr>))))) = 0x400"
proof -
  let ?z = "sh4_zero\<lparr>INTC_IPRA := 0xF000\<rparr>"
  let ?s = "InterruptPend 10 True (interrupts_reset ?z)"
  have reach: "intc_reachable ?s" by (rule intc_reachable.step [OF intc_reachable.reset intc_step.line]) simp
  have "pend_set ?s = {10}" "mask_set ?s = {i. i < 28}"
    using pend_ops_sets(1,2) [OF reset_ok(1), of 10 True ?z] by (simp_all add: reset_ok)
  moreover have "sr_status ?s = 0" "GetPrLvl ?s = GetPrLvl ?z"
    by (simp_all add: InterruptPend_def SetInterruptPend_def reset_ok) (simp add: sh4_zero_def)
  moreover have "GetPrLvl ?z 10 = 15" by code_simp
  ultimately have a: "accepted ?s i \<longleftrightarrow> i = 10" for i
    unfolding accepted_sets by (auto simp: sr_BL_def sr_IMASK_def)
  have "highest_source ?s = Some 10"
    by (rule highest_source_single) (simp add: a)
  then have "UpdateINTC ?s = (1, Do_Interrupt (IntEvnCode (InterruptSourceList ! 10)) ?s)"
    using intc_takes_highest [OF reach] by simp
  moreover have "CCN_INTEVT (Do_Interrupt (IntEvnCode (InterruptSourceList ! 10)) ?s) = 0x400"
    by (simp add: Do_Interrupt_def enter_handler_def Let_def InterruptSourceList_def int_source_def)
  ultimately show ?thesis by simp
qed

text \<open>
  Property C16: seen from outside, the controller is a set of pending and a set of enabled sources.  Raising and lowering
  a line changes one element of the first, enabling and disabling one element of the second, and a write to a priority
  register, which renumbers every bit of the cache, changes neither.
\<close>

theorem intc_refines_sets:
  assumes "intc_reachable s" "i < 28"
  shows "pend_set (InterruptPend i v s) = (if v then insert i (pend_set s) else pend_set s - {i})
    \<and> mask_set (InterruptPend i v s) = mask_set s
    \<and> mask_set (InterruptMask i v s) = (if v then insert i (mask_set s) else mask_set s - {i})
    \<and> pend_set (InterruptMask i v s) = pend_set s
    \<and> pend_set (write_INTC_IPRA d s) = pend_set s \<and> mask_set (write_INTC_IPRA d s) = mask_set s
    \<and> pend_set (write_INTC_IPRB d s) = pend_set s \<and> mask_set (write_INTC_IPRB d s) = mask_set s
    \<and> pend_set (write_INTC_IPRC d s) = pend_set s \<and> mask_set (write_INTC_IPRC d s) = mask_set s"
  using pend_ops_sets [OF reachable_ok [OF assms(1)] assms(2), of v] iprs_ok(4-9) [OF reachable_ok [OF assms(1)], of d] by simp

theorem intc_refines_sets_witness:
  "pend_set (InterruptPend 5 True (interrupts_reset sh4_zero)) = insert 5 (pend_set (interrupts_reset sh4_zero))"
  using intc_refines_sets [OF intc_reachable.reset, of 5 True sh4_zero] by simp

text \<open>
  Property C27: taking an interrupt saves status, program counter and stack pointer, enters privileged mode with register
  bank 1 in place and interrupts blocked, and goes to the interrupt vector; no interrupt is pending afterwards.
\<close>

theorem interrupt_entry:
  assumes "bank_ok s"
  shows "let t = Do_Interrupt ev s in
    CCN_INTEVT t = ev \<and> ssr t = sr_getFull s \<and> spc t = pc s \<and> sgr t = gpr s 15 \<and> pc t = vbr s + 0x600
    \<and> sr_BL (sr_status t) \<and> sr_MD (sr_status t) \<and> sr_RB (sr_status t) \<and> interrupt_pend t = 0 \<and> bank_ok t
    \<and> (\<forall>i. gpr t i = (if i < 8 \<and> \<not> (sr_MD (sr_status s) \<and> sr_RB (sr_status s)) then r_bank s i else gpr s i))"
proof -
  let ?u = "s\<lparr>CCN_INTEVT := ev, ssr := sr_getFull s, spc := pc s, sgr := gpr s 15,
    sr_status := put_bit 29 True (put_bit 30 True (put_bit 28 True (sr_status s)))\<rparr>"
  have d: "Do_Interrupt ev s = (UpdateSR ?u)\<lparr>pc := vbr s + 0x600\<rparr>"
    by (simp add: Do_Interrupt_def enter_handler_def Let_def sr_getFull_def)
  have "bank_ok (UpdateSR ?u)" "interrupt_pend (UpdateSR ?u) = 0"
    by (simp_all add: UpdateSR_bank_ok UpdateSR_blocked)
  then show ?thesis
    using assms unfolding d Let_def by (auto simp: UpdateSR_gpr bank_ok_def)
qed

theorem interrupt_entry_witness:
  "gpr (Do_Interrupt 0x400 (sh4_zero\<lparr>r_bank := (\<lambda>i. of_nat i)\<rparr>)) 3 = 3"
proof -
  have "bank_ok (sh4_zero\<lparr>r_bank := (\<lambda>i. of_nat i)\<rparr>)" by code_simp
  from interrupt_entry [OF this, of "0x400"] show ?thesis by (simp add: Let_def sh4_zero_def sr_MD_def)
qed

text \<open>
  Property C28: an exception is refused exactly when exceptions are blocked; otherwise it goes to the TLB-miss vector or
  the general one with the given return address, and leaves exceptions blocked, so that a second one is refused.
\<close>

theorem exception_outcome:
  "case Do_Exception epc ev s of
     None \<Rightarrow> sr_BL (sr_status s)
   | Some t \<Rightarrow> \<not> sr_BL (sr_status s) \<and> spc t = epc \<and> CCN_EXPEVT t = ev \<and> ssr t = sr_getFull s
       \<and> pc t = vbr s + (if ev = 0x40 \<or> ev = 0x60 then 0x400 else 0x100) \<and> Do_Exception epc2 ev2 t = None"
  by (simp add: Do_Exception_def enter_handler_def Let_def sr_getFull_def)

text \<open>
  The event codes of the 28 sources are pairwise different, except that the end-of-transfer interrupts of
  DMA channels 1 and 2 share one code.
\<close>

theorem event_codes_distinct_but_one:
  "[(i, j). i \<leftarrow> [0..<28], j \<leftarrow> [Suc i..<28],
      IntEvnCode (InterruptSourceList ! i) = IntEvnCode (InterruptSourceList ! j)] = [(6, 7)]"
  by code_simp

end
