(* ===== verification/Holly.thy ===== *)
theory Holly
  imports Sh4_Intc
begin

unbundle bit_operations_syntax

section \<open>The Holly interrupt controller\<close>

text \<open>
  Models \<^verbatim>\<open>core/hw/holly/holly_intc.cpp\<close>.  The system-bus registers it works on are a record that holds the
  SH-4 state as well, because the three \<open>asic_RLxPending\<close> functions drive the SH-4's external lines through
  \<open>InterruptPend\<close>.  An interrupt id is a word whose high byte selects the normal, external or error register.  The
  template parameter \<open>Naomi2\<close> is an argument.  The lemmas show that after every operation each SH-4 line is exactly the
  disjunction of its masked status registers.
\<close>

record holly =
  SB_ISTNRM :: u32
  SB_ISTNRM1 :: u32
  SB_ISTEXT :: u32
  SB_ISTERR :: u32
  SB_IML2NRM :: u32
  SB_IML4NRM :: u32
  SB_IML6NRM :: u32
  SB_IML2EXT :: u32
  SB_IML4EXT :: u32
  SB_IML6EXT :: u32
  SB_IML2ERR :: u32
  SB_IML4ERR :: u32
  SB_IML6ERR :: u32
  sh4 :: sh4_state

abbreviation (input) sh4_IRL_9 :: nat where "sh4_IRL_9 \<equiv> 0"
abbreviation (input) sh4_IRL_11 :: nat where "sh4_IRL_11 \<equiv> 1"
abbreviation (input) sh4_IRL_13 :: nat where "sh4_IRL_13 \<equiv> 2"
abbreviation (input) holly_SPU_DMA :: u32 where "holly_SPU_DMA \<equiv> 0x000F"
abbreviation (input) holly_SPU_IRQ :: u32 where "holly_SPU_IRQ \<equiv> 0x0101"

subsection \<open>Operations\<close>

definition asic_RL6Pending :: "holly \<Rightarrow> holly" where
  "asic_RL6Pending h =
     (let t1 = SB_ISTNRM h AND SB_IML6NRM h \<noteq> 0;
          t2 = SB_ISTERR h AND SB_IML6ERR h \<noteq> 0;
          t3 = SB_ISTEXT h AND SB_IML6EXT h \<noteq> 0;
          t4 = SB_ISTNRM1 h AND SB_IML6NRM h \<noteq> 0
      in h\<lparr>sh4 := InterruptPend sh4_IRL_9 (t1 \<or> t2 \<or> t3 \<or> t4) (sh4 h)\<rparr>)"

definition asic_RL4Pending :: "holly \<Rightarrow> holly" where
  "asic_RL4Pending h =
     (let t1 = SB_ISTNRM h AND SB_IML4NRM h \<noteq> 0;
          t2 = SB_ISTERR h AND SB_IML4ERR h \<noteq> 0;
          t3 = SB_ISTEXT h AND SB_IML4EXT h \<noteq> 0;
          t4 = SB_ISTNRM1 h AND SB_IML4NRM h \<noteq> 0
      in h\<lparr>sh4 := InterruptPend sh4_IRL_11 (t1 \<or> t2 \<or> t3 \<or> t4) (sh4 h)\<rparr>)"

definition asic_RL2Pending :: "holly \<Rightarrow> holly" where
  "asic_RL2Pending h =
     (let t1 = SB_ISTNRM h AND SB_IML2NRM h \<noteq> 0;
          t2 = SB_ISTERR h AND SB_IML2ERR h \<noteq> 0;
          t3 = SB_ISTEXT h AND SB_IML2EXT h \<noteq> 0;
          t4 = SB_ISTNRM1 h AND SB_IML2NRM h \<noteq> 0
      in h\<lparr>sh4 := InterruptPend sh4_IRL_13 (t1 \<or> t2 \<or> t3 \<or> t4) (sh4 h)\<rparr>)"

text \<open>The calls every change of a status register ends with.\<close>

definition asic_pending :: "holly \<Rightarrow> holly" where
  "asic_pending h = asic_RL6Pending (asic_RL4Pending (asic_RL2Pending h))"

definition asic_RaiseInterrupt :: "u32 \<Rightarrow> holly \<Rightarrow> holly" where
  "asic_RaiseInterrupt intr h =
     (let type = drop_bit 8 intr AND 0xFF;
          msk = push_bit (unat (intr AND 0xFF)) 1
      in asic_pending
        (if type = 0 then h\<lparr>SB_ISTNRM := SB_ISTNRM h OR msk\<rparr>
         else if type = 1 then h\<lparr>SB_ISTEXT := SB_ISTEXT h OR msk\<rparr>
         else if type = 2 then h\<lparr>SB_ISTERR := SB_ISTERR h OR msk\<rparr>
         else h))"

definition asic_RaiseInterruptBothCLX :: "u32 \<Rightarrow> holly \<Rightarrow> holly" where
  "asic_RaiseInterruptBothCLX intr h =
     (let type = drop_bit 8 intr AND 0xFF;
          msk = push_bit (unat (intr AND 0xFF)) 1
      in asic_pending
        (if type = 0 then h\<lparr>SB_ISTNRM1 := SB_ISTNRM1 h OR msk, SB_ISTNRM := SB_ISTNRM h OR msk\<rparr>
         else if type = 1 then h\<lparr>SB_ISTEXT := SB_ISTEXT h OR msk\<rparr>
         else if type = 2 then h\<lparr>SB_ISTERR := SB_ISTERR h OR msk\<rparr>
         else h))"

definition Read_SB_ISTNRM :: "bool \<Rightarrow> u32 \<Rightarrow> holly \<Rightarrow> u32" where
  "Read_SB_ISTNRM Naomi2 addr h =
     (let tmp = (if Naomi2 \<and> addr AND 0x02000000 \<noteq> 0 then SB_ISTNRM1 h else SB_ISTNRM h) AND 0x3FFFFFFF;
          tmp = (if SB_ISTEXT h \<noteq> 0 then tmp OR 0x40000000 else tmp)
      in (if SB_ISTERR h \<noteq> 0 then tmp OR 0x80000000 else tmp))"

definition Write_SB_ISTNRM :: "bool \<Rightarrow> u32 \<Rightarrow> u32 \<Rightarrow> holly \<Rightarrow> holly" where
  "Write_SB_ISTNRM Naomi2 addr data h =
     asic_pending
       (if Naomi2 \<and> addr AND 0x02000000 \<noteq> 0 then h\<lparr>SB_ISTNRM1 := SB_ISTNRM1 h AND NOT data\<rparr>
        else h\<lparr>SB_ISTNRM := SB_ISTNRM h AND NOT data\<rparr>)"

definition asic_CancelInterrupt :: "u32 \<Rightarrow> holly \<Rightarrow> holly" where
  "asic_CancelInterrupt intr h =
     (let type = drop_bit 8 intr AND 0xFF;
          msk = NOT (push_bit (unat (intr AND 0xFF)) 1)
      in asic_pending
        (if type = 0 then h\<lparr>SB_ISTNRM := SB_ISTNRM h AND msk\<rparr>
         else if type = 1 then h\<lparr>SB_ISTEXT := SB_ISTEXT h AND msk\<rparr>
         else if type = 2 then h\<lparr>SB_ISTERR := SB_ISTERR h AND msk\<rparr>
         else h))"

definition Write_SB_ISTERR :: "u32 \<Rightarrow> holly \<Rightarrow> holly" where
  "Write_SB_ISTERR data h = asic_pending (h\<lparr>SB_ISTERR := SB_ISTERR h AND NOT data\<rparr>)"

definition Write_SB_ISTEXT :: "u32 \<Rightarrow> holly \<Rightarrow> holly" where
  "Write_SB_ISTEXT data h = h"

definition Write_SB_IML6NRM :: "bool \<Rightarrow> u32 \<Rightarrow> u32 \<Rightarrow> holly \<Rightarrow> holly" where
  "Write_SB_IML6NRM Naomi2 addr data h =
     (if Naomi2 \<and> addr AND 0x2000000 \<noteq> 0 then h else asic_RL6Pending (h\<lparr>SB_IML6NRM := data\<rparr>))"

definition Write_SB_IML4NRM :: "bool \<Rightarrow> u32 \<Rightarrow> u32 \<Rightarrow> holly \<Rightarrow> holly" where
  "Write_SB_IML4NRM Naomi2 addr data h =
     (if Naomi2 \<and> addr AND 0x2000000 \<noteq> 0 then h else asic_RL4Pending (h\<lparr>SB_IML4NRM := data\<rparr>))"

definition Write_SB_IML2NRM :: "bool \<Rightarrow> u32 \<Rightarrow> u32 \<Rightarrow> holly \<Rightarrow> holly" where
  "Write_SB_IML2NRM Naomi2 addr data h =
     (if Naomi2 \<and> addr AND 0x2000000 \<noteq> 0 then h else asic_RL2Pending (h\<lparr>SB_IML2NRM := data\<rparr>))"

definition Write_SB_IML6EXT :: "bool \<Rightarrow> u32 \<Rightarrow> u32 \<Rightarrow> holly \<Rightarrow> holly" where
  "Write_SB_IML6EXT Naomi2 addr data h =
     (if Naomi2 \<and> addr AND 0x2000000 \<noteq> 0 then h else asic_RL6Pending (h\<lparr>SB_IML6EXT := data\<rparr>))"

definition Write_SB_IML4EXT :: "bool \<Rightarrow> u32 \<Rightarrow> u32 \<Rightarrow> holly \<Rightarrow> holly" where
  "Write_SB_IML4EXT Naomi2 addr data h =
     (if Naomi2 \<and> addr AND 0x2000000 \<noteq> 0 then h else asic_RL4Pending (h\<lparr>SB_IML4EXT := data\<rparr>))"

definition Write_SB_IML2EXT :: "bool \<Rightarrow> u32 \<Rightarrow> u32 \<Rightarrow> holly \<Rightarrow> holly" where
  "Write_SB_IML2EXT Naomi2 addr data h =
     (if Naomi2 \<and> addr AND 0x2000000 \<noteq> 0 then h else asic_RL2Pending (h\<lparr>SB_IML2EXT := data\<rparr>))"

definition Write_SB_IML6ERR :: "bool \<Rightarrow> u32 \<Rightarrow> u32 \<Rightarrow> holly \<Rightarrow> holly" where
  "Write_SB_IML6ERR Naomi2 addr data h =
     (if Naomi2 \<and> addr AND 0x2000000 \<noteq> 0 then h else asic_RL6Pending (h\<lparr>SB_IML6ERR := data\<rparr>))"

definition Write_SB_IML4ERR :: "bool \<Rightarrow> u32 \<Rightarrow> u32 \<Rightarrow> holly \<Rightarrow> holly" where
  "Write_SB_IML4ERR Naomi2 addr data h =
     (if Naomi2 \<and> addr AND 0x2000000 \<noteq> 0 then h else asic_RL4Pending (h\<lparr>SB_IML4ERR := data\<rparr>))"

definition Write_SB_IML2ERR :: "bool \<Rightarrow> u32 \<Rightarrow> u32 \<Rightarrow> holly \<Rightarrow> holly" where
  "Write_SB_IML2ERR Naomi2 addr data h =
     (if Naomi2 \<and> addr AND 0x2000000 \<noteq> 0 then h else asic_RL2Pending (h\<lparr>SB_IML2ERR := data\<rparr>))"

subsection \<open>The lines follow the registers\<close>

definition line_level :: "u32 \<Rightarrow> u32 \<Rightarrow> u32 \<Rightarrow> holly \<Rightarrow> bool" where
  "line_level nrm ext err h \<longleftrightarrow>
     (SB_ISTNRM h OR SB_ISTNRM1 h) AND nrm \<noteq> 0 \<or> SB_ISTEXT h AND ext \<noteq> 0 \<or> SB_ISTERR h AND err \<noteq> 0"

definition lines_ok :: "holly \<Rightarrow> bool" where
  "lines_ok h \<longleftrightarrow> intc_ok (sh4 h)
     \<and> (sh4_IRL_9 \<in> pend_set (sh4 h) \<longleftrightarrow> line_level (SB_IML6NRM h) (SB_IML6EXT h) (SB_IML6ERR h) h)
     \<and> (sh4_IRL_11 \<in> pend_set (sh4 h) \<longleftrightarrow> line_level (SB_IML4NRM h) (SB_IML4EXT h) (SB_IML4ERR h) h)
     \<and> (sh4_IRL_13 \<in> pend_set (sh4 h) \<longleftrightarrow> line_level (SB_IML2NRM h) (SB_IML2EXT h) (SB_IML2ERR h) h)"

lemma line_level_or:
  "SB_ISTNRM h AND nrm \<noteq> 0 \<or> SB_ISTERR h AND err \<noteq> 0 \<or> SB_ISTEXT h AND ext \<noteq> 0 \<or> SB_ISTNRM1 h AND nrm \<noteq> 0
     \<longleftrightarrow> line_level nrm ext err h"
proof -
  have "(a OR b) AND c = 0 \<longleftrightarrow> a AND c = 0 \<and> b AND c = 0" for a b c :: u32
    by (auto simp: bit_eq_iff bit_or_iff bit_and_iff)
  then show ?thesis by (auto simp: line_level_def)
qed

lemma rl_unfold:
  "asic_RL6Pending h = h\<lparr>sh4 := InterruptPend 0 (line_level (SB_IML6NRM h) (SB_IML6EXT h) (SB_IML6ERR h) h) (sh4 h)\<rparr>"
  "asic_RL4Pending h = h\<lparr>sh4 := InterruptPend 1 (line_level (SB_IML4NRM h) (SB_IML4EXT h) (SB_IML4ERR h) h) (sh4 h)\<rparr>"
  "asic_RL2Pending h = h\<lparr>sh4 := InterruptPend 2 (line_level (SB_IML2NRM h) (SB_IML2EXT h) (SB_IML2ERR h) h) (sh4 h)\<rparr>"
  unfolding asic_RL6Pending_def asic_RL4Pending_def asic_RL2Pending_def Let_def line_level_or by simp_all

lemma line_level_sh4 [simp]: "line_level n e r (h\<lparr>sh4 := s\<rparr>) = line_level n e r h"
  by (simp add: line_level_def)

lemma rl_lines:
  assumes "intc_ok (sh4 h)"
  shows "intc_ok (sh4 (asic_RL6Pending h))" "intc_ok (sh4 (asic_RL4Pending h))" "intc_ok (sh4 (asic_RL2Pending h))"
    "pend_set (sh4 (asic_RL6Pending h)) = (if line_level (SB_IML6NRM h) (SB_IML6EXT h) (SB_IML6ERR h) h
       then insert 0 (pend_set (sh4 h)) else pend_set (sh4 h) - {0})"
    "pend_set (sh4 (asic_RL4Pending h)) = (if line_level (SB_IML4NRM h) (SB_IML4EXT h) (SB_IML4ERR h) h
       then insert 1 (pend_set (sh4 h)) else pend_set (sh4 h) - {1})"
    "pend_set (sh4 (asic_RL2Pending h)) = (if line_level (SB_IML2NRM h) (SB_IML2EXT h) (SB_IML2ERR h) h
       then insert 2 (pend_set (sh4 h)) else pend_set (sh4 h) - {2})"
  using assms by (simp_all add: rl_unfold pend_ops_ok pend_ops_sets)

lemma asic_pending_ok [inv_intros]: "intc_ok (sh4 h) \<Longrightarrow> lines_ok (asic_pending h)"
  unfolding asic_pending_def lines_ok_def
  by (simp add: rl_lines) (simp add: rl_unfold)

lemma asic_pending_frame [frame]:
  "SB_ISTNRM (asic_pending h) = SB_ISTNRM h" "SB_ISTNRM1 (asic_pending h) = SB_ISTNRM1 h"
  "SB_ISTEXT (asic_pending h) = SB_ISTEXT h" "SB_ISTERR (asic_pending h) = SB_ISTERR h"
  by (simp_all add: asic_pending_def rl_unfold)

lemma mask_write_ok:
  assumes "lines_ok h"
  shows "lines_ok (asic_RL6Pending (h\<lparr>SB_IML6NRM := v\<rparr>))" "lines_ok (asic_RL6Pending (h\<lparr>SB_IML6EXT := v\<rparr>))"
    "lines_ok (asic_RL6Pending (h\<lparr>SB_IML6ERR := v\<rparr>))"
    "lines_ok (asic_RL4Pending (h\<lparr>SB_IML4NRM := v\<rparr>))" "lines_ok (asic_RL4Pending (h\<lparr>SB_IML4EXT := v\<rparr>))"
    "lines_ok (asic_RL4Pending (h\<lparr>SB_IML4ERR := v\<rparr>))"
    "lines_ok (asic_RL2Pending (h\<lparr>SB_IML2NRM := v\<rparr>))" "lines_ok (asic_RL2Pending (h\<lparr>SB_IML2EXT := v\<rparr>))"
    "lines_ok (asic_RL2Pending (h\<lparr>SB_IML2ERR := v\<rparr>))"
  using assms unfolding lines_ok_def
  by (simp_all add: rl_lines) (simp_all add: rl_unfold line_level_def)

text \<open>One call of the controller.\<close>

inductive asic_step :: "holly \<Rightarrow> holly \<Rightarrow> bool" where
  raise: "asic_step h (asic_RaiseInterrupt i h)"
| raise_both: "asic_step h (asic_RaiseInterruptBothCLX i h)"
| cancel: "asic_step h (asic_CancelInterrupt i h)"
| istnrm: "asic_step h (Write_SB_ISTNRM n a d h)"
| isterr: "asic_step h (Write_SB_ISTERR d h)"
| istext: "asic_step h (Write_SB_ISTEXT d h)"
| iml6nrm: "asic_step h (Write_SB_IML6NRM n a d h)"
| iml4nrm: "asic_step h (Write_SB_IML4NRM n a d h)"
| iml2nrm: "asic_step h (Write_SB_IML2NRM n a d h)"
| iml6ext: "asic_step h (Write_SB_IML6EXT n a d h)"
| iml4ext: "asic_step h (Write_SB_IML4EXT n a d h)"
| iml2ext: "asic_step h (Write_SB_IML2EXT n a d h)"
| iml6err: "asic_step h (Write_SB_IML6ERR n a d h)"
| iml4err: "asic_step h (Write_SB_IML4ERR n a d h)"
| iml2err: "asic_step h (Write_SB_IML2ERR n a d h)"

lemma asic_step_ok: "asic_step h g \<Longrightarrow> lines_ok h \<Longrightarrow> lines_ok g"
proof (induction rule: asic_step.induct)
  case (raise h i)
  then show ?case unfolding asic_RaiseInterrupt_def Let_def by (intro asic_pending_ok) (simp add: lines_ok_def)
next
  case (raise_both h i)
  then show ?case unfolding asic_RaiseInterruptBothCLX_def Let_def by (intro asic_pending_ok) (simp add: lines_ok_def)
next
  case (cancel h i)
  then show ?case unfolding asic_CancelInterrupt_def Let_def by (intro asic_pending_ok) (simp add: lines_ok_def)
next
  case (istnrm h n a d)
  then show ?case unfolding Write_SB_ISTNRM_def by (intro asic_pending_ok) (simp add: lines_ok_def)
next
  case (isterr h d)
  then show ?case unfolding Write_SB_ISTERR_def by (intro asic_pending_ok) (simp add: lines_ok_def)
next
  case (istext h d)
  then show ?case by (simp add: Write_SB_ISTEXT_def)
qed (simp_all add: mask_write_ok Write_SB_IML6NRM_def Write_SB_IML4NRM_def Write_SB_IML2NRM_def Write_SB_IML6EXT_def Write_SB_IML4EXT_def Write_SB_IML2EXT_def Write_SB_IML6ERR_def Write_SB_IML4ERR_def Write_SB_IML2ERR_def)

text \<open>The controller and the processor beside it: the other interrupt sources and everything the SH-4 does.\<close>

inductive holly_step :: "holly \<Rightarrow> holly \<Rightarrow> bool" where
  asic: "asic_step h g \<Longrightarrow> holly_step h g"
| other_line: "3 \<le> i \<Longrightarrow> i < 28 \<Longrightarrow> holly_step h (h\<lparr>sh4 := InterruptPend i v (sh4 h)\<rparr>)"
| cpu: "cpu_step (sh4 h) s \<Longrightarrow> holly_step h (h\<lparr>sh4 := s\<rparr>)"

lemma holly_step_ok: "holly_step h g \<Longrightarrow> lines_ok h \<Longrightarrow> lines_ok g"
proof (induction rule: holly_step.induct)
  case (asic h g)
  then show ?case by (rule asic_step_ok)
next
  case (other_line i h v)
  then show ?case by (auto simp: lines_ok_def pend_ops_ok pend_ops_sets)
next
  case (cpu h s)
  then show ?case using cpu_step_keeps by (auto simp: lines_ok_def)
qed

lemma holly_steps_ok: "holly_step\<^sup>*\<^sup>* h g \<Longrightarrow> lines_ok h \<Longrightarrow> lines_ok g"
  by (induction rule: rtranclp_induct) (auto intro: holly_step_ok)

definition holly_reset :: "sh4_state \<Rightarrow> holly" where
  "holly_reset s = \<lparr>SB_ISTNRM = 0, SB_ISTNRM1 = 0, SB_ISTEXT = 0, SB_ISTERR = 0, SB_IML2NRM = 0, SB_IML4NRM = 0,
     SB_IML6NRM = 0, SB_IML2EXT = 0, SB_IML4EXT = 0, SB_IML6EXT = 0, SB_IML2ERR = 0, SB_IML4ERR = 0, SB_IML6ERR = 0,
     sh4 = interrupts_reset s\<rparr>"

lemma holly_reset_ok: "lines_ok (holly_reset s)"
  by (simp add: lines_ok_def holly_reset_def line_level_def reset_ok)

subsection \<open>Properties\<close>

text \<open>
  Property C17: whatever sequence of raised, cancelled and acknowledged interrupts, mask writes, other interrupt sources
  and processor activity follows a reset, each of the three SH-4 lines is pending exactly when one of its masked status
  registers is non-zero, and the SH-4 controller's cache is consistent.
\<close>

theorem holly_lines_follow_registers:
  assumes "holly_step\<^sup>*\<^sup>* (holly_reset s) h"
  shows "lines_ok h"
  by (rule holly_steps_ok [OF assms holly_reset_ok])

theorem holly_lines_follow_registers_witness:
  "lines_ok (asic_RaiseInterrupt holly_SPU_IRQ (Write_SB_IML4EXT False 0 0xFF (holly_reset sh4_zero)))"
proof (rule holly_lines_follow_registers)
  let ?h = "holly_reset sh4_zero"
  have "holly_step ?h (Write_SB_IML4EXT False 0 0xFF ?h)" by (intro holly_step.asic asic_step.intros)
  moreover have "holly_step (Write_SB_IML4EXT False 0 0xFF ?h) (asic_RaiseInterrupt 0x0101 (Write_SB_IML4EXT False 0 0xFF ?h))"
    by (intro holly_step.asic asic_step.intros)
  ultimately show "holly_step\<^sup>*\<^sup>* ?h (asic_RaiseInterrupt 0x0101 (Write_SB_IML4EXT False 0 0xFF ?h))"
    by (meson rtranclp.rtrancl_refl rtranclp.rtrancl_into_rtrancl)
qed

lemma pend_status [simp]: "sr_status (InterruptPend i v s) = sr_status s" "GetPrLvl (InterruptPend i v s) = GetPrLvl s"
  by (simp_all add: InterruptPend_def SetInterruptPend_def ResetInterruptPend_def)

lemma asic_pending_sh4 [frame]:
  assumes "intc_ok (sh4 h)"
  shows "mask_set (sh4 (asic_pending h)) = mask_set (sh4 h)" "sr_status (sh4 (asic_pending h)) = sr_status (sh4 h)"
    "GetPrLvl (sh4 (asic_pending h)) = GetPrLvl (sh4 h)"
  using assms by (simp_all add: asic_pending_def rl_unfold pend_ops_sets pend_ops_ok)

lemma irl11_level: "GetPrLvl s (Suc 0) = 4"
  by (simp add: GetPrLvl_def InterruptSourceList_def int_source_def)

lemma spu_line_accepted:
  assumes "lines_ok h" "bit (SB_ISTEXT h) 1" "bit (SB_IML4EXT h) 1" "sh4_IRL_11 \<in> mask_set (sh4 h)"
    and "\<not> sr_BL (sr_status (sh4 h))" "sr_IMASK (sr_status (sh4 h)) < 4"
  shows "fst (UpdateINTC (sh4 h)) = 1"
proof -
  have "bit (SB_ISTEXT h AND SB_IML4EXT h) 1" using assms(2,3) by (simp add: bit_and_iff)
  then have "SB_ISTEXT h AND SB_IML4EXT h \<noteq> 0" by force
  then have "1 \<in> pend_set (sh4 h)" using assms(1) by (auto simp: lines_ok_def line_level_def)
  then have "accepted (sh4 h) 1" using assms by (simp add: accepted_sets irl11_level lines_ok_def)
  then show ?thesis using assms(1) by (simp add: accepted_interrupts lines_ok_def)
qed


lemma spu_raised_accepted:
  assumes "lines_ok h" "bit (SB_IML4EXT h) 1" "sh4_IRL_11 \<in> mask_set (sh4 h)"
    and "\<not> sr_BL (sr_status (sh4 h))" "sr_IMASK (sr_status (sh4 h)) < 4"
  shows "fst (UpdateINTC (sh4 (asic_pending (h\<lparr>SB_ISTEXT := SB_ISTEXT h OR 2\<rparr>)))) = 1"
proof -
  let ?g = "h\<lparr>SB_ISTEXT := SB_ISTEXT h OR 2\<rparr>"
  have ok: "intc_ok (sh4 ?g)" using assms(1) by (simp add: lines_ok_def)
  have "SB_IML4EXT (asic_pending ?g) = SB_IML4EXT h" by (simp add: asic_pending_def rl_unfold)
  then show ?thesis
    using assms by (intro spu_line_accepted asic_pending_ok ok) (simp_all add: frame asic_pending_sh4 [OF ok] bit_or_iff bit_2_iff)
qed

text \<open>From the AICA's interrupt output to the SH-4 handler.\<close>

lemma aica_interrupt_reaches_sh4:
  assumes "lines_ok h" "bit (SB_IML4EXT h) 1" "sh4_IRL_11 \<in> mask_set (sh4 h)"
    and "\<not> sr_BL (sr_status (sh4 h))" "sr_IMASK (sr_status (sh4 h)) < 4"
  shows "fst (UpdateINTC (sh4 (asic_RaiseInterrupt holly_SPU_IRQ h))) = 1"
  using spu_raised_accepted [OF assms] by (simp add: asic_RaiseInterrupt_def Let_def)

end
