(* ===== verification/Aica_State.thy ===== *)
theory Aica_State
  imports Arm7_State Holly
begin

unbundle bit_operations_syntax

section \<open>The AICA: register file, interrupts and timers\<close>

text \<open>
  Models \<^verbatim>\<open>core/hw/aica/aica.h\<close> and the interrupt and timer part of \<^verbatim>\<open>core/hw/aica/aica.cpp\<close>.  The register
  file \<open>aica_reg\<close> is a byte array, as in the source; a bit-field of \<open>CommonData_struct\<close> is the accessor of its bits in
  the word it lies in, and \<open>SCIEB\<close> to \<open>MCIRE\<close> are the words their pointers address.  The variables of
  \<open>aica::sgc\<close> and \<open>aica::dsp\<close> (the channels and the DSP) belong to the same record, which is the \<open>periph\<close>
  component of the ARM state; the Holly interrupt controller hangs below it because the AICA drives one of its lines.
  Signed 32-bit variables are held as words and read with \<open>sint\<close>.
\<close>

subsection \<open>Channels\<close>

datatype EGState = EG_Attack | EG_Decay1 | EG_Decay2 | EG_Release
datatype LFOType = Sawtooth | Square | Triangle | Random
datatype PCMSType = PCM16 | PCM8 | ADPCM | ADPCM_STREAM | NOISE

text \<open>
  A \<open>ChannelEx\<close>.  Pointers to member functions are kept as what selects them in the lookup tables, \<open>DSPOut\<close> and
  \<open>plfo_scale\<close> as the index they point to; \<open>quiet\<close>, which only silences a log line, is left out.
\<close>

record channel =
  ch_SA :: u32
  ch_CA :: u32
  ch_step :: u32
  update_rate :: u32
  ch_s0 :: u32
  ch_s1 :: u32
  loop_LSA :: u32
  loop_LEA :: u32
  looped :: bool
  last_quant :: u32
  loopstart_quant :: u32
  loopstart_prev_sample :: u32
  in_loop :: bool
  noise_state :: u32
  DLAtt :: u32
  DRAtt :: u32
  DSPAtt :: u32
  DSPOut :: nat
  StepAEG :: EGState
  StepFEG :: EGState
  StepStream :: "PCMSType \<times> bool \<times> bool"
  StepStreamInitial :: PCMSType
  AEG_val :: u32
  AEG_state :: EGState
  AEG_AttackRate :: u32
  AEG_Decay1Rate :: u32
  AEG_Decay2Value :: u32
  AEG_Decay2Rate :: u32
  AEG_ReleaseRate :: u32
  FEG_value :: u32
  FEG_state :: EGState
  FEG_prev1 :: u32
  FEG_prev2 :: u32
  FEG_fractSave :: u32
  FEG_q :: u32
  FEG_AttackRate :: u32
  FEG_Decay1Rate :: u32
  FEG_Decay2Rate :: u32
  FEG_ReleaseRate :: u32
  FEG_active :: bool
  lfo_counter :: u32
  lfo_start_value :: u32
  lfo_state :: u8
  lfo_alfo :: u8
  lfo_alfo_shft :: u8
  lfo_plfo_step :: u32
  lfo_plfo_scale :: nat
  lfo_alfoType :: LFOType
  lfo_plfoType :: LFOType
  lfo_alfo_calc :: LFOType
  lfo_plfo_calc :: LFOType
  ch_enabled :: bool

subsection \<open>The DSP, the timers and the whole\<close>

record dsp_state =
  dsp_TEMP :: "nat \<Rightarrow> u32"
  dsp_MEMS :: "nat \<Rightarrow> u32"
  dsp_MIXS :: "nat \<Rightarrow> u32"
  dsp_RBP :: u32
  dsp_RBL :: u32
  MDEC_CT :: u32
  dsp_stopped :: bool
  dsp_dirty :: bool

record aica_timer =
  c_step :: u32
  m_step :: u32

record aica =
  aica_reg :: "u32 \<Rightarrow> u8"
  timers :: "nat \<Rightarrow> aica_timer"
  midiSendBuffer :: "u8 list"
  midiReceiver :: bool
  midi_received :: "u8 list"
  Chans :: "nat \<Rightarrow> channel"
  dsp :: dsp_state
  beep_active :: bool
  beep_att :: nat
  beep_waveIdx :: u32
  beep_waveStep :: u32
  cdda_sector :: "nat \<Rightarrow> u32"
  cdda_index :: nat
  samples_out :: "(u32 \<times> u32) list"
  VREG :: u32
  ARMRST :: u32
  rtc_EN :: u32
  RealTimeClock :: u32
  hly :: holly
  crashed :: bool
  races :: nat

type_synonym machine = "aica arm_state"

definition upd :: "(aica \<Rightarrow> aica) \<Rightarrow> machine \<Rightarrow> machine" where
  "upd f s = s\<lparr>periph := f (periph s)\<rparr>"

abbreviation regs :: "machine \<Rightarrow> u32 \<Rightarrow> u8" where
  "regs s \<equiv> aica_reg (periph s)"

definition set_regs :: "(u32 \<Rightarrow> u8) \<Rightarrow> machine \<Rightarrow> machine" where
  "set_regs m s = upd (\<lambda>p. p\<lparr>aica_reg := m\<rparr>) s"

text \<open>
  What the sound code reads besides its own state: the platform's sound memory size, user options, and the tables that
  \<open>staticinitialise\<close> computes with floating-point powers.  They are arguments of the definitions that use them.
\<close>

record aica_env =
  ARAM_SIZE :: u32
  ARAM_MASK :: u32
  DSPEnabled :: bool
  VmuSound :: bool
  muteAudio :: bool
  AEG_ATT_SPS :: "nat \<Rightarrow> u32"
  AEG_DSR_SPS :: "nat \<Rightarrow> u32"
  tl_table :: "nat \<Rightarrow> u32"
  volume_table :: "nat \<Rightarrow> u32"
  PLFO_Scales :: "nat \<Rightarrow> nat \<Rightarrow> u32"
  stack_depth :: nat

subsection \<open>Bit-fields of the register file\<close>

definition get_bits :: "u32 \<Rightarrow> nat \<Rightarrow> nat \<Rightarrow> (u32 \<Rightarrow> u8) \<Rightarrow> u32" where
  "get_bits a lo n m = drop_bit lo (rd32 m a) AND mask n"

definition set_bits :: "u32 \<Rightarrow> nat \<Rightarrow> nat \<Rightarrow> u32 \<Rightarrow> (u32 \<Rightarrow> u8) \<Rightarrow> (u32 \<Rightarrow> u8)" where
  "set_bits a lo n v m =
     wr32 m a ((rd32 m a AND NOT (push_bit lo (mask n))) OR push_bit lo (v AND mask n))"

abbreviation (input) SCIEB_addr :: u32 where "SCIEB_addr \<equiv> 0x289C"
abbreviation (input) SCIPD_addr :: u32 where "SCIPD_addr \<equiv> 0x28A0"
abbreviation (input) SCIRE_addr :: u32 where "SCIRE_addr \<equiv> 0x28A4"
abbreviation (input) MCIEB_addr :: u32 where "MCIEB_addr \<equiv> 0x28B4"
abbreviation (input) MCIPD_addr :: u32 where "MCIPD_addr \<equiv> 0x28B8"
abbreviation (input) MCIRE_addr :: u32 where "MCIRE_addr \<equiv> 0x28BC"
abbreviation (input) TIMER_A :: u32 where "TIMER_A \<equiv> 0x2890"
abbreviation (input) TIMER_B :: u32 where "TIMER_B \<equiv> 0x2894"
abbreviation (input) TIMER_C :: u32 where "TIMER_C \<equiv> 0x2898"

definition MVOL :: "(u32 \<Rightarrow> u8) \<Rightarrow> u32" where "MVOL = get_bits 0x2800 0 4"
definition DAC18B :: "(u32 \<Rightarrow> u8) \<Rightarrow> u32" where "DAC18B = get_bits 0x2800 8 1"
definition Mono :: "(u32 \<Rightarrow> u8) \<Rightarrow> u32" where "Mono = get_bits 0x2800 15 1"
definition RBP :: "(u32 \<Rightarrow> u8) \<Rightarrow> u32" where "RBP = get_bits 0x2804 0 12"
definition RBL :: "(u32 \<Rightarrow> u8) \<Rightarrow> u32" where "RBL = get_bits 0x2804 13 2"
definition MSLC :: "(u32 \<Rightarrow> u8) \<Rightarrow> u32" where "MSLC = get_bits 0x280C 8 6"
definition CA_reg :: "(u32 \<Rightarrow> u8) \<Rightarrow> u32" where "CA_reg = get_bits 0x2814 0 16"
definition DMEA_hi :: "(u32 \<Rightarrow> u8) \<Rightarrow> u32" where "DMEA_hi = get_bits 0x2880 9 7"
definition DMEA_lo :: "(u32 \<Rightarrow> u8) \<Rightarrow> u32" where "DMEA_lo = get_bits 0x2884 2 14"
definition DRGA :: "(u32 \<Rightarrow> u8) \<Rightarrow> u32" where "DRGA = get_bits 0x2888 2 13"
definition DGATE :: "(u32 \<Rightarrow> u8) \<Rightarrow> u32" where "DGATE = get_bits 0x2888 15 1"
definition DEXE :: "(u32 \<Rightarrow> u8) \<Rightarrow> u32" where "DEXE = get_bits 0x288C 0 1"
definition DLG :: "(u32 \<Rightarrow> u8) \<Rightarrow> u32" where "DLG = get_bits 0x288C 2 13"
definition DDIR :: "(u32 \<Rightarrow> u8) \<Rightarrow> u32" where "DDIR = get_bits 0x288C 15 1"
definition SCILV0 :: "(u32 \<Rightarrow> u8) \<Rightarrow> u32" where "SCILV0 = get_bits 0x28A8 0 8"
definition SCILV1 :: "(u32 \<Rightarrow> u8) \<Rightarrow> u32" where "SCILV1 = get_bits 0x28AC 0 8"
definition SCILV2 :: "(u32 \<Rightarrow> u8) \<Rightarrow> u32" where "SCILV2 = get_bits 0x28B0 0 8"

abbreviation SCIEB :: "machine \<Rightarrow> u32" where "SCIEB s \<equiv> rd32 (regs s) SCIEB_addr"
abbreviation SCIPD :: "machine \<Rightarrow> u32" where "SCIPD s \<equiv> rd32 (regs s) SCIPD_addr"
abbreviation MCIEB :: "machine \<Rightarrow> u32" where "MCIEB s \<equiv> rd32 (regs s) MCIEB_addr"
abbreviation MCIPD :: "machine \<Rightarrow> u32" where "MCIPD s \<equiv> rd32 (regs s) MCIPD_addr"

text \<open>Assignment to a whole interrupt register, and setting one bit of it.\<close>

definition set_word :: "u32 \<Rightarrow> u32 \<Rightarrow> machine \<Rightarrow> machine" where
  "set_word a v s = set_regs (wr32 (regs s) a v) s"

definition set_pd :: "u32 \<Rightarrow> nat \<Rightarrow> machine \<Rightarrow> machine" where
  "set_pd a k s = set_regs (set_bits a k 1 1 (regs s)) s"

subsection \<open>Interrupts\<close>

definition GetL :: "nat \<Rightarrow> (u32 \<Rightarrow> u8) \<Rightarrow> u32" where
  "GetL which m =
     (let which = (if which > 7 then 7 else which);
          b = push_bit which 1;
          rv = (if SCILV0 m AND b \<noteq> 0 then 1 else 0);
          rv = (if SCILV1 m AND b \<noteq> 0 then rv OR 2 else rv)
      in (if SCILV2 m AND b \<noteq> 0 then rv OR 4 else rv))"

text \<open>The loop of \<open>update_arm_interrupts\<close> over the bits \<open>i\<close> to \<open>i + n - 1\<close>.\<close>

fun scan_L :: "nat \<Rightarrow> nat \<Rightarrow> u32 \<Rightarrow> (u32 \<Rightarrow> u8) \<Rightarrow> u32" where
  "scan_L 0 i p_ints m = 0"
| "scan_L (Suc n) i p_ints m = (if p_ints AND push_bit i 1 \<noteq> 0 then GetL i m else scan_L n (Suc i) p_ints m)"

definition update_arm_interrupts :: "machine \<Rightarrow> machine" where
  "update_arm_interrupts s =
     (let p_ints = SCIEB s AND SCIPD s;
          Lval = (if p_ints \<noteq> 0 then scan_L 11 0 p_ints (regs s) else 0)
      in interruptChange p_ints Lval s)"

abbreviation (input) SH4_IRQ_BIT :: u32 where "SH4_IRQ_BIT \<equiv> 2"

definition upd_holly :: "(holly \<Rightarrow> holly) \<Rightarrow> machine \<Rightarrow> machine" where
  "upd_holly f = upd (\<lambda>p. p\<lparr>hly := f (hly p)\<rparr>)"

definition UpdateSh4Ints :: "machine \<Rightarrow> bool \<times> machine" where
  "UpdateSh4Ints s =
     (let p_ints = MCIEB s AND MCIPD s;
          st = SB_ISTEXT (hly (periph s)) AND SH4_IRQ_BIT
      in if p_ints \<noteq> 0 then (True, if st = 0 then upd_holly (asic_RaiseInterrupt holly_SPU_IRQ) s else s)
         else (False, if st \<noteq> 0 then upd_holly (asic_CancelInterrupt holly_SPU_IRQ) s else s))"

subsection \<open>Timers\<close>

definition timer_addr :: "nat \<Rightarrow> u32" where "timer_addr i = 0x2890 + of_nat i * 4"
definition timer_count :: "nat \<Rightarrow> (u32 \<Rightarrow> u8) \<Rightarrow> u32" where "timer_count i = get_bits (timer_addr i) 0 8"
definition timer_md :: "nat \<Rightarrow> (u32 \<Rightarrow> u8) \<Rightarrow> u32" where "timer_md i = get_bits (timer_addr i) 8 3"

definition upd_timer :: "nat \<Rightarrow> (aica_timer \<Rightarrow> aica_timer) \<Rightarrow> machine \<Rightarrow> machine" where
  "upd_timer i f = upd (\<lambda>p. p\<lparr>timers := (timers p)(i := f (timers p i))\<rparr>)"

definition timer_Init :: "nat \<Rightarrow> machine \<Rightarrow> machine" where
  "timer_Init i s =
     (let m = push_bit (unat (timer_md i (regs s))) 1
      in upd_timer i (\<lambda>t. t\<lparr>m_step := m, c_step := m\<rparr>) s)"

text \<open>The body of the loop of \<open>StepTimer\<close>, and the loop: \<open>do \<dots> while (--samples)\<close> on a \<open>u32\<close>.\<close>

definition timer_tick :: "nat \<Rightarrow> machine \<Rightarrow> machine" where
  "timer_tick i s =
     (let s = upd_timer i (\<lambda>t. t\<lparr>c_step := c_step t - 1\<rparr>) s in
      if c_step (timers (periph s) i) = 0 then
        (let s = upd_timer i (\<lambda>t. t\<lparr>c_step := m_step t\<rparr>) s;
             s = set_regs (set_bits (timer_addr i) 0 8 (timer_count i (regs s) + 1) (regs s)) s
         in if timer_count i (regs s) = 0
            then set_pd MCIPD_addr (6 + min i 2) (set_pd SCIPD_addr (6 + min i 2) s)
            else s)
      else s)"

definition StepTimer :: "nat \<Rightarrow> u32 \<Rightarrow> machine \<Rightarrow> machine" where
  "StepTimer i samples = (timer_tick i) ^^ (if samples = 0 then 2 ^ 32 else unat samples)"

definition RegisterWrite :: "nat \<Rightarrow> machine \<Rightarrow> machine" where
  "RegisterWrite i s =
     (let n_step = push_bit (unat (timer_md i (regs s))) 1
      in if n_step \<noteq> m_step (timers (periph s) i)
         then upd_timer i (\<lambda>t. t\<lparr>m_step := n_step, c_step := n_step\<rparr>) s
         else s)"

subsection \<open>MIDI input\<close>

definition midiSend :: "u8 \<Rightarrow> machine \<Rightarrow> machine" where
  "midiSend data s =
     (let s = upd (\<lambda>p. p\<lparr>midiSendBuffer := midiSendBuffer p @ [data]\<rparr>) s;
          s = update_arm_interrupts (set_pd SCIPD_addr 3 s)
      in snd (UpdateSh4Ints (set_pd MCIPD_addr 3 s)))"

subsection \<open>Blank states\<close>

text \<open>The inputs on which examples are evaluated.\<close>

definition channel_zero :: channel where
  "channel_zero = \<lparr>
    ch_SA = 0, ch_CA = 0, ch_step = 0, update_rate = 0, ch_s0 = 0, ch_s1 = 0, loop_LSA = 0, loop_LEA = 0,
    looped = False, last_quant = 0, loopstart_quant = 0, loopstart_prev_sample = 0, in_loop = False,
    noise_state = 0, DLAtt = 0, DRAtt = 0, DSPAtt = 0, DSPOut = 0, StepAEG = EG_Attack, StepFEG = EG_Attack,
    StepStream = (PCM16, False, False), StepStreamInitial = PCM16, AEG_val = 0, AEG_state = EG_Attack,
    AEG_AttackRate = 0, AEG_Decay1Rate = 0, AEG_Decay2Value = 0, AEG_Decay2Rate = 0, AEG_ReleaseRate = 0,
    FEG_value = 0, FEG_state = EG_Attack, FEG_prev1 = 0, FEG_prev2 = 0, FEG_fractSave = 0, FEG_q = 0,
    FEG_AttackRate = 0, FEG_Decay1Rate = 0, FEG_Decay2Rate = 0, FEG_ReleaseRate = 0, FEG_active = False,
    lfo_counter = 0, lfo_start_value = 0, lfo_state = 0, lfo_alfo = 0, lfo_alfo_shft = 0, lfo_plfo_step = 0,
    lfo_plfo_scale = 0, lfo_alfoType = Sawtooth, lfo_plfoType = Sawtooth, lfo_alfo_calc = Sawtooth,
    lfo_plfo_calc = Sawtooth, ch_enabled = False\<rparr>"

definition dsp_zero :: dsp_state where
  "dsp_zero = \<lparr>dsp_TEMP = (\<lambda>_. 0), dsp_MEMS = (\<lambda>_. 0), dsp_MIXS = (\<lambda>_. 0), dsp_RBP = 0, dsp_RBL = 0, MDEC_CT = 1,
     dsp_stopped = True, dsp_dirty = False\<rparr>"

definition aica_zero :: aica where
  "aica_zero = \<lparr>aica_reg = (\<lambda>_. 0), timers = (\<lambda>_. \<lparr>c_step = 1, m_step = 1\<rparr>), midiSendBuffer = [], midiReceiver = False,
     midi_received = [], Chans = (\<lambda>_. channel_zero), dsp = dsp_zero, beep_active = False, beep_att = 256,
     beep_waveIdx = 0, beep_waveStep = 0, cdda_sector = (\<lambda>_. 0), cdda_index = 1176, samples_out = [], VREG = 0,
     ARMRST = 0, rtc_EN = 0, RealTimeClock = 0, hly = holly_reset sh4_zero, crashed = False, races = 0\<rparr>"

definition machine_zero :: machine where
  "machine_zero = \<lparr>reg = (\<lambda>_. 0), armIrqEnable = False, armFiqEnable = False, armMode = 0,
     Arm7Enabled = False, arm7ClockTicks = 0, aica_interr = False, aica_reg_L = 0, e68k_out = False,
     e68k_reg_L = 0, e68k_reg_M = 0, aica_ram = (\<lambda>_. 0), periph = aica_zero\<rparr>"

definition aica_env_zero :: aica_env where
  "aica_env_zero = \<lparr>ARAM_SIZE = 0x200000, ARAM_MASK = 0x1FFFFF, DSPEnabled = True, VmuSound = False, muteAudio = False,
     AEG_ATT_SPS = (\<lambda>_. 0), AEG_DSR_SPS = (\<lambda>_. 0), tl_table = (\<lambda>_. 0), volume_table = (\<lambda>_. 0),
     PLFO_Scales = (\<lambda>_ _. 0), stack_depth = 8\<rparr>"

end
