(* ===== verification/Sgc.thy ===== *)
theory Sgc
  imports Aica_State
begin

unbundle bit_operations_syntax

section \<open>Sound generation: the 64 channels\<close>

text \<open>
  Models \<open>ChannelEx\<close> of \<^verbatim>\<open>core/hw/aica/sgc_if.cpp\<close>.  A method of channel \<open>cn\<close> is a function of the machine that
  updates \<open>Chans cn\<close>; its registers \<open>ccd\<close> are the \<open>0x80\<close> bytes of the register file from \<open>cn * 0x80\<close>.  The
  arithmetic is that of the source: \<open>s32\<close> values as 32-bit words with arithmetic right shifts, widened to 64 bits where
  the code widens.
\<close>

subsection \<open>Channel registers\<close>

definition ccd :: "u32 \<Rightarrow> nat \<Rightarrow> nat \<Rightarrow> nat \<Rightarrow> machine \<Rightarrow> u32" where
  "ccd off lo n cn s = get_bits (of_nat cn * 0x80 + off) lo n (regs s)"

definition set_ccd :: "u32 \<Rightarrow> nat \<Rightarrow> nat \<Rightarrow> u32 \<Rightarrow> nat \<Rightarrow> machine \<Rightarrow> machine" where
  "set_ccd off lo n v cn s = set_regs (set_bits (of_nat cn * 0x80 + off) lo n v (regs s)) s"

definition SA_hi :: "nat \<Rightarrow> machine \<Rightarrow> u32" where "SA_hi cn = ccd 0x00 0 7 cn"
definition PCMS :: "nat \<Rightarrow> machine \<Rightarrow> u32" where "PCMS cn = ccd 0x00 7 2 cn"
definition LPCTL :: "nat \<Rightarrow> machine \<Rightarrow> u32" where "LPCTL cn = ccd 0x00 9 1 cn"
definition SSCTL :: "nat \<Rightarrow> machine \<Rightarrow> u32" where "SSCTL cn = ccd 0x00 10 1 cn"
definition KYONB :: "nat \<Rightarrow> machine \<Rightarrow> u32" where "KYONB cn = ccd 0x00 14 1 cn"
definition KYONEX :: "nat \<Rightarrow> machine \<Rightarrow> u32" where "KYONEX cn = ccd 0x00 15 1 cn"
definition SA_low :: "nat \<Rightarrow> machine \<Rightarrow> u32" where "SA_low cn = ccd 0x04 0 16 cn"
definition LSA :: "nat \<Rightarrow> machine \<Rightarrow> u32" where "LSA cn = ccd 0x08 0 16 cn"
definition LEA :: "nat \<Rightarrow> machine \<Rightarrow> u32" where "LEA cn = ccd 0x0C 0 16 cn"
definition AR :: "nat \<Rightarrow> machine \<Rightarrow> u32" where "AR cn = ccd 0x10 0 5 cn"
definition D1R :: "nat \<Rightarrow> machine \<Rightarrow> u32" where "D1R cn = ccd 0x10 6 5 cn"
definition D2R :: "nat \<Rightarrow> machine \<Rightarrow> u32" where "D2R cn = ccd 0x10 11 5 cn"
definition RR :: "nat \<Rightarrow> machine \<Rightarrow> u32" where "RR cn = ccd 0x14 0 5 cn"
definition DL :: "nat \<Rightarrow> machine \<Rightarrow> u32" where "DL cn = ccd 0x14 5 5 cn"
definition KRS :: "nat \<Rightarrow> machine \<Rightarrow> u32" where "KRS cn = ccd 0x14 10 4 cn"
definition LPSLNK :: "nat \<Rightarrow> machine \<Rightarrow> u32" where "LPSLNK cn = ccd 0x14 14 1 cn"
definition FNS :: "nat \<Rightarrow> machine \<Rightarrow> u32" where "FNS cn = ccd 0x18 0 10 cn"
definition OCT :: "nat \<Rightarrow> machine \<Rightarrow> u32" where "OCT cn = ccd 0x18 11 4 cn"
definition ALFOS :: "nat \<Rightarrow> machine \<Rightarrow> u32" where "ALFOS cn = ccd 0x1C 0 3 cn"
definition ALFOWS :: "nat \<Rightarrow> machine \<Rightarrow> u32" where "ALFOWS cn = ccd 0x1C 3 2 cn"
definition PLFOS :: "nat \<Rightarrow> machine \<Rightarrow> u32" where "PLFOS cn = ccd 0x1C 5 3 cn"
definition PLFOWS :: "nat \<Rightarrow> machine \<Rightarrow> u32" where "PLFOWS cn = ccd 0x1C 8 2 cn"
definition LFOF :: "nat \<Rightarrow> machine \<Rightarrow> u32" where "LFOF cn = ccd 0x1C 10 5 cn"
definition LFORE :: "nat \<Rightarrow> machine \<Rightarrow> u32" where "LFORE cn = ccd 0x1C 15 1 cn"
definition ISEL :: "nat \<Rightarrow> machine \<Rightarrow> u32" where "ISEL cn = ccd 0x20 0 4 cn"
definition IMXL :: "nat \<Rightarrow> machine \<Rightarrow> u32" where "IMXL cn = ccd 0x20 4 4 cn"
definition DIPAN :: "nat \<Rightarrow> machine \<Rightarrow> u32" where "DIPAN cn = ccd 0x24 0 5 cn"
definition DISDL :: "nat \<Rightarrow> machine \<Rightarrow> u32" where "DISDL cn = ccd 0x24 8 4 cn"
definition FEG_Q :: "nat \<Rightarrow> machine \<Rightarrow> u32" where "FEG_Q cn = ccd 0x28 0 5 cn"
definition LPOFF :: "nat \<Rightarrow> machine \<Rightarrow> u32" where "LPOFF cn = ccd 0x28 5 1 cn"
definition VOFF :: "nat \<Rightarrow> machine \<Rightarrow> u32" where "VOFF cn = ccd 0x28 6 1 cn"
definition TL :: "nat \<Rightarrow> machine \<Rightarrow> u32" where "TL cn = ccd 0x28 8 8 cn"
definition FLV0 :: "nat \<Rightarrow> machine \<Rightarrow> u32" where "FLV0 cn = ccd 0x2C 0 13 cn"
definition FLV1 :: "nat \<Rightarrow> machine \<Rightarrow> u32" where "FLV1 cn = ccd 0x30 0 13 cn"
definition FLV2 :: "nat \<Rightarrow> machine \<Rightarrow> u32" where "FLV2 cn = ccd 0x34 0 13 cn"
definition FLV3 :: "nat \<Rightarrow> machine \<Rightarrow> u32" where "FLV3 cn = ccd 0x38 0 13 cn"
definition FLV4 :: "nat \<Rightarrow> machine \<Rightarrow> u32" where "FLV4 cn = ccd 0x3C 0 13 cn"
definition FD1R :: "nat \<Rightarrow> machine \<Rightarrow> u32" where "FD1R cn = ccd 0x40 0 5 cn"
definition FAR :: "nat \<Rightarrow> machine \<Rightarrow> u32" where "FAR cn = ccd 0x40 8 5 cn"
definition FRR :: "nat \<Rightarrow> machine \<Rightarrow> u32" where "FRR cn = ccd 0x44 0 5 cn"
definition FD2R :: "nat \<Rightarrow> machine \<Rightarrow> u32" where "FD2R cn = ccd 0x44 8 5 cn"

abbreviation ch :: "nat \<Rightarrow> machine \<Rightarrow> channel" where
  "ch cn s \<equiv> Chans (periph s) cn"

definition upd_ch :: "nat \<Rightarrow> (channel \<Rightarrow> channel) \<Rightarrow> machine \<Rightarrow> machine" where
  "upd_ch cn f = upd (\<lambda>p. p\<lparr>Chans := (Chans p)(cn := f (Chans p cn))\<rparr>)"

subsection \<open>Fixed-point helpers\<close>

abbreviation (input) sar :: "nat \<Rightarrow> 'a::len word \<Rightarrow> 'a word" where
  "sar \<equiv> signed_drop_bit"

definition clamp :: "int \<Rightarrow> int \<Rightarrow> u32 \<Rightarrow> u32" where
  "clamp lo hi v = (if sint v < lo then word_of_int lo else if hi < sint v then word_of_int hi else v)"

definition FPs :: "u32 \<Rightarrow> nat \<Rightarrow> u32" where "FPs a bits = sar bits a"

text \<open>\<open>FPMul\<close> at the three types it is used with: \<open>s32\<close>, \<open>u32\<close> and, for the \<open>s64\<close> calls, the result cut to \<open>s32\<close>.\<close>

definition FPMul :: "u32 \<Rightarrow> u32 \<Rightarrow> nat \<Rightarrow> u32" where "FPMul a b bits = sar bits (a * b)"
definition FPMul_u :: "u32 \<Rightarrow> u32 \<Rightarrow> nat \<Rightarrow> u32" where "FPMul_u a b bits = drop_bit bits (a * b)"
definition FPMul_64 :: "u32 \<Rightarrow> u32 \<Rightarrow> nat \<Rightarrow> u32" where
  "FPMul_64 a b bits = ucast (sar bits (scast a * scast b :: u64))"

definition SendLevel :: "nat list" where
  "SendLevel = [255, 112, 104, 96, 88, 80, 72, 64, 56, 48, 40, 32, 24, 16, 8, 0]"

definition tl_lut :: "aica_env \<Rightarrow> nat \<Rightarrow> u32" where
  "tl_lut e i = (if i < 256 then tl_table e i else 0)"

definition volume_lut :: "aica_env \<Rightarrow> nat \<Rightarrow> u32" where
  "volume_lut e i = (if i = 0 then 0 else volume_table e i)"

definition adpcm_qs :: "u32 list" where
  "adpcm_qs = [0x0e6, 0x0e6, 0x0e6, 0x0e6, 0x133, 0x199, 0x200, 0x266]"

definition adpcm_scale :: "u32 list" where
  "adpcm_scale = [1, 3, 5, 7, 9, 11, 13, 15, -1, -3, -5, -7, -9, -11, -13, -15]"

definition qtable :: "int list" where
  "qtable = [2048, 1536, 1024, 512, 0, -256, -512, -768, -1024, -1280, -1536, -1792, -2048, -2176, -2304, -2432,
     -2560, -2688, -2816, -2944, -3072, -3136, -3200, -3264, -3328, -3392, -3456, -3520, -3584, -3648, -3712, -3776]"

abbreviation (input) RAND_FACTOR :: u32 where "RAND_FACTOR \<equiv> 0x41c64e6d"
abbreviation (input) RAND_TERM :: u32 where "RAND_TERM \<equiv> 0x3039"

subsection \<open>Envelope states, keys\<close>

definition AEG_GetValue :: "channel \<Rightarrow> u32" where "AEG_GetValue c = sar 16 (AEG_val c)"
definition FEG_GetValue :: "channel \<Rightarrow> u32" where "FEG_GetValue c = drop_bit 16 (FEG_value c)"

definition SetAegState :: "nat \<Rightarrow> EGState \<Rightarrow> machine \<Rightarrow> machine" where
  "SetAegState cn newstate s =
     (let s = upd_ch cn (\<lambda>c. c\<lparr>StepAEG := newstate, AEG_state := newstate\<rparr>) s
      in if newstate = EG_Release then set_ccd 0x00 14 1 0 cn s else s)"

definition SetFegState :: "nat \<Rightarrow> EGState \<Rightarrow> machine \<Rightarrow> machine" where
  "SetFegState cn newstate s =
     (let s = upd_ch cn (\<lambda>c. c\<lparr>StepFEG := newstate, FEG_state := newstate\<rparr>) s
      in if newstate = EG_Attack
         then upd_ch cn (\<lambda>c. c\<lparr>FEG_value := push_bit 16 (FLV0 cn s), FEG_prev1 := 0, FEG_prev2 := 0, FEG_fractSave := 0\<rparr>) s
         else s)"

definition ch_disable :: "nat \<Rightarrow> machine \<Rightarrow> machine" where
  "ch_disable cn s =
     (let s = upd_ch cn (\<lambda>c. c\<lparr>ch_enabled := False\<rparr>) s;
          s = SetAegState cn EG_Release s
      in upd_ch cn (\<lambda>c. c\<lparr>AEG_val := push_bit 16 0x3FF, ch_CA := 0\<rparr>) s)"

subsection \<open>Sample decoding\<close>

definition DecodeADPCM :: "u32 \<Rightarrow> u32 \<Rightarrow> u32 \<Rightarrow> u32 \<times> u32" where
  "DecodeADPCM sample prev quant =
     (let sign = 1 - 2 * (sample div 8);
          data = unat (sample AND 7);
          rv = sar 3 (quant * adpcm_scale ! data);
          rv = (if 0x7FFF < sint rv then 0x7FFF else rv);
          rv = sign * rv + prev;
          quant = sar 8 (quant * adpcm_qs ! data);
          quant = clamp 127 24576 quant
      in (clamp (-32768) 32767 rv, quant))"

definition ram_s16 :: "aica_env \<Rightarrow> u32 \<Rightarrow> machine \<Rightarrow> u32" where
  "ram_s16 e addr s = scast (rd16 (aica_ram s) (addr AND ARAM_MASK e AND NOT 1))"

definition ram_u8 :: "aica_env \<Rightarrow> u32 \<Rightarrow> machine \<Rightarrow> u8" where
  "ram_u8 e addr s = aica_ram s (addr AND ARAM_MASK e)"

definition next_addr :: "u32 \<Rightarrow> channel \<Rightarrow> u32" where
  "next_addr CA c = (let n = CA + 1 in if n \<ge> loop_LEA c \<and> loop_LEA c > loop_LSA c then loop_LSA c else n)"

text \<open>The 4-bit code at sample position \<open>p\<close>.\<close>

definition adpcm_code :: "aica_env \<Rightarrow> u32 \<Rightarrow> u32 \<Rightarrow> machine \<Rightarrow> u32" where
  "adpcm_code e SA p s = ucast (drop_bit (unat (p AND 1) * 4) (ram_u8 e (SA + drop_bit 1 p) s) AND 0xF)"

definition decode_adpcm_step :: "aica_env \<Rightarrow> PCMSType \<Rightarrow> bool \<Rightarrow> u32 \<Rightarrow> nat \<Rightarrow> machine \<Rightarrow> machine" where
  "decode_adpcm_step e fmt Last CA cn s =
     (let c = ch cn s;
          nxt = next_addr CA c;
          ad1 = adpcm_code e (ch_SA c) CA s;
          ad2 = adpcm_code e (ch_SA c) nxt s;
          q = last_quant c;
          (c, q) = (if fmt = ADPCM \<and> CA = loop_LSA c then
                      (if \<not> in_loop c then (c\<lparr>in_loop := True, loopstart_quant := q, loopstart_prev_sample := ch_s0 c\<rparr>, q)
                       else (c\<lparr>ch_s0 := loopstart_prev_sample c\<rparr>, loopstart_quant c))
                    else (c, q));
          (v0, q) = DecodeADPCM ad1 (ch_s0 c) q;
          c = c\<lparr>last_quant := q\<rparr>;
          v1 = (if Last then
                  (if fmt = ADPCM \<and> nxt = loop_LSA c \<and> in_loop c
                   then fst (DecodeADPCM ad2 (loopstart_prev_sample c) (loopstart_quant c))
                   else fst (DecodeADPCM ad2 v0 q))
                else 0)
      in upd_ch cn (\<lambda>_. c\<lparr>ch_s0 := v0, ch_s1 := v1\<rparr>) s)"

definition StepDecodeSample :: "aica_env \<Rightarrow> PCMSType \<Rightarrow> bool \<Rightarrow> u32 \<Rightarrow> nat \<Rightarrow> machine \<Rightarrow> machine" where
  "StepDecodeSample e fmt Last CA cn s =
     (if \<not> Last \<and> (fmt = PCM16 \<or> fmt = PCM8 \<or> fmt = NOISE) then s
      else
        (let c = ch cn s; nxt = next_addr CA c in
         case fmt of
           NOISE \<Rightarrow>
             (let n0 = noise_state c * RAND_FACTOR + RAND_TERM;
                  n1 = n0 * RAND_FACTOR + RAND_TERM
              in upd_ch cn (\<lambda>c. c\<lparr>noise_state := n1, ch_s0 := sar 16 n0, ch_s1 := sar 16 n1\<rparr>) s)
         | PCM16 \<Rightarrow>
             upd_ch cn (\<lambda>c. c\<lparr>ch_s0 := ram_s16 e (ch_SA c + CA * 2) s, ch_s1 := ram_s16 e (ch_SA c + nxt * 2) s\<rparr>) s
         | PCM8 \<Rightarrow>
             upd_ch cn (\<lambda>c. c\<lparr>ch_s0 := push_bit 8 (scast (ram_u8 e (ch_SA c + CA) s)),
                              ch_s1 := push_bit 8 (scast (ram_u8 e (ch_SA c + nxt) s))\<rparr>) s
         | _ \<Rightarrow> decode_adpcm_step e fmt Last CA cn s))"

definition KEY_ON :: "aica_env \<Rightarrow> nat \<Rightarrow> machine \<Rightarrow> machine" where
  "KEY_ON e cn s =
     (if AEG_state (ch cn s) \<noteq> EG_Release then s
      else
        (let s = upd_ch cn (\<lambda>c. c\<lparr>ch_enabled := True\<rparr>) s;
             s = SetAegState cn EG_Attack s;
             s = upd_ch cn (\<lambda>c. c\<lparr>AEG_val := push_bit 16 0x280\<rparr>) s;
             s = SetFegState cn EG_Attack s;
             s = upd_ch cn (\<lambda>c. c\<lparr>ch_CA := 0, ch_step := 0, looped := False, last_quant := 127, loopstart_quant := 0,
                   loopstart_prev_sample := 0, in_loop := False, ch_s0 := 0\<rparr>) s
         in StepDecodeSample e (StepStreamInitial (ch cn s)) True 0 cn s))"

definition KEY_OFF :: "nat \<Rightarrow> machine \<Rightarrow> machine" where
  "KEY_OFF cn s =
     (if AEG_state (ch cn s) = EG_Release then s
      else SetFegState cn EG_Release (SetAegState cn EG_Release s))"

subsection \<open>Register updates\<close>

fun stream_fmt :: "u32 \<Rightarrow> PCMSType" where
  "stream_fmt v = (if v = 0 then PCM16 else if v = 1 then PCM8 else if v = 2 then ADPCM else ADPCM_STREAM)"

fun lfo_type :: "u32 \<Rightarrow> LFOType" where
  "lfo_type v = (if v = 0 then Sawtooth else if v = 1 then Square else if v = 2 then Triangle else Random)"

definition UpdateStreamStep :: "nat \<Rightarrow> machine \<Rightarrow> machine" where
  "UpdateStreamStep cn s =
     (let fmt = (if SSCTL cn s \<noteq> 0 then NOISE else stream_fmt (PCMS cn s))
      in upd_ch cn (\<lambda>c. c\<lparr>StepStream := (fmt, LPCTL cn s \<noteq> 0, LPSLNK cn s \<noteq> 0), StepStreamInitial := fmt\<rparr>) s)"

definition UpdateSA :: "nat \<Rightarrow> machine \<Rightarrow> machine" where
  "UpdateSA cn s =
     (let v = push_bit 16 (SA_hi cn s) OR SA_low cn s
      in upd_ch cn (\<lambda>c. c\<lparr>ch_SA := (if PCMS cn s = 0 then v AND NOT 1 else v)\<rparr>) s)"

definition UpdateLoop :: "nat \<Rightarrow> machine \<Rightarrow> machine" where
  "UpdateLoop cn s = upd_ch cn (\<lambda>c. c\<lparr>loop_LSA := LSA cn s, loop_LEA := LEA cn s\<rparr>) s"

definition EG_EffRate :: "nat \<Rightarrow> u32 \<Rightarrow> machine \<Rightarrow> nat" where
  "EG_EffRate cn rate s =
     (let effrate = rate * 2;
          effrate = (if KRS cn s < 0xF then
             effrate + (drop_bit 9 (FNS cn s) AND 1)
             + word_of_int (max 0 ((uint (KRS cn s) + uint (OCT cn s XOR 8) - 8) * 2))
           else effrate)
      in unat (min effrate 0x3f))"

definition UpdateAEG :: "aica_env \<Rightarrow> nat \<Rightarrow> machine \<Rightarrow> machine" where
  "UpdateAEG e cn s =
     upd_ch cn (\<lambda>c. c\<lparr>AEG_AttackRate := AEG_ATT_SPS e (EG_EffRate cn (AR cn s) s),
       AEG_Decay1Rate := AEG_DSR_SPS e (EG_EffRate cn (D1R cn s) s),
       AEG_Decay2Value := push_bit 5 (DL cn s),
       AEG_Decay2Rate := AEG_DSR_SPS e (EG_EffRate cn (D2R cn s) s),
       AEG_ReleaseRate := AEG_DSR_SPS e (EG_EffRate cn (RR cn s) s)\<rparr>) s"

definition UpdatePitch :: "nat \<Rightarrow> machine \<Rightarrow> machine" where
  "UpdatePitch cn s =
     (let oct = OCT cn s;
          rate = 1024 OR FNS cn s;
          rate = (if oct AND 8 \<noteq> 0 then drop_bit (unat (16 - oct)) rate else push_bit (unat oct) rate)
      in upd_ch cn (\<lambda>c. c\<lparr>update_rate := rate\<rparr>) s)"

text \<open>The value of an oscillator of the given shape, \<open>rv\<close> of \<open>CalcAlfo\<close> and \<open>CalcPlfo\<close>.\<close>

fun lfo_wave :: "LFOType \<Rightarrow> u8 \<Rightarrow> u32" where
  "lfo_wave Sawtooth st = ucast st"
| "lfo_wave Square st = (if st AND 0x80 \<noteq> 0 then 255 else 0)"
| "lfo_wave Triangle st = push_bit 1 (ucast ((st AND 0x7f) XOR (if st AND 0x80 \<noteq> 0 then 0x7F else 0)))"
| "lfo_wave Random st = (ucast st * RAND_FACTOR + RAND_TERM) AND 0xff"

definition CalcAlfo :: "LFOType \<Rightarrow> channel \<Rightarrow> channel" where
  "CalcAlfo ty c = c\<lparr>lfo_alfo := ucast (drop_bit (unat (lfo_alfo_shft c)) (lfo_wave ty (lfo_state c)))\<rparr>"

definition CalcPlfo :: "aica_env \<Rightarrow> LFOType \<Rightarrow> channel \<Rightarrow> channel" where
  "CalcPlfo e ty c =
     c\<lparr>lfo_plfo_step := PLFO_Scales e (lfo_plfo_scale c) (unat (ucast (lfo_wave ty (lfo_state c)) :: u8))\<rparr>"

definition lfo_calc :: "aica_env \<Rightarrow> channel \<Rightarrow> channel" where
  "lfo_calc e c = (let c = CalcAlfo (lfo_alfo_calc c) c in CalcPlfo e (lfo_plfo_calc c) c)"

definition lfo_Step :: "aica_env \<Rightarrow> channel \<Rightarrow> channel" where
  "lfo_Step e c =
     (let c = c\<lparr>lfo_counter := lfo_counter c - 1\<rparr> in
      if lfo_counter c = 0 then lfo_calc e (c\<lparr>lfo_state := lfo_state c + 1, lfo_counter := lfo_start_value c\<rparr>)
      else
        (let c = (if lfo_alfoType c = Random then CalcAlfo (lfo_alfo_calc c) c else c)
         in if lfo_plfoType c = Random then CalcPlfo e (lfo_plfo_calc c) c else c))"

definition lfo_Reset :: "aica_env \<Rightarrow> channel \<Rightarrow> channel" where
  "lfo_Reset e c = lfo_calc e (c\<lparr>lfo_state := 0, lfo_counter := lfo_start_value c\<rparr>)"

text \<open>The period of the oscillator from \<open>LFOF\<close>; \<open>N\<close> to \<open>O\<close> as in the source.\<close>

definition lfo_period :: "u32 \<Rightarrow> u32" where
  "lfo_period N =
     (let S = drop_bit 2 N;
          M = NOT N AND 3;
          G = drop_bit (unat S) 128;
          L = push_bit 2 (G - 1)
      in L + G * (M + 1))"

definition UpdateLFO :: "aica_env \<Rightarrow> bool \<Rightarrow> nat \<Rightarrow> machine \<Rightarrow> machine" where
  "UpdateLFO e derivedState cn s =
     upd_ch cn (\<lambda>c.
       let c = c\<lparr>lfo_alfoType := lfo_type (ALFOWS cn s), lfo_plfoType := lfo_type (PLFOWS cn s)\<rparr>;
           c = (if lfo_alfoType c = Random \<and> lfo_plfoType c = Random then c\<lparr>lfo_start_value := 1, lfo_counter := 1\<rparr>
                else
                  (let c = c\<lparr>lfo_start_value := lfo_period (LFOF cn s)\<rparr>
                   in if \<not> derivedState then c\<lparr>lfo_counter := lfo_period (LFOF cn s)\<rparr> else c));
           c = c\<lparr>lfo_alfo_shft := 8 - ucast (ALFOS cn s), lfo_alfo_calc := lfo_type (ALFOWS cn s),
                 lfo_plfo_calc := lfo_type (PLFOWS cn s), lfo_plfo_scale := unat (PLFOS cn s)\<rparr>
       in if LFORE cn s \<noteq> 0 \<and> \<not> derivedState then lfo_Reset e c else lfo_calc e c) s"

definition UpdateDSPMIX :: "nat \<Rightarrow> machine \<Rightarrow> machine" where
  "UpdateDSPMIX cn s = upd_ch cn (\<lambda>c. c\<lparr>DSPOut := unat (ISEL cn s)\<rparr>) s"

definition UpdateAtts :: "nat \<Rightarrow> machine \<Rightarrow> machine" where
  "UpdateAtts cn s =
     (let total_level = (if VOFF cn s \<noteq> 0 then 0 else TL cn s);
          attFull = total_level + of_nat (SendLevel ! unat (DISDL cn s));
          attPan = attFull + of_nat (SendLevel ! unat (NOT (DIPAN cn s) AND 0xF));
          (l, r') = (if DIPAN cn s AND 0x10 \<noteq> 0 then (attFull, attPan) else (attPan, attFull))
      in upd_ch cn (\<lambda>c. c\<lparr>DLAtt := l, DRAtt := r',
           DSPAtt := total_level + of_nat (SendLevel ! unat (IMXL cn s))\<rparr>) s)"

definition UpdateFEG :: "aica_env \<Rightarrow> nat \<Rightarrow> machine \<Rightarrow> machine" where
  "UpdateFEG e cn s =
     (let active = (LPOFF cn s = 0 \<and> (FLV0 cn s < 0x1ff8 \<or> FLV1 cn s < 0x1ff8 \<or> FLV2 cn s < 0x1ff8
                      \<or> FLV3 cn s < 0x1ff8 \<or> FLV4 cn s < 0x1ff8 \<or> FEG_Q cn s \<noteq> 4));
          s = upd_ch cn (\<lambda>c. c\<lparr>FEG_active := active\<rparr>) s
      in if \<not> active then s
         else upd_ch cn (\<lambda>c. c\<lparr>FEG_q := word_of_int (qtable ! unat (FEG_Q cn s)),
                FEG_AttackRate := AEG_DSR_SPS e (EG_EffRate cn (FAR cn s) s),
                FEG_Decay1Rate := AEG_DSR_SPS e (EG_EffRate cn (FD1R cn s) s),
                FEG_Decay2Rate := AEG_DSR_SPS e (EG_EffRate cn (FD2R cn s) s),
                FEG_ReleaseRate := AEG_DSR_SPS e (EG_EffRate cn (FRR cn s) s)\<rparr>) s)"

definition key_channel :: "aica_env \<Rightarrow> nat \<Rightarrow> machine \<Rightarrow> machine" where
  "key_channel e i s = (if KYONB i s \<noteq> 0 then KEY_ON e i s else KEY_OFF i s)"

definition RegWrite :: "aica_env \<Rightarrow> nat \<Rightarrow> u32 \<Rightarrow> nat \<Rightarrow> machine \<Rightarrow> machine" where
  "RegWrite e cn offset sz s =
     (if offset = 0x00 \<or> offset = 0x01 then
        (let s = UpdateStreamStep cn s;
             s = (if offset = 0 \<or> sz = 2 then UpdateSA cn s else s)
         in if (offset = 1 \<or> sz = 2) \<and> KYONEX cn s \<noteq> 0
            then fold (key_channel e) [0..<64] (set_ccd 0x00 15 1 0 cn s)
            else s)
      else if offset = 0x04 \<or> offset = 0x05 then UpdateSA cn s
      else if offset = 0x08 \<or> offset = 0x09 \<or> offset = 0x0C \<or> offset = 0x0D then UpdateLoop cn s
      else if offset = 0x10 \<or> offset = 0x11 then UpdateAEG e cn s
      else if offset = 0x14 \<or> offset = 0x15 then UpdateAEG e cn (UpdateStreamStep cn s)
      else if offset = 0x18 \<or> offset = 0x19 then UpdateFEG e cn (UpdateAEG e cn (UpdatePitch cn s))
      else if offset = 0x1C \<or> offset = 0x1D then UpdateLFO e False cn s
      else if offset = 0x20 then UpdateAtts cn (UpdateDSPMIX cn s)
      else if offset = 0x24 \<or> offset = 0x25 then UpdateAtts cn s
      else if offset = 0x28 \<or> offset = 0x29 then
        UpdateAtts cn (if sz = 2 \<or> offset = 0x28 then UpdateFEG e cn s else s)
      else if offset \<in> {0x2C, 0x2D, 0x30, 0x31, 0x34, 0x35, 0x38, 0x39, 0x3C, 0x3D, 0x40, 0x41, 0x44, 0x45}
        then UpdateFEG e cn s
      else s)"

definition ch_Init :: "aica_env \<Rightarrow> nat \<Rightarrow> machine \<Rightarrow> machine" where
  "ch_Init e cn s = ch_disable cn (fold (\<lambda>i. RegWrite e cn (of_nat (2 * i)) 2) [0..<0x40] s)"

definition initAll :: "aica_env \<Rightarrow> machine \<Rightarrow> machine" where
  "initAll e s = fold (ch_Init e) [0..<64] s"

subsection \<open>Envelope and stream steps\<close>

definition AegStep :: "EGState \<Rightarrow> nat \<Rightarrow> machine \<Rightarrow> machine" where
  "AegStep st cn s =
     (let c = ch cn s in
      case st of
        EG_Attack \<Rightarrow>
          if AEG_AttackRate c \<noteq> 0 then
            (let v = ucast (scast (AEG_val c) - (push_bit 16 (scast (AEG_val c)) div ucast (AEG_AttackRate c) + 1) :: u64);
                 s = upd_ch cn (\<lambda>c. c\<lparr>AEG_val := v\<rparr>) s
             in if sint (AEG_GetValue (ch cn s)) \<le> 0 then
                  upd_ch cn (\<lambda>c. c\<lparr>AEG_val := 0\<rparr>) (if LPSLNK cn s = 0 then SetAegState cn EG_Decay1 s else s)
                else s)
          else s
      | EG_Decay1 \<Rightarrow>
          (let s = upd_ch cn (\<lambda>c. c\<lparr>AEG_val := AEG_val c + AEG_Decay1Rate c\<rparr>) s
           in if AEG_GetValue (ch cn s) \<ge> AEG_Decay2Value (ch cn s) then SetAegState cn EG_Decay2 s else s)
      | EG_Decay2 \<Rightarrow>
          (let s = upd_ch cn (\<lambda>c. c\<lparr>AEG_val := AEG_val c + AEG_Decay2Rate c\<rparr>) s
           in if sint (AEG_GetValue (ch cn s)) \<ge> 0x3FF
              then SetAegState cn EG_Release (upd_ch cn (\<lambda>c. c\<lparr>AEG_val := push_bit 16 0x3FF\<rparr>) s)
              else s)
      | EG_Release \<Rightarrow>
          (let s = upd_ch cn (\<lambda>c. c\<lparr>AEG_val := AEG_val c + AEG_ReleaseRate c\<rparr>) s
           in if sint (AEG_GetValue (ch cn s)) \<ge> 0x3FF then ch_disable cn s else s))"

definition feg_move :: "u32 \<Rightarrow> u32 \<Rightarrow> u32 \<Rightarrow> u32" where
  "feg_move v target delta =
     (if v < target then (let maxd = target - v in v + (if delta > maxd then maxd else delta))
      else (let maxd = v - target in v - (if delta > maxd then maxd else delta)))"

fun next_eg :: "EGState \<Rightarrow> EGState" where
  "next_eg EG_Attack = EG_Decay1" | "next_eg EG_Decay1 = EG_Decay2" | "next_eg EG_Decay2 = EG_Release" | "next_eg EG_Release = EG_Release"

definition FegStep :: "EGState \<Rightarrow> nat \<Rightarrow> machine \<Rightarrow> machine" where
  "FegStep st cn s =
     (let c = ch cn s in
      if \<not> FEG_active c then s
      else
        (let (delta, target) = (case st of
               EG_Attack \<Rightarrow> (FEG_AttackRate c, FLV1 cn s)
             | EG_Decay1 \<Rightarrow> (FEG_Decay1Rate c, FLV2 cn s)
             | EG_Decay2 \<Rightarrow> (FEG_Decay2Rate c, FLV3 cn s)
             | EG_Release \<Rightarrow> (FEG_ReleaseRate c, FLV4 cn s));
             target = push_bit 16 target
         in if FEG_value c \<noteq> target then upd_ch cn (\<lambda>c. c\<lparr>FEG_value := feg_move (FEG_value c) target delta\<rparr>) s
            else if FEG_state c = EG_Attack \<or> FEG_state c = EG_Decay1 then SetFegState cn (next_eg (FEG_state c)) s
            else s))"

text \<open>One turn of the loop of \<open>StreamStep\<close>; \<open>n\<close> is \<open>sp.ip\<close> after its decrement.\<close>

definition stream_turn :: "aica_env \<Rightarrow> PCMSType \<Rightarrow> bool \<Rightarrow> bool \<Rightarrow> nat \<Rightarrow> nat \<Rightarrow> machine \<Rightarrow> machine" where
  "stream_turn e fmt lpctl lpslnk n cn s =
     (let CA = ch_CA (ch cn s) + 1;
          ca_t = (if fmt = ADPCM_STREAM then CA AND NOT 3 else CA);
          s = (if lpslnk \<and> AEG_state (ch cn s) = EG_Attack \<and> CA \<ge> loop_LSA (ch cn s) then SetAegState cn EG_Decay1 s else s);
          c = ch cn s;
          (CA, s) =
            (if ca_t \<ge> loop_LEA c then
               (if loop_LSA c > loop_LEA c then
                  (if ca_t \<ge> loop_LSA c then (0, ch_disable cn (upd_ch cn (\<lambda>c. c\<lparr>looped := True\<rparr>) s)) else (CA, s))
                else
                  (let s = upd_ch cn (\<lambda>c. c\<lparr>looped := True\<rparr>) s
                   in if \<not> lpctl then (0, ch_disable cn s) else (loop_LSA c, s)))
             else (CA, s));
          s = upd_ch cn (\<lambda>c. c\<lparr>ch_CA := CA\<rparr>) s
      in StepDecodeSample e fmt (n = 0) CA cn s)"

fun stream_loop :: "aica_env \<Rightarrow> PCMSType \<Rightarrow> bool \<Rightarrow> bool \<Rightarrow> nat \<Rightarrow> nat \<Rightarrow> machine \<Rightarrow> machine" where
  "stream_loop e fmt lpctl lpslnk 0 cn s = s"
| "stream_loop e fmt lpctl lpslnk (Suc n) cn s = stream_loop e fmt lpctl lpslnk n cn (stream_turn e fmt lpctl lpslnk n cn s)"

definition StreamStep :: "aica_env \<Rightarrow> PCMSType \<Rightarrow> bool \<Rightarrow> bool \<Rightarrow> nat \<Rightarrow> machine \<Rightarrow> machine" where
  "StreamStep e fmt lpctl lpslnk cn s =
     (let c = ch cn s;
          sp = ch_step c + FPMul_u (update_rate c) (lfo_plfo_step c) 10;
          s = upd_ch cn (\<lambda>c. c\<lparr>ch_step := sp AND 0x3FF\<rparr>) s
      in stream_loop e fmt lpctl lpslnk (unat (drop_bit 10 sp)) cn s)"

subsection \<open>The output of a channel\<close>

definition InterpolateSample :: "channel \<Rightarrow> u32" where
  "InterpolateSample c =
     (let fp = ch_step c AND 0x3FF
      in FPMul (ch_s0 c) (1024 - fp) 10 + FPMul (ch_s1 c) fp 10)"

text \<open>Division of a signed 64-bit value by a positive constant, rounding towards zero.\<close>

definition tdiv :: "u64 \<Rightarrow> int \<Rightarrow> u64" where
  "tdiv a d = word_of_int (if sint a < 0 then - ((- sint a) div d) else sint a div d)"

definition lowPassFilter :: "u32 \<Rightarrow> channel \<Rightarrow> u32 \<times> channel" where
  "lowPassFilter sample c =
     (if \<not> FEG_active c then (sample, c)
      else
        (let fv = FEG_GetValue c;
             ex = drop_bit 9 fv;
             mant = (fv AND 0x1FF) OR 0x200;
             a0 = drop_bit (unat ((15 - ex) * 2)) (push_bit 30 (ucast mant :: u64));
             a0 = a0 * ucast ((mant - 1) div 8);
             a0 = drop_bit 17 a0;
             f = push_bit 5 (push_bit (unat ex) (ucast mant :: u64));
             f = f + tdiv (scast (FEG_q c) * f) 4096;
             b1 = 128 * 1024 * push_bit 14 1 - (f + a0);
             b2 = 64 * 1024 * push_bit 14 1 - f;
             c = (if ex = 0 then c\<lparr>FEG_fractSave := 0\<rparr> else c);
             mac = (- a0) * scast sample + b1 * scast (FEG_prev1 c) - b2 * scast (FEG_prev2 c) - scast (FEG_fractSave c);
             sample = ucast (sar 30 mac);
             c = c\<lparr>FEG_fractSave := ucast (push_bit 30 (scast sample) - mac), FEG_prev2 := FEG_prev1 c\<rparr>;
             sample = clamp (- 524288) 524287 sample
         in (sample, c\<lparr>FEG_prev1 := sample\<rparr>)))"

text \<open>The attenuation of a channel, \<open>ofsatt\<close>, and one of its three outputs.\<close>

definition ch_ofsatt :: "nat \<Rightarrow> machine \<Rightarrow> u32" where
  "ch_ofsatt cn s =
     (if VOFF cn s = 1 then 0
      else min (ucast (lfo_alfo (ch cn s)) + sar 2 (AEG_GetValue (ch cn s))) 255)"

definition att_index :: "u32 \<Rightarrow> u32 \<Rightarrow> nat" where
  "att_index ofsatt att = unat ofsatt + unat (min att (255 - ofsatt))"

definition ch_Step :: "aica_env \<Rightarrow> nat \<Rightarrow> machine \<Rightarrow> (u32 \<times> u32 \<times> u32) \<times> machine" where
  "ch_Step e cn s =
     (if \<not> ch_enabled (ch cn s) then ((0, 0, 0), s)
      else
        (let sample = push_bit 4 (InterpolateSample (ch cn s));
             (sample, c) = lowPassFilter sample (ch cn s);
             s = upd_ch cn (\<lambda>_. c) s;
             ofsatt = ch_ofsatt cn s;
             oLeft = FPMul_64 sample (tl_lut e (att_index ofsatt (DLAtt c))) 19;
             oRight = FPMul_64 sample (tl_lut e (att_index ofsatt (DRAtt c))) 19;
             oDsp = FPMul_64 sample (tl_lut e (att_index ofsatt (DSPAtt c))) 15;
             s = AegStep (StepAEG c) cn s;
             s = (if ch_enabled (ch cn s) then
                    (let s = FegStep (StepFEG (ch cn s)) cn s;
                         s = (case StepStream (ch cn s) of (fmt, lpctl, lpslnk) \<Rightarrow> StreamStep e fmt lpctl lpslnk cn s)
                     in upd_ch cn (lfo_Step e) s)
                  else s)
         in ((oLeft, oRight, oDsp), s)))"

definition set_MIXS :: "nat \<Rightarrow> u32 \<Rightarrow> machine \<Rightarrow> machine" where
  "set_MIXS i v = upd (\<lambda>p. p\<lparr>dsp := (dsp p)\<lparr>dsp_MIXS := (dsp_MIXS (dsp p))(i := v)\<rparr>\<rparr>)"

definition ch_Step_mix :: "aica_env \<Rightarrow> nat \<Rightarrow> (u32 \<times> u32) \<times> machine \<Rightarrow> (u32 \<times> u32) \<times> machine" where
  "ch_Step_mix e cn = (\<lambda>((mixl, mixr), s).
     (let ((oLeft, oRight, oDsp), s) = ch_Step e cn s;
          i = DSPOut (ch cn s);
          s = set_MIXS i (dsp_MIXS (dsp (periph s)) i + oDsp) s;
          (oLeft, oRight) = (if oLeft + oRight = 0 \<and> \<not> DSPEnabled e then (sar 4 oDsp, sar 4 oDsp) else (oLeft, oRight))
      in ((mixl + oLeft, mixr + oRight), s)))"

definition StepAll :: "aica_env \<Rightarrow> (u32 \<times> u32) \<times> machine \<Rightarrow> (u32 \<times> u32) \<times> machine" where
  "StepAll e x = fold (ch_Step_mix e) [0..<64] x"

end
