(* ===== verification/Dsp.thy ===== *)
theory Dsp
  imports Sgc
begin

unbundle bit_operations_syntax

section \<open>The AICA's DSP\<close>

text \<open>
  Models \<^verbatim>\<open>core/hw/aica/dsp.cpp\<close> and the interpreter \<^verbatim>\<open>core/hw/aica/dsp_interp.cpp\<close>: the 16-bit floating-point
  format of the delay memory (\<open>PACK\<close>, \<open>UNPACK\<close>), the instruction decoder, and one pass over the 128 steps of the
  program.  The local variables of \<open>runStep\<close> are the record \<open>dsp_regs\<close>; the loop is a fold over the steps.
\<close>

subsection \<open>Packed samples\<close>

text \<open>The loop of \<open>PACK\<close>, with \<open>n\<close> turns left.\<close>

fun pack_exponent :: "nat \<Rightarrow> u32 \<Rightarrow> nat" where
  "pack_exponent 0 temp = 0"
| "pack_exponent (Suc n) temp = (if temp AND 0x800000 \<noteq> 0 then 0 else Suc (pack_exponent n (push_bit 1 temp)))"

definition PACK :: "u32 \<Rightarrow> u16" where
  "PACK val =
     (let sign = sar 23 val AND 1;
          temp = (val XOR push_bit 1 val) AND 0xFFFFFF;
          exponent = pack_exponent 12 temp;
          val = (if exponent < 12 then push_bit exponent val else push_bit 11 val);
          val = sar 11 val AND 0x7FF;
          val = val OR push_bit 15 sign;
          val = val OR push_bit 11 (of_nat exponent)
      in ucast val)"

definition UNPACK :: "u16 \<Rightarrow> u32" where
  "UNPACK val =
     (let sign = drop_bit 15 (ucast val :: u32) AND 1;
          exponent = drop_bit 11 (ucast val :: u32) AND 0xF;
          mantissa = ucast val AND 0x7FF;
          uval = push_bit 11 mantissa;
          uval = uval OR push_bit 22 sign;
          (exponent, uval) = (if exponent > 11 then (11, uval) else (exponent, uval XOR push_bit 22 1));
          uval = uval OR push_bit 23 sign;
          uval = sar 8 (push_bit 8 uval)
      in sar (unat exponent) uval)"

subsection \<open>Instructions\<close>

record Instruction =
  i_TRA :: u32
  i_TWT :: bool
  i_TWA :: u32
  i_XSEL :: bool
  i_YSEL :: u32
  i_IRA :: u32
  i_IWT :: bool
  i_IWA :: u32
  i_TABLE :: bool
  i_MWT :: bool
  i_MRD :: bool
  i_EWT :: bool
  i_EWA :: u32
  i_ADRL :: bool
  i_FRCL :: bool
  i_SHIFT :: u32
  i_YRL :: bool
  i_NEGB :: bool
  i_ZERO :: bool
  i_BSEL :: bool
  i_NOFL :: bool
  i_MASA :: u32
  i_ADREB :: bool
  i_NXADR :: bool

definition DecodeInst :: "u32 \<Rightarrow> u32 \<Rightarrow> u32 \<Rightarrow> u32 \<Rightarrow> Instruction" where
  "DecodeInst p0 p1 p2 p3 =
     \<lparr>i_TRA = drop_bit 9 p0 AND 0x7F, i_TWT = (p0 AND 0x100 \<noteq> 0), i_TWA = drop_bit 1 p0 AND 0x7F,
      i_XSEL = (p1 AND 0x8000 \<noteq> 0), i_YSEL = drop_bit 13 p1 AND 3, i_IRA = drop_bit 7 p1 AND 0x3F,
      i_IWT = (p1 AND 0x40 \<noteq> 0), i_IWA = drop_bit 1 p1 AND 0x1F,
      i_TABLE = (p2 AND 0x8000 \<noteq> 0), i_MWT = (p2 AND 0x4000 \<noteq> 0), i_MRD = (p2 AND 0x2000 \<noteq> 0),
      i_EWT = (p2 AND 0x1000 \<noteq> 0), i_EWA = drop_bit 8 p2 AND 0x0F, i_ADRL = (p2 AND 0x80 \<noteq> 0),
      i_FRCL = (p2 AND 0x40 \<noteq> 0), i_SHIFT = drop_bit 4 p2 AND 3, i_YRL = (p2 AND 8 \<noteq> 0),
      i_NEGB = (p2 AND 4 \<noteq> 0), i_ZERO = (p2 AND 2 \<noteq> 0), i_BSEL = (p2 AND 1 \<noteq> 0),
      i_NOFL = (p3 AND 0x8000 \<noteq> 0), i_MASA = drop_bit 9 p3 AND 0x3f, i_ADREB = (p3 AND 0x100 \<noteq> 0),
      i_NXADR = (p3 AND 0x80 \<noteq> 0)\<rparr>"

text \<open>The arrays of \<open>DSPData\<close>.\<close>

definition DSP_COEF :: "nat \<Rightarrow> machine \<Rightarrow> u32" where "DSP_COEF i s = rd32 (regs s) (0x3000 + of_nat i * 4)"
definition DSP_MADRS :: "nat \<Rightarrow> machine \<Rightarrow> u32" where "DSP_MADRS i s = rd32 (regs s) (0x3200 + of_nat i * 4)"
definition DSP_MPRO :: "nat \<Rightarrow> machine \<Rightarrow> u32" where "DSP_MPRO i s = rd32 (regs s) (0x3400 + of_nat i * 4)"
definition DSP_EFREG :: "nat \<Rightarrow> machine \<Rightarrow> u32" where "DSP_EFREG i s = rd32 (regs s) (0x4580 + of_nat i * 4)"
definition DSP_EXTS :: "nat \<Rightarrow> machine \<Rightarrow> u32" where "DSP_EXTS i s = rd32 (regs s) (0x45C0 + of_nat i * 4)"

definition upd_dsp :: "(dsp_state \<Rightarrow> dsp_state) \<Rightarrow> machine \<Rightarrow> machine" where
  "upd_dsp f = upd (\<lambda>p. p\<lparr>dsp := f (dsp p)\<rparr>)"

subsection \<open>One pass of the program\<close>

record dsp_regs =
  ACC :: u32
  SHIFTED :: u32
  dX :: u32
  dY :: u32
  dB :: u32
  INPUTS :: u32
  MEMVAL :: "nat \<Rightarrow> u32"
  FRC_REG :: u32
  Y_REG :: u32
  ADRS_REG :: u32

abbreviation dstate :: "machine \<Rightarrow> dsp_state" where "dstate s \<equiv> dsp (periph s)"

text \<open>The product of \<open>X\<close> and \<open>Y\<close>, taken at 64 bits, and the sum that goes back into the 32-bit accumulator.\<close>

definition mul_add :: "u32 \<Rightarrow> u32 \<Rightarrow> u32 \<Rightarrow> u32" where
  "mul_add x y b = ucast (sar 12 (scast x * scast y :: u64) + scast b)"

definition temp_at :: "u32 \<Rightarrow> machine \<Rightarrow> u32" where
  "temp_at a s = dsp_TEMP (dstate s) (unat ((a + MDEC_CT (dstate s)) AND 0x7F))"

definition dsp_inputs :: "Instruction \<Rightarrow> machine \<Rightarrow> u32" where
  "dsp_inputs i s =
     (if i_IRA i \<le> 0x1f then dsp_MEMS (dstate s) (unat (i_IRA i))
      else if i_IRA i \<le> 0x2F then push_bit 4 (dsp_MIXS (dstate s) (unat (i_IRA i - 0x20)))
      else if i_IRA i \<le> 0x31 then push_bit 8 (DSP_EXTS (unat (i_IRA i - 0x30)) s)
      else 0)"

definition dsp_shifter :: "u32 \<Rightarrow> u32 \<Rightarrow> u32" where
  "dsp_shifter shift acc =
     (let v = (if shift = 0 \<or> shift = 3 then acc else push_bit 1 acc)
      in if shift < 2 then clamp (- 0x800000) 0x7FFFFF v else v)"

definition dsp_addr :: "Instruction \<Rightarrow> u32 \<Rightarrow> machine \<Rightarrow> u32" where
  "dsp_addr i adrs s =
     (let ADDR = DSP_MADRS (unat (i_MASA i)) s;
          ADDR = (if i_ADREB i then ADDR + (adrs AND 0x0FFF) else ADDR);
          ADDR = (if i_NXADR i then ADDR + 1 else ADDR);
          ADDR = (if \<not> i_TABLE i then (ADDR + MDEC_CT (dstate s)) AND dsp_RBL (dstate s) else ADDR AND 0xFFFF)
      in push_bit 1 ADDR + dsp_RBP (dstate s))"

definition dsp_memory :: "aica_env \<Rightarrow> nat \<Rightarrow> Instruction \<Rightarrow> dsp_regs \<times> machine \<Rightarrow> dsp_regs \<times> machine" where
  "dsp_memory e stp i = (\<lambda>(d, s).
     if odd stp \<and> (i_MRD i \<or> i_MWT i) then
       (let ADDR = dsp_addr i (ADRS_REG d) s;
            d = (if i_MRD i then d\<lparr>MEMVAL := (MEMVAL d)((stp + 2) mod 4 := UNPACK (rd16 (aica_ram s) (ADDR AND ARAM_MASK e)))\<rparr> else d);
            s = (if i_MWT i then s\<lparr>aica_ram := wr16 (aica_ram s) (ADDR AND ARAM_MASK e) (PACK (SHIFTED d))\<rparr> else s)
        in (d, s))
     else (d, s))"

definition dsp_instruction :: "aica_env \<Rightarrow> nat \<Rightarrow> Instruction \<Rightarrow> dsp_regs \<times> machine \<Rightarrow> dsp_regs \<times> machine" where
  "dsp_instruction e stp i = (\<lambda>(d, s).
     (let d = d\<lparr>INPUTS := dsp_inputs i s\<rparr>;
          s = (if i_IWT i then upd_dsp (\<lambda>t. t\<lparr>dsp_MEMS := (dsp_MEMS t)(unat (i_IWA i) := MEMVAL d (stp mod 4))\<rparr>) s else s);
          d = (if \<not> i_ZERO i then
                 (let b = (if i_BSEL i then ACC d else temp_at (i_TRA i) s)
                  in d\<lparr>dB := (if i_NEGB i then - b else b)\<rparr>)
               else d\<lparr>dB := 0\<rparr>);
          d = d\<lparr>dX := (if i_XSEL i then INPUTS d else temp_at (i_TRA i) s)\<rparr>;
          d = d\<lparr>dY := (if i_YSEL i = 0 then FRC_REG d
                       else if i_YSEL i = 1 then sar 3 (scast (ucast (DSP_COEF stp s) :: u16))
                       else if i_YSEL i = 2 then sar 11 (Y_REG d)
                       else sar 4 (Y_REG d) AND 0x0FFF)\<rparr>;
          d = (if i_YRL i then d\<lparr>Y_REG := INPUTS d\<rparr> else d);
          d = d\<lparr>SHIFTED := dsp_shifter (i_SHIFT i) (ACC d)\<rparr>;
          d = d\<lparr>ACC := mul_add (dX d) (dY d) (dB d)\<rparr>;
          s = (if i_TWT i then upd_dsp (\<lambda>t. t\<lparr>dsp_TEMP := (dsp_TEMP t)(unat ((i_TWA i + MDEC_CT t) AND 0x7F) := SHIFTED d)\<rparr>) s else s);
          d = (if i_FRCL i then d\<lparr>FRC_REG := (if i_SHIFT i = 3 then SHIFTED d AND 0x0FFF else sar 11 (SHIFTED d))\<rparr> else d);
          (d, s) = dsp_memory e stp i (d, s);
          d = (if i_ADRL i then d\<lparr>ADRS_REG := (if i_SHIFT i = 3 then sar 12 (SHIFTED d) else sar 16 (INPUTS d))\<rparr> else d);
          s = (if i_EWT i then set_regs (wr32 (regs s) (0x4580 + i_EWA i * 4) (sar 8 (SHIFTED d))) s else s)
      in (d, s)))"

definition dsp_empty :: "dsp_regs \<times> machine \<Rightarrow> dsp_regs \<times> machine" where
  "dsp_empty = (\<lambda>(d, s).
     (let x = dsp_TEMP (dstate s) (unat (MDEC_CT (dstate s) AND 0x7F));
          y = FRC_REG d
      in (d\<lparr>dX := x, dY := y, ACC := mul_add x y x\<rparr>, s)))"

definition dsp_one :: "aica_env \<Rightarrow> nat \<Rightarrow> dsp_regs \<times> machine \<Rightarrow> dsp_regs \<times> machine" where
  "dsp_one e stp ds =
     (let s = snd ds;
          p0 = DSP_MPRO (stp * 4) s; p1 = DSP_MPRO (stp * 4 + 1) s;
          p2 = DSP_MPRO (stp * 4 + 2) s; p3 = DSP_MPRO (stp * 4 + 3) s
      in if p0 = 0 \<and> p1 = 0 \<and> p2 = 0 \<and> p3 = 0 then dsp_empty ds
         else dsp_instruction e stp (DecodeInst p0 p1 p2 p3) ds)"

definition dsp_regs0 :: dsp_regs where
  "dsp_regs0 = \<lparr>ACC = 0, SHIFTED = 0, dX = 0, dY = 0, dB = 0, INPUTS = 0, MEMVAL = (\<lambda>_. 0),
     FRC_REG = 0, Y_REG = 0, ADRS_REG = 0\<rparr>"

definition runStep :: "aica_env \<Rightarrow> machine \<Rightarrow> machine" where
  "runStep e s =
     (if dsp_stopped (dstate s) then s
      else
        (let (d, s) = fold (dsp_one e) [0..<128] (dsp_regs0, s);
             s = upd_dsp (\<lambda>t. t\<lparr>MDEC_CT := MDEC_CT t - 1\<rparr>) s
         in if MDEC_CT (dstate s) = 0 then upd_dsp (\<lambda>t. t\<lparr>MDEC_CT := dsp_RBL t + 1\<rparr>) s else s))"

definition writeProg :: "u32 \<Rightarrow> machine \<Rightarrow> machine" where
  "writeProg addr s = (if addr \<ge> 0x3400 \<and> addr < 0x3C00 then upd_dsp (\<lambda>t. t\<lparr>dsp_dirty := True\<rparr>) s else s)"

definition dsp_init :: "machine \<Rightarrow> machine" where
  "dsp_init = upd_dsp (\<lambda>_. \<lparr>dsp_TEMP = (\<lambda>_. 0), dsp_MEMS = (\<lambda>_. 0), dsp_MIXS = (\<lambda>_. 0), dsp_RBP = 0,
     dsp_RBL = 0x8000 - 1, MDEC_CT = 1, dsp_stopped = False, dsp_dirty = True\<rparr>)"

definition dsp_step :: "aica_env \<Rightarrow> machine \<Rightarrow> machine" where
  "dsp_step e s =
     (let s = (if dsp_dirty (dstate s) then
                 upd_dsp (\<lambda>t. t\<lparr>dsp_dirty := False, dsp_stopped := (\<forall>i \<in> set [0..<512]. DSP_MPRO i s = 0)\<rparr>) s
               else s)
      in if dsp_stopped (dstate s) then s else runStep e s)"

end
