(* ===== verification/Aica.thy ===== *)
theory Aica
  imports Dsp
begin

unbundle bit_operations_syntax

section \<open>The AICA's register interface, DMA, mixer and clock\<close>

text \<open>
  Models the rest of \<^verbatim>\<open>core/hw/aica/aica.cpp\<close>, \<^verbatim>\<open>core/hw/aica/aica_mem.cpp\<close>, the register and RTC part of
  \<^verbatim>\<open>core/hw/aica/aica_if.cpp\<close>, and the mixer of \<^verbatim>\<open>core/hw/aica/sgc_if.cpp\<close>.

  A write to \<open>0x288C\<close> starts the internal DMA, which writes registers and so may write \<open>0x288C\<close> again: the C++ functions
  recurse.  The model gives them the depth of the host stack as a bound; when it is used up the process dies, which the
  state records in \<open>crashed\<close>.  The two samples per tick of the CD audio come from \<open>cdda_sector\<close>, refilled by the drive;
  the new sector is an argument of \<open>AICA_Sample\<close>.  Bytes handed to the MIDI receiver and samples handed to the audio
  stream are appended to lists.
\<close>

subsection \<open>The real-time clock\<close>

definition readRtcReg :: "msize \<Rightarrow> u32 \<Rightarrow> machine \<Rightarrow> u32" where
  "readRtcReg T addr s =
     (let a = addr AND 0xFF; t = RealTimeClock (periph s) in
      if a = 0 then cast T (drop_bit 16 t)
      else if a = 4 then cast T (t AND 0xFFFF)
      else 0)"

definition writeRtcReg :: "u32 \<Rightarrow> u32 \<Rightarrow> machine \<Rightarrow> machine" where
  "writeRtcReg addr data s =
     (let a = addr AND 0xFF in
      if a = 0 then
        (if rtc_EN (periph s) \<noteq> 0 then
           upd (\<lambda>p. p\<lparr>RealTimeClock := (RealTimeClock p AND 0xFFFF) OR push_bit 16 (data AND 0xFFFF), rtc_EN := 0\<rparr>) s
         else s)
      else if a = 4 then
        (if rtc_EN (periph s) \<noteq> 0 then
           upd (\<lambda>p. p\<lparr>RealTimeClock := (RealTimeClock p AND 0xFFFF0000) OR (data AND 0xFFFF)\<rparr>) s
         else s)
      else if a = 8 then upd (\<lambda>p. p\<lparr>rtc_EN := data AND 1\<rparr>) s
      else s)"

definition DreamcastSecond :: "machine \<Rightarrow> machine" where
  "DreamcastSecond = upd (\<lambda>p. p\<lparr>RealTimeClock := RealTimeClock p + 1\<rparr>)"

subsection \<open>Reading registers\<close>

definition set_common :: "u32 \<Rightarrow> nat \<Rightarrow> nat \<Rightarrow> u32 \<Rightarrow> machine \<Rightarrow> machine" where
  "set_common a lo n v s = set_regs (set_bits a lo n v (regs s)) s"

fun eg_number :: "EGState \<Rightarrow> u32" where
  "eg_number EG_Attack = 0" | "eg_number EG_Decay1 = 1" | "eg_number EG_Decay2 = 2" | "eg_number EG_Release = 3"

definition ReadCommonReg :: "u32 \<Rightarrow> bool \<Rightarrow> machine \<Rightarrow> machine" where
  "ReadCommonReg r8 byte s =
     (if r8 = 0x2808 \<or> r8 = 0x2809 then
        (let s = (case midiSendBuffer (periph s) of
              b # bs \<Rightarrow>
                (let s = (if \<not> byte \<or> r8 = 0x2808
                          then upd (\<lambda>p. p\<lparr>midiSendBuffer := bs\<rparr>) (set_common 0x2808 0 8 (ucast b) s) else s)
                 in set_common 0x2808 9 1 1 (set_common 0x2808 8 1 0 s))
            | [] \<Rightarrow> set_common 0x2808 9 1 0 (set_common 0x2808 8 1 1 s))
         in set_common 0x2808 12 1 0 (set_common 0x2808 11 1 1 (set_common 0x2808 10 1 0 s)))
      else if r8 = 0x2810 \<or> r8 = 0x2811 then
        (let cn = unat (MSLC (regs s));
             c = ch cn s;
             s = set_common 0x2810 15 1 (of_bool (looped c)) s;
             aeg = AEG_GetValue c;
             s = set_common 0x2810 0 13 (if 0x3BF < sint aeg then 0x1FFF else aeg) s;
             s = set_common 0x2810 13 2 (eg_number (AEG_state c)) s
         in if \<not> byte \<or> r8 = 0x2811 then upd_ch cn (\<lambda>c. c\<lparr>looped := False\<rparr>) s else s)
      else if r8 = 0x2814 \<or> r8 = 0x2815 then
        (let c = ch (unat (MSLC (regs s))) s;
             s = set_common 0x2814 0 16 (ch_CA c) s
         in if loop_LEA c > loop_LSA c \<and> loop_LEA c > 3
            then set_common 0x2814 0 16 (min (CA_reg (regs s)) (loop_LEA c - 3)) s else s)
      else s)"

fun ReadMemArr :: "msize \<Rightarrow> u32 \<Rightarrow> machine \<Rightarrow> u32" where
  "ReadMemArr T a s = ram_read T (regs s) a"

definition WriteMemArr :: "msize \<Rightarrow> u32 \<Rightarrow> u32 \<Rightarrow> machine \<Rightarrow> machine" where
  "WriteMemArr T a v s = set_regs (ram_write T (regs s) a v) s"

definition dsp_reg_read :: "msize \<Rightarrow> u32 \<Rightarrow> machine \<Rightarrow> u32" where
  "dsp_reg_read T addr s =
     (let v = (if addr < 0x4500 then
                 (let v = (if addr < 0x4400 then dsp_TEMP (dstate s) (unat ((addr - 0x4000) div 8))
                           else dsp_MEMS (dstate s) (unat ((addr - 0x4400) div 8)))
                  in if addr AND 4 \<noteq> 0 then drop_bit 8 v AND 0xffff else v AND 0xff)
               else
                 (let v = dsp_MIXS (dstate s) (unat ((addr - 0x4500) div 8))
                  in if addr AND 4 \<noteq> 0 then drop_bit 4 v AND 0xffff else v AND 0xf))
      in if T = U8 then (if addr AND 1 \<noteq> 0 then drop_bit 8 v else v AND 0xff) else v)"

definition readRegInternal_a :: "msize \<Rightarrow> u32 \<Rightarrow> machine \<Rightarrow> u32 \<times> machine" where
  "readRegInternal_a T addr s =
     (let addr = addr AND 0x7FFF in
      if addr \<ge> 0x2800 \<and> addr < 0x2818 then
        (let s = ReadCommonReg addr (T = U8) s in (ReadMemArr T addr s, s))
      else if addr \<ge> 0x4000 \<and> addr < 0x4580 then
        (if addr AND 2 \<noteq> 0 then (0, s) else (cast T (dsp_reg_read T addr s), s))
      else (ReadMemArr T addr s, s))"

definition readAicaReg :: "msize \<Rightarrow> u32 \<Rightarrow> machine \<Rightarrow> u32 \<times> machine" where
  "readAicaReg T addr s =
     (let addr = addr AND 0x7FFF in
      if T = U8 \<and> addr = 0x2C00 then (cast T (ARMRST (periph s)), s)
      else if T = U8 \<and> addr = 0x2C01 then (cast T (VREG (periph s)), s)
      else if T \<noteq> U8 \<and> addr = 0x2C00 then (cast T (push_bit 8 (VREG (periph s)) OR ARMRST (periph s)), s)
      else if T = U32 then readRegInternal_a U16 addr s
      else readRegInternal_a T addr s)"

subsection \<open>Writing registers\<close>

definition writeCommonReg8 :: "aica_env \<Rightarrow> u32 \<Rightarrow> u32 \<Rightarrow> machine \<Rightarrow> machine" where
  "writeCommonReg8 e r8 data s =
     (let s = WriteMemArr U8 r8 data s in
      if r8 = 0x2804 \<or> r8 = 0x2805 then
        upd_dsp (\<lambda>t. t\<lparr>dsp_RBL := push_bit (unat (RBL (regs s))) 8192 - 1,
          dsp_RBP := (RBP (regs s) * 2048) AND ARAM_MASK e, dsp_dirty := True\<rparr>) s
      else if r8 = 0x280c \<and> midiReceiver (periph s) then upd (\<lambda>p. p\<lparr>midi_received := midi_received p @ [ucast data]\<rparr>) s
      else s)"

text \<open>The new value of a \<open>TEMP\<close>, \<open>MEMS\<close> (\<open>k = 8\<close>) or \<open>MIXS\<close> (\<open>k = 4\<close>) word after a write of \<open>data\<close>.\<close>

definition dsp_reg_merge :: "nat \<Rightarrow> msize \<Rightarrow> u32 \<Rightarrow> u32 \<Rightarrow> u32 \<Rightarrow> u32" where
  "dsp_reg_merge k T addr data v =
     (if addr AND 4 \<noteq> 0 then
        (if T = U8 then
           (if addr AND 1 \<noteq> 0 then (v AND mask (8 + k)) OR sar (16 - k) (push_bit 24 data)
            else (v AND NOT (push_bit k 0xff)) OR push_bit k (data AND 0xff))
         else (v AND mask k) OR sar (16 - k) (push_bit 16 data))
      else if T \<noteq> U8 \<or> addr AND 1 = 0 then (v AND NOT (mask k)) OR (data AND mask k)
      else v)"

definition dsp_reg_write :: "msize \<Rightarrow> u32 \<Rightarrow> u32 \<Rightarrow> machine \<Rightarrow> machine" where
  "dsp_reg_write T addr data =
     upd_dsp (\<lambda>t.
       if addr < 0x4400 then
         (let i = unat ((addr - 0x4000) div 8) in t\<lparr>dsp_TEMP := (dsp_TEMP t)(i := dsp_reg_merge 8 T addr data (dsp_TEMP t i))\<rparr>)
       else if addr < 0x4500 then
         (let i = unat ((addr - 0x4400) div 8) in t\<lparr>dsp_MEMS := (dsp_MEMS t)(i := dsp_reg_merge 8 T addr data (dsp_MEMS t i))\<rparr>)
       else
         (let i = unat ((addr - 0x4500) div 8) in t\<lparr>dsp_MIXS := (dsp_MIXS t)(i := dsp_reg_merge 4 T addr data (dsp_MIXS t i))\<rparr>))"

type_synonym reg_write = "msize \<Rightarrow> u32 \<Rightarrow> u32 \<Rightarrow> machine \<Rightarrow> machine"

text \<open>\<open>writeRegInternal\<close> up to its last call, \<open>timer_int\<close>.\<close>

definition writeReg_body :: "aica_env \<Rightarrow> reg_write \<Rightarrow> reg_write" where
  "writeReg_body e timer_int T addr data s =
     (let addr = addr AND 0x7FFF in
      if addr < 0x2000 then RegWrite e (unat (drop_bit 7 addr)) (addr AND 0x7F) (unat (sizeof T)) (WriteMemArr T addr data s)
      else if addr < 0x2800 then WriteMemArr T addr data s
      else if addr < 0x2818 then
        (let s = writeCommonReg8 e addr (data AND 0xFF) s
         in if T = U16 then writeCommonReg8 e (addr + 1) (drop_bit 8 data) s else s)
      else if addr \<ge> 0x3000 then
        (if addr AND 2 \<noteq> 0 then s
         else if addr \<ge> 0x4000 \<and> addr < 0x4580 then dsp_reg_write T addr data s
         else
           (let s = writeProg addr (WriteMemArr T addr data s)
            in if T = U16 then writeProg (addr + 1) s else s))
      else timer_int T addr data s)"

definition ArmSetRST :: "machine \<Rightarrow> machine" where
  "ArmSetRST s = (let s = upd (\<lambda>p. p\<lparr>ARMRST := ARMRST p AND 1\<rparr>) s in enable (ARMRST (periph s) = 0) s)"

definition writeAicaReg_body :: "reg_write \<Rightarrow> reg_write" where
  "writeAicaReg_body internal T addr data s =
     (let addr = addr AND 0x7FFF in
      if T = U8 \<and> addr = 0x2C00 then ArmSetRST (upd (\<lambda>p. p\<lparr>ARMRST := data\<rparr>) s)
      else if T = U8 \<and> addr = 0x2C01 then upd (\<lambda>p. p\<lparr>VREG := data\<rparr>) s
      else if T \<noteq> U8 \<and> addr = 0x2C00 then
        ArmSetRST (upd (\<lambda>p. p\<lparr>VREG := drop_bit 8 data AND 0xFF, ARMRST := data AND 0xFF\<rparr>) s)
      else if T = U32 then internal U16 addr (cast U16 data) s
      else internal T addr data s)"

subsection \<open>The internal DMA\<close>

definition dma_waddr :: "aica_env \<Rightarrow> machine \<Rightarrow> u32" where
  "dma_waddr e s = (push_bit 16 (DMEA_hi (regs s)) OR push_bit 2 (DMEA_lo (regs s))) AND ARAM_MASK e"

definition dma_raddr :: "machine \<Rightarrow> u32" where
  "dma_raddr s = push_bit 2 (DRGA (regs s))"

definition dma_len :: "aica_env \<Rightarrow> machine \<Rightarrow> u32" where
  "dma_len e s = min (DLG (regs s)) (ARAM_SIZE e - dma_waddr e s)"

definition ram_zero :: "u32 \<Rightarrow> nat \<Rightarrow> (u32 \<Rightarrow> u8) \<Rightarrow> (u32 \<Rightarrow> u8)" where
  "ram_zero a n m = (\<lambda>x. if unat a \<le> unat x \<and> unat x < unat a + n then 0 else m x)"

text \<open>The clearing loop reads \<open>DLG\<close>, thirteen bits, at every turn: \<open>0x2000\<close> turns are enough.\<close>

fun dma_clear_regs :: "(u32 \<Rightarrow> u32 \<Rightarrow> machine \<Rightarrow> machine) \<Rightarrow> nat \<Rightarrow> u32 \<Rightarrow> u32 \<Rightarrow> machine \<Rightarrow> machine" where
  "dma_clear_regs w 0 i addr s = s"
| "dma_clear_regs w (Suc n) i addr s =
     (if i < DLG (regs s) then dma_clear_regs w n (i + 1) (addr + 4) (w addr 0 s) else s)"

fun dma_to_mem :: "nat \<Rightarrow> u32 \<Rightarrow> u32 \<Rightarrow> machine \<Rightarrow> machine" where
  "dma_to_mem 0 waddr raddr s = s"
| "dma_to_mem (Suc n) waddr raddr s =
     (let (v, s) = readAicaReg U32 raddr s
      in dma_to_mem n (waddr + 4) (raddr + 4) (s\<lparr>aica_ram := wr32 (aica_ram s) waddr v\<rparr>))"

fun dma_to_regs :: "(u32 \<Rightarrow> u32 \<Rightarrow> machine \<Rightarrow> machine) \<Rightarrow> nat \<Rightarrow> u32 \<Rightarrow> u32 \<Rightarrow> machine \<Rightarrow> machine" where
  "dma_to_regs w 0 waddr raddr s = s"
| "dma_to_regs w (Suc n) waddr raddr s =
     dma_to_regs w n (waddr + 4) (raddr + 4) (w raddr (rd32 (aica_ram s) waddr) s)"

definition dma_transfer :: "aica_env \<Rightarrow> (u32 \<Rightarrow> u32 \<Rightarrow> machine \<Rightarrow> machine) \<Rightarrow> machine \<Rightarrow> machine" where
  "dma_transfer e w s =
     (if DGATE (regs s) \<noteq> 0 then
        (if DDIR (regs s) \<noteq> 0
         then s\<lparr>aica_ram := ram_zero (dma_waddr e s) (unat (dma_len e s) * 4) (aica_ram s)\<rparr>
         else dma_clear_regs w 0x2000 0 (dma_raddr s) s)
      else if DDIR (regs s) \<noteq> 0 then dma_to_mem (unat (dma_len e s)) (dma_waddr e s) (dma_raddr s) s
      else dma_to_regs w (unat (dma_len e s)) (dma_waddr e s) (dma_raddr s) s)"

definition AicaInternalDMA :: "aica_env \<Rightarrow> (u32 \<Rightarrow> u32 \<Rightarrow> machine \<Rightarrow> machine) \<Rightarrow> machine \<Rightarrow> machine" where
  "AicaInternalDMA e w s =
     (if DEXE (regs s) = 0 then s
      else
        (let s = dma_transfer e w s;
             s = set_common 0x288C 0 1 0 s;
             s = snd (UpdateSh4Ints (set_pd MCIPD_addr 4 s))
         in update_arm_interrupts (set_pd SCIPD_addr 4 s)))"

text \<open>\<open>if (UpdateSh4Ints()) arm::avoidRaceCondition();\<close> -- the history variable \<open>races\<close> counts the calls.\<close>

definition race_check :: "bool \<times> machine \<Rightarrow> machine" where
  "race_check bs =
     (if fst bs then upd (\<lambda>p. p\<lparr>races := races p + 1\<rparr>) (avoidRaceCondition (snd bs)) else snd bs)"

definition writeTimerAndIntReg :: "(machine \<Rightarrow> machine) \<Rightarrow> reg_write" where
  "writeTimerAndIntReg dma T r8 data s =
     (if r8 = SCIEB_addr then update_arm_interrupts (set_word SCIEB_addr (data AND 0x7ff) s)
      else if r8 = SCIPD_addr then
        (if data AND 0x20 \<noteq> 0 then update_arm_interrupts (set_pd SCIPD_addr 5 s) else s)
      else if r8 = SCIRE_addr then update_arm_interrupts (set_word SCIPD_addr (SCIPD s AND NOT data) s)
      else if r8 = MCIEB_addr then race_check (UpdateSh4Ints (set_word MCIEB_addr (data AND 0x7ff) s))
      else if r8 = MCIPD_addr then
        (if data AND 0x20 \<noteq> 0 then race_check (UpdateSh4Ints (set_pd MCIPD_addr 5 s)) else s)
      else if r8 = MCIRE_addr then snd (UpdateSh4Ints (set_word MCIPD_addr (MCIPD s AND NOT data) s))
      else if r8 = TIMER_A then RegisterWrite 0 (WriteMemArr T r8 data s)
      else if r8 = TIMER_B then RegisterWrite 1 (WriteMemArr T r8 data s)
      else if r8 = TIMER_C then RegisterWrite 2 (WriteMemArr T r8 data s)
      else if r8 = 0x288C then dma (WriteMemArr T r8 data s)
      else WriteMemArr T r8 data s)"

subsection \<open>Tying the recursion\<close>

fun writeReg_depth :: "aica_env \<Rightarrow> nat \<Rightarrow> reg_write" where
  "writeReg_depth e 0 T addr data s = upd (\<lambda>p. p\<lparr>crashed := True\<rparr>) s"
| "writeReg_depth e (Suc d) T addr data s =
     writeReg_body e
       (writeTimerAndIntReg (AicaInternalDMA e (writeAicaReg_body (writeReg_depth e d) U32))) T addr data s"

definition writeRegInternal_a :: "aica_env \<Rightarrow> reg_write" where
  "writeRegInternal_a e = writeReg_depth e (stack_depth e)"

definition writeAicaReg :: "aica_env \<Rightarrow> reg_write" where
  "writeAicaReg e = writeAicaReg_body (writeRegInternal_a e)"

text \<open>What the ARM sees of the AICA.\<close>

definition the_bus :: "aica_env \<Rightarrow> aica aica_bus" where
  "the_bus e = \<lparr>aram_mask = ARAM_MASK e, readRegInternal = readRegInternal_a, writeRegInternal = writeRegInternal_a e\<rparr>"

end
