(* ===== verification/Arm7_Frame.thy ===== *)
theory Arm7_Frame
  imports Arm7_Interp
begin

unbundle bit_operations_syntax

section \<open>What every instruction keeps\<close>

text \<open>
  The locale \<open>arm_frame\<close> states what an instruction is made of: register writes other than to the status word
  and the interrupt-pending word, ticks, mode switches, status updates, exceptions and bus accesses.  A
  reflexive and transitive relation that holds across each of these holds across every block of the opcode
  switch and across a step of the run loop.
\<close>

locale arm_frame =
  fixes b :: "'p aica_bus" and R :: "'p arm_state \<Rightarrow> 'p arm_state \<Rightarrow> bool"
  assumes R_refl: "R s s"
    and R_trans: "R s t \<Longrightarrow> R t u \<Longrightarrow> R s u"
    and set_law: "i \<noteq> 16 \<Longrightarrow> i \<noteq> 47 \<Longrightarrow> R s (set_reg i v s)"
    and ticks_law: "0 \<le> n \<Longrightarrow> R s (add_ticks n s)"
    and cpsr_law: "R s (CPUUpdateCPSR s)"
    and switch_law: "R s (CPUSwitchMode m sv s)"
    and flags_law: "R s (CPUUpdateFlags (set_reg 16 v s))"
    and irq_law: "R s (s\<lparr>armIrqEnable := e\<rparr>)"
    and fiq_law: "R s (CPUFiq s)"
    and read_law: "R s (snd (readMem b T a s))"
    and write_law: "R s (writeMem b T a v s)"
begin

lemma R_set: "R s t \<Longrightarrow> i \<noteq> 16 \<Longrightarrow> i \<noteq> 47 \<Longrightarrow> R s (set_reg i v t)"
  by (rule R_trans [OF _ set_law])

lemma R_ticks: "R s t \<Longrightarrow> 0 \<le> n \<Longrightarrow> R s (add_ticks n t)"
  by (rule R_trans [OF _ ticks_law])

lemma R_cpsr: "R s t \<Longrightarrow> R s (CPUUpdateCPSR t)"
  by (rule R_trans [OF _ cpsr_law])

lemma R_switch: "R s t \<Longrightarrow> R s (CPUSwitchMode m sv t)"
  by (rule R_trans [OF _ switch_law])

lemma R_flags: "R s t \<Longrightarrow> R s (CPUUpdateFlags (set_reg 16 v t))"
  by (rule R_trans [OF _ flags_law])

lemma R_irq: "R s t \<Longrightarrow> R s (t\<lparr>armIrqEnable := e\<rparr>)"
  by (rule R_trans [OF _ irq_law])

lemma R_read: "R s t \<Longrightarrow> R s (snd (readMem b T a t))"
  by (rule R_trans [OF _ read_law])

lemma R_write: "R s t \<Longrightarrow> R s (writeMem b T a v t)"
  by (rule R_trans [OF _ write_law])

lemma R_if: "(c \<Longrightarrow> R s t) \<Longrightarrow> (\<not> c \<Longrightarrow> R s u) \<Longrightarrow> R s (if c then t else u)"
  by simp

lemma R_set_flag:
  "R s t \<Longrightarrow> R s (set_N v t)" "R s t \<Longrightarrow> R s (set_Z v t)" "R s t \<Longrightarrow> R s (set_C v t)" "R s t \<Longrightarrow> R s (set_V v t)"
  by (simp_all add: set_flag_defs R_set)

lemmas R_steps = R_refl R_set R_ticks R_cpsr R_switch R_flags R_irq R_read R_write R_set_flag

lemma R_exceptions: "R s t \<Longrightarrow> R s (CPUSoftwareInterrupt c t)" "R s t \<Longrightarrow> R s (CPUUndefinedException t)"
  by (simp_all add: CPUSoftwareInterrupt_def CPUUndefinedException_def Let_def R_steps)

subsection \<open>Data processing\<close>

lemma R_flag_groups:
  "R s t \<Longrightarrow> R s (add_flags l r x t)" "R s t \<Longrightarrow> R s (sub_flags l r x t)" "R s t \<Longrightarrow> R s (logic_flags x c t)"
  by (simp_all add: add_flags_def sub_flags_def logic_flags_def Let_def R_set_flag)

lemma R_flush: "R s t \<Longrightarrow> R s (flush_pc t)"
  by (simp add: flush_pc_def Let_def R_set)

lemma R_data_tail:
  "R s t \<Longrightarrow> (\<And>u. R u (OPC u)) \<Longrightarrow> (\<And>u. R u (OPC2 u)) \<Longrightarrow> R s (data_tail opcode dest OPC OPC2 t)"
  by (auto simp: data_tail_def Let_def intro!: R_flush R_switch R_ticks intro: R_trans)

definition keeps_nop :: "'p nop \<Rightarrow> bool" where
  "keeps_nop OPC \<longleftrightarrow> (\<forall>opcode d v c s. d < 16 \<longrightarrow> R s (OPC opcode d v c s))"

definition keeps_lop :: "'p lop \<Rightarrow> bool" where
  "keeps_lop OPC \<longleftrightarrow> (\<forall>base d v c s. d < 16 \<longrightarrow> R s (OPC base d v c s))"

definition keeps_aop :: "'p aop \<Rightarrow> bool" where
  "keeps_aop OPC \<longleftrightarrow> (\<forall>base d v s. d < 16 \<longrightarrow> R s (OPC base d v s))"

definition keeps_op :: "'p arm_op \<Rightarrow> bool" where
  "keeps_op block \<longleftrightarrow> (\<forall>opcode s. R s (block b opcode s))"

lemma keeps_nops:
  "keeps_nop OP_AND" "keeps_nop OP_ANDS" "keeps_nop OP_EOR" "keeps_nop OP_EORS" "keeps_nop OP_MOV" "keeps_nop OP_MOVS" "keeps_nop OP_MVN" "keeps_nop OP_MVNS"
  by (simp_all add: keeps_nop_def OP_AND_def OP_ANDS_def OP_EOR_def OP_EORS_def OP_MOV_def OP_MOVS_def OP_MVN_def OP_MVNS_def Let_def R_steps R_flag_groups)

lemma keeps_lops:
  "keeps_lop OP_TST" "keeps_lop OP_TEQ" "keeps_lop OP_ORR" "keeps_lop OP_ORRS" "keeps_lop OP_BIC" "keeps_lop OP_BICS"
  by (simp_all add: keeps_lop_def OP_TST_def OP_TEQ_def OP_ORR_def OP_ORRS_def OP_BIC_def OP_BICS_def Let_def R_steps R_flag_groups)

lemma keeps_aops:
  "keeps_aop OP_SUB" "keeps_aop OP_SUBS" "keeps_aop OP_RSB" "keeps_aop OP_RSBS" "keeps_aop OP_ADD" "keeps_aop OP_ADDS" "keeps_aop OP_ADC" "keeps_aop OP_ADCS" "keeps_aop OP_SBC" "keeps_aop OP_SBCS" "keeps_aop OP_RSC" "keeps_aop OP_RSCS" "keeps_aop OP_CMP" "keeps_aop OP_CMN"
  by (simp_all add: keeps_aop_def OP_SUB_def OP_SUBS_def OP_RSB_def OP_RSBS_def OP_ADD_def OP_ADDS_def OP_ADC_def OP_ADCS_def OP_SBC_def OP_SBCS_def OP_RSC_def OP_RSCS_def OP_CMP_def OP_CMN_def Let_def R_steps R_flag_groups)

lemma R_rs_cycle: "R s (rs_cycle s)"
  by (simp add: rs_cycle_def R_steps)

lemma R_runs:
  "keeps_lop OPC \<Longrightarrow> keeps_lop OPC2 \<Longrightarrow> R s t \<Longrightarrow> R s (run_lop OPC OPC2 opcode vc t)"
  "keeps_nop OPD \<Longrightarrow> keeps_nop OPD2 \<Longrightarrow> R s t \<Longrightarrow> R s (run_nop OPD OPD2 opcode vc t)"
  "keeps_aop OPE \<Longrightarrow> keeps_aop OPE2 \<Longrightarrow> R s t \<Longrightarrow> R s (run_aop OPE OPE2 opcode vc t)"
  by (simp_all add: run_defs R_data_tail keeps_lop_def keeps_nop_def keeps_aop_def)

lemmas block_rules = LOGICAL_imm_blocks LOGICAL_Rs_blocks LOGICAL_IMM_block
  LOGICAL_nobase_imm_blocks LOGICAL_nobase_Rs_blocks LOGICAL_nobase_IMM_block
  ARITHMETIC_imm_blocks ARITHMETIC_Rs_blocks ARITHMETIC_IMM_block

definition keeps_all :: "'p case_list \<Rightarrow> bool" where
  "keeps_all cs \<longleftrightarrow> (\<forall>(labels, block) \<in> set cs. keeps_op block)"

lemma keeps_all_append [simp]: "keeps_all (xs @ ys) \<longleftrightarrow> keeps_all xs \<and> keeps_all ys"
  by (auto simp: keeps_all_def)

lemma keeps_all_Cons [simp]: "keeps_all (c # cs) \<longleftrightarrow> keeps_op (snd c) \<and> keeps_all cs"
  by (auto simp: keeps_all_def)

lemma keeps_all_Nil [simp]: "keeps_all []"
  by (simp add: keeps_all_def)

lemma keeps_data:
  "keeps_lop OPC \<Longrightarrow> keeps_lop OPC2 \<Longrightarrow> keeps_all (LOGICAL_DATA_OPCODE OPC OPC2 BASE)"
  "keeps_nop OPD \<Longrightarrow> keeps_nop OPD2 \<Longrightarrow> keeps_all (LOGICAL_DATA_OPCODE_WITHOUT_base OPD OPD2 BASE)"
  "keeps_aop OPE \<Longrightarrow> keeps_aop OPE2 \<Longrightarrow> keeps_all (ARITHMETIC_DATA_OPCODE OPE OPE2 BASE)"
  by (simp_all add: LOGICAL_DATA_OPCODE_def LOGICAL_DATA_OPCODE_WITHOUT_base_def ARITHMETIC_DATA_OPCODE_def
      keeps_op_def block_rules R_runs R_refl R_rs_cycle)

subsection \<open>Multiplies, status, swaps, branches\<close>

lemma R_mult_ticks: "R s t \<Longrightarrow> 0 \<le> n \<Longrightarrow> R s (mult_ticks n rs t)"
  by (simp add: mult_ticks_def R_ticks)

lemma R_set_long: "R s t \<Longrightarrow> lo < 16 \<Longrightarrow> hi < 16 \<Longrightarrow> R s (set_long lo hi v t)"
  by (simp add: set_long_def Let_def R_set)

lemma R_msr: "R s t \<Longrightarrow> R s (msr_cpsr opcode v t)" "R s t \<Longrightarrow> R s (msr_spsr opcode v t)"
  by (simp_all add: msr_cpsr_def msr_spsr_def Let_def R_steps)

lemma keeps_mults:
  "keeps_op MUL" "keeps_op MULS" "keeps_op MLA" "keeps_op MLAS" "keeps_op UMULL" "keeps_op UMULLS" "keeps_op UMLAL" "keeps_op UMLALS" "keeps_op SMULL" "keeps_op SMULLS" "keeps_op SMLAL" "keeps_op SMLALS"
  by (simp_all add: keeps_op_def MUL_def MULS_def MLA_def MLAS_def UMULL_def UMULLS_def UMLAL_def UMLALS_def SMULL_def SMULLS_def SMLAL_def SMLALS_def
      Let_def R_steps R_mult_ticks R_set_long)

lemma keeps_misc:
  "keeps_op MRS_CPSR" "keeps_op MRS_SPSR" "keeps_op MSR_CPSR_reg" "keeps_op MSR_SPSR_reg" "keeps_op MSR_CPSR_imm"
  "keeps_op MSR_SPSR_imm" "keeps_op SWP" "keeps_op SWPB" "keeps_op ARM_B" "keeps_op ARM_BL" "keeps_op ARM_SWI"
  by (simp_all add: keeps_op_def MRS_CPSR_def MRS_SPSR_def MSR_CPSR_reg_def MSR_SPSR_reg_def MSR_CPSR_imm_def
      MSR_SPSR_imm_def SWP_def SWPB_def ARM_B_def ARM_BL_def ARM_SWI_def Let_def split_def R_steps R_msr R_exceptions)

subsection \<open>Transfers\<close>

lemma R_patterns: "R s (ref_load T e early br P U W off b opcode s)" "R s (ref_store T P U W off b opcode s)"
  by (auto simp: ref_load_def ref_store_def Let_def split_def intro!: R_flush R_set R_ticks R_read R_write R_refl)

lemma keeps_signed:
  "keeps_op LDRSB_01d" "keeps_op LDRSB_05d" "keeps_op LDRSB_09d" "keeps_op LDRSB_0dd" "keeps_op LDRSB_11d" "keeps_op LDRSB_13d" "keeps_op LDRSB_15d" "keeps_op LDRSB_17d" "keeps_op LDRSB_19d" "keeps_op LDRSB_1bd" "keeps_op LDRSB_1dd" "keeps_op LDRSB_1fd" "keeps_op LDRSH_01f" "keeps_op LDRSH_05f" "keeps_op LDRSH_09f" "keeps_op LDRSH_0df" "keeps_op LDRSH_11f" "keeps_op LDRSH_13f" "keeps_op LDRSH_15f" "keeps_op LDRSH_17f" "keeps_op LDRSH_19f" "keeps_op LDRSH_1bf" "keeps_op LDRSH_1df" "keeps_op LDRSH_1ff"
  by (simp_all add: keeps_op_def signed_loads_sb signed_loads_sh R_patterns)

lemma keeps_imm_stores:
  "keeps_op STR_400" "keeps_op STR_480" "keeps_op STR_500" "keeps_op STR_520" "keeps_op STR_580" "keeps_op STR_5a0" "keeps_op STRB_440" "keeps_op STRB_4c0" "keeps_op STRB_540" "keeps_op STRB_560" "keeps_op STRB_5c0" "keeps_op STRB_5e0"
  by (simp_all add: keeps_op_def imm_stores R_patterns)

lemma keeps_imm_loads:
  "keeps_op LDR_410" "keeps_op LDR_430" "keeps_op LDR_490" "keeps_op LDR_4b0" "keeps_op LDR_510" "keeps_op LDR_530" "keeps_op LDR_590" "keeps_op LDR_5b0" "keeps_op LDRB_450" "keeps_op LDRB_4d0" "keeps_op LDRB_550" "keeps_op LDRB_570" "keeps_op LDRB_5d0" "keeps_op LDRB_5f0"
  by (simp_all add: keeps_op_def LDR_410_def LDR_430_def LDR_490_def LDR_4b0_def LDR_510_def LDR_530_def LDR_590_def LDR_5b0_def LDRB_450_def LDRB_4d0_def LDRB_550_def LDRB_570_def LDRB_5d0_def LDRB_5f0_def Let_def split_def R_steps R_flush)

lemma keeps_reg:
  "keeps_op STR_600" "keeps_op STR_602" "keeps_op STR_604" "keeps_op STR_606" "keeps_op STR_680" "keeps_op STR_682" "keeps_op STR_684" "keeps_op STR_686" "keeps_op STR_700" "keeps_op STR_702" "keeps_op STR_704" "keeps_op STR_706" "keeps_op STR_720" "keeps_op STR_722" "keeps_op STR_724" "keeps_op STR_726" "keeps_op STR_780" "keeps_op STR_782" "keeps_op STR_784" "keeps_op STR_786" "keeps_op STR_7a0" "keeps_op STR_7a2" "keeps_op STR_7a4" "keeps_op STR_7a6" "keeps_op LDR_610" "keeps_op LDR_612" "keeps_op LDR_614" "keeps_op LDR_616" "keeps_op LDR_690" "keeps_op LDR_692" "keeps_op LDR_694" "keeps_op LDR_696" "keeps_op LDR_710" "keeps_op LDR_712" "keeps_op LDR_714" "keeps_op LDR_716" "keeps_op LDR_730" "keeps_op LDR_732" "keeps_op LDR_734" "keeps_op LDR_736" "keeps_op LDR_790" "keeps_op LDR_792" "keeps_op LDR_794" "keeps_op LDR_796" "keeps_op LDR_7b0" "keeps_op LDR_7b2" "keeps_op LDR_7b4" "keeps_op LDR_7b6" "keeps_op STRB_640" "keeps_op STRB_642" "keeps_op STRB_644" "keeps_op STRB_646" "keeps_op STRB_6c0" "keeps_op STRB_6c2" "keeps_op STRB_6c4" "keeps_op STRB_6c6" "keeps_op STRB_740" "keeps_op STRB_742" "keeps_op STRB_744" "keeps_op STRB_746" "keeps_op STRB_760" "keeps_op STRB_762" "keeps_op STRB_764" "keeps_op STRB_766" "keeps_op STRB_7c0" "keeps_op STRB_7c2" "keeps_op STRB_7c4" "keeps_op STRB_7c6" "keeps_op STRB_7e0" "keeps_op STRB_7e2" "keeps_op STRB_7e4" "keeps_op STRB_7e6" "keeps_op LDRB_650" "keeps_op LDRB_652" "keeps_op LDRB_654" "keeps_op LDRB_656" "keeps_op LDRB_6d0" "keeps_op LDRB_6d2" "keeps_op LDRB_6d4" "keeps_op LDRB_6d6" "keeps_op LDRB_750" "keeps_op LDRB_752" "keeps_op LDRB_754" "keeps_op LDRB_756" "keeps_op LDRB_770" "keeps_op LDRB_772" "keeps_op LDRB_774" "keeps_op LDRB_776" "keeps_op LDRB_7d0" "keeps_op LDRB_7d2" "keeps_op LDRB_7d4" "keeps_op LDRB_7d6" "keeps_op LDRB_7f0" "keeps_op LDRB_7f2" "keeps_op LDRB_7f4" "keeps_op LDRB_7f6"
  by (simp_all add: keeps_op_def reg_str_0 reg_str_1 reg_str_2 reg_str_3 reg_strb_0 reg_strb_1 reg_strb_2 reg_strb_3 reg_ldr_0 reg_ldr_1 reg_ldr_2 reg_ldr_3 reg_ldrb_0 reg_ldrb_1 reg_ldrb_2 reg_ldrb_3 R_patterns)

definition keeps_blk :: "('p blk \<Rightarrow> 'p blk) \<Rightarrow> bool" where
  "keeps_blk f \<longleftrightarrow> (\<forall>q. R (fst q) (fst (f q)))"

lemma R_fold:
  assumes "\<And>x. x \<in> set xs \<Longrightarrow> keeps_blk (f x)" "R s (fst q)"
  shows "R s (fst (fold f xs q))"
  using assms
proof (induction xs arbitrary: q)
  case (Cons x xs)
  then have "keeps_blk (f x)" by simp
  then have "R (fst q) (fst (f x q))" by (simp only: keeps_blk_def)
  then have "R s (fst (f x q))" using Cons.prems(2) R_trans by blast
  then show ?case using Cons by simp
qed simp

lemma keeps_REG:
  "keeps_blk (STM_REG b opcode (val, num))"
  "base \<noteq> 16 \<Longrightarrow> base \<noteq> 47 \<Longrightarrow> keeps_blk (STMW_REG b opcode base temp (val, num))"
  "num \<noteq> 16 \<Longrightarrow> num \<noteq> 47 \<Longrightarrow> keeps_blk (LDM_REG b opcode (val, num))"
  by (auto simp: keeps_blk_def Let_def split_def intro!: R_set R_ticks R_read R_write R_refl)

definition plain_regs :: "(u32 \<times> nat) list \<Rightarrow> bool" where
  "plain_regs xs \<longleftrightarrow> (\<forall>(val, num) \<in> set xs. num \<noteq> 16 \<and> num \<noteq> 47)"

lemma R_fold_STM: "R s (fst q) \<Longrightarrow> R s (fst (fold (STM_REG b opcode) xs q))"
  by (rule R_fold) (auto simp: keeps_REG)

lemma R_fold_STMW: "R s (fst q) \<Longrightarrow> R s (fst (fold (STMW_REG b opcode (fld opcode 16) temp) xs q))"
  by (rule R_fold) (auto simp: keeps_REG)

lemma R_fold_LDM: "R s (fst q) \<Longrightarrow> plain_regs xs \<Longrightarrow> R s (fst (fold (LDM_REG b opcode) xs q))"
  by (rule R_fold) (auto simp: keeps_REG plain_regs_def)

lemma plain_tables:
  "plain_regs regs_0_7" "plain_regs regs_8_12" "plain_regs regs_8_12_fiq" "plain_regs regs_13_14"
  "plain_regs regs_13_14_usr" "plain_regs regs_0_14"
  by (simp_all add: plain_regs_def regs_0_7_def regs_8_12_def regs_8_12_fiq_def regs_13_14_def
      regs_13_14_usr_def regs_0_14_def)

lemma plain_if: "plain_regs xs \<Longrightarrow> plain_regs ys \<Longrightarrow> plain_regs (if c then xs else ys)"
  by simp

lemma R_tails:
  "R s (fst q) \<Longrightarrow> R s (STM_PC b opcode q)"
  "R s (fst q) \<Longrightarrow> R s (STM_PC_W b opcode (fld opcode 16) temp q)"
  "R s (fst q) \<Longrightarrow> R s (STM_PC_WI b opcode (fld opcode 16) temp q)"
  "R s (fst q) \<Longrightarrow> R s (LDM_load_PC b q)"
  "R s (fst q) \<Longrightarrow> R s (LDM_PC b opcode q)"
  by (cases q; auto simp: Let_def split_def intro!: R_set R_ticks R_read R_write R_refl)+

lemma R_ldm_ends:
  "R s t \<Longrightarrow> R s (LDM_wb opcode (fld opcode 16) temp t)" "R s t \<Longrightarrow> R s (LDM_flush t)"
  by (simp_all add: LDM_wb_def LDM_flush_def Let_def R_set)

lemma keeps_stm:
  "keeps_op STMDA_800" "keeps_op STMDA_820" "keeps_op STMDA_840" "keeps_op STMDA_860" "keeps_op STMIA_880" "keeps_op STMIA_8a0" "keeps_op STMIA_8c0" "keeps_op STMIA_8e0" "keeps_op STMDB_900" "keeps_op STMDB_920" "keeps_op STMDB_940" "keeps_op STMDB_960" "keeps_op STMIB_980" "keeps_op STMIB_9a0" "keeps_op STMIB_9c0" "keeps_op STMIB_9e0"
  unfolding keeps_op_def STMDA_800_def STMDA_820_def STMDA_840_def STMDA_860_def STMIA_880_def STMIA_8a0_def STMIA_8c0_def STMIA_8e0_def STMDB_900_def STMDB_920_def STMDB_940_def STMDB_960_def STMIB_980_def STMIB_9a0_def STMIB_9c0_def STMIB_9e0_def Let_def
  by (auto intro!: R_tails R_fold_STM R_fold_STMW R_ticks R_refl)

lemma keeps_ldm:
  "keeps_op LDMDA_810" "keeps_op LDMDA_830" "keeps_op LDMDA_850" "keeps_op LDMDA_870" "keeps_op LDMIA_890" "keeps_op LDMIA_8b0" "keeps_op LDMIA_8d0" "keeps_op LDMIA_8f0" "keeps_op LDMDB_910" "keeps_op LDMDB_930" "keeps_op LDMDB_950" "keeps_op LDMDB_970" "keeps_op LDMIB_990" "keeps_op LDMIB_9b0" "keeps_op LDMIB_9d0" "keeps_op LDMIB_9f0"
  unfolding keeps_op_def LDMDA_810_def LDMDA_830_def LDMDA_850_def LDMDA_870_def LDMIA_890_def LDMIA_8b0_def LDMIA_8d0_def LDMIA_8f0_def LDMDB_910_def LDMDB_930_def LDMDB_950_def LDMDB_970_def LDMIB_990_def LDMIB_9b0_def LDMIB_9d0_def LDMIB_9f0_def Let_def
  by (auto intro!: R_if R_tails R_ldm_ends R_switch R_fold_LDM R_ticks R_refl plain_tables plain_if)

subsection \<open>The switch and a step\<close>

lemma keeps_switch: "keeps_all arm_switch"
  by (simp add: arm_switch_def cases_low_def cases_imm_def cases_reg_def cases_reg_STR_def cases_reg_LDR_def cases_reg_STRB_def cases_reg_LDRB_def cases_block_def cases_high_def
      keeps_data keeps_nops keeps_lops keeps_aops keeps_mults keeps_misc keeps_signed keeps_imm_stores keeps_imm_loads
      keeps_reg keeps_stm keeps_ldm)

lemma switch_keeps: "keeps_all cs \<Longrightarrow> switch cs h = Some block \<Longrightarrow> R s (block b opcode s)"
  by (induction cs h rule: switch.induct) (auto simp: keeps_op_def split: if_splits)

lemma R_exec: "R (add_ticks 6 s) (exec_opcode b opcode s)"
  using switch_keeps [OF keeps_switch]
  by (auto simp: exec_opcode_def Let_def R_refl R_exceptions split: option.splits)

lemma R_fetch: "\<exists>t opcode. R s t \<and> interp_step b s = exec_opcode b opcode t"
proof -
  let ?t = "if reg s 47 \<noteq> 0 then CPUFiq s else s"
  have "R s ?t" by (simp add: fiq_law R_refl)
  then have "R s (set_reg 46 (armNextPC (set_reg 15 (armNextPC ?t + 8) ?t) + 4) (set_reg 15 (armNextPC ?t + 8) ?t))"
    by (simp add: R_set)
  then show ?thesis unfolding interp_step_def Let_def by blast
qed

lemma R_step: "R s (interp_step b s)"
proof -
  obtain t opcode where "R s t" "interp_step b s = exec_opcode b opcode t" using R_fetch by blast
  moreover have "R t (exec_opcode b opcode t)"
    by (rule R_trans [OF _ R_exec]) (simp add: ticks_law)
  ultimately show ?thesis using R_trans by metis
qed

end

subsection \<open>The bus contract and its two readings\<close>

text \<open>
  What the interpreter relies on of the AICA's register file: its accesses keep the invariant of the
  processor, leave the registers alone on a read, and (for \<open>steady_bus\<close>) never take ticks back.
\<close>

locale safe_bus =
  fixes b :: "'p aica_bus"
  assumes read_inv: "arm_inv s \<Longrightarrow> arm_inv (snd (readRegInternal b T a s))"
    and write_inv: "arm_inv s \<Longrightarrow> arm_inv (writeRegInternal b T a v s)"
begin

lemma accept_inv: "arm_inv s \<Longrightarrow> arm_inv (e68k_AcceptInterrupt s)"
  by (auto simp: e68k_AcceptInterrupt_def update_e68k_def update_armintc_def arm_inv_def)

lemma mem_inv:
  "arm_inv s \<Longrightarrow> arm_inv (snd (readMem b T a s))" "arm_inv s \<Longrightarrow> arm_inv (writeMem b T a v s)"
proof -
  show "arm_inv s \<Longrightarrow> arm_inv (snd (readMem b T a s))"
    using read_inv by (simp add: readMem_def readReg_def Let_def)
  have "arm_inv s \<Longrightarrow> arm_inv (s\<lparr>aica_ram := m\<rparr>)" for m by (simp add: arm_inv_def)
  then show "arm_inv s \<Longrightarrow> arm_inv (writeMem b T a v s)"
    using write_inv accept_inv by (auto simp: writeMem_def writeReg_def Let_def)
qed

end

lemma inv_flags_set16: "arm_inv s \<Longrightarrow> arm_inv (CPUUpdateFlags (set_reg 16 v s))"
  by (rule inv_update_flags) (simp add: arm_inv_def)

sublocale safe_bus \<subseteq> inv: arm_frame b "\<lambda>s t. arm_inv s \<longrightarrow> arm_inv t"
  by unfold_locales (simp_all add: inv_intros mem_inv inv_flags_set16)

lemma ticks_status [simp]:
  "arm7ClockTicks (CPUSwitchMode m sv s) = arm7ClockTicks s" "arm7ClockTicks (CPUFiq s) = arm7ClockTicks s"
  by (simp_all add: switch_unfold CPUFiq_def update_armintc_def Let_def)

lemma periph_status [simp]:
  "periph (CPUUpdateCPSR s) = periph s" "periph (CPUUpdateFlags s) = periph s"
  "periph (CPUSwitchMode m sv s) = periph s" "periph (CPUFiq s) = periph s"
  by (simp_all add: CPUUpdateCPSR_def CPUUpdateFlags_def switch_unfold CPUFiq_def update_armintc_def Let_def)

text \<open>
  A bus may set the clock back (the AICA does so when the ARM raises an SH-4 interrupt), but it counts: \<open>cnt\<close> is a
  number in the peripheral state that grows whenever that happens.
\<close>

definition later :: "('p \<Rightarrow> nat) \<Rightarrow> 'p arm_state \<Rightarrow> 'p arm_state \<Rightarrow> bool" where
  "later cnt s t \<longleftrightarrow> cnt (periph s) \<le> cnt (periph t)
     \<and> (cnt (periph t) = cnt (periph s) \<longrightarrow> arm7ClockTicks s \<le> arm7ClockTicks t)"

locale steady_bus =
  fixes b :: "'p aica_bus" and cnt :: "'p \<Rightarrow> nat"
  assumes read_later: "later cnt s (snd (readRegInternal b T a s))"
    and write_later: "later cnt s (writeRegInternal b T a v s)"
begin

lemma later_refl: "later cnt s s"
  by (simp add: later_def)

lemma later_same: "periph t = periph s \<Longrightarrow> arm7ClockTicks s \<le> arm7ClockTicks t \<Longrightarrow> later cnt s t"
  by (simp add: later_def)

lemma mem_later: "later cnt s (snd (readMem b T a s))" "later cnt s (writeMem b T a v s)"
proof -
  have "later cnt s (e68k_AcceptInterrupt s)"
    by (simp add: later_def e68k_AcceptInterrupt_def update_e68k_def update_armintc_def)
  moreover have "later cnt s (s\<lparr>aica_ram := m\<rparr>)" for m by (simp add: later_def)
  ultimately show "later cnt s (snd (readMem b T a s))" "later cnt s (writeMem b T a v s)"
    using read_later write_later later_refl
    by (auto simp: readMem_def readReg_def writeMem_def writeReg_def Let_def)
qed

end

sublocale steady_bus \<subseteq> cyc: arm_frame b "later cnt"
  by unfold_locales (rule mem_later | force simp: later_def)+

context steady_bus
begin

text \<open>A step of the loop takes at least six ticks unless the bus counts.\<close>

lemma step_later: "cnt (periph s) \<le> cnt (periph (interp_step b s))
  \<and> (cnt (periph (interp_step b s)) = cnt (periph s) \<longrightarrow> arm7ClockTicks s + 6 \<le> arm7ClockTicks (interp_step b s))"
proof -
  obtain t opcode where t: "later cnt s t" "interp_step b s = exec_opcode b opcode t"
    using cyc.R_fetch by blast
  then show ?thesis using cyc.R_exec [of t opcode] by (auto simp: later_def)
qed

text \<open>So the loop ends unless the bus counts without bound.\<close>

lemma loop_ends:
  assumes "\<forall>k. cnt (periph ((interp_step b ^^ k) s)) \<le> N"
  shows "\<exists>t. run_loop b s = Some t \<and> 0 \<le> arm7ClockTicks t"
  using assms
proof (induction "(N - cnt (periph s), nat (- arm7ClockTicks s))" arbitrary: s
    rule: wf_induct_rule [OF wf_lex_prod [OF wf_less_than wf_less_than]])
  case (1 s)
  show ?case
  proof (cases "arm7ClockTicks s < 0")
    case True
    let ?t = "interp_step b s"
    have bound: "\<forall>k. cnt (periph ((interp_step b ^^ k) ?t)) \<le> N"
      using 1(2) by (metis funpow_Suc_right comp_apply)
    have "cnt (periph ?t) \<le> N" using bound [rule_format, of 0] by simp
    then have "((N - cnt (periph ?t), nat (- arm7ClockTicks ?t)), (N - cnt (periph s), nat (- arm7ClockTicks s)))
        \<in> less_than <*lex*> less_than"
      using step_later [of s] True by (auto simp: le_less)
    from 1(1) [OF this bound] True show ?thesis by (simp add: run_loop.simps [of b s])
  qed (simp add: run_loop.simps [of b s])
qed

end

end
