(* ===== verification/Aica_Clock.thy ===== *)
theory Aica_Clock
  imports Aica Arm7_Frame
begin

unbundle bit_operations_syntax

section \<open>The mixer and the sample clock\<close>

text \<open>
  Models \<open>AICA_Sample\<close>, \<open>VolumePan\<close> and \<open>VmuBeep\<close> of \<^verbatim>\<open>core/hw/aica/sgc_if.cpp\<close>, \<open>timeStep\<close> and \<open>reset\<close> of
  \<^verbatim>\<open>core/hw/aica/aica.cpp\<close>, \<open>initMem\<close> and \<open>resetRtc\<close>, and \<open>run\<close> of \<^verbatim>\<open>core/hw/arm7/arm7.cpp\<close>: the loop that runs the
  ARM for one sample and then steps timers, channels, DSP and interrupts.  The requests to the SH-4's scheduler are left
  out, because the time at which \<open>AicaUpdate\<close> runs is no part of this state.
\<close>

subsection \<open>Mixing\<close>

definition VolumePan :: "aica_env \<Rightarrow> u32 \<Rightarrow> u32 \<Rightarrow> u32 \<Rightarrow> u32 \<times> u32 \<Rightarrow> u32 \<times> u32" where
  "VolumePan e value vol pan = (\<lambda>(outl, outr).
     (let temp = FPMul value (volume_lut e (unat vol)) 15;
          Sc = FPMul temp (volume_lut e (unat (0xF - (pan AND 0xF)))) 15
      in if pan AND 0x10 \<noteq> 0 then (outl + temp, outr + Sc) else (outl + Sc, outr + temp)))"

definition EFSDL :: "nat \<Rightarrow> machine \<Rightarrow> u32" where "EFSDL i s = get_bits (0x2000 + of_nat i * 4) 8 4 (regs s)"
definition EFPAN :: "nat \<Rightarrow> machine \<Rightarrow> u32" where "EFPAN i s = get_bits (0x2000 + of_nat i * 4) 0 5 (regs s)"

definition beep_wave :: "int list" where
  "beep_wave = [503, -3519,
     -7540, -8214, -8209, -8214, -8209, -5199, -1172, 2843,
     6873, 8207, 8214, 8209, 8212, 5866, 1840, -2175,
     -6203, -8210, -8215, -8209, -8214, -6533, -2516, 1507,
     5526, 8212, 8210, 8212, 8210, 7206, 3187, -841,
     -4856, -8215, -8209, -8214, -8208, -7882, -3850, 162,
     4187, 8213, 8208, 8213, 8209, 8211, 4525]"

definition beep_init :: "machine \<Rightarrow> machine" where
  "beep_init = upd (\<lambda>p. p\<lparr>beep_active := False, beep_att := 256, beep_waveIdx := 0, beep_waveStep := 0\<rparr>)"

definition beep_update :: "int \<Rightarrow> int \<Rightarrow> machine \<Rightarrow> machine" where
  "beep_update period on =
     upd (\<lambda>p. if on = 0 \<or> period = 0 \<or> on \<ge> period then p\<lparr>beep_active := False\<rparr>
              else p\<lparr>beep_active := True, beep_waveStep := word_of_int ((1000000 div period) * 1024 div 2698)\<rparr>)"

definition getSample :: "aica_env \<Rightarrow> machine \<Rightarrow> u32 \<times> machine" where
  "getSample e s =
     (let p = periph s in
      if \<not> beep_active p \<and> beep_att p \<ge> 256 then (0, s)
      else
        (let full = beep_waveIdx p + beep_waveStep p;
             fp = full AND 0x3FF;
             ip = unat (drop_bit 10 full) mod 49;
             nextIdx = (ip + 1) mod 49;
             v = (FPMul (word_of_int (beep_wave ! ip)) (1024 - fp) 10 + FPMul (word_of_int (beep_wave ! nextIdx)) fp 10) * 2;
             v = FPMul v (tl_lut e (beep_att p)) 15
         in (v, upd (\<lambda>p. p\<lparr>beep_waveIdx := push_bit 10 (of_nat ip) OR fp,
                  beep_att := (if beep_active p then beep_att p - 2 else min (beep_att p + 2) 256)\<rparr>) s)))"

definition mix_out :: "aica_env \<Rightarrow> (u32 \<times> u32) \<times> machine \<Rightarrow> machine" where
  "mix_out e = (\<lambda>((mixl, mixr), s).
     (let ((mixl, mixr), s) =
            (if VmuSound e then (let (b, s) = getSample e s in ((mixl + b, mixr + b), s)) else ((mixl, mixr), s));
          (mixl, mixr) = (if Mono (regs s) \<noteq> 0 then (FPs (mixl + mixr) 1, FPs (mixl + mixr) 1) else (mixl, mixr));
          val = volume_lut e (unat (MVOL (regs s)));
          mixl = FPMul_64 mixl val 15;
          mixr = FPMul_64 mixr val 15;
          (mixl, mixr) = (if DAC18B (regs s) \<noteq> 0 then (FPs mixl 2, FPs mixr 2) else (mixl, mixr));
          mixl = clamp (-32768) 32767 mixl;
          mixr = clamp (-32768) 32767 mixr
      in upd (\<lambda>p. p\<lparr>samples_out := samples_out p @ [(mixr, mixl)]\<rparr>) s))"

definition cdda_samples :: "(nat \<Rightarrow> u32) \<Rightarrow> machine \<Rightarrow> (u32 \<times> u32) \<times> machine" where
  "cdda_samples sector s =
     (let s = (if cdda_index (periph s) \<ge> 1176 then upd (\<lambda>p. p\<lparr>cdda_index := 0, cdda_sector := sector\<rparr>) s else s);
          i = cdda_index (periph s)
      in ((cdda_sector (periph s) i, cdda_sector (periph s) (i + 1)), upd (\<lambda>p. p\<lparr>cdda_index := i + 2\<rparr>) s))"

definition AICA_Sample :: "aica_env \<Rightarrow> (nat \<Rightarrow> u32) \<Rightarrow> machine \<Rightarrow> machine" where
  "AICA_Sample e sector s =
     (let s = upd_dsp (\<lambda>t. t\<lparr>dsp_MIXS := (\<lambda>_. 0)\<rparr>) s;
          (mix, s) = StepAll e ((0, 0), s);
          ((EXTS0L, EXTS0R), s) = cdda_samples sector s;
          mix = VolumePan e EXTS0L (EFSDL 16 s) (EFPAN 16 s) mix;
          mix = VolumePan e EXTS0R (EFSDL 17 s) (EFPAN 17 s) mix;
          s = set_regs (wr32 (wr32 (regs s) 0x45C0 EXTS0L) 0x45C4 EXTS0R) s;
          (mix, s) =
            (if DSPEnabled e then
               (let s = dsp_step e s
                in (fold (\<lambda>i. VolumePan e (scast (ucast (DSP_EFREG i s) :: u16)) (EFSDL i s) (EFPAN i s)) [0..<16] mix, s))
             else (mix, s))
      in if muteAudio e then s else mix_out e (mix, s))"

subsection \<open>One sample\<close>

definition timeStep :: "aica_env \<Rightarrow> (nat \<Rightarrow> u32) \<Rightarrow> machine \<Rightarrow> machine" where
  "timeStep e sector s =
     (let s = StepTimer 2 1 (StepTimer 1 1 (StepTimer 0 1 s));
          s = set_pd MCIPD_addr 10 (set_pd SCIPD_addr 10 s);
          s = AICA_Sample e sector s;
          s = update_arm_interrupts s
      in snd (UpdateSh4Ints s))"

abbreviation (input) ARM_CYCLES_PER_SAMPLE :: u32 where "ARM_CYCLES_PER_SAMPLE \<equiv> 512"

text \<open>\<open>None\<close> when the ARM does not come to the end of its cycles.\<close>

fun arm_run :: "aica_env \<Rightarrow> (nat \<Rightarrow> u32) list \<Rightarrow> machine \<Rightarrow> machine option" where
  "arm_run e [] s = Some s"
| "arm_run e (sector # rest) s =
     (case runInterpreter (the_bus e) ARM_CYCLES_PER_SAMPLE s of
        None \<Rightarrow> None
      | Some s \<Rightarrow> arm_run e rest (timeStep e sector s))"

subsection \<open>Reset\<close>

definition initMem :: "machine \<Rightarrow> machine" where
  "initMem s = (upd (\<lambda>p. p\<lparr>aica_reg := (\<lambda>_. 0), midiReceiver := False\<rparr>) s)\<lparr>aica_ram := (\<lambda>_. 0)\<rparr>"

definition sgc_init :: "aica_env \<Rightarrow> machine \<Rightarrow> machine" where
  "sgc_init e s = dsp_init (beep_init (initAll e s))"

definition resetRtc :: "bool \<Rightarrow> u32 \<Rightarrow> machine \<Rightarrow> machine" where
  "resetRtc hard now s =
     (let s = (if hard then upd (\<lambda>p. p\<lparr>RealTimeClock := now\<rparr>) s else s)
      in upd (\<lambda>p. p\<lparr>VREG := 0, ARMRST := 0\<rparr>) s)"

definition aica_reset :: "aica_env \<Rightarrow> bool \<Rightarrow> u32 \<Rightarrow> machine \<Rightarrow> machine" where
  "aica_reset e hard now s =
     (let s = (if hard then sgc_init e (initMem s) else s);
          s = timer_Init 2 (timer_Init 1 (timer_Init 0 s));
          s = resetRtc hard now s
      in arm_reset s)"

end
