(* ===== verification/Machine_Walk.thy ===== *)
theory Machine_Walk
  imports Dsp
begin

section \<open>Walking through an operation\<close>

text \<open>
  An operation of the sound subsystem is a chain of \<open>let\<close>s over machine states, ending in a state or in a pair of a value
  and a state.  The locale collects the rules that carry a property of states along such a chain, through its branches and
  through the loops: the property is shown of every intermediate state, never of the values in between.
\<close>

locale walk =
  fixes P :: "machine \<Rightarrow> bool"
begin

lemma walk_fold: "(\<And>i t. P t \<Longrightarrow> P (f i t)) \<Longrightarrow> P t \<Longrightarrow> P (fold f xs t)"
  by (induction xs arbitrary: t) auto

lemma walk_fold_snd: "(\<And>i x. P (snd x) \<Longrightarrow> P (snd (f i x))) \<Longrightarrow> P (snd x) \<Longrightarrow> P (snd (fold f xs x))"
  by (induction xs arbitrary: x) auto

lemma walk_funpow: "(\<And>t. P t \<Longrightarrow> P (f t)) \<Longrightarrow> P t \<Longrightarrow> P ((f ^^ n) t)"
  by (induction n) auto

lemma walk_let_machine:
  "P v \<Longrightarrow> (\<And>x. P x \<Longrightarrow> P (f x)) \<Longrightarrow> P (Let v f)"
  "P v \<Longrightarrow> (\<And>x. P x \<Longrightarrow> P (snd (g x))) \<Longrightarrow> P (snd (Let v g))"
  "P (snd w) \<Longrightarrow> (\<And>a x. P x \<Longrightarrow> P (h a x)) \<Longrightarrow> P (Let w (\<lambda>(a, x). h a x))"
  "P (snd w) \<Longrightarrow> (\<And>a x. P x \<Longrightarrow> P (snd (k a x))) \<Longrightarrow> P (snd (Let w (\<lambda>(a, x). k a x)))"
  by (simp_all add: Let_def split_beta)

lemma walk_let_data:
  "(\<And>x. P (f0 x)) \<Longrightarrow> P (Let v0 f0)" "(\<And>x. P (snd (g0 x))) \<Longrightarrow> P (snd (Let v0 g0))"
  "(\<And>x. P (f1 x)) \<Longrightarrow> P (Let v1 f1)" "(\<And>x. P (snd (g1 x))) \<Longrightarrow> P (snd (Let v1 g1))"
  "(\<And>x. P (f2 x)) \<Longrightarrow> P (Let v2 f2)" "(\<And>x. P (snd (g2 x))) \<Longrightarrow> P (snd (Let v2 g2))"
  "(\<And>x. P (f3 x)) \<Longrightarrow> P (Let v3 f3)" "(\<And>x. P (snd (g3 x))) \<Longrightarrow> P (snd (Let v3 g3))"
  "(\<And>x. P (f4 x)) \<Longrightarrow> P (Let v4 f4)" "(\<And>x. P (snd (g4 x))) \<Longrightarrow> P (snd (Let v4 g4))"
  "(\<And>x. P (f5 x)) \<Longrightarrow> P (Let v5 f5)" "(\<And>x. P (snd (g5 x))) \<Longrightarrow> P (snd (Let v5 g5))"
  "(\<And>x. P (f6 x)) \<Longrightarrow> P (Let v6 f6)" "(\<And>x. P (snd (g6 x))) \<Longrightarrow> P (snd (Let v6 g6))"
  "(\<And>x. P (f7 x)) \<Longrightarrow> P (Let v7 f7)" "(\<And>x. P (snd (g7 x))) \<Longrightarrow> P (snd (Let v7 g7))"
  "(\<And>x. P (f8 x)) \<Longrightarrow> P (Let v8 f8)" "(\<And>x. P (snd (g8 x))) \<Longrightarrow> P (snd (Let v8 g8))"
  "(\<And>x. P (f9 x)) \<Longrightarrow> P (Let v9 f9)" "(\<And>x. P (snd (g9 x))) \<Longrightarrow> P (snd (Let v9 g9))"
  "(\<And>x. P (f10 x)) \<Longrightarrow> P (Let v10 f10)" "(\<And>x. P (snd (g10 x))) \<Longrightarrow> P (snd (Let v10 g10))"
  for v0 :: u32 and v1 :: bool and v2 :: nat and v3 :: channel and v4 :: dsp_regs and v5 :: Instruction and v6 :: "u32 \<times> u32" and v7 :: "u32 \<times> u32 \<times> u32" and v8 :: "(u32 \<times> u32) \<times> u32" and v9 :: u64 and v10 :: "nat \<Rightarrow> u32"
  by simp_all

lemma walk_branch:
  "P a \<Longrightarrow> P b \<Longrightarrow> P (if c then a else b)"
  "P (snd x) \<Longrightarrow> P (snd y) \<Longrightarrow> P (snd (if c then x else y))"
  "P b \<Longrightarrow> P (snd (d, b))"
  by simp_all

lemma walk_prod:
  "(\<And>a b. P (f a b)) \<Longrightarrow> P (case z of (a, b) \<Rightarrow> f a b)"
  "(\<And>a b. P (snd (g a b))) \<Longrightarrow> P (snd (case z of (a, b) \<Rightarrow> g a b))"
  "(\<And>a b. P (snd (h a b x))) \<Longrightarrow> P (snd ((case z of (a, b) \<Rightarrow> h a b) x))"
  by (simp_all add: split_beta)

lemmas walk = walk_let_machine walk_let_data walk_branch

end

end
