(* ===== verification/Signed_Words.thy ===== *)
theory Signed_Words
  imports Prelude
begin

unbundle bit_operations_syntax

section \<open>Signed arithmetic on 32-bit words\<close>

text \<open>
  The C++ code computes with \<open>s32\<close> values that are held as words here.  These lemmas say when the word operation is the
  operation on the signed values, that is, when the C++ expression does not overflow.
\<close>

definition s_range :: "int \<Rightarrow> u32 \<Rightarrow> bool" where
  "s_range n v \<longleftrightarrow> - n \<le> sint v \<and> sint v < n"

lemma s_range_0 [simp]: "0 < n \<Longrightarrow> s_range n 0"
  by (simp add: s_range_def)

lemma sint_bounds: "- 0x80000000 \<le> sint v" "sint v < 0x80000000" for v :: u32
  using sint_ge [of v] sint_lt [of v] by simp_all

lemma sint_of_int: "- 0x80000000 \<le> k \<Longrightarrow> k < 0x80000000 \<Longrightarrow> sint (word_of_int k :: u32) = k"
  by (simp only: sint_sbintrunc') (rule signed_take_bit_int_eq_self, simp_all)

lemma word_of_sint: "word_of_int (sint v) = v"
  by simp

lemma sint_mult_exact:
  fixes a b :: u32
  assumes "- 0x80000000 \<le> sint a * sint b" "sint a * sint b < 0x80000000"
  shows "sint (a * b) = sint a * sint b"
proof -
  have "a * b = word_of_int (sint a * sint b)" by (simp add: wi_hom_mult [symmetric])
  then show ?thesis using sint_of_int [OF assms] by simp
qed

lemma sint_add_exact:
  fixes a b :: u32
  assumes "- 0x80000000 \<le> sint a + sint b" "sint a + sint b < 0x80000000"
  shows "sint (a + b) = sint a + sint b"
proof -
  have "a + b = word_of_int (sint a + sint b)" by (simp add: wi_hom_add [symmetric])
  then show ?thesis using sint_of_int [OF assms] by simp
qed

lemma sint_sar: "sint (signed_drop_bit n a) = sint a div 2 ^ n" for a :: u32
  by (simp add: sint_signed_drop_bit_eq drop_bit_eq_div)

lemma sint_small: "v < 0x80000000 \<Longrightarrow> sint v = uint v" for v :: u32
proof -
  assume "v < 0x80000000"
  then have "uint v < 2 ^ 31" by (simp add: word_less_def)
  moreover have "- (2 ^ 31) \<le> uint v" by (rule order_trans [OF _ uint_ge_0]) simp
  ultimately show ?thesis by (simp only: sint_uint) (simp add: signed_take_bit_int_eq_self)
qed

lemma sint_nonneg_uint: "0 \<le> sint v \<Longrightarrow> uint v = sint v" for v :: u32
proof -
  assume "0 \<le> sint v"
  then have "uint (word_of_int (sint v) :: u32) = sint v"
    using sint_bounds(2) [of v] by (simp only: uint_word_of_int) simp
  then show ?thesis by simp
qed

lemma scast_s16 [simp]: "s_range 0x8000 (scast (v :: u16))"
proof -
  have "- (2 ^ 15) \<le> sint v" "sint v < 2 ^ 15" using sint_ge [of v] sint_lt [of v] by simp_all
  then show ?thesis by (simp add: s_range_def signed_scast_eq signed_take_bit_int_eq_self)
qed

lemma u32_less_4: "i < 4 \<Longrightarrow> i = 0 \<or> i = 1 \<or> i = 2 \<or> i = 3" for i :: u32
  by (auto simp: word_unat_eq_iff word_less_nat_alt)

end
