(* ===== verification/Sgc_Ok.thy ===== *)
theory Sgc_Ok
  imports Sgc Signed_Words
begin

unbundle bit_operations_syntax

section \<open>Ranges of the channel state\<close>

text \<open>
  The widths the comments of \<^verbatim>\<open>sgc_if.cpp\<close> state: samples of 16 bits, filter memory of 20 bits, a 13-bit cutoff, ADPCM
  step sizes up to 24576, and the indices into \<open>MIXS\<close> and \<open>PLFO_Scales\<close>.  Each lemma is about one operation of a channel.
\<close>

definition ch_ok :: "channel \<Rightarrow> bool" where
  "ch_ok c \<longleftrightarrow> s_range 0x8000 (ch_s0 c) \<and> s_range 0x8000 (ch_s1 c) \<and> s_range 0x8000 (loopstart_prev_sample c)
     \<and> last_quant c \<le> 24576 \<and> loopstart_quant c \<le> 24576
     \<and> s_range 0x80000 (FEG_prev1 c) \<and> s_range 0x80000 (FEG_prev2 c) \<and> FEG_value c < 0x20000000
     \<and> DSPOut c < 16 \<and> lfo_plfo_scale c < 8"

definition chans_ok :: "machine \<Rightarrow> bool" where
  "chans_ok s \<longleftrightarrow> (\<forall>n. ch_ok (ch n s))"

lemma ch_ok_frame [simp]:
  "ch_ok (c\<lparr>ch_SA := x0\<rparr>) = ch_ok c" "ch_ok (c\<lparr>ch_CA := x1\<rparr>) = ch_ok c"
  "ch_ok (c\<lparr>ch_step := x2\<rparr>) = ch_ok c" "ch_ok (c\<lparr>update_rate := x3\<rparr>) = ch_ok c"
  "ch_ok (c\<lparr>loop_LSA := x4\<rparr>) = ch_ok c" "ch_ok (c\<lparr>loop_LEA := x5\<rparr>) = ch_ok c"
  "ch_ok (c\<lparr>looped := x6\<rparr>) = ch_ok c" "ch_ok (c\<lparr>in_loop := x7\<rparr>) = ch_ok c"
  "ch_ok (c\<lparr>noise_state := x8\<rparr>) = ch_ok c" "ch_ok (c\<lparr>DLAtt := x9\<rparr>) = ch_ok c"
  "ch_ok (c\<lparr>DRAtt := x10\<rparr>) = ch_ok c" "ch_ok (c\<lparr>DSPAtt := x11\<rparr>) = ch_ok c"
  "ch_ok (c\<lparr>StepAEG := x12\<rparr>) = ch_ok c" "ch_ok (c\<lparr>StepFEG := x13\<rparr>) = ch_ok c"
  "ch_ok (c\<lparr>StepStream := x14\<rparr>) = ch_ok c" "ch_ok (c\<lparr>StepStreamInitial := x15\<rparr>) = ch_ok c"
  "ch_ok (c\<lparr>AEG_val := x16\<rparr>) = ch_ok c" "ch_ok (c\<lparr>AEG_state := x17\<rparr>) = ch_ok c"
  "ch_ok (c\<lparr>AEG_AttackRate := x18\<rparr>) = ch_ok c" "ch_ok (c\<lparr>AEG_Decay1Rate := x19\<rparr>) = ch_ok c"
  "ch_ok (c\<lparr>AEG_Decay2Value := x20\<rparr>) = ch_ok c" "ch_ok (c\<lparr>AEG_Decay2Rate := x21\<rparr>) = ch_ok c"
  "ch_ok (c\<lparr>AEG_ReleaseRate := x22\<rparr>) = ch_ok c" "ch_ok (c\<lparr>FEG_state := x23\<rparr>) = ch_ok c"
  "ch_ok (c\<lparr>FEG_fractSave := x24\<rparr>) = ch_ok c" "ch_ok (c\<lparr>FEG_q := x25\<rparr>) = ch_ok c"
  "ch_ok (c\<lparr>FEG_AttackRate := x26\<rparr>) = ch_ok c" "ch_ok (c\<lparr>FEG_Decay1Rate := x27\<rparr>) = ch_ok c"
  "ch_ok (c\<lparr>FEG_Decay2Rate := x28\<rparr>) = ch_ok c" "ch_ok (c\<lparr>FEG_ReleaseRate := x29\<rparr>) = ch_ok c"
  "ch_ok (c\<lparr>FEG_active := x30\<rparr>) = ch_ok c" "ch_ok (c\<lparr>lfo_counter := x31\<rparr>) = ch_ok c"
  "ch_ok (c\<lparr>lfo_start_value := x32\<rparr>) = ch_ok c" "ch_ok (c\<lparr>lfo_state := x33\<rparr>) = ch_ok c"
  "ch_ok (c\<lparr>lfo_alfo := x34\<rparr>) = ch_ok c" "ch_ok (c\<lparr>lfo_alfo_shft := x35\<rparr>) = ch_ok c"
  "ch_ok (c\<lparr>lfo_plfo_step := x36\<rparr>) = ch_ok c" "ch_ok (c\<lparr>lfo_alfoType := x37\<rparr>) = ch_ok c"
  "ch_ok (c\<lparr>lfo_plfoType := x38\<rparr>) = ch_ok c" "ch_ok (c\<lparr>lfo_alfo_calc := x39\<rparr>) = ch_ok c"
  "ch_ok (c\<lparr>lfo_plfo_calc := x40\<rparr>) = ch_ok c" "ch_ok (c\<lparr>ch_enabled := x41\<rparr>) = ch_ok c"
  by (simp_all add: ch_ok_def)

lemma ch_ok_sets:
  assumes "ch_ok c"
  shows "s_range 0x8000 v \<Longrightarrow> ch_ok (c\<lparr>ch_s0 := v\<rparr>)" "s_range 0x8000 v \<Longrightarrow> ch_ok (c\<lparr>ch_s1 := v\<rparr>)"
    "s_range 0x8000 v \<Longrightarrow> ch_ok (c\<lparr>loopstart_prev_sample := v\<rparr>)" "v \<le> 24576 \<Longrightarrow> ch_ok (c\<lparr>last_quant := v\<rparr>)"
    "v \<le> 24576 \<Longrightarrow> ch_ok (c\<lparr>loopstart_quant := v\<rparr>)" "s_range 0x80000 v \<Longrightarrow> ch_ok (c\<lparr>FEG_prev1 := v\<rparr>)"
    "s_range 0x80000 v \<Longrightarrow> ch_ok (c\<lparr>FEG_prev2 := v\<rparr>)" "v < 0x20000000 \<Longrightarrow> ch_ok (c\<lparr>FEG_value := v\<rparr>)"
    "i < 16 \<Longrightarrow> ch_ok (c\<lparr>DSPOut := i\<rparr>)" "i < 8 \<Longrightarrow> ch_ok (c\<lparr>lfo_plfo_scale := i\<rparr>)"
  using assms by (simp_all add: ch_ok_def)

lemma ch_okD:
  assumes "ch_ok c"
  shows "s_range 0x8000 (ch_s0 c)" "s_range 0x8000 (ch_s1 c)" "s_range 0x8000 (loopstart_prev_sample c)"
    "last_quant c \<le> 24576" "loopstart_quant c \<le> 24576" "FEG_value c < 0x20000000" "DSPOut c < 16"
  using assms by (simp_all add: ch_ok_def)

lemma chans_okD: "chans_ok s \<Longrightarrow> ch_ok (ch n s)"
  by (simp add: chans_ok_def)

lemma clamp_range:
  assumes "- 0x80000000 \<le> lo" "lo \<le> hi" "hi < 0x80000000"
  shows "lo \<le> sint (clamp lo hi v) \<and> sint (clamp lo hi v) \<le> hi"
  using assms sint_of_int [of lo] sint_of_int [of hi] by (auto simp: clamp_def)

lemma clamp_ranges [simp]: "s_range 0x8000 (clamp (-32768) 32767 v)" "s_range 0x80000 (clamp (- 524288) 524287 v)"
  using clamp_range [of "-32768" 32767 v] clamp_range [of "- 524288" 524287 v] by (simp_all add: s_range_def)

lemma clamp_quant [simp]: "clamp 127 24576 v \<le> 24576"
  using clamp_range [of 127 24576 v] sint_nonneg_uint [of "clamp 127 24576 v"] by (simp add: word_le_def)

lemma DecodeADPCM_ok [simp]:
  "s_range 0x8000 (fst (DecodeADPCM sample prev q))" "snd (DecodeADPCM sample prev q) \<le> 24576"
  by (simp_all add: DecodeADPCM_def Let_def)

lemma decoded_ok [simp]:
  "s_range 0x8000 (ram_s16 e a s)" "s_range 0x8000 (push_bit 8 (scast (v :: u8)))" "s_range 0x8000 (sar 16 w)"
proof -
  show "s_range 0x8000 (ram_s16 e a s)" by (simp add: ram_s16_def)
  have v: "- (2 ^ 7) \<le> sint v" "sint v < 2 ^ 7" using sint_ge [of v] sint_lt [of v] by simp_all
  have "push_bit 8 (scast v) = (word_of_int (256 * sint v) :: u32)"
    by (simp only: push_bit_eq_mult scast_eq wi_hom_mult [symmetric]) simp
  then show "s_range 0x8000 (push_bit 8 (scast v))" using v sint_of_int [of "256 * sint v"] by (simp add: s_range_def)
  show "s_range 0x8000 (sar 16 w)" using sint_bounds [of w] by (auto simp: s_range_def sint_sar)
qed


lemma ccd_lt: "n < 32 \<Longrightarrow> ccd off lo n cn s < 2 ^ n"
  by (simp add: ccd_def get_bits_def and_mask_less_size word_size)

lemma field_bounds [simp]:
  "push_bit 16 (FLV0 cn s) < 0x20000000" "push_bit 16 (FLV1 cn s) < 0x20000000" "push_bit 16 (FLV2 cn s) < 0x20000000"
  "push_bit 16 (FLV3 cn s) < 0x20000000" "push_bit 16 (FLV4 cn s) < 0x20000000"
  "unat (ISEL cn s) < 16" "unat (PLFOS cn s) < 8"
proof -
  have "push_bit 16 v < 0x20000000" if "v < 2 ^ 13" for v :: u32
  proof -
    have "unat v < 2 ^ 13" using that by (simp add: word_less_nat_alt)
    then have "unat (push_bit 16 v) = unat v * 65536"
      by (simp add: push_bit_eq_mult unat_mult_lem [THEN iffD1] mult.commute)
    then show ?thesis using \<open>unat v < 2 ^ 13\<close> by (simp add: word_less_nat_alt)
  qed
  then show "push_bit 16 (FLV0 cn s) < 0x20000000" "push_bit 16 (FLV1 cn s) < 0x20000000"
    "push_bit 16 (FLV2 cn s) < 0x20000000" "push_bit 16 (FLV3 cn s) < 0x20000000" "push_bit 16 (FLV4 cn s) < 0x20000000"
    using ccd_lt [of 13] by (simp_all add: FLV0_def FLV1_def FLV2_def FLV3_def FLV4_def)
  show "unat (ISEL cn s) < 16" "unat (PLFOS cn s) < 8"
    using ccd_lt [of 4 "0x20" 0 cn s] ccd_lt [of 3 "0x1C" 5 cn s] by (simp_all add: ISEL_def PLFOS_def word_less_nat_alt)
qed

lemma feg_move_bound: "v < n \<Longrightarrow> target < n \<Longrightarrow> feg_move v target delta < n" for n :: u32
proof -
  assume vt: "v < n" "target < n"
  have "v + (if delta > target - v then target - v else delta) \<le> target" if "v < target"
    using that by (auto simp: not_less) (metis add.commute diff_add_cancel less_imp_le plus_minus_not_NULL_ab word_plus_mono_right)
  moreover have "v - (if delta > v - target then v - target else delta) \<le> v" if "\<not> v < target"
    using that by (auto simp: not_less word_sub_le intro: order_trans word_sub_le)
  ultimately show ?thesis using vt by (auto simp: feg_move_def Let_def)
qed

lemma lowPassFilter_ok: "ch_ok c \<Longrightarrow> ch_ok (snd (lowPassFilter v c))"
  by (simp add: lowPassFilter_def Let_def ch_ok_def)

lemma lfo_ok:
  assumes "ch_ok c"
  shows "ch_ok (lfo_Step e c)" "ch_ok (lfo_Reset e c)" "ch_ok (lfo_calc e c)"
  using assms by (simp_all add: ch_ok_def lfo_Step_def lfo_Reset_def lfo_calc_def CalcAlfo_def CalcPlfo_def Let_def)


lemma decode_adpcm_ok:
  assumes "ch_ok (ch cn s)"
  shows "\<exists>c. decode_adpcm_step e fmt l CA cn s = upd_ch cn (\<lambda>_. c) s \<and> ch_ok c"
  unfolding decode_adpcm_step_def Let_def split_beta
  by (intro exI conjI, rule refl) (use assms in \<open>simp add: ch_ok_sets ch_okD\<close>)


lemma channel_zero_ok [simp]: "ch_ok channel_zero"
  by (simp add: ch_ok_def channel_zero_def)

lemma chans_ok_periph: "Chans (periph t) = Chans (periph s) \<Longrightarrow> chans_ok t = chans_ok s"
  by (simp add: chans_ok_def)

end
