(* ===== verification/Dsp_Props.thy ===== *)
theory Dsp_Props
  imports Machine_Walk Sgc_Ok
begin

unbundle bit_operations_syntax

section \<open>What the DSP computes\<close>

text \<open>
  The delay memory's 16-bit format: which 24-bit values its codes stand for, that unpacking and packing are inverse up to
  the precision of the format, and that the DSP's stores stay inside the sound memory.
\<close>

subsection \<open>Bits of a packed and of an unpacked sample\<close>

abbreviation expo :: "u16 \<Rightarrow> nat" where
  "expo w \<equiv> unat (drop_bit 11 (ucast w :: u32) AND 0xF)"

text \<open>Bit \<open>j\<close> of the value before the shift by the exponent: sign, first bit after the sign, mantissa, zeros.\<close>

definition ubit :: "u16 \<Rightarrow> nat \<Rightarrow> bool" where
  "ubit w j \<longleftrightarrow> (if 23 \<le> j then bit w 15 else if j = 22 then (bit w 15 \<noteq> (expo w \<le> 11)) else if 11 \<le> j then bit w (j - 11) else False)"

lemma and_bit23: "t AND 0x800000 \<noteq> 0 \<longleftrightarrow> bit t 23" for t :: u32
  using and_exp_eq_0_iff_not_bit [of t 23] by simp

lemma bit_double: "i < 12 \<Longrightarrow> bit (push_bit 1 t) (23 - i) = bit t (23 - Suc i)" for t :: u32
  by (simp only: bit_push_bit_iff) (auto simp: Suc_diff_Suc)

lemma pack_exponent_at:
  "k < n \<Longrightarrow> n \<le> 12 \<Longrightarrow> (\<forall>i<k. \<not> bit t (23 - i)) \<Longrightarrow> bit t (23 - k) \<Longrightarrow> pack_exponent n t = k"
proof (induction n arbitrary: k t)
  case (Suc n)
  show ?case
  proof (cases k)
    case 0
    then show ?thesis using Suc.prems by (simp add: and_bit23)
  next
    case (Suc j)
    have "pack_exponent n (push_bit 1 t) = j"
    proof (rule Suc.IH)
      show "\<forall>i<j. \<not> bit (push_bit 1 t) (23 - i)" using Suc Suc.prems(1-3) bit_double [of _ t] by auto
      show "bit (push_bit 1 t) (23 - j)" using Suc Suc.prems(1,2,4) bit_double [of j t] by simp
    qed (use Suc Suc.prems(1,2) in auto)
    moreover have "\<not> bit t 23" using Suc.prems(3) Suc by force
    ultimately show ?thesis using Suc by (simp add: and_bit23)
  qed
qed simp

lemma pack_exponent_none: "n \<le> 12 \<Longrightarrow> (\<forall>i<n. \<not> bit t (23 - i)) \<Longrightarrow> pack_exponent n t = n"
proof (induction n arbitrary: t)
  case (Suc n)
  have "pack_exponent n (push_bit 1 t) = n"
  proof (rule Suc.IH)
    show "\<forall>i<n. \<not> bit (push_bit 1 t) (23 - i)" using Suc.prems bit_double [of _ t] by auto
  qed (use Suc.prems in simp)
  moreover have "\<not> bit t 23" using Suc.prems(2) by force
  ultimately show ?case by (simp add: and_bit23)
qed simp


lemma sign_bit: "drop_bit 15 (ucast w :: u32) AND 1 = of_bool (bit w 15)" for w :: u16
  by (rule bit_word_eqI) (auto simp: bit_simps)

lemma flip_bit:
  fixes a :: u32
  assumes "\<not> bit a k"
  shows "(a OR push_bit k (of_bool p)) XOR push_bit k 1 = a OR push_bit k (of_bool (\<not> p))"
proof (rule bit_word_eqI)
  fix n
  have "bit (push_bit k (of_bool q) :: u32) n \<longleftrightarrow> q \<and> n = k \<and> k < 32" for q
    by (auto simp only: bit_push_bit_iff bit_of_bool_iff) auto
  from this [of p] this [of True] this [of "\<not> p"]
  show "bit ((a OR push_bit k (of_bool p)) XOR push_bit k 1) n = bit (a OR push_bit k (of_bool (\<not> p))) n"
    using assms by (auto simp only: bit_or_iff bit_xor_iff of_bool_eq)
qed

lemma UNPACK_fields:
  "UNPACK w = sar (min (expo w) 11) (sar 8 (push_bit 8 ((push_bit 11 (ucast w AND mask 11)
     OR push_bit 22 (of_bool (bit w 15 \<noteq> (expo w \<le> 11)))) OR push_bit 23 (of_bool (bit w 15)))))"
proof -
  have m: "(0x7FF :: u32) = mask 11" by (simp add: mask_numeral)
  have le: "drop_bit 11 (ucast w :: u32) AND 0xF > 11 \<longleftrightarrow> \<not> expo w \<le> 11" by (simp add: word_less_nat_alt not_le)
  have "\<not> bit (push_bit 11 (ucast w AND mask 11) :: u32) 22"
    by (simp only: bit_push_bit_iff bit_and_iff bit_mask_iff) simp
  note x = flip_bit [OF this]
  show ?thesis
    unfolding UNPACK_def Let_def sign_bit m le
    by (cases "expo w \<le> 11") (simp_all only: x if_True if_False case_prod_conv not_True_eq_False not_False_eq_True simp_thms min_def, simp_all)
qed


lemma bit_of_bool_shift: "bit (push_bit k (of_bool q) :: u32) n \<longleftrightarrow> q \<and> n = k \<and> k < 32"
  by (auto simp only: bit_push_bit_iff bit_of_bool_iff) auto

lemma bit_sign_extend: "k < 32 \<Longrightarrow> bit (sar n (sar 8 (push_bit 8 u))) k \<longleftrightarrow> bit u (min (n + k) 23)" for u :: u32
  by (auto simp: bit_signed_drop_bit_iff bit_push_bit_iff min_def)

lemma bit_UNPACK: "k < 32 \<Longrightarrow> bit (UNPACK w) k \<longleftrightarrow> ubit w (k + min (expo w) 11)"
proof -
  assume k: "k < 32"
  let ?j = "min (min (expo w) 11 + k) 23"
  have "bit (push_bit 11 (ucast w AND mask 11) :: u32) ?j \<longleftrightarrow> 11 \<le> ?j \<and> ?j < 22 \<and> bit w (?j - 11)"
    by (auto simp only: bit_push_bit_iff bit_and_iff bit_mask_iff bit_ucast_iff) auto
  then show ?thesis
    unfolding UNPACK_fields bit_sign_extend [OF k] bit_or_iff bit_of_bool_shift
    by (auto simp: ubit_def add.commute)
qed


text \<open>The exponent \<open>PACK\<close> chooses: the number of copies of the sign that follow it, at most 12.\<close>

definition ptemp :: "u32 \<Rightarrow> u32" where
  "ptemp v = (v XOR push_bit 1 v) AND 0xFFFFFF"

definition pexp :: "u32 \<Rightarrow> nat" where
  "pexp v = pack_exponent 12 (ptemp v)"

lemma bit_ptemp: "i < 12 \<Longrightarrow> bit (ptemp v) (23 - i) \<longleftrightarrow> bit v (23 - i) \<noteq> bit v (22 - i)"
proof -
  have m: "(0xFFFFFF :: u32) = mask 24" by (simp add: mask_numeral)
  show "i < 12 \<Longrightarrow> ?thesis"
    unfolding m ptemp_def by (simp only: bit_and_iff bit_xor_iff bit_push_bit_iff bit_mask_iff) (auto simp: Suc_diff_Suc)
qed

lemma pexp_at: "k < 12 \<Longrightarrow> (\<forall>i<k. bit v (23 - i) = bit v (22 - i)) \<Longrightarrow> bit v (23 - k) \<noteq> bit v (22 - k) \<Longrightarrow> pexp v = k"
  unfolding pexp_def by (rule pack_exponent_at) (auto simp: bit_ptemp)

lemma pexp_none: "(\<forall>i<12. bit v (23 - i) = bit v (22 - i)) \<Longrightarrow> pexp v = 12"
  unfolding pexp_def by (rule pack_exponent_none) (auto simp: bit_ptemp)

lemma pexp_cases:
  "pexp v \<le> 12" "i < pexp v \<Longrightarrow> bit v (23 - i) = bit v (22 - i)" "pexp v < 12 \<Longrightarrow> bit v (23 - pexp v) \<noteq> bit v (22 - pexp v)"
proof -
  let ?d = "\<lambda>k. bit v (23 - k) \<noteq> bit v (22 - k)"
  have "pexp v \<le> 12 \<and> (i < pexp v \<longrightarrow> \<not> ?d i) \<and> (pexp v < 12 \<longrightarrow> ?d (pexp v))"
  proof (cases "\<exists>k<12. ?d k")
    case True
    then obtain k where k: "k < 12" "?d k" by blast
    define l where "l = (LEAST k. ?d k)"
    have l: "?d l" "l \<le> k" "\<forall>i<l. \<not> ?d i"
      unfolding l_def using k(2) by (rule LeastI, intro Least_le k(2), use not_less_Least in blast)
    then have "pexp v = l" using k(1) by (intro pexp_at) auto
    then show ?thesis using l k(1) by auto
  qed (use pexp_none in auto)
  then show "pexp v \<le> 12" "i < pexp v \<Longrightarrow> bit v (23 - i) = bit v (22 - i)"
    "pexp v < 12 \<Longrightarrow> bit v (23 - pexp v) \<noteq> bit v (22 - pexp v)" by auto
qed

lemma bit_pexp_lt: "bit (pexp v) n \<Longrightarrow> n < 4"
proof -
  have "pexp v < 2 ^ 4" using pexp_cases(1) [of v] by simp
  then have "take_bit 4 (pexp v) = pexp v" by (simp add: take_bit_nat_eq_self)
  then show "bit (pexp v) n \<Longrightarrow> n < 4" by (metis bit_take_bit_iff)
qed

lemma bit_PACK:
  assumes "k < 16"
  shows "bit (PACK v) k \<longleftrightarrow>
    (if k = 15 then bit v 23 else if k < 11 then bit v (k + 11 - min (pexp v) 11) else bit (pexp v) (k - 11))"
proof -
  let ?A = "sar 11 (push_bit (min (pexp v) 11) v) AND mask 11"
  let ?B = "push_bit 15 (of_bool (bit v 23)) :: u32" let ?C = "push_bit 11 (of_nat (pexp v)) :: u32"
  have m: "(0x7FF :: u32) = mask 11" by (simp add: mask_numeral)
  have sg: "sar 23 v AND 1 = of_bool (bit v 23)"
    by (rule bit_word_eqI) (auto simp: bit_simps)
  have sh: "(if pexp v < 12 then push_bit (pexp v) v else push_bit 11 v) = push_bit (min (pexp v) 11) v"
    using pexp_cases(1) [of v] by (auto simp: min_def)
  have "PACK v = ucast ((?A OR ?B) OR ?C)"
    unfolding PACK_def Let_def ptemp_def [symmetric] pexp_def [symmetric] sg sh m by (rule refl)
  then have b: "bit (PACK v) k \<longleftrightarrow> bit ?A k \<or> bit ?B k \<or> bit ?C k"
    using assms by (simp only: bit_ucast_iff bit_or_iff) simp
  have A: "bit ?A k \<longleftrightarrow> k < 11 \<and> bit v (k + 11 - min (pexp v) 11)"
    by (auto simp only: bit_and_iff bit_mask_iff bit_signed_drop_bit_iff bit_push_bit_iff) (auto simp: min_def add.commute)
  have C: "bit ?C k \<longleftrightarrow> 11 \<le> k \<and> k < 15 \<and> bit (pexp v) (k - 11)"
    using assms bit_pexp_lt [of v "k - 11"] by (auto simp only: bit_push_bit_iff bit_of_nat_iff) force+
  show ?thesis unfolding b A C bit_of_bool_shift using assms by auto
qed


lemma bit_expo: "bit (expo w) n \<longleftrightarrow> n < 4 \<and> bit w (n + 11)"
proof -
  have m: "(0xF :: u32) = mask 4" by (simp add: mask_numeral)
  show ?thesis unfolding m by (auto simp: bit_unsigned_iff bit_and_iff bit_drop_bit_eq bit_mask_iff bit_ucast_iff add.commute)
qed

lemma pexp_UNPACK: "pexp (UNPACK w) = min (expo w) 12"
proof (cases "expo w \<le> 11")
  case True
  have "bit (UNPACK w) (23 - i) = bit w 15" if "i \<le> expo w" for i
    using that True by (auto simp: bit_UNPACK ubit_def)
  moreover have "bit (UNPACK w) (22 - i) = bit w 15" if "i < expo w" for i
    using that True by (auto simp: bit_UNPACK ubit_def)
  moreover have "bit (UNPACK w) (22 - expo w) = (\<not> bit w 15)"
    using True by (simp add: bit_UNPACK ubit_def)
  ultimately show ?thesis using True by (subst pexp_at [of "expo w"]) auto
next
  case False
  then have "bit (UNPACK w) (23 - i) = bit w 15" "bit (UNPACK w) (22 - i) = bit w 15" if "i < 12" for i
    using that by (auto simp: bit_UNPACK ubit_def)
  then show ?thesis using False by (subst pexp_none) auto
qed

text \<open>
  Property C20: unpacking a 16-bit code of the delay memory and packing it again gives the same code, except that the
  exponents 13 to 15, which stand for the same values as 12, become 12.
\<close>

theorem packed_sample_roundtrip:
  "PACK (UNPACK w) = (if expo w \<le> 12 then w else (w AND NOT (push_bit 11 (mask 4))) OR push_bit 11 12)"
    (is "_ = ?r")
proof (rule bit_word_eqI)
  fix k assume "k < LENGTH(16)"
  then have k: "k < 16" by simp
  have kk: "k < 11 \<or> k = 11 \<or> k = 12 \<or> k = 13 \<or> k = 14 \<or> k = 15" using k by arith
  have b: "bit (PACK (UNPACK w)) k \<longleftrightarrow> (if k = 15 then bit w 15 else if k < 11 then bit w k else bit (min (expo w) 12) (k - 11))"
    unfolding bit_PACK [OF k] pexp_UNPACK by (auto simp: bit_UNPACK ubit_def min_def)
  have c: "bit (push_bit 11 12 :: u16) k \<longleftrightarrow> 11 \<le> k \<and> bit (12 :: nat) (k - 11)"
    using kk by (simp only: bit_push_bit_iff) (auto simp: bit_Suc_0_iff)
  have d: "bit (push_bit 11 (mask 4) :: u16) k \<longleftrightarrow> 11 \<le> k \<and> k < 15"
    using k by (simp only: bit_push_bit_iff bit_mask_iff) auto
  have "\<not> bit (12 :: nat) 4" by simp
  then have e: "bit (expo w) (k - 11) = bit w k" if "11 \<le> k" "k \<noteq> 15" using that k by (auto simp: bit_expo)
  show "bit (PACK (UNPACK w)) k = bit ?r k"
  proof (cases "expo w \<le> 12")
    case True
    then show ?thesis unfolding b using e by auto
  next
    case False
    moreover have "min (expo w) 12 = 12" using False by simp
    moreover have "\<not> bit (12 :: nat) (k - 11)" if "k = 15" using that by simp
    ultimately show ?thesis unfolding b by (simp only: if_False bit_or_iff bit_and_iff bit_not_iff c d) (use k in auto)
  qed
qed


lemma sign_run: "s_range 0x800000 v \<Longrightarrow> 23 \<le> j \<Longrightarrow> j < 32 \<Longrightarrow> bit v j = bit v 23"
proof -
  assume v: "s_range 0x800000 v" and j: "23 \<le> j" "j < 32"
  have e: "signed_take_bit 23 (sint v) = sint v" by (rule signed_take_bit_int_eq_self) (use v in \<open>simp_all add: s_range_def\<close>)
  have "bit (signed_take_bit 23 (sint v)) j = bit (sint v) 23" using j by (simp add: bit_signed_take_bit_iff min_def)
  then have "bit (sint v) j = bit (sint v) 23" by (simp only: e)
  then show ?thesis using j by (simp add: bit_sint_iff)
qed

lemma sign_prefix: "i \<le> pexp v \<Longrightarrow> bit v (23 - i) = bit v 23"
proof (induction i)
  case (Suc i)
  then show ?case using pexp_cases(2) [of i v] by simp
qed simp

lemma expo_PACK: "expo (PACK v) = pexp v"
proof (rule bit_eqI)
  fix n
  show "bit (expo (PACK v)) n = bit (pexp v) n"
    using bit_pexp_lt [of v n] by (auto simp: bit_expo bit_PACK)
qed

text \<open>
  Packing a 24-bit sample and unpacking it gives the sample with its low bits cleared: with \<open>n\<close> copies of the
  sign after the sign bit, the lowest \<open>11 - n\<close> bits, so values of fewer than 13 significant bits are kept exactly.
\<close>

theorem packed_sample_truncates:
  assumes "s_range 0x800000 v"
  shows "UNPACK (PACK v) = v AND NOT (mask (11 - pexp v))"
proof (rule bit_word_eqI)
  fix k assume "k < LENGTH(32)"
  then have k: "k < 32" by simp
  let ?e = "min (pexp v) 11" let ?j = "k + ?e"
  have "bit (UNPACK (PACK v)) k = ubit (PACK v) ?j" using k by (simp add: bit_UNPACK expo_PACK)
  also have "\<dots> = (bit v k \<and> 11 - pexp v \<le> k)"
  proof -
    have p: "bit (PACK v) 15 = bit v 23" by (simp add: bit_PACK)
    consider "23 \<le> ?j" | "?j = 22" | "11 \<le> ?j" "?j < 22" | "?j < 11" by linarith
    then show ?thesis
    proof cases
      case 1
      have "bit v k = bit v 23"
      proof (cases "23 \<le> k")
        case False
        then show ?thesis using 1 sign_prefix [of "23 - k" v] by simp
      qed (use sign_run [OF assms] k in blast)
      then show ?thesis using 1 p by (auto simp: ubit_def)
    next
      case 2
      then have "k = 22 - ?e" by simp
      then have "bit v k = (bit v 23 \<noteq> (pexp v \<le> 11))"
        using pexp_cases(1,3) [of v] sign_prefix [of "pexp v" v] by (cases "pexp v = 12") auto
      then show ?thesis using 2 p by (auto simp: ubit_def expo_PACK)
    next
      case 3
      then show ?thesis by (auto simp: ubit_def bit_PACK)
    qed (auto simp: ubit_def)
  qed
  finally show "bit (UNPACK (PACK v)) k = bit (v AND NOT (mask (11 - pexp v))) k"
    using k by (auto simp: bit_and_iff bit_not_iff bit_mask_iff)
qed


theorem packed_sample_truncates_witness: "UNPACK (PACK 0x123456) = 0x123400"
proof -
  have "pexp 0x123456 = 2" by code_simp
  moreover have "s_range 0x800000 0x123456" by (simp add: s_range_def)
  ultimately show ?thesis using packed_sample_truncates [of "0x123456"] by (simp add: mask_numeral)
qed


subsection \<open>Stores\<close>

text \<open>
  The decoded registers: an even ring-buffer base, a ring of at most \<open>0x10000\<close> words and a position counter that never
  rests at zero.
\<close>

definition dsp_ok :: "dsp_state \<Rightarrow> bool" where
  "dsp_ok d \<longleftrightarrow> \<not> bit (dsp_RBP d) 0 \<and> dsp_RBL d \<le> 0xFFFF \<and> 1 \<le> MDEC_CT d \<and> MDEC_CT d \<le> 0x10000"

text \<open>The machine differs from \<open>s\<close> in no byte above the address \<open>m\<close>, and its ring buffer has not moved.\<close>

definition confined :: "u32 \<Rightarrow> machine \<Rightarrow> machine \<Rightarrow> bool" where
  "confined m s t \<longleftrightarrow> (\<forall>a>m. aica_ram t a = aica_ram s a) \<and> dsp_RBP (dstate t) = dsp_RBP (dstate s)"

interpretation confined: walk "confined m s" for m s .

lemma confined_refl: "confined m s s"
  by (simp add: confined_def)

lemma confined_regs: "confined m s t \<Longrightarrow> confined m s (set_regs r t)"
  by (simp add: confined_def set_regs_def upd_def)

lemma confined_dsp: "confined m s t \<Longrightarrow> (\<And>d. dsp_RBP (g d) = dsp_RBP d) \<Longrightarrow> confined m s (upd_dsp g t)"
  by (simp add: confined_def upd_dsp_def upd_def)

lemma store_in_range:
  fixes a m :: u32
  assumes "\<not> bit a 0" "bit m 0"
  shows "x > m \<Longrightarrow> wr16 r (a AND m) v x = r x"
proof -
  have "a AND m \<noteq> m" using assms by (metis bit_and_iff)
  moreover have "a AND m \<le> m" by (rule word_and_le1)
  ultimately have "(a AND m) + 1 \<le> m" "a AND m < m" by (auto intro: inc_le)
  then show "x > m \<Longrightarrow> wr16 r (a AND m) v x = r x" by (auto simp: wr16_def)
qed

lemma confined_store:
  assumes "confined m s t" "\<not> bit (dsp_RBP (dstate s)) 0" "bit m 0"
  shows "confined m s (t\<lparr>aica_ram := wr16 (aica_ram t) (dsp_addr i adrs t AND m) v\<rparr>)"
proof -
  have "even (dsp_RBP (dstate t))" using assms(1,2) by (simp add: confined_def bit_0)
  then have "\<not> bit (dsp_addr i adrs t) 0" by (simp add: dsp_addr_def Let_def bit_0)
  then show ?thesis using assms(1,3) store_in_range by (simp add: confined_def)
qed

lemma confined_runStep:
  assumes "\<not> bit (dsp_RBP (dstate s)) 0" "bit (ARAM_MASK e) 0"
  shows "confined (ARAM_MASK e) s (runStep e s)"
proof -
  note c = confined_refl confined_regs confined_dsp
  have m: "confined (ARAM_MASK e) s (snd (dsp_memory e stp i (d, t)))" if "confined (ARAM_MASK e) s t" for stp i d t
    using that by (simp add: dsp_memory_def Let_def confined_store [OF _ assms])
  have i: "confined (ARAM_MASK e) s (snd (dsp_instruction e stp i (d, t)))" if "confined (ARAM_MASK e) s t" for stp i d t
    using that unfolding dsp_instruction_def case_prod_conv by (intro confined.walk c m) simp_all
  have o: "confined (ARAM_MASK e) s (snd (dsp_one e stp x))" if "confined (ARAM_MASK e) s (snd x)" for stp x
    using that i [of "snd x" stp _ "fst x"] by (simp add: dsp_one_def dsp_empty_def Let_def split_beta)
  have "confined (ARAM_MASK e) s (snd (fold (dsp_one e) [0..<128] (dsp_regs0, s)))"
    by (rule confined.walk_fold_snd) (simp_all add: o confined_refl)
  then show ?thesis by (simp add: runStep_def Let_def split_beta confined_refl confined_dsp del: set_upt)
qed


lemma confined_step:
  assumes "\<not> bit (dsp_RBP (dstate s)) 0" "bit (ARAM_MASK e) 0"
  shows "confined (ARAM_MASK e) s (dsp_step e s)"
proof -
  have "confined (ARAM_MASK e) s (runStep e (upd_dsp g s))" if "\<And>d. dsp_RBP (g d) = dsp_RBP d" for g
    using confined_runStep [of "upd_dsp g s" e] assms that by (simp add: confined_def upd_dsp_def upd_def)
  then show ?thesis
    using confined_runStep [OF assms] by (simp add: dsp_step_def Let_def confined_refl confined_dsp del: set_upt)
qed

text \<open>
  Property C21: a sample's worth of DSP work, whatever the program in \<open>MPRO\<close>, stores to no byte of memory above the last
  one of the sound memory; its 16-bit stores are aligned because the ring buffer's base is even.
\<close>

theorem dsp_stores_confined:
  assumes "dsp_ok (dstate s)" "bit (ARAM_MASK e) 0" "a > ARAM_MASK e"
  shows "aica_ram (dsp_step e s) a = aica_ram s a"
  using confined_step [of s e] assms by (simp add: dsp_ok_def confined_def)

theorem dsp_stores_confined_witness: "aica_ram (dsp_step aica_env_zero machine_zero) 0x200000 = 0"
proof -
  have "dsp_ok (dstate machine_zero)" by (simp add: dsp_ok_def machine_zero_def aica_zero_def dsp_zero_def)
  moreover have "bit (ARAM_MASK aica_env_zero) 0" "0x200000 > ARAM_MASK aica_env_zero" by (simp_all add: aica_env_zero_def bit_0)
  ultimately have "aica_ram (dsp_step aica_env_zero machine_zero) 0x200000 = aica_ram machine_zero 0x200000"
    by (rule dsp_stores_confined)
  then show ?thesis by (simp add: machine_zero_def)
qed

lemma counter_ok:
  assumes "dsp_ok d"
  shows "dsp_ok (if MDEC_CT d - 1 = 0 then d\<lparr>MDEC_CT := dsp_RBL d + 1\<rparr> else d\<lparr>MDEC_CT := MDEC_CT d - 1\<rparr>)"
proof -
  let ?m = "MDEC_CT d" and ?l = "dsp_RBL d"
  have m: "unat ?m \<le> 0x10000" "1 \<le> unat ?m" "unat ?l \<le> 0xFFFF"
    using assms by (simp_all add: dsp_ok_def word_le_nat_alt)
  have "unat (?m - 1) = unat ?m - 1" using assms by (simp add: unat_sub dsp_ok_def)
  moreover have "unat (?l + 1) = unat ?l + 1" using m(3) by (simp add: unat_add_lem [THEN iffD1])
  moreover have "?m - 1 = 0 \<longleftrightarrow> unat (?m - 1) = 0" by (simp add: unat_eq_0)
  ultimately show ?thesis using assms m by (auto simp: dsp_ok_def word_le_nat_alt)
qed

lemma ring_registers_ok:
  "dsp_ok d \<Longrightarrow> dsp_ok (d\<lparr>dsp_RBL := push_bit (unat (RBL r)) 8192 - 1, dsp_RBP := (RBP r * 2048) AND m\<rparr>)"
proof -
  have "RBL r < 4" using and_mask_less_size [of 2 "drop_bit 13 (rd32 r 0x2804)"]
    by (simp add: RBL_def get_bits_def word_size)
  then have "push_bit (unat (RBL r)) 8192 - 1 \<le> (0xFFFF :: u32)" using u32_less_4 [of "RBL r"] by auto
  moreover have "\<not> bit ((RBP r * 2048) AND m) 0" by (simp only: bit_and_iff) (simp add: bit_0)
  ultimately show "dsp_ok d \<Longrightarrow> ?thesis" by (simp add: dsp_ok_def)
qed

end
