(* ===== verification/Aica_Safe.thy ===== *)
theory Aica_Safe
  imports Aica_Clock Dsp_Props
begin

unbundle bit_operations_syntax

section \<open>The AICA keeps the processor's invariant\<close>

text \<open>
  The relation \<open>tame\<close> holds between a state and a later one when the ARM's invariant is kept, the SH-4's interrupt lines
  still follow the Holly registers, and the ARM's clock has not gone back except through \<open>avoidRaceCondition\<close>, whose
  calls \<open>races\<close> counts.  Every operation of the AICA is tame; the bus of the ARM is therefore an instance of the
  interfaces \<open>safe_bus\<close> and \<open>steady_bus\<close>.
\<close>

named_theorems tame_intros "an operation of the AICA is tame"

definition tame :: "machine \<Rightarrow> machine \<Rightarrow> bool" where
  "tame s t \<longleftrightarrow> (arm_inv s \<longrightarrow> arm_inv t) \<and> (lines_ok (hly (periph s)) \<longrightarrow> lines_ok (hly (periph t)))
     \<and> (chans_ok s \<longrightarrow> chans_ok t) \<and> (dsp_ok (dstate s) \<longrightarrow> dsp_ok (dstate t))
     \<and> (crashed (periph s) \<longrightarrow> crashed (periph t)) \<and> races (periph s) \<le> races (periph t)
     \<and> (races (periph t) = races (periph s) \<longrightarrow> arm7ClockTicks s \<le> arm7ClockTicks t)"

lemma tame_refl [tame_intros]: "tame s s"
  by (simp add: tame_def)

lemma tame_trans: "tame s t \<Longrightarrow> tame t u \<Longrightarrow> tame s u"
proof -
  assume st: "tame s t" and tu: "tame t u"
  then have "races (periph s) \<le> races (periph t)" "races (periph t) \<le> races (periph u)"
    "races (periph t) = races (periph s) \<longrightarrow> arm7ClockTicks s \<le> arm7ClockTicks t"
    "races (periph u) = races (periph t) \<longrightarrow> arm7ClockTicks t \<le> arm7ClockTicks u" by (simp_all add: tame_def)
  then have "races (periph s) \<le> races (periph u)
      \<and> (races (periph u) = races (periph s) \<longrightarrow> arm7ClockTicks s \<le> arm7ClockTicks u)" by auto
  then show "tame s u" using st tu unfolding tame_def by (intro conjI) blast+
qed

lemma tame_upd: "tame s t \<Longrightarrow> (\<And>p. races (f p) = races p) \<Longrightarrow> (\<And>p. hly (f p) = hly p) \<Longrightarrow> (\<And>p. Chans (f p) = Chans p)
     \<Longrightarrow> (\<And>p. dsp (f p) = dsp p) \<Longrightarrow> (\<And>p. crashed p \<Longrightarrow> crashed (f p)) \<Longrightarrow> tame s (upd f t)"
  by (simp add: tame_def upd_def arm_inv_def chans_ok_def)

lemma tame_ch: "tame s t \<Longrightarrow> (\<And>c. c = ch cn t \<Longrightarrow> ch_ok c \<Longrightarrow> ch_ok (f c)) \<Longrightarrow> tame s (upd_ch cn f t)"
  by (simp add: tame_def upd_ch_def upd_def arm_inv_def chans_ok_def)

lemma tame_dsp_upd: "tame s t \<Longrightarrow> (\<And>d. dsp_ok d \<Longrightarrow> dsp_ok (f d)) \<Longrightarrow> tame s (upd_dsp f t)"
  by (simp add: tame_def upd_dsp_def upd_def arm_inv_def chans_ok_def)

lemma dsp_ok_frame [simp]:
  "dsp_ok (d\<lparr>dsp_TEMP := x0\<rparr>) = dsp_ok d" "dsp_ok (d\<lparr>dsp_MEMS := x1\<rparr>) = dsp_ok d" "dsp_ok (d\<lparr>dsp_MIXS := x2\<rparr>) = dsp_ok d"
  "dsp_ok (d\<lparr>dsp_stopped := x3\<rparr>) = dsp_ok d" "dsp_ok (d\<lparr>dsp_dirty := x4\<rparr>) = dsp_ok d"
  by (simp_all add: dsp_ok_def)

lemma tame_ram [tame_intros]: "tame s t \<Longrightarrow> tame s (t\<lparr>aica_ram := m\<rparr>)"
  by (simp add: tame_def arm_inv_def chans_ok_def)

lemma tame_basic [tame_intros]:
  assumes "tame s t"
  shows "tame s (set_regs m t)" "tame s (upd_timer i h t)"
    "tame s (set_word a v t)" "tame s (set_pd a n t)" "tame s (set_common a n j v t)" "tame s (set_ccd o' n j v cn t)"
    "tame s (WriteMemArr T a v t)"
  unfolding set_regs_def upd_timer_def set_word_def set_pd_def set_common_def
    set_ccd_def WriteMemArr_def
  by (rule tame_upd [OF assms]; simp)+

lemma tame_MIXS [tame_intros]: "tame s t \<Longrightarrow> tame s (set_MIXS i v t)"
  using tame_dsp_upd [of s t "\<lambda>d. d\<lparr>dsp_MIXS := (dsp_MIXS d)(i := v)\<rparr>"] by (simp add: set_MIXS_def upd_dsp_def)

lemma tame_holly:
  assumes "tame s t" "\<And>h. asic_step h (k h)"
  shows "tame s (upd_holly k t)"
  using assms asic_step_ok [OF assms(2)] by (auto simp: tame_def upd_holly_def upd_def arm_inv_def chans_ok_def)

interpretation tame: walk "tame s" for s .

lemmas tame_walk = tame.walk
lemmas tame_prod = tame.walk_prod

subsection \<open>Interrupt lines and timers\<close>

lemma tame_interrupts [tame_intros]:
  assumes "tame s t"
  shows "tame s (update_arm_interrupts t)" "tame s (snd (UpdateSh4Ints t))"
proof -
  have "arm_inv t \<Longrightarrow> arm_inv (interruptChange b l t)" for b l
    unfolding interruptChange_def Let_def by (intro inv_update_e68k) (simp add: arm_inv_def)
  moreover have "periph (interruptChange b l t) = periph t" "arm7ClockTicks (interruptChange b l t) = arm7ClockTicks t" for b l
    by (simp_all add: interruptChange_def Let_def update_e68k_def update_armintc_def)
  ultimately show "tame s (update_arm_interrupts t)"
    using assms by (simp add: tame_def update_arm_interrupts_def Let_def chans_ok_def)
  show "tame s (snd (UpdateSh4Ints t))"
    using assms by (simp add: UpdateSh4Ints_def Let_def tame_holly asic_step.raise asic_step.cancel)
qed

lemma tame_race [tame_intros]: "tame s t \<Longrightarrow> tame s (race_check (UpdateSh4Ints t))"
proof -
  assume "tame s t"
  then have "tame s (snd (UpdateSh4Ints t))" by (rule tame_interrupts)
  moreover have "arm_inv u \<Longrightarrow> arm_inv (upd f (avoidRaceCondition u))" for u f
    by (simp add: arm_inv_def upd_def avoidRaceCondition_def)
  moreover have "periph (avoidRaceCondition u) = periph u" for u :: machine
    by (simp add: avoidRaceCondition_def)
  ultimately show ?thesis by (auto simp: tame_def race_check_def upd_def chans_ok_def)
qed

lemma tame_enable [tame_intros]: "tame s t \<Longrightarrow> tame s (enable b t)"
proof -
  have "arm_inv (u\<lparr>Arm7Enabled := b\<rparr>)" if "arm_inv u" "b \<longrightarrow> valid_mode (armMode u)" for u :: machine
    using that by (simp add: arm_inv_def)
  moreover have "arm_inv (arm_reset u) \<and> armMode (arm_reset u) = 0x13" for u :: machine
    by (simp add: arm_inv_def arm_reset_def Let_def update_armintc_def CPUUpdateCPSR_def set_flag_defs)
  moreover have "periph (arm_reset u) = periph u" "arm7ClockTicks (arm_reset u) = arm7ClockTicks u" for u :: machine
    by (simp_all add: arm_reset_def Let_def update_armintc_def CPUUpdateCPSR_def set_flag_defs)
  moreover assume "tame s t"
  ultimately show ?thesis
    by (auto simp: tame_def enable_def Let_def arm_inv_def valid_mode_def chans_ok_def)
qed

lemma tame_timers [tame_intros]:
  assumes "tame s t"
  shows "tame s (RegisterWrite i t)" "tame s (timer_tick i t)" "tame s (StepTimer i n t)"
proof -
  have tick: "tame s (timer_tick i t)" if "tame s t" for t
    using that by (simp add: timer_tick_def Let_def tame_intros)
  show "tame s (RegisterWrite i t)" "tame s (timer_tick i t)" "tame s (StepTimer i n t)"
    using assms by (simp_all add: RegisterWrite_def Let_def tame_intros tick StepTimer_def tame.walk_funpow)
qed

subsection \<open>Channels\<close>

lemma tame_eg_states [tame_intros]:
  assumes "tame s t"
  shows "tame s (SetAegState cn st t)" "tame s (SetFegState cn st t)" "tame s (ch_disable cn t)"
  using assms by (simp_all add: SetAegState_def SetFegState_def ch_disable_def Let_def tame_intros tame_ch ch_ok_sets)

lemma tame_decode [tame_intros]:
  assumes "tame s t"
  shows "tame s (decode_adpcm_step e fmt l CA cn t)" "tame s (StepDecodeSample e fmt l CA cn t)"
proof -
  have d: "tame s (decode_adpcm_step e fmt l CA cn t)" for l CA
  proof (cases "chans_ok t")
    case True
    then obtain c where c: "decode_adpcm_step e fmt l CA cn t = upd_ch cn (\<lambda>_. c) t" "ch_ok c"
      using decode_adpcm_ok [OF chans_okD] by blast
    show ?thesis unfolding c(1) by (rule tame_ch [OF assms]) (rule c(2))
  next
    case False
    then show ?thesis
      using assms by (simp add: decode_adpcm_step_def Let_def split_beta tame_def upd_ch_def upd_def arm_inv_def)
  qed
  then show "tame s (decode_adpcm_step e fmt l CA cn t)" .
  show "tame s (StepDecodeSample e fmt l CA cn t)"
    using assms d by (cases fmt) (simp_all add: StepDecodeSample_def Let_def tame_intros tame_ch ch_ok_sets)
qed

lemma tame_keys [tame_intros]:
  assumes "tame s t"
  shows "tame s (KEY_ON e cn t)" "tame s (KEY_OFF cn t)" "tame s (key_channel e cn t)"
  using assms by (simp_all add: KEY_ON_def KEY_OFF_def key_channel_def Let_def tame_intros tame_ch ch_ok_sets)

lemma tame_updates [tame_intros]:
  assumes "tame s t"
  shows "tame s (UpdateStreamStep cn t)" "tame s (UpdateSA cn t)" "tame s (UpdateLoop cn t)" "tame s (UpdateAEG e cn t)"
    "tame s (UpdatePitch cn t)" "tame s (UpdateLFO e b cn t)" "tame s (UpdateDSPMIX cn t)" "tame s (UpdateAtts cn t)"
    "tame s (UpdateFEG e cn t)"
proof -
  note u = tame_ch [OF assms]
  show "tame s (UpdateStreamStep cn t)" unfolding UpdateStreamStep_def Let_def by (rule u) simp
  show "tame s (UpdateSA cn t)" unfolding UpdateSA_def Let_def by (rule u) simp
  show "tame s (UpdateLoop cn t)" unfolding UpdateLoop_def by (rule u) simp
  show "tame s (UpdateAEG e cn t)" unfolding UpdateAEG_def by (rule u) simp
  show "tame s (UpdatePitch cn t)" unfolding UpdatePitch_def Let_def by (rule u) simp
  show "tame s (UpdateLFO e b cn t)" unfolding UpdateLFO_def by (rule u) (simp add: Let_def lfo_ok ch_ok_sets)
  show "tame s (UpdateDSPMIX cn t)" unfolding UpdateDSPMIX_def by (rule u) (simp add: ch_ok_sets)
  show "tame s (UpdateAtts cn t)" unfolding UpdateAtts_def Let_def split_beta by (rule u) simp
  show "tame s (UpdateFEG e cn t)" using assms by (simp add: UpdateFEG_def Let_def tame_ch)
qed

lemma tame_RegWrite [tame_intros]: "tame s t \<Longrightarrow> tame s (RegWrite e cn off sz t)"
  by (simp add: RegWrite_def Let_def tame_intros tame.walk_fold)

lemma tame_init [tame_intros]: "tame s t \<Longrightarrow> tame s (initAll e t)"
  unfolding initAll_def ch_Init_def by (intro tame.walk_fold tame_intros)

lemma tame_steps [tame_intros]:
  assumes "tame s t"
  shows "tame s (AegStep st cn t)" "tame s (FegStep st cn t)" "tame s (stream_turn e fmt a b n cn t)"
proof -
  show "tame s (AegStep st cn t)"
    using assms by (cases st) (simp_all add: AegStep_def Let_def tame_intros tame_ch)
  show "tame s (FegStep st cn t)"
    using assms by (cases st) (simp_all add: FegStep_def Let_def tame_intros tame_ch ch_ok_sets feg_move_bound ch_okD)
  show "tame s (stream_turn e fmt a b n cn t)"
    using assms unfolding stream_turn_def by (intro tame_walk tame_intros tame_ch) simp_all
qed

lemma tame_stream [tame_intros]: "tame s t \<Longrightarrow> tame s (StreamStep e fmt a b cn t)"
proof -
  have "tame s t \<Longrightarrow> tame s (stream_loop e fmt a b n cn t)" for n t
    by (induction n arbitrary: t) (simp_all add: tame_intros)
  then show "tame s t \<Longrightarrow> tame s (StreamStep e fmt a b cn t)" by (simp add: StreamStep_def Let_def tame_ch)
qed

text \<open>The filter of a channel returns the channel it was called on with new filter memory.\<close>

lemma tame_filter:
  "(\<And>a c. (a, c) = lowPassFilter v k \<Longrightarrow> tame s (snd (g a c))) \<Longrightarrow> tame s (snd (let (a, c) = lowPassFilter v k in g a c))"
  by (cases "lowPassFilter v k") simp

lemma tame_filtered: "tame s t \<Longrightarrow> (a, c) = lowPassFilter v (ch cn t) \<Longrightarrow> tame s (upd_ch cn (\<lambda>_. c) t)"
  using lowPassFilter_ok [of "ch cn t" v] by (metis snd_conv tame_ch)

lemma tame_ch_Step [tame_intros]: "tame s t \<Longrightarrow> tame s (snd (ch_Step e cn t))"
  unfolding ch_Step_def by (intro tame_filter tame_walk tame_prod tame_filtered tame_intros tame_ch) (auto simp: lfo_ok)

lemma tame_StepAll [tame_intros]: "tame s (snd x) \<Longrightarrow> tame s (snd (StepAll e x))"
  unfolding StepAll_def
proof (rule tame.walk_fold_snd)
  fix i and x :: "(u32 \<times> u32) \<times> machine" assume "tame s (snd x)"
  then show "tame s (snd (ch_Step_mix e i x))"
    unfolding ch_Step_mix_def split_beta [of _ x] split_beta [of _ "fst x"] by (intro tame_walk tame_prod tame_intros)
qed

subsection \<open>DSP\<close>

lemma tame_dsp_memory: "tame s t \<Longrightarrow> tame s (snd (dsp_memory e stp i (d, t)))"
  unfolding dsp_memory_def case_prod_conv by (intro tame_walk tame_intros)

lemma tame_dsp_instruction: "tame s t \<Longrightarrow> tame s (snd (dsp_instruction e stp i (d, t)))"
  unfolding dsp_instruction_def case_prod_conv by (intro tame_walk tame_dsp_memory tame_intros tame_dsp_upd) simp_all

lemma tame_dsp_one: "tame s (snd x) \<Longrightarrow> tame s (snd (dsp_one e stp x))"
  using tame_dsp_instruction [of s "snd x" e stp _ "fst x"]
  by (simp add: dsp_one_def dsp_empty_def Let_def split_beta)

lemma tame_counter:
  assumes "tame s t"
  shows "tame s (let t = upd_dsp (\<lambda>d. d\<lparr>MDEC_CT := MDEC_CT d - 1\<rparr>) t
    in if MDEC_CT (dstate t) = 0 then upd_dsp (\<lambda>d. d\<lparr>MDEC_CT := dsp_RBL d + 1\<rparr>) t else t)"
proof -
  have "tame s (upd_dsp (\<lambda>d. if MDEC_CT d - 1 = 0 then d\<lparr>MDEC_CT := dsp_RBL d + 1\<rparr> else d\<lparr>MDEC_CT := MDEC_CT d - 1\<rparr>) t)"
    by (rule tame_dsp_upd [OF assms counter_ok])
  then show ?thesis by (simp add: Let_def upd_dsp_def upd_def split: if_splits)
qed

lemma tame_dsp [tame_intros]:
  assumes "tame s t"
  shows "tame s (runStep e t)" "tame s (dsp_step e t)" "tame s (dsp_init t)" "tame s (writeProg a t)"
proof -
  have r: "tame s (runStep e t)" if "tame s t" for t
  proof -
    have "tame s (snd (fold (dsp_one e) [0..<128] (dsp_regs0, t)))"
      by (rule tame.walk_fold_snd) (simp_all add: tame_dsp_one that)
    from tame_counter [OF this] show ?thesis
      using that by (simp add: runStep_def Let_def split_beta del: set_upt)
  qed
  have i: "dsp_ok \<lparr>dsp_TEMP = a, dsp_MEMS = b, dsp_MIXS = c, dsp_RBP = 0, dsp_RBL = 32767, MDEC_CT = 1,
     dsp_stopped = False, dsp_dirty = True\<rparr>" for a b c
    by (simp add: dsp_ok_def)
  show "tame s (runStep e t)" "tame s (dsp_step e t)" "tame s (dsp_init t)" "tame s (writeProg a t)"
    using assms r by (simp_all add: dsp_step_def dsp_init_def writeProg_def Let_def tame_dsp_upd i del: set_upt)
qed

subsection \<open>Register accesses\<close>

lemma tame_read [tame_intros]:
  assumes "tame s t"
  shows "tame s (ReadCommonReg a b t)" "tame s (snd (readRegInternal_a T a t))" "tame s (snd (readAicaReg T a t))"
proof -
  have u: "tame s (upd (\<lambda>p. p\<lparr>midiSendBuffer := bs\<rparr>) u)" if "tame s u" for u bs by (rule tame_upd [OF that]) simp_all
  have c: "tame s (ReadCommonReg a b t)" if "tame s t" for a b t
    using that by (cases "midiSendBuffer (periph t)") (simp_all add: ReadCommonReg_def Let_def tame_intros tame_ch u)
  have r: "tame s (snd (readRegInternal_a T a t))" for T a
    using assms c by (simp add: readRegInternal_a_def Let_def)
  show "tame s (ReadCommonReg a b t)" by (rule c [OF assms])
  show "tame s (snd (readRegInternal_a T a t))" by (rule r)
  show "tame s (snd (readAicaReg T a t))" using assms r by (simp add: readAicaReg_def Let_def)
qed

lemma tame_common [tame_intros]:
  assumes "tame s t"
  shows "tame s (writeCommonReg8 e a v t)" "tame s (dsp_reg_write T a v t)" "tame s (ArmSetRST t)"
proof -
  have u: "tame s (upd (\<lambda>p. p\<lparr>midi_received := f p\<rparr>) u)" "tame s (upd (\<lambda>p. p\<lparr>ARMRST := g p\<rparr>) u)" if "tame s u" for u f g
    by (rule tame_upd [OF that]; simp)+
  show "tame s (writeCommonReg8 e a v t)" "tame s (dsp_reg_write T a v t)" "tame s (ArmSetRST t)"
    using assms
    by (simp_all add: writeCommonReg8_def dsp_reg_write_def ArmSetRST_def Let_def tame_intros u tame_dsp_upd ring_registers_ok)
qed

lemma tame_writeReg_body:
  assumes "\<And>T a v t. tame s t \<Longrightarrow> tame s (w T a v t)" "tame s t"
  shows "tame s (writeReg_body e w T a v t)"
  using assms by (simp add: writeReg_body_def Let_def tame_intros)

lemma tame_writeAicaReg_body:
  assumes "\<And>T a v t. tame s t \<Longrightarrow> tame s (w T a v t)" "tame s t"
  shows "tame s (writeAicaReg_body w T a v t)"
proof -
  have u: "tame s (upd (\<lambda>p. p\<lparr>ARMRST := x\<rparr>) t)" "tame s (upd (\<lambda>p. p\<lparr>VREG := x\<rparr>) t)"
    "tame s (upd (\<lambda>p. p\<lparr>VREG := x, ARMRST := y\<rparr>) t)" for x y
    by (rule tame_upd [OF assms(2)]; simp)+
  show ?thesis using assms by (simp add: writeAicaReg_body_def Let_def tame_intros u)
qed

lemma tame_dma:
  assumes w: "\<And>a v t. tame s t \<Longrightarrow> tame s (w a v t)" and t: "tame s t"
  shows "tame s (AicaInternalDMA e w t)"
proof -
  have "tame s (dma_clear_regs w n i a t)" if "tame s t" for n i a t
    using that by (induction n arbitrary: i a t) (simp_all add: w)
  moreover have "tame s (dma_to_mem n a b t)" if "tame s t" for n a b t
    using that by (induction n arbitrary: a b t) (simp_all add: Let_def split_beta tame_intros)
  moreover have "tame s (dma_to_regs w n a b t)" if "tame s t" for n a b t
    using that by (induction n arbitrary: a b t) (simp_all add: w)
  ultimately show ?thesis
    using t by (simp add: AicaInternalDMA_def dma_transfer_def Let_def tame_intros)
qed

lemma tame_timer_int:
  assumes "\<And>t. tame s t \<Longrightarrow> tame s (dma t)" "tame s t"
  shows "tame s (writeTimerAndIntReg dma T a v t)"
  using assms by (simp add: writeTimerAndIntReg_def tame_intros)

lemma tame_write [tame_intros]:
  assumes "tame s t"
  shows "tame s (writeReg_depth e d T a v t)"
  using assms
proof (induction d arbitrary: T a v t)
  case 0
  then show ?case by (simp add: tame_upd)
next
  case (Suc d)
  then show ?case
    unfolding writeReg_depth.simps
    by (intro tame_writeReg_body tame_timer_int tame_dma tame_writeAicaReg_body) auto
qed


lemma tame_sh4_write [tame_intros]: "tame s t \<Longrightarrow> tame s (writeAicaReg e T a v t)"
  unfolding writeAicaReg_def writeRegInternal_a_def by (rule tame_writeAicaReg_body) (auto intro: tame_write)

subsection \<open>The clock, MIDI and reset\<close>

lemma tame_getSample [tame_intros]: "tame s t \<Longrightarrow> tame s (snd (getSample e t))"
  by (simp add: getSample_def Let_def tame_upd)

lemma tame_sample [tame_intros]:
  assumes "tame s t"
  shows "tame s (AICA_Sample e sector t)"
proof -
  have "tame s (mix_out e x)" if "tame s (snd x)" for x
    using that by (simp add: mix_out_def Let_def split_beta tame_upd tame_intros)
  moreover have "tame s (snd (cdda_samples sector u))" if "tame s u" for u
    using that by (simp add: cdda_samples_def Let_def tame_upd)
  ultimately show ?thesis
    using assms by (simp add: AICA_Sample_def Let_def split_beta tame_intros tame_dsp_upd)
qed

lemma tame_timeStep [tame_intros]: "tame s t \<Longrightarrow> tame s (timeStep e sector t)"
  by (simp add: timeStep_def Let_def tame_intros)

lemma tame_midi [tame_intros]: "tame s t \<Longrightarrow> tame s (midiSend d t)"
  by (simp add: midiSend_def Let_def tame_intros tame_upd)

lemma tame_rtc [tame_intros]: "tame s t \<Longrightarrow> tame s (writeRtcReg a v t)" "tame s t \<Longrightarrow> tame s (DreamcastSecond t)"
  by (simp_all add: writeRtcReg_def DreamcastSecond_def Let_def tame_upd tame_refl)

lemma tame_timer_Init [tame_intros]: "tame s t \<Longrightarrow> tame s (timer_Init i t)"
  by (simp add: timer_Init_def Let_def tame_intros)

lemma tame_arm_reset [tame_intros]: "tame s t \<Longrightarrow> tame s (arm_reset t)"
proof -
  have "arm_inv (arm_reset u)" "periph (arm_reset u) = periph u" "arm7ClockTicks (arm_reset u) = arm7ClockTicks u" for u :: machine
    by (simp_all add: arm_inv_def arm_reset_def Let_def update_armintc_def CPUUpdateCPSR_def set_flag_defs)
  then show "tame s t \<Longrightarrow> tame s (arm_reset t)" by (simp add: tame_def chans_ok_def)
qed

lemma tame_reset [tame_intros]: "tame s t \<Longrightarrow> tame s (aica_reset e hard now t)"
  by (simp add: aica_reset_def sgc_init_def beep_init_def initMem_def resetRtc_def Let_def tame_intros tame_upd)

subsection \<open>The bus contract holds\<close>

lemma the_bus_simps [simp]:
  "aram_mask (the_bus e) = ARAM_MASK e" "readRegInternal (the_bus e) = readRegInternal_a"
  "writeRegInternal (the_bus e) = writeRegInternal_a e"
  by (simp_all add: the_bus_def)

lemma tame_bus: "tame s (snd (readRegInternal (the_bus e) T a s))" "tame s (writeRegInternal (the_bus e) T a v s)"
  by (simp_all add: writeRegInternal_a_def tame_intros)

interpretation arm_side: safe_bus "the_bus e" for e
  using tame_bus by unfold_locales (auto simp: tame_def)

interpretation arm_time: steady_bus "the_bus e" races for e
  using tame_bus by unfold_locales (auto simp: tame_def later_def)

end
