(* ===== verification/Aica_Regs.thy ===== *)
theory Aica_Regs
  imports Aica_Safe
begin

unbundle bit_operations_syntax

section \<open>Laws of the AICA register file\<close>

text \<open>
  What a bit-field of the register file holds after a write to it or to another word, and the effect of the register
  writes that end in \<open>writeTimerAndIntReg\<close>.  The collection \<open>reg_laws\<close> evaluates reads after writes.
\<close>

named_theorems reg_laws "reads of the register file after writes"

text \<open>Two words at least four bytes apart, in both directions round the address space, share no byte.\<close>

lemma words_apart:
  fixes a b :: u32
  assumes "4 \<le> b - a" "4 \<le> a - b" "i < 4" "j < 4"
  shows "b + i \<noteq> a + j"
proof
  assume "b + i = a + j"
  then have "b - a = j - i" "a - b = i - j" by (simp_all add: algebra_simps)
  then show False using assms(1,2) u32_less_4 [OF assms(3)] u32_less_4 [OF assms(4)] by (auto simp: word_le_nat_alt)
qed

lemma rd32_other:
  fixes a b :: u32
  assumes "4 \<le> b - a" "4 \<le> a - b"
  shows rd32_wr32_other: "rd32 (wr32 m a v) b = rd32 m b" and rd32_wr16_other: "rd32 (wr16 m a h) b = rd32 m b"
proof -
  note words_apart [OF assms]
  from this [of 0 0] this [of 0 1] this [of 0 2] this [of 0 3] this [of 1 0] this [of 1 1] this [of 1 2] this [of 1 3] this [of 2 0] this [of 2 1] this [of 2 2] this [of 2 3] this [of 3 0] this [of 3 1] this [of 3 2] this [of 3 3]
  show "rd32 (wr32 m a v) b = rd32 m b" "rd32 (wr16 m a h) b = rd32 m b"
    by (simp_all add: rd32_def wr32_def wr16_def)
qed

lemma bit_u32_lt: "bit w n \<Longrightarrow> n < 32" for w :: u32
  using bit_imp_le_length [of w n] by simp

lemma rd32_set_same [reg_laws]:
  "rd32 (wr32 m a v) a = v"
  "rd32 (set_bits a lo n v m) a = (rd32 m a AND NOT (push_bit lo (mask n))) OR push_bit lo (v AND mask n)"
  by (simp_all add: rd32_wr32_same set_bits_def)

lemma rd32_set_bit: "rd32 (set_bits a k (Suc 0) 1 m) a = rd32 m a OR push_bit k 1"
  by (rule bit_word_eqI) (auto simp: rd32_set_same bit_simps)

lemma rd32_set_bits_other:
  "4 \<le> b - a \<Longrightarrow> 4 \<le> a - b \<Longrightarrow> rd32 (set_bits a lo n v m) b = rd32 m b" for a b :: u32
  by (simp add: set_bits_def rd32_wr32_other)

lemma bit_get_bits: "bit (get_bits a lo n m) k \<longleftrightarrow> k < n \<and> bit (rd32 m a) (lo + k)"
  by (auto simp: get_bits_def bit_simps dest: bit_u32_lt)

lemma get_set_bits_same [reg_laws]:
  "lo + n \<le> 32 \<Longrightarrow> get_bits a lo n (set_bits a lo n v m) = v AND mask n"
  by (rule bit_word_eqI) (auto simp: bit_get_bits rd32_set_same bit_simps dest: bit_u32_lt)

lemma get_set_bits_field [reg_laws]:
  "lo + n \<le> lo' \<or> lo' + n' \<le> lo \<Longrightarrow> get_bits a lo n (set_bits a lo' n' v m) = get_bits a lo n m"
  by (rule bit_word_eqI) (auto simp: bit_get_bits rd32_set_same bit_simps dest: bit_u32_lt)

lemma get_bits_other:
  "4 \<le> b - a \<Longrightarrow> 4 \<le> a - b \<Longrightarrow> get_bits b lo n (set_bits a lo' n' v m) = get_bits b lo n m"
  "4 \<le> b - a \<Longrightarrow> 4 \<le> a - b \<Longrightarrow> get_bits b lo n (wr32 m a w) = get_bits b lo n m" for a b :: u32
  by (simp_all add: get_bits_def rd32_set_bits_other rd32_wr32_other)

lemma get_bits_lt: "n < 32 \<Longrightarrow> get_bits a lo n m < 2 ^ n"
  by (simp add: get_bits_def and_mask_less_size word_size)

lemma regs_simps [simp]:
  "regs (upd f s) = aica_reg (f (periph s))" "regs (set_regs m s) = m" "regs (set_word a v s) = wr32 (regs s) a v"
  "regs (set_pd a k s) = set_bits a k 1 1 (regs s)" "regs (set_common a lo n v s) = set_bits a lo n v (regs s)"
  by (simp_all add: upd_def set_regs_def set_word_def set_pd_def set_common_def)


end
