(* ===== verification/Aica_Machine.thy ===== *)
theory Aica_Machine
  imports Aica_Regs
begin

unbundle bit_operations_syntax

section \<open>The sound subsystem as a state machine\<close>

text \<open>
  The steps the machine takes: an instruction of the ARM, the start of its slice and the end of a sample in
  \<open>arm::run\<close>, accesses of the SH-4 to AICA registers, sound memory and real-time clock, MIDI input, the clock's second,
  a reset, and whatever Holly and the SH-4 do beside it.  The interleaving is arbitrary.  The lemmas lift the contracts
  of the parts to every reachable state, to a run of \<open>arm::run\<close>, and to the interrupt paths between the processors.
\<close>

inductive machine_step :: "aica_env \<Rightarrow> machine \<Rightarrow> machine \<Rightarrow> bool" for e where
  instruction: "machine_step e s (interp_step (the_bus e) s)"
| slice: "machine_step e s (add_ticks (- uint (CycleCount :: u32)) s)"
| sample: "machine_step e s (timeStep e sector s)"
| sh4_read: "machine_step e s (snd (readAicaReg T a s))"
| sh4_write: "machine_step e s (writeAicaReg e T a v s)"
| sh4_ram: "machine_step e s (s\<lparr>aica_ram := m\<rparr>)"
| sh4_rtc: "machine_step e s (writeRtcReg a v s)"
| second: "machine_step e s (DreamcastSecond s)"
| midi: "machine_step e s (midiSend d s)"
| reset: "machine_step e s (aica_reset e hard now s)"
| rest: "holly_step (hly (periph s)) g \<Longrightarrow> machine_step e s (upd (\<lambda>p. p\<lparr>hly := g\<rparr>) s)"

abbreviation machine_steps :: "aica_env \<Rightarrow> machine \<Rightarrow> machine \<Rightarrow> bool" where
  "machine_steps e \<equiv> (machine_step e)\<^sup>*\<^sup>*"

text \<open>Power-on: a hard reset of the sound subsystem beside a reset Holly.\<close>

definition powered_on :: "aica_env \<Rightarrow> machine \<Rightarrow> bool" where
  "powered_on e s \<longleftrightarrow> (\<exists>now p q. s = aica_reset e True now p \<and> hly (periph p) = holly_reset q
     \<and> Chans (periph p) = (\<lambda>_. channel_zero))"

definition machine_inv :: "machine \<Rightarrow> bool" where
  "machine_inv s \<longleftrightarrow> arm_inv s \<and> lines_ok (hly (periph s)) \<and> chans_ok s \<and> dsp_ok (dstate s)"

lemma tame_machine_inv: "tame s t \<Longrightarrow> machine_inv s \<Longrightarrow> machine_inv t"
  by (simp add: tame_def machine_inv_def)

lemma tame_arm:
  "arm_inv s \<longrightarrow> arm_inv t \<Longrightarrow> periph t = periph s \<Longrightarrow> arm7ClockTicks s \<le> arm7ClockTicks t \<Longrightarrow> tame s t"
  by (simp add: tame_def chans_ok_def)

lemma tame_mem: "tame s (snd (readMem (the_bus e) T a s))" "tame s (writeMem (the_bus e) T a v s)"
proof -
  have "tame s (e68k_AcceptInterrupt s)"
    by (rule tame_arm)
      (auto simp: e68k_AcceptInterrupt_def update_e68k_def update_armintc_def arm_inv_def)
  then show "tame s (snd (readMem (the_bus e) T a s))" "tame s (writeMem (the_bus e) T a v s)"
    using tame_bus by (auto simp: readMem_def readReg_def writeMem_def writeReg_def Let_def tame_intros
        simp del: the_bus_simps)
qed

interpretation arm_tame: arm_frame "the_bus e" tame for e
  by unfold_locales
    (simp_all add: tame_refl tame_mem tame_arm inv_intros inv_flags_set16, metis tame_trans)

lemma machine_step_inv: "machine_step e s t \<Longrightarrow> machine_inv s \<Longrightarrow> machine_inv t"
proof (induction rule: machine_step.induct)
  case (instruction s)
  then show ?case using tame_machine_inv arm_tame.R_step by blast
next
  case (slice s c)
  then show ?case by (simp add: machine_inv_def inv_intros chans_ok_def)
next
  case (rest s g)
  then show ?case using holly_step_ok by (simp add: machine_inv_def upd_def arm_inv_def chans_ok_def)
qed (blast intro: tame_machine_inv tame_intros)+

lemma arm_reset_inv: "arm_inv (arm_reset s)"
  by (simp add: arm_inv_def arm_reset_def Let_def update_armintc_def CPUUpdateCPSR_def set_flag_defs)

lemma powered_on_inv: "powered_on e s \<Longrightarrow> machine_inv s"
proof -
  assume "powered_on e s"
  then obtain now p q where s: "s = aica_reset e True now p" "hly (periph p) = holly_reset q"
    "Chans (periph p) = (\<lambda>_. channel_zero)"
    by (auto simp: powered_on_def)
  have "tame p s" unfolding s(1) by (intro tame_intros)
  moreover have "tame (dsp_init u) (aica_reset e True now p)" if "dsp_init u = sgc_init e (initMem p)" for u
    unfolding that by (simp add: aica_reset_def resetRtc_def Let_def tame_intros tame_upd)
  then have "dsp_ok (dstate s)"
    using s(1) by (auto simp: sgc_init_def tame_def) (simp add: dsp_init_def dsp_ok_def upd_dsp_def upd_def)
  moreover have "arm_inv s" by (simp add: s(1) aica_reset_def Let_def arm_reset_inv)
  ultimately show "machine_inv s" by (simp add: machine_inv_def tame_def s(2,3) holly_reset_ok chans_ok_def)
qed

lemma machine_steps_inv: "machine_steps e s t \<Longrightarrow> machine_inv s \<Longrightarrow> machine_inv t"
  by (induction rule: rtranclp_induct) (auto intro: machine_step_inv)

subsection \<open>A run of the ARM\<close>

lemma run_loop_iterates: "run_loop b s = Some t \<Longrightarrow> 0 \<le> arm7ClockTicks t \<and> (\<exists>k. t = (interp_step b ^^ k) s)"
proof (rule run_loop.raw_induct [where P = "\<lambda>b s t. 0 \<le> arm7ClockTicks t \<and> (\<exists>k. t = (interp_step b ^^ k) s)"])
  fix f :: "'a aica_bus \<Rightarrow> 'a arm_state \<Rightarrow> 'a arm_state option" and b s t
  assume IH: "\<And>s b y. f s b = Some y \<Longrightarrow> 0 \<le> arm7ClockTicks y \<and> (\<exists>k. y = (interp_step s ^^ k) b)"
    and t: "(if arm7ClockTicks s < 0 then f b (interp_step b s) else Some s) = Some t"
  show "0 \<le> arm7ClockTicks t \<and> (\<exists>k. t = (interp_step b ^^ k) s)"
  proof (cases "arm7ClockTicks s < 0")
    case True
    then obtain k where "t = (interp_step b ^^ k) (interp_step b s)" "0 \<le> arm7ClockTicks t"
      using IH [of b "interp_step b s" t] t by auto
    then have "t = (interp_step b ^^ Suc k) s" by (simp add: funpow_swap1)
    then show ?thesis using \<open>0 \<le> arm7ClockTicks t\<close> by blast
  next
    case False
    then have "t = (interp_step b ^^ 0) s" "0 \<le> arm7ClockTicks t" using t by simp_all
    then show ?thesis by blast
  qed
qed

lemma run_loop_steps: "run_loop (the_bus e) s = Some t \<Longrightarrow> machine_steps e s t"
proof -
  have "machine_steps e s ((interp_step (the_bus e) ^^ k) s)" for k
    by (induction k) (auto intro: machine_step.instruction rtranclp.rtrancl_into_rtrancl)
  then show "run_loop (the_bus e) s = Some t \<Longrightarrow> machine_steps e s t"
    using run_loop_iterates by metis
qed

lemma arm_run_steps: "arm_run e sectors s = Some t \<Longrightarrow> machine_steps e s t"
proof (induction sectors arbitrary: s)
  case (Cons sector rest)
  then obtain u where u: "runInterpreter (the_bus e) 512 s = Some u" "arm_run e rest (timeStep e sector u) = Some t"
    by (auto split: option.splits)
  have "machine_steps e s u"
  proof (cases "Arm7Enabled s")
    case True
    then have "machine_steps e (add_ticks (- uint (512 :: u32)) s) u"
      using u(1) run_loop_steps by (simp add: runInterpreter_def)
    then show ?thesis using machine_step.slice [of e s 512] by (rule converse_rtranclp_into_rtranclp [rotated])
  next
    case False
    then show ?thesis using u(1) by (simp add: runInterpreter_def)
  qed
  also have "machine_steps e u (timeStep e sector u)" by (intro r_into_rtranclp machine_step.sample)
  also have "machine_steps e (timeStep e sector u) t" using Cons.IH u(2) by blast
  finally show ?case .
qed simp

lemma reset_disabled: "\<not> Arm7Enabled (aica_reset e hard now s)"
  by (simp add: aica_reset_def Let_def arm_reset_def update_armintc_def CPUUpdateCPSR_def set_flag_defs)

text \<open>
  Property C10: from power-on, after any interleaving of ARM instructions, samples, register, memory and clock accesses of
  the SH-4, MIDI input, resets and Holly activity, and after a completed \<open>arm::run\<close> from there, the ARM's fast-interrupt
  word agrees with its interrupt controller and mask, an enabled ARM is in a mode of the architecture, the SH-4's lines
  follow the Holly registers, and the sixty-four channels and the DSP are within the ranges of their fields.
\<close>

theorem sound_machine_invariant:
  assumes "powered_on e s" "machine_steps e s t" "arm_run e sectors t = Some u"
  shows "machine_inv u"
  using assms powered_on_inv machine_steps_inv arm_run_steps by metis

theorem sound_machine_invariant_witness:
  "machine_inv (timeStep aica_env_zero (\<lambda>_. 7) (aica_reset aica_env_zero False 0
     (writeAicaReg aica_env_zero U32 0x28A0 0x20 (aica_reset aica_env_zero True 0 machine_zero))))"
proof (rule sound_machine_invariant)
  let ?e = aica_env_zero let ?s = "aica_reset ?e True 0 machine_zero" let ?t = "writeAicaReg ?e U32 0x28A0 0x20 ?s"
  have "hly (periph machine_zero) = holly_reset sh4_zero" "Chans (periph machine_zero) = (\<lambda>_. channel_zero)"
    by (simp_all add: machine_zero_def aica_zero_def)
  then show "powered_on ?e ?s" unfolding powered_on_def by blast
  have "machine_step ?e ?s ?t" by (rule machine_step.sh4_write)
  moreover have "machine_step ?e ?t (aica_reset ?e False 0 ?t)" by (rule machine_step.reset)
  ultimately show "machine_steps ?e ?s (aica_reset ?e False 0 ?t)"
    by (meson rtranclp.rtrancl_refl rtranclp.rtrancl_into_rtrancl)
  show "arm_run ?e [\<lambda>_. 7] (aica_reset ?e False 0 ?t) = Some (timeStep ?e (\<lambda>_. 7) (aica_reset ?e False 0 ?t))"
    by (simp add: runInterpreter_def reset_disabled)
qed

text \<open>
  Property C11: \<open>runInterpreter\<close> comes to the end of its cycles unless \<open>avoidRaceCondition\<close> is called without end; that
  is the only operation that gives the ARM more cycles.
\<close>

theorem arm_slice_ends:
  "(\<exists>t. runInterpreter (the_bus e) c s = Some t \<and> (if Arm7Enabled s then 0 \<le> arm7ClockTicks t else t = s))
   \<or> (\<forall>n. \<exists>k. n < races (periph ((interp_step (the_bus e) ^^ k) (add_ticks (- uint c) s))))"
  using arm_time.loop_ends [of e "add_ticks (- uint c) s"] by (auto simp: runInterpreter_def) (metis not_le)


subsection \<open>Interrupt paths between the processors\<close>

lemma write_int_reg:
  assumes "0 < stack_depth e" "0x2818 \<le> a" "a < 0x3000"
  shows "writeRegInternal_a e T a v s =
    writeTimerAndIntReg (AicaInternalDMA e (writeAicaReg_body (writeReg_depth e (stack_depth e - 1)) U32)) T a v s"
proof -
  have "a AND mask 15 = a" by (rule less_mask_eq) (use assms(3) in \<open>simp add: word_less_nat_alt\<close>)
  then have "a AND 0x7FFF = a" by (simp add: mask_numeral)
  moreover have "\<not> a < 0x2000" "\<not> a < 0x2800" "\<not> a < 0x2818" "\<not> 0x3000 \<le> a"
    using assms by (auto simp: word_less_nat_alt word_le_nat_alt)
  ultimately show ?thesis using assms(1)
    by (cases "stack_depth e") (simp_all add: writeRegInternal_a_def writeReg_body_def Let_def)
qed

lemma int_bit: "bit (a :: u32) k \<Longrightarrow> bit b k \<Longrightarrow> a AND b \<noteq> 0"
  by (metis bit_and_iff bit_0_eq bot_apply bot_bool_def)

lemma store_bit: "bit v 5 \<Longrightarrow> (v AND 0xFFFF) AND 0x20 \<noteq> 0" for v :: u32
  by (rule int_bit [where k = 5]) (simp_all add: bit_and_iff)

text \<open>What a raised bit of \<open>MCIPD\<close> does when the same bit of \<open>MCIEB\<close> is open.\<close>

lemma and_2_iff: "w AND 2 \<noteq> 0 \<longleftrightarrow> bit w 1" for w :: u32
proof -
  have "w AND 2 = push_bit 1 (of_bool (bit w 1))"
    by (rule bit_word_eqI) (auto simp: bit_simps bit_2_iff)
  then show ?thesis by simp
qed

lemma UpdateSh4Ints_raised:
  assumes "lines_ok (hly (periph s))" "MCIEB s AND MCIPD s \<noteq> 0"
  shows "fst (UpdateSh4Ints s)"
    and "hly (periph (snd (UpdateSh4Ints s))) = (let h = hly (periph s) in
      if bit (SB_ISTEXT h) 1 then h else asic_pending (h\<lparr>SB_ISTEXT := SB_ISTEXT h OR 2\<rparr>))"
  using assms and_2_iff [of "SB_ISTEXT (hly (periph s))"]
  by (auto simp: UpdateSh4Ints_def Let_def upd_holly_def upd_def asic_RaiseInterrupt_def)

lemma raised_reaches_sh4:
  assumes "lines_ok h" "bit (SB_IML4EXT h) 1" "sh4_IRL_11 \<in> mask_set (sh4 h)"
    and "\<not> sr_BL (sr_status (sh4 h))" "sr_IMASK (sr_status (sh4 h)) < 4"
  shows "fst (UpdateINTC (sh4 (if bit (SB_ISTEXT h) 1 then h else asic_pending (h\<lparr>SB_ISTEXT := SB_ISTEXT h OR 2\<rparr>)))) = 1"
  using spu_line_accepted [OF assms(1)] spu_raised_accepted [OF assms] assms(2-) by simp


text \<open>
  Property C12: an ARM store of bit 5 to \<open>MCIPD\<close>, with that interrupt enabled in \<open>MCIEB\<close>, the AICA's bit open in Holly's
  level-4 mask, the line enabled in the SH-4 and the SH-4 accepting level 4, makes the SH-4's next \<open>UpdateINTC\<close> enter
  a handler, and leaves the ARM at least 50 cycles before its slice ends.
\<close>

theorem arm_store_interrupts_sh4:
  assumes "machine_inv s" "0 < stack_depth e" "bit (MCIEB s) 5" "bit v 5"
    and "bit (SB_IML4EXT (hly (periph s))) 1" "sh4_IRL_11 \<in> mask_set (sh4 (hly (periph s)))"
    and "\<not> sr_BL (sr_status (sh4 (hly (periph s))))" "sr_IMASK (sr_status (sh4 (hly (periph s)))) < 4"
  shows "fst (UpdateINTC (sh4 (hly (periph (writeMem (the_bus e) U32 0x8028B8 v s))))) = 1
    \<and> arm7ClockTicks (writeMem (the_bus e) U32 0x8028B8 v s) \<le> - 50"
proof -
  let ?u = "set_pd MCIPD_addr 5 s"
  have h: "hly (periph ?u) = hly (periph s)" by (simp add: set_pd_def set_regs_def upd_def)
  have "(v AND 0xFFFF) AND 0x20 \<noteq> 0" by (rule store_bit [OF assms(4)])
  then have w: "writeMem (the_bus e) U32 0x8028B8 v s = race_check (UpdateSh4Ints ?u)"
    using assms(2) by (simp add: writeMem_def writeReg_def Let_def REG_L_def REG_M_def write_int_reg writeTimerAndIntReg_def)
  have "bit (MCIEB ?u) 5" "bit (MCIPD ?u) 5"
    using assms(3) by (simp_all add: reg_laws rd32_set_bits_other bit_or_iff)
  then have p: "MCIEB ?u AND MCIPD ?u \<noteq> 0" by (rule int_bit)
  have l: "lines_ok (hly (periph s))" "lines_ok (hly (periph ?u))" using assms(1) by (simp_all add: h machine_inv_def)
  have "fst (UpdateINTC (sh4 (hly (periph (snd (UpdateSh4Ints ?u)))))) = 1"
    unfolding UpdateSh4Ints_raised(2) [OF l(2) p] Let_def h by (rule raised_reaches_sh4 [OF l(1) assms(5-8)])
  then show ?thesis
    using UpdateSh4Ints_raised(1) [OF l(2) p] by (simp add: w race_check_def avoidRaceCondition_def upd_def)
qed

text \<open>A machine with the SH-4's side open to the interrupt, and one with the ARM's side open.\<close>

lemma dsp_zero_ok [simp]: "dsp_ok dsp_zero"
  by (simp add: dsp_ok_def dsp_zero_def)

definition sh4_listens :: machine where
  "sh4_listens = set_word MCIEB_addr 0x20 (upd_holly (\<lambda>h. h\<lparr>SB_IML4EXT := 2\<rparr>) machine_zero)"

definition arm_listens :: machine where
  "arm_listens = set_word SCIEB_addr 0x20 (machine_zero\<lparr>armFiqEnable := True\<rparr>)"

theorem arm_store_interrupts_sh4_witness:
  "fst (UpdateINTC (sh4 (hly (periph (writeMem (the_bus aica_env_zero) U32 0x8028B8 0x20 sh4_listens))))) = 1"
proof -
  have h: "hly (periph sh4_listens) = (holly_reset sh4_zero)\<lparr>SB_IML4EXT := 2\<rparr>"
    by (simp add: sh4_listens_def set_word_def set_regs_def upd_holly_def upd_def machine_zero_def aica_zero_def)
  have "machine_inv sh4_listens"
    by (simp add: machine_inv_def h lines_ok_def holly_reset_def line_level_def reset_ok)
      (simp add: sh4_listens_def set_word_def set_regs_def upd_holly_def upd_def machine_zero_def aica_zero_def arm_inv_def
        chans_ok_def)
  moreover have "bit (MCIEB sh4_listens) 5" by (simp add: sh4_listens_def reg_laws)
  moreover have "bit (SB_IML4EXT (hly (periph sh4_listens))) 1" "sh4_IRL_11 \<in> mask_set (sh4 (hly (periph sh4_listens)))"
    "\<not> sr_BL (sr_status (sh4 (hly (periph sh4_listens))))" "sr_IMASK (sr_status (sh4 (hly (periph sh4_listens)))) < 4"
    by (simp_all add: h holly_reset_def reset_ok bit_iff_odd sh4_zero_def sr_BL_def sr_IMASK_def)
  ultimately show ?thesis
    using arm_store_interrupts_sh4 [where s = sh4_listens and e = aica_env_zero and v = "0x20"] by (simp add: aica_env_zero_def)
qed

text \<open>The level the controller presents is that of the lowest pending source.\<close>

lemma scan_L_lowest:
  assumes "bit p_ints k" "\<forall>j<k. \<not> bit p_ints j" "i \<le> k" "k < i + n"
  shows "scan_L n i p_ints m = GetL k m"
  using assms
proof (induction n arbitrary: i)
  case (Suc n)
  have b: "p_ints AND push_bit i 1 \<noteq> 0 \<longleftrightarrow> bit p_ints i"
    by (simp add: and_exp_eq_0_iff_not_bit push_bit_eq_mult)
  show ?case
  proof (cases "i = k")
    case True
    then show ?thesis using b Suc.prems(1) by simp
  next
    case False
    then have "\<not> bit p_ints i" "Suc i \<le> k" "k < Suc i + n" using Suc.prems by auto
    then show ?thesis using b Suc.IH Suc.prems(1,2) by simp
  qed
qed simp

lemma interruptChange_raised:
  assumes "bits \<noteq> 0" "arm_inv s"
  shows "e68k_out (interruptChange bits L s)" "reg (interruptChange bits L s) 47 = of_bool (armFiqEnable s)"
    "armFiqEnable (interruptChange bits L s) = armFiqEnable s" "aica_ram (interruptChange bits L s) = aica_ram s"
    "e68k_reg_L (interruptChange bits L s) = (if e68k_out s then e68k_reg_L s else L)"
  using assms by (auto simp: interruptChange_def Let_def update_e68k_def update_armintc_def arm_inv_def)

lemma fiq_vector:
  "reg (CPUFiq s) 46 = 0x1C" "armMode (CPUFiq s) = 0x11" "aica_ram (CPUFiq s) = aica_ram s"
  by (simp_all add: CPUFiq_def update_armintc_def Let_def switch_unfold)

lemma fiq_next:
  "reg t 47 \<noteq> 0 \<Longrightarrow> interp_step b t = exec_opcode b (rd32 (aica_ram t) (0x1C AND aram_mask b))
     (set_reg 46 0x20 (set_reg 15 0x24 (CPUFiq t)))"
  by (simp add: interp_step_def CPUReadMemoryQuick_def Let_def fiq_vector)

text \<open>
  Property C13: an SH-4 store of bit 5 to \<open>SCIPD\<close>, with that interrupt enabled in \<open>SCIEB\<close> and fast interrupts enabled in
  the ARM, makes the ARM's next instruction the one at the vector \<open>0x1C\<close>, in mode \<open>0x11\<close>; when no interrupt was being
  presented, the level the ARM reads is the one of the lowest pending source.
\<close>

theorem sh4_store_interrupts_arm:
  assumes "machine_inv s" "0 < stack_depth e" "bit (SCIEB s) 5" "bit v 5" "armFiqEnable s"
    and "\<not> e68k_out s" "k \<le> 5" "bit (SCIEB s) k" "k \<noteq> 5 \<longrightarrow> bit (SCIPD s) k" "\<forall>j<k. \<not> bit (SCIEB s AND SCIPD s) j"
  shows "let t = writeAicaReg e U32 0x7028A0 v s; u = set_reg 46 0x20 (set_reg 15 0x24 (CPUFiq t)) in
    interp_step (the_bus e) t = exec_opcode (the_bus e) (rd32 (aica_ram s) (0x1C AND ARAM_MASK e)) u
    \<and> armMode u = 0x11 \<and> e68k_reg_L t = GetL k (regs s)"
proof -
  let ?u = "set_pd SCIPD_addr 5 s" let ?p = "SCIEB ?u AND SCIPD ?u"
  define w :: u32 where "w = push_bit 5 1"
  have r: "SCIEB ?u = SCIEB s" "SCIPD ?u = SCIPD s OR w"
    by (simp_all add: rd32_set_bit rd32_set_bits_other w_def)
  have b: "bit w j \<longleftrightarrow> j = 5" for j unfolding w_def by (simp only: bit_push_bit_iff) (auto simp: bit_1_iff)
  have low: "bit ?p k" "\<forall>j<k. \<not> bit ?p j"
    unfolding r using assms(3,7-10) b by (auto simp: bit_and_iff bit_or_iff)
  then have p: "?p \<noteq> 0" by force
  have w: "writeAicaReg e U32 0x7028A0 v s = interruptChange ?p (scan_L 11 0 ?p (regs ?u)) ?u"
    using assms(2) store_bit [OF assms(4)] p
    by (simp add: writeAicaReg_def writeAicaReg_body_def Let_def write_int_reg writeTimerAndIntReg_def
        update_arm_interrupts_def)
  have g: "scan_L 11 0 ?p (regs ?u) = GetL k (regs s)"
    using assms(7) scan_L_lowest [OF low]
    by (simp add: GetL_def SCILV0_def SCILV1_def SCILV2_def get_bits_other)
  have u: "arm_inv ?u" "armFiqEnable ?u = armFiqEnable s" "e68k_out ?u = e68k_out s" "aica_ram ?u = aica_ram s"
    using assms(1) by (simp_all add: machine_inv_def set_pd_def set_regs_def upd_def arm_inv_def)
  have "reg (interruptChange ?p (GetL k (regs s)) ?u) 47 \<noteq> 0"
    "aica_ram (interruptChange ?p (GetL k (regs s)) ?u) = aica_ram s"
    "e68k_reg_L (interruptChange ?p (GetL k (regs s)) ?u) = GetL k (regs s)"
    using interruptChange_raised [OF p u(1), where L = "GetL k (regs s)"] u(2-) assms(5,6) by simp_all
  then show ?thesis unfolding w g Let_def by (simp add: fiq_next fiq_vector)
qed

theorem sh4_store_interrupts_arm_witness:
  "armMode (CPUFiq (writeAicaReg aica_env_zero U32 0x7028A0 0x20 arm_listens)) = 0x11
   \<and> e68k_reg_L (writeAicaReg aica_env_zero U32 0x7028A0 0x20 arm_listens) = GetL 5 (regs arm_listens)"
proof -
  have z: "SCIPD (machine_zero\<lparr>armFiqEnable := True\<rparr>) = 0" by (simp add: machine_zero_def aica_zero_def rd32_def)
  have "machine_inv arm_listens"
    by (simp add: machine_inv_def arm_inv_def arm_listens_def set_word_def set_regs_def upd_def machine_zero_def aica_zero_def
        holly_reset_ok chans_ok_def)
  moreover have "bit (SCIEB arm_listens) 5" "\<forall>j<5. \<not> bit (SCIEB arm_listens AND SCIPD arm_listens) j"
    using z by (simp_all add: arm_listens_def reg_laws rd32_wr32_other)
  moreover have "armFiqEnable arm_listens" "\<not> e68k_out arm_listens"
    by (simp_all add: arm_listens_def set_word_def set_regs_def upd_def machine_zero_def)
  ultimately show ?thesis
    using sh4_store_interrupts_arm [where s = arm_listens and e = aica_env_zero and v = "0x20" and k = 5] by (simp add: Let_def aica_env_zero_def)
qed

end
