(* ===== verification/Aica_Props.thy ===== *)
theory Aica_Props
  imports Aica_Regs
begin

unbundle bit_operations_syntax

section \<open>Timers, clock, MIDI and DMA\<close>

text \<open>
  The sample-exact period of the timers, the protocol of the real-time clock's registers, the order of the MIDI input
  queue, and what the internal DMA does at the edges of memory and when a transfer writes its own control register.
\<close>

subsection \<open>Timers\<close>

definition set_count :: "nat \<Rightarrow> u32 \<Rightarrow> machine \<Rightarrow> machine" where
  "set_count i v s = set_regs (set_bits (timer_addr i) 0 8 v (regs s)) s"

text \<open>A timer at the beginning of one of its periods.\<close>

definition fresh_timer :: "nat \<Rightarrow> machine \<Rightarrow> bool" where
  "fresh_timer i s \<longleftrightarrow> c_step (timers (periph s) i) = m_step (timers (periph s) i) \<and> m_step (timers (periph s) i) \<noteq> 0"

abbreviation period :: "nat \<Rightarrow> machine \<Rightarrow> nat" where
  "period i s \<equiv> unat (m_step (timers (periph s) i))"

lemma upd_timer_simps [simp]:
  "timers (periph (upd_timer i f s)) = (timers (periph s))(i := f (timers (periph s) i))"
  "regs (upd_timer i f s) = regs s" "timers (periph (set_count i v s)) = timers (periph s)"
  by (simp_all add: upd_timer_def upd_def set_count_def set_regs_def)

lemma upd_timer_same: "f (timers (periph s) i) = timers (periph s) i \<Longrightarrow> upd_timer i f s = s"
  by (simp add: upd_timer_def upd_def fun_upd_idem)

lemma upd_timer_twice: "upd_timer i g (upd_timer i f s) = upd_timer i (g \<circ> f) s"
  by (simp add: upd_timer_def upd_def)

lemma unat_of_nat_small: "n < 2 ^ 32 \<Longrightarrow> unat (of_nat n :: u32) = n"
  by (simp only: unsigned_of_nat) (simp add: take_bit_nat_eq_self)

lemma ticks_within:
  "fresh_timer i s \<Longrightarrow> k < period i s \<Longrightarrow> (timer_tick i ^^ k) s = upd_timer i (\<lambda>t. t\<lparr>c_step := c_step t - of_nat k\<rparr>) s"
proof (induction k)
  case (Suc k)
  let ?m = "m_step (timers (periph s) i)"
  have "?m - of_nat k - 1 \<noteq> 0"
  proof
    assume "?m - of_nat k - 1 = 0"
    then have "?m = of_nat (Suc k)" by (simp add: algebra_simps)
    moreover have "unat ?m < 2 ^ 32" using unsigned_less [of ?m] by simp
    ultimately have "unat ?m = Suc k" using Suc.prems(2) unat_of_nat_small [of "Suc k"] by simp
    then show False using Suc.prems(2) by simp
  qed
  then show ?case
    using Suc by (simp add: timer_tick_def Let_def fresh_timer_def upd_timer_twice comp_def algebra_simps)
qed (simp add: upd_timer_same)


lemma funpow_peel: "0 < n \<Longrightarrow> (f ^^ n) x = f ((f ^^ (n - 1)) x)"
  by (cases n) simp_all

text \<open>One period: the count goes up by one, and when it comes to zero the interrupt is raised on both sides.\<close>

definition timer_fire :: "nat \<Rightarrow> machine \<Rightarrow> machine" where
  "timer_fire i s = set_pd MCIPD_addr (6 + i) (set_pd SCIPD_addr (6 + i) s)"

lemma ticks_period:
  assumes "fresh_timer i s" "i < 3"
  shows "(timer_tick i ^^ period i s) s =
    (let t = set_count i (timer_count i (regs s) + 1) s in if timer_count i (regs t) = 0 then timer_fire i t else t)"
proof -
  let ?m = "m_step (timers (periph s) i)"
  have m: "0 < unat ?m" "c_step (timers (periph s) i) = ?m" using assms(1) by (auto simp: fresh_timer_def unat_gt_0)
  have "(timer_tick i ^^ unat ?m) s = timer_tick i (upd_timer i (\<lambda>t. t\<lparr>c_step := c_step t - of_nat (unat ?m - 1)\<rparr>) s)"
    unfolding funpow_peel [OF m(1)] using m(1) by (subst ticks_within [OF assms(1)]) auto
  moreover have "(of_nat (unat ?m - 1) :: u32) = ?m - 1" using m(1) by (simp add: of_nat_diff)
  moreover have "min i 2 = i" using assms(2) by simp
  ultimately show ?thesis
    using m(2) by (simp add: timer_tick_def Let_def upd_timer_twice comp_def set_count_def timer_fire_def upd_timer_same)
qed


lemma set_bits_twice: "set_bits a lo n v (set_bits a lo n u m) = set_bits a lo n v m"
proof -
  have "((((x AND NOT k) OR y) AND NOT k) OR z) = (x AND NOT k) OR z" if "y AND NOT k = 0" for x y z k :: u32
    using that by (auto simp: bit_eq_iff bit_simps)
  moreover have "push_bit lo (u AND mask n) AND NOT (push_bit lo (mask n)) = 0"
    by (auto simp: bit_eq_iff bit_simps)
  moreover have "wr32 (wr32 m a x) a y = wr32 m a y" for x y
    by (simp add: wr32_def fun_upd_twist)
  ultimately show ?thesis by (simp add: set_bits_def rd32_wr32_same)
qed

lemma set_count_laws:
  "set_count i v (set_count i u s) = set_count i v s" "set_count i 0x100 s = set_count i 0 s"
  "timer_count i (regs (set_count i v s)) = v AND 0xFF" "fresh_timer i (set_count i v s) = fresh_timer i s"
proof -
  show "set_count i v (set_count i u s) = set_count i v s"
    by (simp add: set_count_def set_regs_def upd_def set_bits_twice)
  show "set_count i 0x100 s = set_count i 0 s" by (simp add: set_count_def set_bits_def mask_numeral)
  show "timer_count i (regs (set_count i v s)) = v AND 0xFF"
    by (simp add: set_count_def timer_count_def get_set_bits_same mask_numeral)
  show "fresh_timer i (set_count i v s) = fresh_timer i s" by (simp add: fresh_timer_def)
qed

lemma count_step:
  fixes c :: u32
  assumes "unat c < 255"
  shows "(c + 1) AND 0xFF = c + 1" "c + 1 \<noteq> 0" "unat (c + 1) = unat c + 1"
proof -
  show u: "unat (c + 1) = unat c + 1" using assms by (simp add: unat_add_lem [THEN iffD1])
  then show "c + 1 \<noteq> 0" by (metis Suc_eq_plus1 Zero_not_Suc unat_0)
  have "(c + 1) AND mask 8 = c + 1" using u assms by (intro less_mask_eq) (simp add: word_less_nat_alt)
  then show "(c + 1) AND 0xFF = c + 1" by (simp add: mask_numeral)
qed

lemma count_wrap: "unat c = 255 \<Longrightarrow> c + 1 = 0x100" for c :: u32
  by (simp add: word_unat_eq_iff unat_add_lem [THEN iffD1])

lemma pd_regs_kept:
  assumes "i < 3"
  shows "SCIPD (upd_timer i f s) = SCIPD s" "MCIPD (upd_timer i f s) = MCIPD s"
    "SCIPD (set_count i v s) = SCIPD s" "MCIPD (set_count i v s) = MCIPD s"
proof -
  have "i = 0 \<or> i = 1 \<or> i = 2" using assms by arith
  then show "SCIPD (set_count i v s) = SCIPD s" "MCIPD (set_count i v s) = MCIPD s"
    by (auto simp: set_count_def timer_addr_def rd32_set_bits_other)
qed simp_all

lemma timer_runs:
  assumes "fresh_timer i s" "i < 3" "unat (timer_count i (regs s)) + n = 255"
  shows "(timer_tick i ^^ (Suc n * period i s)) s = timer_fire i (set_count i 0 s)
    \<and> (\<forall>k < Suc n * period i s. SCIPD ((timer_tick i ^^ k) s) = SCIPD s \<and> MCIPD ((timer_tick i ^^ k) s) = MCIPD s)"
  using assms
proof (induction n arbitrary: s)
  case 0
  then have w: "timer_count i (regs s) + 1 = 0x100" by (intro count_wrap) simp
  have "SCIPD ((timer_tick i ^^ k) s) = SCIPD s \<and> MCIPD ((timer_tick i ^^ k) s) = MCIPD s" if "k < period i s" for k
    using ticks_within [OF 0(1) that] pd_regs_kept [OF 0(2)] by simp
  moreover have "(timer_tick i ^^ period i s) s = timer_fire i (set_count i 0 s)"
    using ticks_period [OF 0(1,2)] by (simp add: w set_count_laws)
  ultimately show ?case by simp
next
  case (Suc n)
  let ?c = "timer_count i (regs s)" let ?t = "set_count i (?c + 1) s" let ?M = "period i s"
  have c: "(?c + 1) AND 0xFF = ?c + 1" "?c + 1 \<noteq> 0" "unat (?c + 1) = unat ?c + 1"
    using count_step [of ?c] Suc.prems(3) by simp_all
  have t: "(timer_tick i ^^ ?M) s = ?t"
    using ticks_period [OF Suc.prems(1,2)] c by (simp add: Let_def set_count_laws)
  have IH: "(timer_tick i ^^ (Suc n * ?M)) ?t = timer_fire i (set_count i 0 ?t)"
    "\<forall>k < Suc n * ?M. SCIPD ((timer_tick i ^^ k) ?t) = SCIPD ?t \<and> MCIPD ((timer_tick i ^^ k) ?t) = MCIPD ?t"
    using Suc.IH [of ?t] Suc.prems c by (simp_all add: set_count_laws)
  have add: "(timer_tick i ^^ (k + ?M)) s = (timer_tick i ^^ k) ?t" for k by (simp add: funpow_add t)
  have "SCIPD ((timer_tick i ^^ k) s) = SCIPD s \<and> MCIPD ((timer_tick i ^^ k) s) = MCIPD s" if "k < Suc (Suc n) * ?M" for k
  proof (cases "k < ?M")
    case True
    then show ?thesis using ticks_within [OF Suc.prems(1) True] pd_regs_kept [OF Suc.prems(2)] by simp
  next
    case False
    then have "k - ?M < Suc n * ?M" "k = (k - ?M) + ?M" using that by auto
    then show ?thesis using IH(2) add [of "k - ?M"] pd_regs_kept [OF Suc.prems(2)] by metis
  qed
  moreover have "(timer_tick i ^^ (Suc (Suc n) * ?M)) s = timer_fire i (set_count i 0 s)"
    using add [of "Suc n * ?M"] IH(1) by (simp add: add.commute set_count_laws)
  ultimately show ?case by simp
qed


lemma timer_fire_regs:
  assumes "i < 3"
  shows "bit (SCIPD (timer_fire i s)) (6 + i)" "bit (MCIPD (timer_fire i s)) (6 + i)"
    "timer_count i (regs (timer_fire i s)) = timer_count i (regs s)"
proof -
  have "i = 0 \<or> i = 1 \<or> i = 2" using assms by arith
  then show "timer_count i (regs (timer_fire i s)) = timer_count i (regs s)"
    by (auto simp: timer_fire_def timer_count_def timer_addr_def get_bits_other)
  have "bit (push_bit (6 + i) 1 :: u32) (6 + i)" using assms by (simp only: bit_push_bit_iff) simp
  then show "bit (SCIPD (timer_fire i s)) (6 + i)" "bit (MCIPD (timer_fire i s)) (6 + i)"
    by (simp_all add: timer_fire_def rd32_set_bits_other rd32_set_bit bit_or_iff)
qed

text \<open>
  Property C22: a timer at the start of a period, with count \<open>c\<close> and a period of \<open>m\<close> samples, raises its interrupt at
  the ARM and at the SH-4 after exactly \<open>(256 - c) * m\<close> samples, with the count back at zero, and not before.
\<close>

theorem timer_period:
  assumes "fresh_timer i s" "i < 3"
  shows "let n = (256 - unat (timer_count i (regs s))) * period i s; t = (timer_tick i ^^ n) s in
    bit (SCIPD t) (6 + i) \<and> bit (MCIPD t) (6 + i) \<and> timer_count i (regs t) = 0
    \<and> (\<forall>k<n. SCIPD ((timer_tick i ^^ k) s) = SCIPD s \<and> MCIPD ((timer_tick i ^^ k) s) = MCIPD s)"
proof -
  have "timer_count i (regs s) < 2 ^ 8" unfolding timer_count_def by (rule get_bits_lt) simp
  then have "unat (timer_count i (regs s)) < 256" by (simp add: word_less_nat_alt)
  then obtain n where n: "unat (timer_count i (regs s)) + n = 255" "Suc n = 256 - unat (timer_count i (regs s))"
    by (intro that [of "255 - unat (timer_count i (regs s))"]) auto
  show ?thesis
    using timer_runs [OF assms n(1)] timer_fire_regs [OF assms(2), of "set_count i 0 s"]
    unfolding n(2) [symmetric] Let_def by (simp only:) (simp add: set_count_laws)
qed

theorem timer_period_witness:
  "bit (SCIPD ((timer_tick 1 ^^ 256) machine_zero)) 7 \<and> SCIPD ((timer_tick 1 ^^ 255) machine_zero) = 0"
proof -
  have "fresh_timer 1 machine_zero" "timer_count 1 (regs machine_zero) = 0" "period 1 machine_zero = 1" "SCIPD machine_zero = 0"
    by (simp_all add: fresh_timer_def machine_zero_def aica_zero_def timer_count_def get_bits_def rd32_def)
  then show ?thesis using timer_period [of 1 machine_zero] by (simp add: Let_def)
qed

subsection \<open>The real-time clock\<close>

lemma halves:
  fixes x hi lo :: u32
  shows "(((x AND 0xFFFF0000) OR (lo AND 0xFFFF)) AND 0xFFFF) OR push_bit 16 (hi AND 0xFFFF) = push_bit 16 hi OR (lo AND 0xFFFF)"
    and "drop_bit 16 (push_bit 16 hi OR (lo AND 0xFFFF)) = hi AND 0xFFFF"
    and "(push_bit 16 hi OR (lo AND 0xFFFF)) AND 0xFFFF = lo AND 0xFFFF"
proof -
  have m: "(0xFFFF :: u32) = mask 16" "(0xFFFF0000 :: u32) = NOT (mask 16)" by (simp_all add: mask_numeral)
  show "(((x AND 0xFFFF0000) OR (lo AND 0xFFFF)) AND 0xFFFF) OR push_bit 16 (hi AND 0xFFFF) = push_bit 16 hi OR (lo AND 0xFFFF)"
    unfolding m by (rule bit_word_eqI) (auto simp: bit_simps)
  show "drop_bit 16 (push_bit 16 hi OR (lo AND 0xFFFF)) = hi AND 0xFFFF"
    unfolding m by (rule bit_word_eqI) (auto simp: bit_simps)
  show "(push_bit 16 hi OR (lo AND 0xFFFF)) AND 0xFFFF = lo AND 0xFFFF"
    unfolding m by (rule bit_word_eqI) (auto simp: bit_simps)
qed

lemma seconds: "(DreamcastSecond ^^ n) s = upd (\<lambda>p. p\<lparr>RealTimeClock := RealTimeClock p + of_nat n\<rparr>) s"
  by (induction n) (simp_all add: DreamcastSecond_def upd_def algebra_simps)

text \<open>
  Property C24: once writing is enabled, storing the low and then the high half sets the clock to the two halves, which
  read back; the store of the high half disables writing, so that later stores change nothing, and \<open>n\<close> seconds later
  the clock reads \<open>n\<close> more, modulo 2^32.
\<close>

theorem rtc_protocol:
  "let t = writeRtcReg 0 hi (writeRtcReg 4 lo (writeRtcReg 8 1 s)) in
   readRtcReg U32 0 t = hi AND 0xFFFF \<and> readRtcReg U32 4 t = lo AND 0xFFFF
   \<and> writeRtcReg 0 v t = t \<and> writeRtcReg 4 v t = t
   \<and> RealTimeClock (periph ((DreamcastSecond ^^ n) t)) = (push_bit 16 hi OR (lo AND 0xFFFF)) + of_nat n"
  by (simp add: writeRtcReg_def readRtcReg_def Let_def seconds upd_def halves del: push_bit_and drop_bit_or drop_bit_and)

subsection \<open>MIDI input\<close>

text \<open>
  A queue as its client sees it: what is put comes out in the order in which it was put.  The provider shows its content
  as a list.
\<close>

fun gets :: "('s \<Rightarrow> 'b \<times> 's) \<Rightarrow> nat \<Rightarrow> 's \<Rightarrow> 'b list" where
  "gets get 0 s = []"
| "gets get (Suc n) s = fst (get s) # gets get n (snd (get s))"

locale fifo =
  fixes put :: "'b \<Rightarrow> 's \<Rightarrow> 's" and get :: "'s \<Rightarrow> 'b \<times> 's" and content :: "'s \<Rightarrow> 'b list"
  assumes put_law: "content (put b s) = content s @ [b]"
    and get_law: "content s = b # bs \<Longrightarrow> fst (get s) = b \<and> content (snd (get s)) = bs"
begin

lemma content_puts: "content (fold put bs s) = content s @ bs"
  by (induction bs arbitrary: s) (simp_all add: put_law)

lemma gets_content: "gets get (length (content s)) s = content s"
proof (induction "content s" arbitrary: s)
  case (Cons b bs)
  then have g: "fst (get s) = b" "content (snd (get s)) = bs" using get_law by metis+
  have "gets get (length bs) (snd (get s)) = bs" using Cons.hyps(1) [of "snd (get s)"] g(2) by simp
  then show ?case using Cons.hyps(2) [symmetric] g(1) by simp
qed simp

lemma gets_puts: "content s = [] \<Longrightarrow> gets get (length bs) (fold put bs s) = bs"
  using gets_content [of "fold put bs s"] by (simp add: content_puts)

end

definition midi_read :: "machine \<Rightarrow> u8 \<times> machine" where
  "midi_read s = (let (v, t) = readRegInternal_a U8 0x2808 s in (ucast v, t))"


lemma midi_content_frame [simp]:
  "midiSendBuffer (periph (set_regs m s)) = midiSendBuffer (periph s)"
  "midiSendBuffer (periph (set_pd a k s)) = midiSendBuffer (periph s)"
  "midiSendBuffer (periph (set_common a lo n v s)) = midiSendBuffer (periph s)"
  "midiSendBuffer (periph (update_arm_interrupts s)) = midiSendBuffer (periph s)"
  "midiSendBuffer (periph (snd (UpdateSh4Ints s))) = midiSendBuffer (periph s)"
  by (simp_all add: set_regs_def set_pd_def set_common_def upd_def update_arm_interrupts_def UpdateSh4Ints_def upd_holly_def
      Let_def interruptChange_def update_e68k_def update_armintc_def)

lemma byte_of_word: "ram_read U8 m a = get_bits a 0 8 m"
  by (rule bit_word_eqI) (auto simp: get_bits_def rd32_def bit_simps dest: bit_imp_le_length)

interpretation midi: fifo midiSend midi_read "\<lambda>s. midiSendBuffer (periph s)"
proof
  fix b bs and s :: machine
  show "midiSendBuffer (periph (midiSend b s)) = midiSendBuffer (periph s) @ [b]"
    by (simp add: midiSend_def Let_def) (simp add: upd_def)
  assume q: "midiSendBuffer (periph s) = b # bs"
  have "get_bits 0x2808 0 8 (regs (ReadCommonReg 0x2808 True s)) = ucast b AND mask 8"
    by (simp add: ReadCommonReg_def q Let_def reg_laws)
  moreover have "ucast (ucast b AND mask 8 :: u32) = b"
    by (rule bit_word_eqI) (auto simp: bit_simps)
  moreover have "midiSendBuffer (periph (ReadCommonReg 0x2808 True s)) = bs"
    by (simp add: ReadCommonReg_def q Let_def) (simp add: upd_def)
  ultimately show "fst (midi_read s) = b \<and> midiSendBuffer (periph (snd (midi_read s))) = bs"
    using byte_of_word [of "regs (ReadCommonReg 0x2808 True s)" "0x2808"]
    by (simp add: midi_read_def readRegInternal_a_def Let_def split_beta)
qed

text \<open>
  Property C23: bytes sent to the MIDI input come out of register \<open>0x2808\<close>, one byte-sized read each, in the order in
  which they were sent.
\<close>

theorem midi_in_order:
  assumes "midiSendBuffer (periph s) = []"
  shows "gets midi_read (length bs) (fold midiSend bs s) = bs"
  by (rule midi.gets_puts [OF assms])

theorem midi_in_order_witness: "gets midi_read 3 (fold midiSend [0x90, 60, 100] machine_zero) = [0x90, 60, 100]"
  using midi_in_order [of machine_zero "[0x90, 60, 100]"] by (simp add: machine_zero_def aica_zero_def numeral_3_eq_3)


subsection \<open>The internal DMA\<close>

lemma get_bits_wr16: "lo + n \<le> 16 \<Longrightarrow> get_bits a lo n (wr16 m a v) = drop_bit lo (ucast v) AND mask n"
  by (rule bit_word_eqI) (auto simp: get_bits_def rd32_def wr16_def bit_simps)

lemma get_bits_wr16_other:
  fixes a b :: u32
  shows "4 \<le> b - a \<Longrightarrow> 4 \<le> a - b \<Longrightarrow> get_bits b lo n (wr16 m a v) = get_bits b lo n m"
  by (simp add: get_bits_def rd32_wr16_other)

text \<open>
  A transfer from memory to registers whose first target is the DMA's own control word \<open>0x288C\<close>, and whose first word
  \<open>v\<close> starts the same kind of transfer again.
\<close>

definition self_starting :: "aica_env \<Rightarrow> u32 \<Rightarrow> machine \<Rightarrow> bool" where
  "self_starting e v s \<longleftrightarrow> DGATE (regs s) = 0 \<and> dma_raddr s = 0x288C \<and> rd32 (aica_ram s) (dma_waddr e s) = v
     \<and> dma_waddr e s \<noteq> ARAM_SIZE e \<and> bit v 0 \<and> \<not> bit v 15 \<and> drop_bit 2 v AND 0x1FFF \<noteq> 0"


lemma control_word:
  fixes v :: u32
  assumes "t = WriteMemArr U16 0x288C (cast U16 v) s"
  shows "DEXE (regs t) = v AND 1" "DLG (regs t) = drop_bit 2 v AND mask 13" "DDIR (regs t) = drop_bit 15 v AND 1"
    "DGATE (regs t) = DGATE (regs s)" "dma_raddr t = dma_raddr s" "dma_waddr e t = dma_waddr e s" "aica_ram t = aica_ram s"
proof -
  have r: "regs t = wr16 (regs s) 0x288C (ucast (v AND mask 16))"
    by (simp add: assms WriteMemArr_def mask_numeral)
  have f: "get_bits a lo n (wr16 m a (ucast (v AND mask 16))) = drop_bit lo v AND mask n" if "lo + n \<le> 16" for a lo n m
    unfolding get_bits_wr16 [OF that] by (rule bit_word_eqI) (use that in \<open>auto simp: bit_simps\<close>)
  show "DEXE (regs t) = v AND 1" "DLG (regs t) = drop_bit 2 v AND mask 13" "DDIR (regs t) = drop_bit 15 v AND 1"
    by (simp_all add: r DEXE_def DLG_def DDIR_def f)
  show "DGATE (regs t) = DGATE (regs s)" "dma_raddr t = dma_raddr s" "dma_waddr e t = dma_waddr e s"
    by (simp_all add: r DGATE_def dma_raddr_def DRGA_def dma_waddr_def DMEA_hi_def DMEA_lo_def get_bits_wr16_other)
  show "aica_ram t = aica_ram s" by (simp add: assms WriteMemArr_def set_regs_def upd_def)
qed


lemma tame_crashed: "tame s t \<Longrightarrow> crashed (periph s) \<Longrightarrow> crashed (periph t)"
  by (simp add: tame_def)

lemma tame_dma_to_regs:
  assumes "\<And>a v t. tame s t \<Longrightarrow> tame s (w a v t)" "tame s t"
  shows "tame s (dma_to_regs w n a b t)"
  using assms(2) by (induction n arbitrary: a b t) (simp_all add: assms(1))

lemma self_starting_crashes:
  "self_starting e v s \<Longrightarrow> crashed (periph (writeReg_depth e d U16 0x288C (cast U16 v) s))"
proof (induction d arbitrary: s)
  case (Suc d)
  define t where "t = WriteMemArr U16 0x288C (cast U16 v) s"
  define w where "w = writeAicaReg_body (writeReg_depth e d) U32"
  note c = control_word [OF t_def]
  have v: "v AND 1 \<noteq> 0" "drop_bit 15 v AND 1 = 0" "drop_bit 2 v AND mask 13 \<noteq> 0" "rd32 (aica_ram t) (dma_waddr e t) = v"
    using Suc.prems by (auto simp: self_starting_def mask_numeral c bit_iff_odd and_one_eq drop_bit_eq_div even_iff_mod_2_eq_zero)
  have tw: "tame u (w a x u')" if "tame u u'" for u u' a x
    unfolding w_def using that by (intro tame_writeAicaReg_body tame_write)
  have "dma_len e t \<noteq> 0" using Suc.prems v(3) by (auto simp: dma_len_def c self_starting_def min_def)
  then obtain n where n: "unat (dma_len e t) = Suc n" by (cases "unat (dma_len e t)") (auto simp: unat_eq_0)
  have "crashed (periph (w 0x288C v t))"
    using Suc.IH [of t] Suc.prems by (simp add: self_starting_def c w_def writeAicaReg_body_def Let_def del: cast.simps)
  then have "crashed (periph (dma_transfer e w t))"
    using Suc.prems n v tame_crashed [OF tame_dma_to_regs [OF tw tame_refl]]
    by (simp add: dma_transfer_def c self_starting_def)
  then have "crashed (periph (AicaInternalDMA e w t))"
    using v(1) tame_crashed [of "dma_transfer e w t"] by (simp add: AicaInternalDMA_def c Let_def tame_intros)
  then show ?case
    by (simp add: writeReg_body_def Let_def writeTimerAndIntReg_def t_def w_def del: cast.simps)
qed (simp add: upd_def)


text \<open>
  Property C25: a register write that starts a memory-to-register transfer whose first word goes to the DMA's own control
  register \<open>0x288C\<close> and starts the transfer again recurses until the stack is exhausted, whatever its size.
\<close>

theorem dma_self_start_crashes:
  assumes "self_starting e v s"
  shows "crashed (periph (writeAicaReg e U32 0x288C v s))"
  using self_starting_crashes [OF assms, of "stack_depth e"]
  by (simp add: writeAicaReg_def writeAicaReg_body_def writeRegInternal_a_def Let_def)

definition self_starting_machine :: machine where
  "self_starting_machine = (set_word 0x2888 0x288C machine_zero)\<lparr>aica_ram := (\<lambda>a. if a = 0 then 5 else 0)\<rparr>"

theorem dma_self_start_crashes_witness: "crashed (periph (writeAicaReg aica_env_zero U32 0x288C 5 self_starting_machine))"
proof (rule dma_self_start_crashes)
  have "regs self_starting_machine = wr32 (\<lambda>_. 0) 0x2888 0x288C"
    by (simp add: self_starting_machine_def set_word_def set_regs_def upd_def machine_zero_def aica_zero_def)
  moreover have "rd32 (\<lambda>_. 0) a = 0" for a by (simp add: rd32_def)
  ultimately show "self_starting aica_env_zero 5 self_starting_machine"
    by (simp add: self_starting_def DGATE_def dma_raddr_def DRGA_def dma_waddr_def DMEA_hi_def DMEA_lo_def get_bits_def
        rd32_wr32_other rd32_set_same mask_numeral aica_env_zero_def)
      (simp add: self_starting_machine_def rd32_def)
qed

lemma ram_frame [simp]:
  "aica_ram (set_common a lo n v s) = aica_ram s" "aica_ram (set_pd a k s) = aica_ram s"
  "aica_ram (update_arm_interrupts s) = aica_ram s" "aica_ram (snd (UpdateSh4Ints s)) = aica_ram s"
  by (simp_all add: set_regs_def set_pd_def set_common_def upd_def update_arm_interrupts_def UpdateSh4Ints_def upd_holly_def
      Let_def interruptChange_def update_e68k_def update_armintc_def)


definition clearing_machine :: machine where
  "clearing_machine = (set_regs (wr32 (wr32 (wr32 (\<lambda>_. 0) 0x2880 0x3E00) 0x2884 0xFFFC) 0x2888 0x8000) machine_zero)
     \<lparr>aica_ram := (\<lambda>_. 7)\<rparr>"


end
