(* ===== verification/Sgc_Props.thy ===== *)
theory Sgc_Props
  imports Sgc_Ok Arm7_Misc
begin

unbundle bit_operations_syntax

section \<open>What a channel computes\<close>

text \<open>
  The ADPCM decoder against the formula of its specification over the integers, and the ranges of the three outputs of
  a channel.
\<close>

subsection \<open>ADPCM\<close>

text \<open>
  The decoder of the format's description: the low three bits of a code scale the step size \<open>q\<close>, the fourth is the sign,
  the sum is saturated to 16 bits; the step size is multiplied by a factor in 1/256 and kept between 127 and 24576.
\<close>

definition adpcm_factor :: "nat \<Rightarrow> int" where
  "adpcm_factor d = (if d < 4 then 230 else if d = 4 then 307 else if d = 5 then 409 else if d = 6 then 512 else 614)"

definition ref_adpcm :: "nat \<Rightarrow> int \<Rightarrow> int \<Rightarrow> int \<times> int" where
  "ref_adpcm code prev q =
     (let d = code mod 8;
          delta = min 32767 (q * (2 * int d + 1) div 8);
          v = (if code < 8 then prev + delta else prev - delta)
      in (max (- 32768) (min 32767 v), max 127 (min 24576 (q * adpcm_factor d div 256))))"

lemma sint_clamp:
  "- 0x80000000 \<le> lo \<Longrightarrow> lo \<le> hi \<Longrightarrow> hi < 0x80000000 \<Longrightarrow> sint (clamp lo hi v) = max lo (min hi (sint v))"
  using sint_of_int [of lo] sint_of_int [of hi] by (auto simp: clamp_def)

lemma quant_product:
  fixes quant :: u32
  assumes "quant \<le> 24576" "0 \<le> k" "k \<le> 1000"
  shows "sint (quant * word_of_int k) = uint quant * k"
proof -
  have q: "sint quant = uint quant" using assms(1) by (intro sint_small) (simp add: word_le_def word_less_def)
  have "uint quant \<le> 24576" using assms(1) by (simp add: word_le_def)
  then have "uint quant * k \<le> 24576 * 1000" using assms(2,3) by (intro mult_mono) auto
  then show ?thesis using assms sint_of_int [of k] by (subst sint_mult_exact) (auto simp: q order_trans [of _ 0])
qed

lemma adpcm_tables:
  assumes "d < 8"
  shows "adpcm_scale ! d = word_of_int (2 * int d + 1)" "adpcm_qs ! d = word_of_int (adpcm_factor d)"
proof -
  have "d = 0 \<or> d = 1 \<or> d = 2 \<or> d = 3 \<or> d = 4 \<or> d = 5 \<or> d = 6 \<or> d = 7" using assms by arith
  then show "adpcm_scale ! d = word_of_int (2 * int d + 1)" "adpcm_qs ! d = word_of_int (adpcm_factor d)"
    by (auto simp: adpcm_scale_def adpcm_qs_def adpcm_factor_def)
qed

lemma adpcm_sum:
  fixes sample rv prev :: u32
  assumes "s_range 0x8000 prev" "0 \<le> sint rv" "sint rv \<le> 32767" "sample < 16"
  shows "sint ((1 - 2 * (sample div 8)) * rv + prev) = (if sample < 8 then sint prev + sint rv else sint prev - sint rv)"
proof -
  have "unat (sample div 8) = (if sample < 8 then 0 else 1)"
    using assms(4) by (auto simp: unat_div_distrib word_less_nat_alt)
  then have d: "sample div 8 = (if sample < 8 then 0 else 1)" by (auto simp: word_unat_eq_iff)
  have m: "sint (- rv) = - sint rv"
    using sint_mult_exact [of "-1" rv] assms(2,3) by simp
  show ?thesis
    using assms(1-3) m sint_add_exact [of rv prev] sint_add_exact [of "- rv" prev] by (auto simp: d s_range_def)
qed

text \<open>
  Property C18: for every 4-bit code, 16-bit previous sample and step size up to 24576, the decoder computes the sample
  and the next step size of the format's description; no intermediate value overflows 32 bits.
\<close>

theorem adpcm_decode_correct:
  assumes "sample < 16" "s_range 0x8000 prev" "quant \<le> 24576"
  shows "(sint (fst (DecodeADPCM sample prev quant)), sint (snd (DecodeADPCM sample prev quant)))
    = ref_adpcm (unat sample) (sint prev) (uint quant)"
proof -
  let ?d = "unat (sample AND 7)" let ?n = "uint quant * (2 * int ?d + 1)"
  have "sample AND 7 = take_bit 3 sample" by (simp add: take_bit_eq_mask mask_numeral)
  then have d: "?d = unat sample mod 8" "?d < 8" by (simp_all add: take_bit_eq_mod unat_mod_distrib)
  have k: "0 \<le> 2 * int ?d + 1" "2 * int ?d + 1 \<le> 1000" "0 \<le> adpcm_factor ?d" "adpcm_factor ?d \<le> 1000"
    using d(2) by (linarith, linarith, simp_all add: adpcm_factor_def)
  have p: "sint (quant * adpcm_scale ! ?d) = ?n" "sint (quant * adpcm_qs ! ?d) = uint quant * adpcm_factor ?d"
    unfolding adpcm_tables [OF d(2)] by (rule quant_product [OF assms(3) k(1,2)], rule quant_product [OF assms(3) k(3,4)])
  have n8: "0 \<le> ?n div 8" using mult_nonneg_nonneg [OF uint_ge_0 k(1)] by (simp add: pos_imp_zdiv_nonneg_iff)
  let ?rv = "sar 3 (quant * adpcm_scale ! ?d)" let ?r = "if 0x7FFF < sint ?rv then 0x7FFF else ?rv"
  have r: "sint ?r = min 32767 (?n div 8)" "0 \<le> sint ?r" "sint ?r \<le> 32767"
    using n8 by (simp_all add: sint_sar p)
  have "sample < 8 \<longleftrightarrow> unat sample < 8" by (simp add: word_less_nat_alt)
  then show ?thesis
    using adpcm_sum [OF assms(2) r(2,3) assms(1)]
    by (simp add: DecodeADPCM_def ref_adpcm_def Let_def sint_clamp sint_sar p r(1) d(1) [symmetric])
qed

theorem adpcm_decode_correct_witness:
  "(sint (fst (DecodeADPCM 13 100 127)), sint (snd (DecodeADPCM 13 100 127))) = (- 74, 202)"
proof -
  have "ref_adpcm 13 100 127 = (- 74, 202)" by (simp add: ref_adpcm_def adpcm_factor_def Let_def)
  then show ?thesis using adpcm_decode_correct [of 13 100 127] by (simp add: s_range_def)
qed


subsection \<open>Output ranges\<close>

lemma sint_narrow:
  fixes w :: u64
  assumes "- 0x80000000 \<le> sint w" "sint w < 0x80000000"
  shows "sint (ucast w :: u32) = sint w"
proof -
  have "(ucast w :: u32) = word_of_int (sint w)" by (rule bit_word_eqI) (simp add: bit_simps)
  then show ?thesis by (simp only: sint_of_int [OF assms])
qed

lemma sint_FPMul_64:
  assumes "- 0x80000000 \<le> sint a * sint b div 2 ^ n" "sint a * sint b div 2 ^ n < 0x80000000"
  shows "sint (FPMul_64 a b n) = sint a * sint b div 2 ^ n"
proof -
  have "sint (sar n (scast a * scast b :: u64)) = sint a * sint b div 2 ^ n"
    by (simp add: sint_prod sint_signed_drop_bit_eq drop_bit_eq_div)
  then show ?thesis unfolding FPMul_64_def using assms by (simp add: sint_narrow)
qed

lemma div_floor: "0 < b \<Longrightarrow> a div b * b \<le> a" for a b :: int
  by (simp add: minus_mod_eq_div_mult [symmetric])

lemma scaled_bounds:
  fixes a b m :: int
  assumes "- m * 2 ^ k \<le> a" "a < m * 2 ^ k" "0 \<le> b" "b \<le> 2 ^ j" "0 < m"
  shows "- m \<le> a * b div 2 ^ (k + j)" "a * b div 2 ^ (k + j) < m"
proof -
  have "- m * 2 ^ k * b \<le> a * b" using assms by (intro mult_right_mono) auto
  moreover have "- m * 2 ^ k * 2 ^ j \<le> - m * 2 ^ k * b" using assms by (simp add: mult_left_mono)
  ultimately have "- m * 2 ^ (k + j) \<le> a * b" by (simp add: power_add mult.assoc)
  from zdiv_mono1 [OF this, of "2 ^ (k + j)"] show "- m \<le> a * b div 2 ^ (k + j)"
    by (simp only: nonzero_mult_div_cancel_right) simp
  have "a * b < m * 2 ^ (k + j)"
  proof (cases "b = 0")
    case False
    then have "a * b < m * 2 ^ k * b" using assms by (intro mult_strict_right_mono) auto
    also have "\<dots> \<le> m * 2 ^ k * 2 ^ j" using assms by (intro mult_left_mono) auto
    finally show ?thesis by (simp add: power_add mult.assoc)
  qed (use assms in simp)
  moreover have "a * b div 2 ^ (k + j) * 2 ^ (k + j) \<le> a * b" by (rule div_floor) simp
  ultimately have "a * b div 2 ^ (k + j) * 2 ^ (k + j) < m * 2 ^ (k + j)" by (rule order.strict_trans1 [rotated])
  then show "a * b div 2 ^ (k + j) < m" by (simp add: mult_less_cancel_right)
qed


lemma weighted_range:
  fixes v k :: u32
  assumes "s_range 0x8000 v" "k \<le> 1024"
  shows "sint (FPMul v k 10) = sint v * uint k div 1024" "- 32 * uint k \<le> sint v * uint k div 1024"
    "sint v * uint k div 1024 * 1024 \<le> 32767 * uint k"
proof -
  have k: "sint k = uint k" "uint k \<le> 1024"
    using assms(2) by (auto simp: word_le_def word_less_def intro: sint_small)
  have v: "- 32768 \<le> sint v" "sint v \<le> 32767" using assms(1) by (auto simp: s_range_def)
  have lo: "- 32768 * uint k \<le> sint v * uint k" using v by (intro mult_right_mono) auto
  have hi: "sint v * uint k \<le> 32767 * uint k" using v by (intro mult_right_mono) auto
  have "sint (v * k) = sint v * uint k"
    using lo hi k by (subst sint_mult_exact) auto
  then show "sint (FPMul v k 10) = sint v * uint k div 1024" by (simp add: FPMul_def sint_sar)
  show "- 32 * uint k \<le> sint v * uint k div 1024" using zdiv_mono1 [OF lo, of 1024] by simp
  show "sint v * uint k div 1024 * 1024 \<le> 32767 * uint k" using hi div_floor [of 1024 "sint v * uint k"] by linarith
qed

lemma weighted_sum:
  fixes x y f :: int
  shows "- 32 * (1024 - f) \<le> x \<Longrightarrow> - 32 * f \<le> y \<Longrightarrow> - 32768 \<le> x + y"
    and "x * 1024 \<le> 32767 * (1024 - f) \<Longrightarrow> y * 1024 \<le> 32767 * f \<Longrightarrow> x + y < 32768"
  by simp_all

lemma InterpolateSample_range:
  assumes "ch_ok c"
  shows "s_range 0x8000 (InterpolateSample c)"
proof -
  let ?f = "ch_step c AND 0x3FF" let ?g = "1024 - ?f"
  have "?f AND mask 10 = ?f" by (simp add: mask_numeral and.assoc)
  then have f: "uint ?f < 1024" by (simp add: mask_eq_iff)
  then have g: "uint ?g = 1024 - uint ?f" "?f \<le> 1024" by (simp_all add: uint_sub_lem [THEN iffD1] word_le_def)
  have g': "?g \<le> 1024" by (simp add: word_le_def g(1))
  note a = weighted_range [OF ch_okD(1) [OF assms] g'] and b = weighted_range [OF ch_okD(2) [OF assms] g(2)]
  let ?s = "sint (ch_s0 c) * uint ?g div 1024 + sint (ch_s1 c) * uint ?f div 1024"
  have "- 32768 \<le> ?s" "?s < 32768"
    using weighted_sum(1) [OF a(2) [unfolded g(1)] b(2)] weighted_sum(2) [OF a(3) [unfolded g(1)] b(3)]
    unfolding g(1) by blast+
  then show ?thesis
    using sint_add_exact [of "FPMul (ch_s0 c) ?g 10" "FPMul (ch_s1 c) ?f 10"] a(1) b(1)
    by (simp add: s_range_def InterpolateSample_def Let_def)
qed


lemma filter_input_range: "ch_ok c \<Longrightarrow> s_range 0x80000 (fst (lowPassFilter (push_bit 4 (InterpolateSample c)) c))"
proof -
  assume "ch_ok c"
  then have v: "s_range 0x8000 (InterpolateSample c)" by (rule InterpolateSample_range)
  have "push_bit 4 v = word_of_int (16 * sint v)" for v :: u32
    by (simp only: push_bit_eq_mult wi_hom_mult [symmetric] word_of_sint) simp
  then have "s_range 0x80000 (push_bit 4 (InterpolateSample c))"
    using v sint_of_int [of "16 * sint (InterpolateSample c)"] by (simp add: s_range_def)
  then show ?thesis by (simp add: lowPassFilter_def Let_def)
qed

lemma att_index_lt: "att_index (ch_ofsatt cn s) a < 256"
proof -
  have "att_index f a < 256" if "unat f \<le> 255" for f
  proof -
    have "unat (255 - f) = 255 - unat f" using that by (simp add: unat_sub word_le_nat_alt)
    moreover have "unat (min a (255 - f)) \<le> unat (255 - f)" by (simp add: min_def word_le_nat_alt)
    ultimately show ?thesis using that by (simp add: att_index_def)
  qed
  then show ?thesis by (simp add: ch_ofsatt_def min_def word_le_nat_alt)
qed

text \<open>The attenuation table holds \<open>2 ^ 15 / 2 ^ (i / 16)\<close>, rounded towards zero.\<close>

definition levels_ok :: "aica_env \<Rightarrow> bool" where
  "levels_ok e \<longleftrightarrow> (\<forall>i<256. 0 \<le> sint (tl_table e i) \<and> sint (tl_table e i) \<le> 0x8000)"

lemma attenuated:
  assumes "levels_ok e" "s_range 0x80000 v" "i < 256"
  shows "s_range 0x8000 (FPMul_64 v (tl_lut e i) 19)" "s_range 0x80000 (FPMul_64 v (tl_lut e i) 15)"
proof -
  let ?b = "sint (tl_lut e i)"
  have b: "0 \<le> ?b" "?b \<le> 2 ^ 15" using assms(1,3) by (simp_all add: levels_ok_def tl_lut_def)
  have v: "- 0x8000 * 2 ^ 4 \<le> sint v" "sint v < 0x8000 * 2 ^ 4" "- 0x80000 * 2 ^ 0 \<le> sint v" "sint v < 0x80000 * 2 ^ 0"
    using assms(2) by (simp_all add: s_range_def)
  show "s_range 0x8000 (FPMul_64 v (tl_lut e i) 19)"
    using scaled_bounds [OF v(1,2) b] sint_FPMul_64 [of v "tl_lut e i" 19] by (simp add: s_range_def)
  show "s_range 0x80000 (FPMul_64 v (tl_lut e i) 15)"
    using scaled_bounds [OF v(3,4) b] sint_FPMul_64 [of v "tl_lut e i" 15] by (simp add: s_range_def)
qed

text \<open>
  Property C19: the left and right outputs of a channel fit 16 bits and its DSP output 20 bits, as the code's
  \<open>clip_verify\<close> assertions say; every level is read from the first 256 entries of the table.
\<close>

theorem channel_output_bounds:
  assumes "ch_ok (ch cn s)" "levels_ok e"
  shows "case fst (ch_Step e cn s) of (l, r, d) \<Rightarrow> s_range 0x8000 l \<and> s_range 0x8000 r \<and> s_range 0x80000 d"
  using attenuated [OF assms(2) filter_input_range [OF assms(1)] att_index_lt]
  by (simp add: ch_Step_def Let_def split_beta)

theorem channel_output_bounds_witness:
  "case fst (ch_Step aica_env_zero 0 (upd_ch 0 (\<lambda>c. c\<lparr>ch_enabled := True, ch_s0 := -32768\<rparr>) machine_zero)) of
     (l, r, d) \<Rightarrow> s_range 0x8000 l \<and> s_range 0x8000 r \<and> s_range 0x80000 d"
  by (rule channel_output_bounds)
    (simp_all add: ch_ok_def upd_ch_def upd_def machine_zero_def aica_zero_def channel_zero_def levels_ok_def aica_env_zero_def
      s_range_def)

end
