(* ===== verification/Sh4_Cpu.thy ===== *)
theory Sh4_Cpu
  imports Sh4_Intc
begin

unbundle bit_operations_syntax

section \<open>The SH-4 processor: state, outcomes and environment\<close>

text \<open>
  The state the interpreter of \<^verbatim>\<open>core/hw/sh4/interpr\<close> works on: \<open>Sh4Context\<close> of \<^verbatim>\<open>core/hw/sh4/sh4_if.h\<close>, whose
  part seen by the interrupt controller is the record of theory \<open>Sh4_Intc\<close> (field \<open>cx\<close>), the cycle counting of
  \<^verbatim>\<open>sh4_cycles.h\<close>, and a field \<open>dev\<close> for everything behind the memory interface.  An instruction ends normally, throws
  \<open>SH4ThrownException\<close> (with the state reached so far), or stops the emulator (\<open>FlycastException\<close>, \<open>die\<close>, \<open>verify\<close>).

  The memory functions are pointers set at run time (\<open>SetMemoryHandlers\<close>), as are the store-queue writer and the
  interpreter instance that runs a delay slot; they are the fields of the environment.  Debugger callbacks are left out,
  \<^verbatim>\<open>STRICT_MODE\<close> is off, as in \<^verbatim>\<open>core/build.h\<close>, and host rounding modes are outside the model.
\<close>

subsection \<open>State\<close>

datatype sh4_eu = eu_MT | eu_EX | eu_BR | eu_LS | eu_FE | eu_CO

record 'm sh4_cpu =
  cx :: sh4_state
  gbr :: u32
  dbr :: u32
  pr :: u32
  fpul :: u32
  mac :: u64
  fpscr :: u32
  old_fpscr :: u32
  fr :: "nat \<Rightarrow> u32"
  xf :: "nat \<Rightarrow> u32"
  CCN_TRA :: u32
  cycle_counter :: int
  sh4_sched_next :: int
  lastUnit :: sh4_eu
  memOps :: int
  mmuOn :: bool
  dev :: 'm

datatype ('a, 'm) outcome =
  Done 'a "'m sh4_cpu"
| Thrown u32 u32 "'m sh4_cpu"
| Fatal

type_synonym ('a, 'm) act = "'m sh4_cpu \<Rightarrow> ('a, 'm) outcome"

text \<open>
  The arithmetic of the C++ types \<open>float\<close> and \<open>double\<close> of the host, on bit patterns: IEEE operations that depend on the
  host's rounding mode.  \<open>sin_table\<close> is the table of \<^verbatim>\<open>fsca-table.h\<close>; \<open>host_x86\<close> is the condition \<open>HOST_CPU == CPU_X86 || HOST_CPU == CPU_X64\<close>.
\<close>

record fpu_host =
  f_add :: "u32 \<Rightarrow> u32 \<Rightarrow> u32"
  f_sub :: "u32 \<Rightarrow> u32 \<Rightarrow> u32"
  f_mul :: "u32 \<Rightarrow> u32 \<Rightarrow> u32"
  f_div :: "u32 \<Rightarrow> u32 \<Rightarrow> u32"
  f_fma :: "u32 \<Rightarrow> u32 \<Rightarrow> u32 \<Rightarrow> u32"
  f_sqrt :: "u32 \<Rightarrow> u32"
  f_one :: u32
  f_eq :: "u32 \<Rightarrow> u32 \<Rightarrow> bool"
  f_gt :: "u32 \<Rightarrow> u32 \<Rightarrow> bool"
  f_isnan :: "u32 \<Rightarrow> bool"
  f_of_s32 :: "u32 \<Rightarrow> u32"
  s32_of_f :: "u32 \<Rightarrow> u32"
  f_to_d :: "u32 \<Rightarrow> u64"
  d_add :: "u64 \<Rightarrow> u64 \<Rightarrow> u64"
  d_sub :: "u64 \<Rightarrow> u64 \<Rightarrow> u64"
  d_mul :: "u64 \<Rightarrow> u64 \<Rightarrow> u64"
  d_div :: "u64 \<Rightarrow> u64 \<Rightarrow> u64"
  d_sqrt :: "u64 \<Rightarrow> u64"
  d_eq :: "u64 \<Rightarrow> u64 \<Rightarrow> bool"
  d_gt :: "u64 \<Rightarrow> u64 \<Rightarrow> bool"
  d_isnan :: "u64 \<Rightarrow> bool"
  d_of_s32 :: "u32 \<Rightarrow> u64"
  s32_of_d :: "u64 \<Rightarrow> u32"
  d_to_f :: "u64 \<Rightarrow> u32"
  sin_table :: "nat \<Rightarrow> u32 \<times> u32"
  host_x86 :: bool

record 'm sh4_env =
  ReadMem8 :: "u32 \<Rightarrow> (u8, 'm) act"
  ReadMem16 :: "u32 \<Rightarrow> (u16, 'm) act"
  ReadMem32 :: "u32 \<Rightarrow> (u32, 'm) act"
  ReadMem64 :: "u32 \<Rightarrow> (u64, 'm) act"
  IReadMem16 :: "u32 \<Rightarrow> (u16, 'm) act"
  WriteMem8 :: "u32 \<Rightarrow> u8 \<Rightarrow> (unit, 'm) act"
  WriteMem16 :: "u32 \<Rightarrow> u16 \<Rightarrow> (unit, 'm) act"
  WriteMem32 :: "u32 \<Rightarrow> u32 \<Rightarrow> (unit, 'm) act"
  WriteMem64 :: "u32 \<Rightarrow> u64 \<Rightarrow> (unit, 'm) act"
  doSqWrite :: "u32 \<Rightarrow> (unit, 'm) act"
  ldtlb_op :: "(unit, 'm) act"
  host :: fpu_host
  reios_trap :: "u32 \<Rightarrow> (unit, 'm) act"
  sh4_sched_tick :: "int \<Rightarrow> 'm sh4_cpu \<Rightarrow> 'm sh4_cpu"
  ExecuteDelayslot :: "(unit, 'm) act"
  ExecuteDelayslot_RTE :: "(unit, 'm) act"

type_synonym 'm sh4_op = "'m sh4_env \<Rightarrow> u32 \<Rightarrow> (unit, 'm) act"

subsection \<open>Sequencing\<close>

definition bnd :: "('a, 'm) outcome \<Rightarrow> ('a \<Rightarrow> ('b, 'm) act) \<Rightarrow> ('b, 'm) outcome" where
  "bnd o1 f = (case o1 of Done v s \<Rightarrow> f v s | Thrown epc ev s \<Rightarrow> Thrown epc ev s | Fatal \<Rightarrow> Fatal)"

lemma bnd_simps [simp]:
  "bnd (Done v s) f = f v s" "bnd (Thrown epc ev s) f = Thrown epc ev s" "bnd Fatal f = Fatal"
  by (simp_all add: bnd_def)

definition act :: "('m sh4_cpu \<Rightarrow> 'm sh4_cpu) \<Rightarrow> (unit, 'm) act" where
  "act f s = Done () (f s)"

text \<open>A load: the address is taken in the state before, the continuation runs in the state after.\<close>

definition load :: "(u32 \<Rightarrow> ('a, 'm) act) \<Rightarrow> ('m sh4_cpu \<Rightarrow> u32) \<Rightarrow> ('a \<Rightarrow> 'm sh4_cpu \<Rightarrow> 'm sh4_cpu) \<Rightarrow> (unit, 'm) act" where
  "load rd a k s = bnd (rd (a s) s) (\<lambda>v. act (k v))"

text \<open>A store of a value taken in the state before; the continuation gets the address.\<close>

definition store :: "(u32 \<Rightarrow> 'a \<Rightarrow> (unit, 'm) act) \<Rightarrow> ('m sh4_cpu \<Rightarrow> u32) \<Rightarrow> ('m sh4_cpu \<Rightarrow> 'a) \<Rightarrow> (u32 \<Rightarrow> 'm sh4_cpu \<Rightarrow> 'm sh4_cpu) \<Rightarrow> (unit, 'm) act" where
  "store wr a d k s = bnd (wr (a s) (d s) s) (\<lambda>_. act (k (a s)))"

subsection \<open>Fields of the opcode and registers\<close>

abbreviation GetN :: "u32 \<Rightarrow> nat" where "GetN op \<equiv> fld op 8"
abbreviation GetM :: "u32 \<Rightarrow> nat" where "GetM op \<equiv> fld op 4"

definition GetImm4 :: "u32 \<Rightarrow> u32" where "GetImm4 op = op AND 0xF"
definition GetImm8 :: "u32 \<Rightarrow> u32" where "GetImm8 op = op AND 0xFF"
definition GetSImm8 :: "u32 \<Rightarrow> u32" where "GetSImm8 op = scast (ucast (op AND 0xFF) :: u8)"
definition GetSImm12 :: "u32 \<Rightarrow> u32" where
  "GetSImm12 op = scast (signed_drop_bit 4 (push_bit 4 (ucast (op AND 0xFFF) :: u16)))"

abbreviation rg :: "nat \<Rightarrow> 'm sh4_cpu \<Rightarrow> u32" where "rg n s \<equiv> gpr (cx s) n"
abbreviation upd_cx :: "(sh4_state \<Rightarrow> sh4_state) \<Rightarrow> 'm sh4_cpu \<Rightarrow> 'm sh4_cpu" where "upd_cx f s \<equiv> s\<lparr>cx := f (cx s)\<rparr>"

definition set_r :: "nat \<Rightarrow> u32 \<Rightarrow> 'm sh4_cpu \<Rightarrow> 'm sh4_cpu" where
  "set_r n v s = upd_cx (\<lambda>c. c\<lparr>gpr := (gpr c)(n := v)\<rparr>) s"

definition set_bank :: "nat \<Rightarrow> u32 \<Rightarrow> 'm sh4_cpu \<Rightarrow> 'm sh4_cpu" where
  "set_bank m v s = upd_cx (\<lambda>c. c\<lparr>r_bank := (r_bank c)(m := v)\<rparr>) s"

definition set_pc :: "u32 \<Rightarrow> 'm sh4_cpu \<Rightarrow> 'm sh4_cpu" where
  "set_pc v s = upd_cx (\<lambda>c. c\<lparr>pc := v\<rparr>) s"

definition set_T :: "bool \<Rightarrow> 'm sh4_cpu \<Rightarrow> 'm sh4_cpu" where
  "set_T b s = upd_cx (\<lambda>c. c\<lparr>sr_T := of_bool b\<rparr>) s"

definition set_Tw :: "u32 \<Rightarrow> 'm sh4_cpu \<Rightarrow> 'm sh4_cpu" where
  "set_Tw v s = upd_cx (\<lambda>c. c\<lparr>sr_T := v\<rparr>) s"

definition sr_S :: "u32 \<Rightarrow> bool" where "sr_S v = bit v 1"
definition sr_Q :: "u32 \<Rightarrow> bool" where "sr_Q v = bit v 8"
definition sr_M :: "u32 \<Rightarrow> bool" where "sr_M v = bit v 9"
definition sr_FD :: "u32 \<Rightarrow> bool" where "sr_FD v = bit v 15"

definition set_status_bit :: "nat \<Rightarrow> bool \<Rightarrow> 'm sh4_cpu \<Rightarrow> 'm sh4_cpu" where
  "set_status_bit k b s = upd_cx (\<lambda>c. c\<lparr>sr_status := put_bit k b (sr_status c)\<rparr>) s"

abbreviation set_S :: "bool \<Rightarrow> 'm sh4_cpu \<Rightarrow> 'm sh4_cpu" where "set_S \<equiv> set_status_bit 1"
abbreviation set_Q :: "bool \<Rightarrow> 'm sh4_cpu \<Rightarrow> 'm sh4_cpu" where "set_Q \<equiv> set_status_bit 8"
abbreviation set_M :: "bool \<Rightarrow> 'm sh4_cpu \<Rightarrow> 'm sh4_cpu" where "set_M \<equiv> set_status_bit 9"

definition sr_setFull :: "u32 \<Rightarrow> 'm sh4_cpu \<Rightarrow> 'm sh4_cpu" where
  "sr_setFull v s = upd_cx (\<lambda>c. c\<lparr>sr_status := v AND 0x700083F2, sr_T := v AND 1\<rparr>) s"

text \<open>\<open>if (UpdateSR()) UpdateINTC();\<close>\<close>

definition UpdateSR_INTC :: "'m sh4_cpu \<Rightarrow> 'm sh4_cpu" where
  "UpdateSR_INTC s = upd_cx (\<lambda>c. let c = UpdateSR c in if interrupt_pend c \<noteq> 0 then snd (UpdateINTC c) else c) s"

definition UpdateFPSCR :: "'m sh4_cpu \<Rightarrow> 'm sh4_cpu" where
  "UpdateFPSCR s =
     (let s = (if bit (fpscr s) 21 \<noteq> bit (old_fpscr s) 21 then s\<lparr>xf := fr s, fr := xf s\<rparr> else s)
      in s\<lparr>old_fpscr := fpscr s\<rparr>)"

definition mac_l :: "'m sh4_cpu \<Rightarrow> u32" where "mac_l s = ucast (mac s)"
definition mac_h :: "'m sh4_cpu \<Rightarrow> u32" where "mac_h s = ucast (drop_bit 32 (mac s))"

definition set_mac_l :: "u32 \<Rightarrow> 'm sh4_cpu \<Rightarrow> 'm sh4_cpu" where
  "set_mac_l v s = s\<lparr>mac := push_bit 32 (drop_bit 32 (mac s)) OR ucast v\<rparr>"

definition set_mac_h :: "u32 \<Rightarrow> 'm sh4_cpu \<Rightarrow> 'm sh4_cpu" where
  "set_mac_h v s = s\<lparr>mac := push_bit 32 (ucast v) OR (mac s AND mask 32)\<rparr>"

text \<open>Sign extension of a byte and of a halfword to 32 bits.\<close>

abbreviation sx8 :: "u8 \<Rightarrow> u32" where "sx8 v \<equiv> scast v"
abbreviation sx16 :: "u16 \<Rightarrow> u32" where "sx16 v \<equiv> scast v"

subsection \<open>Time slices and exceptions\<close>

abbreviation (input) SH4_TIMESLICE :: int where "SH4_TIMESLICE \<equiv> 448"

definition UpdateSystem_INTC :: "'m sh4_env \<Rightarrow> 'm sh4_cpu \<Rightarrow> nat \<times> 'm sh4_cpu" where
  "UpdateSystem_INTC e s =
     (let s = s\<lparr>sh4_sched_next := sh4_sched_next s - SH4_TIMESLICE\<rparr>;
          s = (if sh4_sched_next s < 0 then sh4_sched_tick e SH4_TIMESLICE s else s)
      in if interrupt_pend (cx s) \<noteq> 0 then (let (n, c) = UpdateINTC (cx s) in (n, s\<lparr>cx := c\<rparr>)) else (0, s))"

definition Do_Exception_cpu :: "u32 \<Rightarrow> u32 \<Rightarrow> (unit, 'm) act" where
  "Do_Exception_cpu epc ev s = (case Do_Exception epc ev (cx s) of None \<Rightarrow> Fatal | Some c \<Rightarrow> Done () (s\<lparr>cx := c\<rparr>))"

definition throw :: "u32 \<Rightarrow> u32 \<Rightarrow> ('a, 'm) act" where
  "throw epc ev s = Thrown epc ev s"

end
