(* ===== verification/Sh4_Ops.thy ===== *)
theory Sh4_Ops
  imports Sh4_Cpu
begin

unbundle bit_operations_syntax

section \<open>The instructions of the SH-4 interpreter\<close>

text \<open>
  Models \<^verbatim>\<open>core/hw/sh4/interpr/sh4_opcodes.cpp\<close>, one definition per handler under its name in the source, which is the
  bit pattern of the instruction.  A handler gets the environment and the opcode.  Additions and shifts wrap as the C++
  ones do; a signed comparison compares \<open>sint\<close> values.  The cache instructions do nothing because \<^verbatim>\<open>STRICT_MODE\<close> is off.
\<close>

subsection \<open>Moves, loads and stores\<close>

definition i0000_nnnn_0001_0010 :: "'m sh4_op" where \<comment> \<open>stc GBR,Rn\<close>
  "i0000_nnnn_0001_0010 e op =
     act (\<lambda>s. set_r (GetN op) (gbr s) s)"

definition i0000_nnnn_0010_0010 :: "'m sh4_op" where \<comment> \<open>stc VBR,Rn\<close>
  "i0000_nnnn_0010_0010 e op =
     act (\<lambda>s. set_r (GetN op) (vbr (cx s)) s)"

definition i0000_nnnn_0011_0010 :: "'m sh4_op" where \<comment> \<open>stc SSR,Rn\<close>
  "i0000_nnnn_0011_0010 e op =
     act (\<lambda>s. set_r (GetN op) (ssr (cx s)) s)"

definition i0000_nnnn_0011_1010 :: "'m sh4_op" where \<comment> \<open>stc SGR,Rn\<close>
  "i0000_nnnn_0011_1010 e op =
     act (\<lambda>s. set_r (GetN op) (sgr (cx s)) s)"

definition i0000_nnnn_0100_0010 :: "'m sh4_op" where \<comment> \<open>stc SPC,Rn\<close>
  "i0000_nnnn_0100_0010 e op =
     act (\<lambda>s. set_r (GetN op) (spc (cx s)) s)"

definition i0000_nnnn_0101_1010 :: "'m sh4_op" where \<comment> \<open>sts FPUL,Rn\<close>
  "i0000_nnnn_0101_1010 e op =
     act (\<lambda>s. set_r (GetN op) (fpul s) s)"

definition i0000_nnnn_1111_1010 :: "'m sh4_op" where \<comment> \<open>stc DBR,Rn\<close>
  "i0000_nnnn_1111_1010 e op =
     act (\<lambda>s. set_r (GetN op) (dbr s) s)"

definition i0000_nnnn_0000_1010 :: "'m sh4_op" where \<comment> \<open>sts MACH,Rn\<close>
  "i0000_nnnn_0000_1010 e op =
     act (\<lambda>s. set_r (GetN op) (mac_h s) s)"

definition i0000_nnnn_0001_1010 :: "'m sh4_op" where \<comment> \<open>sts MACL,Rn\<close>
  "i0000_nnnn_0001_1010 e op =
     act (\<lambda>s. set_r (GetN op) (mac_l s) s)"

definition i0000_nnnn_0010_1010 :: "'m sh4_op" where \<comment> \<open>sts PR,Rn\<close>
  "i0000_nnnn_0010_1010 e op =
     act (\<lambda>s. set_r (GetN op) (pr s) s)"

definition i0000_nnnn_0000_0010 :: "'m sh4_op" where \<comment> \<open>stc SR,Rn\<close>
  "i0000_nnnn_0000_0010 e op =
     act (\<lambda>s. set_r (GetN op) (sr_getFull (cx s)) s)"

definition i0000_nnnn_0110_1010 :: "'m sh4_op" where \<comment> \<open>sts FPSCR,Rn\<close>
  "i0000_nnnn_0110_1010 e op =
     act (\<lambda>s. set_r (GetN op) (fpscr s) s)"

definition i0000_nnnn_1mmm_0010 :: "'m sh4_op" where \<comment> \<open>stc RM_BANK,Rn\<close>
  "i0000_nnnn_1mmm_0010 e op =
     act (\<lambda>s. set_r (GetN op) (r_bank (cx s) (GetM op mod 8)) s)"

definition i0000_nnnn_mmmm_1100 :: "'m sh4_op" where \<comment> \<open>mov.b @(R0,Rm),Rn\<close>
  "i0000_nnnn_mmmm_1100 e op =
     load (ReadMem8 e) (\<lambda>s. rg 0 s + rg (GetM op) s) (\<lambda>v s. set_r (GetN op) (sx8 v) s)"

definition i0000_nnnn_mmmm_1101 :: "'m sh4_op" where \<comment> \<open>mov.w @(R0,Rm),Rn\<close>
  "i0000_nnnn_mmmm_1101 e op =
     load (ReadMem16 e) (\<lambda>s. rg 0 s + rg (GetM op) s) (\<lambda>v s. set_r (GetN op) (sx16 v) s)"

definition i0000_nnnn_mmmm_1110 :: "'m sh4_op" where \<comment> \<open>mov.l @(R0,Rm),Rn\<close>
  "i0000_nnnn_mmmm_1110 e op =
     load (ReadMem32 e) (\<lambda>s. rg 0 s + rg (GetM op) s) (\<lambda>v s. set_r (GetN op) v s)"

definition i0000_nnnn_mmmm_0100 :: "'m sh4_op" where \<comment> \<open>mov.b Rm,@(R0,Rn)\<close>
  "i0000_nnnn_mmmm_0100 e op =
     store (WriteMem8 e) (\<lambda>s. rg 0 s + rg (GetN op) s) (\<lambda>s. ucast (rg (GetM op) s)) (\<lambda>a s. s)"

definition i0000_nnnn_mmmm_0101 :: "'m sh4_op" where \<comment> \<open>mov.w Rm,@(R0,Rn)\<close>
  "i0000_nnnn_mmmm_0101 e op =
     store (WriteMem16 e) (\<lambda>s. rg 0 s + rg (GetN op) s) (\<lambda>s. ucast (rg (GetM op) s)) (\<lambda>a s. s)"

definition i0000_nnnn_mmmm_0110 :: "'m sh4_op" where \<comment> \<open>mov.l Rm,@(R0,Rn)\<close>
  "i0000_nnnn_mmmm_0110 e op =
     store (WriteMem32 e) (\<lambda>s. rg 0 s + rg (GetN op) s) (\<lambda>s. rg (GetM op) s) (\<lambda>a s. s)"

definition i0001_nnnn_mmmm_iiii :: "'m sh4_op" where \<comment> \<open>mov.l Rm,@(disp,Rn)\<close>
  "i0001_nnnn_mmmm_iiii e op =
     store (WriteMem32 e) (\<lambda>s. rg (GetN op) s + push_bit 2 (GetImm4 op)) (\<lambda>s. rg (GetM op) s) (\<lambda>a s. s)"

definition i0010_nnnn_mmmm_0000 :: "'m sh4_op" where \<comment> \<open>mov.b Rm,@Rn\<close>
  "i0010_nnnn_mmmm_0000 e op =
     store (WriteMem8 e) (\<lambda>s. rg (GetN op) s) (\<lambda>s. ucast (rg (GetM op) s)) (\<lambda>a s. s)"

definition i0010_nnnn_mmmm_0001 :: "'m sh4_op" where \<comment> \<open>mov.w Rm,@Rn\<close>
  "i0010_nnnn_mmmm_0001 e op =
     store (WriteMem16 e) (\<lambda>s. rg (GetN op) s) (\<lambda>s. ucast (rg (GetM op) s)) (\<lambda>a s. s)"

definition i0010_nnnn_mmmm_0010 :: "'m sh4_op" where \<comment> \<open>mov.l Rm,@Rn\<close>
  "i0010_nnnn_mmmm_0010 e op =
     store (WriteMem32 e) (\<lambda>s. rg (GetN op) s) (\<lambda>s. rg (GetM op) s) (\<lambda>a s. s)"

definition i0010_nnnn_mmmm_0100 :: "'m sh4_op" where \<comment> \<open>mov.b Rm,@-Rn\<close>
  "i0010_nnnn_mmmm_0100 e op =
     store (WriteMem8 e) (\<lambda>s. rg (GetN op) s + - 1) (\<lambda>s. ucast (rg (GetM op) s)) (\<lambda>a s. set_r (GetN op) a s)"

definition i0010_nnnn_mmmm_0101 :: "'m sh4_op" where \<comment> \<open>mov.w Rm,@-Rn\<close>
  "i0010_nnnn_mmmm_0101 e op =
     store (WriteMem16 e) (\<lambda>s. rg (GetN op) s - 2) (\<lambda>s. ucast (rg (GetM op) s)) (\<lambda>a s. set_r (GetN op) a s)"

definition i0010_nnnn_mmmm_0110 :: "'m sh4_op" where \<comment> \<open>mov.l Rm,@-Rn\<close>
  "i0010_nnnn_mmmm_0110 e op =
     store (WriteMem32 e) (\<lambda>s. rg (GetN op) s - 4) (\<lambda>s. rg (GetM op) s) (\<lambda>a s. set_r (GetN op) a s)"

definition i0100_nnnn_0101_0010 :: "'m sh4_op" where \<comment> \<open>sts.l FPUL,@-Rn\<close>
  "i0100_nnnn_0101_0010 e op =
     store (WriteMem32 e) (\<lambda>s. rg (GetN op) s - 4) (\<lambda>s. fpul s) (\<lambda>a s. set_r (GetN op) a s)"

definition i0100_nnnn_0000_0010 :: "'m sh4_op" where \<comment> \<open>sts.l MACH,@-Rn\<close>
  "i0100_nnnn_0000_0010 e op =
     store (WriteMem32 e) (\<lambda>s. rg (GetN op) s - 4) (\<lambda>s. mac_h s) (\<lambda>a s. set_r (GetN op) a s)"

definition i0100_nnnn_0001_0010 :: "'m sh4_op" where \<comment> \<open>sts.l MACL,@-Rn\<close>
  "i0100_nnnn_0001_0010 e op =
     store (WriteMem32 e) (\<lambda>s. rg (GetN op) s - 4) (\<lambda>s. mac_l s) (\<lambda>a s. set_r (GetN op) a s)"

definition i0100_nnnn_0010_0010 :: "'m sh4_op" where \<comment> \<open>sts.l PR,@-Rn\<close>
  "i0100_nnnn_0010_0010 e op =
     store (WriteMem32 e) (\<lambda>s. rg (GetN op) s - 4) (\<lambda>s. pr s) (\<lambda>a s. set_r (GetN op) a s)"

definition i0100_nnnn_1111_0010 :: "'m sh4_op" where \<comment> \<open>sts.l DBR,@-Rn\<close>
  "i0100_nnnn_1111_0010 e op =
     store (WriteMem32 e) (\<lambda>s. rg (GetN op) s - 4) (\<lambda>s. dbr s) (\<lambda>a s. set_r (GetN op) a s)"

definition i0100_nnnn_0001_0011 :: "'m sh4_op" where \<comment> \<open>stc.l GBR,@-Rn\<close>
  "i0100_nnnn_0001_0011 e op =
     store (WriteMem32 e) (\<lambda>s. rg (GetN op) s - 4) (\<lambda>s. gbr s) (\<lambda>a s. set_r (GetN op) a s)"

definition i0100_nnnn_0010_0011 :: "'m sh4_op" where \<comment> \<open>stc.l VBR,@-Rn\<close>
  "i0100_nnnn_0010_0011 e op =
     store (WriteMem32 e) (\<lambda>s. rg (GetN op) s - 4) (\<lambda>s. vbr (cx s)) (\<lambda>a s. set_r (GetN op) a s)"

definition i0100_nnnn_0011_0011 :: "'m sh4_op" where \<comment> \<open>stc.l SSR,@-Rn\<close>
  "i0100_nnnn_0011_0011 e op =
     store (WriteMem32 e) (\<lambda>s. rg (GetN op) s - 4) (\<lambda>s. ssr (cx s)) (\<lambda>a s. set_r (GetN op) a s)"

definition i0100_nnnn_0011_0010 :: "'m sh4_op" where \<comment> \<open>stc.l SGR,@-Rn\<close>
  "i0100_nnnn_0011_0010 e op =
     store (WriteMem32 e) (\<lambda>s. rg (GetN op) s - 4) (\<lambda>s. sgr (cx s)) (\<lambda>a s. set_r (GetN op) a s)"

definition i0100_nnnn_0100_0011 :: "'m sh4_op" where \<comment> \<open>stc.l SPC,@-Rn\<close>
  "i0100_nnnn_0100_0011 e op =
     store (WriteMem32 e) (\<lambda>s. rg (GetN op) s - 4) (\<lambda>s. spc (cx s)) (\<lambda>a s. set_r (GetN op) a s)"

definition i0100_nnnn_1mmm_0011 :: "'m sh4_op" where \<comment> \<open>stc RM_BANK,@-Rn\<close>
  "i0100_nnnn_1mmm_0011 e op =
     store (WriteMem32 e) (\<lambda>s. rg (GetN op) s - 4) (\<lambda>s. r_bank (cx s) (GetM op mod 8)) (\<lambda>a s. set_r (GetN op) a s)"

definition i0100_nnnn_0110_0010 :: "'m sh4_op" where \<comment> \<open>sts.l FPSCR,@-Rn\<close>
  "i0100_nnnn_0110_0010 e op =
     store (WriteMem32 e) (\<lambda>s. rg (GetN op) s - 4) (\<lambda>s. fpscr s) (\<lambda>a s. set_r (GetN op) (rg (GetN op) s - 4) s)"

definition i0100_nnnn_0000_0011 :: "'m sh4_op" where \<comment> \<open>stc.l SR,@-Rn\<close>
  "i0100_nnnn_0000_0011 e op =
     store (WriteMem32 e) (\<lambda>s. rg (GetN op) s - 4) (\<lambda>s. sr_getFull (cx s)) (\<lambda>a s. set_r (GetN op) (rg (GetN op) s - 4) s)"

definition i0100_nnnn_0000_0110 :: "'m sh4_op" where \<comment> \<open>lds.l @Rn+,MACH\<close>
  "i0100_nnnn_0000_0110 e op =
     load (ReadMem32 e) (\<lambda>s. rg (GetN op) s) (\<lambda>v s. let s = set_mac_h v s in set_r (GetN op) (rg (GetN op) s + 4) s)"

definition i0100_nnnn_0001_0110 :: "'m sh4_op" where \<comment> \<open>lds.l @Rn+,MACL\<close>
  "i0100_nnnn_0001_0110 e op =
     load (ReadMem32 e) (\<lambda>s. rg (GetN op) s) (\<lambda>v s. let s = set_mac_l v s in set_r (GetN op) (rg (GetN op) s + 4) s)"

definition i0100_nnnn_0010_0110 :: "'m sh4_op" where \<comment> \<open>lds.l @Rn+,PR\<close>
  "i0100_nnnn_0010_0110 e op =
     load (ReadMem32 e) (\<lambda>s. rg (GetN op) s) (\<lambda>v s. let s = s\<lparr>pr := v\<rparr> in set_r (GetN op) (rg (GetN op) s + 4) s)"

definition i0100_nnnn_0101_0110 :: "'m sh4_op" where \<comment> \<open>lds.l @Rn+,FPUL\<close>
  "i0100_nnnn_0101_0110 e op =
     load (ReadMem32 e) (\<lambda>s. rg (GetN op) s) (\<lambda>v s. let s = s\<lparr>fpul := v\<rparr> in set_r (GetN op) (rg (GetN op) s + 4) s)"

definition i0100_nnnn_1111_0110 :: "'m sh4_op" where \<comment> \<open>lds.l @Rn+,DBR\<close>
  "i0100_nnnn_1111_0110 e op =
     load (ReadMem32 e) (\<lambda>s. rg (GetN op) s) (\<lambda>v s. let s = s\<lparr>dbr := v\<rparr> in set_r (GetN op) (rg (GetN op) s + 4) s)"

definition i0100_nnnn_0001_0111 :: "'m sh4_op" where \<comment> \<open>ldc.l @Rn+,GBR\<close>
  "i0100_nnnn_0001_0111 e op =
     load (ReadMem32 e) (\<lambda>s. rg (GetN op) s) (\<lambda>v s. let s = s\<lparr>gbr := v\<rparr> in set_r (GetN op) (rg (GetN op) s + 4) s)"

definition i0100_nnnn_0010_0111 :: "'m sh4_op" where \<comment> \<open>ldc.l @Rn+,VBR\<close>
  "i0100_nnnn_0010_0111 e op =
     load (ReadMem32 e) (\<lambda>s. rg (GetN op) s) (\<lambda>v s. let s = upd_cx (\<lambda>c. c\<lparr>vbr := v\<rparr>) s in set_r (GetN op) (rg (GetN op) s + 4) s)"

definition i0100_nnnn_0011_0111 :: "'m sh4_op" where \<comment> \<open>ldc.l @Rn+,SSR\<close>
  "i0100_nnnn_0011_0111 e op =
     load (ReadMem32 e) (\<lambda>s. rg (GetN op) s) (\<lambda>v s. let s = upd_cx (\<lambda>c. c\<lparr>ssr := v\<rparr>) s in set_r (GetN op) (rg (GetN op) s + 4) s)"

definition i0100_nnnn_0011_0110 :: "'m sh4_op" where \<comment> \<open>ldc.l @Rn+,SGR\<close>
  "i0100_nnnn_0011_0110 e op =
     load (ReadMem32 e) (\<lambda>s. rg (GetN op) s) (\<lambda>v s. let s = upd_cx (\<lambda>c. c\<lparr>sgr := v\<rparr>) s in set_r (GetN op) (rg (GetN op) s + 4) s)"

definition i0100_nnnn_0100_0111 :: "'m sh4_op" where \<comment> \<open>ldc.l @Rn+,SPC\<close>
  "i0100_nnnn_0100_0111 e op =
     load (ReadMem32 e) (\<lambda>s. rg (GetN op) s) (\<lambda>v s. let s = upd_cx (\<lambda>c. c\<lparr>spc := v\<rparr>) s in set_r (GetN op) (rg (GetN op) s + 4) s)"

definition i0100_nnnn_1mmm_0111 :: "'m sh4_op" where \<comment> \<open>ldc.l @Rn+,RM_BANK\<close>
  "i0100_nnnn_1mmm_0111 e op =
     load (ReadMem32 e) (\<lambda>s. rg (GetN op) s) (\<lambda>v s. let s = set_bank (GetM op mod 8) v s in set_r (GetN op) (rg (GetN op) s + 4) s)"

definition i0100_nnnn_0000_1010 :: "'m sh4_op" where \<comment> \<open>lds Rn,MACH\<close>
  "i0100_nnnn_0000_1010 e op =
     act (\<lambda>s. let v = rg (GetN op) s in set_mac_h v s)"

definition i0100_nnnn_0001_1010 :: "'m sh4_op" where \<comment> \<open>lds Rn,MACL\<close>
  "i0100_nnnn_0001_1010 e op =
     act (\<lambda>s. let v = rg (GetN op) s in set_mac_l v s)"

definition i0100_nnnn_0010_1010 :: "'m sh4_op" where \<comment> \<open>lds Rn,PR\<close>
  "i0100_nnnn_0010_1010 e op =
     act (\<lambda>s. let v = rg (GetN op) s in s\<lparr>pr := v\<rparr>)"

definition i0100_nnnn_0101_1010 :: "'m sh4_op" where \<comment> \<open>lds Rn,FPUL\<close>
  "i0100_nnnn_0101_1010 e op =
     act (\<lambda>s. let v = rg (GetN op) s in s\<lparr>fpul := v\<rparr>)"

definition i0100_nnnn_1111_1010 :: "'m sh4_op" where \<comment> \<open>ldc Rn,DBR\<close>
  "i0100_nnnn_1111_1010 e op =
     act (\<lambda>s. let v = rg (GetN op) s in s\<lparr>dbr := v\<rparr>)"

definition i0100_nnnn_0001_1110 :: "'m sh4_op" where \<comment> \<open>ldc Rn,GBR\<close>
  "i0100_nnnn_0001_1110 e op =
     act (\<lambda>s. let v = rg (GetN op) s in s\<lparr>gbr := v\<rparr>)"

definition i0100_nnnn_0010_1110 :: "'m sh4_op" where \<comment> \<open>ldc Rn,VBR\<close>
  "i0100_nnnn_0010_1110 e op =
     act (\<lambda>s. let v = rg (GetN op) s in upd_cx (\<lambda>c. c\<lparr>vbr := v\<rparr>) s)"

definition i0100_nnnn_0011_1110 :: "'m sh4_op" where \<comment> \<open>ldc Rn,SSR\<close>
  "i0100_nnnn_0011_1110 e op =
     act (\<lambda>s. let v = rg (GetN op) s in upd_cx (\<lambda>c. c\<lparr>ssr := v\<rparr>) s)"

definition i0100_nnnn_0011_1010 :: "'m sh4_op" where \<comment> \<open>ldc Rn,SGR\<close>
  "i0100_nnnn_0011_1010 e op =
     act (\<lambda>s. let v = rg (GetN op) s in upd_cx (\<lambda>c. c\<lparr>sgr := v\<rparr>) s)"

definition i0100_nnnn_0100_1110 :: "'m sh4_op" where \<comment> \<open>ldc Rn,SPC\<close>
  "i0100_nnnn_0100_1110 e op =
     act (\<lambda>s. let v = rg (GetN op) s in upd_cx (\<lambda>c. c\<lparr>spc := v\<rparr>) s)"

definition i0100_nnnn_1mmm_1110 :: "'m sh4_op" where \<comment> \<open>ldc Rn,RM_BANK\<close>
  "i0100_nnnn_1mmm_1110 e op =
     act (\<lambda>s. let v = rg (GetN op) s in set_bank (GetM op mod 8) v s)"

definition i0101_nnnn_mmmm_iiii :: "'m sh4_op" where \<comment> \<open>mov.l @(disp,Rm),Rn\<close>
  "i0101_nnnn_mmmm_iiii e op =
     load (ReadMem32 e) (\<lambda>s. rg (GetM op) s + push_bit 2 (GetImm4 op)) (\<lambda>v s. set_r (GetN op) v s)"

definition i0110_nnnn_mmmm_0000 :: "'m sh4_op" where \<comment> \<open>mov.b @Rm,Rn\<close>
  "i0110_nnnn_mmmm_0000 e op =
     load (ReadMem8 e) (\<lambda>s. rg (GetM op) s) (\<lambda>v s. set_r (GetN op) (sx8 v) s)"

definition i0110_nnnn_mmmm_0001 :: "'m sh4_op" where \<comment> \<open>mov.w @Rm,Rn\<close>
  "i0110_nnnn_mmmm_0001 e op =
     load (ReadMem16 e) (\<lambda>s. rg (GetM op) s) (\<lambda>v s. set_r (GetN op) (sx16 v) s)"

definition i0110_nnnn_mmmm_0010 :: "'m sh4_op" where \<comment> \<open>mov.l @Rm,Rn\<close>
  "i0110_nnnn_mmmm_0010 e op =
     load (ReadMem32 e) (\<lambda>s. rg (GetM op) s) (\<lambda>v s. set_r (GetN op) v s)"

definition i0110_nnnn_mmmm_0011 :: "'m sh4_op" where \<comment> \<open>mov Rm,Rn\<close>
  "i0110_nnnn_mmmm_0011 e op =
     act (\<lambda>s. set_r (GetN op) (rg (GetM op) s) s)"

definition i0110_nnnn_mmmm_0100 :: "'m sh4_op" where \<comment> \<open>mov.b @Rm+,Rn\<close>
  "i0110_nnnn_mmmm_0100 e op =
     load (ReadMem8 e) (\<lambda>s. rg (GetM op) s) (\<lambda>v s. let s = set_r (GetN op) (sx8 v) s in if GetN op \<noteq> GetM op then set_r (GetM op) (rg (GetM op) s + 1) s else s)"

definition i0110_nnnn_mmmm_0101 :: "'m sh4_op" where \<comment> \<open>mov.w @Rm+,Rn\<close>
  "i0110_nnnn_mmmm_0101 e op =
     load (ReadMem16 e) (\<lambda>s. rg (GetM op) s) (\<lambda>v s. let s = set_r (GetN op) (sx16 v) s in if GetN op \<noteq> GetM op then set_r (GetM op) (rg (GetM op) s + 2) s else s)"

definition i0110_nnnn_mmmm_0110 :: "'m sh4_op" where \<comment> \<open>mov.l @Rm+,Rn\<close>
  "i0110_nnnn_mmmm_0110 e op =
     load (ReadMem32 e) (\<lambda>s. rg (GetM op) s) (\<lambda>v s. let s = set_r (GetN op) v s in if GetN op \<noteq> GetM op then set_r (GetM op) (rg (GetM op) s + 4) s else s)"

definition i1000_0000_mmmm_iiii :: "'m sh4_op" where \<comment> \<open>mov.b R0,@(disp,Rm)\<close>
  "i1000_0000_mmmm_iiii e op =
     store (WriteMem8 e) (\<lambda>s. rg (GetM op) s + GetImm4 op) (\<lambda>s. ucast (rg 0 s)) (\<lambda>a s. s)"

definition i1000_0001_mmmm_iiii :: "'m sh4_op" where \<comment> \<open>mov.w R0,@(disp,Rm)\<close>
  "i1000_0001_mmmm_iiii e op =
     store (WriteMem16 e) (\<lambda>s. rg (GetM op) s + push_bit 1 (GetImm4 op)) (\<lambda>s. ucast (rg 0 s)) (\<lambda>a s. s)"

definition i1000_0100_mmmm_iiii :: "'m sh4_op" where \<comment> \<open>mov.b @(disp,Rm),R0\<close>
  "i1000_0100_mmmm_iiii e op =
     load (ReadMem8 e) (\<lambda>s. rg (GetM op) s + GetImm4 op) (\<lambda>v s. set_r 0 (sx8 v) s)"

definition i1000_0101_mmmm_iiii :: "'m sh4_op" where \<comment> \<open>mov.w @(disp,Rm),R0\<close>
  "i1000_0101_mmmm_iiii e op =
     load (ReadMem16 e) (\<lambda>s. rg (GetM op) s + push_bit 1 (GetImm4 op)) (\<lambda>v s. set_r 0 (sx16 v) s)"

definition i1001_nnnn_iiii_iiii :: "'m sh4_op" where \<comment> \<open>mov.w @(disp,PC),Rn\<close>
  "i1001_nnnn_iiii_iiii e op =
     load (ReadMem16 e) (\<lambda>s. push_bit 1 (GetImm8 op) + pc (cx s) + 2) (\<lambda>v s. set_r (GetN op) (sx16 v) s)"

definition i1100_0000_iiii_iiii :: "'m sh4_op" where \<comment> \<open>mov.b R0,@(disp,GBR)\<close>
  "i1100_0000_iiii_iiii e op =
     store (WriteMem8 e) (\<lambda>s. gbr s + GetImm8 op) (\<lambda>s. ucast (rg 0 s)) (\<lambda>a s. s)"

definition i1100_0001_iiii_iiii :: "'m sh4_op" where \<comment> \<open>mov.w R0,@(disp,GBR)\<close>
  "i1100_0001_iiii_iiii e op =
     store (WriteMem16 e) (\<lambda>s. gbr s + push_bit 1 (GetImm8 op)) (\<lambda>s. ucast (rg 0 s)) (\<lambda>a s. s)"

definition i1100_0010_iiii_iiii :: "'m sh4_op" where \<comment> \<open>mov.l R0,@(disp,GBR)\<close>
  "i1100_0010_iiii_iiii e op =
     store (WriteMem32 e) (\<lambda>s. gbr s + push_bit 2 (GetImm8 op)) (\<lambda>s. rg 0 s) (\<lambda>a s. s)"

definition i1100_0100_iiii_iiii :: "'m sh4_op" where \<comment> \<open>mov.b @(disp,GBR),R0\<close>
  "i1100_0100_iiii_iiii e op =
     load (ReadMem8 e) (\<lambda>s. gbr s + GetImm8 op) (\<lambda>v s. set_r 0 (sx8 v) s)"

definition i1100_0101_iiii_iiii :: "'m sh4_op" where \<comment> \<open>mov.w @(disp,GBR),R0\<close>
  "i1100_0101_iiii_iiii e op =
     load (ReadMem16 e) (\<lambda>s. gbr s + push_bit 1 (GetImm8 op)) (\<lambda>v s. set_r 0 (sx16 v) s)"

definition i1100_0110_iiii_iiii :: "'m sh4_op" where \<comment> \<open>mov.l @(disp,GBR),R0\<close>
  "i1100_0110_iiii_iiii e op =
     load (ReadMem32 e) (\<lambda>s. gbr s + push_bit 2 (GetImm8 op)) (\<lambda>v s. set_r 0 v s)"

definition i1100_0111_iiii_iiii :: "'m sh4_op" where \<comment> \<open>mova @(disp,PC),R0\<close>
  "i1100_0111_iiii_iiii e op =
     act (\<lambda>s. set_r 0 ((pc (cx s) + 2 AND 0xFFFFFFFC) + push_bit 2 (GetImm8 op)) s)"

definition i1101_nnnn_iiii_iiii :: "'m sh4_op" where \<comment> \<open>mov.l @(disp,PC),Rn\<close>
  "i1101_nnnn_iiii_iiii e op =
     load (ReadMem32 e) (\<lambda>s. push_bit 2 (GetImm8 op) + (pc (cx s) + 2 AND 0xFFFFFFFC)) (\<lambda>v s. set_r (GetN op) v s)"

definition i1110_nnnn_iiii_iiii :: "'m sh4_op" where \<comment> \<open>mov #imm,Rn\<close>
  "i1110_nnnn_iiii_iiii e op =
     act (\<lambda>s. set_r (GetN op) (GetSImm8 op) s)"

definition i0000_nnnn_1100_0011 :: "'m sh4_op" where \<comment> \<open>movca.l R0, @Rn\<close>
  "i0000_nnnn_1100_0011 e op =
     store (WriteMem32 e) (\<lambda>s. rg (GetN op) s) (\<lambda>s. rg 0 s) (\<lambda>a s. s)"

definition i0000_0000_0010_1000 :: "'m sh4_op" where \<comment> \<open>clrmac\<close>
  "i0000_0000_0010_1000 e op =
     act (\<lambda>s. s\<lparr>mac := 0\<rparr>)"

subsection \<open>Branches\<close>

definition branch_target_s8 :: "u32 \<Rightarrow> 'm sh4_cpu \<Rightarrow> u32" where
  "branch_target_s8 op s = GetSImm8 op * 2 + 2 + pc (cx s)"

definition branch_target_s12 :: "u32 \<Rightarrow> 'm sh4_cpu \<Rightarrow> u32" where
  "branch_target_s12 op s = GetSImm12 op * 2 + 2 + pc (cx s)"

text \<open>The waiting loop of \<open>sleep\<close>: up to \<open>n + 1\<close> time slices; the flag tells whether an interrupt was taken.\<close>

fun sleep_loop :: "'m sh4_env \<Rightarrow> nat \<Rightarrow> 'm sh4_cpu \<Rightarrow> bool \<times> 'm sh4_cpu" where
  "sleep_loop e 0 s = (let (k, s) = UpdateSystem_INTC e s in (k \<noteq> 0, s))"
| "sleep_loop e (Suc n) s = (let (k, s) = UpdateSystem_INTC e s in if k \<noteq> 0 then (True, s) else sleep_loop e n s)"

definition i0000_nnnn_0010_0011 :: "'m sh4_op" where \<comment> \<open>braf Rn\<close>
  "i0000_nnnn_0010_0011 e op =
     (\<lambda>s. let newpc = rg (GetN op) s + pc (cx s) + 2 in bnd (ExecuteDelayslot e s) (\<lambda>_. act (\<lambda>s. set_pc newpc s)))"

definition i0000_nnnn_0000_0011 :: "'m sh4_op" where \<comment> \<open>bsrf Rn\<close>
  "i0000_nnnn_0000_0011 e op =
     (\<lambda>s. let newpc = rg (GetN op) s + pc (cx s) + 2; newpr = pc (cx s) + 2 in bnd (ExecuteDelayslot e s) (\<lambda>_. act (\<lambda>s. set_pc newpc (s\<lparr>pr := newpr\<rparr>))))"

definition i0000_0000_0010_1011 :: "'m sh4_op" where \<comment> \<open>rte\<close>
  "i0000_0000_0010_1011 e op =
     (\<lambda>s. let newpc = spc (cx s) in bnd (ExecuteDelayslot_RTE e s) (\<lambda>_. act (\<lambda>s. UpdateSR_INTC (set_pc newpc s))))"

definition i0000_0000_0000_1011 :: "'m sh4_op" where \<comment> \<open>rts\<close>
  "i0000_0000_0000_1011 e op =
     (\<lambda>s. let newpc = pr s in bnd (ExecuteDelayslot e s) (\<lambda>_. act (\<lambda>s. set_pc newpc s)))"

definition i1000_1011_iiii_iiii :: "'m sh4_op" where \<comment> \<open>bf bdisp8\<close>
  "i1000_1011_iiii_iiii e op =
     (\<lambda>s. if sr_T (cx s) = 0 then act (set_pc (branch_target_s8 op s)) s else Done () s)"

definition i1000_1111_iiii_iiii :: "'m sh4_op" where \<comment> \<open>bf.s bdisp8\<close>
  "i1000_1111_iiii_iiii e op =
     (\<lambda>s. if sr_T (cx s) = 0 then (let newpc = branch_target_s8 op s in bnd (ExecuteDelayslot e s) (\<lambda>_. act (\<lambda>s. set_pc newpc s))) else Done () s)"

definition i1000_1001_iiii_iiii :: "'m sh4_op" where \<comment> \<open>bt bdisp8\<close>
  "i1000_1001_iiii_iiii e op =
     (\<lambda>s. if sr_T (cx s) \<noteq> 0 then act (set_pc (branch_target_s8 op s)) s else Done () s)"

definition i1000_1101_iiii_iiii :: "'m sh4_op" where \<comment> \<open>bt.s bdisp8\<close>
  "i1000_1101_iiii_iiii e op =
     (\<lambda>s. if sr_T (cx s) \<noteq> 0 then (let newpc = branch_target_s8 op s in bnd (ExecuteDelayslot e s) (\<lambda>_. act (\<lambda>s. set_pc newpc s))) else Done () s)"

definition i1010_iiii_iiii_iiii :: "'m sh4_op" where \<comment> \<open>bra bdisp12\<close>
  "i1010_iiii_iiii_iiii e op =
     (\<lambda>s. let newpc = branch_target_s12 op s in bnd (ExecuteDelayslot e s) (\<lambda>_. act (\<lambda>s. set_pc newpc s)))"

definition i1011_iiii_iiii_iiii :: "'m sh4_op" where \<comment> \<open>bsr bdisp12\<close>
  "i1011_iiii_iiii_iiii e op =
     (\<lambda>s. let newpc = branch_target_s12 op s; newpr = pc (cx s) + 2 in bnd (ExecuteDelayslot e s) (\<lambda>_. act (\<lambda>s. set_pc newpc (s\<lparr>pr := newpr\<rparr>))))"

definition i1100_0011_iiii_iiii :: "'m sh4_op" where \<comment> \<open>trapa #imm\<close>
  "i1100_0011_iiii_iiii e op =
     (\<lambda>s. let s = s\<lparr>CCN_TRA := push_bit 2 (GetImm8 op)\<rparr> in Do_Exception_cpu (pc (cx s)) 0x160 s)"

definition i0100_nnnn_0010_1011 :: "'m sh4_op" where \<comment> \<open>jmp @Rn\<close>
  "i0100_nnnn_0010_1011 e op =
     (\<lambda>s. let newpc = rg (GetN op) s in bnd (ExecuteDelayslot e s) (\<lambda>_. act (\<lambda>s. set_pc newpc s)))"

definition i0100_nnnn_0000_1011 :: "'m sh4_op" where \<comment> \<open>jsr @Rn\<close>
  "i0100_nnnn_0000_1011 e op =
     (\<lambda>s. let newpc = rg (GetN op) s; newpr = pc (cx s) + 2 in bnd (ExecuteDelayslot e s) (\<lambda>_. act (\<lambda>s. set_pc newpc (s\<lparr>pr := newpr\<rparr>))))"

definition i0000_0000_0001_1011 :: "'m sh4_op" where \<comment> \<open>sleep\<close>
  "i0000_0000_0001_1011 e op =
     act (\<lambda>s. let (woken, s) = sleep_loop e 1001 s in if woken then s else set_pc (pc (cx s) - 2) s)"

definition i0011_nnnn_mmmm_1000 :: "'m sh4_op" where \<comment> \<open>sub Rm,Rn\<close>
  "i0011_nnnn_mmmm_1000 e op =
     act (\<lambda>s. set_r (GetN op) (rg (GetN op) s - rg (GetM op) s) s)"

definition i0011_nnnn_mmmm_1100 :: "'m sh4_op" where \<comment> \<open>add Rm,Rn\<close>
  "i0011_nnnn_mmmm_1100 e op =
     act (\<lambda>s. set_r (GetN op) (rg (GetN op) s + rg (GetM op) s) s)"

definition i0111_nnnn_iiii_iiii :: "'m sh4_op" where \<comment> \<open>add #imm,Rn\<close>
  "i0111_nnnn_iiii_iiii e op =
     act (\<lambda>s. set_r (GetN op) (rg (GetN op) s + GetSImm8 op) s)"

definition i0010_nnnn_mmmm_1001 :: "'m sh4_op" where \<comment> \<open>and Rm,Rn\<close>
  "i0010_nnnn_mmmm_1001 e op =
     act (\<lambda>s. set_r (GetN op) (rg (GetN op) s AND rg (GetM op) s) s)"

definition i0010_nnnn_mmmm_1010 :: "'m sh4_op" where \<comment> \<open>xor Rm,Rn\<close>
  "i0010_nnnn_mmmm_1010 e op =
     act (\<lambda>s. set_r (GetN op) (rg (GetN op) s XOR rg (GetM op) s) s)"

definition i0010_nnnn_mmmm_1011 :: "'m sh4_op" where \<comment> \<open>or Rm,Rn\<close>
  "i0010_nnnn_mmmm_1011 e op =
     act (\<lambda>s. set_r (GetN op) (rg (GetN op) s OR rg (GetM op) s) s)"

definition i0100_nnnn_0000_1000 :: "'m sh4_op" where \<comment> \<open>shll2 Rn\<close>
  "i0100_nnnn_0000_1000 e op =
     act (\<lambda>s. set_r (GetN op) (push_bit 2 (rg (GetN op) s)) s)"

definition i0100_nnnn_0000_1001 :: "'m sh4_op" where \<comment> \<open>shlr2 Rn\<close>
  "i0100_nnnn_0000_1001 e op =
     act (\<lambda>s. set_r (GetN op) (drop_bit 2 (rg (GetN op) s)) s)"

definition i0100_nnnn_0001_1000 :: "'m sh4_op" where \<comment> \<open>shll8 Rn\<close>
  "i0100_nnnn_0001_1000 e op =
     act (\<lambda>s. set_r (GetN op) (push_bit 8 (rg (GetN op) s)) s)"

definition i0100_nnnn_0001_1001 :: "'m sh4_op" where \<comment> \<open>shlr8 Rn\<close>
  "i0100_nnnn_0001_1001 e op =
     act (\<lambda>s. set_r (GetN op) (drop_bit 8 (rg (GetN op) s)) s)"

definition i0100_nnnn_0010_1000 :: "'m sh4_op" where \<comment> \<open>shll16 Rn\<close>
  "i0100_nnnn_0010_1000 e op =
     act (\<lambda>s. set_r (GetN op) (push_bit 16 (rg (GetN op) s)) s)"

definition i0100_nnnn_0010_1001 :: "'m sh4_op" where \<comment> \<open>shlr16 Rn\<close>
  "i0100_nnnn_0010_1001 e op =
     act (\<lambda>s. set_r (GetN op) (drop_bit 16 (rg (GetN op) s)) s)"

definition i1100_1001_iiii_iiii :: "'m sh4_op" where \<comment> \<open>and #imm,R0\<close>
  "i1100_1001_iiii_iiii e op =
     act (\<lambda>s. set_r 0 (rg 0 s AND GetImm8 op) s)"

definition i1100_1010_iiii_iiii :: "'m sh4_op" where \<comment> \<open>xor #imm,R0\<close>
  "i1100_1010_iiii_iiii e op =
     act (\<lambda>s. set_r 0 (rg 0 s XOR GetImm8 op) s)"

definition i1100_1011_iiii_iiii :: "'m sh4_op" where \<comment> \<open>or #imm,R0\<close>
  "i1100_1011_iiii_iiii e op =
     act (\<lambda>s. set_r 0 (rg 0 s OR GetImm8 op) s)"

definition i0000_0000_0000_1001 :: "'m sh4_op" where \<comment> \<open>nop\<close>
  "i0000_0000_0000_1001 e op =
     act (\<lambda>s. s)"

definition i0000_0000_0011_1000 :: "'m sh4_op" where \<comment> \<open>ldtlb\<close>
  "i0000_0000_0011_1000 e op =
     ldtlb_op e"

definition i0000_nnnn_1001_0011 :: "'m sh4_op" where \<comment> \<open>ocbi @Rn\<close>
  "i0000_nnnn_1001_0011 e op =
     act (\<lambda>s. s)"

definition i0000_nnnn_1010_0011 :: "'m sh4_op" where \<comment> \<open>ocbp @Rn\<close>
  "i0000_nnnn_1010_0011 e op =
     act (\<lambda>s. s)"

definition i0000_nnnn_1011_0011 :: "'m sh4_op" where \<comment> \<open>ocbwb @Rn\<close>
  "i0000_nnnn_1011_0011 e op =
     act (\<lambda>s. s)"

definition i0000_nnnn_1000_0011 :: "'m sh4_op" where \<comment> \<open>pref @Rn\<close>
  "i0000_nnnn_1000_0011 e op =
     (\<lambda>s. let Dest = rg (GetN op) s in if drop_bit 26 Dest = 0x38 then doSqWrite e Dest s else Done () s)"

definition i0000_0000_0101_1000 :: "'m sh4_op" where \<comment> \<open>sets\<close>
  "i0000_0000_0101_1000 e op =
     act (\<lambda>s. set_S True s)"

definition i0000_0000_0100_1000 :: "'m sh4_op" where \<comment> \<open>clrs\<close>
  "i0000_0000_0100_1000 e op =
     act (\<lambda>s. set_S False s)"

definition i0000_0000_0001_1000 :: "'m sh4_op" where \<comment> \<open>sett\<close>
  "i0000_0000_0001_1000 e op =
     act (\<lambda>s. set_T True s)"

definition i0000_0000_0000_1000 :: "'m sh4_op" where \<comment> \<open>clrt\<close>
  "i0000_0000_0000_1000 e op =
     act (\<lambda>s. set_T False s)"

definition i0000_nnnn_0010_1001 :: "'m sh4_op" where \<comment> \<open>movt Rn\<close>
  "i0000_nnnn_0010_1001 e op =
     act (\<lambda>s. set_r (GetN op) (sr_T (cx s)) s)"

definition i0100_nnnn_0001_0001 :: "'m sh4_op" where \<comment> \<open>cmp/pz Rn\<close>
  "i0100_nnnn_0001_0001 e op =
     act (\<lambda>s. set_T (0 \<le> sint (rg (GetN op) s)) s)"

definition i0100_nnnn_0001_0101 :: "'m sh4_op" where \<comment> \<open>cmp/pl Rn\<close>
  "i0100_nnnn_0001_0101 e op =
     act (\<lambda>s. set_T (0 < sint (rg (GetN op) s)) s)"

definition i1000_1000_iiii_iiii :: "'m sh4_op" where \<comment> \<open>cmp/eq #imm,R0\<close>
  "i1000_1000_iiii_iiii e op =
     act (\<lambda>s. set_T (rg 0 s = GetSImm8 op) s)"

definition i0011_nnnn_mmmm_0000 :: "'m sh4_op" where \<comment> \<open>cmp/eq Rm,Rn\<close>
  "i0011_nnnn_mmmm_0000 e op =
     act (\<lambda>s. set_T (rg (GetM op) s = rg (GetN op) s) s)"

definition i0011_nnnn_mmmm_0010 :: "'m sh4_op" where \<comment> \<open>cmp/hs Rm,Rn\<close>
  "i0011_nnnn_mmmm_0010 e op =
     act (\<lambda>s. set_T (rg (GetM op) s \<le> rg (GetN op) s) s)"

definition i0011_nnnn_mmmm_0011 :: "'m sh4_op" where \<comment> \<open>cmp/ge Rm,Rn\<close>
  "i0011_nnnn_mmmm_0011 e op =
     act (\<lambda>s. set_T (sint (rg (GetM op) s) \<le> sint (rg (GetN op) s)) s)"

definition i0011_nnnn_mmmm_0110 :: "'m sh4_op" where \<comment> \<open>cmp/hi Rm,Rn\<close>
  "i0011_nnnn_mmmm_0110 e op =
     act (\<lambda>s. set_T (rg (GetM op) s < rg (GetN op) s) s)"

definition i0011_nnnn_mmmm_0111 :: "'m sh4_op" where \<comment> \<open>cmp/gt Rm,Rn\<close>
  "i0011_nnnn_mmmm_0111 e op =
     act (\<lambda>s. set_T (sint (rg (GetM op) s) < sint (rg (GetN op) s)) s)"

definition i0010_nnnn_mmmm_1100 :: "'m sh4_op" where \<comment> \<open>cmp/str Rm,Rn\<close>
  "i0010_nnnn_mmmm_1100 e op =
     act (\<lambda>s. let temp = rg (GetN op) s XOR rg (GetM op) s;
          HH = drop_bit 24 (temp AND 0xFF000000); HL = drop_bit 16 (temp AND 0x00FF0000);
          LH = drop_bit 8 (temp AND 0x0000FF00); LL = temp AND 0x000000FF
      in set_T (\<not> (HH \<noteq> 0 \<and> HL \<noteq> 0 \<and> LH \<noteq> 0 \<and> LL \<noteq> 0)) s)"

definition i1100_1000_iiii_iiii :: "'m sh4_op" where \<comment> \<open>tst #imm,R0\<close>
  "i1100_1000_iiii_iiii e op =
     act (\<lambda>s. set_T (rg 0 s AND GetImm8 op = 0) s)"

definition i0010_nnnn_mmmm_1000 :: "'m sh4_op" where \<comment> \<open>tst Rm,Rn\<close>
  "i0010_nnnn_mmmm_1000 e op =
     act (\<lambda>s. set_T (rg (GetN op) s AND rg (GetM op) s = 0) s)"

subsection \<open>Multiplication, division, arithmetic and shifts\<close>

definition i0010_nnnn_mmmm_1110 :: "'m sh4_op" where \<comment> \<open>mulu.w Rm,Rn\<close>
  "i0010_nnnn_mmmm_1110 e op =
     act (\<lambda>s. set_mac_l (ucast (ucast (rg (GetN op) s) :: u16) * ucast (ucast (rg (GetM op) s) :: u16)) s)"

definition i0010_nnnn_mmmm_1111 :: "'m sh4_op" where \<comment> \<open>muls.w Rm,Rn\<close>
  "i0010_nnnn_mmmm_1111 e op =
     act (\<lambda>s. set_mac_l (sx16 (ucast (rg (GetN op) s)) * sx16 (ucast (rg (GetM op) s))) s)"

definition i0011_nnnn_mmmm_0101 :: "'m sh4_op" where \<comment> \<open>dmulu.l Rm,Rn\<close>
  "i0011_nnnn_mmmm_0101 e op =
     act (\<lambda>s. s\<lparr>mac := ucast (rg (GetN op) s) * ucast (rg (GetM op) s)\<rparr>)"

definition i0011_nnnn_mmmm_1101 :: "'m sh4_op" where \<comment> \<open>dmuls.l Rm,Rn\<close>
  "i0011_nnnn_mmmm_1101 e op =
     act (\<lambda>s. s\<lparr>mac := scast (rg (GetN op) s) * scast (rg (GetM op) s)\<rparr>)"

definition i0100_nnnn_mmmm_1111 :: "'m sh4_op" where \<comment> \<open>mac.w @Rm+,@Rn+\<close>
  "i0100_nnnn_mmmm_1111 e op =
     (\<lambda>s. if sr_S (sr_status (cx s)) then Fatal else
     bnd (ReadMem16 e (rg (GetN op) s) s) (\<lambda>vn s.
     bnd (ReadMem16 e (rg (GetM op) s + (if GetN op = GetM op then 2 else 0)) s) (\<lambda>vm.
     act (\<lambda>s. let s = set_r (GetN op) (rg (GetN op) s + 2) s; s = set_r (GetM op) (rg (GetM op) s + 2) s;
                   mul = sx16 vm * sx16 vn
               in s\<lparr>mac := mac s + scast mul\<rparr>))))"

definition i0000_nnnn_mmmm_1111 :: "'m sh4_op" where \<comment> \<open>mac.l @Rm+,@Rn+\<close>
  "i0000_nnnn_mmmm_1111 e op =
     (\<lambda>s. if sr_S (sr_status (cx s)) then Fatal else
     bnd (ReadMem32 e (rg (GetM op) s) s) (\<lambda>vm s.
     bnd (ReadMem32 e (rg (GetN op) s + (if GetN op = GetM op then 4 else 0)) s) (\<lambda>vn.
     act (\<lambda>s. let s = set_r (GetM op) (rg (GetM op) s + 4) s; s = set_r (GetN op) (rg (GetN op) s + 4) s
               in s\<lparr>mac := mac s + scast vm * scast vn\<rparr>))))"

definition i0000_nnnn_mmmm_0111 :: "'m sh4_op" where \<comment> \<open>mul.l Rm,Rn\<close>
  "i0000_nnnn_mmmm_0111 e op =
     act (\<lambda>s. set_mac_l (rg (GetN op) s * rg (GetM op) s) s)"

definition i0000_0000_0001_1001 :: "'m sh4_op" where \<comment> \<open>div0u\<close>
  "i0000_0000_0001_1001 e op =
     act (\<lambda>s. set_T False (set_M False (set_Q False s)))"

definition i0010_nnnn_mmmm_0111 :: "'m sh4_op" where \<comment> \<open>div0s Rm,Rn\<close>
  "i0010_nnnn_mmmm_0111 e op =
     act (\<lambda>s. let s = set_Q (bit (rg (GetN op) s) 31) s; s = set_M (bit (rg (GetM op) s) 31) s
      in set_T (sr_M (sr_status (cx s)) \<noteq> sr_Q (sr_status (cx s))) s)"

definition i0011_nnnn_mmmm_0100 :: "'m sh4_op" where \<comment> \<open>div1 Rm,Rn\<close>
  "i0011_nnnn_mmmm_0100 e op =
     act (\<lambda>s. let n = GetN op; old_q = sr_Q (sr_status (cx s));
          s = set_Q (rg n s AND 0x80000000 \<noteq> 0) s;
          old_rm = rg (GetM op) s;
          s = set_r n (push_bit 1 (rg n s) OR sr_T (cx s)) s;
          old_rn = rg n s;
          s = (if \<not> old_q then
                 (if \<not> sr_M (sr_status (cx s)) then
                    (let s = set_r n (rg n s - old_rm) s; tmp1 = (old_rn < rg n s) in set_Q (sr_Q (sr_status (cx s)) \<noteq> tmp1) s)
                  else
                    (let s = set_r n (rg n s + old_rm) s; tmp1 = (rg n s < old_rn) in set_Q ((\<not> sr_Q (sr_status (cx s))) \<noteq> tmp1) s))
               else
                 (if \<not> sr_M (sr_status (cx s)) then
                    (let s = set_r n (rg n s + old_rm) s; tmp1 = (rg n s < old_rn) in set_Q (sr_Q (sr_status (cx s)) \<noteq> tmp1) s)
                  else
                    (let s = set_r n (rg n s - old_rm) s; tmp1 = (old_rn < rg n s) in set_Q ((\<not> sr_Q (sr_status (cx s))) \<noteq> tmp1) s)))
      in set_T (sr_Q (sr_status (cx s)) = sr_M (sr_status (cx s))) s)"

definition i0011_nnnn_mmmm_1110 :: "'m sh4_op" where \<comment> \<open>addc Rm,Rn\<close>
  "i0011_nnnn_mmmm_1110 e op =
     act (\<lambda>s. let tmp1 = rg (GetN op) s + rg (GetM op) s; tmp0 = rg (GetN op) s;
          s = set_r (GetN op) (tmp1 + sr_T (cx s)) s; s = set_T (tmp1 < tmp0) s
      in if rg (GetN op) s < tmp1 then set_T True s else s)"

definition i0011_nnnn_mmmm_1111 :: "'m sh4_op" where \<comment> \<open>addv Rm,Rn\<close>
  "i0011_nnnn_mmmm_1111 e op =
     act (\<lambda>s. let br = sint (rg (GetN op) s) + sint (rg (GetM op) s);
          s = (if br \<ge> 0x80000000 then set_T True s else if br < - 0x80000000 then set_T True s else set_T False s)
      in set_r (GetN op) (rg (GetN op) s + rg (GetM op) s) s)"

definition i0011_nnnn_mmmm_1010 :: "'m sh4_op" where \<comment> \<open>subc Rm,Rn\<close>
  "i0011_nnnn_mmmm_1010 e op =
     act (\<lambda>s. let tmp1 = rg (GetN op) s - rg (GetM op) s; tmp0 = rg (GetN op) s;
          s = set_r (GetN op) (tmp1 - sr_T (cx s)) s; s = set_T (tmp0 < tmp1) s
      in if tmp1 < rg (GetN op) s then set_T True s else s)"

definition i0011_nnnn_mmmm_1011 :: "'m sh4_op" where \<comment> \<open>subv Rm,Rn\<close>
  "i0011_nnnn_mmmm_1011 e op =
     act (\<lambda>s. let br = sint (rg (GetN op) s) - sint (rg (GetM op) s);
          s = (if br \<ge> 0x80000000 then set_T True s else if br < - 0x80000000 then set_T True s else set_T False s)
      in set_r (GetN op) (rg (GetN op) s - rg (GetM op) s) s)"

definition i0100_nnnn_0001_0000 :: "'m sh4_op" where \<comment> \<open>dt Rn\<close>
  "i0100_nnnn_0001_0000 e op =
     act (\<lambda>s. let s = set_r (GetN op) (rg (GetN op) s - 1) s in set_T (rg (GetN op) s = 0) s)"

definition i0110_nnnn_mmmm_1010 :: "'m sh4_op" where \<comment> \<open>negc Rm,Rn\<close>
  "i0110_nnnn_mmmm_1010 e op =
     act (\<lambda>s. let tmp = 0 - rg (GetM op) s; s = set_r (GetN op) (tmp - sr_T (cx s)) s; s = set_T (0 < tmp) s
      in if tmp < rg (GetN op) s then set_T True s else s)"

definition i0110_nnnn_mmmm_1011 :: "'m sh4_op" where \<comment> \<open>neg Rm,Rn\<close>
  "i0110_nnnn_mmmm_1011 e op =
     act (\<lambda>s. set_r (GetN op) (- rg (GetM op) s) s)"

definition i0110_nnnn_mmmm_0111 :: "'m sh4_op" where \<comment> \<open>not Rm,Rn\<close>
  "i0110_nnnn_mmmm_0111 e op =
     act (\<lambda>s. set_r (GetN op) (NOT (rg (GetM op) s)) s)"

definition i0100_nnnn_0000_0000 :: "'m sh4_op" where \<comment> \<open>shll Rn\<close>
  "i0100_nnnn_0000_0000 e op =
     act (\<lambda>s. let s = set_Tw (drop_bit 31 (rg (GetN op) s)) s in set_r (GetN op) (push_bit 1 (rg (GetN op) s)) s)"

definition i0100_nnnn_0010_0000 :: "'m sh4_op" where \<comment> \<open>shal Rn\<close>
  "i0100_nnnn_0010_0000 e op =
     act (\<lambda>s. let s = set_Tw (drop_bit 31 (rg (GetN op) s)) s in set_r (GetN op) (push_bit 1 (rg (GetN op) s)) s)"

definition i0100_nnnn_0000_0001 :: "'m sh4_op" where \<comment> \<open>shlr Rn\<close>
  "i0100_nnnn_0000_0001 e op =
     act (\<lambda>s. let s = set_Tw (rg (GetN op) s AND 1) s in set_r (GetN op) (drop_bit 1 (rg (GetN op) s)) s)"

definition i0100_nnnn_0010_0001 :: "'m sh4_op" where \<comment> \<open>shar Rn\<close>
  "i0100_nnnn_0010_0001 e op =
     act (\<lambda>s. let s = set_Tw (rg (GetN op) s AND 1) s in set_r (GetN op) (signed_drop_bit 1 (rg (GetN op) s)) s)"

definition i0100_nnnn_mmmm_1100 :: "'m sh4_op" where \<comment> \<open>shad Rm,Rn\<close>
  "i0100_nnnn_mmmm_1100 e op =
     act (\<lambda>s. let sgn = rg (GetM op) s AND 0x80000000 in
      if sgn = 0 then set_r (GetN op) (push_bit (unat (rg (GetM op) s AND 0x1F)) (rg (GetN op) s)) s
      else if rg (GetM op) s AND 0x1F = 0 then set_r (GetN op) (signed_drop_bit 31 (rg (GetN op) s)) s
      else set_r (GetN op) (signed_drop_bit (unat ((NOT (rg (GetM op) s) AND 0x1F) + 1)) (rg (GetN op) s)) s)"

definition i0100_nnnn_mmmm_1101 :: "'m sh4_op" where \<comment> \<open>shld Rm,Rn\<close>
  "i0100_nnnn_mmmm_1101 e op =
     act (\<lambda>s. let sgn = rg (GetM op) s AND 0x80000000 in
      if sgn = 0 then set_r (GetN op) (push_bit (unat (rg (GetM op) s AND 0x1F)) (rg (GetN op) s)) s
      else if rg (GetM op) s AND 0x1F = 0 then set_r (GetN op) (0) s
      else set_r (GetN op) (drop_bit (unat ((NOT (rg (GetM op) s) AND 0x1F) + 1)) (rg (GetN op) s)) s)"

definition i0100_nnnn_0010_0100 :: "'m sh4_op" where \<comment> \<open>rotcl Rn\<close>
  "i0100_nnnn_0010_0100 e op =
     act (\<lambda>s. let t = sr_T (cx s); s = set_Tw (drop_bit 31 (rg (GetN op) s)) s; s = set_r (GetN op) (push_bit 1 (rg (GetN op) s)) s
      in set_r (GetN op) (rg (GetN op) s OR t) s)"

definition i0100_nnnn_0000_0100 :: "'m sh4_op" where \<comment> \<open>rotl Rn\<close>
  "i0100_nnnn_0000_0100 e op =
     act (\<lambda>s. let s = set_Tw (drop_bit 31 (rg (GetN op) s)) s; s = set_r (GetN op) (push_bit 1 (rg (GetN op) s)) s
      in set_r (GetN op) (rg (GetN op) s OR sr_T (cx s)) s)"

definition i0100_nnnn_0010_0101 :: "'m sh4_op" where \<comment> \<open>rotcr Rn\<close>
  "i0100_nnnn_0010_0101 e op =
     act (\<lambda>s. let t = rg (GetN op) s AND 1; s = set_r (GetN op) (drop_bit 1 (rg (GetN op) s)) s;
          s = set_r (GetN op) (rg (GetN op) s OR push_bit 31 (sr_T (cx s))) s
      in set_Tw t s)"

definition i0100_nnnn_0000_0101 :: "'m sh4_op" where \<comment> \<open>rotr Rn\<close>
  "i0100_nnnn_0000_0101 e op =
     act (\<lambda>s. let s = set_Tw (rg (GetN op) s AND 1) s; s = set_r (GetN op) (drop_bit 1 (rg (GetN op) s)) s
      in set_r (GetN op) (rg (GetN op) s OR push_bit 31 (sr_T (cx s))) s)"

definition i0110_nnnn_mmmm_1000 :: "'m sh4_op" where \<comment> \<open>swap.b Rm,Rn\<close>
  "i0110_nnnn_mmmm_1000 e op =
     act (\<lambda>s. set_r (GetN op) ((rg (GetM op) s AND 0xFFFF0000) OR push_bit 8 (rg (GetM op) s AND 0xFF) OR (drop_bit 8 (rg (GetM op) s) AND 0xFF)) s)"

definition i0110_nnnn_mmmm_1001 :: "'m sh4_op" where \<comment> \<open>swap.w Rm,Rn\<close>
  "i0110_nnnn_mmmm_1001 e op =
     act (\<lambda>s. set_r (GetN op) (push_bit 16 (rg (GetM op) s) OR ucast (ucast (drop_bit 16 (rg (GetM op) s)) :: u16)) s)"

definition i0110_nnnn_mmmm_1100 :: "'m sh4_op" where \<comment> \<open>extu.b Rm,Rn\<close>
  "i0110_nnnn_mmmm_1100 e op =
     act (\<lambda>s. set_r (GetN op) (ucast (ucast (rg (GetM op) s) :: u8)) s)"

definition i0110_nnnn_mmmm_1101 :: "'m sh4_op" where \<comment> \<open>extu.w Rm,Rn\<close>
  "i0110_nnnn_mmmm_1101 e op =
     act (\<lambda>s. set_r (GetN op) (ucast (ucast (rg (GetM op) s) :: u16)) s)"

definition i0110_nnnn_mmmm_1110 :: "'m sh4_op" where \<comment> \<open>exts.b Rm,Rn\<close>
  "i0110_nnnn_mmmm_1110 e op =
     act (\<lambda>s. set_r (GetN op) (sx8 (ucast (rg (GetM op) s))) s)"

definition i0110_nnnn_mmmm_1111 :: "'m sh4_op" where \<comment> \<open>exts.w Rm,Rn\<close>
  "i0110_nnnn_mmmm_1111 e op =
     act (\<lambda>s. set_r (GetN op) (sx16 (ucast (rg (GetM op) s))) s)"

definition i0010_nnnn_mmmm_1101 :: "'m sh4_op" where \<comment> \<open>xtrct Rm,Rn\<close>
  "i0010_nnnn_mmmm_1101 e op =
     act (\<lambda>s. set_r (GetN op) ((drop_bit 16 (rg (GetN op) s) AND 0xFFFF) OR (push_bit 16 (rg (GetM op) s) AND 0xFFFF0000)) s)"

subsection \<open>Read-modify-write and status registers\<close>

definition i1100_1100_iiii_iiii :: "'m sh4_op" where \<comment> \<open>tst.b #imm,@(R0,GBR)\<close>
  "i1100_1100_iiii_iiii e op =
     load (ReadMem8 e) (\<lambda>s. gbr s + rg 0 s) (\<lambda>v s. set_T (ucast v AND GetImm8 op = 0) s)"

definition i1100_1101_iiii_iiii :: "'m sh4_op" where \<comment> \<open>and.b #imm,@(R0,GBR)\<close>
  "i1100_1101_iiii_iiii e op =
     (\<lambda>s. bnd (ReadMem8 e (gbr s + rg 0 s) s) (\<lambda>temp s. WriteMem8 e (gbr s + rg 0 s) (temp AND ucast (GetImm8 op)) s))"

definition i1100_1110_iiii_iiii :: "'m sh4_op" where \<comment> \<open>xor.b #imm,@(R0,GBR)\<close>
  "i1100_1110_iiii_iiii e op =
     (\<lambda>s. bnd (ReadMem8 e (gbr s + rg 0 s) s) (\<lambda>temp s. WriteMem8 e (gbr s + rg 0 s) (temp XOR ucast (GetImm8 op)) s))"

definition i1100_1111_iiii_iiii :: "'m sh4_op" where \<comment> \<open>or.b #imm,@(R0,GBR)\<close>
  "i1100_1111_iiii_iiii e op =
     (\<lambda>s. bnd (ReadMem8 e (gbr s + rg 0 s) s) (\<lambda>temp s. WriteMem8 e (gbr s + rg 0 s) (temp OR ucast (GetImm8 op)) s))"

definition i0100_nnnn_0001_1011 :: "'m sh4_op" where \<comment> \<open>tas.b @Rn\<close>
  "i0100_nnnn_0001_1011 e op =
     (\<lambda>s. bnd (ReadMem8 e (rg (GetN op) s) s) (\<lambda>val s.
     bnd (WriteMem8 e (rg (GetN op) s) (val OR 0x80) s) (\<lambda>_. act (set_T (val = 0)))))"

definition i0100_nnnn_0110_0110 :: "'m sh4_op" where \<comment> \<open>lds.l @Rn+,FPSCR\<close>
  "i0100_nnnn_0110_0110 e op =
     load (ReadMem32 e) (\<lambda>s. rg (GetN op) s) (\<lambda>v s. let s = UpdateFPSCR (s\<lparr>fpscr := v\<rparr>) in set_r (GetN op) (rg (GetN op) s + 4) s)"

definition i0100_nnnn_0000_0111 :: "'m sh4_op" where \<comment> \<open>ldc.l @Rn+,SR\<close>
  "i0100_nnnn_0000_0111 e op =
     load (ReadMem32 e) (\<lambda>s. rg (GetN op) s) (\<lambda>v s. UpdateSR_INTC (let s = sr_setFull v s in set_r (GetN op) (rg (GetN op) s + 4) s))"

definition i0100_nnnn_0110_1010 :: "'m sh4_op" where \<comment> \<open>lds Rn,FPSCR\<close>
  "i0100_nnnn_0110_1010 e op =
     act (\<lambda>s. UpdateFPSCR (s\<lparr>fpscr := rg (GetN op) s\<rparr>))"

definition i0100_nnnn_0000_1110 :: "'m sh4_op" where \<comment> \<open>ldc Rn,SR\<close>
  "i0100_nnnn_0000_1110 e op =
     act (\<lambda>s. UpdateSR_INTC (sr_setFull (rg (GetN op) s) s))"

definition iNotImplemented :: "'m sh4_op" where
  "iNotImplemented e op =
     (\<lambda>s. throw (pc (cx s) - 2) 0x180 s)"

end
