(* ===== verification/Sh4_Fpu.thy ===== *)
theory Sh4_Fpu
  imports Sh4_Cpu
begin

unbundle bit_operations_syntax

section \<open>The floating-point instructions of the SH-4 interpreter\<close>

text \<open>
  Models \<^verbatim>\<open>core/hw/sh4/interpr/sh4_fpu.cpp\<close> on the bit patterns of the registers: which registers an instruction reads and
  writes in the modes \<open>PR\<close> and \<open>SZ\<close> of \<open>FPSCR\<close>, with the host's arithmetic as parameters.  \<open>fixNaN\<close> is the identity because
  \<^verbatim>\<open>STRICT_MODE\<close> is off; the forms \<open>iNimp\<close> reports do nothing.
\<close>

definition fp_PR :: "'m sh4_cpu \<Rightarrow> bool" where "fp_PR s = bit (fpscr s) 19"
definition fp_SZ :: "'m sh4_cpu \<Rightarrow> bool" where "fp_SZ s = bit (fpscr s) 20"

abbreviation DRn :: "u32 \<Rightarrow> nat" where "DRn op \<equiv> GetN op div 2"
abbreviation DRm :: "u32 \<Rightarrow> nat" where "DRm op \<equiv> GetM op div 2"

definition set_fr :: "nat \<Rightarrow> u32 \<Rightarrow> 'm sh4_cpu \<Rightarrow> 'm sh4_cpu" where
  "set_fr n v s = s\<lparr>fr := (fr s)(n := v)\<rparr>"

text \<open>\<open>dr_hex\<close> and \<open>xd_hex\<close>: a pair of registers as one little-endian word; the flag selects the bank \<open>xf\<close>.\<close>

definition get_pair :: "bool \<Rightarrow> nat \<Rightarrow> 'm sh4_cpu \<Rightarrow> u64" where
  "get_pair x i s = (let f = (if x then xf s else fr s) in ucast (f (2 * i)) OR push_bit 32 (ucast (f (2 * i + 1))))"

definition set_pair :: "bool \<Rightarrow> nat \<Rightarrow> u64 \<Rightarrow> 'm sh4_cpu \<Rightarrow> 'm sh4_cpu" where
  "set_pair x i v s =
     (let up = (\<lambda>f. f(2 * i := ucast v, 2 * i + 1 := ucast (drop_bit 32 v)))
      in if x then s\<lparr>xf := up (xf s)\<rparr> else s\<lparr>fr := up (fr s)\<rparr>)"

text \<open>\<open>getDR\<close> and \<open>setDR\<close>: the first register of a pair holds the high half of the double.\<close>

definition getDR :: "nat \<Rightarrow> 'm sh4_cpu \<Rightarrow> u64" where
  "getDR n s = push_bit 32 (ucast (fr s (2 * n))) OR ucast (fr s (2 * n + 1))"

definition setDR :: "nat \<Rightarrow> u64 \<Rightarrow> 'm sh4_cpu \<Rightarrow> 'm sh4_cpu" where
  "setDR n v s = s\<lparr>fr := (fr s)(2 * n := ucast (drop_bit 32 v), 2 * n + 1 := ucast v)\<rparr>"

text \<open>The sum of four products in double precision, added from left to right.\<close>

definition dot4 :: "fpu_host \<Rightarrow> (nat \<Rightarrow> u32) \<Rightarrow> (nat \<Rightarrow> u32) \<Rightarrow> u64" where
  "dot4 h a b =
     (let p = (\<lambda>i. d_mul h (f_to_d h (a i)) (f_to_d h (b i)))
      in d_add h (d_add h (d_add h (p 0) (p 1)) (p 2)) (p 3))"

definition i1111_nnnn_mmmm_0000 :: "'m sh4_op" where \<comment> \<open>fadd FRM,FRN\<close>
  "i1111_nnnn_mmmm_0000 e op =
     act (\<lambda>s. if \<not> fp_PR s then set_fr (GetN op) (f_add (host e) (fr s (GetN op)) (fr s (GetM op))) s
      else setDR (DRn op) (d_add (host e) (getDR (DRn op) s) (getDR (DRm op) s)) s)"

definition i1111_nnnn_mmmm_0001 :: "'m sh4_op" where \<comment> \<open>fsub FRM,FRN\<close>
  "i1111_nnnn_mmmm_0001 e op =
     act (\<lambda>s. if \<not> fp_PR s then set_fr (GetN op) (f_sub (host e) (fr s (GetN op)) (fr s (GetM op))) s
      else setDR (DRn op) (d_sub (host e) (getDR (DRn op) s) (getDR (DRm op) s)) s)"

definition i1111_nnnn_mmmm_0010 :: "'m sh4_op" where \<comment> \<open>fmul FRM,FRN\<close>
  "i1111_nnnn_mmmm_0010 e op =
     act (\<lambda>s. if \<not> fp_PR s then set_fr (GetN op) (f_mul (host e) (fr s (GetN op)) (fr s (GetM op))) s
      else setDR (DRn op) (d_mul (host e) (getDR (DRn op) s) (getDR (DRm op) s)) s)"

definition i1111_nnnn_mmmm_0011 :: "'m sh4_op" where \<comment> \<open>fdiv FRM,FRN\<close>
  "i1111_nnnn_mmmm_0011 e op =
     act (\<lambda>s. if \<not> fp_PR s then set_fr (GetN op) (f_div (host e) (fr s (GetN op)) (fr s (GetM op))) s
      else setDR (DRn op) (d_div (host e) (getDR (DRn op) s) (getDR (DRm op) s)) s)"

definition i1111_nnnn_mmmm_0100 :: "'m sh4_op" where \<comment> \<open>fcmp/eq FRM,FRN\<close>
  "i1111_nnnn_mmmm_0100 e op =
     act (\<lambda>s. if \<not> fp_PR s then set_T (f_eq (host e) (fr s (GetM op)) (fr s (GetN op))) s
      else set_T (d_eq (host e) (getDR (DRn op) s) (getDR (DRm op) s)) s)"

definition i1111_nnnn_mmmm_0101 :: "'m sh4_op" where \<comment> \<open>fcmp/gt FRM,FRN\<close>
  "i1111_nnnn_mmmm_0101 e op =
     act (\<lambda>s. if \<not> fp_PR s then set_T (f_gt (host e) (fr s (GetN op)) (fr s (GetM op))) s
      else set_T (d_gt (host e) (getDR (DRn op) s) (getDR (DRm op) s)) s)"

definition i1111_nnnn_mmmm_0110 :: "'m sh4_op" where \<comment> \<open>fmov.s @(R0,RM),FRN\<close>
  "i1111_nnnn_mmmm_0110 e op =
     (\<lambda>s. if \<not> fp_SZ s then load (ReadMem32 e) (\<lambda>s. rg (GetM op) s + rg 0 s) (\<lambda>v s. set_fr (GetN op) v s) s
      else load (ReadMem64 e) (\<lambda>s. rg (GetM op) s + rg 0 s) (\<lambda>v s. set_pair (bit op 8) (GetN op div 2) v s) s)"

definition i1111_nnnn_mmmm_0111 :: "'m sh4_op" where \<comment> \<open>fmov.s FRM,@(R0,RN)\<close>
  "i1111_nnnn_mmmm_0111 e op =
     (\<lambda>s. if \<not> fp_SZ s then store (WriteMem32 e) (\<lambda>s. rg 0 s + rg (GetN op) s) (\<lambda>s. fr s (GetM op)) (\<lambda>a s. s) s
      else store (WriteMem64 e) (\<lambda>s. rg 0 s + rg (GetN op) s) (\<lambda>s. get_pair (bit op 4) (GetM op div 2) s) (\<lambda>a s. s) s)"

definition i1111_nnnn_mmmm_1000 :: "'m sh4_op" where \<comment> \<open>fmov.s @RM,FRN\<close>
  "i1111_nnnn_mmmm_1000 e op =
     (\<lambda>s. if \<not> fp_SZ s then load (ReadMem32 e) (\<lambda>s. rg (GetM op) s) (\<lambda>v s. set_fr (GetN op) v s) s
      else load (ReadMem64 e) (\<lambda>s. rg (GetM op) s) (\<lambda>v s. set_pair (bit op 8) (GetN op div 2) v s) s)"

definition i1111_nnnn_mmmm_1001 :: "'m sh4_op" where \<comment> \<open>fmov.s @RM+,FRN\<close>
  "i1111_nnnn_mmmm_1001 e op =
     (\<lambda>s. if \<not> fp_SZ s then load (ReadMem32 e) (\<lambda>s. rg (GetM op) s) (\<lambda>v s. let s = set_fr (GetN op) v s in set_r (GetM op) (rg (GetM op) s + 4) s) s
      else load (ReadMem64 e) (\<lambda>s. rg (GetM op) s) (\<lambda>v s. let s = set_pair (bit op 8) (GetN op div 2) v s in set_r (GetM op) (rg (GetM op) s + 8) s) s)"

definition i1111_nnnn_mmmm_1010 :: "'m sh4_op" where \<comment> \<open>fmov.s FRM,@RN\<close>
  "i1111_nnnn_mmmm_1010 e op =
     (\<lambda>s. if \<not> fp_SZ s then store (WriteMem32 e) (\<lambda>s. rg (GetN op) s) (\<lambda>s. fr s (GetM op)) (\<lambda>a s. s) s
      else store (WriteMem64 e) (\<lambda>s. rg (GetN op) s) (\<lambda>s. get_pair (bit op 4) (GetM op div 2) s) (\<lambda>a s. s) s)"

definition i1111_nnnn_mmmm_1011 :: "'m sh4_op" where \<comment> \<open>fmov.s FRM,@-RN\<close>
  "i1111_nnnn_mmmm_1011 e op =
     (\<lambda>s. if \<not> fp_SZ s then store (WriteMem32 e) (\<lambda>s. rg (GetN op) s - 4) (\<lambda>s. fr s (GetM op)) (\<lambda>a s. set_r (GetN op) a s) s
      else store (WriteMem64 e) (\<lambda>s. rg (GetN op) s - 8) (\<lambda>s. get_pair (bit op 4) (GetM op div 2) s) (\<lambda>a s. set_r (GetN op) a s) s)"

definition i1111_nnnn_mmmm_1100 :: "'m sh4_op" where \<comment> \<open>fmov FRM,FRN\<close>
  "i1111_nnnn_mmmm_1100 e op =
     act (\<lambda>s. if \<not> fp_SZ s then set_fr (GetN op) (fr s (GetM op)) s
      else set_pair (bit op 8) (GetN op div 2) (get_pair (bit op 4) (GetM op div 2) s) s)"

definition i1111_nnnn_0101_1101 :: "'m sh4_op" where \<comment> \<open>fabs FRN\<close>
  "i1111_nnnn_0101_1101 e op =
     act (\<lambda>s. let n = (if \<not> fp_PR s then GetN op else 2 * (GetN op div 2)) in set_fr n (fr s n AND 0x7FFFFFFF) s)"

definition i1111_nnn0_1111_1101 :: "'m sh4_op" where \<comment> \<open>FSCA FPUL, DRn\<close>
  "i1111_nnn0_1111_1101 e op =
     act (\<lambda>s. let n = 2 * (GetN op div 2) in if fp_PR s then s
      else (let pi_index = unat (fpul s AND 0xFFFF) in
        set_fr (n + 1) (snd (sin_table (host e) pi_index)) (set_fr n (fst (sin_table (host e) pi_index)) s)))"

definition i1111_nnnn_0111_1101 :: "'m sh4_op" where \<comment> \<open>FSRRA\<close>
  "i1111_nnnn_0111_1101 e op =
     act (\<lambda>s. if fp_PR s then s else set_fr (GetN op) (f_div (host e) (f_one (host e)) (f_sqrt (host e) (fr s (GetN op)))) s)"

definition i1111_nnnn_1011_1101 :: "'m sh4_op" where \<comment> \<open>fcnvds DR_N,FPUL\<close>
  "i1111_nnnn_1011_1101 e op =
     act (\<lambda>s. if fp_PR s then s\<lparr>fpul := d_to_f (host e) (getDR (DRn op) s)\<rparr> else s)"

definition i1111_nnnn_1010_1101 :: "'m sh4_op" where \<comment> \<open>fcnvsd FPUL,DR_N\<close>
  "i1111_nnnn_1010_1101 e op =
     act (\<lambda>s. if fp_PR s then setDR (DRn op) (f_to_d (host e) (fpul s)) s else s)"

definition i1111_nnmm_1110_1101 :: "'m sh4_op" where \<comment> \<open>fipr FV_M,FV_N\<close>
  "i1111_nnmm_1110_1101 e op =
     act (\<lambda>s. let n = 4 * (GetN op div 4); m = 4 * (GetN op mod 4) in if fp_PR s then s
      else set_fr (n + 3) (d_to_f (host e) (dot4 (host e) (\<lambda>i. fr s (n + i)) (\<lambda>i. fr s (m + i)))) s)"

definition i1111_nnnn_1000_1101 :: "'m sh4_op" where \<comment> \<open>fldi0 FRN\<close>
  "i1111_nnnn_1000_1101 e op =
     act (\<lambda>s. if fp_PR s then s else set_fr (GetN op) 0 s)"

definition i1111_nnnn_1001_1101 :: "'m sh4_op" where \<comment> \<open>fldi1 FRN\<close>
  "i1111_nnnn_1001_1101 e op =
     act (\<lambda>s. if fp_PR s then s else set_fr (GetN op) (f_one (host e)) s)"

definition i1111_nnnn_0001_1101 :: "'m sh4_op" where \<comment> \<open>flds FRN,FPUL\<close>
  "i1111_nnnn_0001_1101 e op =
     act (\<lambda>s. s\<lparr>fpul := fr s (GetN op)\<rparr>)"

definition i1111_nnnn_0000_1101 :: "'m sh4_op" where \<comment> \<open>fsts FPUL,FRN\<close>
  "i1111_nnnn_0000_1101 e op =
     act (\<lambda>s. set_fr (GetN op) (fpul s) s)"

definition i1111_nnnn_0010_1101 :: "'m sh4_op" where \<comment> \<open>float FPUL,FRN\<close>
  "i1111_nnnn_0010_1101 e op =
     act (\<lambda>s. if \<not> fp_PR s then set_fr (GetN op) (f_of_s32 (host e) (fpul s)) s else setDR (DRn op) (d_of_s32 (host e) (fpul s)) s)"

definition i1111_nnnn_0100_1101 :: "'m sh4_op" where \<comment> \<open>fneg FRN\<close>
  "i1111_nnnn_0100_1101 e op =
     act (\<lambda>s. set_fr (GetN op) (fr s (GetN op) XOR 0x80000000) s)"

definition i1111_1011_1111_1101 :: "'m sh4_op" where \<comment> \<open>frchg\<close>
  "i1111_1011_1111_1101 e op =
     act (\<lambda>s. UpdateFPSCR (s\<lparr>fpscr := fpscr s XOR push_bit 21 1\<rparr>))"

definition i1111_0011_1111_1101 :: "'m sh4_op" where \<comment> \<open>fschg\<close>
  "i1111_0011_1111_1101 e op =
     act (\<lambda>s. s\<lparr>fpscr := fpscr s XOR push_bit 20 1\<rparr>)"

definition i1111_nnnn_0110_1101 :: "'m sh4_op" where \<comment> \<open>fsqrt FRN\<close>
  "i1111_nnnn_0110_1101 e op =
     act (\<lambda>s. if \<not> fp_PR s then set_fr (GetN op) (f_sqrt (host e) (fr s (GetN op))) s else setDR (DRn op) (d_sqrt (host e) (getDR (DRn op) s)) s)"

definition i1111_nnnn_0011_1101 :: "'m sh4_op" where \<comment> \<open>ftrc FRN, FPUL\<close>
  "i1111_nnnn_0011_1101 e op =
     act (\<lambda>s. if \<not> fp_PR s then
        (if f_isnan (host e) (fr s (GetN op)) then s\<lparr>fpul := 0x80000000\<rparr>
         else (let v = s32_of_f (host e) (fr s (GetN op)) in
           if sint v > 0x7FFFFF80 then s\<lparr>fpul := 0x7FFFFFFF\<rparr>
           else if host_x86 (host e) \<and> v = 0x80000000 \<and> f_gt (host e) (fr s (GetN op)) 0 then s\<lparr>fpul := v - 1\<rparr>
           else s\<lparr>fpul := v\<rparr>))
      else (let f = getDR (DRn op) s in
         if d_isnan (host e) f then s\<lparr>fpul := 0x80000000\<rparr>
         else (let v = s32_of_d (host e) f in
           if host_x86 (host e) \<and> v = 0x80000000 \<and> d_gt (host e) f 0 then s\<lparr>fpul := v - 1\<rparr>
           else s\<lparr>fpul := v\<rparr>)))"

definition i1111_nnnn_mmmm_1110 :: "'m sh4_op" where \<comment> \<open>fmac FR0,FRM,FRN\<close>
  "i1111_nnnn_mmmm_1110 e op =
     act (\<lambda>s. if fp_PR s then s else set_fr (GetN op) (f_fma (host e) (fr s 0) (fr s (GetM op)) (fr s (GetN op))) s)"

definition i1111_nn01_1111_1101 :: "'m sh4_op" where \<comment> \<open>ftrv xmtrx,FV_N\<close>
  "i1111_nn01_1111_1101 e op =
     act (\<lambda>s. let n = 4 * (GetN op div 4); v = (\<lambda>k. d_to_f (host e) (dot4 (host e) (\<lambda>i. xf s (k + 4 * i)) (\<lambda>i. fr s (n + i)))) in
      if fp_PR s then s
      else set_fr (n + 3) (v 3) (set_fr (n + 2) (v 2) (set_fr (n + 1) (v 1) (set_fr n (v 0) s))))"

end
