(* ===== verification/Sh4_Decode.thy ===== *)
theory Sh4_Decode
  imports Sh4_Ops Sh4_Fpu
begin

unbundle bit_operations_syntax

section \<open>The SH-4 interpreter: opcode table, cycles, delay slots and the main loop\<close>

text \<open>
  Models \<^verbatim>\<open>core/hw/sh4/sh4_opcode_list.cpp\<close> (the table and \<open>BuildOpcodeTables\<close>; the columns of the recompiler and of the
  disassembler are left out), \<open>countCycles\<close> of \<^verbatim>\<open>sh4_cycles.cpp\<close> with the interpreter's ratio 8, and
  \<^verbatim>\<open>interpr/sh4_interpreter.cpp\<close>.  \<open>OpPtr\<close> and \<open>OpDesc\<close> are arrays of pointers into the table; here the builder fills a
  map from opcodes to positions in the table.  A delay slot runs the interpreter again: \<open>slots e d\<close> is the environment in
  which \<open>d\<close> delay slots may be nested before the host stack is exhausted.
\<close>

subsection \<open>The table\<close>

record 'm sh4_opcodelistentry =
  oph :: "'m sh4_op"
  op_mask :: u32
  rez :: u32
  optype :: u32
  IssueCycles :: int
  eu :: sh4_eu
  ex_type :: nat

definition entry :: "'m sh4_op \<Rightarrow> u32 \<Rightarrow> u32 \<Rightarrow> u32 \<Rightarrow> int \<Rightarrow> sh4_eu \<Rightarrow> nat \<Rightarrow> 'm sh4_opcodelistentry" where
  "entry f m r t i u x = \<lparr>oph = f, op_mask = m, rez = r, optype = t, IssueCycles = i, eu = u, ex_type = x\<rparr>"

abbreviation (input) Mask_n_m :: u32 where "Mask_n_m \<equiv> 0xF00F"
abbreviation (input) Mask_n_m_imm4 :: u32 where "Mask_n_m_imm4 \<equiv> 0xF000"
abbreviation (input) Mask_n :: u32 where "Mask_n \<equiv> 0xF0FF"
abbreviation (input) Mask_none :: u32 where "Mask_none \<equiv> 0xFFFF"
abbreviation (input) Mask_imm8 :: u32 where "Mask_imm8 \<equiv> 0xFF00"
abbreviation (input) Mask_n_imm8 :: u32 where "Mask_n_imm8 \<equiv> 0xF000"
abbreviation (input) Mask_n_ml3bit :: u32 where "Mask_n_ml3bit \<equiv> 0xF08F"
abbreviation (input) Mask_nh3bit :: u32 where "Mask_nh3bit \<equiv> 0xF1FF"
abbreviation (input) Mask_nh2bit :: u32 where "Mask_nh2bit \<equiv> 0xF3FF"
abbreviation (input) Normal :: u32 where "Normal \<equiv> 0"
abbreviation (input) ReadsPC :: u32 where "ReadsPC \<equiv> 1"
abbreviation (input) ReadWritePC :: u32 where "ReadWritePC \<equiv> 3"
abbreviation (input) Branch_d :: u32 where "Branch_d \<equiv> 7"
abbreviation (input) WritesSRRWPC :: u32 where "WritesSRRWPC \<equiv> 11"
abbreviation (input) UsesFPU :: u32 where "UsesFPU \<equiv> 2048"
abbreviation (input) FWritesFPSCR :: u32 where "FWritesFPSCR \<equiv> 2064"

definition opcodes :: "'m sh4_opcodelistentry list" where
  "opcodes =
    [entry reios_trap Mask_none 0x085B ReadWritePC 100 eu_CO 1,
     entry i0000_nnnn_0010_0011 Mask_n 0x0023 Branch_d 2 eu_CO 4,
     entry i0000_nnnn_0000_0011 Mask_n 0x0003 Branch_d 2 eu_CO 24,
     entry i0000_nnnn_1100_0011 Mask_n 0x00C3 Normal 1 eu_LS 12,
     entry i0000_nnnn_1001_0011 Mask_n 0x0093 Normal 1 eu_LS 10,
     entry i0000_nnnn_1010_0011 Mask_n 0x00A3 Normal 1 eu_LS 11,
     entry i0000_nnnn_1011_0011 Mask_n 0x00B3 Normal 1 eu_LS 11,
     entry i0000_nnnn_1000_0011 Mask_n 0x0083 Normal 1 eu_LS 2,
     entry i0000_nnnn_mmmm_0111 Mask_n_m 0x0007 Normal 2 eu_CO 34,
     entry i0000_0000_0010_1000 Mask_none 0x0028 Normal 1 eu_CO 28,
     entry i0000_0000_0100_1000 Mask_none 0x0048 Normal 1 eu_CO 1,
     entry i0000_0000_0000_1000 Mask_none 0x0008 Normal 1 eu_MT 1,
     entry i0000_0000_0011_1000 Mask_none 0x0038 Normal 1 eu_CO 2,
     entry i0000_0000_0101_1000 Mask_none 0x0058 Normal 1 eu_CO 1,
     entry i0000_0000_0001_1000 Mask_none 0x0018 Normal 1 eu_MT 1,
     entry i0000_0000_0001_1001 Mask_none 0x0019 Normal 1 eu_EX 1,
     entry i0000_nnnn_0010_1001 Mask_n 0x0029 Normal 1 eu_EX 1,
     entry i0000_0000_0000_1001 Mask_none 0x0009 Normal 1 eu_MT 1,
     entry i0000_0000_0000_1001 Mask_none 0x0000 Normal 1 eu_MT 1,
     entry i0000_0000_0010_1011 Mask_none 0x002B Branch_d 5 eu_CO 8,
     entry i0000_0000_0000_1011 Mask_none 0x000B Branch_d 2 eu_CO 4,
     entry i0000_0000_0001_1011 Mask_none 0x001B ReadWritePC 4 eu_CO 9,
     entry i0000_nnnn_mmmm_1111 Mask_n_m 0x000F Normal 2 eu_CO 35,
     entry i0010_nnnn_mmmm_0111 Mask_n_m 0x2007 Normal 1 eu_EX 1,
     entry i0010_nnnn_mmmm_1000 Mask_n_m 0x2008 Normal 1 eu_MT 1,
     entry i0010_nnnn_mmmm_1001 Mask_n_m 0x2009 Normal 1 eu_EX 1,
     entry i0010_nnnn_mmmm_1010 Mask_n_m 0x200A Normal 1 eu_EX 1,
     entry i0010_nnnn_mmmm_1011 Mask_n_m 0x200B Normal 1 eu_EX 1,
     entry i0010_nnnn_mmmm_1100 Mask_n_m 0x200C Normal 1 eu_MT 1,
     entry i0010_nnnn_mmmm_1101 Mask_n_m 0x200D Normal 1 eu_EX 1,
     entry i0010_nnnn_mmmm_1110 Mask_n_m 0x200E Normal 2 eu_CO 34,
     entry i0010_nnnn_mmmm_1111 Mask_n_m 0x200F Normal 2 eu_CO 34,
     entry i0011_nnnn_mmmm_0000 Mask_n_m 0x3000 Normal 1 eu_MT 1,
     entry i0011_nnnn_mmmm_0010 Mask_n_m 0x3002 Normal 1 eu_MT 1,
     entry i0011_nnnn_mmmm_0011 Mask_n_m 0x3003 Normal 1 eu_MT 1,
     entry i0011_nnnn_mmmm_0100 Mask_n_m 0x3004 Normal 1 eu_EX 1,
     entry i0011_nnnn_mmmm_0101 Mask_n_m 0x3005 Normal 2 eu_CO 34,
     entry i0011_nnnn_mmmm_0110 Mask_n_m 0x3006 Normal 1 eu_MT 1,
     entry i0011_nnnn_mmmm_0111 Mask_n_m 0x3007 Normal 1 eu_MT 1,
     entry i0011_nnnn_mmmm_1000 Mask_n_m 0x3008 Normal 1 eu_EX 1,
     entry i0011_nnnn_mmmm_1010 Mask_n_m 0x300A Normal 1 eu_EX 1,
     entry i0011_nnnn_mmmm_1011 Mask_n_m 0x300B Normal 1 eu_EX 1,
     entry i0011_nnnn_mmmm_1100 Mask_n_m 0x300C Normal 1 eu_EX 1,
     entry i0011_nnnn_mmmm_1101 Mask_n_m 0x300D Normal 2 eu_CO 34,
     entry i0011_nnnn_mmmm_1110 Mask_n_m 0x300E Normal 1 eu_EX 1,
     entry i0011_nnnn_mmmm_1111 Mask_n_m 0x300F Normal 1 eu_EX 1,
     entry i0000_nnnn_mmmm_0100 Mask_n_m 0x0004 Normal 1 eu_LS 2,
     entry i0000_nnnn_mmmm_0101 Mask_n_m 0x0005 Normal 1 eu_LS 2,
     entry i0000_nnnn_mmmm_0110 Mask_n_m 0x0006 Normal 1 eu_LS 2,
     entry i0000_nnnn_mmmm_1100 Mask_n_m 0x000C Normal 1 eu_LS 2,
     entry i0000_nnnn_mmmm_1101 Mask_n_m 0x000D Normal 1 eu_LS 2,
     entry i0000_nnnn_mmmm_1110 Mask_n_m 0x000E Normal 1 eu_LS 2,
     entry i0001_nnnn_mmmm_iiii Mask_n_imm8 0x1000 Normal 1 eu_LS 2,
     entry i0101_nnnn_mmmm_iiii Mask_n_m_imm4 0x5000 Normal 1 eu_LS 2,
     entry i0010_nnnn_mmmm_0000 Mask_n_m 0x2000 Normal 1 eu_LS 2,
     entry i0010_nnnn_mmmm_0001 Mask_n_m 0x2001 Normal 1 eu_LS 2,
     entry i0010_nnnn_mmmm_0010 Mask_n_m 0x2002 Normal 1 eu_LS 2,
     entry i0110_nnnn_mmmm_0000 Mask_n_m 0x6000 Normal 1 eu_LS 2,
     entry i0110_nnnn_mmmm_0001 Mask_n_m 0x6001 Normal 1 eu_LS 2,
     entry i0110_nnnn_mmmm_0010 Mask_n_m 0x6002 Normal 1 eu_LS 2,
     entry i0010_nnnn_mmmm_0100 Mask_n_m 0x2004 Normal 1 eu_LS 2,
     entry i0010_nnnn_mmmm_0101 Mask_n_m 0x2005 Normal 1 eu_LS 2,
     entry i0010_nnnn_mmmm_0110 Mask_n_m 0x2006 Normal 1 eu_LS 2,
     entry i0110_nnnn_mmmm_0100 Mask_n_m 0x6004 Normal 1 eu_LS 2,
     entry i0110_nnnn_mmmm_0101 Mask_n_m 0x6005 Normal 1 eu_LS 2,
     entry i0110_nnnn_mmmm_0110 Mask_n_m 0x6006 Normal 1 eu_LS 2,
     entry i1000_0000_mmmm_iiii Mask_imm8 0x8000 Normal 1 eu_LS 2,
     entry i1000_0001_mmmm_iiii Mask_imm8 0x8100 Normal 1 eu_LS 2,
     entry i1000_0100_mmmm_iiii Mask_imm8 0x8400 Normal 1 eu_LS 2,
     entry i1000_0101_mmmm_iiii Mask_imm8 0x8500 Normal 1 eu_LS 2,
     entry i1001_nnnn_iiii_iiii Mask_n_imm8 0x9000 ReadsPC 1 eu_LS 2,
     entry i1100_0000_iiii_iiii Mask_imm8 0xC000 Normal 1 eu_LS 3,
     entry i1100_0001_iiii_iiii Mask_imm8 0xC100 Normal 1 eu_LS 3,
     entry i1100_0010_iiii_iiii Mask_imm8 0xC200 Normal 1 eu_LS 3,
     entry i1100_0100_iiii_iiii Mask_imm8 0xC400 Normal 1 eu_LS 3,
     entry i1100_0101_iiii_iiii Mask_imm8 0xC500 Normal 1 eu_LS 3,
     entry i1100_0110_iiii_iiii Mask_imm8 0xC600 Normal 1 eu_LS 3,
     entry i1101_nnnn_iiii_iiii Mask_n_imm8 0xD000 ReadsPC 1 eu_LS 2,
     entry i0110_nnnn_mmmm_0011 Mask_n_m 0x6003 Normal 1 eu_MT 1,
     entry i1100_0111_iiii_iiii Mask_imm8 0xC700 ReadsPC 1 eu_EX 1,
     entry i1110_nnnn_iiii_iiii Mask_n_imm8 0xE000 Normal 1 eu_EX 1,
     entry i0100_nnnn_0101_0010 Mask_n 0x4052 UsesFPU 1 eu_CO 2,
     entry i0100_nnnn_0110_0010 Mask_n 0x4062 UsesFPU 1 eu_CO 2,
     entry i0100_nnnn_0000_0010 Mask_n 0x4002 Normal 1 eu_CO 31,
     entry i0100_nnnn_0001_0010 Mask_n 0x4012 Normal 1 eu_CO 31,
     entry i0100_nnnn_0010_0010 Mask_n 0x4022 Normal 2 eu_CO 27,
     entry i0100_nnnn_1111_0010 Mask_n 0x40F2 Normal 2 eu_CO 22,
     entry i0100_nnnn_0011_0010 Mask_n 0x4032 Normal 3 eu_CO 23,
     entry i0100_nnnn_0000_0011 Mask_n 0x4003 Normal 2 eu_CO 22,
     entry i0100_nnnn_0001_0011 Mask_n 0x4013 Normal 2 eu_CO 22,
     entry i0100_nnnn_0010_0011 Mask_n 0x4023 Normal 2 eu_CO 22,
     entry i0100_nnnn_0011_0011 Mask_n 0x4033 Normal 2 eu_CO 22,
     entry i0100_nnnn_0100_0011 Mask_n 0x4043 Normal 2 eu_CO 22,
     entry i0100_nnnn_1mmm_0011 Mask_n_ml3bit 0x4083 Normal 2 eu_CO 22,
     entry i0100_nnnn_0000_0110 Mask_n 0x4006 Normal 1 eu_CO 29,
     entry i0100_nnnn_0001_0110 Mask_n 0x4016 Normal 1 eu_CO 29,
     entry i0100_nnnn_0010_0110 Mask_n 0x4026 Normal 2 eu_CO 25,
     entry i0100_nnnn_0011_0110 Mask_n 0x4036 Normal 3 eu_CO 18,
     entry i0100_nnnn_0101_0110 Mask_n 0x4056 UsesFPU 1 eu_CO 2,
     entry i0100_nnnn_0110_0110 Mask_n 0x4066 FWritesFPSCR 1 eu_CO 33,
     entry i0100_nnnn_1111_0110 Mask_n 0x40F6 Normal 1 eu_CO 17,
     entry i0100_nnnn_0000_0111 Mask_n 0x4007 WritesSRRWPC 4 eu_CO 19,
     entry i0100_nnnn_0001_0111 Mask_n 0x4017 Normal 3 eu_CO 18,
     entry i0100_nnnn_0010_0111 Mask_n 0x4027 Normal 1 eu_CO 17,
     entry i0100_nnnn_0011_0111 Mask_n 0x4037 Normal 1 eu_CO 17,
     entry i0100_nnnn_0100_0111 Mask_n 0x4047 Normal 1 eu_CO 17,
     entry i0100_nnnn_1mmm_0111 Mask_n_ml3bit 0x4087 Normal 1 eu_CO 17,
     entry i0000_nnnn_0000_0010 Mask_n 0x0002 Normal 2 eu_CO 20,
     entry i0000_nnnn_0001_0010 Mask_n 0x0012 Normal 2 eu_CO 20,
     entry i0000_nnnn_0010_0010 Mask_n 0x0022 Normal 2 eu_CO 20,
     entry i0000_nnnn_0011_0010 Mask_n 0x0032 Normal 2 eu_CO 20,
     entry i0000_nnnn_0100_0010 Mask_n 0x0042 Normal 2 eu_CO 20,
     entry i0000_nnnn_1mmm_0010 Mask_n_ml3bit 0x0082 Normal 2 eu_CO 20,
     entry i0000_nnnn_0000_1010 Mask_n 0x000A Normal 1 eu_CO 30,
     entry i0000_nnnn_0001_1010 Mask_n 0x001A Normal 1 eu_CO 30,
     entry i0000_nnnn_0010_1010 Mask_n 0x002A Normal 2 eu_CO 26,
     entry i0000_nnnn_0011_1010 Mask_n 0x003A Normal 3 eu_CO 21,
     entry i0000_nnnn_0101_1010 Mask_n 0x005A UsesFPU 1 eu_LS 1,
     entry i0000_nnnn_0110_1010 Mask_n 0x006A UsesFPU 1 eu_CO 1,
     entry i0000_nnnn_1111_1010 Mask_n 0x00FA Normal 2 eu_CO 20,
     entry i0100_nnnn_0000_1010 Mask_n 0x400A Normal 1 eu_CO 28,
     entry i0100_nnnn_0001_1010 Mask_n 0x401A Normal 1 eu_CO 28,
     entry i0100_nnnn_0010_1010 Mask_n 0x402A Normal 2 eu_CO 24,
     entry i0100_nnnn_0011_1010 Mask_n 0x403A Normal 3 eu_CO 15,
     entry i0100_nnnn_0101_1010 Mask_n 0x405A UsesFPU 1 eu_LS 1,
     entry i0100_nnnn_0110_1010 Mask_n 0x406A FWritesFPSCR 1 eu_CO 32,
     entry i0100_nnnn_1111_1010 Mask_n 0x40FA Normal 1 eu_CO 14,
     entry i0100_nnnn_0000_1110 Mask_n 0x400E WritesSRRWPC 4 eu_CO 16,
     entry i0100_nnnn_0001_1110 Mask_n 0x401E Normal 3 eu_CO 15,
     entry i0100_nnnn_0010_1110 Mask_n 0x402E Normal 1 eu_CO 14,
     entry i0100_nnnn_0011_1110 Mask_n 0x403E Normal 1 eu_CO 14,
     entry i0100_nnnn_0100_1110 Mask_n 0x404E Normal 1 eu_CO 14,
     entry i0100_nnnn_1mmm_1110 Mask_n_ml3bit 0x408E Normal 1 eu_CO 14,
     entry i0100_nnnn_0000_0000 Mask_n 0x4000 Normal 1 eu_EX 1,
     entry i0100_nnnn_0001_0000 Mask_n 0x4010 Normal 1 eu_EX 1,
     entry i0100_nnnn_0010_0000 Mask_n 0x4020 Normal 1 eu_EX 1,
     entry i0100_nnnn_0000_0001 Mask_n 0x4001 Normal 1 eu_EX 1,
     entry i0100_nnnn_0001_0001 Mask_n 0x4011 Normal 1 eu_MT 1,
     entry i0100_nnnn_0010_0001 Mask_n 0x4021 Normal 1 eu_EX 1,
     entry i0100_nnnn_0010_0100 Mask_n 0x4024 Normal 1 eu_EX 1,
     entry i0100_nnnn_0000_0100 Mask_n 0x4004 Normal 1 eu_EX 1,
     entry i0100_nnnn_0001_0101 Mask_n 0x4015 Normal 1 eu_MT 1,
     entry i0100_nnnn_0010_0101 Mask_n 0x4025 Normal 1 eu_EX 1,
     entry i0100_nnnn_0000_0101 Mask_n 0x4005 Normal 1 eu_EX 1,
     entry i0100_nnnn_0000_1000 Mask_n 0x4008 Normal 1 eu_EX 1,
     entry i0100_nnnn_0001_1000 Mask_n 0x4018 Normal 1 eu_EX 1,
     entry i0100_nnnn_0010_1000 Mask_n 0x4028 Normal 1 eu_EX 1,
     entry i0100_nnnn_0000_1001 Mask_n 0x4009 Normal 1 eu_EX 1,
     entry i0100_nnnn_0001_1001 Mask_n 0x4019 Normal 1 eu_EX 1,
     entry i0100_nnnn_0010_1001 Mask_n 0x4029 Normal 1 eu_EX 1,
     entry i0100_nnnn_0010_1011 Mask_n 0x402B Branch_d 2 eu_CO 4,
     entry i0100_nnnn_0000_1011 Mask_n 0x400B Branch_d 2 eu_CO 24,
     entry i0100_nnnn_0001_1011 Mask_n 0x401B Normal 5 eu_CO 7,
     entry i0100_nnnn_mmmm_1100 Mask_n_m 0x400C Normal 1 eu_EX 1,
     entry i0100_nnnn_mmmm_1101 Mask_n_m 0x400D Normal 1 eu_EX 1,
     entry i0100_nnnn_mmmm_1111 Mask_n_m 0x400F Normal 2 eu_CO 35,
     entry i0110_nnnn_mmmm_0111 Mask_n_m 0x6007 Normal 1 eu_EX 1,
     entry i0110_nnnn_mmmm_1000 Mask_n_m 0x6008 Normal 1 eu_EX 1,
     entry i0110_nnnn_mmmm_1001 Mask_n_m 0x6009 Normal 1 eu_EX 1,
     entry i0110_nnnn_mmmm_1010 Mask_n_m 0x600A Normal 1 eu_EX 1,
     entry i0110_nnnn_mmmm_1011 Mask_n_m 0x600B Normal 1 eu_EX 1,
     entry i0110_nnnn_mmmm_1100 Mask_n_m 0x600C Normal 1 eu_EX 1,
     entry i0110_nnnn_mmmm_1101 Mask_n_m 0x600D Normal 1 eu_EX 1,
     entry i0110_nnnn_mmmm_1110 Mask_n_m 0x600E Normal 1 eu_EX 1,
     entry i0110_nnnn_mmmm_1111 Mask_n_m 0x600F Normal 1 eu_EX 1,
     entry i0111_nnnn_iiii_iiii Mask_n_imm8 0x7000 Normal 1 eu_EX 1,
     entry i1000_1011_iiii_iiii Mask_imm8 0x8B00 ReadWritePC 1 eu_BR 1,
     entry i1000_1111_iiii_iiii Mask_imm8 0x8F00 Branch_d 1 eu_BR 1,
     entry i1000_1001_iiii_iiii Mask_imm8 0x8900 ReadWritePC 1 eu_BR 1,
     entry i1000_1101_iiii_iiii Mask_imm8 0x8D00 Branch_d 1 eu_BR 1,
     entry i1000_1000_iiii_iiii Mask_imm8 0x8800 Normal 1 eu_MT 1,
     entry i1010_iiii_iiii_iiii Mask_n_imm8 0xA000 Branch_d 1 eu_BR 1,
     entry i1011_iiii_iiii_iiii Mask_n_imm8 0xB000 Branch_d 1 eu_BR 14,
     entry i1100_0011_iiii_iiii Mask_imm8 0xC300 ReadWritePC 7 eu_CO 13,
     entry i1100_1000_iiii_iiii Mask_imm8 0xC800 Normal 1 eu_MT 1,
     entry i1100_1001_iiii_iiii Mask_imm8 0xC900 Normal 1 eu_EX 1,
     entry i1100_1010_iiii_iiii Mask_imm8 0xCA00 Normal 1 eu_EX 1,
     entry i1100_1011_iiii_iiii Mask_imm8 0xCB00 Normal 1 eu_EX 1,
     entry i1100_1100_iiii_iiii Mask_imm8 0xCC00 Normal 3 eu_CO 5,
     entry i1100_1101_iiii_iiii Mask_imm8 0xCD00 Normal 4 eu_CO 6,
     entry i1100_1110_iiii_iiii Mask_imm8 0xCE00 Normal 4 eu_CO 6,
     entry i1100_1111_iiii_iiii Mask_imm8 0xCF00 Normal 4 eu_CO 6,
     entry i1111_nnnn_mmmm_0000 Mask_n_m 0xF000 UsesFPU 1 eu_FE 36,
     entry i1111_nnnn_mmmm_0001 Mask_n_m 0xF001 UsesFPU 1 eu_FE 36,
     entry i1111_nnnn_mmmm_0010 Mask_n_m 0xF002 UsesFPU 1 eu_FE 36,
     entry i1111_nnnn_mmmm_0011 Mask_n_m 0xF003 UsesFPU 1 eu_FE 37,
     entry i1111_nnnn_mmmm_0100 Mask_n_m 0xF004 UsesFPU 1 eu_FE 36,
     entry i1111_nnnn_mmmm_0101 Mask_n_m 0xF005 UsesFPU 1 eu_FE 36,
     entry i1111_nnnn_mmmm_0110 Mask_n_m 0xF006 UsesFPU 1 eu_LS 2,
     entry i1111_nnnn_mmmm_0111 Mask_n_m 0xF007 UsesFPU 1 eu_LS 2,
     entry i1111_nnnn_mmmm_1000 Mask_n_m 0xF008 UsesFPU 1 eu_LS 2,
     entry i1111_nnnn_mmmm_1001 Mask_n_m 0xF009 UsesFPU 1 eu_LS 2,
     entry i1111_nnnn_mmmm_1010 Mask_n_m 0xF00A UsesFPU 1 eu_LS 2,
     entry i1111_nnnn_mmmm_1011 Mask_n_m 0xF00B UsesFPU 1 eu_LS 2,
     entry i1111_nnnn_mmmm_1100 Mask_n_m 0xF00C UsesFPU 1 eu_LS 1,
     entry i1111_nnnn_0101_1101 Mask_n 0xF05D UsesFPU 1 eu_LS 1,
     entry i1111_nnn0_1111_1101 Mask_nh3bit 0xF0FD UsesFPU 1 eu_FE 44,
     entry i1111_nnnn_1011_1101 Mask_n 0xF0BD UsesFPU 1 eu_FE 38,
     entry i1111_nnnn_1010_1101 Mask_n 0xF0AD UsesFPU 1 eu_FE 38,
     entry i1111_nnmm_1110_1101 Mask_n 0xF0ED UsesFPU 1 eu_FE 42,
     entry i1111_nnnn_1000_1101 Mask_n 0xF08D UsesFPU 1 eu_LS 1,
     entry i1111_nnnn_1001_1101 Mask_n 0xF09D UsesFPU 1 eu_LS 1,
     entry i1111_nnnn_0001_1101 Mask_n 0xF01D UsesFPU 1 eu_LS 1,
     entry i1111_nnnn_0010_1101 Mask_n 0xF02D UsesFPU 1 eu_FE 36,
     entry i1111_nnnn_0100_1101 Mask_n 0xF04D UsesFPU 1 eu_LS 1,
     entry i1111_1011_1111_1101 Mask_none 0xFBFD FWritesFPSCR 1 eu_FE 36,
     entry i1111_0011_1111_1101 Mask_none 0xF3FD FWritesFPSCR 1 eu_FE 36,
     entry i1111_nnnn_0110_1101 Mask_n 0xF06D UsesFPU 1 eu_FE 41,
     entry i1111_nnnn_0011_1101 Mask_n 0xF03D UsesFPU 1 eu_FE 38,
     entry i1111_nnnn_0000_1101 Mask_n 0xF00D UsesFPU 1 eu_LS 1,
     entry i1111_nn01_1111_1101 Mask_nh2bit 0xF1FD UsesFPU 1 eu_FE 43,
     entry i1111_nnnn_mmmm_1110 Mask_n_m 0xF00E UsesFPU 1 eu_FE 36,
     entry i1111_nnnn_0111_1101 Mask_n 0xF07D UsesFPU 1 eu_FE 36]"

definition missing_opcode :: "'m sh4_opcodelistentry" where
  "missing_opcode = entry iNotImplemented 0 0 ReadWritePC 0 eu_CO 1"

text \<open>How many opcodes a mask stands for and where the varying bits start.\<close>

definition mask_fill :: "u32 \<Rightarrow> (nat \<times> nat) option" where
  "mask_fill m =
     (if m = Mask_none then Some (1, 0)
      else if m = Mask_n then Some (16, 8)
      else if m = Mask_n_m then Some (256, 4)
      else if m = Mask_n_m_imm4 then Some (256 * 16, 0)
      else if m = Mask_imm8 then Some (256, 0)
      else if m = Mask_n_ml3bit then Some (256, 4)
      else if m = Mask_nh3bit then Some (8, 9)
      else if m = Mask_nh2bit then Some (4, 10)
      else None)"

definition entry_indices :: "u32 \<Rightarrow> u32 \<Rightarrow> u32 list" where
  "entry_indices m base =
     (case mask_fill m of None \<Rightarrow> []
      | Some (count, shft) \<Rightarrow> map (\<lambda>i. (push_bit shft (of_nat i) AND NOT m) + base) [0..<count])"

definition BuildOpcodeTables :: "(u32 \<times> u32) list \<Rightarrow> u32 \<rightharpoonup> nat" where
  "BuildOpcodeTables tab =
     fold (\<lambda>i t idx. if idx \<in> set (entry_indices (fst (tab ! i)) (snd (tab ! i))) then Some i else t idx) [0..<length tab] Map.empty"

definition patterns :: "(u32 \<times> u32) list" where
  "patterns = map (\<lambda>e. (op_mask e, rez e)) (opcodes :: unit sh4_opcodelistentry list)"

definition OpDesc :: "u32 \<Rightarrow> 'm sh4_opcodelistentry" where
  "OpDesc op = (case BuildOpcodeTables patterns op of None \<Rightarrow> missing_opcode | Some i \<Rightarrow> opcodes ! i)"

definition IsFloatingPoint :: "'m sh4_opcodelistentry \<Rightarrow> bool" where
  "IsFloatingPoint d = (optype d AND UsesFPU \<noteq> 0)"

subsection \<open>Cycles\<close>

abbreviation (input) cpuRatio :: int where "cpuRatio \<equiv> 8"

definition isMemOp :: "nat \<Rightarrow> bool" where
  "isMemOp x = (x \<in> {2, 3, 5, 6, 7, 12, 17, 18, 19, 22, 23, 25, 27, 29, 31, 33, 35})"

definition countCycles :: "'m sh4_opcodelistentry \<Rightarrow> 'm sh4_cpu \<Rightarrow> int \<times> 'm sh4_cpu" where
  "countCycles d s =
     (let (cycles, s) = (if isMemOp (ex_type d) then
            (let s = s\<lparr>memOps := memOps s + 1\<rparr> in (if memOps s < 4 then (if mmuOn s then 5 else 2) else 0, s)) else (0, s));
          (cycles, s) = (if lastUnit s = eu_CO \<or> eu d = eu_CO \<or> lastUnit s = eu d \<and> lastUnit s \<noteq> eu_MT
            then (cycles + IssueCycles d, s\<lparr>lastUnit := eu d\<rparr>) else (cycles, s\<lparr>lastUnit := eu_CO\<rparr>))
      in (cycles * cpuRatio, s))"

definition executeCycles :: "'m sh4_opcodelistentry \<Rightarrow> 'm sh4_cpu \<Rightarrow> 'm sh4_cpu" where
  "executeCycles d s = (let (n, s) = countCycles d s in s\<lparr>cycle_counter := cycle_counter s - n\<rparr>)"

definition addCycles :: "int \<Rightarrow> 'm sh4_cpu \<Rightarrow> 'm sh4_cpu" where
  "addCycles n s = s\<lparr>cycle_counter := cycle_counter s - n\<rparr>"

subsection \<open>One instruction\<close>

definition ExecuteOpcode :: "'m sh4_env \<Rightarrow> u16 \<Rightarrow> (unit, 'm) act" where
  "ExecuteOpcode e op s =
     (let d = OpDesc (ucast op) in
      if sr_FD (sr_status (cx s)) \<and> IsFloatingPoint d then throw (pc (cx s) - 2) 0x800 s
      else bnd (oph d e (ucast op) s) (\<lambda>_. act (executeCycles d)))"

definition ReadNexOp :: "'m sh4_env \<Rightarrow> (u16, 'm) act" where
  "ReadNexOp e s =
     (let addr = pc (cx s) in
      if \<not> mmuOn s \<and> addr AND 1 \<noteq> 0 then throw addr 0xE0 s
      else IReadMem16 e addr (set_pc (addr + 2) s))"

definition next_op :: "'m sh4_env \<Rightarrow> (unit, 'm) act" where
  "next_op e s = bnd (ReadNexOp e s) (ExecuteOpcode e)"

definition AdjustDelaySlotException :: "u32 \<Rightarrow> u32 \<Rightarrow> u32 \<times> u32" where
  "AdjustDelaySlotException epc ev =
     (epc - 2, if ev = 0x800 then 0x820 else if ev = 0x180 then 0x1A0 else ev)"

definition delay_slot :: "'m sh4_env \<Rightarrow> (unit, 'm) act" where
  "delay_slot e s =
     (case next_op e s of
        Thrown epc ev t \<Rightarrow> (let (epc, ev) = AdjustDelaySlotException epc ev in Thrown epc ev t)
      | r \<Rightarrow> r)"

definition delay_slot_RTE :: "'m sh4_env \<Rightarrow> (unit, 'm) act" where
  "delay_slot_RTE e s =
     (case bnd (ReadNexOp e s) (\<lambda>op s. ExecuteOpcode e op (sr_setFull (ssr (cx s)) s)) of
        Thrown epc ev t \<Rightarrow> Fatal
      | r \<Rightarrow> r)"

fun slots :: "'m sh4_env \<Rightarrow> nat \<Rightarrow> 'm sh4_env" where
  "slots e 0 = e\<lparr>ExecuteDelayslot := (\<lambda>_. Fatal), ExecuteDelayslot_RTE := (\<lambda>_. Fatal)\<rparr>"
| "slots e (Suc d) = e\<lparr>ExecuteDelayslot := delay_slot (slots e d), ExecuteDelayslot_RTE := delay_slot_RTE (slots e d)\<rparr>"

subsection \<open>The interpreter\<close>

definition handle_thrown :: "(unit, 'm) outcome \<Rightarrow> (unit, 'm) outcome" where
  "handle_thrown r =
     (case r of Thrown epc ev t \<Rightarrow> bnd (Do_Exception_cpu epc ev t) (\<lambda>_. act (addCycles (5 * cpuRatio))) | r \<Rightarrow> r)"

definition Sh4_Step :: "'m sh4_env \<Rightarrow> (unit, 'm) act" where
  "Sh4_Step e s = handle_thrown (next_op e s)"

text \<open>The inner loop of \<open>Run\<close> and one turn of its outer loop; \<open>None\<close> when the inner loop does not end.\<close>

partial_function (option) run_slice :: "'m sh4_env \<Rightarrow> 'm sh4_cpu \<Rightarrow> (unit, 'm) outcome option" where
  "run_slice e s =
     (case next_op e s of
        Done u t \<Rightarrow> if cycle_counter t > 0 then run_slice e t else Some (Done u t)
      | r \<Rightarrow> Some r)"

definition Run_turn :: "'m sh4_env \<Rightarrow> 'm sh4_cpu \<Rightarrow> (unit, 'm) outcome option" where
  "Run_turn e s =
     (case run_slice e s of
        None \<Rightarrow> None
      | Some (Done u t) \<Rightarrow> Some (Done u (snd (UpdateSystem_INTC e (t\<lparr>cycle_counter := cycle_counter t + SH4_TIMESLICE\<rparr>))))
      | Some r \<Rightarrow> Some (handle_thrown r))"

definition Sh4_Reset :: "bool \<Rightarrow> 'm sh4_cpu \<Rightarrow> 'm sh4_cpu" where
  "Sh4_Reset hard s =
     (let s = (if hard then upd_cx (\<lambda>c. c\<lparr>interrupt_pend := 0\<rparr>) (s\<lparr>fr := (\<lambda>_. 0), xf := (\<lambda>_. 0)\<rparr>) else s);
          s = upd_cx (\<lambda>c. c\<lparr>pc := 0xA0000000, gpr := (\<lambda>_. 0), r_bank := (\<lambda>_. 0), ssr := 0, spc := 0, sgr := 0, vbr := 0\<rparr>) s;
          s = s\<lparr>gbr := 0, dbr := 0, mac := 0, pr := 0, fpul := 0\<rparr>;
          s = sr_setFull 0x700000F0 s;
          s = upd_cx (\<lambda>c. UpdateSR (c\<lparr>old_sr := sr_status c\<rparr>)) s
      in s\<lparr>fpscr := 0x00040001, old_fpscr := 0x00040001, lastUnit := eu_CO, memOps := 0, cycle_counter := SH4_TIMESLICE\<rparr>)"

end
