(* ===== verification/Sh4_Frame.thy ===== *)
theory Sh4_Frame
  imports Sh4_Decode
begin

unbundle bit_operations_syntax

section \<open>What every SH-4 instruction keeps\<close>

text \<open>
  One judgement on the outcome of an instruction, proved for each of the handlers: an instruction that ends normally keeps
  the invariant of the processor and never gives cycles back; one that throws has, in addition, changed no register, and
  the exception carries the address of the instruction.  The laws the handlers rely on, those of the memory interface, the
  scheduler and the delay slot, are the locales \<open>sh4_bus\<close> and \<open>sh4_slot\<close>.
\<close>

subsection \<open>Invariant and measure\<close>

definition core_ok :: "sh4_state \<Rightarrow> bool" where
  "core_ok c \<longleftrightarrow> cache_ok c \<and> sr_T c \<le> 1"

definition cpu_ok :: "sh4_state \<Rightarrow> bool" where
  "cpu_ok c \<longleftrightarrow> intc_ok c \<and> bank_ok c \<and> sr_T c \<le> 1"

text \<open>Cycles left in the slice, doubled, plus one when a second instruction may still be issued for free.\<close>

definition fuel :: "'m sh4_cpu \<Rightarrow> int" where
  "fuel s = 2 * cycle_counter s + (if lastUnit s = eu_CO then 0 else 1)"

definition same_regs :: "'m sh4_cpu \<Rightarrow> 'm sh4_cpu \<Rightarrow> bool" where
  "same_regs s t \<longleftrightarrow>
     gpr (cx t) = gpr (cx s) \<and> r_bank (cx t) = r_bank (cx s) \<and> ssr (cx t) = ssr (cx s) \<and> spc (cx t) = spc (cx s)
     \<and> sgr (cx t) = sgr (cx s) \<and> vbr (cx t) = vbr (cx s) \<and> sr_status (cx t) = sr_status (cx s) \<and> sr_T (cx t) = sr_T (cx s)
     \<and> old_sr (cx t) = old_sr (cx s) \<and> gbr t = gbr s \<and> dbr t = dbr s \<and> pr t = pr s \<and> fpul t = fpul s \<and> mac t = mac s
     \<and> fpscr t = fpscr s \<and> old_fpscr t = old_fpscr s \<and> fr t = fr s \<and> xf t = xf s"

definition calm :: "'m sh4_cpu \<Rightarrow> 'm sh4_cpu \<Rightarrow> bool" where
  "calm s t \<longleftrightarrow> (core_ok (cx s) \<longrightarrow> core_ok (cx t)) \<and> (cpu_ok (cx s) \<longrightarrow> cpu_ok (cx t)) \<and> fuel t \<le> fuel s"

definition quiet :: "'m sh4_cpu \<Rightarrow> 'm sh4_cpu \<Rightarrow> bool" where
  "quiet s t \<longleftrightarrow> calm s t \<and> same_regs s t \<and> pc (cx t) = pc (cx s)"

definition judge :: "'m sh4_cpu \<Rightarrow> ('a, 'm) outcome \<Rightarrow> bool" where
  "judge s o1 =
     (case o1 of Done v t \<Rightarrow> calm s t
      | Thrown epc ev t \<Rightarrow> calm s t \<and> same_regs s t \<and> epc = pc (cx s) - 2
      | Fatal \<Rightarrow> True)"

text \<open>An access to memory: like \<open>judge\<close>, and it changes no register even when it succeeds.\<close>

definition polite :: "('a, 'm) act \<Rightarrow> bool" where
  "polite f \<longleftrightarrow> (\<forall>s. case f s of Done v t \<Rightarrow> quiet s t | Thrown epc ev t \<Rightarrow> quiet s t \<and> epc = pc (cx s) - 2 | Fatal \<Rightarrow> True)"

subsection \<open>Calculus\<close>

lemma calm_refl [simp]: "calm s s"
  by (simp add: calm_def)

lemma calm_trans: "calm s t \<Longrightarrow> calm t u \<Longrightarrow> calm s u"
  by (auto simp: calm_def)

lemma calm_if [simp]: "calm s (if b then x else y) = ((b \<longrightarrow> calm s x) \<and> (\<not> b \<longrightarrow> calm s y))"
  by simp

lemma same_trans: "same_regs s t \<Longrightarrow> same_regs t u \<Longrightarrow> same_regs s u"
  by (simp add: same_regs_def)

lemma quiet_trans: "quiet s t \<Longrightarrow> quiet t u \<Longrightarrow> quiet s u"
  by (auto simp: quiet_def intro: calm_trans same_trans)

lemma quiet_refl [simp]: "quiet s s"
  by (simp add: quiet_def same_regs_def)

lemma judge_Fatal [simp]: "judge s Fatal"
  by (simp add: judge_def)

lemma judge_Done [simp]: "judge s (Done v t) = calm s t"
  by (simp add: judge_def)

lemma judge_act [simp]: "judge s (act f s') = calm s (f s')"
  by (simp add: act_def)

lemma judge_throw [simp]: "judge s (throw epc ev s) = (epc = pc (cx s) - 2)"
  by (simp add: judge_def throw_def same_regs_def)

text \<open>After a first access that changed no register the rest is judged from there.\<close>

lemma judge_from_quiet: "quiet s t \<Longrightarrow> judge t o1 \<Longrightarrow> judge s o1"
  by (cases o1) (auto simp: judge_def quiet_def intro: calm_trans same_trans)

lemma judge_bnd_polite:
  assumes "polite f" "\<And>v t. quiet s t \<Longrightarrow> judge t (k v t)"
  shows "judge s (bnd (f s) k)"
  using assms(1) [unfolded polite_def, rule_format, of s] assms(2) judge_from_quiet
  by (cases "f s") (fastforce simp: judge_def quiet_def)+

lemma judge_polite: "polite f \<Longrightarrow> judge s (f s)"
  unfolding polite_def by (drule spec [of _ s]) (auto simp: judge_def quiet_def split: outcome.splits)

lemma judge_load: "(\<And>a. polite (rd a)) \<Longrightarrow> (\<And>v t. calm t (k v t)) \<Longrightarrow> judge s (load rd a k s)"
  unfolding load_def by (rule judge_bnd_polite) simp_all

lemma judge_store: "(\<And>a v. polite (wr a v)) \<Longrightarrow> (\<And>a t. calm t (k a t)) \<Longrightarrow> judge s (store wr a d k s)"
  unfolding store_def by (rule judge_bnd_polite) simp_all

text \<open>Work after a judged step that only sets registers.\<close>

lemma judge_bnd_act: "judge s o1 \<Longrightarrow> (\<And>t. calm t (f t)) \<Longrightarrow> judge s (bnd o1 (\<lambda>_. act f))"
  by (cases o1) (auto simp: judge_def act_def intro: calm_trans)

subsection \<open>Register updates\<close>

lemma fuel_frame [simp]:
  "fuel (s\<lparr>cx := c\<rparr>) = fuel s" "fuel (s\<lparr>gbr := v\<rparr>) = fuel s" "fuel (s\<lparr>dbr := v\<rparr>) = fuel s" "fuel (s\<lparr>pr := v\<rparr>) = fuel s"
  "fuel (s\<lparr>fpul := v\<rparr>) = fuel s" "fuel (s\<lparr>mac := w\<rparr>) = fuel s" "fuel (s\<lparr>fpscr := v\<rparr>) = fuel s" "fuel (s\<lparr>old_fpscr := v\<rparr>) = fuel s"
  "fuel (s\<lparr>fr := f\<rparr>) = fuel s" "fuel (s\<lparr>xf := f\<rparr>) = fuel s" "fuel (s\<lparr>CCN_TRA := v\<rparr>) = fuel s" "fuel (s\<lparr>memOps := i\<rparr>) = fuel s"
  "fuel (s\<lparr>mmuOn := b\<rparr>) = fuel s" "fuel (s\<lparr>dev := d\<rparr>) = fuel s" "fuel (s\<lparr>sh4_sched_next := i\<rparr>) = fuel s"
  by (simp_all add: fuel_def)

lemma calm_fields [simp]:
  "calm s (t\<lparr>gbr := v\<rparr>) = calm s t" "calm s (t\<lparr>dbr := v\<rparr>) = calm s t" "calm s (t\<lparr>pr := v\<rparr>) = calm s t"
  "calm s (t\<lparr>fpul := v\<rparr>) = calm s t" "calm s (t\<lparr>mac := w\<rparr>) = calm s t" "calm s (t\<lparr>fpscr := v\<rparr>) = calm s t"
  "calm s (t\<lparr>old_fpscr := v\<rparr>) = calm s t" "calm s (t\<lparr>fr := f\<rparr>) = calm s t" "calm s (t\<lparr>xf := f\<rparr>) = calm s t"
  "calm s (t\<lparr>CCN_TRA := v\<rparr>) = calm s t" "calm s (t\<lparr>sh4_sched_next := i\<rparr>) = calm s t"
  by (simp_all add: calm_def)

lemma mask_ok_more [simp]:
  "mask_ok (s\<lparr>r_bank := g\<rparr>) = mask_ok s" "mask_ok (s\<lparr>sgr := v\<rparr>) = mask_ok s"
  by (simp_all add: mask_ok_def)

lemma bank_ok_frame [simp]:
  "bank_ok (s\<lparr>gpr := g\<rparr>) = bank_ok s" "bank_ok (s\<lparr>r_bank := g\<rparr>) = bank_ok s" "bank_ok (s\<lparr>ssr := v\<rparr>) = bank_ok s"
  "bank_ok (s\<lparr>spc := v\<rparr>) = bank_ok s" "bank_ok (s\<lparr>sgr := v\<rparr>) = bank_ok s" "bank_ok (s\<lparr>vbr := v\<rparr>) = bank_ok s"
  "bank_ok (s\<lparr>pc := v\<rparr>) = bank_ok s" "bank_ok (s\<lparr>sr_T := v\<rparr>) = bank_ok s" "bank_ok (s\<lparr>CCN_INTEVT := v\<rparr>) = bank_ok s"
  "bank_ok (s\<lparr>CCN_EXPEVT := v\<rparr>) = bank_ok s"
  by (simp_all add: bank_ok_def)

lemma calm_cx [simp]:
  "calm s (t\<lparr>cx := (cx t)\<lparr>gpr := g\<rparr>\<rparr>) = calm s t" "calm s (t\<lparr>cx := (cx t)\<lparr>r_bank := g\<rparr>\<rparr>) = calm s t"
  "calm s (t\<lparr>cx := (cx t)\<lparr>ssr := v\<rparr>\<rparr>) = calm s t" "calm s (t\<lparr>cx := (cx t)\<lparr>spc := v\<rparr>\<rparr>) = calm s t"
  "calm s (t\<lparr>cx := (cx t)\<lparr>sgr := v\<rparr>\<rparr>) = calm s t" "calm s (t\<lparr>cx := (cx t)\<lparr>vbr := v\<rparr>\<rparr>) = calm s t"
  "calm s (t\<lparr>cx := (cx t)\<lparr>pc := v\<rparr>\<rparr>) = calm s t"
  by (simp_all add: calm_def core_ok_def cpu_ok_def intc_ok_def)

lemma calm_setters [simp]:
  "calm s (set_r n v t) = calm s t" "calm s (set_bank n v t) = calm s t" "calm s (set_pc v t) = calm s t"
  "calm s (set_mac_l v t) = calm s t" "calm s (set_mac_h v t) = calm s t" "calm s (set_fr n v t) = calm s t"
  "calm s (set_pair b n w t) = calm s t" "calm s (setDR n w t) = calm s t" "calm s (UpdateFPSCR t) = calm s t"
  by (auto simp: set_r_def set_bank_def set_pc_def set_mac_l_def set_mac_h_def set_fr_def set_pair_def setDR_def UpdateFPSCR_def Let_def)

lemma calm_T [simp]: "v \<le> 1 \<Longrightarrow> calm s t \<Longrightarrow> calm s (set_Tw v t)" "calm s t \<Longrightarrow> calm s (set_T b t)"
  by (auto simp: set_Tw_def set_T_def calm_def core_ok_def cpu_ok_def intc_ok_def)

lemma status_bit_IMASK: "k < 4 \<or> 8 \<le> k \<Longrightarrow> sr_IMASK (put_bit k b v) = sr_IMASK v"
proof -
  assume k: "k < 4 \<or> 8 \<le> k"
  have m: "(0xF :: u32) = mask 4" by (simp add: mask_eq_exp_minus_1)
  have "drop_bit 4 (put_bit k b v) AND 0xF = drop_bit 4 v AND 0xF"
    unfolding m by (rule bit_word_eqI) (use k in \<open>auto simp: bit_simps put_bit_def\<close>)
  then show ?thesis by (simp add: sr_IMASK_def)
qed

lemma calm_status [simp]:
  assumes "k = 1 \<or> k = 8 \<or> k = 9"
  shows "calm s (set_status_bit k b t) = calm s t"
proof -
  have "sr_BL (put_bit k b v) = sr_BL v" "sr_RB (put_bit k b v) = sr_RB v" "sr_MD (put_bit k b v) = sr_MD v" for v
    using assms by (auto simp: sr_BL_def sr_RB_def sr_MD_def)
  moreover have "sr_IMASK (put_bit k b v) = sr_IMASK v" for v
    using assms by (intro status_bit_IMASK) auto
  ultimately show ?thesis
    by (simp add: set_status_bit_def calm_def core_ok_def cpu_ok_def intc_ok_def mask_ok_def bank_ok_def)
qed

lemma UpdateSR_T [simp]: "sr_T (UpdateSR c) = sr_T c"
  by (simp add: UpdateSR_def Let_def SRdecode_def ChangeGPR_def recalc_pending_itrs_def)

lemma handler_frame [simp]:
  "sr_T (enter_handler e c) = sr_T c" "bank_ok (enter_handler e c)"
  "sr_T (Do_Interrupt ev c) = sr_T c" "bank_ok (Do_Interrupt ev c)"
  by (simp_all add: Do_Interrupt_def enter_handler_def Let_def UpdateSR_bank_ok)

lemma cpu_ok_handlers:
  "core_ok c \<Longrightarrow> cpu_ok (enter_handler epc c)" "core_ok c \<Longrightarrow> cpu_ok (UpdateSR c)"
  "cpu_ok c \<Longrightarrow> cpu_ok (snd (UpdateINTC c))"
  by (simp_all add: core_ok_def cpu_ok_def enter_handler_ok UpdateSR_ok UpdateSR_bank_ok UpdateINTC_def handlers_ok)

lemma cpu_ok_core: "cpu_ok c \<Longrightarrow> core_ok c"
  by (simp add: cpu_ok_def core_ok_def intc_ok_def)

lemma core_Do_Interrupt: "core_ok c \<Longrightarrow> core_ok (Do_Interrupt ev c)"
  using cpu_ok_handlers(1) [of "c\<lparr>CCN_INTEVT := ev\<rparr>" "pc c"] by (simp add: Do_Interrupt_def Let_def core_ok_def cpu_ok_def intc_ok_def)

lemma calm_full: "(core_ok (cx s) \<Longrightarrow> cpu_ok (cx t)) \<Longrightarrow> fuel t \<le> fuel s \<Longrightarrow> calm s t"
  by (auto simp: calm_def cpu_ok_core)

lemma calm_UpdateSR: "(core_ok (cx s) \<Longrightarrow> core_ok (cx t)) \<Longrightarrow> fuel t \<le> fuel s \<Longrightarrow> calm s (UpdateSR_INTC t)"
  by (rule calm_full) (simp_all add: UpdateSR_INTC_def Let_def cpu_ok_handlers)

lemma calm_exception: "Do_Exception epc ev c = Some c' \<Longrightarrow> core_ok c \<Longrightarrow> cpu_ok c'"
  using cpu_ok_handlers(1) [of "c\<lparr>CCN_EXPEVT := ev\<rparr>" epc]
  by (auto simp: Do_Exception_def Let_def core_ok_def cpu_ok_def intc_ok_def split: if_splits)

lemma judge_exception: "judge s (Do_Exception_cpu epc ev s)"
  by (auto simp: Do_Exception_cpu_def split: option.split intro!: calm_full dest: calm_exception)

lemma core_ok_context [simp]:
  "core_ok (c\<lparr>gpr := g\<rparr>) = core_ok c" "core_ok (c\<lparr>pc := v\<rparr>) = core_ok c"
  by (simp_all add: core_ok_def)

lemma core_setFull: "core_ok (cx s) \<Longrightarrow> core_ok (cx (sr_setFull v s))"
  by (simp add: core_ok_def sr_setFull_def word_and_le1)

lemma fuel_setFull [simp]: "fuel (sr_setFull v s) = fuel s"
  by (simp add: sr_setFull_def)

lemma shiftr31_le: "drop_bit 31 (v :: u32) \<le> 1"
proof -
  have "unat (drop_bit 31 v) \<le> 1" using unsigned_less [of v, where ?'a = nat] unfolding unat_drop_bit_eq by (simp add: drop_bit_eq_div)
  then show ?thesis by (simp add: word_le_nat_alt)
qed

subsection \<open>The laws of the memory interface\<close>

named_theorems op_judge

locale sh4_bus =
  fixes e :: "'m sh4_env"
  assumes reads: "polite (ReadMem8 e a)" "polite (ReadMem16 e a)" "polite (ReadMem32 e a)" "polite (ReadMem64 e a)" "polite (IReadMem16 e a)"
    and writes: "polite (WriteMem8 e a b)" "polite (WriteMem16 e a h)" "polite (WriteMem32 e a w)" "polite (WriteMem64 e a d)"
    and queue: "polite (doSqWrite e a)"
    and ldtlb: "polite (ldtlb_op e)"
    and tick: "quiet s (sh4_sched_tick e n s)"
    and bios: "judge s (reios_trap e op s)"

locale sh4_slot = sh4_bus e for e :: "'m sh4_env" +
  assumes slot: "judge s (ExecuteDelayslot e s)"
    and slot_rte: "ExecuteDelayslot_RTE e s = Done u t \<Longrightarrow> (core_ok (cx s) \<longrightarrow> core_ok (cx t)) \<and> fuel t \<le> fuel s"
    and slot_rte_throws: "ExecuteDelayslot_RTE e s \<noteq> Thrown epc ev t"
begin

lemma judge_jump: "judge s (bnd (ExecuteDelayslot e s) (\<lambda>_. act (\<lambda>t. set_pc a t)))"
  by (rule judge_bnd_act [OF slot]) simp

lemma judge_call: "judge s (bnd (ExecuteDelayslot e s) (\<lambda>_. act (\<lambda>t. set_pc a (t\<lparr>pr := b\<rparr>))))"
  by (rule judge_bnd_act [OF slot]) simp

lemma judge_branches [op_judge]:
  "judge s (i0000_nnnn_0010_0011 e op s)" "judge s (i0000_nnnn_0000_0011 e op s)" "judge s (i0000_0000_0000_1011 e op s)"
  "judge s (i1000_1111_iiii_iiii e op s)" "judge s (i1000_1101_iiii_iiii e op s)" "judge s (i1010_iiii_iiii_iiii e op s)"
  "judge s (i1011_iiii_iiii_iiii e op s)" "judge s (i0100_nnnn_0010_1011 e op s)" "judge s (i0100_nnnn_0000_1011 e op s)"
  "judge s (i1000_1011_iiii_iiii e op s)" "judge s (i1000_1001_iiii_iiii e op s)"
  by (simp_all add: i0000_nnnn_0010_0011_def i0000_nnnn_0000_0011_def i0000_0000_0000_1011_def i1000_1111_iiii_iiii_def i1000_1101_iiii_iiii_def
    i1010_iiii_iiii_iiii_def i1011_iiii_iiii_iiii_def i0100_nnnn_0010_1011_def i0100_nnnn_0000_1011_def i1000_1011_iiii_iiii_def
    i1000_1001_iiii_iiii_def Let_def judge_jump judge_call)

lemma judge_plain_1 [op_judge]:
  "judge s (i0000_nnnn_0001_0010 e op s)" "judge s (i0000_nnnn_0010_0010 e op s)" "judge s (i0000_nnnn_0011_0010 e op s)"
  "judge s (i0000_nnnn_0011_1010 e op s)" "judge s (i0000_nnnn_0100_0010 e op s)" "judge s (i0000_nnnn_0101_1010 e op s)"
  "judge s (i0000_nnnn_1111_1010 e op s)" "judge s (i0000_nnnn_0000_1010 e op s)" "judge s (i0000_nnnn_0001_1010 e op s)"
  "judge s (i0000_nnnn_0010_1010 e op s)" "judge s (i0000_nnnn_0000_0010 e op s)" "judge s (i0000_nnnn_0110_1010 e op s)"
  "judge s (i0000_nnnn_1mmm_0010 e op s)" "judge s (i0100_nnnn_0000_1010 e op s)" "judge s (i0100_nnnn_0001_1010 e op s)"
  "judge s (i0100_nnnn_0010_1010 e op s)" "judge s (i0100_nnnn_0101_1010 e op s)" "judge s (i0100_nnnn_1111_1010 e op s)"
  "judge s (i0100_nnnn_0001_1110 e op s)" "judge s (i0100_nnnn_0010_1110 e op s)" "judge s (i0100_nnnn_0011_1110 e op s)"
  "judge s (i0100_nnnn_0011_1010 e op s)" "judge s (i0100_nnnn_0100_1110 e op s)" "judge s (i0100_nnnn_1mmm_1110 e op s)"
  by (simp_all add: i0000_nnnn_0001_0010_def i0000_nnnn_0010_0010_def i0000_nnnn_0011_0010_def i0000_nnnn_0011_1010_def i0000_nnnn_0100_0010_def
    i0000_nnnn_0101_1010_def i0000_nnnn_1111_1010_def i0000_nnnn_0000_1010_def i0000_nnnn_0001_1010_def i0000_nnnn_0010_1010_def
    i0000_nnnn_0000_0010_def i0000_nnnn_0110_1010_def i0000_nnnn_1mmm_0010_def i0100_nnnn_0000_1010_def i0100_nnnn_0001_1010_def
    i0100_nnnn_0010_1010_def i0100_nnnn_0101_1010_def i0100_nnnn_1111_1010_def i0100_nnnn_0001_1110_def i0100_nnnn_0010_1110_def
    i0100_nnnn_0011_1110_def i0100_nnnn_0011_1010_def i0100_nnnn_0100_1110_def i0100_nnnn_1mmm_1110_def Let_def split_def word_and_le1 shiftr31_le)

lemma judge_plain_2 [op_judge]:
  "judge s (i0110_nnnn_mmmm_0011 e op s)" "judge s (i1100_0111_iiii_iiii e op s)" "judge s (i1110_nnnn_iiii_iiii e op s)"
  "judge s (i0000_0000_0010_1000 e op s)" "judge s (i0011_nnnn_mmmm_1000 e op s)" "judge s (i0011_nnnn_mmmm_1100 e op s)"
  "judge s (i0111_nnnn_iiii_iiii e op s)" "judge s (i0010_nnnn_mmmm_1001 e op s)" "judge s (i0010_nnnn_mmmm_1010 e op s)"
  "judge s (i0010_nnnn_mmmm_1011 e op s)" "judge s (i0100_nnnn_0000_1000 e op s)" "judge s (i0100_nnnn_0000_1001 e op s)"
  "judge s (i0100_nnnn_0001_1000 e op s)" "judge s (i0100_nnnn_0001_1001 e op s)" "judge s (i0100_nnnn_0010_1000 e op s)"
  "judge s (i0100_nnnn_0010_1001 e op s)" "judge s (i1100_1001_iiii_iiii e op s)" "judge s (i1100_1010_iiii_iiii e op s)"
  "judge s (i1100_1011_iiii_iiii e op s)" "judge s (i0000_0000_0000_1001 e op s)" "judge s (i0000_nnnn_1001_0011 e op s)"
  "judge s (i0000_nnnn_1010_0011 e op s)" "judge s (i0000_nnnn_1011_0011 e op s)" "judge s (i0000_0000_0101_1000 e op s)"
  by (simp_all add: i0110_nnnn_mmmm_0011_def i1100_0111_iiii_iiii_def i1110_nnnn_iiii_iiii_def i0000_0000_0010_1000_def i0011_nnnn_mmmm_1000_def
    i0011_nnnn_mmmm_1100_def i0111_nnnn_iiii_iiii_def i0010_nnnn_mmmm_1001_def i0010_nnnn_mmmm_1010_def i0010_nnnn_mmmm_1011_def
    i0100_nnnn_0000_1000_def i0100_nnnn_0000_1001_def i0100_nnnn_0001_1000_def i0100_nnnn_0001_1001_def i0100_nnnn_0010_1000_def
    i0100_nnnn_0010_1001_def i1100_1001_iiii_iiii_def i1100_1010_iiii_iiii_def i1100_1011_iiii_iiii_def i0000_0000_0000_1001_def
    i0000_nnnn_1001_0011_def i0000_nnnn_1010_0011_def i0000_nnnn_1011_0011_def i0000_0000_0101_1000_def Let_def split_def word_and_le1 shiftr31_le)

lemma judge_plain_3 [op_judge]:
  "judge s (i0000_0000_0100_1000 e op s)" "judge s (i0000_0000_0001_1000 e op s)" "judge s (i0000_0000_0000_1000 e op s)"
  "judge s (i0000_nnnn_0010_1001 e op s)" "judge s (i0100_nnnn_0001_0001 e op s)" "judge s (i0100_nnnn_0001_0101 e op s)"
  "judge s (i1000_1000_iiii_iiii e op s)" "judge s (i0011_nnnn_mmmm_0000 e op s)" "judge s (i0011_nnnn_mmmm_0010 e op s)"
  "judge s (i0011_nnnn_mmmm_0011 e op s)" "judge s (i0011_nnnn_mmmm_0110 e op s)" "judge s (i0011_nnnn_mmmm_0111 e op s)"
  "judge s (i0010_nnnn_mmmm_1100 e op s)" "judge s (i1100_1000_iiii_iiii e op s)" "judge s (i0010_nnnn_mmmm_1000 e op s)"
  "judge s (i0010_nnnn_mmmm_1110 e op s)" "judge s (i0010_nnnn_mmmm_1111 e op s)" "judge s (i0011_nnnn_mmmm_0101 e op s)"
  "judge s (i0011_nnnn_mmmm_1101 e op s)" "judge s (i0000_nnnn_mmmm_0111 e op s)" "judge s (i0000_0000_0001_1001 e op s)"
  "judge s (i0010_nnnn_mmmm_0111 e op s)" "judge s (i0011_nnnn_mmmm_0100 e op s)" "judge s (i0011_nnnn_mmmm_1110 e op s)"
  by (simp_all add: i0000_0000_0100_1000_def i0000_0000_0001_1000_def i0000_0000_0000_1000_def i0000_nnnn_0010_1001_def i0100_nnnn_0001_0001_def
    i0100_nnnn_0001_0101_def i1000_1000_iiii_iiii_def i0011_nnnn_mmmm_0000_def i0011_nnnn_mmmm_0010_def i0011_nnnn_mmmm_0011_def
    i0011_nnnn_mmmm_0110_def i0011_nnnn_mmmm_0111_def i0010_nnnn_mmmm_1100_def i1100_1000_iiii_iiii_def i0010_nnnn_mmmm_1000_def
    i0010_nnnn_mmmm_1110_def i0010_nnnn_mmmm_1111_def i0011_nnnn_mmmm_0101_def i0011_nnnn_mmmm_1101_def i0000_nnnn_mmmm_0111_def
    i0000_0000_0001_1001_def i0010_nnnn_mmmm_0111_def i0011_nnnn_mmmm_0100_def i0011_nnnn_mmmm_1110_def Let_def split_def word_and_le1 shiftr31_le)

lemma judge_plain_4 [op_judge]:
  "judge s (i0011_nnnn_mmmm_1111 e op s)" "judge s (i0011_nnnn_mmmm_1010 e op s)" "judge s (i0011_nnnn_mmmm_1011 e op s)"
  "judge s (i0100_nnnn_0001_0000 e op s)" "judge s (i0110_nnnn_mmmm_1010 e op s)" "judge s (i0110_nnnn_mmmm_1011 e op s)"
  "judge s (i0110_nnnn_mmmm_0111 e op s)" "judge s (i0100_nnnn_0000_0000 e op s)" "judge s (i0100_nnnn_0010_0000 e op s)"
  "judge s (i0100_nnnn_0000_0001 e op s)" "judge s (i0100_nnnn_0010_0001 e op s)" "judge s (i0100_nnnn_mmmm_1100 e op s)"
  "judge s (i0100_nnnn_mmmm_1101 e op s)" "judge s (i0100_nnnn_0010_0100 e op s)" "judge s (i0100_nnnn_0000_0100 e op s)"
  "judge s (i0100_nnnn_0010_0101 e op s)" "judge s (i0100_nnnn_0000_0101 e op s)" "judge s (i0110_nnnn_mmmm_1000 e op s)"
  "judge s (i0110_nnnn_mmmm_1001 e op s)" "judge s (i0110_nnnn_mmmm_1100 e op s)" "judge s (i0110_nnnn_mmmm_1101 e op s)"
  "judge s (i0110_nnnn_mmmm_1110 e op s)" "judge s (i0110_nnnn_mmmm_1111 e op s)" "judge s (i0010_nnnn_mmmm_1101 e op s)"
  by (simp_all add: i0011_nnnn_mmmm_1111_def i0011_nnnn_mmmm_1010_def i0011_nnnn_mmmm_1011_def i0100_nnnn_0001_0000_def i0110_nnnn_mmmm_1010_def
    i0110_nnnn_mmmm_1011_def i0110_nnnn_mmmm_0111_def i0100_nnnn_0000_0000_def i0100_nnnn_0010_0000_def i0100_nnnn_0000_0001_def
    i0100_nnnn_0010_0001_def i0100_nnnn_mmmm_1100_def i0100_nnnn_mmmm_1101_def i0100_nnnn_0010_0100_def i0100_nnnn_0000_0100_def
    i0100_nnnn_0010_0101_def i0100_nnnn_0000_0101_def i0110_nnnn_mmmm_1000_def i0110_nnnn_mmmm_1001_def i0110_nnnn_mmmm_1100_def
    i0110_nnnn_mmmm_1101_def i0110_nnnn_mmmm_1110_def i0110_nnnn_mmmm_1111_def i0010_nnnn_mmmm_1101_def Let_def split_def word_and_le1 shiftr31_le)

lemma judge_plain_5 [op_judge]:
  "judge s (i0100_nnnn_0110_1010 e op s)"
  by (simp_all add: i0100_nnnn_0110_1010_def Let_def split_def word_and_le1 shiftr31_le)

lemma judge_loads [op_judge]:
  "judge s (i0000_nnnn_mmmm_1100 e op s)" "judge s (i0000_nnnn_mmmm_1101 e op s)" "judge s (i0000_nnnn_mmmm_1110 e op s)"
  "judge s (i0100_nnnn_0000_0110 e op s)" "judge s (i0100_nnnn_0001_0110 e op s)" "judge s (i0100_nnnn_0010_0110 e op s)"
  "judge s (i0100_nnnn_0101_0110 e op s)" "judge s (i0100_nnnn_1111_0110 e op s)" "judge s (i0100_nnnn_0001_0111 e op s)"
  "judge s (i0100_nnnn_0010_0111 e op s)" "judge s (i0100_nnnn_0011_0111 e op s)" "judge s (i0100_nnnn_0011_0110 e op s)"
  "judge s (i0100_nnnn_0100_0111 e op s)" "judge s (i0100_nnnn_1mmm_0111 e op s)" "judge s (i0101_nnnn_mmmm_iiii e op s)"
  "judge s (i0110_nnnn_mmmm_0000 e op s)" "judge s (i0110_nnnn_mmmm_0001 e op s)" "judge s (i0110_nnnn_mmmm_0010 e op s)"
  "judge s (i0110_nnnn_mmmm_0100 e op s)" "judge s (i0110_nnnn_mmmm_0101 e op s)" "judge s (i0110_nnnn_mmmm_0110 e op s)"
  "judge s (i1000_0100_mmmm_iiii e op s)" "judge s (i1000_0101_mmmm_iiii e op s)" "judge s (i1001_nnnn_iiii_iiii e op s)"
  "judge s (i1100_0100_iiii_iiii e op s)" "judge s (i1100_0101_iiii_iiii e op s)" "judge s (i1100_0110_iiii_iiii e op s)"
  "judge s (i1101_nnnn_iiii_iiii e op s)" "judge s (i1100_1100_iiii_iiii e op s)" "judge s (i0100_nnnn_0110_0110 e op s)"
  by (simp_all add: i0000_nnnn_mmmm_1100_def i0000_nnnn_mmmm_1101_def i0000_nnnn_mmmm_1110_def i0100_nnnn_0000_0110_def i0100_nnnn_0001_0110_def
    i0100_nnnn_0010_0110_def i0100_nnnn_0101_0110_def i0100_nnnn_1111_0110_def i0100_nnnn_0001_0111_def i0100_nnnn_0010_0111_def
    i0100_nnnn_0011_0111_def i0100_nnnn_0011_0110_def i0100_nnnn_0100_0111_def i0100_nnnn_1mmm_0111_def i0101_nnnn_mmmm_iiii_def
    i0110_nnnn_mmmm_0000_def i0110_nnnn_mmmm_0001_def i0110_nnnn_mmmm_0010_def i0110_nnnn_mmmm_0100_def i0110_nnnn_mmmm_0101_def
    i0110_nnnn_mmmm_0110_def i1000_0100_mmmm_iiii_def i1000_0101_mmmm_iiii_def i1001_nnnn_iiii_iiii_def i1100_0100_iiii_iiii_def
    i1100_0101_iiii_iiii_def i1100_0110_iiii_iiii_def i1101_nnnn_iiii_iiii_def i1100_1100_iiii_iiii_def i0100_nnnn_0110_0110_def judge_load reads Let_def)

lemma judge_stores [op_judge]:
  "judge s (i0000_nnnn_mmmm_0100 e op s)" "judge s (i0000_nnnn_mmmm_0101 e op s)" "judge s (i0000_nnnn_mmmm_0110 e op s)"
  "judge s (i0001_nnnn_mmmm_iiii e op s)" "judge s (i0010_nnnn_mmmm_0000 e op s)" "judge s (i0010_nnnn_mmmm_0001 e op s)"
  "judge s (i0010_nnnn_mmmm_0010 e op s)" "judge s (i0010_nnnn_mmmm_0100 e op s)" "judge s (i0010_nnnn_mmmm_0101 e op s)"
  "judge s (i0010_nnnn_mmmm_0110 e op s)" "judge s (i0100_nnnn_0101_0010 e op s)" "judge s (i0100_nnnn_0000_0010 e op s)"
  "judge s (i0100_nnnn_0001_0010 e op s)" "judge s (i0100_nnnn_0010_0010 e op s)" "judge s (i0100_nnnn_1111_0010 e op s)"
  "judge s (i0100_nnnn_0001_0011 e op s)" "judge s (i0100_nnnn_0010_0011 e op s)" "judge s (i0100_nnnn_0011_0011 e op s)"
  "judge s (i0100_nnnn_0011_0010 e op s)" "judge s (i0100_nnnn_0100_0011 e op s)" "judge s (i0100_nnnn_1mmm_0011 e op s)"
  "judge s (i0100_nnnn_0110_0010 e op s)" "judge s (i0100_nnnn_0000_0011 e op s)" "judge s (i1000_0000_mmmm_iiii e op s)"
  "judge s (i1000_0001_mmmm_iiii e op s)" "judge s (i1100_0000_iiii_iiii e op s)" "judge s (i1100_0001_iiii_iiii e op s)"
  "judge s (i1100_0010_iiii_iiii e op s)" "judge s (i0000_nnnn_1100_0011 e op s)"
  by (simp_all add: i0000_nnnn_mmmm_0100_def i0000_nnnn_mmmm_0101_def i0000_nnnn_mmmm_0110_def i0001_nnnn_mmmm_iiii_def i0010_nnnn_mmmm_0000_def
    i0010_nnnn_mmmm_0001_def i0010_nnnn_mmmm_0010_def i0010_nnnn_mmmm_0100_def i0010_nnnn_mmmm_0101_def i0010_nnnn_mmmm_0110_def
    i0100_nnnn_0101_0010_def i0100_nnnn_0000_0010_def i0100_nnnn_0001_0010_def i0100_nnnn_0010_0010_def i0100_nnnn_1111_0010_def
    i0100_nnnn_0001_0011_def i0100_nnnn_0010_0011_def i0100_nnnn_0011_0011_def i0100_nnnn_0011_0010_def i0100_nnnn_0100_0011_def
    i0100_nnnn_1mmm_0011_def i0100_nnnn_0110_0010_def i0100_nnnn_0000_0011_def i1000_0000_mmmm_iiii_def i1000_0001_mmmm_iiii_def
    i1100_0000_iiii_iiii_def i1100_0001_iiii_iiii_def i1100_0010_iiii_iiii_def i0000_nnnn_1100_0011_def judge_store writes Let_def)

lemma judge_fpu [op_judge]:
  "judge s (i1111_nnnn_mmmm_0000 e op s)" "judge s (i1111_nnnn_mmmm_0001 e op s)" "judge s (i1111_nnnn_mmmm_0010 e op s)"
  "judge s (i1111_nnnn_mmmm_0011 e op s)" "judge s (i1111_nnnn_mmmm_0100 e op s)" "judge s (i1111_nnnn_mmmm_0101 e op s)"
  "judge s (i1111_nnnn_mmmm_1100 e op s)" "judge s (i1111_nnnn_0101_1101 e op s)" "judge s (i1111_nnn0_1111_1101 e op s)"
  "judge s (i1111_nnnn_0111_1101 e op s)" "judge s (i1111_nnnn_1011_1101 e op s)" "judge s (i1111_nnnn_1010_1101 e op s)"
  "judge s (i1111_nnmm_1110_1101 e op s)" "judge s (i1111_nnnn_1000_1101 e op s)" "judge s (i1111_nnnn_1001_1101 e op s)"
  "judge s (i1111_nnnn_0001_1101 e op s)" "judge s (i1111_nnnn_0000_1101 e op s)" "judge s (i1111_nnnn_0010_1101 e op s)"
  "judge s (i1111_nnnn_0100_1101 e op s)" "judge s (i1111_1011_1111_1101 e op s)" "judge s (i1111_0011_1111_1101 e op s)"
  "judge s (i1111_nnnn_0110_1101 e op s)" "judge s (i1111_nnnn_0011_1101 e op s)" "judge s (i1111_nnnn_mmmm_1110 e op s)"
  "judge s (i1111_nn01_1111_1101 e op s)"
  by (simp_all add: i1111_nnnn_mmmm_0000_def i1111_nnnn_mmmm_0001_def i1111_nnnn_mmmm_0010_def i1111_nnnn_mmmm_0011_def i1111_nnnn_mmmm_0100_def
    i1111_nnnn_mmmm_0101_def i1111_nnnn_mmmm_1100_def i1111_nnnn_0101_1101_def i1111_nnn0_1111_1101_def i1111_nnnn_0111_1101_def
    i1111_nnnn_1011_1101_def i1111_nnnn_1010_1101_def i1111_nnmm_1110_1101_def i1111_nnnn_1000_1101_def i1111_nnnn_1001_1101_def
    i1111_nnnn_0001_1101_def i1111_nnnn_0000_1101_def i1111_nnnn_0010_1101_def i1111_nnnn_0100_1101_def i1111_1011_1111_1101_def
    i1111_0011_1111_1101_def i1111_nnnn_0110_1101_def i1111_nnnn_0011_1101_def i1111_nnnn_mmmm_1110_def i1111_nn01_1111_1101_def Let_def)

lemma judge_fpu_moves [op_judge]:
  "judge s (i1111_nnnn_mmmm_0110 e op s)" "judge s (i1111_nnnn_mmmm_0111 e op s)" "judge s (i1111_nnnn_mmmm_1000 e op s)"
  "judge s (i1111_nnnn_mmmm_1001 e op s)" "judge s (i1111_nnnn_mmmm_1010 e op s)" "judge s (i1111_nnnn_mmmm_1011 e op s)"
  by (simp_all add: i1111_nnnn_mmmm_0110_def i1111_nnnn_mmmm_0111_def i1111_nnnn_mmmm_1000_def i1111_nnnn_mmmm_1001_def i1111_nnnn_mmmm_1010_def
    i1111_nnnn_mmmm_1011_def judge_load judge_store reads writes Let_def)

subsection \<open>The remaining handlers\<close>

lemma judge_rmw:
  assumes "\<And>v t. polite (w v t)"
  shows "judge s (bnd (ReadMem8 e a s) (\<lambda>v t. w v t t))"
  by (rule judge_bnd_polite [OF reads(1)]) (rule judge_polite [OF assms])

lemma judge_rmw_ops [op_judge]:
  "judge s (i1100_1101_iiii_iiii e op s)" "judge s (i1100_1110_iiii_iiii e op s)" "judge s (i1100_1111_iiii_iiii e op s)"
  unfolding i1100_1101_iiii_iiii_def i1100_1110_iiii_iiii_def i1100_1111_iiii_iiii_def by (rule judge_rmw, rule writes)+

lemma judge_tas [op_judge]: "judge s (i0100_nnnn_0001_1011 e op s)"
  unfolding i0100_nnnn_0001_1011_def
  by (rule judge_bnd_polite [OF reads(1)], rule judge_bnd_act [OF judge_polite [OF writes(1)]]) simp

lemma judge_mac [op_judge]: "judge s (i0100_nnnn_mmmm_1111 e op s)" "judge s (i0000_nnnn_mmmm_1111 e op s)"
proof -
  have "judge s (bnd (ReadMem16 e a s) (\<lambda>v t. bnd (ReadMem16 e (b t) t) (\<lambda>w. act (f v w))))"
    if "\<And>v w t. calm t (f v w t)" for a b f
    by (intro judge_bnd_polite [OF reads(2)]) (simp add: that)
  then show "judge s (i0100_nnnn_mmmm_1111 e op s)" by (simp add: i0100_nnnn_mmmm_1111_def Let_def)
  have "judge s (bnd (ReadMem32 e a s) (\<lambda>v t. bnd (ReadMem32 e (b t) t) (\<lambda>w. act (f v w))))"
    if "\<And>v w t. calm t (f v w t)" for a b f
    by (intro judge_bnd_polite [OF reads(3)]) (simp add: that)
  then show "judge s (i0000_nnnn_mmmm_1111 e op s)" by (simp add: i0000_nnnn_mmmm_1111_def Let_def)
qed

lemma judge_misc [op_judge]:
  "judge s (i0000_0000_0011_1000 e op s)" "judge s (i0000_nnnn_1000_0011 e op s)" "judge s (i1100_0011_iiii_iiii e op s)"
  "judge s (iNotImplemented e op s)"
proof -
  show "judge s (i1100_0011_iiii_iiii e op s)"
    unfolding i1100_0011_iiii_iiii_def Let_def Do_Exception_cpu_def
    by (auto split: option.split intro!: calm_full dest: calm_exception)
qed (simp_all add: i0000_0000_0011_1000_def i0000_nnnn_1000_0011_def iNotImplemented_def judge_polite ldtlb queue Let_def)

lemma judge_status [op_judge]: "judge s (i0100_nnnn_0000_0111 e op s)" "judge s (i0100_nnnn_0000_1110 e op s)"
proof -
  have *: "calm t (UpdateSR_INTC (sr_setFull v t))" "calm t (UpdateSR_INTC (set_r n w (sr_setFull v t)))" for t :: "'m sh4_cpu" and v n w
    by (rule calm_UpdateSR; simp add: core_setFull set_r_def fuel_setFull)+
  show "judge s (i0100_nnnn_0000_0111 e op s)" "judge s (i0100_nnnn_0000_1110 e op s)"
    by (simp_all add: i0100_nnnn_0000_0111_def i0100_nnnn_0000_1110_def judge_load reads Let_def *)
qed

lemma judge_rte [op_judge]: "judge s (i0000_0000_0010_1011 e op s)"
proof (cases "ExecuteDelayslot_RTE e s")
  case (Done u t)
  then show ?thesis
    using slot_rte [OF Done] by (auto simp: i0000_0000_0010_1011_def Let_def set_pc_def intro: calm_UpdateSR)
qed (simp_all add: i0000_0000_0010_1011_def Let_def slot_rte_throws)

lemma calm_system: "calm s (snd (UpdateSystem_INTC e s))"
proof -
  let ?t = "s\<lparr>sh4_sched_next := sh4_sched_next s - SH4_TIMESLICE\<rparr>"
  have t: "calm s (if b then sh4_sched_tick e n ?t else ?t)" for b n
    using tick [of ?t n] calm_trans [of s ?t] by (auto simp: quiet_def)
  have u: "calm t (t\<lparr>cx := snd (UpdateINTC (cx t))\<rparr>)" for t :: "'m sh4_cpu"
    using cpu_ok_handlers(3) by (auto simp: calm_def UpdateINTC_def core_Do_Interrupt)
  show ?thesis
    unfolding UpdateSystem_INTC_def Let_def using t calm_trans [OF t u] by (auto simp: split_def)
qed

lemma calm_sleep: "calm s (snd (sleep_loop e n s))"
proof (induction n arbitrary: s)
  case 0
  then show ?case using calm_system [of s] by (simp add: split_def Let_def)
next
  case (Suc n)
  then show ?case using calm_system [of s] by (auto simp: split_def Let_def intro: calm_trans)
qed

lemma judge_sleep [op_judge]: "judge s (i0000_0000_0001_1011 e op s)"
  using calm_sleep [of s 1001] by (simp add: i0000_0000_0001_1011_def split_def Let_def)

lemma judge_bios [op_judge]: "judge s (reios_trap e op s)"
  by (rule bios)

end

end
