(* ===== verification/Sh4_Run.thy ===== *)
theory Sh4_Run
  imports Sh4_Frame
begin

unbundle bit_operations_syntax

section \<open>The interpreter: precise exceptions and the end of a time slice\<close>

text \<open>
  The judgement of theory \<open>Sh4_Frame\<close> is lifted from the handlers to the opcode table, to one instruction with its fetch,
  to nested delay slots and to the inner loop of \<open>Run\<close>.
\<close>

subsection \<open>The table\<close>

lemma length_opcodes: "length (opcodes :: 'm sh4_opcodelistentry list) = 213"
  by (simp add: opcodes_def)

lemma issue_cycles:
  fixes d :: "'m sh4_opcodelistentry"
  assumes "d \<in> set opcodes"
  shows "1 \<le> IssueCycles d"
proof -
  have "list_all (\<lambda>d. 1 \<le> IssueCycles d) (opcodes :: 'm sh4_opcodelistentry list)"
    by (simp add: opcodes_def entry_def)
  then show ?thesis using assms by (simp add: list_all_iff)
qed

lemma build_bound: "BuildOpcodeTables tab op = Some i \<Longrightarrow> i < length tab"
proof -
  have "fold (\<lambda>i t idx. if P i idx then Some i else t idx) xs t op = Some i \<Longrightarrow> i \<in> set xs \<or> t op = Some i" for P xs t
    by (induction xs arbitrary: t) (fastforce split: if_splits)+
  then show "BuildOpcodeTables tab op = Some i \<Longrightarrow> i < length tab" unfolding BuildOpcodeTables_def by fastforce
qed

lemma OpDesc_cases: "OpDesc op = (missing_opcode :: 'm sh4_opcodelistentry) \<or> OpDesc op \<in> set (opcodes :: 'm sh4_opcodelistentry list)"
  using build_bound [of patterns op] by (auto simp: OpDesc_def patterns_def length_opcodes split: option.split)

text \<open>An instruction of the table costs at least one turn of the measure: a cycle, or the free issue.\<close>

definition access_cost :: "'m sh4_opcodelistentry \<Rightarrow> 'm sh4_cpu \<Rightarrow> int" where
  "access_cost d s = (if isMemOp (ex_type d) \<and> memOps s + 1 < 4 then (if mmuOn s then 5 else 2) else 0)"

lemma countCycles_cost:
  "cycle_counter (executeCycles d s) = cycle_counter s - 8 * (access_cost d s +
     (if lastUnit s = eu_CO \<or> eu d = eu_CO \<or> lastUnit s = eu d \<and> lastUnit s \<noteq> eu_MT then IssueCycles d else 0))"
  "lastUnit (executeCycles d s) = (if lastUnit s = eu_CO \<or> eu d = eu_CO \<or> lastUnit s = eu d \<and> lastUnit s \<noteq> eu_MT then eu d else eu_CO)"
  "cx (executeCycles d s) = cx s"
  by (cases "isMemOp (ex_type d)"; cases "lastUnit s"; cases "eu d"; simp add: executeCycles_def countCycles_def access_cost_def Let_def)+

lemma access_cost_nonneg: "0 \<le> access_cost d s"
  by (simp add: access_cost_def)

lemma fuel_executeCycles: "1 \<le> IssueCycles d \<Longrightarrow> fuel (executeCycles d s) < fuel s"
  using access_cost_nonneg [of d s] by (simp add: fuel_def countCycles_cost)

context sh4_slot
begin

lemma opcodes_judged: "d \<in> set opcodes \<Longrightarrow> judge s (oph d e op s)"
proof -
  have "list_all (\<lambda>d. judge s (oph d e op s)) opcodes"
    by (simp add: opcodes_def entry_def op_judge)
  then show "d \<in> set opcodes \<Longrightarrow> judge s (oph d e op s)" by (simp add: list_all_iff)
qed

lemma ExecuteOpcode_judged:
  "judge s (ExecuteOpcode e op s)"
  "ExecuteOpcode e op s = Done u t \<Longrightarrow> fuel t < fuel s"
proof -
  let ?d = "OpDesc (ucast op) :: 'm sh4_opcodelistentry"
  let ?o = "oph ?d e (ucast op) s"
  consider "?d = missing_opcode" | "?d \<in> set opcodes" using OpDesc_cases by auto
  then have *: "judge s (ExecuteOpcode e op s) \<and> (\<forall>u t. ExecuteOpcode e op s = Done u t \<longrightarrow> fuel t < fuel s)"
  proof cases
    case 1
    then show ?thesis by (simp add: ExecuteOpcode_def Let_def missing_opcode_def entry_def iNotImplemented_def throw_def judge_def same_regs_def)
  next
    case 2
    note f = fuel_executeCycles [OF issue_cycles [OF 2]]
    have c: "calm t (executeCycles ?d t)" for t :: "'m sh4_cpu" using f [of t] by (simp add: calm_def countCycles_cost)
    have o: "judge s (bnd ?o (\<lambda>_. act (executeCycles ?d)))" by (rule judge_bnd_act [OF opcodes_judged [OF 2] c])
    have "fuel t < fuel s" if "bnd ?o (\<lambda>_. act (executeCycles ?d)) = Done u t" for u t
      using that opcodes_judged [OF 2, of s "ucast op"] f by (cases ?o) (auto simp: act_def calm_def judge_def intro: less_le_trans)
    then show ?thesis using o by (auto simp: ExecuteOpcode_def Let_def throw_def judge_def same_regs_def)
  qed
  show "judge s (ExecuteOpcode e op s)" using * by blast
  show "ExecuteOpcode e op s = Done u t \<Longrightarrow> fuel t < fuel s" using * by blast
qed

end

text \<open>One instruction with its fetch: the exception carries the address the instruction was fetched from.\<close>

definition judge_at :: "'m sh4_cpu \<Rightarrow> (unit, 'm) outcome \<Rightarrow> bool" where
  "judge_at s o1 =
     (case o1 of Done v t \<Rightarrow> calm s t \<and> fuel t < fuel s
      | Thrown epc ev t \<Rightarrow> calm s t \<and> same_regs s t \<and> epc = pc (cx s)
      | Fatal \<Rightarrow> True)"

lemma after_fetch: "quiet (set_pc a s) t \<Longrightarrow> calm s t \<and> same_regs s t \<and> pc (cx t) = a \<and> fuel t \<le> fuel s"
  by (auto simp: quiet_def same_regs_def set_pc_def calm_def core_ok_def cpu_ok_def intc_ok_def)

lemma fetch_address:
  assumes "sh4_bus e"
  shows "ReadNexOp e s = Done op t \<Longrightarrow> calm s t \<and> same_regs s t \<and> pc (cx t) = pc (cx s) + 2 \<and> fuel t \<le> fuel s"
    and "ReadNexOp e s = Thrown epc ev t \<Longrightarrow> calm s t \<and> same_regs s t \<and> epc = pc (cx s)"
  using sh4_bus.reads(5) [OF assms, of "pc (cx s)", unfolded polite_def, rule_format, of "set_pc (pc (cx s) + 2) s"]
    after_fetch [of "pc (cx s) + 2" s]
  by (fastforce simp: ReadNexOp_def Let_def throw_def same_regs_def set_pc_def split: if_splits)+

context sh4_slot
begin

lemma next_op_judged: "judge_at s (next_op e s)"
proof (cases "ReadNexOp e s")
  case (Done op t)
  note f = fetch_address(1) [OF sh4_bus_axioms Done]
  have "judge_at s (ExecuteOpcode e op t)"
  proof (cases "ExecuteOpcode e op t")
    case (Done u v)
    then show ?thesis using f ExecuteOpcode_judged(1) [of t op] ExecuteOpcode_judged(2) [of op t] by (auto simp: judge_at_def intro: calm_trans)
  next
    case (Thrown epc ev v)
    then show ?thesis
      using f ExecuteOpcode_judged(1) [of t op] by (auto simp: judge_at_def judge_def intro: calm_trans same_trans)
  qed (simp add: judge_at_def)
  then show ?thesis using Done by (simp add: next_op_def)
next
  case (Thrown epc ev t)
  then show ?thesis using fetch_address(2) [OF sh4_bus_axioms Thrown] by (simp add: next_op_def judge_at_def)
qed (simp add: next_op_def judge_at_def)

lemma delay_slot_judged: "judge s (delay_slot e s)"
  using next_op_judged [of s] by (auto simp: delay_slot_def judge_at_def judge_def AdjustDelaySlotException_def split: outcome.splits)

lemma delay_slot_RTE_judged:
  "delay_slot_RTE e s = Done u t \<Longrightarrow> (core_ok (cx s) \<longrightarrow> core_ok (cx t)) \<and> fuel t \<le> fuel s"
  "delay_slot_RTE e s \<noteq> Thrown epc ev t"
proof -
  show "delay_slot_RTE e s = Done u t \<Longrightarrow> (core_ok (cx s) \<longrightarrow> core_ok (cx t)) \<and> fuel t \<le> fuel s"
  proof -
    assume d: "delay_slot_RTE e s = Done u t"
    then obtain op v where v: "ReadNexOp e s = Done op v" and t: "ExecuteOpcode e op (sr_setFull (ssr (cx v)) v) = Done u t"
      by (cases "ReadNexOp e s") (auto simp: delay_slot_RTE_def split: outcome.splits)
    have "calm (sr_setFull (ssr (cx v)) v) t" using ExecuteOpcode_judged(1) [of "sr_setFull (ssr (cx v)) v" op] t by simp
    then show ?thesis
      using fetch_address(1) [OF sh4_bus_axioms v] core_setFull [of v "ssr (cx v)"] by (auto simp: calm_def)
  qed
  show "delay_slot_RTE e s \<noteq> Thrown epc ev t" by (simp add: delay_slot_RTE_def split: outcome.splits)
qed

end

text \<open>However deep delay slots are nested.\<close>

lemma slots_fields [simp]:
  "ReadMem8 (slots e d) = ReadMem8 e" "ReadMem16 (slots e d) = ReadMem16 e" "ReadMem32 (slots e d) = ReadMem32 e"
  "ReadMem64 (slots e d) = ReadMem64 e" "IReadMem16 (slots e d) = IReadMem16 e" "WriteMem8 (slots e d) = WriteMem8 e"
  "WriteMem16 (slots e d) = WriteMem16 e" "WriteMem32 (slots e d) = WriteMem32 e" "WriteMem64 (slots e d) = WriteMem64 e"
  "doSqWrite (slots e d) = doSqWrite e" "ldtlb_op (slots e d) = ldtlb_op e" "host (slots e d) = host e"
  "reios_trap (slots e d) = reios_trap e" "sh4_sched_tick (slots e d) = sh4_sched_tick e"
  by (cases d; simp)+

lemma bus_slots: "sh4_bus e \<Longrightarrow> sh4_bus (slots e d)"
  by (simp add: sh4_bus_def)

lemma slots_ok: "sh4_bus e \<Longrightarrow> sh4_slot (slots e d)"
proof (induction d)
  case 0
  then show ?case using bus_slots [of e 0] by (simp add: sh4_slot_def sh4_slot_axioms_def)
next
  case (Suc d)
  have d: "sh4_slot (slots e d)" using Suc by simp
  show ?case
  proof (intro sh4_slot.intro sh4_slot_axioms.intro)
    show "sh4_bus (slots e (Suc d))" by (rule bus_slots [OF Suc.prems])
    show "judge s (ExecuteDelayslot (slots e (Suc d)) s)" for s
      using sh4_slot.delay_slot_judged [OF d, of s] by simp
    show "ExecuteDelayslot_RTE (slots e (Suc d)) s \<noteq> Thrown epc ev t" for s epc ev t
      using sh4_slot.delay_slot_RTE_judged(2) [OF d] by simp
    show "(core_ok (cx s) \<longrightarrow> core_ok (cx t)) \<and> fuel t \<le> fuel s" if "ExecuteDelayslot_RTE (slots e (Suc d)) s = Done u t" for s u t
      using sh4_slot.delay_slot_RTE_judged(1) [OF d] that by simp
  qed
qed

subsection \<open>The inner loop\<close>

context sh4_bus
begin

lemmas slotted = slots_ok [OF sh4_bus_axioms]
lemmas slotted_next = sh4_slot.next_op_judged [OF slotted]

lemma slice_returns: "\<exists>r. run_slice (slots e d) s = Some r"
proof (induction "nat (fuel s)" arbitrary: s rule: less_induct)
  case less
  note j = slotted_next [of s d]
  show ?case
  proof (cases "next_op (slots e d) s")
    case (Done u t)
    show ?thesis
    proof (cases "cycle_counter t > 0")
      case True
      then have "nat (fuel t) < nat (fuel s)" using j Done by (simp add: judge_at_def fuel_def split: if_splits)
      from less [OF this] Done True show ?thesis by (simp add: run_slice.simps [of "slots e d" s])
    next
      case False
      then show ?thesis using Done by (simp add: run_slice.simps [of "slots e d" s])
    qed
  qed (simp_all add: run_slice.simps [of "slots e d" s])
qed

lemma slice_keeps:
  "run_slice (slots e d) s = Some r \<Longrightarrow> cpu_ok (cx s) \<Longrightarrow>
     (case r of Done u t \<Rightarrow> cpu_ok (cx t) \<and> cycle_counter t \<le> 0 | Thrown epc ev t \<Rightarrow> cpu_ok (cx t) | Fatal \<Rightarrow> True)"
proof (induction "nat (fuel s)" arbitrary: s rule: less_induct)
  case less
  note j = slotted_next [of s d]
  show ?case
  proof (cases "next_op (slots e d) s")
    case (Done u t)
    then have t: "cpu_ok (cx t)" using j less.prems by (simp add: judge_at_def calm_def)
    show ?thesis
    proof (cases "cycle_counter t > 0")
      case True
      then have "nat (fuel t) < nat (fuel s)" using j Done by (simp add: judge_at_def fuel_def split: if_splits)
      moreover have "run_slice (slots e d) t = Some r" using less.prems(1) Done True by (simp add: run_slice.simps [of "slots e d" s])
      ultimately show ?thesis using less.hyps t by blast
    next
      case False
      then have "r = Done u t" using Done less.prems(1) by (simp add: run_slice.simps [of "slots e d" s])
      then show ?thesis using t False by simp
    qed
  next
    case (Thrown epc ev t)
    then have "r = Thrown epc ev t" using less.prems by (simp add: run_slice.simps [of "slots e d" s])
    then show ?thesis using j less.prems Thrown by (simp add: judge_at_def calm_def)
  next
    case Fatal
    then have "r = Fatal" using less.prems by (simp add: run_slice.simps [of "slots e d" s])
    then show ?thesis by simp
  qed
qed

lemma handled_keeps: "(case r of Done u t \<Rightarrow> cpu_ok (cx t) | Thrown epc ev t \<Rightarrow> cpu_ok (cx t) | Fatal \<Rightarrow> True) \<Longrightarrow>
    handle_thrown r = Done u v \<Longrightarrow> cpu_ok (cx v)"
  by (auto simp: handle_thrown_def Do_Exception_cpu_def act_def addCycles_def split: outcome.splits option.splits
      dest: calm_exception [OF _ cpu_ok_core])

lemma turn_keeps: "cpu_ok (cx s) \<Longrightarrow> Run_turn (slots e d) s = Some (Done u t) \<Longrightarrow> cpu_ok (cx t)"
proof -
  assume s: "cpu_ok (cx s)" and t: "Run_turn (slots e d) s = Some (Done u t)"
  obtain r where r: "run_slice (slots e d) s = Some r" using slice_returns by blast
  note k = slice_keeps [OF r s]
  show ?thesis
  proof (cases r)
    case (Done w v)
    let ?v = "v\<lparr>cycle_counter := cycle_counter v + SH4_TIMESLICE\<rparr>"
    have "cpu_ok (cx (snd (UpdateSystem_INTC (slots e d) ?v)))"
      using sh4_slot.calm_system [OF slotted, of ?v d] k Done by (simp add: calm_def)
    then show ?thesis using t r Done by (simp add: Run_turn_def)
  next
    case (Thrown epc ev v)
    then show ?thesis using handled_keeps [of r u t] k t r by (simp add: Run_turn_def)
  qed (use t r in \<open>simp add: Run_turn_def handle_thrown_def\<close>)
qed

lemma step_keeps: "cpu_ok (cx s) \<Longrightarrow> Sh4_Step (slots e d) s = Done u t \<Longrightarrow> cpu_ok (cx t)"
  using slotted_next [of s d] unfolding Sh4_Step_def
  by (rule_tac handled_keeps) (auto simp: judge_at_def calm_def split: outcome.splits)

end

lemma reset_cpu_ok: "cache_ok (cx s) \<Longrightarrow> cpu_ok (cx (Sh4_Reset hard s))"
proof -
  assume c: "cache_ok (cx s)"
  have i: "cache_ok ((cx s)\<lparr>interrupt_pend := v\<rparr>)" for v
    by (rule cache_ok_frame [OF c]) (use c in \<open>auto simp: cache_ok_def level_frame\<close>)
  show ?thesis
    unfolding Sh4_Reset_def Let_def using c
    by (simp add: sr_setFull_def i core_ok_def cpu_ok_handlers word_and_le1)
qed

subsection \<open>What a handled exception leaves\<close>

text \<open>The state a handler finds when the instruction at \<open>pc\<close> of \<open>s\<close> raised the exception \<open>ev\<close>.\<close>

definition handler_entered :: "u32 \<Rightarrow> 'm sh4_cpu \<Rightarrow> 'm sh4_cpu \<Rightarrow> bool" where
  "handler_entered ev s u \<longleftrightarrow>
     (let user = \<not> (sr_MD (sr_status (cx s)) \<and> sr_RB (sr_status (cx s))) in
     spc (cx u) = pc (cx s) \<and> ssr (cx u) = sr_getFull (cx s) \<and> sgr (cx u) = gpr (cx s) 15 \<and> CCN_EXPEVT (cx u) = ev
     \<and> pc (cx u) = vbr (cx s) + (if ev = 0x40 \<or> ev = 0x60 then 0x400 else 0x100)
     \<and> sr_BL (sr_status (cx u)) \<and> sr_MD (sr_status (cx u)) \<and> sr_RB (sr_status (cx u))
     \<and> (\<forall>i. gpr (cx u) i = (if i < 8 \<and> user then r_bank (cx s) i else gpr (cx s) i))
     \<and> (\<forall>i. r_bank (cx u) i = (if i < 8 \<and> user then gpr (cx s) i else r_bank (cx s) i))
     \<and> vbr (cx u) = vbr (cx s) \<and> gbr u = gbr s \<and> dbr u = dbr s \<and> pr u = pr s \<and> mac u = mac s \<and> fpul u = fpul s
     \<and> fpscr u = fpscr s \<and> fr u = fr s \<and> xf u = xf s)"

lemma UpdateSR_bank:
  "r_bank (UpdateSR c) i = (if i < 8 \<and> sr_RB (old_sr c) \<noteq> (sr_RB (sr_status c) \<and> sr_MD (sr_status c)) then gpr c i else r_bank c i)"
  by (auto simp: UpdateSR_def Let_def SRdecode_def ChangeGPR_def recalc_pending_itrs_def)

lemma handler_entered_exception:
  assumes "same_regs s t" "bank_ok (cx s)" "Do_Exception (pc (cx s)) ev (cx t) = Some c"
  shows "handler_entered ev s (t\<lparr>cx := c, cycle_counter := n\<rparr>)"
proof -
  let ?u = "(cx t)\<lparr>CCN_EXPEVT := ev, ssr := sr_getFull (cx t), spc := pc (cx s), sgr := gpr (cx t) 15,
    sr_status := put_bit 29 True (put_bit 30 True (put_bit 28 True (sr_status (cx t))))\<rparr>"
  have c: "c = (UpdateSR ?u)\<lparr>pc := vbr (cx t) + (if ev = 0x40 \<or> ev = 0x60 then 0x400 else 0x100)\<rparr>"
    using assms(3) by (auto simp: Do_Exception_def enter_handler_def Let_def sr_getFull_def split: if_splits)
  show ?thesis
    using assms(1,2) unfolding c handler_entered_def Let_def
    by (auto simp: UpdateSR_gpr UpdateSR_bank bank_ok_def same_regs_def sr_getFull_def)
qed

context sh4_bus
begin

lemma step_exception:
  assumes "cpu_ok (cx s)" "next_op (slots e d) s = Thrown epc ev t"
  shows "if sr_BL (sr_status (cx s)) then Sh4_Step (slots e d) s = Fatal
    else \<exists>u. Sh4_Step (slots e d) s = Done () u \<and> handler_entered ev s u \<and> cpu_ok (cx u)"
proof -
  have j: "same_regs s t" "epc = pc (cx s)" "cpu_ok (cx t)"
    using slotted_next [of s d] assms by (simp_all add: judge_at_def calm_def)
  show ?thesis
  proof (cases "Do_Exception epc ev (cx t)")
    case None
    then show ?thesis
      using assms(2) j(1) by (simp add: Sh4_Step_def handle_thrown_def Do_Exception_cpu_def Do_Exception_def Let_def same_regs_def split: if_splits)
  next
    case (Some c)
    have "\<not> sr_BL (sr_status (cx s))" using Some j(1) by (simp add: Do_Exception_def same_regs_def split: if_splits)
    moreover have "Sh4_Step (slots e d) s = Done () (t\<lparr>cx := c, cycle_counter := cycle_counter t - 40\<rparr>)"
      using assms(2) Some by (simp add: Sh4_Step_def handle_thrown_def Do_Exception_cpu_def act_def addCycles_def)
    moreover have "cpu_ok c" using calm_exception [OF Some cpu_ok_core [OF j(3)]] .
    ultimately show ?thesis
      using handler_entered_exception [OF j(1) _ Some [unfolded j(2)]] assms(1) by (simp add: cpu_ok_def)
  qed
qed

end

end
