(* ===== verification/Sh4_Table.thy ===== *)
theory Sh4_Table
  imports Sh4_Run
begin

unbundle bit_operations_syntax

section \<open>The opcode table has one entry per instruction\<close>

text \<open>
  \<open>BuildOpcodeTables\<close> writes, for each row of the table, all opcodes that the row's mask leaves open.  It is shown that these are
  exactly the opcodes that agree with the row on the mask, that no opcode belongs to two rows, and so that the order of the
  rows plays no role: the decoder finds the only row that matches.
\<close>

subsection \<open>The opcodes of a row\<close>

definition matches :: "u32 \<Rightarrow> u32 \<times> u32 \<Rightarrow> bool" where
  "matches x p \<longleftrightarrow> x AND fst p = snd p"

definition clash :: "u32 \<times> u32 \<Rightarrow> u32 \<times> u32 \<Rightarrow> bool" where
  "clash p q \<longleftrightarrow> snd p AND fst q = snd q AND fst p"

definition nibble_group :: "(u32 \<times> u32) list \<Rightarrow> u32 \<Rightarrow> (u32 \<times> u32) list" where
  "nibble_group ps k = filter (\<lambda>p. snd p AND 0xF000 = k) ps"

fun pairwise_apart :: "(u32 \<times> u32) list \<Rightarrow> bool" where
  "pairwise_apart [] = True"
| "pairwise_apart (p # ps) = (list_all (\<lambda>q. \<not> clash p q) ps \<and> pairwise_apart ps)"

definition all_apart :: "(u32 \<times> u32) list \<Rightarrow> nat list \<Rightarrow> bool" where
  "all_apart ps ks = list_all (\<lambda>k. pairwise_apart (nibble_group ps (push_bit 12 (of_nat k)))) ks"

lemma apart_low: "all_apart patterns [0..<4]"
  by code_simp

lemma apart_mid: "all_apart patterns [4..<6]"
  by code_simp

lemma apart_high: "all_apart patterns [6..<16]"
  by code_simp

lemma pairwise_apart_nth: "pairwise_apart ps \<Longrightarrow> i < j \<Longrightarrow> j < length ps \<Longrightarrow> \<not> clash (ps ! i) (ps ! j)"
proof (induction ps arbitrary: i j)
  case (Cons p ps)
  then show ?case by (cases i; cases j) (auto simp: list_all_length)
qed simp

definition good_pattern :: "u32 \<times> u32 \<Rightarrow> bool" where
  "good_pattern p \<longleftrightarrow> mask_fill (fst p) \<noteq> None \<and> snd p AND fst p = snd p \<and> snd p AND 0xFFFF = snd p \<and> fst p AND 0xF000 = 0xF000"

lemma patterns_good: "list_all good_pattern patterns"
  by code_simp

lemma fill_general:
  fixes m r x :: u32
  assumes open_bits: "\<And>k. k < 16 \<Longrightarrow> \<not> bit m k \<Longrightarrow> sh \<le> k \<and> k < sh + c" and "sh + c \<le> 16"
    and r: "r AND m = r" "r AND 0xFFFF = r"
  shows "x \<in> (\<lambda>i. (push_bit sh (of_nat i) AND NOT m) + r) ` {..<2 ^ c} \<longleftrightarrow> x AND m = r \<and> x AND 0xFFFF = x"
proof -
  have low: "(0xFFFF :: u32) = mask 16" by (simp add: mask_eq_exp_minus_1)
  have rb: "bit r k \<Longrightarrow> bit m k \<and> k < 16" for k
    using r unfolding low by (metis bit_and_iff bit_mask_iff)
  have sum: "(a AND NOT m) + r = (a AND NOT m) OR r" for a
    by (rule disjunctive_add) (use rb in \<open>auto simp: bit_simps\<close>)
  show ?thesis
  proof
    assume "x \<in> (\<lambda>i. (push_bit sh (of_nat i) AND NOT m) + r) ` {..<2 ^ c}"
    then obtain i where i: "i < 2 ^ c" and x: "x = (push_bit sh (of_nat i) AND NOT m) OR r" by (auto simp: sum)
    have "take_bit c (of_nat i :: u32) = of_nat i" using i by (simp add: take_bit_of_nat take_bit_nat_eq_self)
    then have ib: "bit (of_nat i :: u32) k \<Longrightarrow> k < c" for k by (metis bit_take_bit_iff)
    have "x AND m = r" unfolding x by (rule bit_word_eqI) (use rb in \<open>auto simp: bit_simps\<close>)
    moreover have "x AND 0xFFFF = x" unfolding x low
      by (rule bit_word_eqI) (use rb ib \<open>sh + c \<le> 16\<close> in \<open>fastforce simp: bit_simps\<close>)
    ultimately show "x AND m = r \<and> x AND 0xFFFF = x" ..
  next
    assume x: "x AND m = r \<and> x AND 0xFFFF = x"
    then have xb: "bit x k \<Longrightarrow> k < 16" "bit r k = (bit x k \<and> bit m k)" for k
      unfolding low by (metis bit_and_iff bit_mask_iff)+
    let ?i = "unat (take_bit c (drop_bit sh x))"
    have i: "?i \<in> {..<2 ^ c}" unfolding lessThan_iff by (metis take_bit_nat_less_exp unsigned_take_bit_eq)
    have eq: "(push_bit sh (of_nat ?i) AND NOT m) + r = x"
      unfolding sum
    proof (rule bit_word_eqI)
      fix n assume "n < LENGTH(32)"
      then show "bit ((push_bit sh (of_nat ?i) AND NOT m) OR r) n = bit x n"
        using xb(1) [of n] xb(2) [of n] open_bits [of n] by (auto simp: bit_simps)
    qed
    show "x \<in> (\<lambda>i. (push_bit sh (of_nat i) AND NOT m) + r) ` {..<2 ^ c}"
      by (rule image_eqI [where x = ?i]) (simp only: eq, rule i)
  qed
qed

lemma entry_indices_iff:
  assumes "good_pattern (m, r)"
  shows "x \<in> set (entry_indices m r) \<longleftrightarrow> matches x (m, r) \<and> x AND 0xFFFF = x"
proof -
  have g: "mask_fill m \<noteq> None" "r AND m = r" "r AND 0xFFFF = r" using assms by (simp_all add: good_pattern_def)
  have e: "mask_fill m = Some (2 ^ c, sh) \<Longrightarrow> set (entry_indices m r) = (\<lambda>i. (push_bit sh (of_nat i) AND NOT m) + r) ` {..<2 ^ c}" for c sh
    by (simp add: entry_indices_def atLeast0LessThan)
  have k: "(\<forall>k < 16. P k) = list_all P [0..<16]" for P by (auto simp: list_all_iff)
  have "\<exists>c sh. mask_fill m = Some (2 ^ c, sh) \<and> sh + c \<le> 16 \<and> (\<forall>k < 16. \<not> bit m k \<longrightarrow> sh \<le> k \<and> k < sh + c)"
  proof -
    consider "m = 0xFFFF" | "m = 0xF0FF" | "m = 0xF00F" | "m = 0xF000" | "m = 0xFF00" | "m = 0xF08F" | "m = 0xF1FF" | "m = 0xF3FF"
      using g(1) by (auto simp: mask_fill_def split: if_splits)
    then show ?thesis
    proof cases
      case 1 then show ?thesis by (intro exI [of _ 0] exI [of _ 0]) (simp add: mask_fill_def k upt_rec)
    next
      case 2 then show ?thesis by (intro exI [of _ 4] exI [of _ 8]) (simp add: mask_fill_def k upt_rec)
    next
      case 3 then show ?thesis by (intro exI [of _ 8] exI [of _ 4]) (simp add: mask_fill_def k upt_rec)
    next
      case 4 then show ?thesis by (intro exI [of _ 12] exI [of _ 0]) (simp add: mask_fill_def k upt_rec)
    next
      case 5 then show ?thesis by (intro exI [of _ 8] exI [of _ 0]) (simp add: mask_fill_def k upt_rec)
    next
      case 6 then show ?thesis by (intro exI [of _ 8] exI [of _ 4]) (simp add: mask_fill_def k upt_rec)
    next
      case 7 then show ?thesis by (intro exI [of _ 3] exI [of _ 9]) (simp add: mask_fill_def k upt_rec)
    next
      case 8 then show ?thesis by (intro exI [of _ 2] exI [of _ 10]) (simp add: mask_fill_def k upt_rec)
    qed
  qed
  then obtain c sh where c: "mask_fill m = Some (2 ^ c, sh)" "sh + c \<le> 16"
    and o: "\<And>k. k < 16 \<Longrightarrow> \<not> bit m k \<Longrightarrow> sh \<le> k \<and> k < sh + c" by blast
  show ?thesis
    unfolding e [OF c(1)] matches_def fst_conv snd_conv by (rule fill_general [OF o c(2) g(2,3)])
qed

subsection \<open>No opcode belongs to two rows\<close>

lemma apart_filter:
  "pairwise_apart (filter P ps) \<Longrightarrow> i < j \<Longrightarrow> j < length ps \<Longrightarrow> P (ps ! i) \<Longrightarrow> P (ps ! j) \<Longrightarrow> \<not> clash (ps ! i) (ps ! j)"
proof (induction ps arbitrary: i j)
  case (Cons p ps)
  show ?case
  proof (cases i)
    case 0
    obtain k where k: "j = Suc k" using Cons.prems(2) by (cases j) auto
    have "P p" "ps ! k \<in> set (filter P ps)" using Cons.prems 0 k by auto
    then have "list_all (\<lambda>q. \<not> clash p q) (filter P ps)" using Cons.prems(1) by simp
    from bspec [OF this [unfolded list_all_iff] \<open>ps ! k \<in> set (filter P ps)\<close>] show ?thesis by (simp add: 0 k)
  next
    case (Suc i')
    obtain k where k: "j = Suc k" using Cons.prems(2) by (cases j) auto
    have "pairwise_apart (filter P ps)" using Cons.prems(1) by (cases "P p") auto
    from Cons.IH [OF this, of i' k] show ?thesis using Cons.prems(2-) Suc k by simp
  qed
qed simp

lemma groups_apart: "k < 16 \<Longrightarrow> pairwise_apart (nibble_group patterns (push_bit 12 (of_nat k)))"
proof -
  assume "k < 16"
  then have "k \<in> set [0..<4] \<or> k \<in> set [4..<6] \<or> k \<in> set [6..<16]" unfolding set_upt by auto
  then show ?thesis using apart_low apart_mid apart_high unfolding all_apart_def list_all_iff by blast
qed

lemma pattern_good: "i < length patterns \<Longrightarrow> good_pattern (patterns ! i)"
  using patterns_good by (simp add: list_all_length)

lemma match_clash: "matches x p \<Longrightarrow> matches x q \<Longrightarrow> clash p q"
proof -
  assume "matches x p" "matches x q"
  then have "snd p = x AND fst p" "snd q = x AND fst q" by (simp_all add: matches_def)
  then show ?thesis by (simp add: clash_def ac_simps)
qed

lemma match_group:
  assumes "matches x p" "good_pattern p" "x AND 0xFFFF = x"
  shows "\<exists>k < 16. snd p AND 0xF000 = push_bit 12 (of_nat k) \<and> x AND 0xF000 = push_bit 12 (of_nat k)"
proof -
  have g: "fst p AND 0xF000 = 0xF000" using assms(2) by (simp add: good_pattern_def)
  have "snd p AND 0xF000 = x AND (fst p AND 0xF000)" using assms(1) by (simp add: matches_def and.assoc flip: and.assoc)
  then have *: "snd p AND 0xF000 = x AND 0xF000" unfolding g .
  let ?k = "unat (take_bit 4 (drop_bit 12 x))"
  have h: "(0xF000 :: u32) = push_bit 12 (mask 4)" by (simp add: mask_eq_exp_minus_1 push_bit_eq_mult)
  have "?k < 2 ^ 4" by (metis take_bit_nat_less_exp unsigned_take_bit_eq)
  moreover have "x AND 0xF000 = push_bit 12 (of_nat ?k)"
    unfolding h by (rule bit_word_eqI) (auto simp: bit_simps)
  ultimately show ?thesis using * by auto
qed

lemma match_unique:
  assumes "i < length patterns" "j < length patterns" "matches x (patterns ! i)" "matches x (patterns ! j)" "x AND 0xFFFF = x"
  shows "i = j"
proof -
  have F: False if ij: "i < j" "j < length patterns" and m: "matches x (patterns ! i)" "matches x (patterns ! j)" for i j
  proof -
    obtain k where k: "k < 16" "snd (patterns ! i) AND 0xF000 = push_bit 12 (of_nat k)" "x AND 0xF000 = push_bit 12 (of_nat k)"
      using match_group [OF m(1) pattern_good assms(5)] ij by auto
    moreover obtain l where "snd (patterns ! j) AND 0xF000 = push_bit 12 (of_nat l)" "x AND 0xF000 = push_bit 12 (of_nat l)"
      using match_group [OF m(2) pattern_good assms(5)] ij by auto
    ultimately have "\<not> clash (patterns ! i) (patterns ! j)"
      using apart_filter [OF groups_apart [OF k(1), unfolded nibble_group_def] ij] by simp
    then show False using match_clash [OF m] by blast
  qed
  show ?thesis using F [of i j] F [of j i] assms by (metis linorder_neqE_nat)
qed

subsection \<open>The decoder\<close>

definition row_has :: "(u32 \<times> u32) list \<Rightarrow> nat \<Rightarrow> u32 \<Rightarrow> bool" where
  "row_has tab i x \<longleftrightarrow> x \<in> set (entry_indices (fst (tab ! i)) (snd (tab ! i)))"

lemma build_fold: "BuildOpcodeTables tab = fold (\<lambda>i t idx. if row_has tab i idx then Some i else t idx) [0..<length tab] Map.empty"
  by (simp add: BuildOpcodeTables_def row_has_def)

lemma build_some:
  assumes "row_has tab i x" "i < length tab" "\<And>j. j < length tab \<Longrightarrow> row_has tab j x \<Longrightarrow> j = i"
  shows "BuildOpcodeTables tab x = Some i"
proof -
  have "(\<And>j. j \<in> set xs \<Longrightarrow> row_has tab j x \<Longrightarrow> j = i) \<Longrightarrow> i \<in> set xs \<or> t x = Some i \<Longrightarrow>
      fold (\<lambda>i t idx. if row_has tab i idx then Some i else t idx) xs t x = Some i" for xs t
    using assms(1) by (induction xs arbitrary: t) auto
  from this [of "[0..<length tab]" Map.empty] show ?thesis unfolding build_fold using assms(2,3) by simp
qed

lemma build_none:
  assumes "\<And>j. j < length tab \<Longrightarrow> \<not> row_has tab j x"
  shows "BuildOpcodeTables tab x = None"
proof -
  have "(\<And>j. j \<in> set xs \<Longrightarrow> \<not> row_has tab j x) \<Longrightarrow> t x = None \<Longrightarrow>
      fold (\<lambda>i t idx. if row_has tab i idx then Some i else t idx) xs t x = None" for xs t
    by (induction xs arbitrary: t) auto
  from this [of "[0..<length tab]" Map.empty] show ?thesis unfolding build_fold using assms by simp
qed

lemma patterns_nth:
  assumes "i < 213"
  shows "patterns ! i = (op_mask ((opcodes :: 'm sh4_opcodelistentry list) ! i), rez ((opcodes :: 'm sh4_opcodelistentry list) ! i))"
proof -
  have p: "patterns = map (\<lambda>e. (op_mask e, rez e)) (opcodes :: 'm sh4_opcodelistentry list)"
    by (simp add: patterns_def opcodes_def entry_def)
  have "i < length (opcodes :: 'm sh4_opcodelistentry list)" using assms by (simp add: length_opcodes)
  then show ?thesis unfolding p by (rule nth_map)
qed

lemma length_patterns: "length patterns = 213"
  by (simp add: patterns_def length_opcodes)

lemma op_low: "(ucast (op :: u16) :: u32) AND 0xFFFF = ucast op"
proof -
  have m: "(0xFFFF :: u32) = mask 16" by (simp add: mask_eq_exp_minus_1)
  show ?thesis unfolding m by (rule bit_word_eqI) (auto simp: bit_simps dest: bit_imp_le_length)
qed

lemma row_has_iff: "j < 213 \<Longrightarrow> row_has patterns j (ucast (op :: u16)) \<longleftrightarrow> matches (ucast op) (patterns ! j)"
  using entry_indices_iff [of "fst (patterns ! j)" "snd (patterns ! j)" "ucast op"] pattern_good [of j]
  by (simp add: row_has_def length_patterns op_low)

lemma decode_row:
  fixes op :: u16
  assumes i: "i < 213" and "ucast op AND op_mask (opcodes ! i :: 'm sh4_opcodelistentry) = rez (opcodes ! i :: 'm sh4_opcodelistentry)"
  shows "OpDesc (ucast op) = (opcodes ! i :: 'm sh4_opcodelistentry)"
proof -
  have m: "matches (ucast op) (patterns ! i)" using assms(2) unfolding patterns_nth [OF i, where ?'m = 'm] by (simp add: matches_def)
  have "BuildOpcodeTables patterns (ucast op) = Some i"
  proof (rule build_some)
    show "row_has patterns i (ucast op)" using m i by (simp add: row_has_iff)
    show "j = i" if "j < length patterns" "row_has patterns j (ucast op)" for j
      using that i m match_unique [of j i "ucast op"] by (simp add: row_has_iff length_patterns op_low)
  qed (simp add: length_patterns i)
  then show ?thesis by (simp add: OpDesc_def)
qed

lemma decode_missing:
  fixes op :: u16
  assumes "\<And>d :: 'm sh4_opcodelistentry. d \<in> set opcodes \<Longrightarrow> ucast op AND op_mask d \<noteq> rez d"
  shows "OpDesc (ucast op) = (missing_opcode :: 'm sh4_opcodelistentry)"
proof -
  have "\<not> row_has patterns j (ucast op)" if j: "j < 213" for j
    using assms [of "opcodes ! j"] j unfolding row_has_iff [OF j] patterns_nth [OF j, where ?'m = 'm]
    by (simp add: matches_def length_opcodes)
  then have "BuildOpcodeTables patterns (ucast op) = None" by (intro build_none) (simp add: length_patterns)
  then show ?thesis by (simp add: OpDesc_def)
qed

text \<open>The reference decoder looks for the row that agrees with the opcode on its mask.\<close>

definition decode_row_of :: "u16 \<Rightarrow> 'm sh4_opcodelistentry" where
  "decode_row_of op = (case filter (\<lambda>d. ucast op AND op_mask d = rez d) opcodes of [d] \<Rightarrow> d | _ \<Rightarrow> missing_opcode)"

lemma filter_at_most_one:
  assumes "\<And>i j. i < length xs \<Longrightarrow> j < length xs \<Longrightarrow> P (xs ! i) \<Longrightarrow> P (xs ! j) \<Longrightarrow> i = j"
  shows "length (filter P xs) \<le> 1"
  unfolding length_filter_conv_card using assms by (auto simp: card_le_Suc0_iff_eq)

lemma rows_at_most_one: "length (filter (\<lambda>d :: 'm sh4_opcodelistentry. ucast (op :: u16) AND op_mask d = rez d) opcodes) \<le> 1"
proof (rule filter_at_most_one)
  fix i j
  assume ij: "i < length (opcodes :: 'm sh4_opcodelistentry list)" "j < length (opcodes :: 'm sh4_opcodelistentry list)"
    and m: "ucast op AND op_mask (opcodes ! i :: 'm sh4_opcodelistentry) = rez (opcodes ! i :: 'm sh4_opcodelistentry)"
    "ucast op AND op_mask (opcodes ! j :: 'm sh4_opcodelistentry) = rez (opcodes ! j :: 'm sh4_opcodelistentry)"
  have "matches (ucast op) (patterns ! k)"
    if "k < 213" "ucast op AND op_mask (opcodes ! k :: 'm sh4_opcodelistentry) = rez (opcodes ! k :: 'm sh4_opcodelistentry)" for k
    using that unfolding patterns_nth [OF that(1), where ?'m = 'm] by (simp add: matches_def)
  then show "i = j" using match_unique [of i j "ucast op"] ij m by (simp add: length_opcodes length_patterns op_low)
qed

text \<open>
  Property C33: the table that \<open>BuildOpcodeTables\<close> fills row by row gives every 16-bit opcode the handler of the only row
  of the instruction table that agrees with it on the row's mask, and the handler for undefined instructions when there is
  none; no opcode belongs to two rows.
\<close>

theorem opcode_table_exact:
  "OpDesc (ucast op) = (decode_row_of op :: 'm sh4_opcodelistentry)
   \<and> length (filter (\<lambda>d :: 'm sh4_opcodelistentry. ucast op AND op_mask d = rez d) opcodes) \<le> 1"
proof
  let ?P = "\<lambda>d :: 'm sh4_opcodelistentry. ucast op AND op_mask d = rez d"
  show le: "length (filter ?P opcodes) \<le> 1" by (rule rows_at_most_one)
  show "OpDesc (ucast op) = (decode_row_of op :: 'm sh4_opcodelistentry)"
  proof (cases "filter ?P opcodes")
    case Nil
    then have "OpDesc (ucast op) = (missing_opcode :: 'm sh4_opcodelistentry)"
      by (intro decode_missing) (auto simp: filter_empty_conv)
    then show ?thesis using Nil by (simp add: decode_row_of_def)
  next
    case (Cons d ds)
    then have "ds = []" using le by simp
    have "d \<in> set (filter ?P opcodes)" using Cons by simp
    then obtain i where i: "i < length (opcodes :: 'm sh4_opcodelistentry list)" "opcodes ! i = d" and "?P d" by (auto simp: in_set_conv_nth)
    then have "OpDesc (ucast op) = d" using decode_row [of i op, where ?'m = 'm] by (simp add: length_opcodes)
    then show ?thesis using Cons \<open>ds = []\<close> by (simp add: decode_row_of_def)
  qed
qed

end
