(* ===== verification/Addrspace.thy ===== *)
theory Addrspace
  imports Sh4_Frame
begin

unbundle bit_operations_syntax

section \<open>The SH-4 address space\<close>

text \<open>
  Models \<^verbatim>\<open>core/hw/mem/addrspace.cpp\<close> and the map of \<^verbatim>\<open>sh4_mem.cpp\<close>.  The upper byte of an address selects a page of
  the table \<open>memInfo_ptr\<close>, whose entry is a registered handler or a block of host memory with the number of address bits to
  drop; in the source both are packed into one pointer.  Blocks of host memory are numbered.  Handlers belong to the devices
  and are functions on the whole state.  The memory side of the state also holds the registers of the cache and TLB
  controller and the tables of the MMU, theory \<open>Sh4_Mmu\<close>.
\<close>

subsection \<open>State\<close>

record TLB_Entry =
  Address :: u32
  Data :: u32
  Assistance :: u32

text \<open>The pointer \<open>lru_entry\<close>: null, into \<open>UTLB\<close>, or into \<open>full_table\<close>.\<close>

datatype lru_ptr = lru_null | lru_utlb nat | lru_full nat

text \<open>The function that \<open>doSqWrite\<close> points to.\<close>

datatype sq_handler = sqWrite_mmu | sqWrite_area_3 | sqWrite_TA | sqWrite_nommu

record 'p mem_sys =
  UTLB :: "nat \<Rightarrow> TLB_Entry"
  CCN_PTEH :: u32
  CCN_PTEL :: u32
  CCN_PTEA :: u32
  CCN_TTB :: u32
  CCN_TEA :: u32
  CCN_MMUCR :: u32
  CCN_CCR :: u32
  CCN_BASRA :: u8
  CCN_BASRB :: u8
  CCN_QACR0 :: u32
  CCN_QACR1 :: u32
  CCN_QACR_TR :: u32
  sq_writer :: sq_handler
  lru_entry :: lru_ptr
  lru_mask :: u32
  lru_address :: u32
  full_table :: "TLB_Entry list"
  entry_buckets :: "nat \<Rightarrow> nat list"
  sq_remap :: "nat \<Rightarrow> u32"
  INTC_ICR :: u16
  blocks :: "nat \<Rightarrow> nat \<Rightarrow> u8"
  periph :: 'p

type_synonym 'p machine = "'p mem_sys sh4_cpu"

abbreviation upd_dev :: "('p mem_sys \<Rightarrow> 'p mem_sys) \<Rightarrow> 'p machine \<Rightarrow> 'p machine" where
  "upd_dev f s \<equiv> s\<lparr>dev := f (dev s)\<rparr>"

datatype mem_info = Handler nat | Block nat nat

record 'p addr_map =
  memInfo_ptr :: "nat \<Rightarrow> mem_info"
  lastRegisteredHandler :: nat
  RF8 :: "nat \<Rightarrow> u32 \<Rightarrow> 'p machine \<Rightarrow> u8 \<times> 'p machine"
  RF16 :: "nat \<Rightarrow> u32 \<Rightarrow> 'p machine \<Rightarrow> u16 \<times> 'p machine"
  RF32 :: "nat \<Rightarrow> u32 \<Rightarrow> 'p machine \<Rightarrow> u32 \<times> 'p machine"
  WF8 :: "nat \<Rightarrow> u32 \<Rightarrow> u8 \<Rightarrow> 'p machine \<Rightarrow> 'p machine"
  WF16 :: "nat \<Rightarrow> u32 \<Rightarrow> u16 \<Rightarrow> 'p machine \<Rightarrow> 'p machine"
  WF32 :: "nat \<Rightarrow> u32 \<Rightarrow> u32 \<Rightarrow> 'p machine \<Rightarrow> 'p machine"

subsection \<open>Host memory\<close>

abbreviation (input) mem_b :: nat where "mem_b \<equiv> 0"
abbreviation (input) vram :: nat where "vram \<equiv> 1"
abbreviation (input) sq_buffer :: nat where "sq_buffer \<equiv> 2"

definition get16 :: "(nat \<Rightarrow> u8) \<Rightarrow> nat \<Rightarrow> u16" where
  "get16 b i = ucast (b i) OR push_bit 8 (ucast (b (i + 1)))"

definition get32 :: "(nat \<Rightarrow> u8) \<Rightarrow> nat \<Rightarrow> u32" where
  "get32 b i = ucast (get16 b i) OR push_bit 16 (ucast (get16 b (i + 2)))"

definition get64 :: "(nat \<Rightarrow> u8) \<Rightarrow> nat \<Rightarrow> u64" where
  "get64 b i = ucast (get32 b i) OR push_bit 32 (ucast (get32 b (i + 4)))"

definition put16 :: "nat \<Rightarrow> u16 \<Rightarrow> (nat \<Rightarrow> u8) \<Rightarrow> nat \<Rightarrow> u8" where
  "put16 i v b = b(i := ucast v, i + 1 := ucast (drop_bit 8 v))"

definition put32 :: "nat \<Rightarrow> u32 \<Rightarrow> (nat \<Rightarrow> u8) \<Rightarrow> nat \<Rightarrow> u8" where
  "put32 i v b = put16 (i + 2) (ucast (drop_bit 16 v)) (put16 i (ucast v) b)"

definition put64 :: "nat \<Rightarrow> u64 \<Rightarrow> (nat \<Rightarrow> u8) \<Rightarrow> nat \<Rightarrow> u8" where
  "put64 i v b = put32 (i + 4) (ucast (drop_bit 32 v)) (put32 i (ucast v) b)"

definition upd_block :: "nat \<Rightarrow> ((nat \<Rightarrow> u8) \<Rightarrow> nat \<Rightarrow> u8) \<Rightarrow> 'p machine \<Rightarrow> 'p machine" where
  "upd_block k f s = upd_dev (\<lambda>d. d\<lparr>blocks := (blocks d)(k := f (blocks d k))\<rparr>) s"

text \<open>\<open>addr <<= iirf; addr >>= iirf;\<close>\<close>

definition block_offset :: "nat \<Rightarrow> u32 \<Rightarrow> nat" where
  "block_offset n addr = unat (drop_bit n (push_bit n addr))"

subsection \<open>Accesses\<close>

definition addrspace_read8 :: "'p addr_map \<Rightarrow> u32 \<Rightarrow> 'p machine \<Rightarrow> u8 \<times> 'p machine" where
  "addrspace_read8 A addr s =
     (case memInfo_ptr A (unat (drop_bit 24 addr)) of
        Block k n \<Rightarrow> (blocks (dev s) k (block_offset n addr), s)
      | Handler i \<Rightarrow> RF8 A i addr s)"

definition addrspace_read16 :: "'p addr_map \<Rightarrow> u32 \<Rightarrow> 'p machine \<Rightarrow> u16 \<times> 'p machine" where
  "addrspace_read16 A addr s =
     (case memInfo_ptr A (unat (drop_bit 24 addr)) of
        Block k n \<Rightarrow> (get16 (blocks (dev s) k) (block_offset n addr), s)
      | Handler i \<Rightarrow> RF16 A i addr s)"

definition addrspace_read32 :: "'p addr_map \<Rightarrow> u32 \<Rightarrow> 'p machine \<Rightarrow> u32 \<times> 'p machine" where
  "addrspace_read32 A addr s =
     (case memInfo_ptr A (unat (drop_bit 24 addr)) of
        Block k n \<Rightarrow> (get32 (blocks (dev s) k) (block_offset n addr), s)
      | Handler i \<Rightarrow> RF32 A i addr s)"

definition addrspace_read64 :: "'p addr_map \<Rightarrow> u32 \<Rightarrow> 'p machine \<Rightarrow> u64 \<times> 'p machine" where
  "addrspace_read64 A addr s =
     (case memInfo_ptr A (unat (drop_bit 24 addr)) of
        Block k n \<Rightarrow> (get64 (blocks (dev s) k) (block_offset n addr), s)
      | Handler i \<Rightarrow>
          (let (lo, s) = RF32 A i addr s; (hi, s) = RF32 A i (addr + 4) s in (ucast lo OR push_bit 32 (ucast hi), s)))"

definition addrspace_write8 :: "'p addr_map \<Rightarrow> u32 \<Rightarrow> u8 \<Rightarrow> 'p machine \<Rightarrow> 'p machine" where
  "addrspace_write8 A addr v s =
     (case memInfo_ptr A (unat (drop_bit 24 addr)) of
        Block k n \<Rightarrow> upd_block k (\<lambda>b. b(block_offset n addr := v)) s
      | Handler i \<Rightarrow> WF8 A i addr v s)"

definition addrspace_write16 :: "'p addr_map \<Rightarrow> u32 \<Rightarrow> u16 \<Rightarrow> 'p machine \<Rightarrow> 'p machine" where
  "addrspace_write16 A addr v s =
     (case memInfo_ptr A (unat (drop_bit 24 addr)) of
        Block k n \<Rightarrow> upd_block k (put16 (block_offset n addr) v) s
      | Handler i \<Rightarrow> WF16 A i addr v s)"

definition addrspace_write32 :: "'p addr_map \<Rightarrow> u32 \<Rightarrow> u32 \<Rightarrow> 'p machine \<Rightarrow> 'p machine" where
  "addrspace_write32 A addr v s =
     (case memInfo_ptr A (unat (drop_bit 24 addr)) of
        Block k n \<Rightarrow> upd_block k (put32 (block_offset n addr) v) s
      | Handler i \<Rightarrow> WF32 A i addr v s)"

definition addrspace_write64 :: "'p addr_map \<Rightarrow> u32 \<Rightarrow> u64 \<Rightarrow> 'p machine \<Rightarrow> 'p machine" where
  "addrspace_write64 A addr v s =
     (case memInfo_ptr A (unat (drop_bit 24 addr)) of
        Block k n \<Rightarrow> upd_block k (put64 (block_offset n addr) v) s
      | Handler i \<Rightarrow> WF32 A i (addr + 4) (ucast (drop_bit 32 v)) (WF32 A i addr (ucast v) s))"

subsection \<open>Building the map\<close>

text \<open>\<open>registerHandler\<close> with the functions for the three sizes; a null pointer stands for the default handler.\<close>

definition registerHandler ::
  "(u32 \<Rightarrow> 'p machine \<Rightarrow> u8 \<times> 'p machine) option \<Rightarrow> (u32 \<Rightarrow> 'p machine \<Rightarrow> u16 \<times> 'p machine) option \<Rightarrow>
   (u32 \<Rightarrow> 'p machine \<Rightarrow> u32 \<times> 'p machine) option \<Rightarrow> (u32 \<Rightarrow> u8 \<Rightarrow> 'p machine \<Rightarrow> 'p machine) option \<Rightarrow>
   (u32 \<Rightarrow> u16 \<Rightarrow> 'p machine \<Rightarrow> 'p machine) option \<Rightarrow> (u32 \<Rightarrow> u32 \<Rightarrow> 'p machine \<Rightarrow> 'p machine) option \<Rightarrow>
   'p addr_map \<Rightarrow> nat \<times> 'p addr_map" where
  "registerHandler r8 r16 r32 w8 w16 w32 A =
     (let rv = lastRegisteredHandler A in
      (rv, A\<lparr>lastRegisteredHandler := rv + 1,
             RF8 := (RF8 A)(rv := case r8 of None \<Rightarrow> (\<lambda>a s. (0, s)) | Some f \<Rightarrow> f),
             RF16 := (RF16 A)(rv := case r16 of None \<Rightarrow> (\<lambda>a s. (0, s)) | Some f \<Rightarrow> f),
             RF32 := (RF32 A)(rv := case r32 of None \<Rightarrow> (\<lambda>a s. (0, s)) | Some f \<Rightarrow> f),
             WF8 := (WF8 A)(rv := case w8 of None \<Rightarrow> (\<lambda>a v s. s) | Some f \<Rightarrow> f),
             WF16 := (WF16 A)(rv := case w16 of None \<Rightarrow> (\<lambda>a v s. s) | Some f \<Rightarrow> f),
             WF32 := (WF32 A)(rv := case w32 of None \<Rightarrow> (\<lambda>a v s. s) | Some f \<Rightarrow> f)\<rparr>))"

text \<open>\<open>FindMask\<close> counts the shift; \<open>None\<close> when no shift below 32 gives the mask (the loop of the source has no other exit).\<close>

definition FindMask :: "u32 \<Rightarrow> nat option" where
  "FindMask msk = find (\<lambda>rv. msk = drop_bit rv 0xFFFFFFFF) [0..<32]"

definition mapHandler :: "nat \<Rightarrow> nat \<Rightarrow> nat \<Rightarrow> 'p addr_map \<Rightarrow> 'p addr_map" where
  "mapHandler h first end_page A = fold (\<lambda>i A. A\<lparr>memInfo_ptr := (memInfo_ptr A)(i := Handler h)\<rparr>) [first..<end_page + 1] A"

definition mapBlock :: "nat \<Rightarrow> nat \<Rightarrow> nat \<Rightarrow> u32 \<Rightarrow> 'p addr_map \<Rightarrow> 'p addr_map" where
  "mapBlock base first end_page msk A =
     (case FindMask msk of None \<Rightarrow> A
      | Some n \<Rightarrow> fold (\<lambda>i A. A\<lparr>memInfo_ptr := (memInfo_ptr A)(i := Block base n)\<rparr>) [first..<end_page + 1] A)"

text \<open>\<open>mapBlockMirror\<close>: the block again and again from \<open>first\<close> to \<open>end_page\<close>; the size is a multiple of 16 MB.\<close>

definition mapBlockMirror :: "nat \<Rightarrow> nat \<Rightarrow> nat \<Rightarrow> u32 \<Rightarrow> 'p addr_map \<Rightarrow> 'p addr_map" where
  "mapBlockMirror base first end_page blck_size A =
     (let block_size = unat (drop_bit 24 blck_size) in
      if block_size = 0 then A
      else fold (\<lambda>p. mapBlock base p (p + block_size - 1) (blck_size - 1))
             (filter (\<lambda>p. (p - first) mod block_size = 0) [first..<end_page + 1]) A)"

definition mirrorMapping :: "nat \<Rightarrow> nat \<Rightarrow> nat \<Rightarrow> 'p addr_map \<Rightarrow> 'p addr_map" where
  "mirrorMapping new_region first count A =
     fold (\<lambda>k A. A\<lparr>memInfo_ptr := (memInfo_ptr A)((new_region + k) mod 256 := memInfo_ptr A ((first + k) mod 256))\<rparr>) [0..<count] A"

definition addrspace_init :: "'p addr_map" where
  "addrspace_init =
     snd (registerHandler None None None None None None
       \<lparr>memInfo_ptr = (\<lambda>_. Handler 0), lastRegisteredHandler = 0, RF8 = (\<lambda>_ _ s. (0, s)), RF16 = (\<lambda>_ _ s. (0, s)), RF32 = (\<lambda>_ _ s. (0, s)),
        WF8 = (\<lambda>_ _ _ s. s), WF16 = (\<lambda>_ _ _ s. s), WF32 = (\<lambda>_ _ _ s. s)\<rparr>)"

end
