(* ===== verification/Sh4_Mmu.thy ===== *)
theory Sh4_Mmu
  imports Addrspace
begin

unbundle bit_operations_syntax

section \<open>The MMU and the cache and TLB controller of the SH-4\<close>

text \<open>
  Models \<^verbatim>\<open>core/hw/sh4/modules/fastmmu.cpp\<close> (\<^verbatim>\<open>FAST_MMU\<close> and \<^verbatim>\<open>USE_WINCE_HACK\<close> are defined in \<^verbatim>\<open>core/build.h\<close>), the parts of
  \<^verbatim>\<open>mmu.cpp\<close> shared with it, \<open>wince_resolve_address\<close> of \<^verbatim>\<open>wince.h\<close>, the registers of \<^verbatim>\<open>ccn.cpp\<close> and the store queues of
  \<^verbatim>\<open>storeq.cpp\<close>.  The fast MMU keeps every entry ever loaded in \<open>full_table\<close> and finds it by a hash of page, size and
  address space; \<open>full_table\<close> holds the first \<open>full_table_size\<close> entries of the array, and a bucket the indices of its chain, the newest
  first.  The table \<open>mmuAddressLUT\<close> is only read by the recompiler and is left out; so is the instruction TLB, which the fast
  MMU never looks up.
\<close>

subsection \<open>Fields\<close>

abbreviation (input) vpn_bits :: u32 where "vpn_bits \<equiv> 0xFFFFFC00"
abbreviation (input) ppn_bits :: u32 where "ppn_bits \<equiv> 0x1FFFFC00"

text \<open>The fields that the code shifts left by 10 before using them: the page addresses.\<close>

definition page_of :: "TLB_Entry \<Rightarrow> u32" where "page_of t = Address t AND vpn_bits"
definition frame_of :: "TLB_Entry \<Rightarrow> u32" where "frame_of t = Data t AND ppn_bits"
definition ASID_of :: "u32 \<Rightarrow> u32" where "ASID_of v = v AND 0xFF"
definition SH_of :: "TLB_Entry \<Rightarrow> bool" where "SH_of t = bit (Data t) 1"
definition V_of :: "TLB_Entry \<Rightarrow> bool" where "V_of t = bit (Data t) 8"
definition size_of :: "TLB_Entry \<Rightarrow> nat" where "size_of t = 2 * of_bool (bit (Data t) 7) + of_bool (bit (Data t) 4)"

definition MMUCR_AT :: "u32 \<Rightarrow> bool" where "MMUCR_AT v = bit v 0"
definition MMUCR_TI :: "u32 \<Rightarrow> bool" where "MMUCR_TI v = bit v 2"
definition MMUCR_URC :: "u32 \<Rightarrow> nat" where "MMUCR_URC v = unat (drop_bit 10 v AND 0x3F)"
definition QACR_Area :: "u32 \<Rightarrow> u32" where "QACR_Area v = drop_bit 2 v AND 7"

definition mmu_mask :: "nat \<Rightarrow> u32" where
  "mmu_mask sz = (case sz of 0 \<Rightarrow> 0xFFFFFC00 | Suc 0 \<Rightarrow> 0xFFFFF000 | Suc (Suc 0) \<Rightarrow> 0xFFFF0000 | _ \<Rightarrow> 0xFFF00000)"

definition fast_reg_lut :: "u32 \<Rightarrow> bool" where "fast_reg_lut n = (n \<in> {4, 5, 7})"

text \<open>The physical memory mask of the board, \<open>RAM_MASK\<close>, is a parameter.\<close>

definition ram32 :: "u32 \<Rightarrow> 'p machine \<Rightarrow> u32 \<Rightarrow> u32" where
  "ram32 RAM_MASK s addr = get32 (blocks (dev s) mem_b) (unat (addr AND RAM_MASK))"

subsection \<open>The hashed table of translations\<close>

definition bucket_index :: "u32 \<Rightarrow> nat \<Rightarrow> u32 \<Rightarrow> nat" where
  "bucket_index address sz asid =
     unat ((drop_bit 20 address XOR drop_bit 12 address XOR (address OR asid OR push_bit 8 (of_nat sz))) AND 4095)"

definition cache_entry :: "TLB_Entry \<Rightarrow> 'p mem_sys \<Rightarrow> 'p mem_sys" where
  "cache_entry t d =
     (if size_of t = 0 \<or> length (full_table d) \<ge> 65536 then d
      else
        (let n = length (full_table d); bucket = bucket_index (page_of t) (size_of t) (ASID_of (Address t))
         in d\<lparr>full_table := full_table d @ [t], entry_buckets := (entry_buckets d)(bucket := n # entry_buckets d bucket)\<rparr>))"

definition flush_cache :: "'p mem_sys \<Rightarrow> 'p mem_sys" where
  "flush_cache d = d\<lparr>full_table := [], entry_buckets := (\<lambda>_. [])\<rparr>"

definition mmu_flush_table :: "'p mem_sys \<Rightarrow> 'p mem_sys" where
  "mmu_flush_table d = flush_cache (d\<lparr>lru_entry := lru_null\<rparr>)"

definition page_shift :: "nat \<Rightarrow> nat" where
  "page_shift sz = (if sz = 1 then 2 else if sz = 2 then 6 else if sz = 3 then 10 else 0)"

definition find_entry_by_page_size :: "nat \<Rightarrow> u32 \<Rightarrow> 'p mem_sys \<Rightarrow> nat option" where
  "find_entry_by_page_size sz address d =
     (let vpn10 = push_bit (10 + page_shift sz) (drop_bit (10 + page_shift sz) address);
          asid = ASID_of (CCN_PTEH d)
      in find (\<lambda>i. let t = full_table d ! i in
            page_of t = vpn10 \<and> size_of t = sz \<and> (SH_of t \<or> ASID_of (Address t) = asid))
           (entry_buckets d (bucket_index vpn10 sz asid)))"

definition find_entry :: "u32 \<Rightarrow> 'p mem_sys \<Rightarrow> nat option" where
  "find_entry address d =
     (case find_entry_by_page_size 1 address d of Some i \<Rightarrow> Some i
      | None \<Rightarrow> (case find_entry_by_page_size 2 address d of Some i \<Rightarrow> Some i | None \<Rightarrow> find_entry_by_page_size 3 address d))"

subsection \<open>Windows CE page tables\<close>

definition wince_entry :: "u32 \<Rightarrow> u32 \<Rightarrow> u32 \<Rightarrow> u32 \<Rightarrow> TLB_Entry" where
  "wince_entry va ptel assistance pteh =
     (let sz = size_of \<lparr>Address = 0, Data = ptel, Assistance = 0\<rparr>
      in \<lparr>Address = (va AND mmu_mask sz AND vpn_bits) OR (pteh AND NOT vpn_bits), Data = ptel, Assistance = assistance\<rparr>)"

text \<open>
  \<open>wince_resolve_address\<close>: the new contents of the entry, whose bits 8 and 9 of the address word are kept from the old one.
\<close>

definition wince_resolve_address :: "u32 \<Rightarrow> u32 \<Rightarrow> TLB_Entry \<Rightarrow> 'p machine \<Rightarrow> TLB_Entry option" where
  "wince_resolve_address RAM_MASK va t s =
     (let keep = (Address t AND 0x300) OR ASID_of (CCN_PTEH (dev s)) in
      if \<not> bit va 31 then
        (let page_group = ram32 RAM_MASK s (CCN_TTB (dev s) + push_bit 2 (drop_bit 25 va));
             page = push_bit 2 (drop_bit 16 va AND 0x1FF);
             paddr = ram32 RAM_MASK s (page_group + page)
         in if bit paddr 31 then
              (let whatever = ram32 RAM_MASK s (r_bank (cx s) 4 + 0x14) in
               if whatever \<noteq> ram32 RAM_MASK s paddr then
                 (let paddr = paddr + 12; ptel = ram32 RAM_MASK s (paddr + (drop_bit 10 va AND 0x3C))
                  in if ptel \<noteq> 0 then Some (wince_entry va (ptel - 1) 0 keep) else None)
               else None)
            else None)
      else if drop_bit 26 va = 0x38 then
        (let r1 = (va - 0xE0000000) AND 0xFFF00000; r0 = 0x0E0001F5 + r1
         in Some (wince_entry va (r0 - 1) (drop_bit 29 r0) keep))
      else None)"

subsection \<open>Lookup\<close>

definition lru_target :: "'p mem_sys \<Rightarrow> TLB_Entry option" where
  "lru_target d = (case lru_entry d of lru_null \<Rightarrow> None | lru_utlb i \<Rightarrow> Some (UTLB d i) | lru_full i \<Rightarrow> Some (full_table d ! i))"

definition lru_hit :: "u32 \<Rightarrow> 'p mem_sys \<Rightarrow> TLB_Entry option" where
  "lru_hit va d =
     (case lru_target d of None \<Rightarrow> None
      | Some t \<Rightarrow>
          if lru_address d = va AND lru_mask d \<and> (ASID_of (Address t) = ASID_of (CCN_PTEH d) \<or> SH_of t) then Some t else None)"

definition mmu_full_lookup :: "u32 \<Rightarrow> u32 \<Rightarrow> 'p machine \<Rightarrow> u32 option \<times> 'p machine" where
  "mmu_full_lookup RAM_MASK va s =
     (case lru_hit va (dev s) of
        Some t \<Rightarrow> (Some (frame_of t OR (va AND NOT (lru_mask (dev s)))), s)
      | None \<Rightarrow>
        (case find_entry va (dev s) of
           Some i \<Rightarrow>
             (let t = full_table (dev s) ! i; m = mmu_mask (size_of t)
              in (Some (frame_of t OR (va AND NOT m)), upd_dev (\<lambda>d. d\<lparr>lru_entry := lru_full i, lru_mask := m, lru_address := page_of t\<rparr>) s))
         | None \<Rightarrow>
           (let n = MMUCR_URC (CCN_MMUCR (dev s)) in
            case wince_resolve_address RAM_MASK va (UTLB (dev s) n) s of
              None \<Rightarrow> (None, s)
            | Some t \<Rightarrow>
              (let s = upd_dev (\<lambda>d. d\<lparr>CCN_PTEL := Data t, CCN_PTEA := Assistance t, CCN_PTEH := Address t\<rparr>) s;
                   m = mmu_mask (size_of t);
                   t = t\<lparr>Data := (Data t AND NOT ppn_bits) OR (Data t AND ppn_bits AND m)\<rparr>;
                   s = upd_dev (\<lambda>d. d\<lparr>UTLB := (UTLB d)(n := t), lru_entry := lru_utlb n, lru_mask := m, lru_address := va AND m\<rparr>) s;
                   s = upd_dev (cache_entry t) s
               in (Some (frame_of t OR (va AND NOT m)), s\<lparr>cycle_counter := cycle_counter s - 164\<rparr>)))))"

datatype MmuError = MMU_NONE | TLB_MISS | TLB_MHIT | PROTECTED | FIRSTWRITE | BADADDR

abbreviation (input) MMU_TT_IREAD :: nat where "MMU_TT_IREAD \<equiv> 0"
abbreviation (input) MMU_TT_DWRITE :: nat where "MMU_TT_DWRITE \<equiv> 1"
abbreviation (input) MMU_TT_DREAD :: nat where "MMU_TT_DREAD \<equiv> 2"

definition mmu_full_SQ :: "u32 \<Rightarrow> u32 \<Rightarrow> 'p machine \<Rightarrow> u32 option \<times> 'p machine" where
  "mmu_full_SQ RAM_MASK va s = (let (r, s) = mmu_full_lookup RAM_MASK va s in (map_option (\<lambda>rv. rv AND NOT 31) r, s))"

definition mmu_data_translation :: "u32 \<Rightarrow> u32 \<Rightarrow> 'p machine \<Rightarrow> u32 option \<times> 'p machine" where
  "mmu_data_translation RAM_MASK va s =
     (if fast_reg_lut (drop_bit 29 va) then (Some va, s)
      else if va AND 0xFC000000 = 0x7C000000 then (Some va, s)
      else
        (let (r, s) = mmu_full_lookup RAM_MASK va s
         in (map_option (\<lambda>rv. if rv AND 0x1C000000 = 0x1C000000 then rv OR 0xF0000000 else rv) r, s)))"

definition mmu_instruction_translation :: "u32 \<Rightarrow> u32 \<Rightarrow> 'p machine \<Rightarrow> u32 option \<times> 'p machine" where
  "mmu_instruction_translation RAM_MASK va s =
     (if fast_reg_lut (drop_bit 29 va) then (Some va, s) else mmu_full_lookup RAM_MASK va s)"

text \<open>The fast MMU only returns the first two errors and \<open>BADADDR\<close>.\<close>

definition mmu_raise_exception :: "MmuError \<Rightarrow> u32 \<Rightarrow> nat \<Rightarrow> ('a, 'p mem_sys) act" where
  "mmu_raise_exception err address am s =
     (let s = upd_dev (\<lambda>d. d\<lparr>CCN_TEA := address, CCN_PTEH := (CCN_PTEH d AND NOT vpn_bits) OR (address AND vpn_bits)\<rparr>) s
      in case err of
           MMU_NONE \<Rightarrow> Fatal
         | TLB_MISS \<Rightarrow> throw (pc (cx s) - 2) (if am = MMU_TT_DWRITE then 0x60 else 0x40) s
         | TLB_MHIT \<Rightarrow> throw (pc (cx s) - 2) 0x140 s
         | PROTECTED \<Rightarrow> throw (pc (cx s) - 2) (if am = MMU_TT_DWRITE then 0xC0 else 0xA0) s
         | FIRSTWRITE \<Rightarrow> if am = MMU_TT_DWRITE then throw (pc (cx s) - 2) 0x80 s else Fatal
         | BADADDR \<Rightarrow> throw (pc (cx s) - 2) (if am = MMU_TT_DWRITE then 0x100 else 0xE0) s)"

subsection \<open>Accesses with the MMU on\<close>

definition mmu_access ::
  "u32 \<Rightarrow> u32 \<Rightarrow> nat \<Rightarrow> (u32 \<Rightarrow> 'p machine \<Rightarrow> u32 option \<times> 'p machine) \<Rightarrow> u32 \<Rightarrow> (u32 \<Rightarrow> 'p machine \<Rightarrow> 'a \<times> 'p machine) \<Rightarrow> ('a, 'p mem_sys) act" where
  "mmu_access RAM_MASK align tt translate adr access s =
     (if adr AND align \<noteq> 0 then mmu_raise_exception BADADDR adr tt s
      else
        (case translate adr s of
           (None, s) \<Rightarrow> mmu_raise_exception TLB_MISS adr tt s
         | (Some addr, s) \<Rightarrow> (case access addr s of (v, s) \<Rightarrow> Done v s)))"

definition mmu_ReadMem :: "u32 \<Rightarrow> u32 \<Rightarrow> (u32 \<Rightarrow> 'p machine \<Rightarrow> 'a \<times> 'p machine) \<Rightarrow> u32 \<Rightarrow> ('a, 'p mem_sys) act" where
  "mmu_ReadMem RAM_MASK align rd adr = mmu_access RAM_MASK align MMU_TT_DREAD (mmu_data_translation RAM_MASK) adr rd"

definition mmu_IReadMem16 :: "u32 \<Rightarrow> 'p addr_map \<Rightarrow> u32 \<Rightarrow> (u16, 'p mem_sys) act" where
  "mmu_IReadMem16 RAM_MASK A vaddr = mmu_access RAM_MASK 1 MMU_TT_IREAD (mmu_instruction_translation RAM_MASK) vaddr (addrspace_read16 A)"

definition mmu_WriteMem :: "u32 \<Rightarrow> u32 \<Rightarrow> (u32 \<Rightarrow> 'a \<Rightarrow> 'p machine \<Rightarrow> 'p machine) \<Rightarrow> u32 \<Rightarrow> 'a \<Rightarrow> (unit, 'p mem_sys) act" where
  "mmu_WriteMem RAM_MASK align wr adr data =
     mmu_access RAM_MASK align MMU_TT_DWRITE (mmu_data_translation RAM_MASK) adr (\<lambda>addr s. ((), wr addr data s))"

subsection \<open>Switching the MMU and loading entries\<close>

text \<open>\<open>setSqwHandler\<close> of \<^verbatim>\<open>storeq.cpp\<close>.\<close>

definition setSqwHandler :: "'p mem_sys \<Rightarrow> 'p mem_sys" where
  "setSqwHandler d =
     (if MMUCR_AT (CCN_MMUCR d) then d\<lparr>sq_writer := sqWrite_mmu\<rparr>
      else
        (let area = QACR_Area (CCN_QACR0 d); d = d\<lparr>CCN_QACR_TR := push_bit 26 area - 0xE0000000\<rparr>
         in d\<lparr>sq_writer := (if area = 3 then sqWrite_area_3 else if area = 4 then sqWrite_TA else sqWrite_nommu)\<rparr>))"

text \<open>The name by which a running Windows CE kernel is recognised, \<open>SH-4 Kernel\<close> in 16-bit characters.\<close>

definition wince_magic :: "u8 list" where
  "wince_magic = [0x53, 0, 0x48, 0, 0x2D, 0, 0x34, 0, 0x20, 0, 0x4B, 0, 0x65, 0, 0x72, 0, 0x6E, 0, 0x65, 0, 0x6C, 0]"

definition has_magic :: "u32 \<Rightarrow> 'p mem_sys \<Rightarrow> u32 \<Rightarrow> bool" where
  "has_magic RAM_MASK d addr = (map (\<lambda>k. blocks d mem_b (unat (addr AND RAM_MASK) + k)) [0..<22] = wince_magic)"

definition mmu_set_state :: "u32 \<Rightarrow> 'p machine \<Rightarrow> 'p machine" where
  "mmu_set_state RAM_MASK s =
     (let s = (if MMUCR_AT (CCN_MMUCR (dev s)) then
                 (if has_magic RAM_MASK (dev s) 0x8C0110A8 \<or> has_magic RAM_MASK (dev s) 0x8C011118 then s\<lparr>mmuOn := True\<rparr> else s)
               else s\<lparr>mmuOn := False\<rparr>)
      in upd_dev setSqwHandler s)"

definition UTLB_Sync :: "u32 \<Rightarrow> nat \<Rightarrow> 'p machine \<Rightarrow> 'p machine" where
  "UTLB_Sync RAM_MASK n s =
     (let t = UTLB (dev s) n; m = mmu_mask (size_of t);
          t = t\<lparr>Address := (Address t AND NOT vpn_bits) OR (Address t AND vpn_bits AND m),
                Data := (Data t AND NOT ppn_bits) OR (Data t AND ppn_bits AND m)\<rparr>;
          s = upd_dev (\<lambda>d. d\<lparr>UTLB := (UTLB d)(n := t), lru_entry := lru_utlb n, lru_mask := m, lru_address := page_of t\<rparr>) s;
          s = upd_dev (cache_entry t) s;
          vpn = drop_bit 10 (Address t)
      in if mmuOn s then s
         else if page_of t AND 0xFC000000 = 0xE0000000 then
           upd_dev (\<lambda>d. d\<lparr>sq_remap := (sq_remap d)(unat (drop_bit 10 (vpn AND 0x7FFFF) AND 0x3F) := frame_of t)\<rparr>) s
         else if MMUCR_AT (CCN_MMUCR (dev s)) \<and> vpn \<noteq> 0x30040 \<and> vpn \<noteq> 0x30000 \<and> V_of t then
           mmu_set_state RAM_MASK (s\<lparr>mmuOn := True\<rparr>)
         else s)"

text \<open>The instruction \<open>ldtlb\<close>.\<close>

definition ldtlb :: "u32 \<Rightarrow> (unit, 'p mem_sys) act" where
  "ldtlb RAM_MASK s =
     (let d = dev s; n = MMUCR_URC (CCN_MMUCR d);
          s = upd_dev (\<lambda>d. d\<lparr>UTLB := (UTLB d)(n := \<lparr>Address = CCN_PTEH d, Data = CCN_PTEL d, Assistance = CCN_PTEA d\<rparr>)\<rparr>) s
      in Done () (UTLB_Sync RAM_MASK n s))"

subsection \<open>Registers of the controller\<close>

definition CCN_QACR_write :: "nat \<Rightarrow> u32 \<Rightarrow> 'p machine \<Rightarrow> 'p machine" where
  "CCN_QACR_write idx v s =
     upd_dev (\<lambda>d. setSqwHandler (if idx = 0 then d\<lparr>CCN_QACR0 := v AND 0x1C\<rparr> else d\<lparr>CCN_QACR1 := v AND 0x1C\<rparr>)) s"

definition CCN_PTEH_write :: "u32 \<Rightarrow> 'p machine \<Rightarrow> 'p machine" where
  "CCN_PTEH_write v s = upd_dev (\<lambda>d. d\<lparr>CCN_PTEH := v AND 0xFFFFFCFF\<rparr>) s"

definition CCN_MMUCR_write :: "u32 \<Rightarrow> u32 \<Rightarrow> 'p machine \<Rightarrow> 'p machine" where
  "CCN_MMUCR_write RAM_MASK v s =
     (let temp = v AND 0xFCFCFF05;
          mmu_changed_state = (MMUCR_AT temp \<noteq> MMUCR_AT (CCN_MMUCR (dev s)));
          (temp, s) = (if MMUCR_TI temp then (temp AND NOT 4, upd_dev mmu_flush_table s) else (temp, s));
          s = upd_dev (\<lambda>d. d\<lparr>CCN_MMUCR := temp\<rparr>) s
      in if mmu_changed_state then mmu_set_state RAM_MASK s else s)"

definition CCN_CCR_write :: "u32 \<Rightarrow> 'p machine \<Rightarrow> 'p machine" where
  "CCN_CCR_write v s = upd_dev (\<lambda>d. d\<lparr>CCN_CCR := v AND 0x89AF AND NOT 0x808\<rparr>) s"

text \<open>The bank of registers at \<open>0x1F000000\<close>: 18 words, each accepting one size of access.\<close>

definition ccn_index :: "u32 \<Rightarrow> nat" where "ccn_index addr = unat (addr AND 0xFF) div 4"

definition ccn_read32 :: "u32 \<Rightarrow> 'p machine \<Rightarrow> u32" where
  "ccn_read32 addr s =
     (let d = dev s; i = ccn_index addr in
      if addr AND 3 \<noteq> 0 then 0
      else if i = 0 then CCN_PTEH d else if i = 1 then CCN_PTEL d else if i = 2 then CCN_TTB d else if i = 3 then CCN_TEA d
      else if i = 4 then CCN_MMUCR d else if i = 7 then CCN_CCR d else if i = 8 then CCN_TRA s else if i = 9 then CCN_EXPEVT (cx s)
      else if i = 10 then CCN_INTEVT (cx s) else if i = 12 then 0x040205C1 else if i = 13 then CCN_PTEA d
      else if i = 14 then CCN_QACR0 d else if i = 15 then CCN_QACR1 d else 0)"

definition ccn_read8 :: "u32 \<Rightarrow> 'p machine \<Rightarrow> u8" where
  "ccn_read8 addr s =
     (let d = dev s; i = ccn_index addr in
      if addr AND 3 \<noteq> 0 then 0 else if i = 5 then CCN_BASRA d else if i = 6 then CCN_BASRB d else 0)"

definition ccn_write32 :: "u32 \<Rightarrow> u32 \<Rightarrow> u32 \<Rightarrow> 'p machine \<Rightarrow> 'p machine" where
  "ccn_write32 RAM_MASK addr v s =
     (let i = ccn_index addr in
      if addr AND 3 \<noteq> 0 then s
      else if i = 0 then CCN_PTEH_write v s
      else if i = 1 then upd_dev (\<lambda>d. d\<lparr>CCN_PTEL := v AND 0x1FFFFDFF\<rparr>) s
      else if i = 2 then upd_dev (\<lambda>d. d\<lparr>CCN_TTB := v\<rparr>) s
      else if i = 3 then upd_dev (\<lambda>d. d\<lparr>CCN_TEA := v\<rparr>) s
      else if i = 4 then CCN_MMUCR_write RAM_MASK v s
      else if i = 7 then CCN_CCR_write v s
      else if i = 8 then s\<lparr>CCN_TRA := v AND 0x3FC\<rparr>
      else if i = 9 then upd_cx (\<lambda>c. c\<lparr>CCN_EXPEVT := v AND 0xFFF\<rparr>) s
      else if i = 10 then upd_cx (\<lambda>c. c\<lparr>CCN_INTEVT := v AND 0xFFF\<rparr>) s
      else if i = 13 then upd_dev (\<lambda>d. d\<lparr>CCN_PTEA := v AND 0xF\<rparr>) s
      else if i = 14 then CCN_QACR_write 0 v s
      else if i = 15 then CCN_QACR_write 1 v s
      else s)"

definition ccn_write8 :: "u32 \<Rightarrow> u8 \<Rightarrow> 'p machine \<Rightarrow> 'p machine" where
  "ccn_write8 addr v s =
     (let i = ccn_index addr in
      if addr AND 3 \<noteq> 0 then s
      else if i = 5 then upd_dev (\<lambda>d. d\<lparr>CCN_BASRA := v\<rparr>) s
      else if i = 6 then upd_dev (\<lambda>d. d\<lparr>CCN_BASRB := v\<rparr>) s
      else s)"

text \<open>The bank of the interrupt controller at \<open>0x1FD00000\<close>: five 16-bit registers.\<close>

definition intc_index :: "u32 \<Rightarrow> nat" where "intc_index addr = unat (addr AND 0xFF) div 4"

definition intc_read16 :: "u32 \<Rightarrow> 'p machine \<Rightarrow> u16" where
  "intc_read16 addr s =
     (let i = intc_index addr in
      if addr AND 3 \<noteq> 0 then 0
      else if i = 0 then INTC_ICR (dev s) else if i = 1 then INTC_IPRA (cx s) else if i = 2 then INTC_IPRB (cx s)
      else if i = 3 then INTC_IPRC (cx s) else 0)"

definition intc_write16 :: "u32 \<Rightarrow> u16 \<Rightarrow> 'p machine \<Rightarrow> 'p machine" where
  "intc_write16 addr v s =
     (let i = intc_index addr in
      if addr AND 3 \<noteq> 0 then s
      else if i = 0 then upd_dev (\<lambda>d. d\<lparr>INTC_ICR := v AND 0x4380\<rparr>) s
      else if i = 1 then upd_cx (write_INTC_IPRA v) s
      else if i = 2 then upd_cx (write_INTC_IPRB v) s
      else if i = 3 then upd_cx (write_INTC_IPRC v) s
      else s)"

subsection \<open>Store queues\<close>

text \<open>\<open>GetMemPtr\<close> for the 32 bytes of a queue: an offset in system memory when the address is in area 3.\<close>

definition GetMemPtr32 :: "u32 \<Rightarrow> u32 \<Rightarrow> nat option" where
  "GetMemPtr32 RAM_MASK addr =
     (if drop_bit 29 addr = 7 then None
      else if drop_bit 26 addr AND 7 = 3 then
        (if (addr AND RAM_MASK) + 32 > RAM_MASK + 1 then None else Some (unat (addr AND RAM_MASK)))
      else None)"

definition copy32 :: "nat \<Rightarrow> nat \<Rightarrow> 'p machine \<Rightarrow> 'p machine" where
  "copy32 dst src s =
     upd_block mem_b (\<lambda>b i. if dst \<le> i \<and> i < dst + 32 then blocks (dev s) sq_buffer (src + (i - dst)) else b i) s"

definition WriteMemBlock_nommu_sq :: "u32 \<Rightarrow> 'p addr_map \<Rightarrow> u32 \<Rightarrow> nat \<Rightarrow> 'p machine \<Rightarrow> 'p machine" where
  "WriteMemBlock_nommu_sq RAM_MASK A dst src s =
     (case GetMemPtr32 RAM_MASK dst of
        Some p \<Rightarrow> copy32 p src s
      | None \<Rightarrow> fold (\<lambda>k s. addrspace_write32 A (dst + of_nat (4 * k)) (get32 (blocks (dev s) sq_buffer) (src + 4 * k)) s) [0..<8] s)"

definition sq_index :: "u32 \<Rightarrow> nat" where "sq_index dest = 32 * of_bool (bit dest 5)"

definition mmu_TranslateSQW :: "u32 \<Rightarrow> u32 \<Rightarrow> (u32, 'p mem_sys) act" where
  "mmu_TranslateSQW RAM_MASK adr s =
     (if \<not> mmuOn s then Done (sq_remap (dev s) (unat (drop_bit 20 adr AND 0x3F)) OR (adr AND 0xFFFE0)) s
      else
        (case mmu_full_SQ RAM_MASK adr s of
           (None, s) \<Rightarrow> mmu_raise_exception TLB_MISS adr MMU_TT_DREAD s
         | (Some addr, s) \<Rightarrow> Done addr s))"

definition sqWrite_to :: "u32 \<Rightarrow> 'p addr_map \<Rightarrow> (u32 \<Rightarrow> 'p machine \<Rightarrow> 'p machine) \<Rightarrow> u32 \<Rightarrow> u32 \<Rightarrow> 'p machine \<Rightarrow> 'p machine" where
  "sqWrite_to RAM_MASK A TAWriteSQ dest address s =
     (if drop_bit 26 address AND 7 \<noteq> 4 then WriteMemBlock_nommu_sq RAM_MASK A address (sq_index dest) s else TAWriteSQ address s)"

definition do_sqw :: "u32 \<Rightarrow> 'p addr_map \<Rightarrow> (u32 \<Rightarrow> 'p machine \<Rightarrow> 'p machine) \<Rightarrow> u32 \<Rightarrow> (unit, 'p mem_sys) act" where
  "do_sqw RAM_MASK A TAWriteSQ dest s =
     (case sq_writer (dev s) of
        sqWrite_mmu \<Rightarrow> bnd (mmu_TranslateSQW RAM_MASK dest s) (\<lambda>address. act (sqWrite_to RAM_MASK A TAWriteSQ dest address))
      | sqWrite_nommu \<Rightarrow> act (sqWrite_to RAM_MASK A TAWriteSQ dest (CCN_QACR_TR (dev s) + (dest AND NOT 0x1F))) s
      | sqWrite_TA \<Rightarrow> act (TAWriteSQ dest) s
      | sqWrite_area_3 \<Rightarrow> act (copy32 (unat (dest AND (RAM_MASK - 0x1F))) (sq_index dest)) s)"

end
