(* ===== verification/Sh4_Machine.thy ===== *)
theory Sh4_Machine
  imports Sh4_Mmu Sh4_Run
begin

unbundle bit_operations_syntax

section \<open>The SH-4 with its memory interface\<close>

text \<open>
  The function pointers of \<open>SetMemoryHandlers\<close> (\<^verbatim>\<open>sh4_mem.cpp\<close>) as an environment of the interpreter, and the register
  region \<open>P4\<close> of \<^verbatim>\<open>sh4_mmr.cpp\<close>.  What the processor relies on is proved here for every address map whose handlers change no
  processor register (locale \<open>sh4_handlers\<close>), and the locale is interpreted on the map that the modelled modules give.
\<close>

subsection \<open>The environment\<close>

definition nommu_read :: "(u32 \<Rightarrow> 'p machine \<Rightarrow> 'a \<times> 'p machine) \<Rightarrow> u32 \<Rightarrow> ('a, 'p mem_sys) act" where
  "nommu_read rd a s = (case rd a s of (v, s) \<Rightarrow> Done v s)"

definition mem_env ::
  "u32 \<Rightarrow> 'p addr_map \<Rightarrow> (u32 \<Rightarrow> 'p machine \<Rightarrow> 'p machine) \<Rightarrow> fpu_host \<Rightarrow> (u32 \<Rightarrow> (unit, 'p mem_sys) act) \<Rightarrow>
   (int \<Rightarrow> 'p machine \<Rightarrow> 'p machine) \<Rightarrow> 'p mem_sys sh4_env" where
  "mem_env M A TA h bios tick =
     \<lparr>ReadMem8 = (\<lambda>a s. if mmuOn s then mmu_ReadMem M 0 (addrspace_read8 A) a s else nommu_read (addrspace_read8 A) a s),
      ReadMem16 = (\<lambda>a s. if mmuOn s then mmu_ReadMem M 1 (addrspace_read16 A) a s else nommu_read (addrspace_read16 A) a s),
      ReadMem32 = (\<lambda>a s. if mmuOn s then mmu_ReadMem M 3 (addrspace_read32 A) a s else nommu_read (addrspace_read32 A) a s),
      ReadMem64 = (\<lambda>a s. if mmuOn s then mmu_ReadMem M 3 (addrspace_read64 A) a s else nommu_read (addrspace_read64 A) a s),
      IReadMem16 = (\<lambda>a s. if mmuOn s then mmu_IReadMem16 M A a s else nommu_read (addrspace_read16 A) a s),
      WriteMem8 = (\<lambda>a v s. if mmuOn s then mmu_WriteMem M 0 (addrspace_write8 A) a v s else act (addrspace_write8 A a v) s),
      WriteMem16 = (\<lambda>a v s. if mmuOn s then mmu_WriteMem M 1 (addrspace_write16 A) a v s else act (addrspace_write16 A a v) s),
      WriteMem32 = (\<lambda>a v s. if mmuOn s then mmu_WriteMem M 3 (addrspace_write32 A) a v s else act (addrspace_write32 A a v) s),
      WriteMem64 = (\<lambda>a v s. if mmuOn s then mmu_WriteMem M 3 (addrspace_write64 A) a v s else act (addrspace_write64 A a v) s),
      doSqWrite = do_sqw M A TA,
      ldtlb_op = ldtlb M,
      host = h,
      reios_trap = bios,
      sh4_sched_tick = tick,
      ExecuteDelayslot = (\<lambda>_. Fatal),
      ExecuteDelayslot_RTE = (\<lambda>_. Fatal)\<rparr>"

subsection \<open>What the MMU keeps\<close>

lemma calm_dev [simp]: "calm s (t\<lparr>dev := d\<rparr>) = calm s t" "calm s (t\<lparr>mmuOn := b\<rparr>) = calm s t"
  by (simp_all add: calm_def)

lemma same_dev [simp]: "same_regs s (t\<lparr>dev := d\<rparr>) = same_regs s t" "same_regs s (t\<lparr>mmuOn := b\<rparr>) = same_regs s t"
  by (simp_all add: same_regs_def)

lemma quiet_dev [simp]: "quiet s (t\<lparr>dev := d\<rparr>) = quiet s t" "quiet s (t\<lparr>mmuOn := b\<rparr>) = quiet s t"
  by (simp_all add: quiet_def)

lemma quiet_cycles: "n \<le> cycle_counter t \<Longrightarrow> quiet s t \<Longrightarrow> quiet s (t\<lparr>cycle_counter := n\<rparr>)"
  by (auto simp: quiet_def calm_def same_regs_def fuel_def)

lemma quiet_lookup: "quiet s (snd (mmu_full_lookup M va s))"
  by (auto simp: mmu_full_lookup_def Let_def intro!: quiet_cycles split: option.split)

lemma quiet_translate:
  "quiet s (snd (mmu_data_translation M va s))" "quiet s (snd (mmu_instruction_translation M va s))" "quiet s (snd (mmu_full_SQ M va s))"
  using quiet_lookup [of s M va]
  by (auto simp: mmu_data_translation_def mmu_instruction_translation_def mmu_full_SQ_def Let_def split: prod.split)

definition silent :: "(u32 \<Rightarrow> 'p machine \<Rightarrow> 'a \<times> 'p machine) \<Rightarrow> bool" where
  "silent f \<longleftrightarrow> (\<forall>a s. quiet s (snd (f a s)))"

lemma polite_silent: "silent f \<Longrightarrow> polite (nommu_read f a)"
  by (auto simp: polite_def silent_def nommu_read_def split: prod.split) (metis snd_conv)

definition polite_out :: "'p machine \<Rightarrow> ('a, 'p mem_sys) outcome \<Rightarrow> bool" where
  "polite_out s r \<longleftrightarrow> (case r of Done v t \<Rightarrow> quiet s t | Thrown epc ev t \<Rightarrow> quiet s t \<and> epc = pc (cx s) - 2 | Fatal \<Rightarrow> True)"

lemma polite_iff: "polite f \<longleftrightarrow> (\<forall>s. polite_out s (f s))"
  by (simp add: polite_def polite_out_def)

lemma polite_out_simps [simp]: "polite_out s (Done v t) = quiet s t" "polite_out s (act f t) = quiet s (f t)"
  by (simp_all add: polite_out_def act_def)

text \<open>A raised exception carries the address of the instruction because \<open>pc\<close> has moved on by two.\<close>

lemma raise_polite: "quiet s t \<Longrightarrow> polite_out s (mmu_raise_exception err adr tt t)"
  by (cases err) (auto simp: polite_out_def mmu_raise_exception_def Let_def throw_def quiet_def)

lemma access_polite:
  assumes tr: "\<And>va s. quiet s (snd (tr va s))" and f: "silent f"
  shows "polite (mmu_access M al tt tr adr f)"
  unfolding polite_iff
proof
  fix s
  obtain r t where t: "tr adr s = (r, t)" by fastforce
  then have q: "quiet s t" using tr [of s adr] by simp
  have "quiet s u" if "f a t = (v, u)" for a v u
    using quiet_trans [OF q] f [unfolded silent_def, rule_format, of t a] that by simp
  then show "polite_out s (mmu_access M al tt tr adr f s)"
    using q by (auto simp: mmu_access_def t raise_polite split: option.split prod.split)
qed

subsection \<open>The laws of the handlers\<close>

definition silent_write :: "(u32 \<Rightarrow> 'a \<Rightarrow> 'p machine \<Rightarrow> 'p machine) \<Rightarrow> bool" where
  "silent_write f \<longleftrightarrow> (\<forall>a v s. quiet s (f a v s))"

lemma quiet_block [simp]: "quiet s (upd_block k f t) = quiet s t"
  by (simp add: upd_block_def)

lemma quiet_state:
  "quiet s (mmu_set_state M t) = quiet s t" "quiet s (UTLB_Sync M n t) = quiet s t"
  by (simp_all add: mmu_set_state_def UTLB_Sync_def Let_def)

locale sh4_handlers =
  fixes M :: u32 and A :: "'p addr_map" and TA :: "u32 \<Rightarrow> 'p machine \<Rightarrow> 'p machine"
    and bios :: "u32 \<Rightarrow> (unit, 'p mem_sys) act" and tick :: "int \<Rightarrow> 'p machine \<Rightarrow> 'p machine"
  assumes reads: "silent (RF8 A i)" "silent (RF16 A i)" "silent (RF32 A i)"
    and writes: "silent_write (WF8 A i)" "silent_write (WF16 A i)" "silent_write (WF32 A i)"
    and tile: "quiet s (TA a s)"
    and bios_calls: "judge s (bios op s)"
    and scheduler: "quiet s (tick n s)"
begin

lemma silent_reads: "silent (addrspace_read8 A)" "silent (addrspace_read16 A)" "silent (addrspace_read32 A)" "silent (addrspace_read64 A)"
proof -
  show "silent (addrspace_read8 A)" "silent (addrspace_read16 A)" "silent (addrspace_read32 A)"
    using reads by (auto simp: silent_def addrspace_read8_def addrspace_read16_def addrspace_read32_def split: mem_info.split)
  show "silent (addrspace_read64 A)"
    using reads(3) quiet_trans by (auto simp: silent_def addrspace_read64_def split_def Let_def split: mem_info.split) blast
qed

lemma silent_writes: "silent_write (addrspace_write8 A)" "silent_write (addrspace_write16 A)" "silent_write (addrspace_write32 A)" "silent_write (addrspace_write64 A)"
proof -
  show "silent_write (addrspace_write8 A)" "silent_write (addrspace_write16 A)" "silent_write (addrspace_write32 A)"
    using writes by (auto simp: silent_write_def addrspace_write8_def addrspace_write16_def addrspace_write32_def split: mem_info.split)
  show "silent_write (addrspace_write64 A)"
    using writes(3) quiet_trans by (auto simp: silent_write_def addrspace_write64_def split: mem_info.split) blast
qed

lemma polite_read:
  assumes "silent f"
  shows "polite (\<lambda>s. if mmuOn s then mmu_ReadMem M al f a s else nommu_read f a s)"
proof -
  have "polite (mmu_ReadMem M al f a)" unfolding mmu_ReadMem_def by (rule access_polite [OF quiet_translate(1) assms])
  then show ?thesis using polite_silent [OF assms, of a] by (simp add: polite_iff)
qed

lemma polite_fetch: "polite (\<lambda>s. if mmuOn s then mmu_IReadMem16 M A a s else nommu_read (addrspace_read16 A) a s)"
proof -
  have "polite (mmu_IReadMem16 M A a)" unfolding mmu_IReadMem16_def by (rule access_polite [OF quiet_translate(2) silent_reads(2)])
  then show ?thesis using polite_silent [OF silent_reads(2), of a] by (simp add: polite_iff)
qed

lemma polite_write: "silent_write f \<Longrightarrow> polite (\<lambda>s. if mmuOn s then mmu_WriteMem M al f a v s else act (f a v) s)"
proof -
  assume w: "silent_write f"
  then have "silent (\<lambda>addr s. ((), f addr v s))" by (simp add: silent_def silent_write_def)
  then have "polite (mmu_WriteMem M al f a v)"
    unfolding mmu_WriteMem_def by (rule access_polite [OF quiet_translate(1)])
  then show ?thesis using w by (simp add: polite_iff silent_write_def)
qed

lemma quiet_sq: "quiet s (sqWrite_to M A TA dest a s)"
proof -
  have "quiet s (fold (\<lambda>k s. addrspace_write32 A (x k) (v k s) s) ks s)" for x v and ks :: "nat list"
  proof (induction ks arbitrary: s)
    case (Cons k ks)
    have "quiet s (addrspace_write32 A (x k) (v k s) s)" using silent_writes(3) by (simp add: silent_write_def)
    from quiet_trans [OF this Cons] show ?case by simp
  qed simp
  then show ?thesis by (auto simp: sqWrite_to_def WriteMemBlock_nommu_sq_def copy32_def tile split: option.split)
qed

lemma polite_sq: "polite (do_sqw M A TA dest)"
  unfolding polite_iff
proof
  fix s :: "'p machine"
  obtain r t where t: "mmu_full_SQ M dest s = (r, t)" by fastforce
  then have q: "quiet s t" using quiet_translate(3) [of s M dest] by simp
  have w: "polite_out s (act (sqWrite_to M A TA dest a) t)" if "quiet s t" for a t
    using quiet_trans [OF that quiet_sq] by simp
  have "polite_out s (bnd (mmu_TranslateSQW M dest s) (\<lambda>address. act (sqWrite_to M A TA dest address)))"
  proof (cases r)
    case None
    have "pc (cx t) = pc (cx s)" using q by (simp add: quiet_def)
    then show ?thesis
      using None q w [of s] by (simp add: mmu_TranslateSQW_def t mmu_raise_exception_def throw_def Let_def) (simp add: polite_out_def)
  qed (use w q in \<open>auto simp: mmu_TranslateSQW_def t\<close>)
  then show "polite_out s (do_sqw M A TA dest s)"
    using tile [of s dest] w [of s] by (auto simp: do_sqw_def copy32_def split: sq_handler.split)
qed

lemma env_bus: "sh4_bus (mem_env M A TA h bios tick)"
  by (unfold_locales)
    (simp_all add: mem_env_def polite_read polite_fetch polite_write silent_reads silent_writes polite_sq bios_calls scheduler,
     simp add: polite_iff ldtlb_def Let_def quiet_state)

end

sublocale sh4_handlers \<subseteq> bus: sh4_bus "mem_env M A TA h bios tick" for h
  by (rule env_bus)

subsection \<open>The register region\<close>

text \<open>The register banks of the modules that are not modelled: UBC, BSC, DMAC, CPG, RTC, TMU, SCI and SCIF.\<close>

record 'p p4_modules =
  mod_read8 :: "u32 \<Rightarrow> 'p machine \<Rightarrow> u8 \<times> 'p machine"
  mod_read16 :: "u32 \<Rightarrow> 'p machine \<Rightarrow> u16 \<times> 'p machine"
  mod_read32 :: "u32 \<Rightarrow> 'p machine \<Rightarrow> u32 \<times> 'p machine"
  mod_write8 :: "u32 \<Rightarrow> u8 \<Rightarrow> 'p machine \<Rightarrow> 'p machine"
  mod_write16 :: "u32 \<Rightarrow> u16 \<Rightarrow> 'p machine \<Rightarrow> 'p machine"
  mod_write32 :: "u32 \<Rightarrow> u32 \<Rightarrow> 'p machine \<Rightarrow> 'p machine"

definition p4_bank :: "u32 \<Rightarrow> u32" where "p4_bank addr = drop_bit 16 (addr AND 0x1FFFFFFF)"

definition ReadMem_p4mmr8 :: "'p p4_modules \<Rightarrow> u32 \<Rightarrow> 'p machine \<Rightarrow> u8 \<times> 'p machine" where
  "ReadMem_p4mmr8 m addr s =
     (if addr = 0xFF000028 then (ucast (CCN_INTEVT (cx s)), s)
      else if p4_bank addr = 0x1F00 then (ccn_read8 addr s, s) else if p4_bank addr = 0x1FD0 then (0, s) else mod_read8 m addr s)"

definition ReadMem_p4mmr16 :: "'p p4_modules \<Rightarrow> u32 \<Rightarrow> 'p machine \<Rightarrow> u16 \<times> 'p machine" where
  "ReadMem_p4mmr16 m addr s =
     (if addr = 0xFF000028 then (ucast (CCN_INTEVT (cx s)), s)
      else if p4_bank addr = 0x1F00 then (0, s) else if p4_bank addr = 0x1FD0 then (intc_read16 addr s, s) else mod_read16 m addr s)"

definition ReadMem_p4mmr32 :: "'p p4_modules \<Rightarrow> u32 \<Rightarrow> 'p machine \<Rightarrow> u32 \<times> 'p machine" where
  "ReadMem_p4mmr32 m addr s =
     (if addr = 0xFF000028 then (CCN_INTEVT (cx s), s)
      else if p4_bank addr = 0x1F00 then (ccn_read32 addr s, s) else if p4_bank addr = 0x1FD0 then (0, s) else mod_read32 m addr s)"

definition WriteMem_p4mmr8 :: "'p p4_modules \<Rightarrow> u32 \<Rightarrow> u8 \<Rightarrow> 'p machine \<Rightarrow> 'p machine" where
  "WriteMem_p4mmr8 m addr v s =
     (if addr = 0xFF000038 then CCN_QACR_write 0 (ucast v) s else if addr = 0xFF00003C then CCN_QACR_write 1 (ucast v) s
      else if p4_bank addr = 0x1F00 then ccn_write8 addr v s else if p4_bank addr = 0x1FD0 then s else mod_write8 m addr v s)"

definition WriteMem_p4mmr16 :: "'p p4_modules \<Rightarrow> u32 \<Rightarrow> u16 \<Rightarrow> 'p machine \<Rightarrow> 'p machine" where
  "WriteMem_p4mmr16 m addr v s =
     (if addr = 0xFF000038 then CCN_QACR_write 0 (ucast v) s else if addr = 0xFF00003C then CCN_QACR_write 1 (ucast v) s
      else if p4_bank addr = 0x1F00 then s else if p4_bank addr = 0x1FD0 then intc_write16 addr v s else mod_write16 m addr v s)"

definition WriteMem_p4mmr32 :: "u32 \<Rightarrow> 'p p4_modules \<Rightarrow> u32 \<Rightarrow> u32 \<Rightarrow> 'p machine \<Rightarrow> 'p machine" where
  "WriteMem_p4mmr32 RAM_MASK m addr v s =
     (if addr = 0xFF000038 then CCN_QACR_write 0 v s else if addr = 0xFF00003C then CCN_QACR_write 1 v s
      else if p4_bank addr = 0x1F00 then ccn_write32 RAM_MASK addr v s else if p4_bank addr = 0x1FD0 then s else mod_write32 m addr v s)"

subsection \<open>The default map\<close>

definition map_area3 :: "u32 \<Rightarrow> nat \<Rightarrow> 'p addr_map \<Rightarrow> 'p addr_map" where
  "map_area3 RAM_SIZE base A = mapBlockMirror mem_b (0x0C + base) (0x0F + base) RAM_SIZE A"

text \<open>\<open>map_p4\<close>; the handler of the cache and TLB arrays is a parameter.\<close>

definition map_p4 :: "u32 \<Rightarrow> 'p p4_modules \<Rightarrow> ('p addr_map \<Rightarrow> 'p addr_map) \<Rightarrow> 'p addr_map \<Rightarrow> 'p addr_map" where
  "map_p4 RAM_MASK m p4arrays A =
     (let A = fold (\<lambda>p. mapBlock sq_buffer p p 63) [0xE0, 0xE1, 0xE2, 0xE3] A;
          A = p4arrays A;
          (h, A) = registerHandler (Some (ReadMem_p4mmr8 m)) (Some (ReadMem_p4mmr16 m)) (Some (ReadMem_p4mmr32 m))
             (Some (WriteMem_p4mmr8 m)) (Some (WriteMem_p4mmr16 m)) (Some (WriteMem_p4mmr32 RAM_MASK m)) A
      in mapHandler h 0xFF 0xFF A)"

text \<open>
  \<open>mem_map_default\<close>: the areas 0 to 2, 4 and 5 and the on-chip memory belong to other components, whose mapping functions
  are parameters; \<open>low\<close> and \<open>high\<close> map them for one of the eight mirrors.
\<close>

definition mem_map_default ::
  "u32 \<Rightarrow> 'p p4_modules \<Rightarrow> ('p addr_map \<Rightarrow> 'p addr_map) \<Rightarrow> (nat \<Rightarrow> 'p addr_map \<Rightarrow> 'p addr_map) \<Rightarrow> (nat \<Rightarrow> 'p addr_map \<Rightarrow> 'p addr_map) \<Rightarrow>
   ('p addr_map \<Rightarrow> 'p addr_map) \<Rightarrow> ('p addr_map \<Rightarrow> 'p addr_map) \<Rightarrow> 'p addr_map" where
  "mem_map_default RAM_MASK m inits low high map_area7 p4arrays =
     (let A = inits addrspace_init;
          A = fold (\<lambda>i A. high (32 * i) (map_area3 (RAM_MASK + 1) (32 * i) (low (32 * i) A))) [0..<8] A
      in map_p4 RAM_MASK m p4arrays (map_area7 A))"

subsection \<open>The laws hold for the modelled registers\<close>

definition cpu_view :: "sh4_state \<Rightarrow> (nat \<Rightarrow> u32) \<times> (nat \<Rightarrow> u32) \<times> u32 \<times> u32 \<times> u32 \<times> u32 \<times> u32 \<times> u32 \<times> u32 \<times> u32" where
  "cpu_view c = (gpr c, r_bank c, ssr c, spc c, sgr c, vbr c, pc c, sr_status c, sr_T c, old_sr c)"

lemma view_siid: "cpu_view (SIIDRebuild c) = cpu_view c"
proof -
  have src: "cpu_view (snd (siid_src p m l i x)) = cpu_view (snd x)" for p m l i x
    by (auto simp: siid_src_def Let_def cpu_view_def split_def)
  have "cpu_view (snd (fold (siid_src p m l) is x)) = cpu_view (snd x)" for p m l "is" x
    by (induction "is" arbitrary: x) (simp_all add: src)
  then have level: "cpu_view (snd (siid_level p m l x)) = cpu_view (snd x)" for p m l x
    by (simp add: siid_level_def Let_def split_def) (simp add: cpu_view_def)
  have "cpu_view (snd (fold (siid_level p m) ls x)) = cpu_view (snd x)" for p m ls x
    by (induction ls arbitrary: x) (simp_all add: level)
  then have "cpu_view (snd (fold (siid_level p m) ls (0, c\<lparr>interrupt_vpend := 0, interrupt_vmask := 0\<rparr>))) = cpu_view c" for p m ls
    by (simp add: cpu_view_def)
  moreover have "cpu_view (SRdecode d) = cpu_view d" for d by (simp add: SRdecode_def recalc_pending_itrs_def cpu_view_def)
  ultimately show ?thesis by (simp add: SIIDRebuild_def Let_def split_def)
qed

lemma quiet_view:
  assumes "cpu_view c = cpu_view (cx s)" "cache_ok (cx s) \<Longrightarrow> intc_ok c"
  shows "quiet s (s\<lparr>cx := c\<rparr>)"
  using assms by (auto simp: cpu_view_def quiet_def calm_def same_regs_def core_ok_def cpu_ok_def intc_ok_def bank_ok_def)

lemma quiet_intc: "quiet s (upd_cx (write_INTC_IPRA v) s)" "quiet s (upd_cx (write_INTC_IPRB v) s)" "quiet s (upd_cx (write_INTC_IPRC v) s)"
proof -
  have r: "quiet s (s\<lparr>cx := SIIDRebuild c\<rparr>)" if "cpu_view c = cpu_view (cx s)" "InterruptBit c = InterruptBit (cx s)" for c
    by (rule quiet_view) (use that rebuild_ok(1) [of c] cache_bits_are_powers [of "cx s"] in \<open>simp_all add: view_siid\<close>)
  have n: "quiet s (s\<lparr>cx := cx s\<rparr>)" by simp
  show "quiet s (upd_cx (write_INTC_IPRA v) s)" "quiet s (upd_cx (write_INTC_IPRB v) s)" "quiet s (upd_cx (write_INTC_IPRC v) s)"
    using n by (auto simp: write_INTC_IPRA_def write_INTC_IPRB_def write_INTC_IPRC_def intro!: r simp: cpu_view_def)
qed

lemma quiet_events: "quiet s (upd_cx (\<lambda>c. c\<lparr>CCN_EXPEVT := v\<rparr>) s)" "quiet s (upd_cx (\<lambda>c. c\<lparr>CCN_INTEVT := v\<rparr>) s)" "quiet s (s\<lparr>CCN_TRA := v\<rparr>)"
  by (simp_all add: quiet_def calm_def same_regs_def core_ok_def cpu_ok_def intc_ok_def mask_ok_def)

lemma quiet_registers:
  "quiet s (CCN_QACR_write i v s)" "quiet s (ccn_write32 M addr v s)" "quiet s (ccn_write8 addr b s)" "quiet s (intc_write16 addr h s)"
proof -
  show q: "quiet s (CCN_QACR_write i v s)" for i v by (simp add: CCN_QACR_write_def)
  show "quiet s (ccn_write32 M addr v s)"
    by (simp add: ccn_write32_def Let_def CCN_PTEH_write_def CCN_MMUCR_write_def CCN_CCR_write_def quiet_state q quiet_events)
  show "quiet s (ccn_write8 addr b s)" by (simp add: ccn_write8_def Let_def)
  show "quiet s (intc_write16 addr h s)" by (simp add: intc_write16_def Let_def quiet_intc)
qed

text \<open>A machine without the other modules: their banks read as zero.\<close>

definition no_modules :: "'p p4_modules" where
  "no_modules = \<lparr>mod_read8 = (\<lambda>_ s. (0, s)), mod_read16 = (\<lambda>_ s. (0, s)), mod_read32 = (\<lambda>_ s. (0, s)),
     mod_write8 = (\<lambda>_ _ s. s), mod_write16 = (\<lambda>_ _ s. s), mod_write32 = (\<lambda>_ _ s. s)\<rparr>"

definition core_map :: "u32 \<Rightarrow> 'p addr_map" where
  "core_map RAM_MASK = mem_map_default RAM_MASK no_modules id (\<lambda>_. id) (\<lambda>_. id) id id"

definition lawful :: "'p addr_map \<Rightarrow> bool" where
  "lawful A \<longleftrightarrow> (\<forall>i. silent (RF8 A i) \<and> silent (RF16 A i) \<and> silent (RF32 A i) \<and> silent_write (WF8 A i) \<and> silent_write (WF16 A i) \<and> silent_write (WF32 A i))"

lemma lawful_map [simp]:
  "lawful (A\<lparr>memInfo_ptr := f\<rparr>) = lawful A"
  by (simp add: lawful_def)

lemma lawful_fold: "(\<And>x A. lawful A \<Longrightarrow> lawful (f x A)) \<Longrightarrow> lawful A \<Longrightarrow> lawful (fold f xs A)"
  by (induction xs arbitrary: A) simp_all

lemma lawful_ops:
  "lawful A \<Longrightarrow> lawful (mapHandler h a b A)" "lawful A \<Longrightarrow> lawful (mapBlock k a b m A)" "lawful A \<Longrightarrow> lawful (mapBlockMirror k a b m A)"
proof -
  show "lawful A \<Longrightarrow> lawful (mapHandler h a b A)" unfolding mapHandler_def by (rule lawful_fold) simp_all
  show *: "lawful A \<Longrightarrow> lawful (mapBlock k a b m A)" for A a b m
    unfolding mapBlock_def by (auto split: option.split intro: lawful_fold)
  show "lawful A \<Longrightarrow> lawful (mapBlockMirror k a b m A)"
  proof -
    assume a: "lawful A"
    have "lawful (fold (\<lambda>p. mapBlock k p (p + n - 1) m') ps A)" for n m' ps by (rule lawful_fold [OF * a])
    then show ?thesis using a unfolding mapBlockMirror_def Let_def by (simp only: simp_thms split: if_split)
  qed
qed

lemma lawful_init: "lawful addrspace_init"
  by (simp add: addrspace_init_def registerHandler_def Let_def lawful_def silent_def silent_write_def)

lemma lawful_register:
  assumes "lawful A" "silent r8" "silent r16" "silent r32" "silent_write w8" "silent_write w16" "silent_write w32"
  shows "lawful (snd (registerHandler (Some r8) (Some r16) (Some r32) (Some w8) (Some w16) (Some w32) A))"
  using assms by (simp add: registerHandler_def Let_def lawful_def)

lemma lawful_core: "lawful (core_map M)"
proof -
  let ?A = "fold (\<lambda>p. mapBlock sq_buffer p p 63) [0xE0, 0xE1, 0xE2, 0xE3] (fold (\<lambda>i A. map_area3 (M + 1) (32 * i) A) [0..<8] addrspace_init)"
  let ?R = "registerHandler (Some (ReadMem_p4mmr8 no_modules)) (Some (ReadMem_p4mmr16 no_modules)) (Some (ReadMem_p4mmr32 no_modules))
     (Some (WriteMem_p4mmr8 no_modules)) (Some (WriteMem_p4mmr16 no_modules)) (Some (WriteMem_p4mmr32 M no_modules)) ?A"
  have a: "lawful ?A" unfolding map_area3_def by (intro lawful_fold lawful_ops lawful_init)
  have h: "silent (ReadMem_p4mmr8 no_modules)" "silent (ReadMem_p4mmr16 no_modules)" "silent (ReadMem_p4mmr32 no_modules)"
    "silent_write (WriteMem_p4mmr8 no_modules)" "silent_write (WriteMem_p4mmr16 no_modules)" "silent_write (WriteMem_p4mmr32 M no_modules)"
    by (simp_all add: silent_def silent_write_def ReadMem_p4mmr8_def ReadMem_p4mmr16_def ReadMem_p4mmr32_def WriteMem_p4mmr8_def
        WriteMem_p4mmr16_def WriteMem_p4mmr32_def no_modules_def quiet_registers)
  have "lawful (snd ?R)" by (rule lawful_register [OF a h])
  then show ?thesis unfolding core_map_def mem_map_default_def map_p4_def Let_def split_def id_apply by (rule lawful_ops(1))
qed

definition unknown_trap :: "u32 \<Rightarrow> (unit, 'p mem_sys) act" where "unknown_trap op = act (\<lambda>s. s)"

lemma lawfulD:
  "lawful A \<Longrightarrow> silent (RF8 A i)" "lawful A \<Longrightarrow> silent (RF16 A i)" "lawful A \<Longrightarrow> silent (RF32 A i)"
  "lawful A \<Longrightarrow> silent_write (WF8 A i)" "lawful A \<Longrightarrow> silent_write (WF16 A i)" "lawful A \<Longrightarrow> silent_write (WF32 A i)"
  by (simp_all add: lawful_def)

interpretation core: sh4_handlers M "core_map M" "\<lambda>_ s. s" unknown_trap "\<lambda>_ s. s" for M
  by unfold_locales (simp_all add: lawfulD lawful_core unknown_trap_def)

interpretation core_slots: sh4_slot "slots (mem_env M (core_map M) (\<lambda>_ s. s) h unknown_trap (\<lambda>_ s. s)) d" for M h d
  by (rule slots_ok [OF core.env_bus])

end
