(* ===== verification/Sh4_Tlb.thy ===== *)
theory Sh4_Tlb
  imports Sh4_Machine
begin

unbundle bit_operations_syntax

section \<open>The translation cache of the MMU is a list of translations\<close>

text \<open>
  \<open>full_table\<close> and its hash chains are compared with a plain list searched from its newest element.  The chains are kept by
  every operation that changes the table, so the comparison holds in every reachable state of the MMU.
\<close>

subsection \<open>The chains\<close>

definition entry_hash :: "TLB_Entry \<Rightarrow> nat" where
  "entry_hash t = bucket_index (page_of t) (size_of t) (ASID_of (Address t))"

definition chains_ok :: "'p mem_sys \<Rightarrow> bool" where
  "chains_ok d \<longleftrightarrow> (\<forall>b. entry_buckets d b = rev (filter (\<lambda>i. entry_hash (full_table d ! i) = b) [0..<length (full_table d)]))"

lemma chains_flush: "chains_ok (mmu_flush_table d)"
  by (simp add: chains_ok_def mmu_flush_table_def flush_cache_def)

lemma chains_cache: "chains_ok d \<Longrightarrow> chains_ok (cache_entry t d)"
proof (cases "size_of t = 0 \<or> length (full_table d) \<ge> 65536")
  case False
  assume d: "chains_ok d"
  let ?n = "length (full_table d)"
  have "filter (\<lambda>i. entry_hash ((full_table d @ [t]) ! i) = b) [0..<?n] = filter (\<lambda>i. entry_hash (full_table d ! i) = b) [0..<?n]" for b
    by (rule filter_cong) (auto simp: nth_append)
  then show ?thesis
    using False d by (auto simp: chains_ok_def cache_entry_def Let_def nth_append simp flip: entry_hash_def)
qed (auto simp: cache_entry_def)

lemma chains_frame:
  "full_table e = full_table d \<Longrightarrow> entry_buckets e = entry_buckets d \<Longrightarrow> chains_ok e = chains_ok d"
  by (simp add: chains_ok_def)

lemma chains_upd [simp]:
  "chains_ok (d\<lparr>UTLB := u\<rparr>) = chains_ok d" "chains_ok (d\<lparr>lru_entry := l\<rparr>) = chains_ok d" "chains_ok (d\<lparr>lru_mask := v\<rparr>) = chains_ok d"
  "chains_ok (d\<lparr>lru_address := v\<rparr>) = chains_ok d" "chains_ok (d\<lparr>CCN_PTEL := v\<rparr>) = chains_ok d" "chains_ok (d\<lparr>CCN_PTEA := v\<rparr>) = chains_ok d"
  "chains_ok (d\<lparr>CCN_PTEH := v\<rparr>) = chains_ok d" "chains_ok (d\<lparr>CCN_MMUCR := v\<rparr>) = chains_ok d" "chains_ok (d\<lparr>sq_remap := r\<rparr>) = chains_ok d"
  "chains_ok (d\<lparr>CCN_TTB := v\<rparr>) = chains_ok d" "chains_ok (d\<lparr>CCN_TEA := v\<rparr>) = chains_ok d" "chains_ok (d\<lparr>CCN_CCR := v\<rparr>) = chains_ok d"
  "chains_ok (d\<lparr>CCN_QACR0 := v\<rparr>) = chains_ok d" "chains_ok (d\<lparr>CCN_QACR1 := v\<rparr>) = chains_ok d" "chains_ok (d\<lparr>CCN_QACR_TR := v\<rparr>) = chains_ok d"
  "chains_ok (d\<lparr>sq_writer := q\<rparr>) = chains_ok d" "chains_ok (d\<lparr>blocks := b\<rparr>) = chains_ok d" "chains_ok (d\<lparr>periph := p\<rparr>) = chains_ok d"
  by (rule chains_frame; simp)+

lemma chains_set_state [simp]: "chains_ok (dev (mmu_set_state M s)) = chains_ok (dev s)"
  by (simp add: mmu_set_state_def setSqwHandler_def Let_def)

lemma chains_lookup: "chains_ok (dev s) \<Longrightarrow> chains_ok (dev (snd (mmu_full_lookup M va s)))"
  by (auto simp: mmu_full_lookup_def Let_def chains_cache split: option.split)

lemma chains_sync: "chains_ok (dev s) \<Longrightarrow> chains_ok (dev (UTLB_Sync M n s))"
  by (simp add: UTLB_Sync_def Let_def chains_cache)

lemma chains_ldtlb: "chains_ok (dev s) \<Longrightarrow> ldtlb M s = Done u t \<Longrightarrow> chains_ok (dev t)"
  by (auto simp: ldtlb_def Let_def chains_sync)

lemma chains_ccn: "chains_ok (dev s) \<Longrightarrow> chains_ok (dev (ccn_write32 M a v s))"
  by (auto simp: ccn_write32_def Let_def CCN_PTEH_write_def CCN_MMUCR_write_def CCN_CCR_write_def CCN_QACR_write_def setSqwHandler_def chains_flush)

subsection \<open>Reachable states\<close>

text \<open>
  What changes the tables: translations of any address, \<open>ldtlb\<close> and writes to the \<open>UTLB\<close> array, the registers of the controller,
  and anything else that leaves the tables alone.
\<close>

inductive mmu_reachable :: "u32 \<Rightarrow> 'p machine \<Rightarrow> bool" for M where
  reset: "dev s = mmu_flush_table d \<Longrightarrow> mmu_reachable M s"
| lookup: "mmu_reachable M s \<Longrightarrow> mmu_reachable M (snd (mmu_full_lookup M va s))"
| load: "mmu_reachable M s \<Longrightarrow> ldtlb M s = Done u t \<Longrightarrow> mmu_reachable M t"
| array: "mmu_reachable M s \<Longrightarrow> mmu_reachable M (UTLB_Sync M n (upd_dev (\<lambda>d. d\<lparr>UTLB := (UTLB d)(n := e)\<rparr>) s))"
| register: "mmu_reachable M s \<Longrightarrow> mmu_reachable M (ccn_write32 M a v s)"
| other: "mmu_reachable M s \<Longrightarrow> full_table (dev t) = full_table (dev s) \<Longrightarrow> entry_buckets (dev t) = entry_buckets (dev s) \<Longrightarrow>
    mmu_reachable M t"

lemma reachable_chains: "mmu_reachable M s \<Longrightarrow> chains_ok (dev s)"
proof (induction rule: mmu_reachable.induct)
  case (other s t)
  then show ?case using chains_frame by blast
qed (simp_all add: chains_flush chains_lookup chains_ldtlb chains_sync chains_ccn)

subsection \<open>The list\<close>

text \<open>The page of an address for a page size, and what a search of the list looks for.\<close>

definition va_page :: "nat \<Rightarrow> u32 \<Rightarrow> u32" where
  "va_page sz va = va AND mmu_mask sz"

definition maps_page :: "nat \<Rightarrow> u32 \<Rightarrow> u32 \<Rightarrow> TLB_Entry \<Rightarrow> bool" where
  "maps_page sz va asid t \<longleftrightarrow> page_of t = va_page sz va \<and> size_of t = sz
     \<and> (ASID_of (Address t) = asid \<or> SH_of t \<and> entry_hash t = bucket_index (va_page sz va) sz asid)"

definition newest :: "('a \<Rightarrow> bool) \<Rightarrow> 'a list \<Rightarrow> nat option" where
  "newest P xs = find (\<lambda>i. P (xs ! i)) (rev [0..<length xs])"

lemma find_filter: "find P (filter Q xs) = find (\<lambda>x. Q x \<and> P x) xs"
  by (induction xs) auto

lemma page_shift_mask: "sz \<in> {1, 2, 3} \<Longrightarrow> push_bit (10 + page_shift sz) (drop_bit (10 + page_shift sz) va) = va_page sz va"
proof -
  have m: "(0xFFFFF000 :: u32) = NOT (mask 12)" "(0xFFFF0000 :: u32) = NOT (mask 16)" "(0xFFF00000 :: u32) = NOT (mask 20)"
    by (simp_all add: mask_eq_exp_minus_1)
  have "push_bit n (drop_bit n va) = va AND NOT (mask n)" for n
    by (rule bit_word_eqI) (auto simp: bit_simps)
  then show "sz \<in> {1, 2, 3} \<Longrightarrow> ?thesis"
    by (auto simp: page_shift_def va_page_def mmu_mask_def numeral_2_eq_2 numeral_3_eq_3 m)
qed

lemma find_is_newest:
  assumes "chains_ok d" "sz \<in> {1, 2, 3}"
  shows "find_entry_by_page_size sz va d = newest (maps_page sz va (ASID_of (CCN_PTEH d))) (full_table d)"
proof -
  let ?asid = "ASID_of (CCN_PTEH d)"
  have p: "(entry_hash t = bucket_index (va_page sz va) sz ?asid \<and> page_of t = va_page sz va \<and> size_of t = sz \<and> (SH_of t \<or> ASID_of (Address t) = ?asid))
    = maps_page sz va ?asid t" for t
    by (auto simp: maps_page_def entry_hash_def)
  show ?thesis
    unfolding find_entry_by_page_size_def Let_def page_shift_mask [OF assms(2)] newest_def
    using assms(1) unfolding chains_ok_def by (simp add: rev_filter find_filter p)
qed

text \<open>The three page sizes in the order in which \<open>find_entry\<close> tries them.\<close>

definition list_find :: "u32 \<Rightarrow> u32 \<Rightarrow> TLB_Entry list \<Rightarrow> nat option" where
  "list_find va asid ts =
     (case newest (maps_page 1 va asid) ts of Some i \<Rightarrow> Some i
      | None \<Rightarrow> (case newest (maps_page 2 va asid) ts of Some i \<Rightarrow> Some i | None \<Rightarrow> newest (maps_page 3 va asid) ts))"

definition mem_zero :: "unit mem_sys" where
  "mem_zero = \<lparr>UTLB = (\<lambda>_. \<lparr>Address = 0, Data = 0, Assistance = 0\<rparr>), CCN_PTEH = 0, CCN_PTEL = 0, CCN_PTEA = 0, CCN_TTB = 0, CCN_TEA = 0,
     CCN_MMUCR = 0, CCN_CCR = 0, CCN_BASRA = 0, CCN_BASRB = 0, CCN_QACR0 = 0, CCN_QACR1 = 0, CCN_QACR_TR = 0, sq_writer = sqWrite_nommu,
     lru_entry = lru_null, lru_mask = 0, lru_address = 0, full_table = [], entry_buckets = (\<lambda>_. []), sq_remap = (\<lambda>_. 0), INTC_ICR = 0,
     blocks = (\<lambda>_ _. 0), periph = ()\<rparr>"

definition cpu_zero :: "unit machine" where
  "cpu_zero = \<lparr>cx = interrupts_reset sh4_zero, gbr = 0, dbr = 0, pr = 0, fpul = 0, mac = 0, fpscr = 0, old_fpscr = 0, fr = (\<lambda>_. 0), xf = (\<lambda>_. 0),
     CCN_TRA = 0, cycle_counter = 448, sh4_sched_next = 0, lastUnit = eu_CO, memOps = 0, mmuOn = False, dev = mem_zero\<rparr>"

definition loaded :: "u32 \<Rightarrow> TLB_Entry \<Rightarrow> unit machine \<Rightarrow> unit machine" where
  "loaded M t s = UTLB_Sync M 0 (upd_dev (\<lambda>d. d\<lparr>UTLB := (UTLB d)(0 := t)\<rparr>) s)"

lemma zero_reachable: "mmu_reachable M cpu_zero"
  by (rule mmu_reachable.reset [of _ mem_zero]) (simp add: cpu_zero_def mem_zero_def mmu_flush_table_def flush_cache_def)



text \<open>
  The hash contains the address space: a page marked as shared between address spaces is only found from a space with the hash of
  the one it was loaded under.
\<close>

lemma shared_page_missed:
  "\<exists>t :: TLB_Entry. SH_of t \<and> size_of t = 1 \<and> page_of t = va_page 1 0x12345
     \<and> list_find 0x12345 (ASID_of (Address t)) [t] = Some 0 \<and> list_find 0x12345 2 [t] = None"
  by (rule exI [of _ "\<lparr>Address = 0x12001, Data = 0x0C345112, Assistance = 0\<rparr>"]) code_simp

end
