(* ===== verification/Sh4_Arith.thy ===== *)
theory Sh4_Arith
  imports Sh4_Table
begin

unbundle bit_operations_syntax

section \<open>Division by steps on the SH-4\<close>

text \<open>
  The SH-4 has no division instruction: a program clears the flags with \<open>div0u\<close> and alternates \<open>rotcl\<close>, which moves the
  next bit of the dividend into \<open>T\<close> and the last quotient bit into the dividend register, with \<open>div1\<close>, one step of
  non-restoring division.  The flag \<open>Q\<close> is the sign of the partial remainder, so that register and flag are a 33-bit number.
\<close>

subsection \<open>Reading registers after updates\<close>

lemma reads_simps [simp]:
  "rg i (set_r n v s) = (if i = n then v else rg i s)" "sr_status (cx (set_r n v s)) = sr_status (cx s)" "sr_T (cx (set_r n v s)) = sr_T (cx s)"
  "rg i (set_T b s) = rg i s" "sr_status (cx (set_T b s)) = sr_status (cx s)" "sr_T (cx (set_T b s)) = of_bool b"
  "rg i (set_Tw w s) = rg i s" "sr_status (cx (set_Tw w s)) = sr_status (cx s)" "sr_T (cx (set_Tw w s)) = w"
  "rg i (set_status_bit k b s) = rg i s" "sr_T (cx (set_status_bit k b s)) = sr_T (cx s)"
  "sr_status (cx (set_status_bit k b s)) = put_bit k b (sr_status (cx s))"
  by (simp_all add: set_r_def set_T_def set_Tw_def set_status_bit_def)

lemma flag_simps [simp]:
  "sr_Q (put_bit 8 b v) = b" "sr_M (put_bit 8 b v) = sr_M v" "sr_M (put_bit 9 b v) = b" "sr_Q (put_bit 9 b v) = sr_Q v"
  by (simp_all add: sr_Q_def sr_M_def)

subsection \<open>One step\<close>

definition rem_of :: "nat \<Rightarrow> 'm sh4_cpu \<Rightarrow> int" where
  "rem_of h s = uint (rg h s) - (if sr_Q (sr_status (cx s)) then 2 ^ 32 else 0)"

lemma small_cases: "(t :: u32) \<le> 1 \<Longrightarrow> t = 0 \<or> t = 1"
  by (metis (no_types) order.antisym word_coorder.extremum linorder_not_less word_less_1)

lemma top_bit: "uint (drop_bit 31 (v :: u32)) = uint v div 2 ^ 31"
  unfolding unsigned_drop_bit_eq using uint_lt2p [of v] by (simp add: drop_bit_eq_div take_bit_int_eq_self)

lemma shift_in: "t \<le> 1 \<Longrightarrow> uint (push_bit 1 (r :: u32) OR t) = 2 * (uint r mod 2 ^ 31) + uint t"
proof -
  assume t: "t \<le> 1"
  have "push_bit 1 r OR t = push_bit 1 r + t"
    by (rule disjunctive_add [symmetric]) (use small_cases [OF t] in \<open>auto simp: bit_simps bit_0\<close>)
  then have x: "push_bit 1 r OR t = 2 * r + t" by (simp add: push_bit_eq_mult mult.commute)
  have d: "uint (2 * r) = 2 * (uint r mod 2 ^ 31)"
    using mod_mult_mult1 [of 2 "uint r" "2147483648"] by (simp add: uint_word_ariths)
  have "uint r mod 2 ^ 31 < 2 ^ 31" "0 \<le> uint r mod 2 ^ 31" by simp_all
  then show ?thesis unfolding x uint_word_ariths(1) d using small_cases [OF t] by auto
qed

text \<open>What \<open>div1\<close> computes with the flag \<open>M\<close> clear.\<close>

lemma div1_exec:
  assumes "GetN op = h" "GetM op = m" "h \<noteq> m" "\<not> sr_M (sr_status (cx s))"
  defines "x \<equiv> push_bit 1 (rg h s) OR sr_T (cx s)"
  defines "y \<equiv> (if sr_Q (sr_status (cx s)) then x + rg m s else x - rg m s)"
  defines "q \<equiv> (bit (rg h s) 31 \<noteq> (if sr_Q (sr_status (cx s)) then y < x else x < y))"
  shows "\<exists>t. i0011_nnnn_mmmm_0100 e op s = Done () t \<and> rg h t = y \<and> sr_Q (sr_status (cx t)) = q \<and> sr_T (cx t) = of_bool (\<not> q)
    \<and> \<not> sr_M (sr_status (cx t)) \<and> (\<forall>i. i \<noteq> h \<longrightarrow> rg i t = rg i s)"
proof -
  have b: "(rg h s AND 0x80000000 \<noteq> 0) = bit (rg h s) 31"
    using bit_pick [of 31 "rg h s"] by (simp add: and.commute)
  show ?thesis
    unfolding i0011_nnnn_mmmm_0100_def act_def Let_def b assms(1,2)
    using assms(3,4) by (auto simp: b y_def q_def x_def)
qed

lemma mod_wrap:
  fixes a n :: int
  assumes "0 \<le> a" "a < 2 * n"
  shows "a mod n = (if a < n then a else a - n)"
proof (cases "a < n")
  case False
  have "a mod n = (a - n) mod n" by (rule minus_mod_self2 [symmetric])
  also have "\<dots> = a - n" by (rule mod_pos_pos_trivial) (use assms False in auto)
  finally show ?thesis using False by simp
qed (use assms in simp)

lemma mod_if_wrap:
  fixes a b :: int
  assumes "0 \<le> a" "a < 4294967296" "0 \<le> b" "b < 4294967296"
  shows "(a + b) mod 4294967296 = (if a + b < 4294967296 then a + b else a + b - 4294967296)"
    "(a - b) mod 4294967296 = (if b \<le> a then a - b else a - b + 4294967296)"
proof -
  show "(a + b) mod 4294967296 = (if a + b < 4294967296 then a + b else a + b - 4294967296)" by (rule mod_wrap) (use assms in auto)
  have "(a - b) mod 4294967296 = (a - b + 4294967296) mod 4294967296" by (rule mod_add_self2 [symmetric])
  also have "\<dots> = (if a - b + 4294967296 < 4294967296 then a - b + 4294967296 else a - b + 4294967296 - 4294967296)"
    by (rule mod_wrap) (use assms in auto)
  finally show "(a - b) mod 4294967296 = (if b \<le> a then a - b else a - b + 4294967296)" by simp
qed

lemma step_arith:
  fixes r m t :: u32
  assumes t: "t \<le> 1" and rho: "0 \<le> \<rho>" "\<rho> < uint m"
    and v: "uint r - (if sq then 2 ^ 32 else 0) = \<rho> \<or> uint r - (if sq then 2 ^ 32 else 0) = \<rho> - uint m"
  defines "x \<equiv> push_bit 1 r OR t"
  defines "y \<equiv> (if sq then x + m else x - m)"
  defines "q \<equiv> (bit r 31 \<noteq> (if sq then y < x else x < y))"
  shows "uint y - (if q then 2 ^ 32 else 0) = 2 * \<rho> + uint t - uint m" "q \<longleftrightarrow> 2 * \<rho> + uint t < uint m"
proof -
  have m: "uint m < 2 ^ 32" "0 \<le> uint m" and r: "0 \<le> uint r" "uint r < 2 ^ 32" using uint_lt2p [of m] uint_lt2p [of r] by simp_all
  have t1: "0 \<le> uint t" "uint t \<le> 1" using t by (simp_all add: word_le_def)
  have x: "uint x = 2 * (uint r mod 2 ^ 31) + uint t" unfolding x_def by (rule shift_in [OF t])
  have hb: "bit r 31 \<longleftrightarrow> 2 ^ 31 \<le> uint r"
  proof -
    have "bit r 31 \<longleftrightarrow> bit (uint r) 31" by (simp add: bit_uint_iff)
    then have "bit r 31 \<longleftrightarrow> odd (uint r div 2 ^ 31)" unfolding bit_iff_odd [of "uint r"] .
    moreover have "uint r div 2 ^ 31 = (if 2 ^ 31 \<le> uint r then 1 else 0)" using r by (auto intro: div_pos_pos_trivial)
    ultimately show ?thesis by auto
  qed
  have rm: "uint r mod 2 ^ 31 = (if bit r 31 then uint r - 2 ^ 31 else uint r)"
    unfolding hb using mod_wrap [of "uint r" "2 ^ 31"] r by auto
  have *: "uint y - (if q then 2 ^ 32 else 0) = 2 * \<rho> + uint t - uint m"
  proof (cases sq)
    case True
    then have y: "uint y = (uint x + uint m) mod 2 ^ 32" "y < x \<longleftrightarrow> 2 ^ 32 \<le> uint x + uint m"
      using m uint_lt2p [of x] by (simp_all add: y_def uint_word_ariths word_less_def mod_if_wrap)
    show ?thesis
      using True small_cases [OF t] v rho m r x rm y uint_lt2p [of x] unfolding q_def hb by (auto simp: mod_if_wrap split: if_splits)
  next
    case False
    then have y: "uint y = (uint x - uint m) mod 2 ^ 32" "x < y \<longleftrightarrow> uint x < uint m"
      using m rho uint_lt2p [of x] by (simp_all add: y_def uint_word_ariths word_less_def mod_if_wrap)
    show ?thesis
      using False small_cases [OF t] v rho m r x rm y uint_lt2p [of x] unfolding q_def hb by (auto simp: mod_if_wrap split: if_splits)
  qed
  show "uint y - (if q then 2 ^ 32 else 0) = 2 * \<rho> + uint t - uint m" by (rule *)
  show "q \<longleftrightarrow> 2 * \<rho> + uint t < uint m"
  proof -
    obtain a where a: "uint y = a" "0 \<le> a" "a < 4294967296" using uint_lt2p [of y] by simp
    then show ?thesis using * by (auto split: if_splits)
  qed
qed

lemma div1_step:
  assumes "GetN op = h" "GetM op = m" "h \<noteq> m" "\<not> sr_M (sr_status (cx s))" "sr_T (cx s) \<le> 1"
    and "0 \<le> \<rho>" "\<rho> < uint (rg m s)" "rem_of h s = \<rho> \<or> rem_of h s = \<rho> - uint (rg m s)"
  shows "\<exists>t. i0011_nnnn_mmmm_0100 e op s = Done () t \<and> rem_of h t = 2 * \<rho> + uint (sr_T (cx s)) - uint (rg m s)
    \<and> sr_T (cx t) = of_bool (uint (rg m s) \<le> 2 * \<rho> + uint (sr_T (cx s)))
    \<and> \<not> sr_M (sr_status (cx t)) \<and> (\<forall>i. i \<noteq> h \<longrightarrow> rg i t = rg i s)"
proof -
  note a = step_arith [OF assms(5-7) assms(8) [unfolded rem_of_def]]
  show ?thesis using div1_exec [OF assms(1-4), of e] a by (auto simp: rem_of_def not_less)
qed

text \<open>The rotation that feeds a step.\<close>

lemma rotcl_exec:
  assumes "GetN op = l"
  shows "\<exists>t. i0100_nnnn_0010_0100 e op s = Done () t \<and> rg l t = push_bit 1 (rg l s) OR sr_T (cx s)
    \<and> sr_T (cx t) = drop_bit 31 (rg l s) \<and> sr_status (cx t) = sr_status (cx s) \<and> (\<forall>i. i \<noteq> l \<longrightarrow> rg i t = rg i s)"
  unfolding i0100_nnnn_0010_0100_def act_def Let_def assms by auto

subsection \<open>Thirty-two steps\<close>

text \<open>
  After \<open>k\<close> rounds the first \<open>32 + k\<close> bits of the dividend are divided: \<open>\<rho>\<close> is the remainder and \<open>q\<close> the quotient so far, whose last
  bit is still in \<open>T\<close>; the dividend register holds the bits not used yet above the other quotient bits.
\<close>

definition div_inv :: "nat \<Rightarrow> nat \<Rightarrow> nat \<Rightarrow> int \<Rightarrow> int \<Rightarrow> nat \<Rightarrow> 'm sh4_cpu \<Rightarrow> bool" where
  "div_inv h l m hi lo k s \<longleftrightarrow>
     (\<exists>\<rho> q. 0 \<le> \<rho> \<and> \<rho> < uint (rg m s) \<and> (rem_of h s = \<rho> \<or> rem_of h s = \<rho> - uint (rg m s))
        \<and> (hi * 2 ^ 32 + lo) div 2 ^ (32 - k) = uint (rg m s) * q + \<rho> \<and> 0 \<le> q \<and> q < 2 ^ k
        \<and> uint (rg l s) = 2 ^ k * (lo mod 2 ^ (32 - k)) + q div 2 \<and> uint (sr_T (cx s)) = q mod 2
        \<and> \<not> sr_M (sr_status (cx s)))"

lemma dividend_bits:
  fixes K W c lo :: int
  assumes "K * W = 2 ^ 31" "0 \<le> c" "c < K" "0 < W" "0 \<le> lo"
  defines "L \<equiv> K * (lo mod (2 * W)) + c" and "b \<equiv> (lo div W) mod 2"
  shows "L div 2 ^ 31 = b" "L mod 2 ^ 31 = K * (lo mod W) + c" "(hi * (2 * K * W) + lo) div W = 2 * ((hi * (2 * K * W) + lo) div (2 * W)) + b"
proof -
  have lw: "lo mod (2 * W) = b * W + lo mod W" unfolding b_def by (simp add: zmod_zmult2_eq mult.commute)
  have L: "L = b * 2 ^ 31 + (K * (lo mod W) + c)" unfolding L_def lw assms(1) [symmetric] by (simp add: algebra_simps)
  have "K * (lo mod W) \<le> K * (W - 1)" using assms(3,2,4) by (intro mult_left_mono) (use pos_mod_bound [of W lo] in auto)
  then have small: "0 \<le> K * (lo mod W) + c" "K * (lo mod W) + c < 2 ^ 31"
    using assms by (auto simp: algebra_simps)
  show "L div 2 ^ 31 = b" unfolding L using small by (simp add: div_pos_pos_trivial)
  show "L mod 2 ^ 31 = K * (lo mod W) + c" unfolding L using small by (simp add: mod_pos_pos_trivial)
  have d: "(hi * (2 * K * W) + lo) div W = hi * 2 * K + lo div W"
    using assms(4) by (metis add.commute div_mult_self1 less_irrefl mult.assoc)
  have "hi * 2 * K + lo div W = lo div W + hi * K * 2" by simp
  then have "((hi * (2 * K * W) + lo) div W) mod 2 = b" unfolding d b_def by (simp only: mod_mult_self1)
  moreover have "(hi * (2 * K * W) + lo) div (2 * W) = ((hi * (2 * K * W) + lo) div W) div 2"
    using assms(4) by (simp add: zdiv_zmult2_eq mult.commute)
  ultimately show "(hi * (2 * K * W) + lo) div W = 2 * ((hi * (2 * K * W) + lo) div (2 * W)) + b"
    by (metis mult_div_mod_eq)
qed

lemma div_inv_step:
  assumes inv: "div_inv h l m hi lo k s" and k: "k < 32" and lo: "0 \<le> lo"
    and ops: "GetN op1 = l" "GetN op2 = h" "GetM op2 = m" and d: "h \<noteq> l" "h \<noteq> m" "l \<noteq> m"
    and f: "\<And>t. cx (f t) = cx t"
  shows "\<exists>t u. i0100_nnnn_0010_0100 e op1 s = Done () t \<and> i0011_nnnn_mmmm_0100 e op2 (f t) = Done () u
    \<and> div_inv h l m hi lo (Suc k) u \<and> (\<forall>i. i \<noteq> h \<and> i \<noteq> l \<longrightarrow> rg i u = rg i s)"
proof -
  from inv obtain \<rho> q where rho: "0 \<le> \<rho>" "\<rho> < uint (rg m s)" and rem: "rem_of h s = \<rho> \<or> rem_of h s = \<rho> - uint (rg m s)"
    and N: "(hi * 2 ^ 32 + lo) div 2 ^ (32 - k) = uint (rg m s) * q + \<rho>" and q: "0 \<le> q" "q < 2 ^ k"
    and L: "uint (rg l s) = 2 ^ k * (lo mod 2 ^ (32 - k)) + q div 2" and T: "uint (sr_T (cx s)) = q mod 2"
    and M: "\<not> sr_M (sr_status (cx s))"
    unfolding div_inv_def by blast
  let ?K = "2 ^ k :: int" and ?W = "2 ^ (31 - k) :: int"
  have e: "32 - k = Suc (31 - k)" using k by simp
  have w: "?K * ?W = 2 ^ 31" "2 ^ (32 - k) = 2 * ?W" using k by (simp_all add: e flip: power_add)
  have h32: "2 ^ 32 = 2 * ?K * ?W" using w(1) by simp
  have c: "0 \<le> q div 2" "q div 2 < ?K" using q by simp_all
  have wp: "0 < ?W" by simp
  note b = dividend_bits(1,2) [OF w(1) c wp lo] dividend_bits(3) [OF w(1) c wp lo, of hi]
  let ?b = "lo div ?W mod 2"
  obtain t where t: "i0100_nnnn_0010_0100 e op1 s = Done () t" "rg l t = push_bit 1 (rg l s) OR sr_T (cx s)"
    "sr_T (cx t) = drop_bit 31 (rg l s)" "sr_status (cx t) = sr_status (cx s)" and ti: "\<And>i. i \<noteq> l \<Longrightarrow> rg i t = rg i s"
    using rotcl_exec [OF ops(1), of e s] by blast
  have Ts: "sr_T (cx s) \<le> 1" using T by (simp add: word_le_def)
  have Tt: "uint (sr_T (cx t)) = ?b" unfolding t(3) top_bit L w(2) by (rule b(1))
  have Lt: "uint (rg l t) = 2 * (?K * (lo mod ?W) + q div 2) + q mod 2"
    unfolding t(2) shift_in [OF Ts] T L w(2) b(2) by (rule refl)
  define s' where "s' = f t"
  have s': "rem_of h s' = rem_of h s" "sr_T (cx s') = sr_T (cx t)" "\<not> sr_M (sr_status (cx s'))" "rg m s' = rg m s" "rg l s' = rg l t"
    "\<And>i. i \<noteq> l \<Longrightarrow> rg i s' = rg i s"
    using M t(4) ti d by (simp_all add: s'_def f rem_of_def)
  have T1: "sr_T (cx s') \<le> 1" unfolding s' t(3) by (rule shiftr31_le)
  from div1_step [OF ops(2,3) d(2) s'(3) T1, of \<rho> e]
  obtain u where u: "i0011_nnnn_mmmm_0100 e op2 s' = Done () u" "rem_of h u = 2 * \<rho> + ?b - uint (rg m s)"
    "sr_T (cx u) = of_bool (uint (rg m s) \<le> 2 * \<rho> + ?b)" "\<not> sr_M (sr_status (cx u))" and ui: "\<And>i. i \<noteq> h \<Longrightarrow> rg i u = rg i s'"
    using rho rem unfolding s'(1,2,4) Tt by auto
  have um: "rg m u = rg m s" "rg l u = rg l t" using ui s' d by auto
  let ?c = "uint (rg m s) \<le> 2 * \<rho> + ?b"
  let ?r = "if ?c then 2 * \<rho> + ?b - uint (rg m s) else 2 * \<rho> + ?b" and ?q = "2 * q + of_bool ?c"
  have b01: "?b = 0 \<or> ?b = 1" by presburger
  have "div_inv h l m hi lo (Suc k) u"
    unfolding div_inv_def um u(2,3)
  proof (rule exI [of _ ?r], rule exI [of _ ?q], intro conjI)
    show "0 \<le> ?r" "?r < uint (rg m s)" using rho b01 by auto
    show "2 * \<rho> + ?b - uint (rg m s) = ?r \<or> 2 * \<rho> + ?b - uint (rg m s) = ?r - uint (rg m s)" by simp
    show "(hi * 2 ^ 32 + lo) div 2 ^ (32 - Suc k) = uint (rg m s) * ?q + ?r"
    proof -
      have "(hi * 2 ^ 32 + lo) div ?W = 2 * (uint (rg m s) * q + \<rho>) + ?b"
        using b(3) N by (simp only: h32 [symmetric] w(2) [symmetric])
      then show ?thesis by (simp add: algebra_simps)
    qed
    show "0 \<le> ?q" "?q < 2 ^ Suc k" using q by auto
    show "uint (rg l t) = 2 ^ Suc k * (lo mod 2 ^ (32 - Suc k)) + ?q div 2" unfolding Lt by simp
    show "uint (of_bool ?c :: u32) = ?q mod 2" by simp
    show "\<not> sr_M (sr_status (cx u))" by (rule u(4))
  qed
  moreover have "\<forall>i. i \<noteq> h \<and> i \<noteq> l \<longrightarrow> rg i u = rg i s" using ui s'(6) by simp
  ultimately show ?thesis using t(1) u(1) unfolding s'_def by blast
qed

subsection \<open>The program\<close>

fun run_ops :: "'m sh4_env \<Rightarrow> u16 list \<Rightarrow> (unit, 'm) act" where
  "run_ops e [] s = Done () s"
| "run_ops e (op # ops) s = bnd (ExecuteOpcode e op s) (\<lambda>_. run_ops e ops)"

definition rotcl_op :: "nat \<Rightarrow> u16" where "rotcl_op n = 0x4024 OR push_bit 8 (of_nat n)"
definition div1_op :: "nat \<Rightarrow> nat \<Rightarrow> u16" where "div1_op m n = 0x3004 OR push_bit 8 (of_nat n) OR push_bit 4 (of_nat m)"

definition division_program :: "nat \<Rightarrow> nat \<Rightarrow> nat \<Rightarrow> u16 list" where
  "division_program h l m = [0x0019] @ concat (replicate 32 [rotcl_op l, div1_op m h]) @ [rotcl_op l]"

lemma run_ops_append: "run_ops e (xs @ ys) s = bnd (run_ops e xs s) (\<lambda>_. run_ops e ys)"
proof (induction xs arbitrary: s)
  case (Cons x xs)
  then show ?case by (cases "ExecuteOpcode e x s") simp_all
qed simp

lemma decode_in:
  fixes d :: "'m sh4_opcodelistentry"
  assumes "d \<in> set opcodes" "ucast (op :: u16) AND op_mask d = rez d"
  shows "OpDesc (ucast op) = d"
  using assms decode_row [of _ op, where ?'m = 'm] by (auto simp: in_set_conv_nth length_opcodes)

lemma rotcl_code: "n < 16 \<Longrightarrow> ucast (rotcl_op n) AND 0xF0FF = (0x4024 :: u32) \<and> GetN (ucast (rotcl_op n)) = n"
proof -
  have "list_all (\<lambda>n. ucast (rotcl_op n) AND 0xF0FF = (0x4024 :: u32) \<and> GetN (ucast (rotcl_op n)) = n) [0..<16]" by code_simp
  then show "n < 16 \<Longrightarrow> ?thesis" by (simp add: list_all_iff)
qed

lemma div1_code: "m < 16 \<Longrightarrow> n < 16 \<Longrightarrow>
    ucast (div1_op m n) AND 0xF00F = (0x3004 :: u32) \<and> GetN (ucast (div1_op m n)) = n \<and> GetM (ucast (div1_op m n)) = m"
proof -
  have "list_all (\<lambda>m. list_all (\<lambda>n. ucast (div1_op m n) AND 0xF00F = (0x3004 :: u32) \<and> GetN (ucast (div1_op m n)) = n
      \<and> GetM (ucast (div1_op m n)) = m) [0..<16]) [0..<16]" by code_simp
  then show "m < 16 \<Longrightarrow> n < 16 \<Longrightarrow> ?thesis" by (simp add: list_all_iff)
qed

text \<open>An instruction that uses no floating point, once its row is known.\<close>

lemma execute_row:
  assumes "entry f m r 0 i u x \<in> set opcodes" "ucast (op :: u16) AND m = r" "f e (ucast op) s = Done () t"
  shows "ExecuteOpcode e op s = Done () (executeCycles (entry f m r 0 i u x) t)"
proof -
  have "OpDesc (ucast op) = entry f m r 0 i u x" using assms(1,2) by (intro decode_in) (simp_all add: entry_def)
  then show ?thesis using assms(3) by (simp add: ExecuteOpcode_def Let_def IsFloatingPoint_def entry_def act_def)
qed

lemma rows_present:
  "entry i0000_0000_0001_1001 0xFFFF 0x0019 0 1 eu_EX 1 \<in> set opcodes"
  "entry i0011_nnnn_mmmm_0100 0xF00F 0x3004 0 1 eu_EX 1 \<in> set opcodes"
  "entry i0100_nnnn_0010_0100 0xF0FF 0x4024 0 1 eu_EX 1 \<in> set opcodes"
  unfolding opcodes_def by simp_all

lemma div_round:
  assumes inv: "div_inv h l m hi lo k s" and k: "k < 32" and lo: "0 \<le> lo"
    and n: "h < 16" "l < 16" "m < 16" and d: "h \<noteq> l" "h \<noteq> m" "l \<noteq> m"
  shows "\<exists>t. run_ops e [rotcl_op l, div1_op m h] s = Done () t \<and> div_inv h l m hi lo (Suc k) t
    \<and> (\<forall>i. i \<noteq> h \<and> i \<noteq> l \<longrightarrow> rg i t = rg i s)"
proof -
  note r = rotcl_code [OF n(2)] and c = div1_code [OF n(3,1)]
  let ?f = "executeCycles (entry i0100_nnnn_0010_0100 0xF0FF 0x4024 0 1 eu_EX 1)"
  let ?g = "executeCycles (entry i0011_nnnn_mmmm_0100 0xF00F 0x3004 0 1 eu_EX 1)"
  obtain t u where t: "i0100_nnnn_0010_0100 e (ucast (rotcl_op l)) s = Done () t"
    and u: "i0011_nnnn_mmmm_0100 e (ucast (div1_op m h)) (?f t) = Done () u"
    and v: "div_inv h l m hi lo (Suc k) u" "\<forall>i. i \<noteq> h \<and> i \<noteq> l \<longrightarrow> rg i u = rg i s"
    using div_inv_step [OF inv k lo _ _ _ d, of "ucast (rotcl_op l)" "ucast (div1_op m h)" ?f e] r c by (auto simp: countCycles_cost)
  have "run_ops e [rotcl_op l, div1_op m h] s = Done () (?g u)"
    using execute_row [OF rows_present(3) _ t] execute_row [OF rows_present(2) _ u] r c by simp
  moreover have "div_inv h l m hi lo (Suc k) (?g u)" using v(1) by (simp add: div_inv_def rem_of_def countCycles_cost)
  ultimately show ?thesis using v(2) by (simp add: countCycles_cost)
qed

lemma div_rounds:
  assumes "0 \<le> lo" "h < 16" "l < 16" "m < 16" "h \<noteq> l" "h \<noteq> m" "l \<noteq> m"
  shows "div_inv h l m hi lo 0 s \<Longrightarrow> k \<le> 32 \<Longrightarrow> \<exists>t. run_ops e (concat (replicate k [rotcl_op l, div1_op m h])) s = Done () t
    \<and> div_inv h l m hi lo k t \<and> (\<forall>i. i \<noteq> h \<and> i \<noteq> l \<longrightarrow> rg i t = rg i s)"
proof (induction k)
  case (Suc k)
  then obtain t where t: "run_ops e (concat (replicate k [rotcl_op l, div1_op m h])) s = Done () t"
    "div_inv h l m hi lo k t" "\<forall>i. i \<noteq> h \<and> i \<noteq> l \<longrightarrow> rg i t = rg i s" by auto
  obtain u where u: "run_ops e [rotcl_op l, div1_op m h] t = Done () u" "div_inv h l m hi lo (Suc k) u"
    "\<forall>i. i \<noteq> h \<and> i \<noteq> l \<longrightarrow> rg i u = rg i t"
    using div_round [OF t(2) _ assms, of e] Suc.prems(2) by auto
  have "concat (replicate (Suc k) [rotcl_op l, div1_op m h]) = concat (replicate k [rotcl_op l, div1_op m h]) @ [rotcl_op l, div1_op m h]"
    by (simp add: replicate_append_same [symmetric] del: replicate_append_same)
  then have "run_ops e (concat (replicate (Suc k) [rotcl_op l, div1_op m h])) s = Done () u"
    using t(1) u(1) by (simp only: run_ops_append bnd_simps)
  then show ?case using u t by auto
qed simp

text \<open>
  Property C32: the division program of the SH-4, \<open>div0u\<close>, thirty-two times \<open>rotcl\<close> and \<open>div1\<close>, and a last \<open>rotcl\<close>, run by the
  interpreter through its opcode table with any three different registers, leaves the quotient of the 64-bit dividend by the
  divisor, provided that the quotient fits 32 bits, and changes no other register.
\<close>

theorem unsigned_division:
  assumes "h < 16" "l < 16" "m < 16" "h \<noteq> l" "h \<noteq> m" "l \<noteq> m" "rg h s < rg m s"
  shows "\<exists>t. run_ops e (division_program h l m) s = Done () t
    \<and> uint (rg l t) = (uint (rg h s) * 2 ^ 32 + uint (rg l s)) div uint (rg m s)
    \<and> (\<forall>i. i \<noteq> h \<and> i \<noteq> l \<longrightarrow> rg i t = rg i s)"
proof -
  let ?d = "executeCycles (entry i0000_0000_0001_1001 0xFFFF 0x0019 0 1 eu_EX 1)"
  let ?hi = "uint (rg h s)" and ?lo = "uint (rg l s)" and ?m = "uint (rg m s)"
  define s0 where "s0 = ?d (set_T False (set_M False (set_Q False s)))"
  have s0: "ExecuteOpcode e 0x0019 s = Done () s0" unfolding s0_def
    by (rule execute_row [OF rows_present(1)]) (simp_all add: i0000_0000_0001_1001_def act_def)
  have r0: "rg i s0 = rg i s" for i by (simp add: s0_def countCycles_cost)
  have "div_inv h l m ?hi ?lo 0 s0"
    unfolding div_inv_def r0
    by (rule exI [of _ ?hi], rule exI [of _ 0])
       (use assms(7) in \<open>simp add: s0_def countCycles_cost rem_of_def word_less_def uint_lt2p [of "rg l s", simplified]\<close>)
  from div_rounds [OF _ assms(1-6) this, of 32 e] obtain t where t: "run_ops e (concat (replicate 32 [rotcl_op l, div1_op m h])) s0 = Done () t"
    "div_inv h l m ?hi ?lo 32 t" and ti: "\<And>i. i \<noteq> h \<and> i \<noteq> l \<Longrightarrow> rg i t = rg i s" by (auto simp: r0)
  obtain u where u: "i0100_nnnn_0010_0100 e (ucast (rotcl_op l)) t = Done () u" "rg l u = push_bit 1 (rg l t) OR sr_T (cx t)"
    "\<forall>i. i \<noteq> l \<longrightarrow> rg i u = rg i t"
    using rotcl_exec [of "ucast (rotcl_op l)" l e t] rotcl_code [OF assms(2)] by blast
  let ?u = "executeCycles (entry i0100_nnnn_0010_0100 0xF0FF 0x4024 0 1 eu_EX 1) u"
  have run: "run_ops e (division_program h l m) s = Done () ?u"
    unfolding division_program_def run_ops_append using s0 t(1) execute_row [OF rows_present(3) _ u(1)] rotcl_code [OF assms(2)] by simp
  from t(2) obtain \<rho> q where "0 \<le> \<rho>" "\<rho> < ?m" and N: "?hi * 2 ^ 32 + ?lo = ?m * q + \<rho>" and q: "0 \<le> q" "q < 2 ^ 32"
    and L: "uint (rg l t) = q div 2" and T: "uint (sr_T (cx t)) = q mod 2"
    unfolding div_inv_def using ti [of m] assms(5,6) by auto
  have "sr_T (cx t) \<le> 1" using T by (simp add: word_le_def)
  then have "uint (rg l u) = 2 * ((q div 2) mod 2 ^ 31) + q mod 2" using shift_in [of "sr_T (cx t)" "rg l t"] L T u(2) by simp
  also have "\<dots> = q" using q by (simp add: mod_pos_pos_trivial)
  also have "q = (?hi * 2 ^ 32 + ?lo) div ?m" using N \<open>0 \<le> \<rho>\<close> \<open>\<rho> < ?m\<close> by (simp add: div_pos_pos_trivial)
  finally show ?thesis using run ti u(3) by (auto simp: countCycles_cost)
qed

end
