(* ===== verification/Sh4_Props.thy ===== *)
theory Sh4_Props
  imports Sh4_Tlb Sh4_Arith
begin

unbundle bit_operations_syntax

section \<open>Properties of the SH-4 interpreter\<close>

text \<open>
  The properties that rest on the judgement of theory \<open>Sh4_Frame\<close>, stated for the interpreter with its memory interface:
  any address map, tile accelerator, BIOS and scheduler that obey the laws of the locale \<open>sh4_handlers\<close>.
\<close>

abbreviation sh4_env_of where
  "sh4_env_of M A TA h bios tick d \<equiv> slots (mem_env M A TA h bios tick) d"

subsection \<open>Exceptions\<close>


lemma core_handlers: "sh4_handlers (core_map M) (\<lambda>_ s. s) unknown_trap (\<lambda>_ s. s)"
  by (rule core.sh4_handlers_axioms)

lemma view_reset: "cpu_view (interrupts_reset c) = cpu_view c"
  by (simp add: interrupts_reset_def Let_def view_siid) (simp add: cpu_view_def)

lemma zero_ok: "cpu_ok (cx cpu_zero)"
proof -
  have "sr_status (interrupts_reset sh4_zero) = 0" "old_sr (interrupts_reset sh4_zero) = 0" "sr_T (interrupts_reset sh4_zero) = 0"
    using view_reset [of sh4_zero] by (simp_all add: cpu_view_def) (simp_all add: sh4_zero_def)
  then show ?thesis by (simp add: cpu_zero_def cpu_ok_def reset_ok bank_ok_def sr_RB_def)
qed

text \<open>
  Property C30: a time slice of the interpreter ends: the inner loop of \<open>Run\<close>, from any state and with any devices, returns, with
  the cycle counter used up unless an exception or a fatal error ended it.
\<close>

theorem sh4_slice_ends:
  assumes "sh4_handlers A TA bios tick" "cpu_ok (cx s)"
  shows "\<exists>r. run_slice (sh4_env_of M A TA h bios tick d) s = Some r
    \<and> (case r of Done u t \<Rightarrow> cpu_ok (cx t) \<and> cycle_counter t \<le> 0 | Thrown epc ev t \<Rightarrow> cpu_ok (cx t) | Fatal \<Rightarrow> True)"
proof -
  have b: "sh4_bus (mem_env M A TA h bios tick)" by (rule sh4_handlers.env_bus [OF assms(1)])
  obtain r where "run_slice (sh4_env_of M A TA h bios tick d) s = Some r" using sh4_bus.slice_returns [OF b] by blast
  then show ?thesis using sh4_bus.slice_keeps [OF b _ assms(2)] by blast
qed

text \<open>What happens to the processor: a reset, turns of the main loop, single steps, and interrupt lines that devices move.\<close>

inductive sh4_reachable :: "'m sh4_env \<Rightarrow> 'm sh4_cpu \<Rightarrow> bool" for e where
  reset: "cache_ok (cx s) \<Longrightarrow> sh4_reachable e (Sh4_Reset hard s)"
| turn: "sh4_reachable e s \<Longrightarrow> Run_turn e s = Some (Done u t) \<Longrightarrow> sh4_reachable e t"
| step: "sh4_reachable e s \<Longrightarrow> Sh4_Step e s = Done u t \<Longrightarrow> sh4_reachable e t"
| line: "sh4_reachable e s \<Longrightarrow> i < 28 \<Longrightarrow> sh4_reachable e (upd_cx (InterruptPend i v) s)"

lemma line_keeps: "cpu_ok c \<Longrightarrow> i < 28 \<Longrightarrow> cpu_ok (InterruptPend i v c)"
  by (simp add: cpu_ok_def pend_ops_ok) (simp add: InterruptPend_def SetInterruptPend_def ResetInterruptPend_def recalc_pending_itrs_def bank_ok_def)

text \<open>
  Property C31: after a reset, whatever the processor runs and whatever interrupt lines the devices move, the interrupt cache agrees with
  the sources, their levels and the status register, the register bank in use is the one the status register selects, and the flag
  \<open>T\<close> is a bit.
\<close>

theorem sh4_invariant:
  assumes "sh4_handlers A TA bios tick" "sh4_reachable (sh4_env_of M A TA h bios tick d) s"
  shows "cpu_ok (cx s)"
proof -
  have b: "sh4_bus (mem_env M A TA h bios tick)" by (rule sh4_handlers.env_bus [OF assms(1)])
  from assms(2) show ?thesis
  proof (induction rule: sh4_reachable.induct)
    case (reset s hard) then show ?case by (rule reset_cpu_ok)
  next
    case (turn s u t) then show ?case using sh4_bus.turn_keeps [OF b] by blast
  next
    case (step s u t) then show ?case using sh4_bus.step_keeps [OF b] by blast
  next
    case (line s i v) then show ?case by (simp add: line_keeps)
  qed
qed

subsection \<open>Witnesses on the modelled machine\<close>

definition host_zero :: fpu_host where
  "host_zero = \<lparr>f_add = (\<lambda>_ _. 0), f_sub = (\<lambda>_ _. 0), f_mul = (\<lambda>_ _. 0), f_div = (\<lambda>_ _. 0), f_fma = (\<lambda>_ _ _. 0), f_sqrt = (\<lambda>_. 0),
     f_one = 0x3F800000, f_eq = (=), f_gt = (\<lambda>_ _. False), f_isnan = (\<lambda>_. False), f_of_s32 = id, s32_of_f = id, f_to_d = ucast,
     d_add = (+), d_sub = (-), d_mul = (*), d_div = (\<lambda>_ _. 0), d_sqrt = id, d_eq = (=), d_gt = (\<lambda>_ _. False), d_isnan = (\<lambda>_. False),
     d_of_s32 = ucast, s32_of_d = ucast, d_to_f = ucast, sin_table = (\<lambda>_. (0, 0)), host_x86 = True\<rparr>"

definition core_env :: "nat \<Rightarrow> unit mem_sys sh4_env" where
  "core_env d = sh4_env_of 0xFFFFFF (core_map 0xFFFFFF) (\<lambda>_ s. s) host_zero unknown_trap (\<lambda>_ s. s) d"

lemma zero_status: "sr_status (cx cpu_zero) = 0"
  using view_reset [of sh4_zero] by (simp add: cpu_view_def cpu_zero_def) (simp add: sh4_zero_def)


theorem sh4_slice_ends_witness:
  "\<exists>r. run_slice (core_env 2) cpu_zero = Some r"
  using sh4_slice_ends [OF core_handlers zero_ok] unfolding core_env_def by blast

theorem sh4_invariant_witness:
  "cpu_ok (cx (Sh4_Reset True cpu_zero))"
proof -
  have "cache_ok (cx cpu_zero)" using zero_ok by (simp add: cpu_ok_def intc_ok_def)
  from sh4_invariant [OF core_handlers sh4_reachable.reset [OF this]] show ?thesis .
qed

theorem unsigned_division_witness:
  "\<forall>e. \<exists>t. run_ops e (division_program 2 1 0) (set_r 0 7 (set_r 1 100 (set_r 2 0 cpu_zero))) = Done () t \<and> uint (rg 1 t) = 14"
proof
  fix e
  show "\<exists>t. run_ops e (division_program 2 1 0) (set_r 0 7 (set_r 1 100 (set_r 2 0 cpu_zero))) = Done () t \<and> uint (rg 1 t) = 14"
    using unsigned_division [of 2 1 0 "set_r 0 7 (set_r 1 100 (set_r 2 0 cpu_zero))" e] by auto
qed

end
