(* ===== verification/Sh4_Sched.thy ===== *)
theory Sh4_Sched
  imports Sh4_Machine Holly Signed_Words
begin

unbundle bit_operations_syntax

section \<open>The scheduler of the SH-4\<close>

text \<open>
  Models \<^verbatim>\<open>core/hw/sh4/sh4_sched.cpp\<close>: single-shot events counted in SH-4 cycles.  The time is kept as a deadline:
  \<open>sh4_sched_ffb\<close> is the time at which \<open>sh4_sched_next\<close> will have run down to zero, so that their difference is the time of
  the beginning of the current slice.  The record \<open>onchip\<close> is the part of the machine behind the memory interface that the on-chip
  modules, the caches and the memory side of the graphics chip own; \<open>board\<close> stands for the rest.  A callback is a value that
  \<open>run_cb\<close> maps to its function; \<open>verify\<close> stops the emulator, which sets the flag \<open>verify_failed\<close> here.
\<close>

subsection \<open>State\<close>

datatype sched_callback = sched_tmu_cb_ptr | scif_cb_ptr | board_cb_ptr nat

record sched_list =
  sch_cb :: "sched_callback option"
  sch_tag :: nat
  sch_start :: u32
  sch_end :: u32

record tmu_state =
  TMU_TOCR :: u8
  TMU_TSTR :: u8
  TMU_TCOR :: "nat \<Rightarrow> u32"
  TMU_TCR :: "nat \<Rightarrow> u16"
  tmu_shift :: "nat \<Rightarrow> nat"
  tmu_mask :: "nat \<Rightarrow> u64"
  old_mode :: "nat \<Rightarrow> u32"
  tmu_ch_base :: "nat \<Rightarrow> u64"
  tmu_sched :: "nat \<Rightarrow> nat"

record scif_state =
  SCIF_SCSMR2 :: u16
  SCIF_SCBRR2 :: u8
  SCIF_SCSCR2 :: u16
  SCIF_SCFSR2 :: u16
  SCIF_SCFCR2 :: u16
  SCIF_SCSPTR2 :: u16
  SCIF_SCLSR2 :: u16
  scif_pipe :: bool
  schedId :: nat
  brkSchedId :: nat
  frameSize :: int
  cyclesPerBit :: int
  statusLastRead :: u16
  txFifo :: "u8 list"
  rxFifo :: "u8 list"
  transmitting :: bool

record pvr_state =
  YUV_tempdata :: "nat \<Rightarrow> u8"
  YUV_dest :: u32
  YUV_blockcount :: u32
  YUV_x_curr :: u32
  YUV_y_curr :: u32
  YUV_x_size :: u32
  YUV_y_size :: u32
  YUV_index :: u32
  TA_YUV_TEX_BASE :: u32
  TA_YUV_TEX_CTRL :: u32
  TA_YUV_TEX_CNT :: u32
  fb_watch_addr_start :: u32
  fb_watch_addr_end :: u32
  fb_dirty :: bool

record cache_line =
  cl_valid :: bool
  cl_dirty :: bool
  cl_address :: u32
  cl_data :: "nat \<Rightarrow> u8"

record 'q onchip =
  sh4_sched_ffb :: u64
  sch_list :: "sched_list list"
  sh4_sched_next_id :: int
  verify_failed :: bool
  tmu :: tmu_state
  scif :: scif_state
  hol :: holly
  SB_C2DSTAT :: u32
  SB_C2DLEN :: u32
  SB_C2DST :: u32
  SB_LMMODE0 :: u32
  SB_LMMODE1 :: u32
  UBC :: "nat \<Rightarrow> u32"
  BSC :: "nat \<Rightarrow> u32"
  CPG :: "nat \<Rightarrow> u32"
  RTC :: "nat \<Rightarrow> u32"
  SCI :: "nat \<Rightarrow> u32"
  DMAC :: "nat \<Rightarrow> u32"
  OnChipRAM :: "nat \<Rightarrow> u8"
  ITLB :: "nat \<Rightarrow> TLB_Entry"
  icache_lines :: "nat \<Rightarrow> cache_line"
  ocache_lines :: "nat \<Rightarrow> cache_line"
  writeBackBufferCycles :: u64
  writeThroughBufferCycles :: u64
  pvr :: pvr_state
  board :: 'q

type_synonym 'q sh4_machine = "'q onchip machine"

abbreviation chip :: "'q sh4_machine \<Rightarrow> 'q onchip" where "chip s \<equiv> periph (dev s)"

definition upd_chip :: "('q onchip \<Rightarrow> 'q onchip) \<Rightarrow> 'q sh4_machine \<Rightarrow> 'q sh4_machine" where
  "upd_chip f s = upd_dev (\<lambda>d. d\<lparr>periph := f (periph d)\<rparr>) s"

lemma upd_chip_simps [simp]:
  "chip (upd_chip f s) = f (chip s)" "cx (upd_chip f s) = cx s" "sh4_sched_next (upd_chip f s) = sh4_sched_next s"
  "cycle_counter (upd_chip f s) = cycle_counter s" "upd_chip f (upd_chip g s) = upd_chip (\<lambda>c. f (g c)) s"
  "quiet s' (upd_chip f s) = quiet s' s"
  by (simp_all add: upd_chip_def)

subsection \<open>Operations\<close>

abbreviation (input) SH4_MAIN_CLOCK :: int where "SH4_MAIN_CLOCK \<equiv> 200000000"

definition sh4_sched_now64 :: "'q sh4_machine \<Rightarrow> u64" where
  "sh4_sched_now64 s = sh4_sched_ffb (chip s) - word_of_int (sh4_sched_next s)"

definition sh4_sched_now :: "'q sh4_machine \<Rightarrow> u32" where
  "sh4_sched_now s = ucast (sh4_sched_ffb (chip s) - word_of_int (sh4_sched_next s))"

definition sh4_sched_remaining :: "sched_list \<Rightarrow> u32 \<Rightarrow> u32" where
  "sh4_sched_remaining sched reference = (if sch_end sched \<noteq> -1 then sch_end sched - reference else -1)"

definition ffts_scan :: "u32 \<Rightarrow> sched_list list \<Rightarrow> int \<times> u32" where
  "ffts_scan now l =
     fold (\<lambda>i (slot, diff). let remaining = sh4_sched_remaining (l ! i) now in
         if remaining < diff then (int i, remaining) else (slot, diff))
       [0..<length l] (-1, -1)"

definition sh4_sched_ffts :: "'q sh4_machine \<Rightarrow> 'q sh4_machine" where
  "sh4_sched_ffts s =
     (let (slot, diff) = ffts_scan (sh4_sched_now s) (sch_list (chip s));
          s = upd_chip (\<lambda>c. c\<lparr>sh4_sched_ffb := sh4_sched_ffb c - word_of_int (sh4_sched_next s), sh4_sched_next_id := slot\<rparr>) s;
          s = s\<lparr>sh4_sched_next := if slot \<noteq> -1 then sint diff else SH4_MAIN_CLOCK\<rparr>
      in upd_chip (\<lambda>c. c\<lparr>sh4_sched_ffb := sh4_sched_ffb c + word_of_int (sh4_sched_next s)\<rparr>) s)"

definition set_sched :: "nat \<Rightarrow> sched_list \<Rightarrow> 'q sh4_machine \<Rightarrow> 'q sh4_machine" where
  "set_sched i e s = upd_chip (\<lambda>c. c\<lparr>sch_list := (sch_list c)[i := e]\<rparr>) s"

definition sh4_sched_register :: "nat \<Rightarrow> sched_callback \<Rightarrow> 'q sh4_machine \<Rightarrow> nat \<times> 'q sh4_machine" where
  "sh4_sched_register tag cb s =
     (let l = sch_list (chip s); t = \<lparr>sch_cb = Some cb, sch_tag = tag, sch_start = -1, sch_end = -1\<rparr>
      in case find (\<lambda>i. sch_cb (l ! i) = None) [0..<length l] of
           Some i \<Rightarrow> (i, set_sched i t s)
         | None \<Rightarrow> (length l, upd_chip (\<lambda>c. c\<lparr>sch_list := l @ [t]\<rparr>) s))"

text \<open>\<open>sh4_sched_unregister\<close> of an id other than -1.\<close>

definition sh4_sched_unregister :: "nat \<Rightarrow> 'q sh4_machine \<Rightarrow> 'q sh4_machine" where
  "sh4_sched_unregister i s =
     (let l = sch_list (chip s) in
      if length l \<le> i then upd_chip (\<lambda>c. c\<lparr>verify_failed := True\<rparr>) s
      else sh4_sched_ffts
        (if i = length l - 1 then upd_chip (\<lambda>c. c\<lparr>sch_list := butlast l\<rparr>) s
         else set_sched i ((l ! i)\<lparr>sch_cb := None, sch_end := -1\<rparr>) s))"

definition sh4_sched_request :: "nat \<Rightarrow> int \<Rightarrow> 'q sh4_machine \<Rightarrow> 'q sh4_machine" where
  "sh4_sched_request i cycles s =
     (if \<not> (cycles = -1 \<or> 0 \<le> cycles \<and> cycles \<le> SH4_MAIN_CLOCK) then upd_chip (\<lambda>c. c\<lparr>verify_failed := True\<rparr>) s
      else
        (let now = sh4_sched_now s;
             e = (if cycles = -1 then -1 else (let e = now + word_of_int cycles in if e = -1 then e + 1 else e))
         in sh4_sched_ffts (set_sched i ((sch_list (chip s) ! i)\<lparr>sch_start := now, sch_end := e\<rparr>) s)))"

definition sh4_sched_is_scheduled :: "nat \<Rightarrow> 'q sh4_machine \<Rightarrow> bool" where
  "sh4_sched_is_scheduled i s = (sch_end (sch_list (chip s) ! i) \<noteq> -1)"

text \<open>\<open>sh4_sched_elapsed\<close>: the time since the start of the event, which becomes now.\<close>

definition sh4_sched_elapsed :: "nat \<Rightarrow> 'q sh4_machine \<Rightarrow> u32 \<times> 'q sh4_machine" where
  "sh4_sched_elapsed i s =
     (let e = sch_list (chip s) ! i in
      if sch_end e \<noteq> -1 then (sh4_sched_now s - sch_start e, set_sched i (e\<lparr>sch_start := sh4_sched_now s\<rparr>) s)
      else (-1, s))"

type_synonym 'q callbacks = "sched_callback \<Rightarrow> nat \<Rightarrow> int \<Rightarrow> int \<Rightarrow> 'q sh4_machine \<Rightarrow> int \<times> 'q sh4_machine"

definition handle_cb :: "'q callbacks \<Rightarrow> nat \<Rightarrow> 'q sh4_machine \<Rightarrow> 'q sh4_machine" where
  "handle_cb run_cb i s =
     (let e = sch_list (chip s) ! i;
          remain = sch_end e - sch_start e;
          (elapsd, s) = sh4_sched_elapsed i s;
          jitter = sint (elapsd - remain);
          s = set_sched i ((sch_list (chip s) ! i)\<lparr>sch_end := -1\<rparr>) s
      in case sch_cb e of None \<Rightarrow> s
         | Some cb \<Rightarrow>
             (let (re_sch, s) = run_cb cb (sch_tag e) (sint remain) jitter s
              in if re_sch > 0 then sh4_sched_request i (max 0 (re_sch - jitter)) s else s))"

definition sched_due :: "nat \<Rightarrow> u32 \<Rightarrow> int \<Rightarrow> 'q sh4_machine \<Rightarrow> bool" where
  "sched_due i fztime cycles s =
     (let remaining = sint (sh4_sched_remaining (sch_list (chip s) ! i) fztime) in 0 \<le> remaining \<and> remaining \<le> cycles)"

definition sh4_sched_tick_fn :: "'q callbacks \<Rightarrow> int \<Rightarrow> 'q sh4_machine \<Rightarrow> 'q sh4_machine" where
  "sh4_sched_tick_fn run_cb cycles s =
     (if sh4_sched_next s \<ge> 0 then s
      else
        (let fztime = sh4_sched_now s - word_of_int cycles;
             s = (if sh4_sched_next_id (chip s) \<noteq> -1
                  then fold (\<lambda>i s. if sched_due i fztime cycles s then handle_cb run_cb i s else s) [0..<length (sch_list (chip s))] s
                  else s)
         in sh4_sched_ffts s))"

definition sh4_sched_reset :: "bool \<Rightarrow> 'q sh4_machine \<Rightarrow> 'q sh4_machine" where
  "sh4_sched_reset hard s =
     (if hard then
        (upd_chip (\<lambda>c. c\<lparr>sh4_sched_ffb := 0, sh4_sched_next_id := -1,
           sch_list := map (\<lambda>e. e\<lparr>sch_start := -1, sch_end := -1\<rparr>) (sch_list c)\<rparr>) s)\<lparr>sh4_sched_next := 0\<rparr>
      else s)"

subsection \<open>Time\<close>

lemma ucast_plus: "ucast (a + b) = (ucast a + ucast b :: u32)" for a b :: u64
proof -
  have "take_bit 32 (x + y) = take_bit 32 (take_bit 64 x + take_bit 64 y)" for x y :: int
    using take_bit_add [of 32 "take_bit 64 x" "take_bit 64 y"] take_bit_add [of 32 x y] by simp
  then show ?thesis by transfer simp
qed

lemma now_alt: "sh4_sched_now s = ucast (sh4_sched_now64 s)"
  by (simp add: sh4_sched_now_def sh4_sched_now64_def)

lemma now64_upd [simp]:
  "(\<And>c. sh4_sched_ffb (f c) = sh4_sched_ffb c) \<Longrightarrow> sh4_sched_now64 (upd_chip f s) = sh4_sched_now64 s"
  by (simp add: sh4_sched_now64_def)

lemma now64_set_sched [simp]: "sh4_sched_now64 (set_sched i e s) = sh4_sched_now64 s"
  by (simp add: set_sched_def)

lemma now64_ffts [simp]: "sh4_sched_now64 (sh4_sched_ffts s) = sh4_sched_now64 s"
  by (simp add: sh4_sched_ffts_def sh4_sched_now64_def Let_def split_def upd_chip_def)

lemma now64_request [simp]: "sh4_sched_now64 (sh4_sched_request i c s) = sh4_sched_now64 s"
  by (simp add: sh4_sched_request_def Let_def)

subsection \<open>The list of events\<close>

abbreviation events :: "'q sh4_machine \<Rightarrow> sched_list list" where "events s \<equiv> sch_list (chip s)"

lemma events_ops [simp]:
  "events (set_sched i e s) = (events s)[i := e]" "events (sh4_sched_ffts s) = events s"
  "verify_failed (chip (set_sched i e s)) = verify_failed (chip s)" "verify_failed (chip (sh4_sched_ffts s)) = verify_failed (chip s)"
  "sh4_sched_next (set_sched i e s) = sh4_sched_next s"
  by (simp_all add: set_sched_def sh4_sched_ffts_def Let_def split_def)

text \<open>The first event with the smallest time left; -1 when all are at least \<open>0xFFFFFFFF\<close> away.\<close>

lemma ffts_scan_inv:
  assumes "n \<le> length l"
    and "(slot, diff) = fold (\<lambda>i (slot, diff). let remaining = sh4_sched_remaining (l ! i) now in
         if remaining < diff then (int i, remaining) else (slot, diff)) [0..<n] (-1, -1)"
  shows "(\<forall>i < n. diff \<le> sh4_sched_remaining (l ! i) now)
    \<and> (slot = -1 \<and> diff = -1 \<or> (\<exists>i < n. slot = int i \<and> diff = sh4_sched_remaining (l ! i) now \<and> diff \<noteq> -1))"
  using assms
proof (induction n arbitrary: slot diff)
  case (Suc n)
  obtain sl df where p: "fold (\<lambda>i (slot, diff). let remaining = sh4_sched_remaining (l ! i) now in
         if remaining < diff then (int i, remaining) else (slot, diff)) [0..<n] (-1, -1) = (sl, df)" by (rule prod.exhaust)
  note ih = Suc.IH [OF Suc_leD [OF Suc.prems(1)] p [symmetric]]
  let ?r = "sh4_sched_remaining (l ! n) now"
  show ?case
  proof (cases "?r < df")
    case True
    then have e: "slot = int n" "diff = ?r" using Suc.prems(2) by (simp_all add: p [unfolded Let_def] Let_def)
    have "?r \<le> sh4_sched_remaining (l ! i) now" if "i < Suc n" for i
      using that ih True by (cases "i = n") (auto intro: order.trans [OF less_imp_le])
    moreover have "?r \<noteq> -1" using True word_n1_ge [of df] by auto
    ultimately show ?thesis using e by blast
  next
    case False
    then have e: "slot = sl" "diff = df" using Suc.prems(2) by (simp_all add: p [unfolded Let_def] Let_def)
    have "df \<le> sh4_sched_remaining (l ! i) now" if "i < Suc n" for i
      using that ih False by (cases "i = n") auto
    then show ?thesis using e ih by (metis less_SucI)
  qed
qed simp

lemma scan_facts:
  assumes "ffts_scan now l = (slot, diff)"
  shows "i < length l \<Longrightarrow> diff \<le> sh4_sched_remaining (l ! i) now"
    and "slot = -1 \<Longrightarrow> diff = -1"
    and "slot \<noteq> -1 \<Longrightarrow> \<exists>i < length l. diff = sh4_sched_remaining (l ! i) now \<and> diff \<noteq> -1"
  using ffts_scan_inv [of "length l" l slot diff now] assms unfolding ffts_scan_def by auto

subsection \<open>No event is overdue\<close>

text \<open>An event that is off, or registered and at most \<open>B\<close> cycles ahead of \<open>now\<close>.\<close>

definition due_in :: "u32 \<Rightarrow> int \<Rightarrow> sched_list \<Rightarrow> bool" where
  "due_in now B e \<longleftrightarrow> sch_end e = -1 \<or> sch_cb e \<noteq> None \<and> uint (sch_end e - now) \<le> B"

abbreviation (input) HORIZON :: int where "HORIZON \<equiv> 200000001"
abbreviation (input) WIDE :: int where "WIDE \<equiv> 200000449"

definition sched_ok :: "'q sh4_machine \<Rightarrow> bool" where
  "sched_ok s \<longleftrightarrow>
     (\<forall>e \<in> set (events s). due_in (sh4_sched_now s) HORIZON e)
     \<and> (\<forall>e \<in> set (events s). sch_end e \<noteq> -1 \<longrightarrow> sh4_sched_next s \<le> uint (sch_end e - sh4_sched_now s))
     \<and> 0 \<le> sh4_sched_next s \<and> sh4_sched_next s \<le> HORIZON
     \<and> (sh4_sched_next_id (chip s) = -1 \<longrightarrow> (\<forall>e \<in> set (events s). sch_end e = -1))"

lemma now_ffts [simp]: "sh4_sched_now (sh4_sched_ffts s) = sh4_sched_now s"
  by (simp add: now_alt)

lemma now_set_sched [simp]: "sh4_sched_now (set_sched i e s) = sh4_sched_now s"
  by (simp add: now_alt)

lemma now_request [simp]: "sh4_sched_now (sh4_sched_request i c s) = sh4_sched_now s"
  by (simp add: now_alt)

lemma ffts_fields:
  assumes "ffts_scan (sh4_sched_now s) (events s) = (slot, diff)"
  shows "sh4_sched_next (sh4_sched_ffts s) = (if slot \<noteq> -1 then sint diff else SH4_MAIN_CLOCK)"
    and "sh4_sched_next_id (chip (sh4_sched_ffts s)) = slot"
  by (simp_all add: sh4_sched_ffts_def assms Let_def)

lemma small_sint: "uint (w :: u32) \<le> 0x7FFFFFFF \<Longrightarrow> sint w = uint w"
  by (rule sint_small) (simp add: word_less_def)

lemma uint_top: "uint (- 1 :: u32) = 0xFFFFFFFF"
  by (simp add: unsigned_minus_1_eq_mask mask_eq_exp_minus_1)

lemma ffts_ok:
  assumes "\<forall>e \<in> set (events s). due_in (sh4_sched_now s) HORIZON e"
  shows "sched_ok (sh4_sched_ffts s)"
proof -
  obtain slot diff where sc: "ffts_scan (sh4_sched_now s) (events s) = (slot, diff)" by (rule prod.exhaust)
  note f = scan_facts [OF sc]
  have far: "sh4_sched_remaining e (sh4_sched_now s) \<noteq> -1" if "e \<in> set (events s)" "sch_end e \<noteq> -1" for e
  proof
    assume r: "sh4_sched_remaining e (sh4_sched_now s) = -1"
    have "uint (sch_end e - sh4_sched_now s) \<le> HORIZON" using assms that by (auto simp: due_in_def)
    then show False using r that(2) uint_top by (simp add: sh4_sched_remaining_def)
  qed
  have le: "uint diff \<le> uint (sch_end e - sh4_sched_now s)" if e: "e \<in> set (events s)" "sch_end e \<noteq> -1" for e
  proof -
    obtain i where "i < length (events s)" "e = events s ! i" using e(1) by (auto simp: in_set_conv_nth)
    then show ?thesis using f(1) [of i] e(2) by (simp add: sh4_sched_remaining_def word_le_def)
  qed
  show ?thesis
  proof (cases "slot = -1")
    case True
    have off: "\<forall>e \<in> set (events s). sch_end e = -1"
    proof (rule ccontr)
      assume "\<not> (\<forall>e \<in> set (events s). sch_end e = -1)"
      then obtain e where e: "e \<in> set (events s)" "sch_end e \<noteq> -1" by blast
      have "uint diff = 0xFFFFFFFF" using f(2) [OF True] uint_top by simp
      moreover have "uint (sch_end e - sh4_sched_now s) \<le> HORIZON" using assms e by (auto simp: due_in_def)
      ultimately show False using le [OF e] by simp
    qed
    then show ?thesis by (simp add: sched_ok_def ffts_fields [OF sc] True due_in_def)
  next
    case False
    obtain i where i: "i < length (events s)" "diff = sh4_sched_remaining (events s ! i) (sh4_sched_now s)" "diff \<noteq> -1"
      using f(3) [OF False] by blast
    then have on: "sch_end (events s ! i) \<noteq> -1" and d: "diff = sch_end (events s ! i) - sh4_sched_now s"
      by (auto simp: sh4_sched_remaining_def split: if_splits)
    have "uint diff \<le> HORIZON" using assms i(1) on d by (force simp: due_in_def)
    moreover then have "sint diff = uint diff" by (intro small_sint) simp
    ultimately show ?thesis using assms le by (simp add: sched_ok_def ffts_fields [OF sc] False)
  qed
qed

subsection \<open>Clients\<close>

text \<open>
  What a callback or a register write may do to the scheduler: request or cancel registered events, with a delay the scheduler
  accepts.
\<close>

definition sched_view :: "'q sh4_machine \<Rightarrow> u64 \<times> int \<times> int \<times> sched_list list \<times> bool" where
  "sched_view s = (sh4_sched_ffb (chip s), sh4_sched_next s, sh4_sched_next_id (chip s), events s, verify_failed (chip s))"

definition delay_ok :: "int \<Rightarrow> bool" where
  "delay_ok c \<longleftrightarrow> c = -1 \<or> 0 \<le> c \<and> c \<le> SH4_MAIN_CLOCK"

inductive requests :: "'q sh4_machine \<Rightarrow> 'q sh4_machine \<Rightarrow> bool" for s where
  none: "requests s s"
| other: "requests s t \<Longrightarrow> sched_view u = sched_view t \<Longrightarrow> requests s u"
| request: "requests s t \<Longrightarrow> i < length (events t) \<Longrightarrow> sch_cb (events t ! i) \<noteq> None \<Longrightarrow> delay_ok c
    \<Longrightarrow> requests s (sh4_sched_request i c t)"

lemma requests_trans: "requests t u \<Longrightarrow> requests s t \<Longrightarrow> requests s u"
  by (induction rule: requests.induct) (auto intro: requests.intros)

lemma view_now: "sched_view u = sched_view t \<Longrightarrow> sh4_sched_now64 u = sh4_sched_now64 t"
  by (simp add: sched_view_def sh4_sched_now64_def)

lemma view_fields:
  "sched_view u = sched_view t \<Longrightarrow> events u = events t" "sched_view u = sched_view t \<Longrightarrow> verify_failed (chip u) = verify_failed (chip t)"
  "sched_view u = sched_view t \<Longrightarrow> sh4_sched_now u = sh4_sched_now t" "sched_view u = sched_view t \<Longrightarrow> sched_ok u = sched_ok t"
  by (simp_all add: sched_view_def sh4_sched_now_def sched_ok_def)

definition request_end :: "int \<Rightarrow> u32 \<Rightarrow> u32" where
  "request_end c now = (if c = -1 then -1 else (let e = now + word_of_int c in if e = -1 then e + 1 else e))"

lemma request_alt:
  "delay_ok c \<Longrightarrow> sh4_sched_request i c t =
     sh4_sched_ffts (set_sched i ((events t ! i)\<lparr>sch_start := sh4_sched_now t, sch_end := request_end c (sh4_sched_now t)\<rparr>) t)"
  by (auto simp: sh4_sched_request_def delay_ok_def Let_def request_end_def)

lemma request_end_bound:
  assumes "0 \<le> c" "c \<le> SH4_MAIN_CLOCK"
  shows "uint (request_end c now - now) \<le> HORIZON"
proof -
  have u: "uint (word_of_int k :: u32) = k" if "0 \<le> k" "k \<le> HORIZON" for k
    using that by (simp add: uint_word_of_int)
  have "request_end c now = now + word_of_int c \<or> request_end c now = (now + word_of_int c) + 1"
    using assms(1) by (cases "now + word_of_int c = - 1") (auto simp only: request_end_def Let_def split: if_split)
  moreover have "(now + word_of_int c) + 1 = now + word_of_int (c + 1)" by simp
  ultimately have "request_end c now = now + word_of_int c \<or> request_end c now = now + word_of_int (c + 1)" by (simp only:)
  then have "request_end c now - now = word_of_int c \<or> request_end c now - now = word_of_int (c + 1)" by auto
  then show ?thesis using assms u [of c] u [of "c + 1"] by (auto simp del: of_int_add)
qed

lemma map_update_same: "f e = f (l ! i) \<Longrightarrow> map f (l[i := e]) = map f l"
  by (simp add: map_update) (metis list_update_beyond list_update_id map_update not_le)

lemma request_due:
  "delay_ok c \<Longrightarrow> sch_cb e \<noteq> None \<Longrightarrow> due_in now HORIZON (e\<lparr>sch_start := b, sch_end := request_end c now\<rparr>)"
  using request_end_bound [of c now] by (auto simp: due_in_def delay_ok_def request_end_def)

lemma requests_keep:
  assumes "requests s t"
  shows "sh4_sched_now64 t = sh4_sched_now64 s \<and> verify_failed (chip t) = verify_failed (chip s)
    \<and> length (events t) = length (events s) \<and> map sch_cb (events t) = map sch_cb (events s)
    \<and> map sch_tag (events t) = map sch_tag (events s)"
  using assms
proof (induction rule: requests.induct)
  case none show ?case by simp
next
  case (other t u)
  show ?case using other.IH by (simp only: view_now [OF other.hyps(2)] view_fields(1,2) [OF other.hyps(2)])
next
  case (request t i c)
  show ?case using request.IH request.hyps(4) by (simp add: request_alt map_update_same)
qed

definition chip_view :: "'q sh4_machine \<Rightarrow> sched_callback option list \<times> nat list \<times> tmu_state \<times> scif_state \<times> 'q" where
  "chip_view s = (map sch_cb (events s), map sch_tag (events s), tmu (chip s), scif (chip s), board (chip s))"

lemma chip_view_ops [simp]:
  "sch_cb e = sch_cb (events s ! i) \<Longrightarrow> sch_tag e = sch_tag (events s ! i) \<Longrightarrow> chip_view (set_sched i e s) = chip_view s"
  "chip_view (sh4_sched_ffts s) = chip_view s"
  "chip_view (s\<lparr>sh4_sched_next := n\<rparr>) = chip_view s"
  "delay_ok c \<Longrightarrow> chip_view (sh4_sched_request i c s) = chip_view s"
  by (simp_all add: chip_view_def map_update_same request_alt) (simp_all add: set_sched_def sh4_sched_ffts_def Let_def split_def)

subsection \<open>A turn of the loop of \<open>sh4_sched_tick\<close>\<close>

definition mid_ok :: "u32 \<Rightarrow> nat \<Rightarrow> 'q sh4_machine \<Rightarrow> bool" where
  "mid_ok N k s \<longleftrightarrow> sh4_sched_now s = N
     \<and> (\<forall>i < length (events s). if i < k then due_in N HORIZON (events s ! i) else due_in (N - 448) WIDE (events s ! i))"

lemma due_widen: "due_in N HORIZON e \<Longrightarrow> due_in (N - 448) WIDE e"
proof -
  have "uint (sch_end e - (N - 448)) \<le> uint (sch_end e - N) + uint (448 :: u32)"
    using uint_add_le [of "sch_end e - N" 448] by (simp add: algebra_simps)
  then show "due_in N HORIZON e \<Longrightarrow> due_in (N - 448) WIDE e" by (auto simp: due_in_def)
qed

lemma nth_update: "j < length l \<Longrightarrow> l[i := e] ! j = (if i = j then e else l ! j)"
  by (cases "i = j") auto

lemma mid_set:
  assumes "mid_ok N k s" "due_in N HORIZON e"
  shows "mid_ok N k (set_sched i e s)" "i = k \<Longrightarrow> mid_ok N (Suc k) (set_sched i e s)"
  using assms due_widen [OF assms(2)] by (auto simp: mid_ok_def nth_update less_Suc_eq split: if_splits)

lemma view_mid: "sched_view u = sched_view t \<Longrightarrow> mid_ok N k u = mid_ok N k t"
  by (simp add: mid_ok_def sched_view_def sh4_sched_now_def)

lemma mid_ffts: "mid_ok N k (sh4_sched_ffts s) = mid_ok N k s"
  by (simp add: mid_ok_def)

lemma mid_requests: "requests s t \<Longrightarrow> mid_ok N k s \<Longrightarrow> mid_ok N k t"
proof (induction rule: requests.induct)
  case (other t u)
  show ?case using other.IH [OF other.prems] view_mid [OF other.hyps(2)] by (simp only:)
next
  case (request t i c)
  then have m: "mid_ok N k t" by simp
  then have "sh4_sched_now t = N" by (simp add: mid_ok_def)
  then have "mid_ok N k (set_sched i ((events t ! i)\<lparr>sch_start := N, sch_end := request_end c N\<rparr>) t)"
    by (intro mid_set(1) [OF m] request_due request.hyps)
  then show ?case using request.hyps(4) \<open>sh4_sched_now t = N\<close> by (simp add: request_alt mid_ffts)
qed simp

lemma jitter_bound:
  fixes d N :: u32
  assumes "0 \<le> sint (d - (N - 448))" "sint (d - (N - 448)) \<le> 448"
  shows "0 \<le> sint (N - d)" "sint (N - d) \<le> 448"
proof -
  have u: "uint (d - (N - 448)) = sint (d - (N - 448))" using sint_nonneg_uint [OF assms(1)] .
  have "uint (448 - (d - (N - 448))) = 448 - uint (d - (N - 448))"
    using assms(2) u uint_sub_lem [of "d - (N - 448)" 448] by simp
  moreover have "N - d = 448 - (d - (N - 448))" by simp
  ultimately have v: "uint (N - d) = 448 - sint (d - (N - 448))" using u by (simp only:)
  then have "sint (N - d) = uint (N - d)"
    using assms by (intro small_sint) simp
  then show "0 \<le> sint (N - d)" "sint (N - d) \<le> 448" using v assms by simp_all
qed

lemma not_due:
  assumes "due_in (N - 448) WIDE e" "\<not> (0 \<le> sint (sh4_sched_remaining e (N - 448)) \<and> sint (sh4_sched_remaining e (N - 448)) \<le> 448)"
  shows "due_in N HORIZON e"
proof (cases "sch_end e = -1")
  case False
  let ?r = "sch_end e - (N - 448)"
  have b: "uint ?r \<le> HORIZON + 448" "sch_cb e \<noteq> None" using assms(1) False by (auto simp: due_in_def)
  then have "sint ?r = uint ?r" by (intro small_sint) simp
  then have "448 < uint ?r" using assms(2) False uint_ge_0 [of ?r] by (auto simp: sh4_sched_remaining_def)
  then have "uint (?r - 448) = uint ?r - 448" using uint_sub_lem [of 448 "?r"] by simp
  moreover have "?r - 448 = sch_end e - N" by simp
  ultimately show ?thesis using b by (simp add: due_in_def)
qed (simp add: due_in_def)

definition same_clock :: "'q sh4_machine \<Rightarrow> 'q sh4_machine \<Rightarrow> bool" where
  "same_clock s t \<longleftrightarrow> sh4_sched_now64 t = sh4_sched_now64 s \<and> verify_failed (chip t) = verify_failed (chip s)
     \<and> length (events t) = length (events s)"

text \<open>
  The contract of the callbacks: under an invariant \<open>P\<close> of the clients that the scheduler's own work does not touch, called with a delay of
  at most one slice, a callback does nothing to the scheduler but request events, and asks for its next run within the clock.
\<close>

locale sched_clients =
  fixes run_cb :: "'q callbacks" and P :: "'q sh4_machine \<Rightarrow> bool"
  assumes view: "P s \<Longrightarrow> chip_view t = chip_view s \<Longrightarrow> P t"
    and calls: "P s \<Longrightarrow> e \<in> set (events s) \<Longrightarrow> sch_cb e = Some cb \<Longrightarrow> 0 \<le> jitter \<Longrightarrow> jitter \<le> 448 \<Longrightarrow>
      run_cb cb (sch_tag e) remain jitter s = (r, t) \<Longrightarrow> requests s t \<and> P t \<and> r \<le> SH4_MAIN_CLOCK"
begin

lemma handle_ok:
  assumes "mid_ok N i s" "P s" "i < length (events s)" "sched_due i (N - 448) 448 s"
  shows "mid_ok N (Suc i) (handle_cb run_cb i s) \<and> P (handle_cb run_cb i s) \<and> same_clock s (handle_cb run_cb i s)"
proof -
  let ?e = "events s ! i"
  have now: "sh4_sched_now s = N" using assms(1) by (simp add: mid_ok_def)
  have d: "0 \<le> sint (sh4_sched_remaining ?e (N - 448))" "sint (sh4_sched_remaining ?e (N - 448)) \<le> 448"
    using assms(4) by (simp_all add: sched_due_def Let_def)
  then have on: "sch_end ?e \<noteq> -1" by (auto simp: sh4_sched_remaining_def)
  have "sch_cb ?e \<noteq> None" using assms(1,3) on by (auto simp: mid_ok_def due_in_def)
  then obtain cb where cb: "sch_cb ?e = Some cb" by blast
  let ?j = "sint (N - sch_end ?e)"
  have j: "0 \<le> ?j" "?j \<le> 448" using jitter_bound d on by (simp_all add: sh4_sched_remaining_def)
  let ?s = "set_sched i (?e\<lparr>sch_start := N, sch_end := -1\<rparr>) s"
  have m: "mid_ok N (Suc i) ?s" by (rule mid_set(2) [OF assms(1)]) (simp_all add: due_in_def)
  have P: "P ?s" by (rule view [OF assms(2)]) simp
  obtain r t where c: "run_cb cb (sch_tag ?e) (sint (sch_end ?e - sch_start ?e)) ?j ?s = (r, t)" by (rule prod.exhaust)
  have "?e\<lparr>sch_start := N, sch_end := -1\<rparr> \<in> set (events ?s)" using assms(3) by (simp add: set_update_memI)
  then have q: "requests ?s t \<and> P t \<and> r \<le> SH4_MAIN_CLOCK" using calls [OF P _ _ j, of _ cb] c cb by simp
  have t: "mid_ok N (Suc i) t" using mid_requests [OF conjunct1 [OF q] m] .
  have k: "same_clock s t" using requests_keep [OF conjunct1 [OF q]] by (simp add: same_clock_def)
  have h: "handle_cb run_cb i s = (if r > 0 then sh4_sched_request i (max 0 (r - ?j)) t else t)"
  proof -
    have "set_sched i ((events s ! i)\<lparr>sch_start := N, sch_end := -1\<rparr>) (set_sched i ((events s ! i)\<lparr>sch_start := N\<rparr>) s) = ?s"
      by (simp add: set_sched_def)
    then show ?thesis using on assms(3) by (simp add: handle_cb_def sh4_sched_elapsed_def Let_def now cb c)
  qed
  have dl: "delay_ok (max 0 (r - ?j))" using q j by (simp add: delay_ok_def)
  have "map sch_cb (events t) = map sch_cb (events s)" "length (events t) = length (events s)"
    using requests_keep [OF conjunct1 [OF q]] by (simp_all add: map_update_same)
  then have "sch_cb (events t ! i) \<noteq> None" using cb assms(3) by (metis nth_map option.distinct(1))
  then have rq: "requests t (sh4_sched_request i (max 0 (r - ?j)) t)"
    using assms(3) k dl by (intro requests.request requests.none) (simp_all add: same_clock_def)
  show ?thesis
    unfolding h using t k q mid_requests [OF rq t] requests_keep [OF rq] view [of t "sh4_sched_request i (max 0 (r - ?j)) t"] dl
    by (auto simp: same_clock_def)
qed

lemma tick_loop:
  assumes "mid_ok N 0 s" "P s" "n \<le> length (events s)"
  shows "let t = fold (\<lambda>i s. if sched_due i (N - 448) 448 s then handle_cb run_cb i s else s) [0..<n] s
    in mid_ok N n t \<and> P t \<and> same_clock s t"
  using assms(3)
proof (induction n)
  case (Suc n)
  let ?t = "fold (\<lambda>i s. if sched_due i (N - 448) 448 s then handle_cb run_cb i s else s) [0..<n] s"
  have ih: "mid_ok N n ?t" "P ?t" "same_clock s ?t" using Suc by (simp_all add: Let_def)
  have n: "n < length (events ?t)" using ih(3) Suc.prems by (simp add: same_clock_def)
  show ?case
  proof (cases "sched_due n (N - 448) 448 ?t")
    case True
    then show ?thesis using handle_ok [OF ih(1,2) n True] ih(3) by (simp add: same_clock_def)
  next
    case False
    have "due_in (N - 448) WIDE (events ?t ! n)" using ih(1) n by (auto simp: mid_ok_def)
    then have "due_in N HORIZON (events ?t ! n)" by (rule not_due) (use False in \<open>simp add: sched_due_def Let_def\<close>)
    then have "mid_ok N (Suc n) ?t" using ih(1) by (auto simp: mid_ok_def less_Suc_eq)
    then show ?thesis using False ih by simp
  qed
qed (use assms in \<open>simp add: same_clock_def\<close>)

text \<open>What \<open>UpdateSystem_INTC\<close> does to the scheduler: a slice passes, and the events due in it are run.\<close>

lemma slice_ok:
  fixes s :: "'q sh4_machine"
  assumes "sched_ok s" "P s"
  defines "u \<equiv> s\<lparr>sh4_sched_next := sh4_sched_next s - 448\<rparr>"
  shows "let t = (if sh4_sched_next u < 0 then sh4_sched_tick_fn run_cb 448 u else u) in
    sched_ok t \<and> P t \<and> sh4_sched_now64 t = sh4_sched_now64 s + 448 \<and> verify_failed (chip t) = verify_failed (chip s)"
proof -
  have chip: "chip u = chip s" and nx: "sh4_sched_next u = sh4_sched_next s - 448" by (simp_all add: u_def)
  have n64: "sh4_sched_now64 u = sh4_sched_now64 s + 448" by (simp add: sh4_sched_now64_def chip nx)
  have now: "sh4_sched_now u = sh4_sched_now s + 448" by (simp add: now_alt n64 ucast_plus)
  have P: "P u" by (rule view [OF assms(2)]) (simp add: u_def)
  have ok: "\<forall>e \<in> set (events u). due_in (sh4_sched_now u - 448) HORIZON e"
    using assms(1) by (simp add: sched_ok_def now chip)
  show ?thesis
  proof (cases "sh4_sched_next u < 0")
    case True
    have m: "mid_ok (sh4_sched_now u) 0 u"
      using ok by (auto simp: mid_ok_def due_in_def all_set_conv_all_nth)
    show ?thesis
    proof (cases "sh4_sched_next_id (chip u) = -1")
      case a: True
      then have "\<forall>e \<in> set (events u). sch_end e = -1" using assms(1) by (simp add: sched_ok_def chip)
      then have "sched_ok (sh4_sched_ffts u)" by (intro ffts_ok) (simp add: due_in_def)
      then show ?thesis
        using True a P n64 view [OF P, of "sh4_sched_ffts u"] by (simp add: sh4_sched_tick_fn_def Let_def) (simp add: chip)
    next
      case b: False
      let ?t = "fold (\<lambda>i s. if sched_due i (sh4_sched_now u - 448) 448 s then handle_cb run_cb i s else s) [0..<length (events u)] u"
      have l: "mid_ok (sh4_sched_now u) (length (events u)) ?t" "P ?t" "same_clock u ?t"
        using tick_loop [OF m P order_refl] by (simp_all add: Let_def)
      then have "\<forall>e \<in> set (events ?t). due_in (sh4_sched_now ?t) HORIZON e"
        by (auto simp: mid_ok_def same_clock_def all_set_conv_all_nth)
      then have "sched_ok (sh4_sched_ffts ?t)" by (rule ffts_ok)
      then show ?thesis
        using True b l(2,3) n64 view [OF l(2), of "sh4_sched_ffts ?t"]
        by (simp add: sh4_sched_tick_fn_def Let_def same_clock_def) (simp add: chip)
    qed
  next
    case False
    have "due_in (sh4_sched_now u) HORIZON e \<and> (sch_end e \<noteq> -1 \<longrightarrow> sh4_sched_next u \<le> uint (sch_end e - sh4_sched_now u))"
      if e: "e \<in> set (events u)" for e
    proof (cases "sch_end e = -1")
      case on: False
      let ?r = "sch_end e - sh4_sched_now s"
      have r: "uint ?r \<le> HORIZON" "sch_cb e \<noteq> None" "sh4_sched_next s \<le> uint ?r"
        using assms(1) e on by (auto simp: sched_ok_def due_in_def chip)
      then have "uint (?r - 448) = uint ?r - 448" using False nx uint_sub_lem [of 448 "?r"] by simp
      moreover have "?r - 448 = sch_end e - sh4_sched_now u" by (simp add: now)
      ultimately show ?thesis using r nx by (simp add: due_in_def)
    qed (simp add: due_in_def)
    then have "sched_ok u" using assms(1) False nx by (auto simp: sched_ok_def chip)
    then show ?thesis using False P n64 by (simp add: chip)
  qed
qed

end

text \<open>A machine to evaluate examples on.\<close>

definition blank_chip :: "'q \<Rightarrow> 'q onchip" where
  "blank_chip q =
     \<lparr>sh4_sched_ffb = 0, sch_list = [], sh4_sched_next_id = -1, verify_failed = False,
      tmu = \<lparr>TMU_TOCR = 0, TMU_TSTR = 0, TMU_TCOR = (\<lambda>_. 0xFFFFFFFF), TMU_TCR = (\<lambda>_. 0), tmu_shift = (\<lambda>_. 4), tmu_mask = (\<lambda>_. 0),
        old_mode = (\<lambda>_. 0), tmu_ch_base = (\<lambda>_. 0xFFFFFFFF), tmu_sched = (\<lambda>i. i)\<rparr>,
      scif = \<lparr>SCIF_SCSMR2 = 0, SCIF_SCBRR2 = 0xFF, SCIF_SCSCR2 = 0, SCIF_SCFSR2 = 0x60, SCIF_SCFCR2 = 0, SCIF_SCSPTR2 = 0, SCIF_SCLSR2 = 0,
        scif_pipe = False, schedId = 3, brkSchedId = 4, frameSize = 10, cyclesPerBit = 32770, statusLastRead = 0, txFifo = [], rxFifo = [],
        transmitting = False\<rparr>,
      hol = \<lparr>SB_ISTNRM = 0, SB_ISTNRM1 = 0, SB_ISTEXT = 0, SB_ISTERR = 0, SB_IML2NRM = 0, SB_IML4NRM = 0, SB_IML6NRM = 0, SB_IML2EXT = 0,
        SB_IML4EXT = 0, SB_IML6EXT = 0, SB_IML2ERR = 0, SB_IML4ERR = 0, SB_IML6ERR = 0, sh4 = sh4_zero\<rparr>,
      SB_C2DSTAT = 0, SB_C2DLEN = 0, SB_C2DST = 0, SB_LMMODE0 = 0, SB_LMMODE1 = 0, UBC = (\<lambda>_. 0), BSC = (\<lambda>_. 0), CPG = (\<lambda>_. 0),
      RTC = (\<lambda>_. 0), SCI = (\<lambda>_. 0), DMAC = (\<lambda>_. 0), OnChipRAM = (\<lambda>_. 0), ITLB = (\<lambda>_. \<lparr>Address = 0, Data = 0, Assistance = 0\<rparr>),
      icache_lines = (\<lambda>_. \<lparr>cl_valid = False, cl_dirty = False, cl_address = 0, cl_data = (\<lambda>_. 0)\<rparr>),
      ocache_lines = (\<lambda>_. \<lparr>cl_valid = False, cl_dirty = False, cl_address = 0, cl_data = (\<lambda>_. 0)\<rparr>),
      writeBackBufferCycles = 0, writeThroughBufferCycles = 0,
      pvr = \<lparr>YUV_tempdata = (\<lambda>_. 0), YUV_dest = 0, YUV_blockcount = 0, YUV_x_curr = 0, YUV_y_curr = 0, YUV_x_size = 0, YUV_y_size = 0,
        YUV_index = 0, TA_YUV_TEX_BASE = 0, TA_YUV_TEX_CTRL = 0, TA_YUV_TEX_CNT = 0, fb_watch_addr_start = 0, fb_watch_addr_end = 0,
        fb_dirty = False\<rparr>,
      board = q\<rparr>"

definition blank_machine :: "'q \<Rightarrow> 'q sh4_machine" where
  "blank_machine q =
     \<lparr>cx = sh4_zero, gbr = 0, dbr = 0, pr = 0, fpul = 0, mac = 0, fpscr = 0, old_fpscr = 0, fr = (\<lambda>_. 0), xf = (\<lambda>_. 0),
      CCN_TRA = 0, cycle_counter = 448, sh4_sched_next = 0, lastUnit = eu_CO, memOps = 0, mmuOn = False,
      dev = \<lparr>UTLB = (\<lambda>_. \<lparr>Address = 0, Data = 0, Assistance = 0\<rparr>), CCN_PTEH = 0, CCN_PTEL = 0, CCN_PTEA = 0, CCN_TTB = 0, CCN_TEA = 0,
        CCN_MMUCR = 0, CCN_CCR = 0, CCN_BASRA = 0, CCN_BASRB = 0, CCN_QACR0 = 0, CCN_QACR1 = 0, CCN_QACR_TR = 0, sq_writer = sqWrite_nommu,
        lru_entry = lru_null, lru_mask = 0, lru_address = 0, full_table = [], entry_buckets = (\<lambda>_. []), sq_remap = (\<lambda>_. 0), INTC_ICR = 0,
        blocks = (\<lambda>_ _. 0), periph = blank_chip q\<rparr>\<rparr>"

end
