(* ===== verification/Sh4_Tmu.thy ===== *)
theory Sh4_Tmu
  imports Sh4_Sched
begin

unbundle bit_operations_syntax

section \<open>The timer unit of the SH-4\<close>

text \<open>
  Models \<^verbatim>\<open>core/hw/sh4/modules/tmu.cpp\<close>.  A channel keeps no counter: \<open>tmu_ch_base\<close> is what the count would be at time
  zero, and the count is the base minus the clock, divided by the power of two \<open>tmu_shift\<close>, while \<open>tmu_mask\<close> is set.  Counts are
  \<open>s64\<close> values, held as words.  An event of the scheduler is requested for the time of the next underflow.  A shift of 64 or
  more, which C++ leaves undefined, gives zero here; reserved clock modes make the shift grow.
\<close>

subsection \<open>Counting\<close>

definition upd_tmu :: "(tmu_state \<Rightarrow> tmu_state) \<Rightarrow> 'q sh4_machine \<Rightarrow> 'q sh4_machine" where
  "upd_tmu f s = upd_chip (\<lambda>c. c\<lparr>tmu := f (tmu c)\<rparr>) s"

abbreviation tmus :: "'q sh4_machine \<Rightarrow> tmu_state" where "tmus s \<equiv> tmu (chip s)"

abbreviation (input) tmu_intID :: "nat \<Rightarrow> nat" where "tmu_intID ch \<equiv> 10 + ch"

text \<open>\<open>now\<close> of \<^verbatim>\<open>tmu.cpp\<close>: the time within the slice.\<close>

definition tmu_now :: "'q sh4_machine \<Rightarrow> u64" where
  "tmu_now s = sh4_sched_now64 s + 448 - word_of_int (cycle_counter s)"

definition read_TMU_TCNTch :: "nat \<Rightarrow> 'q sh4_machine \<Rightarrow> u64" where
  "read_TMU_TCNTch ch s = tmu_ch_base (tmus s) ch - (drop_bit (tmu_shift (tmus s) ch) (tmu_now s) AND tmu_mask (tmus s) ch)"

definition sched_chan_tick :: "nat \<Rightarrow> 'q sh4_machine \<Rightarrow> 'q sh4_machine" where
  "sched_chan_tick ch s =
     (if tmu_mask (tmus s) ch \<noteq> 0 then
        (let cnt = read_TMU_TCNTch ch s;
             cycles = max 0 (min SH4_MAIN_CLOCK (sint (push_bit (tmu_shift (tmus s) ch) cnt)))
         in sh4_sched_request (tmu_sched (tmus s) ch) cycles s)
      else sh4_sched_request (tmu_sched (tmus s) ch) (-1) s)"

definition write_TMU_TCNTch :: "nat \<Rightarrow> u64 \<Rightarrow> 'q sh4_machine \<Rightarrow> 'q sh4_machine" where
  "write_TMU_TCNTch ch data s =
     (let b = data + (drop_bit (tmu_shift (tmus s) ch) (tmu_now s) AND tmu_mask (tmus s) ch)
      in sched_chan_tick ch (upd_tmu (\<lambda>t. t\<lparr>tmu_ch_base := (tmu_ch_base t)(ch := b)\<rparr>) s))"

definition reloadCounter :: "nat \<Rightarrow> int \<Rightarrow> 'q sh4_machine \<Rightarrow> u32 \<times> 'q sh4_machine" where
  "reloadCounter ch curValue s =
     (let s = upd_tmu (\<lambda>t. t\<lparr>TMU_TCR := (TMU_TCR t)(ch := TMU_TCR t ch OR 0x0100)\<rparr>) s;
          s = upd_cx (InterruptPend (tmu_intID ch) True) s;
          curValue = max (uint (TMU_TCOR (tmus s) ch) + curValue) 0
      in (word_of_int curValue, write_TMU_TCNTch ch (word_of_int curValue) s))"

definition read_TMU_TCNT :: "nat \<Rightarrow> 'q sh4_machine \<Rightarrow> u32 \<times> 'q sh4_machine" where
  "read_TMU_TCNT ch s =
     (let v = read_TMU_TCNTch ch s in if sint v < 0 then reloadCounter ch (sint v) s else (ucast v, s))"

definition write_TMU_TCNT :: "nat \<Rightarrow> u32 \<Rightarrow> 'q sh4_machine \<Rightarrow> 'q sh4_machine" where
  "write_TMU_TCNT ch data s = write_TMU_TCNTch ch (ucast data) s"

definition turn_on_off_ch :: "nat \<Rightarrow> bool \<Rightarrow> 'q sh4_machine \<Rightarrow> 'q sh4_machine" where
  "turn_on_off_ch ch on s =
     (let TCNT = read_TMU_TCNTch ch s
      in write_TMU_TCNTch ch TCNT (upd_tmu (\<lambda>t. t\<lparr>tmu_mask := (tmu_mask t)(ch := if on then -1 else 0)\<rparr>) s))"

subsection \<open>Control registers\<close>

definition tmu_mode :: "u16 \<Rightarrow> u32" where "tmu_mode v = ucast (v AND 7)"

text \<open>The shift of a clock mode; the reserved modes keep the one in use.\<close>

definition mode_shift :: "u32 \<Rightarrow> nat \<Rightarrow> nat" where
  "mode_shift m sh = (if m = 0 then 2 else if m = 1 then 4 else if m = 2 then 6 else if m = 3 then 8 else if m = 4 then 10 else sh)"

definition UpdateTMUCounts :: "nat \<Rightarrow> 'q sh4_machine \<Rightarrow> 'q sh4_machine" where
  "UpdateTMUCounts reg s =
     (let tcr = TMU_TCR (tmus s) reg;
          s = upd_cx (InterruptPend (tmu_intID reg) (tcr AND 0x0100 \<noteq> 0)) s;
          s = upd_cx (InterruptMask (tmu_intID reg) (tcr AND 0x0020 \<noteq> 0)) s
      in if old_mode (tmus s) reg = tmu_mode tcr then s
         else
           (let s = upd_tmu (\<lambda>t. t\<lparr>old_mode := (old_mode t)(reg := tmu_mode tcr)\<rparr>) s;
                TCNT = read_TMU_TCNTch reg s;
                s = upd_tmu (\<lambda>t. t\<lparr>tmu_shift := (tmu_shift t)(reg := mode_shift (tmu_mode tcr) (tmu_shift t reg) + 2)\<rparr>) s
            in write_TMU_TCNTch reg TCNT s))"

definition TMU_TCR_write :: "nat \<Rightarrow> u16 \<Rightarrow> 'q sh4_machine \<Rightarrow> 'q sh4_machine" where
  "TMU_TCR_write ch data s =
     UpdateTMUCounts ch
       (upd_tmu (\<lambda>t. t\<lparr>TMU_TCR := (TMU_TCR t)(ch := data AND (if ch = 2 then 0x03FF else 0x013F))\<rparr>) s)"

definition write_TMU_TSTR :: "u8 \<Rightarrow> 'q sh4_machine \<Rightarrow> 'q sh4_machine" where
  "write_TMU_TSTR data s =
     fold (\<lambda>i. turn_on_off_ch i (bit data i)) [0..<3] (upd_tmu (\<lambda>t. t\<lparr>TMU_TSTR := data AND 7\<rparr>) s)"

definition sched_tmu_cb :: "nat \<Rightarrow> int \<Rightarrow> int \<Rightarrow> 'q sh4_machine \<Rightarrow> int \<times> 'q sh4_machine" where
  "sched_tmu_cb ch sch_cycl jitter s =
     (if tmu_mask (tmus s) ch \<noteq> 0 then
        (let tcnt = read_TMU_TCNTch ch s
         in (0, if sint tcnt < 0 then snd (reloadCounter ch (sint tcnt) s) else write_TMU_TCNTch ch tcnt s))
      else (0, s))"

definition tmu_init :: "'q sh4_machine \<Rightarrow> 'q sh4_machine" where
  "tmu_init s =
     fold (\<lambda>i s. let (k, s) = sh4_sched_register i sched_tmu_cb_ptr s
        in upd_tmu (\<lambda>t. t\<lparr>tmu_sched := (tmu_sched t)(i := k)\<rparr>) s) [0..<3] s"

definition tmu_reset :: "'q sh4_machine \<Rightarrow> 'q sh4_machine" where
  "tmu_reset s =
     (let s = upd_tmu (\<lambda>t. t\<lparr>TMU_TOCR := 0, TMU_TSTR := 0, TMU_TCR := (\<lambda>_. 0), tmu_shift := (\<lambda>_. 0), tmu_mask := (\<lambda>_. 0),
            old_mode := (\<lambda>_. 0xFFFFFFFF), tmu_ch_base := (\<lambda>_. 0), TMU_TCOR := (\<lambda>_. 0xFFFFFFFF)\<rparr>) s;
          s = fold UpdateTMUCounts [0..<3] s;
          s = write_TMU_TSTR 0 s
      in fold (\<lambda>i. write_TMU_TCNTch i 0xFFFFFFFF) [0..<3] s)"

text \<open>The bank of registers at \<open>0x1FD80000\<close>: twelve words, each accepting one size of access.\<close>

definition bank_index :: "u32 \<Rightarrow> nat" where "bank_index addr = unat (addr AND 0xFF) div 4"

definition tmu_read8 :: "u32 \<Rightarrow> 'q sh4_machine \<Rightarrow> u8 \<times> 'q sh4_machine" where
  "tmu_read8 addr s =
     (let i = bank_index addr in
      (if addr AND 3 \<noteq> 0 then 0 else if i = 0 then TMU_TOCR (tmus s) else if i = 1 then TMU_TSTR (tmus s) else 0, s))"

definition tmu_read16 :: "u32 \<Rightarrow> 'q sh4_machine \<Rightarrow> u16 \<times> 'q sh4_machine" where
  "tmu_read16 addr s =
     (let i = bank_index addr in
      (if addr AND 3 \<noteq> 0 then 0 else if i \<in> {4, 7, 10} then TMU_TCR (tmus s) ((i - 4) div 3) else 0, s))"

definition tmu_read32 :: "u32 \<Rightarrow> 'q sh4_machine \<Rightarrow> u32 \<times> 'q sh4_machine" where
  "tmu_read32 addr s =
     (let i = bank_index addr in
      if addr AND 3 \<noteq> 0 then (0, s)
      else if i \<in> {2, 5, 8} then (TMU_TCOR (tmus s) ((i - 2) div 3), s)
      else if i \<in> {3, 6, 9} then read_TMU_TCNT ((i - 3) div 3) s
      else (0, s))"

definition tmu_write8 :: "u32 \<Rightarrow> u8 \<Rightarrow> 'q sh4_machine \<Rightarrow> 'q sh4_machine" where
  "tmu_write8 addr v s =
     (let i = bank_index addr in
      if addr AND 3 \<noteq> 0 then s
      else if i = 0 then upd_tmu (\<lambda>t. t\<lparr>TMU_TOCR := v AND 1\<rparr>) s
      else if i = 1 then write_TMU_TSTR v s
      else s)"

definition tmu_write16 :: "u32 \<Rightarrow> u16 \<Rightarrow> 'q sh4_machine \<Rightarrow> 'q sh4_machine" where
  "tmu_write16 addr v s =
     (let i = bank_index addr in
      if addr AND 3 \<noteq> 0 then s else if i \<in> {4, 7, 10} then TMU_TCR_write ((i - 4) div 3) v s else s)"

definition tmu_write32 :: "u32 \<Rightarrow> u32 \<Rightarrow> 'q sh4_machine \<Rightarrow> 'q sh4_machine" where
  "tmu_write32 addr v s =
     (let i = bank_index addr in
      if addr AND 3 \<noteq> 0 then s
      else if i \<in> {2, 5, 8} then upd_tmu (\<lambda>t. t\<lparr>TMU_TCOR := (TMU_TCOR t)((i - 2) div 3 := v)\<rparr>) s
      else if i \<in> {3, 6, 9} then write_TMU_TCNT ((i - 3) div 3) v s
      else s)"

subsection \<open>The count of a channel\<close>

lemma request_keeps [simp]:
  "cycle_counter (sh4_sched_request i c s) = cycle_counter s" "cx (sh4_sched_request i c s) = cx s"
  "tmu (chip (sh4_sched_request i c s)) = tmu (chip s)" "scif (chip (sh4_sched_request i c s)) = scif (chip s)"
  "board (chip (sh4_sched_request i c s)) = board (chip s)"
  by (simp_all add: sh4_sched_request_def Let_def set_sched_def sh4_sched_ffts_def split_def)

lemma upd_tmu_simps [simp]:
  "tmus (upd_tmu f s) = f (tmus s)" "cx (upd_tmu f s) = cx s" "cycle_counter (upd_tmu f s) = cycle_counter s"
  "sh4_sched_now64 (upd_tmu f s) = sh4_sched_now64 s" "sched_view (upd_tmu f s) = sched_view s"
  by (simp_all add: upd_tmu_def sched_view_def)

lemma chip_upd_cx [simp]:
  "sched_view (s\<lparr>cx := c\<rparr>) = sched_view s" "sh4_sched_now64 (s\<lparr>cx := c\<rparr>) = sh4_sched_now64 s"
  by (simp_all add: sched_view_def sh4_sched_now64_def)

lemma tmu_now_keeps [simp]:
  "tmu_now (sh4_sched_request i c s) = tmu_now s" "tmu_now (upd_tmu f s) = tmu_now s" "tmu_now (s\<lparr>cx := x\<rparr>) = tmu_now s"
  by (simp_all add: tmu_now_def)

definition tmu_ticks :: "nat \<Rightarrow> 'q sh4_machine \<Rightarrow> u64" where
  "tmu_ticks ch s = drop_bit (tmu_shift (tmus s) ch) (tmu_now s)"

definition running :: "nat \<Rightarrow> 'q sh4_machine \<Rightarrow> bool" where "running ch s \<longleftrightarrow> tmu_mask (tmus s) ch = -1"

lemma chan_tick_keeps [simp]:
  "tmus (sched_chan_tick ch s) = tmus s" "tmu_now (sched_chan_tick ch s) = tmu_now s" "cx (sched_chan_tick ch s) = cx s"
  by (simp_all add: sched_chan_tick_def Let_def)

lemma write_count:
  "tmus (write_TMU_TCNTch ch d s) = (tmus s)\<lparr>tmu_ch_base := (tmu_ch_base (tmus s))(ch := d + (tmu_ticks ch s AND tmu_mask (tmus s) ch))\<rparr>"
  "tmu_now (write_TMU_TCNTch ch d s) = tmu_now s" "cx (write_TMU_TCNTch ch d s) = cx s"
  by (simp_all add: write_TMU_TCNTch_def tmu_ticks_def)

text \<open>The counter reads back what was written, whether the channel runs or not.\<close>

lemma read_write_count: "read_TMU_TCNTch ch (write_TMU_TCNTch ch d s) = d"
  by (simp add: read_TMU_TCNTch_def write_count tmu_ticks_def)

lemma read_write_other: "c \<noteq> ch \<Longrightarrow> read_TMU_TCNTch c (write_TMU_TCNTch ch d s) = read_TMU_TCNTch c s"
  by (simp add: read_TMU_TCNTch_def write_count)

lemma count_running: "running ch s \<Longrightarrow> read_TMU_TCNTch ch s = tmu_ch_base (tmus s) ch - tmu_ticks ch s"
  by (simp add: read_TMU_TCNTch_def running_def tmu_ticks_def)

subsection \<open>A running channel under any polling\<close>

text \<open>
  \<open>tmu_watch ch s t n\<close>: from \<open>s\<close> the channel counted \<open>n\<close> ticks to \<open>t\<close>, nobody wrote the timer unit, and at
  most \<open>TCOR\<close> ticks passed between two looks at the counter, by a read of TCNT or by the scheduler.
\<close>

definition observe :: "nat \<Rightarrow> bool \<Rightarrow> 'q sh4_machine \<Rightarrow> 'q sh4_machine" where
  "observe ch by_read s = (if by_read then snd (read_TMU_TCNT ch s) else snd (sched_tmu_cb ch 0 0 s))"

inductive tmu_watch :: "nat \<Rightarrow> 'q sh4_machine \<Rightarrow> 'q sh4_machine \<Rightarrow> nat \<Rightarrow> bool" for ch s where
  start: "tmu_watch ch s s 0"
| look: "tmu_watch ch s t n \<Longrightarrow> tmus u = tmus t \<Longrightarrow> tmu_ticks ch u = tmu_ticks ch t + of_nat k \<Longrightarrow>
    k \<le> unat (TMU_TCOR (tmus t) ch) \<Longrightarrow> tmu_watch ch s (observe ch b u) (n + k)"

lemma small_sint64: "0 \<le> i \<Longrightarrow> i < 2 ^ 63 \<Longrightarrow> sint (word_of_int i :: u64) = i"
  by (simp add: sint_sbintrunc' signed_take_bit_int_eq_self)

lemma reload_facts:
  assumes "reloadCounter ch v s = (r, t)" and b: "0 \<le> uint (TMU_TCOR (tmus s) ch) + v" "v \<le> 0"
  shows "sint (read_TMU_TCNTch ch t) = uint (TMU_TCOR (tmus s) ch) + v" "uint r = uint (TMU_TCOR (tmus s) ch) + v"
    "TMU_TCR (tmus t) = (TMU_TCR (tmus s))(ch := TMU_TCR (tmus s) ch OR 0x0100)" "cx t = InterruptPend (tmu_intID ch) True (cx s)"
    "tmu_mask (tmus t) = tmu_mask (tmus s)" "TMU_TCOR (tmus t) = TMU_TCOR (tmus s)" "tmu_shift (tmus t) = tmu_shift (tmus s)"
    "tmu_now t = tmu_now s"
proof -
  have u: "uint (TMU_TCOR (tmus s) ch) < 2 ^ 32" using uint_lt2p [of "TMU_TCOR (tmus s) ch"] by simp
  have lim: "uint (TMU_TCOR (tmus s) ch) + v < 2 ^ 32" using u b(2) by linarith
  have m: "max (uint (TMU_TCOR (tmus s) ch) + v) 0 = uint (TMU_TCOR (tmus s) ch) + v" using b by simp
  have t: "r = word_of_int (uint (TMU_TCOR (tmus s) ch) + v)"
    "t = write_TMU_TCNTch ch (word_of_int (uint (TMU_TCOR (tmus s) ch) + v))
       (upd_cx (InterruptPend (tmu_intID ch) True)
         (upd_tmu (\<lambda>t. t\<lparr>TMU_TCR := (TMU_TCR t)(ch := TMU_TCR t ch OR 0x0100)\<rparr>) s))"
    using assms(1) m by (simp_all add: reloadCounter_def Let_def)
  show "sint (read_TMU_TCNTch ch t) = uint (TMU_TCOR (tmus s) ch) + v"
    using t lim b(1) small_sint64 [of "uint (TMU_TCOR (tmus s) ch) + v"] by (simp add: read_write_count)
  show "uint r = uint (TMU_TCOR (tmus s) ch) + v"
    unfolding t(1) using lim b(1) by (simp add: uint_word_of_int del: of_int_add)
  show "TMU_TCR (tmus t) = (TMU_TCR (tmus s))(ch := TMU_TCR (tmus s) ch OR 0x0100)" "cx t = InterruptPend (tmu_intID ch) True (cx s)"
    "tmu_mask (tmus t) = tmu_mask (tmus s)" "TMU_TCOR (tmus t) = TMU_TCOR (tmus s)" "tmu_shift (tmus t) = tmu_shift (tmus s)"
    "tmu_now t = tmu_now s"
    using t by (simp_all add: write_count)
qed

lemma same_tmu: "tmus u = tmus t \<Longrightarrow> tmu_ticks ch u = tmu_ticks ch t + x \<Longrightarrow> running ch t \<Longrightarrow> running ch u \<and> read_TMU_TCNTch ch u = read_TMU_TCNTch ch t - x"
  by (simp add: count_running) (simp add: running_def count_running)

lemma sint_count_back:
  assumes "0 \<le> sint (c :: u64)" "k < 2 ^ 32"
  shows "sint (c - of_nat k) = sint c - int k"
proof -
  have "sint c < 2 ^ 63" using sint_range_size [of c] by (simp add: word_size)
  then have "sint (word_of_int (sint c - int k) :: u64) = sint c - int k"
    using assms by (simp add: sint_sbintrunc' signed_take_bit_int_eq_self del: of_int_diff)
  moreover have "word_of_int (sint c - int k) = c - of_nat k" by simp
  ultimately show ?thesis by (simp only:)
qed

text \<open>The two ways to look agree: a negative count is reloaded, once.\<close>

lemma observe_facts:
  assumes "running ch s"
  shows "sint (read_TMU_TCNTch ch s) < 0 \<Longrightarrow> observe ch b s = snd (reloadCounter ch (sint (read_TMU_TCNTch ch s)) s)"
    and "0 \<le> sint (read_TMU_TCNTch ch s) \<Longrightarrow> read_TMU_TCNTch ch (observe ch b s) = read_TMU_TCNTch ch s
      \<and> tmu_mask (tmus (observe ch b s)) = tmu_mask (tmus s) \<and> TMU_TCOR (tmus (observe ch b s)) = TMU_TCOR (tmus s)
      \<and> TMU_TCR (tmus (observe ch b s)) = TMU_TCR (tmus s)"
  using assms by (simp_all add: observe_def read_TMU_TCNT_def sched_tmu_cb_def Let_def running_def read_write_count write_count)

lemma watch_facts:
  assumes "tmu_watch ch s t n" "running ch s" "0 \<le> sint (read_TMU_TCNTch ch s)"
  shows "running ch t \<and> TMU_TCOR (tmus t) = TMU_TCOR (tmus s) \<and> 0 \<le> sint (read_TMU_TCNTch ch t)
    \<and> sint (read_TMU_TCNTch ch t) \<le> max (sint (read_TMU_TCNTch ch s)) (uint (TMU_TCOR (tmus s) ch) - 1)
    \<and> (\<exists>m. sint (read_TMU_TCNTch ch t) = sint (read_TMU_TCNTch ch s) - int n + m * uint (TMU_TCOR (tmus s) ch)
         \<and> 0 \<le> m \<and> (0 < m \<longrightarrow> bit (TMU_TCR (tmus t) ch) 8) \<and> (m = 0 \<longrightarrow> TMU_TCR (tmus t) = TMU_TCR (tmus s)))"
  using assms
proof (induction rule: tmu_watch.induct)
  case start
  show ?case using start by (auto intro!: exI [of _ 0])
next
  case (look t n u k b)
  let ?R = "uint (TMU_TCOR (tmus s) ch)"
  let ?c = "sint (read_TMU_TCNTch ch t)"
  have t: "running ch t" "TMU_TCOR (tmus t) = TMU_TCOR (tmus s)" "0 \<le> ?c" "?c \<le> max (sint (read_TMU_TCNTch ch s)) (?R - 1)"
    using look by simp_all
  obtain m where m: "?c = sint (read_TMU_TCNTch ch s) - int n + m * ?R" "0 \<le> m"
    "0 < m \<longrightarrow> bit (TMU_TCR (tmus t) ch) 8" "m = 0 \<longrightarrow> TMU_TCR (tmus t) = TMU_TCR (tmus s)" using look by blast
  have k: "int k \<le> ?R" using look.hyps(4) by (simp only: uint_nat of_nat_le_iff t(2))
  have k2: "k < 2 ^ 32" using k uint_lt2p [of "TMU_TCOR (tmus s) ch"] by simp
  have u: "running ch u" "read_TMU_TCNTch ch u = read_TMU_TCNTch ch t - of_nat k" using same_tmu [OF look.hyps(2,3) t(1)] by simp_all
  have cu: "sint (read_TMU_TCNTch ch u) = ?c - int k" unfolding u(2) by (rule sint_count_back [OF t(3) k2])
  show ?case
  proof (cases "sint (read_TMU_TCNTch ch u) < 0")
    case True
    obtain r w where w: "reloadCounter ch (sint (read_TMU_TCNTch ch u)) u = (r, w)" by (rule prod.exhaust)
    have o: "observe ch b u = w" using observe_facts(1) [OF u(1) True] w by simp
    have "0 \<le> uint (TMU_TCOR (tmus u) ch) + sint (read_TMU_TCNTch ch u)" using k cu t look.hyps(2) by simp
    note f = reload_facts [OF w this] 
    have "sint (read_TMU_TCNTch ch w) = sint (read_TMU_TCNTch ch s) - int (n + k) + (m + 1) * ?R"
      using f(1) True cu m(1) t(2) look.hyps(2) by (simp add: algebra_simps)
    moreover have "bit (TMU_TCR (tmus w) ch) 8" using f(3) True by (simp add: bit_simps)
    moreover have "0 \<le> sint (read_TMU_TCNTch ch w)" using f(1) True k cu t look.hyps(2) by simp
    moreover have "sint (read_TMU_TCNTch ch w) \<le> max (sint (read_TMU_TCNTch ch s)) (?R - 1)" using f(1) True t(2) look.hyps(2) by simp
    ultimately show ?thesis
      unfolding o using f True u(1) t(2) m(2) look.hyps(2) by (auto simp: running_def intro!: exI [of _ "m + 1"])
  next
    case False
    note f = observe_facts(2) [OF u(1), of b]
    have "sint (read_TMU_TCNTch ch (observe ch b u)) = sint (read_TMU_TCNTch ch s) - int (n + k) + m * ?R"
      using f False cu m(1) by simp
    moreover have "sint (read_TMU_TCNTch ch (observe ch b u)) \<le> max (sint (read_TMU_TCNTch ch s)) (?R - 1)" using f False cu t(4) by simp
    ultimately show ?thesis
      using f False u(1) t(2) m look.hyps(2) by (auto simp: running_def)
  qed
qed

text \<open>
  Property C36: a running channel counts down by one at every tick of its clock and starts again from TCOR, however often and in
  whatever way it is looked at meanwhile.  After \<open>n\<close> ticks the count is the old one less \<open>n\<close>, plus \<open>m\<close> times TCOR, where \<open>m\<close> is the
  number of underflows; it stays between zero and the larger of the first count and TCOR - 1, and the underflow flag of TCR is set as
  soon as there has been an underflow, and otherwise unchanged.  So the period is TCOR ticks.
\<close>

theorem timer_counts:
  assumes "tmu_watch ch s t n" "running ch s" "0 \<le> sint (read_TMU_TCNTch ch s)"
  shows "running ch t \<and> 0 \<le> sint (read_TMU_TCNTch ch t)
    \<and> sint (read_TMU_TCNTch ch t) \<le> max (sint (read_TMU_TCNTch ch s)) (uint (TMU_TCOR (tmus s) ch) - 1)
    \<and> (\<exists>m \<ge> 0. sint (read_TMU_TCNTch ch t) = sint (read_TMU_TCNTch ch s) - int n + m * uint (TMU_TCOR (tmus s) ch)
         \<and> (if m = 0 then TMU_TCR (tmus t) = TMU_TCR (tmus s) else bit (TMU_TCR (tmus t) ch) 8))"
  using watch_facts [OF assms] by force

definition timer_example :: "unit sh4_machine" where
  "timer_example = upd_tmu (\<lambda>t. t\<lparr>tmu_mask := (\<lambda>_. -1), tmu_ch_base := (\<lambda>_. 2), TMU_TCOR := (\<lambda>_. 10)\<rparr>) (blank_machine ())"

theorem timer_counts_witness:
  "\<exists>t. tmu_watch 0 timer_example t 5 \<and> sint (read_TMU_TCNTch 0 timer_example) = 2 \<and> bit (TMU_TCR (tmus t) 0) 8"
proof -
  let ?u = "upd_chip (\<lambda>c. c\<lparr>sh4_sched_ffb := 80\<rparr>) timer_example" and ?t = "observe 0 True (upd_chip (\<lambda>c. c\<lparr>sh4_sched_ffb := 80\<rparr>) timer_example)"
  note d = timer_example_def blank_machine_def blank_chip_def tmu_ticks_def tmu_now_def sh4_sched_now64_def upd_tmu_def upd_chip_def
  have w: "tmu_watch 0 timer_example ?t (0 + 5)"
    by (rule tmu_watch.look [OF tmu_watch.start]) (simp_all add: d)
  have r: "running 0 timer_example" by (simp add: running_def d)
  have c: "sint (read_TMU_TCNTch 0 timer_example) = 2" by (simp add: read_TMU_TCNTch_def d)
  have R: "uint (TMU_TCOR (tmus timer_example) 0) = 10" by (simp add: d)
  from timer_counts [OF w r] obtain m where "0 \<le> sint (read_TMU_TCNTch 0 ?t)" "sint (read_TMU_TCNTch 0 ?t) = 2 - 5 + m * 10"
    "if m = 0 then TMU_TCR (tmus ?t) = TMU_TCR (tmus timer_example) else bit (TMU_TCR (tmus ?t) 0) 8" using c R by auto
  then have "bit (TMU_TCR (tmus ?t) 0) 8" by (cases "m = 0") simp_all
  then show ?thesis using w c by auto
qed

subsection \<open>The callback keeps to the contract of the scheduler\<close>

text \<open>The channels have their events registered.\<close>

definition tmu_wired :: "'q sh4_machine \<Rightarrow> bool" where
  "tmu_wired s \<longleftrightarrow> (\<forall>ch < 3. tmu_sched (tmus s) ch < length (events s) \<and> sch_cb (events s ! tmu_sched (tmus s) ch) \<noteq> None)"

definition kept :: "'q sh4_machine \<Rightarrow> 'q sh4_machine \<Rightarrow> bool" where
  "kept s t \<longleftrightarrow> tmu_sched (tmus t) = tmu_sched (tmus s) \<and> scif (chip t) = scif (chip s) \<and> board (chip t) = board (chip s)"

lemma view_events: "sched_view t = sched_view s \<Longrightarrow> events t = events s"
  by (simp add: sched_view_def)

lemma tmu_delay: "delay_ok (max 0 (min SH4_MAIN_CLOCK i))"
  by (simp add: delay_ok_def)

lemma chan_tick_requests:
  assumes "tmu_wired s" "ch < 3"
  shows "requests s (sched_chan_tick ch s)"
proof -
  let ?i = "tmu_sched (tmus s) ch"
  have i: "?i < length (events s)" "sch_cb (events s ! ?i) \<noteq> None" using assms by (auto simp: tmu_wired_def)
  have "requests s (sh4_sched_request ?i c s)" if "delay_ok c" for c
    by (rule requests.request [OF requests.none i that])
  moreover have "delay_ok (-1)" by (simp add: delay_ok_def)
  ultimately show ?thesis using tmu_delay by (auto simp: sched_chan_tick_def Let_def)
qed

lemma wired_view: "tmu_wired s \<Longrightarrow> sched_view t = sched_view s \<Longrightarrow> tmu_sched (tmus t) = tmu_sched (tmus s) \<Longrightarrow> tmu_wired t"
  by (simp add: tmu_wired_def sched_view_def)

lemma write_requests:
  assumes "tmu_wired s" "ch < 3"
  shows "requests s (write_TMU_TCNTch ch d s)" "kept s (write_TMU_TCNTch ch d s)"
proof -
  let ?u = "upd_tmu (\<lambda>t. t\<lparr>tmu_ch_base := (tmu_ch_base t)(ch := d + (drop_bit (tmu_shift (tmus s) ch) (tmu_now s) AND tmu_mask (tmus s) ch))\<rparr>) s"
  have "tmu_wired ?u" by (rule wired_view [OF assms(1)]) simp_all
  then have "requests ?u (sched_chan_tick ch ?u)" by (rule chan_tick_requests [OF _ assms(2)])
  moreover have "requests s ?u" by (rule requests.other [OF requests.none]) simp
  ultimately show "requests s (write_TMU_TCNTch ch d s)" by (simp add: write_TMU_TCNTch_def requests_trans)
  show "kept s (write_TMU_TCNTch ch d s)"
    by (simp add: kept_def write_TMU_TCNTch_def sched_chan_tick_def Let_def) (simp add: upd_tmu_def)
qed

lemma reload_requests:
  assumes "tmu_wired s" "ch < 3" "reloadCounter ch v s = (r, t)"
  shows "requests s t" "kept s t"
proof -
  let ?u = "upd_cx (InterruptPend (tmu_intID ch) True) (upd_tmu (\<lambda>t. t\<lparr>TMU_TCR := (TMU_TCR t)(ch := TMU_TCR t ch OR 0x0100)\<rparr>) s)"
  have w: "tmu_wired ?u" by (rule wired_view [OF assms(1)]) simp_all
  have t: "t = write_TMU_TCNTch ch (word_of_int (max (uint (TMU_TCOR (tmus s) ch) + v) 0)) ?u"
    using assms(3) by (simp add: reloadCounter_def Let_def)
  have "requests s ?u" by (rule requests.other [OF requests.none]) simp
  then show "requests s t" unfolding t by (rule requests_trans [OF write_requests(1) [OF w assms(2)]])
  have "kept s ?u" by (simp add: kept_def upd_tmu_def)
  then show "kept s t" unfolding t using write_requests(2) [OF w assms(2)] unfolding kept_def by metis
qed

lemma tmu_callback_facts:
  assumes "tmu_wired s" "ch < 3" "sched_tmu_cb ch c l s = (r, t)"
  shows "requests s t" "kept s t" "r = 0"
proof -
  have k: "kept s s" by (simp add: kept_def)
  obtain x y where xy: "reloadCounter ch (sint (read_TMU_TCNTch ch s)) s = (x, y)" by (rule prod.exhaust)
  show "requests s t" "kept s t" "r = 0"
    using assms(3) write_requests [OF assms(1,2)] reload_requests [OF assms(1,2) xy] k requests.none [of s]
    by (auto simp: sched_tmu_cb_def Let_def xy split: if_splits)
qed

end
