(* ===== verification/Sh4_Scif.thy ===== *)
theory Sh4_Scif
  imports Sh4_Sched "HOL-Library.Sublist"
begin

unbundle bit_operations_syntax

section \<open>The serial port of the SH-4\<close>

text \<open>
  Models the serial interface with FIFOs of \<^verbatim>\<open>core/hw/sh4/modules/serial.cpp\<close>.  What is plugged into the port is an object of the
  class \<open>SerialPort::Pipe\<close> (\<^verbatim>\<open>hwreg.h\<close>), whose functions act on the board; the flag \<open>scif_pipe\<close> says that the pointer
  is not null.  The pseudo-terminal, a pipe made of system calls, is not modelled.
\<close>

record 'q pipe_ops =
  pipe_write :: "u8 \<Rightarrow> 'q \<Rightarrow> 'q"
  pipe_sendBreak :: "'q \<Rightarrow> 'q"
  pipe_available :: "'q \<Rightarrow> int"
  pipe_read :: "'q \<Rightarrow> u8 \<times> 'q"

abbreviation scifs :: "'q sh4_machine \<Rightarrow> scif_state" where "scifs s \<equiv> scif (chip s)"

definition upd_scif :: "(scif_state \<Rightarrow> scif_state) \<Rightarrow> 'q sh4_machine \<Rightarrow> 'q sh4_machine" where
  "upd_scif f s = upd_chip (\<lambda>c. c\<lparr>scif := f (scif c)\<rparr>) s"

definition upd_board :: "('q \<Rightarrow> 'q) \<Rightarrow> 'q sh4_machine \<Rightarrow> 'q sh4_machine" where
  "upd_board f s = upd_chip (\<lambda>c. c\<lparr>board := f (board c)\<rparr>) s"

subsection \<open>Status and interrupts\<close>

abbreviation (input) DR :: u16 where "DR \<equiv> 0x01"
abbreviation (input) RDF :: u16 where "RDF \<equiv> 0x02"
abbreviation (input) BRK :: u16 where "BRK \<equiv> 0x10"
abbreviation (input) TDFE :: u16 where "TDFE \<equiv> 0x20"
abbreviation (input) TEND :: u16 where "TEND \<equiv> 0x40"

definition updateInterrupts :: "'q sh4_machine \<Rightarrow> 'q sh4_machine" where
  "updateInterrupts s =
     (let st = SCIF_SCFSR2 (scifs s); cr = SCIF_SCSCR2 (scifs s) in
      upd_cx (\<lambda>c.
        InterruptMask 21 (bit cr 6 \<or> bit cr 3) (InterruptPend 21 (bit st 7 \<or> bit st 3 \<or> bit st 2)
          (InterruptMask 23 (bit cr 6 \<or> bit cr 3) (InterruptPend 23 (bit st 4)
            (InterruptMask 22 (bit cr 6) (InterruptPend 22 (bit st 1 \<or> bit st 0)
              (InterruptMask 24 (bit cr 7) (InterruptPend 24 (bit st 5) c)))))))) s)"

definition setStatusBit :: "u16 \<Rightarrow> 'q sh4_machine \<Rightarrow> 'q sh4_machine" where
  "setStatusBit b s = upd_scif (\<lambda>p. p\<lparr>statusLastRead := statusLastRead p AND NOT b, SCIF_SCFSR2 := SCIF_SCFSR2 p OR b\<rparr>) s"

definition SCFCR2_TTRG :: "scif_state \<Rightarrow> nat" where "SCFCR2_TTRG p = unat (drop_bit 4 (SCIF_SCFCR2 p) AND 3)"
definition SCFCR2_RTRG :: "scif_state \<Rightarrow> nat" where "SCFCR2_RTRG p = unat (drop_bit 6 (SCIF_SCFCR2 p) AND 3)"

definition isTDFE :: "scif_state \<Rightarrow> bool" where
  "isTDFE p = (length (txFifo p) \<le> 2 ^ (3 - SCFCR2_TTRG p))"

definition isRDF :: "scif_state \<Rightarrow> bool" where
  "isRDF p = (length (rxFifo p) \<ge> [1, 4, 8, 14] ! SCFCR2_RTRG p)"

definition readStatus :: "'q sh4_machine \<Rightarrow> u16 \<times> 'q sh4_machine" where
  "readStatus s = (SCIF_SCFSR2 (scifs s), upd_scif (\<lambda>p. p\<lparr>statusLastRead := SCIF_SCFSR2 p\<rparr>) s)"

text \<open>\<open>writeStatus\<close>: only a bit that was read as set, and whose condition is gone, can be cleared.\<close>

definition writeStatus :: "u16 \<Rightarrow> 'q sh4_machine \<Rightarrow> 'q sh4_machine" where
  "writeStatus data s =
     (let p = scifs s;
          data = data OR NOT 0x00F3 OR NOT (statusLastRead p);
          data = (if isRDF p then data OR RDF else data);
          data = (if isTDFE p then data OR TDFE else data);
          data = (if rxFifo p \<noteq> [] then data OR DR else data)
      in updateInterrupts (upd_scif (\<lambda>p. p\<lparr>SCIF_SCFSR2 := SCIF_SCFSR2 p AND data, statusLastRead := statusLastRead p AND data\<rparr>) s))"

subsection \<open>Transmission and reception\<close>

definition send_pipe :: "'q pipe_ops \<Rightarrow> u8 \<Rightarrow> 'q sh4_machine \<Rightarrow> 'q sh4_machine" where
  "send_pipe P v s = (if scif_pipe (scifs s) then upd_board (pipe_write P v) s else s)"

definition txDone :: "'q pipe_ops \<Rightarrow> 'q sh4_machine \<Rightarrow> bool \<times> 'q sh4_machine" where
  "txDone P s =
     (if \<not> transmitting (scifs s) \<or> bit (SCIF_SCFCR2 (scifs s)) 2 then (False, s)
      else case txFifo (scifs s) of
          [] \<Rightarrow> (False, upd_scif (\<lambda>p. p\<lparr>transmitting := False\<rparr>) (setStatusBit TEND s))
        | v # rest \<Rightarrow>
            (let s = send_pipe P v (upd_scif (\<lambda>p. p\<lparr>txFifo := rest\<rparr>) s);
                 s = (if isTDFE (scifs s) then updateInterrupts (setStatusBit TDFE s) else s)
             in (True, s)))"

definition rxSched :: "'q pipe_ops \<Rightarrow> 'q sh4_machine \<Rightarrow> 'q sh4_machine" where
  "rxSched P s =
     (if \<not> scif_pipe (scifs s) then s
      else if pipe_available P (board (chip s)) > 0 then
        (let (v, q) = pipe_read P (board (chip s)); s = upd_board (\<lambda>_. q) s; p = scifs s in
         if \<not> bit (SCIF_SCSCR2 p) 4 \<or> bit (SCIF_SCFCR2 p) 1 then s
         else if length (rxFifo p) = 16 then updateInterrupts (upd_scif (\<lambda>p. p\<lparr>SCIF_SCLSR2 := SCIF_SCLSR2 p OR 1\<rparr>) s)
         else
           (let s = upd_scif (\<lambda>p. p\<lparr>rxFifo := rxFifo p @ [v]\<rparr>) s in
            if isRDF (scifs s) then updateInterrupts (setStatusBit RDF s) else s))
      else if rxFifo (scifs s) \<noteq> [] then updateInterrupts (setStatusBit DR s)
      else s)"

definition sendBreak :: "'q pipe_ops \<Rightarrow> 'q sh4_machine \<Rightarrow> 'q sh4_machine" where
  "sendBreak P s = (if scif_pipe (scifs s) then upd_board (pipe_sendBreak P) s else s)"

definition receiveBreak :: "'q sh4_machine \<Rightarrow> 'q sh4_machine" where
  "receiveBreak s = updateInterrupts (setStatusBit BRK s)"

abbreviation frame_time :: "scif_state \<Rightarrow> int" where "frame_time p \<equiv> frameSize p * cyclesPerBit p"

definition schedCallback :: "'q pipe_ops \<Rightarrow> nat \<Rightarrow> int \<Rightarrow> int \<Rightarrow> 'q sh4_machine \<Rightarrow> int \<times> 'q sh4_machine" where
  "schedCallback P tag cycles lag s =
     (if tag = 0 then
        (let (reschedule, s) = txDone P s; s = rxSched P s
         in (if reschedule \<or> scif_pipe (scifs s) then frame_time (scifs s) else 0, s))
      else (0, sendBreak P s))"

definition updateBaudRate :: "'q sh4_machine \<Rightarrow> 'q sh4_machine" where
  "updateBaudRate s =
     (let m = SCIF_SCSMR2 (scifs s);
          size = 1 + 8 - of_bool (bit m 6) + of_bool (bit m 5) + 1 + of_bool (bit m 3);
          bauds = SH4_MAIN_CLOCK div 4 div (uint (SCIF_SCBRR2 (scifs s)) + 1) div 32 div 2 ^ (unat (m AND 3) * 2);
          s = upd_scif (\<lambda>p. p\<lparr>frameSize := size, cyclesPerBit := SH4_MAIN_CLOCK div bauds\<rparr>) s
      in sh4_sched_request (schedId (scifs s)) (frame_time (scifs s)) s)"

definition SCFTDR2_write :: "'q pipe_ops \<Rightarrow> u8 \<Rightarrow> 'q sh4_machine \<Rightarrow> 'q sh4_machine" where
  "SCFTDR2_write P data s =
     (if bit (SCIF_SCFCR2 (scifs s)) 2 then s
      else
        (let data = (if bit (SCIF_SCSMR2 (scifs s)) 6 then data AND 0x7F else data) in
         if txFifo (scifs s) = [] \<and> \<not> transmitting (scifs s) \<and> bit (SCIF_SCSCR2 (scifs s)) 5 then
           (let s = send_pipe P data s;
                s = upd_scif (\<lambda>p. p\<lparr>transmitting := True\<rparr>) s;
                s = sh4_sched_request (schedId (scifs s)) (frame_time (scifs s)) s
            in updateInterrupts (setStatusBit TDFE s))
         else if length (txFifo (scifs s)) < 16 then upd_scif (\<lambda>p. p\<lparr>txFifo := txFifo p @ [data]\<rparr>) s
         else s))"

subsection \<open>Registers\<close>

definition SCFDR2_read :: "'q sh4_machine \<Rightarrow> u16" where
  "SCFDR2_read s = of_nat (length (rxFifo (scifs s))) OR push_bit 8 (of_nat (length (txFifo (scifs s))))"

definition SCFRDR2_read :: "'q sh4_machine \<Rightarrow> u8 \<times> 'q sh4_machine" where
  "SCFRDR2_read s = (case rxFifo (scifs s) of [] \<Rightarrow> (0, s) | v # rest \<Rightarrow> (v, upd_scif (\<lambda>p. p\<lparr>rxFifo := rest\<rparr>) s))"

definition setBreak :: "bool \<Rightarrow> 'q sh4_machine \<Rightarrow> 'q sh4_machine" where
  "setBreak on s =
     (let p = scifs s in
      if on then (if \<not> sh4_sched_is_scheduled (brkSchedId p) s then sh4_sched_request (brkSchedId p) (cyclesPerBit p * frameSize p) s else s)
      else (if sh4_sched_is_scheduled (brkSchedId p) s then sh4_sched_request (brkSchedId p) (-1) s else s))"

definition SCSCR2_write :: "u16 \<Rightarrow> 'q sh4_machine \<Rightarrow> 'q sh4_machine" where
  "SCSCR2_write data s =
     (let s = upd_scif (\<lambda>p. p\<lparr>SCIF_SCSCR2 := data AND 0x00FA\<rparr>) s;
          s = (if \<not> bit (SCIF_SCSCR2 (scifs s)) 5
               then (let s = setStatusBit TEND s in setBreak (bit (SCIF_SCSPTR2 (scifs s)) 1 \<and> \<not> bit (SCIF_SCSPTR2 (scifs s)) 0) s)
               else setBreak False s)
      in updateInterrupts s)"

definition SCSPTR2_read :: "'q sh4_machine \<Rightarrow> u16" where
  "SCSPTR2_read s = SCIF_SCSPTR2 (scifs s) AND NOT 0x10"

definition SCSPTR2_write :: "u16 \<Rightarrow> 'q sh4_machine \<Rightarrow> 'q sh4_machine" where
  "SCSPTR2_write data s =
     (let s = upd_scif (\<lambda>p. p\<lparr>SCIF_SCSPTR2 := data AND 0x00F3\<rparr>) s; p = scifs s in
      if bit (SCIF_SCSPTR2 p) 1 then setBreak (\<not> bit (SCIF_SCSPTR2 p) 0 \<and> \<not> bit (SCIF_SCSCR2 p) 5) s else setBreak False s)"

definition SCFCR2_write :: "u16 \<Rightarrow> 'q sh4_machine \<Rightarrow> 'q sh4_machine" where
  "SCFCR2_write data s =
     (let s = (if bit (SCIF_SCFCR2 (scifs s)) 2 \<and> \<not> bit data 2
               then updateInterrupts (setStatusBit TDFE (setStatusBit TEND s)) else s);
          s = upd_scif (\<lambda>p. p\<lparr>SCIF_SCFCR2 := data AND 0x00FF\<rparr>) s;
          s = (if bit (SCIF_SCFCR2 (scifs s)) 2 then
                 (let s = upd_scif (\<lambda>p. p\<lparr>txFifo := []\<rparr>) s;
                      s = (if \<not> scif_pipe (scifs s) then sh4_sched_request (schedId (scifs s)) (-1) s else s)
                  in upd_scif (\<lambda>p. p\<lparr>transmitting := False\<rparr>) s)
               else s)
      in if bit (SCIF_SCFCR2 (scifs s)) 1 then upd_scif (\<lambda>p. p\<lparr>rxFifo := []\<rparr>) s else s)"

definition SCBRR2_write :: "u8 \<Rightarrow> 'q sh4_machine \<Rightarrow> 'q sh4_machine" where
  "SCBRR2_write data s = updateBaudRate (upd_scif (\<lambda>p. p\<lparr>SCIF_SCBRR2 := data\<rparr>) s)"

definition SCSMR2_write :: "u16 \<Rightarrow> 'q sh4_machine \<Rightarrow> 'q sh4_machine" where
  "SCSMR2_write data s = updateBaudRate (upd_scif (\<lambda>p. p\<lparr>SCIF_SCSMR2 := data AND 0x007B\<rparr>) s)"

text \<open>\<open>SCIFSerialPort::init\<close>, when the port has no ids yet; \<open>SCIFSerialPort::reset\<close>; \<open>SCIFRegisters::reset\<close>.\<close>

definition SCIFSerialPort_init :: "'q sh4_machine \<Rightarrow> 'q sh4_machine" where
  "SCIFSerialPort_init s =
     (let (i, s) = sh4_sched_register 0 scif_cb_ptr s;
          s = upd_scif (\<lambda>p. p\<lparr>schedId := i\<rparr>) s;
          (i, s) = sh4_sched_register 1 scif_cb_ptr s
      in upd_scif (\<lambda>p. p\<lparr>brkSchedId := i\<rparr>) s)"

definition SCIFSerialPort_reset :: "'q sh4_machine \<Rightarrow> 'q sh4_machine" where
  "SCIFSerialPort_reset s =
     (let s = sh4_sched_request (brkSchedId (scifs s)) (-1) s
      in updateBaudRate (upd_scif (\<lambda>p. p\<lparr>transmitting := False, statusLastRead := 0, txFifo := [], rxFifo := []\<rparr>) s))"

definition SCIFRegisters_reset :: "bool \<Rightarrow> 'q sh4_machine \<Rightarrow> 'q sh4_machine" where
  "SCIFRegisters_reset hard s =
     (let s = upd_scif (\<lambda>p. p\<lparr>SCIF_SCSMR2 := 0, SCIF_SCBRR2 := 0xFF, SCIF_SCSCR2 := 0, SCIF_SCFSR2 := 0x60, SCIF_SCFCR2 := 0,
            SCIF_SCSPTR2 := 0, SCIF_SCLSR2 := 0\<rparr>) s;
          s = (if hard then upd_scif (\<lambda>p. p\<lparr>scif_pipe := False\<rparr>) s else s)
      in SCIFSerialPort_reset s)"

text \<open>The bank of ten registers at \<open>0x1FE80000\<close>; \<open>i\<close> is the index of the register.\<close>

definition scif_read8 :: "nat \<Rightarrow> 'q sh4_machine \<Rightarrow> u8 \<times> 'q sh4_machine" where
  "scif_read8 i s = (if i = 1 then (SCIF_SCBRR2 (scifs s), s) else if i = 5 then SCFRDR2_read s else (0, s))"

definition scif_read16 :: "nat \<Rightarrow> 'q sh4_machine \<Rightarrow> u16 \<times> 'q sh4_machine" where
  "scif_read16 i s =
     (if i = 0 then (SCIF_SCSMR2 (scifs s), s) else if i = 2 then (SCIF_SCSCR2 (scifs s), s) else if i = 4 then readStatus s
      else if i = 6 then (SCIF_SCFCR2 (scifs s), s) else if i = 7 then (SCFDR2_read s, s) else if i = 8 then (SCSPTR2_read s, s)
      else if i = 9 then (SCIF_SCLSR2 (scifs s), s) else (0, s))"

definition scif_write8 :: "'q pipe_ops \<Rightarrow> nat \<Rightarrow> u8 \<Rightarrow> 'q sh4_machine \<Rightarrow> 'q sh4_machine" where
  "scif_write8 P i v s = (if i = 1 then SCBRR2_write v s else if i = 3 then SCFTDR2_write P v s else s)"

definition scif_write16 :: "nat \<Rightarrow> u16 \<Rightarrow> 'q sh4_machine \<Rightarrow> 'q sh4_machine" where
  "scif_write16 i v s =
     (if i = 0 then SCSMR2_write v s else if i = 2 then SCSCR2_write v s else if i = 4 then writeStatus v s
      else if i = 6 then SCFCR2_write v s else if i = 8 then SCSPTR2_write v s
      else if i = 9 then upd_scif (\<lambda>p. p\<lparr>SCIF_SCLSR2 := v AND 1\<rparr>) s else s)"

subsection \<open>What the operations leave alone\<close>

lemma upd_scif_simps [simp]:
  "scifs (upd_scif f s) = f (scifs s)" "cx (upd_scif f s) = cx s" "tmu (chip (upd_scif f s)) = tmu (chip s)"
  "board (chip (upd_scif f s)) = board (chip s)" "sched_view (upd_scif f s) = sched_view s" "events (upd_scif f s) = events s"
  by (simp_all add: upd_scif_def sched_view_def)

lemma upd_board_simps [simp]:
  "scifs (upd_board g s) = scifs s" "cx (upd_board g s) = cx s" "tmu (chip (upd_board g s)) = tmu (chip s)"
  "board (chip (upd_board g s)) = g (board (chip s))" "sched_view (upd_board g s) = sched_view s" "events (upd_board g s) = events s"
  by (simp_all add: upd_board_def sched_view_def)

lemma set_status_simps [simp]:
  "scifs (setStatusBit b s) = (scifs s)\<lparr>statusLastRead := statusLastRead (scifs s) AND NOT b, SCIF_SCFSR2 := SCIF_SCFSR2 (scifs s) OR b\<rparr>"
  "board (chip (setStatusBit b s)) = board (chip s)" "tmu (chip (setStatusBit b s)) = tmu (chip s)"
  "sched_view (setStatusBit b s) = sched_view s" "events (setStatusBit b s) = events s"
  by (simp_all add: setStatusBit_def)

lemma update_simps [simp]:
  "chip (updateInterrupts s) = chip s" "sched_view (updateInterrupts s) = sched_view s"
  by (simp_all add: updateInterrupts_def Let_def sched_view_def)

lemma send_simps [simp]:
  "scifs (send_pipe P v s) = scifs s" "tmu (chip (send_pipe P v s)) = tmu (chip s)" "sched_view (send_pipe P v s) = sched_view s"
  "events (send_pipe P v s) = events s"
  "board (chip (send_pipe P v s)) = (if scif_pipe (scifs s) then pipe_write P v (board (chip s)) else board (chip s))"
  by (simp_all add: send_pipe_def)

lemma request_scif [simp]:
  "scif (chip (sh4_sched_request i c s)) = scif (chip s)" "board (chip (sh4_sched_request i c s)) = board (chip s)"
  by (simp_all add: sh4_sched_request_def Let_def set_sched_def sh4_sched_ffts_def split_def)

subsection \<open>Timing\<close>

lemma div_at_least: "0 < b \<Longrightarrow> b \<le> B \<Longrightarrow> 0 \<le> a \<Longrightarrow> a div B \<le> a div (b :: int)"
  by (rule zdiv_mono2) simp_all

text \<open>The rate is at least 95 bauds, so that the division is defined and a frame takes less than a second.\<close>

lemma bauds_bound:
  assumes "1 \<le> n" "n \<le> 256" "k \<le> 3"
  shows "95 \<le> SH4_MAIN_CLOCK div 4 div n div 32 div 2 ^ (k * 2)"
proof -
  have "SH4_MAIN_CLOCK div 4 div 256 \<le> SH4_MAIN_CLOCK div 4 div n" using assms by (intro div_at_least) simp_all
  then have "SH4_MAIN_CLOCK div 4 div 256 div 32 \<le> SH4_MAIN_CLOCK div 4 div n div 32" by (intro zdiv_mono1) simp_all
  then have a: "6103 \<le> SH4_MAIN_CLOCK div 4 div n div 32" by simp
  have "(2 :: int) ^ (k * 2) \<le> 2 ^ 6" using assms(3) by (intro power_increasing) simp_all
  then have "SH4_MAIN_CLOCK div 4 div n div 32 div 2 ^ 6 \<le> SH4_MAIN_CLOCK div 4 div n div 32 div 2 ^ (k * 2)"
    using a by (intro div_at_least) simp_all
  moreover have "6103 div 2 ^ 6 \<le> SH4_MAIN_CLOCK div 4 div n div 32 div (2 ^ 6 :: int)" using a by (intro zdiv_mono1) simp_all
  ultimately show ?thesis by simp
qed

definition timing_ok :: "scif_state \<Rightarrow> bool" where
  "timing_ok p \<longleftrightarrow> 0 < cyclesPerBit p \<and> cyclesPerBit p \<le> 2105263 \<and> 9 \<le> frameSize p \<and> frameSize p \<le> 12"

lemma timing_delay: "timing_ok p \<Longrightarrow> 0 < frame_time p \<and> delay_ok (frame_time p) \<and> frame_time p \<le> 25263156"
proof -
  assume t: "timing_ok p"
  then have "frame_time p \<le> 12 * 2105263" unfolding timing_ok_def by (intro mult_mono) simp_all
  moreover have "0 < frame_time p" using t by (simp add: timing_ok_def)
  ultimately show ?thesis by (simp add: delay_ok_def)
qed

lemma baud_timing: "timing_ok (scifs (updateBaudRate s))"
proof -
  have n: "1 \<le> uint (SCIF_SCBRR2 (scifs s)) + 1" "uint (SCIF_SCBRR2 (scifs s)) + 1 \<le> 256"
    using uint_lt2p [of "SCIF_SCBRR2 (scifs s)"] by simp_all
  have k: "unat (SCIF_SCSMR2 (scifs s) AND 3) \<le> 3"
    using word_and_le1 [of "SCIF_SCSMR2 (scifs s)" 3] by (simp add: word_le_nat_alt)
  note b = bauds_bound [OF n k]
  let ?b = "SH4_MAIN_CLOCK div 4 div (uint (SCIF_SCBRR2 (scifs s)) + 1) div 32 div 2 ^ (unat (SCIF_SCSMR2 (scifs s) AND 3) * 2)"
  have u: "SH4_MAIN_CLOCK div ?b \<le> SH4_MAIN_CLOCK div 95" using b by (intro div_at_least) simp_all
  have d: "a div c \<le> a" if "1 \<le> c" "0 \<le> a" for a c :: int using div_at_least [of 1 c a] that by simp
  have "?b \<le> SH4_MAIN_CLOCK div 4 div (uint (SCIF_SCBRR2 (scifs s)) + 1) div 32" using n by (intro d) (simp_all add: pos_imp_zdiv_nonneg_iff)
  also have "\<dots> \<le> SH4_MAIN_CLOCK div 4 div (uint (SCIF_SCBRR2 (scifs s)) + 1)" using n by (intro d) (simp_all add: pos_imp_zdiv_nonneg_iff)
  also have "\<dots> \<le> SH4_MAIN_CLOCK div 4" using n by (intro d) simp_all
  finally have "?b \<le> SH4_MAIN_CLOCK" by simp
  then have "SH4_MAIN_CLOCK div SH4_MAIN_CLOCK \<le> SH4_MAIN_CLOCK div ?b" using b by (intro div_at_least) linarith+
  then have "0 < SH4_MAIN_CLOCK div ?b" by simp
  then show ?thesis using u by (simp add: updateBaudRate_def Let_def timing_ok_def)
qed

subsection \<open>Bytes go through in order\<close>

text \<open>\<open>tap P\<close> is the pipe \<open>P\<close> with a record of the bytes that passed through it in each direction.\<close>

definition tap :: "'q pipe_ops \<Rightarrow> ('q \<times> u8 list \<times> u8 list) pipe_ops" where
  "tap P =
     \<lparr>pipe_write = (\<lambda>v (q, sent, got). (pipe_write P v q, sent @ [v], got)),
      pipe_sendBreak = (\<lambda>(q, l). (pipe_sendBreak P q, l)),
      pipe_available = (\<lambda>(q, l). pipe_available P q),
      pipe_read = (\<lambda>(q, sent, got). case pipe_read P q of (v, q) \<Rightarrow> (v, (q, sent, got @ [v])))\<rparr>"

datatype serial_event = Put u8 | Get | Frame

fun serial_step :: "('q \<times> u8 list \<times> u8 list) pipe_ops \<Rightarrow> serial_event \<Rightarrow> u8 list \<times> ('q \<times> u8 list \<times> u8 list) sh4_machine \<Rightarrow>
    u8 list \<times> ('q \<times> u8 list \<times> u8 list) sh4_machine" where
  "serial_step P (Put v) (out, s) = (out, SCFTDR2_write P v s)"
| "serial_step P Get (out, s) = (if rxFifo (scifs s) = [] then (out, s) else (case SCFRDR2_read s of (v, s) \<Rightarrow> (out @ [v], s)))"
| "serial_step P Frame (out, s) = (out, snd (schedCallback P 0 0 0 s))"

text \<open>The port is on: a pipe is plugged in, both directions are enabled and no FIFO is held in reset.\<close>

definition serial_on :: "scif_state \<Rightarrow> bool" where
  "serial_on p \<longleftrightarrow> scif_pipe p \<and> bit (SCIF_SCSCR2 p) 5 \<and> bit (SCIF_SCSCR2 p) 4 \<and> \<not> bit (SCIF_SCFCR2 p) 2 \<and> \<not> bit (SCIF_SCFCR2 p) 1"

definition on_wire :: "scif_state \<Rightarrow> u8 \<Rightarrow> u8" where
  "on_wire p v = (if bit (SCIF_SCSMR2 p) 6 then v AND 0x7F else v)"

abbreviation sent :: "('q \<times> u8 list \<times> u8 list) sh4_machine \<Rightarrow> u8 list" where "sent s \<equiv> fst (snd (board (chip s)))"
abbreviation received :: "('q \<times> u8 list \<times> u8 list) sh4_machine \<Rightarrow> u8 list" where "received s \<equiv> snd (snd (board (chip s)))"

definition same_config :: "scif_state \<Rightarrow> scif_state \<Rightarrow> bool" where
  "same_config p p' \<longleftrightarrow> scif_pipe p' = scif_pipe p \<and> SCIF_SCSCR2 p' = SCIF_SCSCR2 p \<and> SCIF_SCFCR2 p' = SCIF_SCFCR2 p \<and> SCIF_SCSMR2 p' = SCIF_SCSMR2 p"

lemma put_facts:
  assumes "serial_on (scifs s)" and t_def: "t = SCFTDR2_write (tap P) v s"
  shows "same_config (scifs s) (scifs t)" "rxFifo (scifs t) = rxFifo (scifs s)" "received t = received s"
    "SCIF_SCLSR2 (scifs t) = SCIF_SCLSR2 (scifs s)"
    "if length (txFifo (scifs s)) < 16 then sent t @ txFifo (scifs t) = sent s @ txFifo (scifs s) @ [on_wire (scifs s) v]
     else sent t = sent s \<and> txFifo (scifs t) = txFifo (scifs s)"
    "length (txFifo (scifs s)) \<le> 16 \<Longrightarrow> length (txFifo (scifs t)) \<le> 16"
proof -
  obtain q a b where q: "board (chip s) = (q, a, b)" by (rule prod_cases3)
  show "same_config (scifs s) (scifs t)" "rxFifo (scifs t) = rxFifo (scifs s)" "received t = received s"
    "SCIF_SCLSR2 (scifs t) = SCIF_SCLSR2 (scifs s)"
    "if length (txFifo (scifs s)) < 16 then sent t @ txFifo (scifs t) = sent s @ txFifo (scifs s) @ [on_wire (scifs s) v]
     else sent t = sent s \<and> txFifo (scifs t) = txFifo (scifs s)"
    "length (txFifo (scifs s)) \<le> 16 \<Longrightarrow> length (txFifo (scifs t)) \<le> 16"
    using assms(1) q by (auto simp: t_def SCFTDR2_write_def Let_def serial_on_def on_wire_def same_config_def tap_def)
qed

lemma get_facts:
  assumes "serial_step P Get (out, s) = (out', t)"
  shows "same_config (scifs s) (scifs t)" "txFifo (scifs t) = txFifo (scifs s)" "board (chip t) = board (chip s)"
    "SCIF_SCLSR2 (scifs t) = SCIF_SCLSR2 (scifs s)" "out' @ rxFifo (scifs t) = out @ rxFifo (scifs s)"
    "length (rxFifo (scifs t)) \<le> length (rxFifo (scifs s))"
  using assms by (auto simp: same_config_def SCFRDR2_read_def split: if_splits list.splits)

lemma done_facts:
  assumes "serial_on (scifs s)" and t_def: "t = snd (txDone (tap P) s)"
  shows "same_config (scifs s) (scifs t)" "rxFifo (scifs t) = rxFifo (scifs s)" "received t = received s"
    "SCIF_SCLSR2 (scifs t) = SCIF_SCLSR2 (scifs s)" "sent t @ txFifo (scifs t) = sent s @ txFifo (scifs s)"
    "length (txFifo (scifs t)) \<le> length (txFifo (scifs s))"
proof -
  obtain q a b where q: "board (chip s) = (q, a, b)" by (rule prod_cases3)
  show "same_config (scifs s) (scifs t)" "rxFifo (scifs t) = rxFifo (scifs s)" "received t = received s"
    "SCIF_SCLSR2 (scifs t) = SCIF_SCLSR2 (scifs s)" "sent t @ txFifo (scifs t) = sent s @ txFifo (scifs s)"
    "length (txFifo (scifs t)) \<le> length (txFifo (scifs s))"
    using assms(1) q by (auto simp: t_def txDone_def Let_def serial_on_def same_config_def tap_def split: list.split)
qed

text \<open>A byte that finds the receive FIFO full is lost, and the overrun flag says so.\<close>

lemma rx_facts:
  assumes "serial_on (scifs s)" and t_def: "t = rxSched (tap P) s"
  shows "same_config (scifs s) (scifs t)" "txFifo (scifs t) = txFifo (scifs s)" "sent t = sent s"
    "\<exists>new. received t = received s @ new \<and> (rxFifo (scifs t) = rxFifo (scifs s) @ new \<and> SCIF_SCLSR2 (scifs t) = SCIF_SCLSR2 (scifs s)
       \<or> rxFifo (scifs t) = rxFifo (scifs s) \<and> bit (SCIF_SCLSR2 (scifs t)) 0)"
    "length (rxFifo (scifs s)) \<le> 16 \<Longrightarrow> length (rxFifo (scifs t)) \<le> 16"
proof -
  obtain q a b where q: "board (chip s) = (q, a, b)" by (rule prod_cases3)
  obtain v q' where r: "pipe_read P q = (v, q')" by (rule prod.exhaust)
  show "same_config (scifs s) (scifs t)" "txFifo (scifs t) = txFifo (scifs s)" "sent t = sent s"
    "\<exists>new. received t = received s @ new \<and> (rxFifo (scifs t) = rxFifo (scifs s) @ new \<and> SCIF_SCLSR2 (scifs t) = SCIF_SCLSR2 (scifs s)
       \<or> rxFifo (scifs t) = rxFifo (scifs s) \<and> bit (SCIF_SCLSR2 (scifs t)) 0)"
    "length (rxFifo (scifs s)) \<le> 16 \<Longrightarrow> length (rxFifo (scifs t)) \<le> 16"
    using assms(1) q r by (auto simp: t_def rxSched_def Let_def serial_on_def same_config_def tap_def bit_simps)
qed

definition puts :: "serial_event list \<Rightarrow> u8 list" where
  "puts evs = concat (map (\<lambda>e. case e of Put v \<Rightarrow> [v] | _ \<Rightarrow> []) evs)"

text \<open>
  \<open>acc\<close> are the bytes that found room: all of them while no more than 16 are waiting.  They leave in order: \<open>gone\<close> through the
  pipe, the others are in the FIFO.
\<close>

definition tx_order :: "serial_event list \<Rightarrow> ('q \<times> u8 list \<times> u8 list) sh4_machine \<Rightarrow> ('q \<times> u8 list \<times> u8 list) sh4_machine \<Rightarrow> bool" where
  "tx_order evs s t \<longleftrightarrow>
     (\<exists>acc gone. subseq acc (map (on_wire (scifs s)) (puts evs))
        \<and> (length (txFifo (scifs s)) + length (puts evs) \<le> 16 \<longrightarrow> acc = map (on_wire (scifs s)) (puts evs))
        \<and> sent t = sent s @ gone \<and> gone @ txFifo (scifs t) = txFifo (scifs s) @ acc)"

text \<open>\<open>arr\<close> are the bytes read from the pipe; the program gets them in order, all of them when no overrun is flagged.\<close>

definition rx_order :: "('q \<times> u8 list \<times> u8 list) sh4_machine \<Rightarrow> u8 list \<Rightarrow> ('q \<times> u8 list \<times> u8 list) sh4_machine \<Rightarrow> bool" where
  "rx_order s out t \<longleftrightarrow>
     (\<exists>arr. received t = received s @ arr \<and> subseq (out @ rxFifo (scifs t)) (rxFifo (scifs s) @ arr)
        \<and> (\<not> bit (SCIF_SCLSR2 (scifs t)) 0 \<longrightarrow> out @ rxFifo (scifs t) = rxFifo (scifs s) @ arr))"

definition fifos_ok :: "scif_state \<Rightarrow> bool" where "fifos_ok p \<longleftrightarrow> length (txFifo p) \<le> 16 \<and> length (rxFifo p) \<le> 16"

lemma config_trans: "same_config p q \<Longrightarrow> same_config q r \<Longrightarrow> same_config p r"
  by (simp add: same_config_def)

lemma config_on: "same_config p q \<Longrightarrow> serial_on q = serial_on p \<and> on_wire q = on_wire p"
  by (simp add: same_config_def serial_on_def on_wire_def fun_eq_iff)

lemma puts_snoc: "puts (evs @ [e]) = puts evs @ (case e of Put v \<Rightarrow> [v] | _ \<Rightarrow> [])"
  by (simp add: puts_def)

lemma tx_put:
  assumes "tx_order evs s t" "serial_on (scifs t)" "on_wire (scifs t) = on_wire (scifs s)"
  shows "tx_order (evs @ [Put v]) s (SCFTDR2_write (tap P) v t)"
proof -
  let ?u = "SCFTDR2_write (tap P) v t"
  note f = put_facts(5) [OF assms(2) refl, of P v]
  obtain acc gone where a: "subseq acc (map (on_wire (scifs s)) (puts evs))"
    "length (txFifo (scifs s)) + length (puts evs) \<le> 16 \<longrightarrow> acc = map (on_wire (scifs s)) (puts evs)"
    "sent t = sent s @ gone" "gone @ txFifo (scifs t) = txFifo (scifs s) @ acc"
    using assms(1) unfolding tx_order_def by blast
  obtain w where w: "sent ?u = sent t @ w"
  proof -
    obtain q x y where q: "board (chip t) = (q, x, y)" by (rule prod_cases3)
    have "\<exists>w. sent ?u = sent t @ w" using q by (auto simp: SCFTDR2_write_def Let_def tap_def)
    then show ?thesis using that by blast
  qed
  show ?thesis
  proof (cases "length (txFifo (scifs t)) < 16")
    case True
    then have "w @ txFifo (scifs ?u) = txFifo (scifs t) @ [on_wire (scifs s) v]" using f w assms(3) by simp
    then have "(gone @ w) @ txFifo (scifs ?u) = txFifo (scifs s) @ acc @ [on_wire (scifs s) v]"
      using a(4) by (metis append_assoc)
    then show ?thesis
      unfolding tx_order_def using a(1-3) w
      by - (rule exI [of _ "acc @ [on_wire (scifs s) v]"], rule exI [of _ "gone @ w"], simp add: puts_snoc list_emb_append_mono)
  next
    case False
    have "length gone + length (txFifo (scifs t)) = length (txFifo (scifs s)) + length acc"
      using arg_cong [OF a(4), of length] by simp
    moreover have "length acc \<le> length (puts evs)" using list_emb_length [OF a(1)] by simp
    ultimately have "16 \<le> length (txFifo (scifs s)) + length (puts evs)" using False by linarith
    then show ?thesis
      unfolding tx_order_def using a f False list_emb_append_mono [OF a(1), of "[]" "[on_wire (scifs s) v]"]
      by - (rule exI [of _ acc], rule exI [of _ gone], simp add: puts_snoc)
  qed
qed

lemma tx_frame:
  assumes "tx_order evs s t" "sent u @ txFifo (scifs u) = sent t @ txFifo (scifs t)" "\<exists>w. sent u = sent t @ w" "puts (evs @ [e]) = puts evs"
  shows "tx_order (evs @ [e]) s u"
proof -
  obtain w where w: "sent u = sent t @ w" using assms(3) by blast
  then have "w @ txFifo (scifs u) = txFifo (scifs t)" using assms(2) by simp
  then have "(gone @ w) @ txFifo (scifs u) = gone @ txFifo (scifs t)" for gone by simp
  then show ?thesis using assms(1,4) w unfolding tx_order_def by (metis append_assoc)
qed

lemma rx_keep:
  assumes "rx_order s out t" "received u = received t" "out' @ rxFifo (scifs u) = out @ rxFifo (scifs t)"
    "SCIF_SCLSR2 (scifs u) = SCIF_SCLSR2 (scifs t)"
  shows "rx_order s out' u"
  using assms by (simp only: rx_order_def)

lemma rx_frame:
  assumes "rx_order s out t" "serial_on (scifs t)" "u = rxSched (tap P) t"
  shows "rx_order s out u"
proof -
  obtain arr where a: "received t = received s @ arr" "subseq (out @ rxFifo (scifs t)) (rxFifo (scifs s) @ arr)"
    "\<not> bit (SCIF_SCLSR2 (scifs t)) 0 \<longrightarrow> out @ rxFifo (scifs t) = rxFifo (scifs s) @ arr"
    using assms(1) unfolding rx_order_def by blast
  obtain new where n: "received u = received t @ new" "rxFifo (scifs u) = rxFifo (scifs t) @ new \<and> SCIF_SCLSR2 (scifs u) = SCIF_SCLSR2 (scifs t)
       \<or> rxFifo (scifs u) = rxFifo (scifs t) \<and> bit (SCIF_SCLSR2 (scifs u)) 0"
    using rx_facts(4) [OF assms(2,3)] by blast
  from n(2) show ?thesis
  proof
    assume "rxFifo (scifs u) = rxFifo (scifs t) @ new \<and> SCIF_SCLSR2 (scifs u) = SCIF_SCLSR2 (scifs t)"
    then show ?thesis
      unfolding rx_order_def using a n(1) list_emb_append_mono [OF a(2), of new new]
      by (intro exI [of _ "arr @ new"]) (auto simp flip: append_assoc)
  next
    assume "rxFifo (scifs u) = rxFifo (scifs t) \<and> bit (SCIF_SCLSR2 (scifs u)) 0"
    then show ?thesis
      unfolding rx_order_def using a n(1) list_emb_append_mono [OF a(2), of "[]" new]
      by (intro exI [of _ "arr @ new"]) simp
  qed
qed

lemma serial_step_keeps:
  assumes "tx_order evs s t" "rx_order s out t" "fifos_ok (scifs t)" "same_config (scifs s) (scifs t)" "serial_on (scifs s)"
    and st: "serial_step (tap P) e (out, t) = (out', u)"
  shows "tx_order (evs @ [e]) s u \<and> rx_order s out' u \<and> fifos_ok (scifs u) \<and> same_config (scifs s) (scifs u)"
proof -
  have on: "serial_on (scifs t)" "on_wire (scifs t) = on_wire (scifs s)" using config_on [OF assms(4)] assms(5) by simp_all
  show ?thesis
  proof (cases e)
    case (Put v)
    then have u: "u = SCFTDR2_write (tap P) v t" "out' = out" using st by simp_all
    note f = put_facts [OF on(1) u(1)]
    show ?thesis
      using tx_put [OF assms(1) on] rx_keep [OF assms(2) f(3)] f assms(3) config_trans [OF assms(4) f(1)]
      by (simp add: Put u fifos_ok_def)
  next
    case Get
    note f = get_facts [OF st [unfolded Get]]
    show ?thesis
      using tx_frame [OF assms(1), of u e] rx_keep [OF assms(2) _ f(5,4)] f assms(3) config_trans [OF assms(4) f(1)]
      by (simp add: Get fifos_ok_def puts_snoc)
  next
    case Frame
    let ?m = "snd (txDone (tap P) t)"
    have u: "u = rxSched (tap P) ?m" "out' = out" using st by (auto simp: Frame schedCallback_def Let_def split_def)
    note d = done_facts [OF on(1) refl, of P]
    have on2: "serial_on (scifs ?m)" using config_on [OF d(1)] on(1) by simp
    note r = rx_facts [OF on2 u(1)]
    have "\<exists>w. sent ?m = sent t @ w"
    proof -
      obtain q x y where q: "board (chip t) = (q, x, y)" by (rule prod_cases3)
      then show ?thesis by (auto simp: txDone_def Let_def tap_def split: list.split)
    qed
    then have "tx_order (evs @ [e]) s u" using r(2,3) d(5) by (intro tx_frame [OF assms(1)]) (simp_all add: Frame puts_snoc)
    moreover have "rx_order s out' u" unfolding u(2) by (rule rx_frame [OF rx_keep [OF assms(2)] on2 u(1)]) (simp_all add: d)
    moreover have "fifos_ok (scifs u)" using r(2,5) d(2,6) assms(3) by (simp add: fifos_ok_def)
    ultimately show ?thesis using config_trans [OF assms(4) config_trans [OF d(1) r(1)]] by blast
  qed
qed

lemma serial_run:
  assumes "serial_on (scifs s)" "fifos_ok (scifs s)" "fold (serial_step (tap P)) evs ([], s) = (out, t)"
  shows "tx_order evs s t \<and> rx_order s out t \<and> fifos_ok (scifs t) \<and> same_config (scifs s) (scifs t)"
  using assms(3)
proof (induction evs arbitrary: out t rule: rev_induct)
  case Nil
  then show ?case using assms by (auto simp: tx_order_def rx_order_def same_config_def puts_def)
next
  case (snoc e evs)
  obtain o1 t1 where f: "fold (serial_step (tap P)) evs ([], s) = (o1, t1)" by (rule prod.exhaust)
  show ?case using snoc.IH [OF f] serial_step_keeps [of evs s t1 o1 P e out t] snoc.prems assms(1) f by simp
qed


definition loop_pipe :: "u8 list pipe_ops" where
  "loop_pipe = \<lparr>pipe_write = (\<lambda>v q. q @ [v]), pipe_sendBreak = (\<lambda>q. q), pipe_available = (\<lambda>q. int (length q)),
     pipe_read = (\<lambda>q. (case q of [] \<Rightarrow> (0, []) | v # r \<Rightarrow> (v, r)))\<rparr>"

definition serial_example :: "(u8 list \<times> u8 list \<times> u8 list) sh4_machine" where
  "serial_example = upd_scif (\<lambda>p. p\<lparr>scif_pipe := True, SCIF_SCSCR2 := 0x30\<rparr>) (blank_machine ([], [], []))"


subsection \<open>The callback keeps to the contract of the scheduler\<close>

lemma callback_facts:
  assumes "schedCallback P tag c l s = (r, t)"
  shows "sched_view t = sched_view s" "events t = events s" "tmu (chip t) = tmu (chip s)" "frameSize (scifs t) = frameSize (scifs s)"
    "cyclesPerBit (scifs t) = cyclesPerBit (scifs s)" "r = 0 \<or> r = frame_time (scifs s)"
proof -
  have tx: "sched_view u = sched_view s \<and> events u = events s \<and> tmu (chip u) = tmu (chip s) \<and> frameSize (scifs u) = frameSize (scifs s)
      \<and> cyclesPerBit (scifs u) = cyclesPerBit (scifs s)" if "txDone P s = (b, u)" for b u
    using that by (auto simp: txDone_def Let_def split: if_splits list.splits)
  have rx: "sched_view (rxSched P u) = sched_view u \<and> events (rxSched P u) = events u \<and> tmu (chip (rxSched P u)) = tmu (chip u)
      \<and> frameSize (scifs (rxSched P u)) = frameSize (scifs u) \<and> cyclesPerBit (scifs (rxSched P u)) = cyclesPerBit (scifs u)" for u
    by (auto simp: rxSched_def Let_def split_def)
  obtain b u where u: "txDone P s = (b, u)" by (rule prod.exhaust)
  show "sched_view t = sched_view s" "events t = events s" "tmu (chip t) = tmu (chip s)" "frameSize (scifs t) = frameSize (scifs s)"
    "cyclesPerBit (scifs t) = cyclesPerBit (scifs s)" "r = 0 \<or> r = frame_time (scifs s)"
    using assms tx [OF u] rx [of u] by (auto simp: schedCallback_def Let_def u sendBreak_def split: if_splits)
qed

end
