(* ===== verification/Sh4_Timeline.thy ===== *)
theory Sh4_Timeline
  imports Sh4_Tmu Sh4_Scif
begin

unbundle bit_operations_syntax

section \<open>Timers and serial port on the scheduler\<close>

text \<open>
  The callbacks that the timer unit and the serial port register, put together with those of the board, satisfy the contract of the
  scheduler; so no event is ever overdue, whatever the program does to the registers in between.
\<close>

definition sh4_callbacks :: "'q pipe_ops \<Rightarrow> (nat \<Rightarrow> nat \<Rightarrow> int \<Rightarrow> int \<Rightarrow> 'q sh4_machine \<Rightarrow> int \<times> 'q sh4_machine) \<Rightarrow> 'q callbacks" where
  "sh4_callbacks P brd cb tag cycles jitter s =
     (case cb of sched_tmu_cb_ptr \<Rightarrow> sched_tmu_cb tag cycles jitter s
       | scif_cb_ptr \<Rightarrow> schedCallback P tag cycles jitter s
       | board_cb_ptr n \<Rightarrow> brd n tag cycles jitter s)"

definition scif_wired :: "'q sh4_machine \<Rightarrow> bool" where
  "scif_wired s \<longleftrightarrow> (\<forall>i \<in> {schedId (scifs s), brkSchedId (scifs s)}. i < length (events s) \<and> sch_cb (events s ! i) \<noteq> None)"

definition chip_clients :: "'q sh4_machine \<Rightarrow> bool" where
  "chip_clients s \<longleftrightarrow> tmu_wired s \<and> scif_wired s \<and> timing_ok (scifs s)
     \<and> (\<forall>e \<in> set (events s). sch_cb e = Some sched_tmu_cb_ptr \<longrightarrow> sch_tag e < 3)"

text \<open>What the callbacks of the board have to keep to.\<close>

definition lawful_board :: "(nat \<Rightarrow> nat \<Rightarrow> int \<Rightarrow> int \<Rightarrow> 'q sh4_machine \<Rightarrow> int \<times> 'q sh4_machine) \<Rightarrow> bool" where
  "lawful_board brd \<longleftrightarrow>
     (\<forall>n tag c j s. chip_clients s \<and> 0 \<le> j \<and> j \<le> 448 \<longrightarrow>
        (case brd n tag c j s of (r, t) \<Rightarrow> requests s t \<and> chip_clients t \<and> r \<le> SH4_MAIN_CLOCK))"

subsection \<open>The clients keep their wiring\<close>

text \<open>The part of the machine the wiring depends on.\<close>

definition wiring :: "'q sh4_machine \<Rightarrow> sched_callback option list \<times> nat list \<times> (nat \<Rightarrow> nat) \<times> nat \<times> nat" where
  "wiring s = (map sch_cb (events s), map sch_tag (events s), tmu_sched (tmus s), schedId (scifs s), brkSchedId (scifs s))"

lemma registered_map: "i < length (events s) \<and> sch_cb (events s ! i) \<noteq> None \<longleftrightarrow> i < length (map sch_cb (events s)) \<and> map sch_cb (events s) ! i \<noteq> None"
  by auto

lemma tags_map:
  "(\<forall>e \<in> set (events s). sch_cb e = Some c \<longrightarrow> sch_tag e < (3 :: nat)) \<longleftrightarrow>
     (\<forall>(a, b) \<in> set (zip (map sch_cb (events s)) (map sch_tag (events s))). a = Some c \<longrightarrow> b < 3)"
  by (auto simp: zip_map_map in_set_zip all_set_conv_all_nth)

lemma clients_wiring:
  "wiring t = wiring s \<Longrightarrow> timing_ok (scifs t) \<Longrightarrow> chip_clients s \<Longrightarrow> chip_clients t"
  unfolding chip_clients_def tmu_wired_def scif_wired_def registered_map tags_map wiring_def by auto

lemma clients_view: "chip_clients s \<Longrightarrow> chip_view t = chip_view s \<Longrightarrow> chip_clients t"
  by (rule clients_wiring [of t s]) (simp_all add: wiring_def chip_view_def chip_clients_def)

lemma clients_requests:
  assumes "requests s t" "tmu_sched (tmus t) = tmu_sched (tmus s)" "schedId (scifs t) = schedId (scifs s)"
    "brkSchedId (scifs t) = brkSchedId (scifs s)" "timing_ok (scifs t)" "chip_clients s"
  shows "chip_clients t"
  by (rule clients_wiring [OF _ assms(5,6)]) (use assms requests_keep [OF assms(1)] in \<open>simp add: wiring_def\<close>)

lemma scif_callback_keeps:
  assumes "schedCallback P tag c l s = (r, t)"
  shows "schedId (scifs t) = schedId (scifs s) \<and> brkSchedId (scifs t) = brkSchedId (scifs s)"
proof -
  have tx: "schedId (scifs u) = schedId (scifs s) \<and> brkSchedId (scifs u) = brkSchedId (scifs s)" if "txDone P s = (b, u)" for b u
    using that by (auto simp: txDone_def Let_def split: if_splits list.splits)
  have rx: "schedId (scifs (rxSched P u)) = schedId (scifs u) \<and> brkSchedId (scifs (rxSched P u)) = brkSchedId (scifs u)" for u
    by (auto simp: rxSched_def Let_def split_def)
  obtain b u where u: "txDone P s = (b, u)" by (rule prod.exhaust)
  show ?thesis using assms tx [OF u] rx [of u] by (auto simp: schedCallback_def Let_def u sendBreak_def split: if_splits)
qed

lemma callbacks_lawful:
  assumes "lawful_board brd" "chip_clients s" "e \<in> set (events s)" "sch_cb e = Some cb" "0 \<le> j" "j \<le> 448"
    "sh4_callbacks P brd cb (sch_tag e) c j s = (r, t)"
  shows "requests s t \<and> chip_clients t \<and> r \<le> SH4_MAIN_CLOCK"
proof (cases cb)
  case sched_tmu_cb_ptr
  have w: "tmu_wired s" "sch_tag e < 3" using assms(2,3,4) sched_tmu_cb_ptr by (auto simp: chip_clients_def)
  have "sched_tmu_cb (sch_tag e) c j s = (r, t)" using assms(7) by (simp add: sh4_callbacks_def sched_tmu_cb_ptr)
  note f = tmu_callback_facts [OF w this]
  have "chip_clients t" by (rule clients_requests [OF f(1) _ _ _ _ assms(2)]) (use f(2) assms(2) in \<open>simp_all add: kept_def chip_clients_def\<close>)
  then show ?thesis using f by simp
next
  case scif_cb_ptr
  then have c: "schedCallback P (sch_tag e) c j s = (r, t)" using assms(7) by (simp add: sh4_callbacks_def)
  note f = callback_facts [OF c]
  have r: "requests s t" by (rule requests.other [OF requests.none f(1)])
  have tm: "timing_ok (scifs s)" using assms(2) by (simp add: chip_clients_def)
  then have "timing_ok (scifs t)" using f by (simp add: timing_ok_def)
  then have "chip_clients t" using f(3) scif_callback_keeps [OF c] by (intro clients_requests [OF r _ _ _ _ assms(2)]) simp_all
  then show ?thesis using r f(6) timing_delay [OF tm] by auto
next
  case (board_cb_ptr n)
  then have "brd n (sch_tag e) c j s = (r, t)" using assms(7) by (simp add: sh4_callbacks_def)
  then show ?thesis using assms(1) [unfolded lawful_board_def, rule_format, of s j n "sch_tag e" c] assms(2,5,6) by simp
qed

interpretation chip: sched_clients "sh4_callbacks P brd" "\<lambda>s. chip_clients s \<and> lawful_board brd" for P brd
  by unfold_locales (auto dest: clients_view callbacks_lawful)

subsection \<open>The register handlers keep to the contract too\<close>

definition complies :: "'q sh4_machine \<Rightarrow> 'q sh4_machine \<Rightarrow> bool" where
  "complies s t \<longleftrightarrow> (chip_clients s \<longrightarrow> requests s t \<and> chip_clients t)"

named_theorems complies_intros

lemma complies_refl [complies_intros]: "complies s s"
  by (simp add: complies_def requests.none)

lemma complies_trans: "complies t u \<Longrightarrow> complies s t \<Longrightarrow> complies s u"
  by (auto simp: complies_def intro: requests_trans)

lemma complies_view:
  assumes "sched_view t = sched_view s" "tmu_sched (tmus t) = tmu_sched (tmus s)" "schedId (scifs t) = schedId (scifs s)"
    "brkSchedId (scifs t) = brkSchedId (scifs s)" "timing_ok (scifs s) \<Longrightarrow> timing_ok (scifs t)"
  shows "complies s t"
  unfolding complies_def
proof (rule impI)
  assume c: "chip_clients s"
  have r: "requests s t" by (rule requests.other [OF requests.none assms(1)])
  have "timing_ok (scifs s)" using c by (simp add: chip_clients_def)
  then show "requests s t \<and> chip_clients t" using r clients_requests [OF r assms(2-4) assms(5) c] by simp
qed

lemma tmu_scif_frames [simp]:
  "tmus (upd_scif f s) = tmus s" "scifs (upd_tmu g s) = scifs s"
  by (simp_all add: upd_scif_def upd_tmu_def)

lemma complies_cx [complies_intros]: "complies s u \<Longrightarrow> complies s (u\<lparr>cx := c\<rparr>)"
  by (rule complies_trans [OF complies_view]) simp_all

lemma complies_tmu [complies_intros]: "(\<And>t. tmu_sched (f t) = tmu_sched t) \<Longrightarrow> complies s u \<Longrightarrow> complies s (upd_tmu f u)"
  by (rule complies_trans [OF complies_view]) simp_all

lemma complies_scif [complies_intros]:
  assumes "\<And>p. schedId (f p) = schedId p" "\<And>p. brkSchedId (f p) = brkSchedId p" "\<And>p. timing_ok p \<Longrightarrow> timing_ok (f p)" "complies s u"
  shows "complies s (upd_scif f u)"
  by (rule complies_trans [OF complies_view assms(4)]) (simp_all add: assms(1-3))

lemma complies_write [complies_intros]: "ch < 3 \<Longrightarrow> complies s u \<Longrightarrow> complies s (write_TMU_TCNTch ch d u)"
proof (rule complies_trans)
  assume c: "ch < 3"
  show "complies u (write_TMU_TCNTch ch d u)"
    unfolding complies_def
  proof (rule impI)
    assume u: "chip_clients u"
    then have "tmu_wired u" by (simp add: chip_clients_def)
    note w = write_requests [OF this c, of d]
    show "requests u (write_TMU_TCNTch ch d u) \<and> chip_clients (write_TMU_TCNTch ch d u)"
      using w clients_requests [OF w(1)] u by (simp add: kept_def chip_clients_def)
  qed
qed

lemma complies_each: "(\<And>i u. i \<in> set l \<Longrightarrow> complies u (f i u)) \<Longrightarrow> complies s u \<Longrightarrow> complies s (fold f l u)"
proof (induction l arbitrary: u)
  case (Cons a l)
  then show ?case using complies_trans [of u "f a u" s] by simp
qed simp

lemma complies_if [complies_intros]: "(b \<Longrightarrow> complies s t) \<Longrightarrow> (\<not> b \<Longrightarrow> complies s u) \<Longrightarrow> complies s (if b then t else u)"
  by simp

lemma bank_channel: "(bank_index a - n) div 3 < 3 \<longleftrightarrow> bank_index a < n + 9"
  by auto

lemma tmu_writes_complies: "complies s (tmu_write8 a v8 s)" "complies s (tmu_write16 a v16 s)" "complies s (tmu_write32 a v32 s)"
proof -
  have "complies u (turn_on_off_ch i on u)" if "i < 3" for i on and u :: "'a sh4_machine"
    using that by (auto simp: turn_on_off_ch_def Let_def intro!: complies_intros)
  then have "complies s (write_TMU_TSTR v8 s)"
    unfolding write_TMU_TSTR_def by (intro complies_each complies_intros) auto
  then show "complies s (tmu_write8 a v8 s)" by (auto simp: tmu_write8_def Let_def intro!: complies_intros)
  show "complies s (tmu_write16 a v16 s)"
    by (auto simp: tmu_write16_def TMU_TCR_write_def UpdateTMUCounts_def Let_def intro!: complies_intros)
  show "complies s (tmu_write32 a v32 s)" by (auto simp: tmu_write32_def write_TMU_TCNT_def Let_def intro!: complies_intros)
qed

lemma tmu_read_complies: "complies s (snd (tmu_read32 a s))"
proof -
  have "complies s (snd (read_TMU_TCNT ch s))" if "ch < 3" for ch
    using that by (auto simp: read_TMU_TCNT_def reloadCounter_def Let_def intro!: complies_intros)
  then show ?thesis by (auto simp: tmu_read32_def Let_def intro!: complies_refl)
qed

text \<open>The serial port.\<close>

lemma complies_request:
  assumes "i = schedId (scifs u) \<or> i = brkSchedId (scifs u)" "timing_ok (scifs u) \<Longrightarrow> delay_ok c" "complies s u"
  shows "complies s (sh4_sched_request i c u)"
proof (rule complies_trans [OF _ assms(3)])
  show "complies u (sh4_sched_request i c u)"
    unfolding complies_def
  proof (rule impI)
    assume u: "chip_clients u"
    then have i: "i < length (events u)" "sch_cb (events u ! i) \<noteq> None" and d: "delay_ok c"
      using assms(1,2) by (auto simp: chip_clients_def scif_wired_def)
    have r: "requests u (sh4_sched_request i c u)" by (rule requests.request [OF requests.none i d])
    show "requests u (sh4_sched_request i c u) \<and> chip_clients (sh4_sched_request i c u)"
      using r clients_requests [OF r] u by (simp add: chip_clients_def)
  qed
qed

lemma complies_scif_ops [complies_intros]:
  "complies s u \<Longrightarrow> complies s (setStatusBit b u)" "complies s u \<Longrightarrow> complies s (updateInterrupts u)"
  "complies s u \<Longrightarrow> complies s (upd_board f u)" "complies s u \<Longrightarrow> complies s (send_pipe P v u)"
proof -
  have st: "complies u (setStatusBit b u)" "complies u (updateInterrupts u)" "complies u (upd_board f u)" "complies u (send_pipe P v u)"
    by (rule complies_view; simp add: timing_ok_def)+
  show "complies s u \<Longrightarrow> complies s (setStatusBit b u)" "complies s u \<Longrightarrow> complies s (updateInterrupts u)"
    "complies s u \<Longrightarrow> complies s (upd_board f u)" "complies s u \<Longrightarrow> complies s (send_pipe P v u)"
    using st complies_trans by blast+
qed

lemma frame_delay: "timing_ok p \<Longrightarrow> delay_ok (frame_time p)" "timing_ok p \<Longrightarrow> delay_ok (cyclesPerBit p * frameSize p)" "delay_ok (-1)"
  using timing_delay [of p] by (simp_all add: mult.commute delay_ok_def)

lemma complies_break [complies_intros]: "complies s u \<Longrightarrow> complies s (setBreak on u)"
  by (auto simp: setBreak_def Let_def intro!: complies_request complies_intros frame_delay)

lemma complies_baud [complies_intros]:
  assumes "complies s u"
  shows "complies s (updateBaudRate u)"
proof -
  define v where "v = upd_scif (\<lambda>p. p\<lparr>frameSize := frameSize (scifs (updateBaudRate u)), cyclesPerBit := cyclesPerBit (scifs (updateBaudRate u))\<rparr>) u"
  have "updateBaudRate u = sh4_sched_request (schedId (scifs v)) (frame_time (scifs v)) v"
    by (simp add: updateBaudRate_def Let_def v_def)
  moreover have t: "timing_ok (scifs v)"
    using baud_timing [of u] by (simp add: v_def timing_ok_def)
  moreover have "complies u v" by (rule complies_view) (simp_all add: v_def t [unfolded v_def upd_scif_simps])
  ultimately show ?thesis using complies_trans [OF _ assms] by (auto intro!: complies_request frame_delay)
qed

lemma scif_reads_complies: "complies s (snd (scif_read8 i s))" "complies s (snd (scif_read16 i s))"
  by (auto simp: scif_read8_def scif_read16_def SCFRDR2_read_def readStatus_def timing_ok_def intro!: complies_intros split: list.split)

lemma scif_writes_complies: "complies s (scif_write8 P i v8 s)" "complies s (scif_write16 i v16 s)"
proof -
  have "complies s (SCFTDR2_write P v8 s)"
    by (auto simp: SCFTDR2_write_def Let_def timing_ok_def intro!: complies_request complies_intros frame_delay)
  then show "complies s (scif_write8 P i v8 s)"
    by (auto simp: scif_write8_def SCBRR2_write_def timing_ok_def intro!: complies_intros)
  have "complies s (SCSCR2_write v16 s)"
    unfolding SCSCR2_write_def Let_def by (intro complies_intros) (simp_all add: timing_ok_def)
  moreover have "complies s (writeStatus v16 s)"
    unfolding writeStatus_def Let_def by (intro complies_intros) (simp_all add: timing_ok_def)
  moreover have "complies s (SCSPTR2_write v16 s)"
    unfolding SCSPTR2_write_def Let_def by (intro complies_intros) (simp_all add: timing_ok_def)
  moreover have "complies s (SCFCR2_write v16 s)"
    unfolding SCFCR2_write_def Let_def by (intro complies_request complies_intros frame_delay) (simp_all add: timing_ok_def)
  ultimately show "complies s (scif_write16 i v16 s)"
    by (auto simp: scif_write16_def SCSMR2_write_def timing_ok_def intro!: complies_intros)
qed

subsection \<open>Events are on time\<close>

text \<open>
  \<open>chip_run e P brd s t n\<close>: from \<open>s\<close> the machine reached \<open>t\<close> in \<open>n\<close> time slices; between them, in any order, the program wrote and read the
  registers of the timers and of the serial port, did what it liked with everything else, and the board requested events.
\<close>

inductive chip_run for e P brd s where
  start: "chip_run e P brd s s (0 :: nat)"
| slice: "chip_run e P brd s t n \<Longrightarrow> sh4_sched_tick e = sh4_sched_tick_fn (sh4_callbacks P brd) \<Longrightarrow>
    chip_run e P brd s (snd (UpdateSystem_INTC e t)) (n + 1)"
| timers: "chip_run e P brd s t n \<Longrightarrow> u \<in> {tmu_write8 a v8 t, tmu_write16 a v16 t, tmu_write32 a v32 t, snd (tmu_read32 a t)} \<Longrightarrow> chip_run e P brd s u n"
| serial: "chip_run e P brd s t n \<Longrightarrow> u \<in> {scif_write8 P i v8 t, scif_write16 i v16 t, snd (scif_read8 i t), snd (scif_read16 i t)} \<Longrightarrow>
    chip_run e P brd s u n"
| other: "chip_run e P brd s t n \<Longrightarrow> sched_view u = sched_view t \<Longrightarrow> chip_view u = chip_view t \<Longrightarrow> chip_run e P brd s u n"
| board: "chip_run e P brd s t n \<Longrightarrow> requests t u \<Longrightarrow> chip_clients u \<Longrightarrow> chip_run e P brd s u n"

lemma sched_ok_requests: "requests s t \<Longrightarrow> sched_ok s \<Longrightarrow> sched_ok t"
proof (induction rule: requests.induct)
  case (other t u)
  then show ?case using view_fields(4) [OF other.hyps(2)] by simp
next
  case (request t i c)
  let ?u = "set_sched i ((events t ! i)\<lparr>sch_start := sh4_sched_now t, sch_end := request_end c (sh4_sched_now t)\<rparr>) t"
  have ok: "\<forall>e \<in> set (events t). due_in (sh4_sched_now t) HORIZON e"
    using request.IH [OF request.prems] unfolding sched_ok_def by blast
  have "due_in (sh4_sched_now t) HORIZON e" if e: "e \<in> set (events ?u)" for e
  proof -
    have "e \<in> set ((events t)[i := (events t ! i)\<lparr>sch_start := sh4_sched_now t, sch_end := request_end c (sh4_sched_now t)\<rparr>])"
      using e by (simp only: events_ops(1))
    from subsetD [OF set_update_subset_insert this] show ?thesis
    proof (rule insertE)
      assume "e = (events t ! i)\<lparr>sch_start := sh4_sched_now t, sch_end := request_end c (sh4_sched_now t)\<rparr>"
      then show ?thesis by (simp only: request_due [OF request.hyps(4,3)])
    qed (rule bspec [OF ok])
  qed
  then show ?case unfolding request_alt [OF request.hyps(4)] by (intro ffts_ok) simp
qed

definition on_time :: "'q sh4_machine \<Rightarrow> 'q sh4_machine \<Rightarrow> nat \<Rightarrow> bool" where
  "on_time s t n \<longleftrightarrow> sched_ok t \<and> chip_clients t \<and> sh4_sched_now64 t = sh4_sched_now64 s + 448 * of_nat n
     \<and> verify_failed (chip t) = verify_failed (chip s)"

lemma on_time_work: "on_time s t n \<Longrightarrow> requests t u \<Longrightarrow> chip_clients u \<Longrightarrow> on_time s u n"
  using sched_ok_requests [of t u] requests_keep [of t u] by (simp add: on_time_def)

lemma on_time_complies: "on_time s t n \<Longrightarrow> complies t u \<Longrightarrow> on_time s u n"
  using on_time_work [of s t n u] by (simp add: complies_def on_time_def)

lemma on_time_slice:
  fixes t :: "'q sh4_machine"
  assumes "on_time s t n" "lawful_board brd" "sh4_sched_tick e = sh4_sched_tick_fn (sh4_callbacks P brd)"
  shows "on_time s (snd (UpdateSystem_INTC e t)) (n + 1)"
proof -
  define v where "v = (let u = t\<lparr>sh4_sched_next := sh4_sched_next t - 448\<rparr>
    in if sh4_sched_next u < 0 then sh4_sched_tick_fn (sh4_callbacks P brd) 448 u else u)"
  have c: "sched_ok t" "chip_clients t \<and> lawful_board brd" using assms(1,2) by (simp_all add: on_time_def)
  have "sched_ok v \<and> (chip_clients v \<and> lawful_board brd) \<and> sh4_sched_now64 v = sh4_sched_now64 t + 448 \<and> verify_failed (chip v) = verify_failed (chip t)"
    using chip.slice_ok [OF c, of P] unfolding v_def Let_def .
  then have v: "on_time s v (n + 1)" using assms(1) unfolding on_time_def by (simp add: algebra_simps)
  have "snd (UpdateSystem_INTC e t) = (if interrupt_pend (cx v) \<noteq> 0 then v\<lparr>cx := snd (UpdateINTC (cx v))\<rparr> else v)"
    unfolding UpdateSystem_INTC_def Let_def assms(3) v_def by (simp only: split_def prod.sel if_distrib [of snd])
  moreover have "complies v (v\<lparr>cx := x\<rparr>)" for x by (intro complies_intros)
  ultimately show ?thesis using v on_time_complies [OF v] by (cases "interrupt_pend (cx v) = 0") simp_all
qed

lemma run_on_time:
  assumes "chip_run e P brd s t n" "sched_ok s" "chip_clients s" "lawful_board brd"
  shows "on_time s t n"
  using assms(1)
proof (induction rule: chip_run.induct)
  case start
  then show ?case using assms(2,3) by (simp add: on_time_def)
next
  case (slice t n)
  then show ?case using on_time_slice [OF slice.IH assms(4)] by simp
next
  case (timers t n u a v8 v16 v32)
  then show ?case using on_time_complies [OF timers.IH] tmu_writes_complies tmu_read_complies by blast
next
  case (serial t n u i v8 v16)
  then show ?case using on_time_complies [OF serial.IH] scif_writes_complies scif_reads_complies by blast
next
  case (other t n u)
  have "requests t u" by (rule requests.other [OF requests.none other.hyps(2)])
  moreover have "chip_clients u" using other.IH clients_view [OF _ other.hyps(3)] by (simp add: on_time_def)
  ultimately show ?case by (rule on_time_work [OF other.IH])
next
  case (board t n u)
  then show ?case using on_time_work by blast
qed

text \<open>A deadline that has passed is gone.\<close>

lemma deadline_gone:
  assumes "on_time s t n" "e \<in> set (events t)" "sch_end e \<noteq> -1" "uint (sch_end e - sh4_sched_now s) < 448 * int n" "n \<le> 2 ^ 22"
  shows False
proof -
  let ?d = "sch_end e - sh4_sched_now s" and ?k = "448 * int n"
  have n: "int n \<le> 4194304" using assms(5) by simp
  have nw: "sh4_sched_now t = sh4_sched_now s + 448 * of_nat n"
  proof -
    have "sh4_sched_now t = ucast (sh4_sched_now64 s + word_of_int ?k)" using assms(1) by (simp add: on_time_def now_alt)
    also have "\<dots> = sh4_sched_now s + ucast (word_of_int ?k :: u64)" by (simp only: ucast_plus now_alt)
    also have "ucast (word_of_int ?k :: u64) = (word_of_int ?k :: u32)"
      by (transfer fixing: n) simp
    finally show ?thesis by simp
  qed
  have "uint (sch_end e - sh4_sched_now t) \<le> HORIZON" using assms(1-3) by (auto simp: on_time_def sched_ok_def due_in_def)
  moreover have "sch_end e - sh4_sched_now t = word_of_int (uint ?d - ?k)" by (simp add: nw)
  moreover have "uint (word_of_int (uint ?d - ?k) :: u32) = uint ?d - ?k + 2 ^ 32"
  proof -
    have "(d - k + 2 ^ 32) mod 2 ^ 32 = d - k + (2 ^ 32 :: int)" if "0 \<le> d" "d < k" "k \<le> 1879048192" for d k :: int
      using that by (intro mod_pos_pos_trivial) simp_all
    then have "(uint ?d - ?k + 2 ^ 32) mod 2 ^ 32 = uint ?d - ?k + 2 ^ 32" using assms(4) n by simp
    then show ?thesis by (simp add: uint_word_of_int del: of_int_diff)
  qed
  ultimately show False using n uint_ge_0 [of ?d] by simp
qed

text \<open>
  Property C35: the scheduler is on time.  From a state in which no event is overdue, whatever the program does with the timers, the
  serial port and the rest of the machine, and whatever complies events the board requests, the time after \<open>n\<close> slices is \<open>448 n\<close> cycles
  later, no event is overdue, the next event is never skipped, no check of the scheduler has failed, and no deadline that has passed in
  the meantime (2 seconds at most are looked back) is still pending.
\<close>

theorem sched_on_time:
  assumes "chip_run e P brd s t n" "sched_ok s" "chip_clients s" "lawful_board brd"
  shows "sh4_sched_now64 t = sh4_sched_now64 s + 448 * of_nat n
    \<and> (\<forall>ev \<in> set (events t). sch_end ev \<noteq> -1 \<longrightarrow>
         sch_cb ev \<noteq> None \<and> sh4_sched_next t \<le> uint (sch_end ev - sh4_sched_now t) \<and> uint (sch_end ev - sh4_sched_now t) \<le> HORIZON
         \<and> (n \<le> 2 ^ 20 \<longrightarrow> 448 * int n \<le> uint (sch_end ev - sh4_sched_now s)))
    \<and> 0 \<le> sh4_sched_next t \<and> verify_failed (chip t) = verify_failed (chip s)"
proof -
  have t: "on_time s t n" by (rule run_on_time [OF assms])
  have "448 * int n \<le> uint (sch_end ev - sh4_sched_now s)" if "ev \<in> set (events t)" "sch_end ev \<noteq> -1" "n \<le> 2 ^ 20" for ev
    using deadline_gone [OF t that(1,2)] that(3) by (rule_tac ccontr) simp
  then show ?thesis using t by (auto simp: on_time_def sched_ok_def due_in_def)
qed

lemma register_new:
  "\<forall>e \<in> set (events s). sch_cb e \<noteq> None \<Longrightarrow> sh4_sched_register tag cb s =
     (length (events s), upd_chip (\<lambda>c. c\<lparr>sch_list := events s @ [\<lparr>sch_cb = Some cb, sch_tag = tag, sch_start = -1, sch_end = -1\<rparr>]\<rparr>) s)"
proof -
  assume a: "\<forall>e \<in> set (events s). sch_cb e \<noteq> None"
  have "find (\<lambda>i. sch_cb (events s ! i) = None) [0..<length (events s)] = None" using a nth_mem by (fastforce simp: find_None_iff)
  then show ?thesis by (simp only: sh4_sched_register_def Let_def option.case)
qed

lemma events_upd [simp]: "events (upd_tmu f s) = events s"
  by (simp add: upd_tmu_def)

lemma init_example:
  assumes s_def: "s = SCIFSerialPort_init (tmu_init (blank_machine ()))"
  shows "sched_ok s" "chip_clients s" "sh4_sched_now64 s = 0"
proof -
  have u: "[0..<3] = [0, 1, 2 :: nat]" by code_simp
  have b: "events (blank_machine ()) = []" "scifs (blank_machine ()) = scif (blank_chip ())" "tmus (blank_machine ()) = tmu (blank_chip ())"
    "sh4_sched_next (blank_machine ()) = 0" "sh4_sched_ffb (chip (blank_machine ())) = 0" "sh4_sched_next_id (chip (blank_machine ())) = -1"
    by (simp_all add: blank_machine_def blank_chip_def)
  have three: "ch < 3 \<longleftrightarrow> ch = 0 \<or> ch = 1 \<or> ch = (2 :: nat)" for ch by auto
  note d = s_def SCIFSerialPort_init_def tmu_init_def u register_new b blank_chip_def
  show "sched_ok s" by (simp add: d sched_ok_def due_in_def) (simp add: upd_tmu_def upd_scif_def b)
  show "chip_clients s"
    by (simp add: d chip_clients_def tmu_wired_def scif_wired_def timing_ok_def three nth_append all_conj_distrib)
  show "sh4_sched_now64 s = 0" by (simp add: d) (simp add: sh4_sched_now64_def upd_scif_def upd_tmu_def b)
qed

definition no_board :: "nat \<Rightarrow> nat \<Rightarrow> int \<Rightarrow> int \<Rightarrow> 'q sh4_machine \<Rightarrow> int \<times> 'q sh4_machine" where
  "no_board n tag c j s = (0, s)"

theorem sched_on_time_witness:
  "\<forall>A TA h bios P. let s = SCIFSerialPort_init (tmu_init (blank_machine ()));
     t = snd (UpdateSystem_INTC (mem_env 0xFFFFFF A TA h bios (sh4_sched_tick_fn (sh4_callbacks P no_board))) (tmu_write8 0xFFD80004 1 s))
     in sh4_sched_now64 t = 448"
proof (intro allI, unfold Let_def)
  fix A :: "unit onchip addr_map" and TA :: "u32 \<Rightarrow> unit sh4_machine \<Rightarrow> unit sh4_machine" and h
    and bios :: "u32 \<Rightarrow> (unit, unit onchip mem_sys) act" and P :: "unit pipe_ops"
  let ?s = "SCIFSerialPort_init (tmu_init (blank_machine ()))" and ?e = "mem_env 0xFFFFFF A TA h bios (sh4_sched_tick_fn (sh4_callbacks P no_board))"
  have "chip_run ?e P no_board ?s (tmu_write8 0xFFD80004 1 ?s) 0"
    by (rule chip_run.timers [OF chip_run.start, where a = "0xFFD80004" and ?v8.0 = 1 and ?v16.0 = 0 and ?v32.0 = 0]) simp
  then have r: "chip_run ?e P no_board ?s (snd (UpdateSystem_INTC ?e (tmu_write8 0xFFD80004 1 ?s))) (0 + 1)"
    by (rule chip_run.slice) (simp add: mem_env_def)
  have "lawful_board no_board" by (simp add: lawful_board_def no_board_def requests.none)
  from sched_on_time [OF r init_example(1,2) [OF refl] this] show "sh4_sched_now64 (snd (UpdateSystem_INTC ?e (tmu_write8 0xFFD80004 1 ?s))) = 448"
    using init_example(3) [OF refl] by simp
qed

end
