(* ===== verification/Pvr_Mem.thy ===== *)
theory Pvr_Mem
  imports Sh4_Sched
begin

unbundle bit_operations_syntax

section \<open>The memory side of the graphics chip\<close>

text \<open>
  Models \<^verbatim>\<open>core/hw/pvr/pvr_mem.cpp\<close> and the mapping functions of areas 1 and 4 of \<^verbatim>\<open>sh4_mem.cpp\<close>: video memory through
  its 64-bit and 32-bit paths, the writes to the tile accelerator, and the converter from YUV macroblocks to a YUV422 texture.
  Video memory is the block of host memory \<open>vram\<close>; its mask \<open>VM\<close> (8 or 16 MB) is a parameter, and so is \<open>ta_thd_data32_i\<close>,
  the tile accelerator; data is given as a function from offsets to bytes.
\<close>

abbreviation pvrs :: "'q sh4_machine \<Rightarrow> pvr_state" where "pvrs s \<equiv> pvr (chip s)"
abbreviation vram_of :: "'q sh4_machine \<Rightarrow> nat \<Rightarrow> u8" where "vram_of s \<equiv> blocks (dev s) vram"

definition upd_pvr :: "(pvr_state \<Rightarrow> pvr_state) \<Rightarrow> 'q sh4_machine \<Rightarrow> 'q sh4_machine" where
  "upd_pvr f s = upd_chip (\<lambda>c. c\<lparr>pvr := f (pvr c)\<rparr>) s"

definition raise_asic :: "u32 \<Rightarrow> 'q sh4_machine \<Rightarrow> 'q sh4_machine" where
  "raise_asic intr s =
     (let h = asic_RaiseInterrupt intr ((hol (chip s))\<lparr>sh4 := cx s\<rparr>)
      in upd_chip (\<lambda>c. c\<lparr>hol := h\<rparr>) (s\<lparr>cx := sh4 h\<rparr>))"

subsection \<open>The two paths to video memory\<close>

abbreviation (input) VRAM_BANK_BIT :: u32 where "VRAM_BANK_BIT \<equiv> 0x400000"

text \<open>The banks are interleaved every 32 bits.\<close>

definition pvr_map32 :: "u32 \<Rightarrow> u32 \<Rightarrow> u32" where
  "pvr_map32 VM offset32 =
     (let static_bits = VM - (VRAM_BANK_BIT * 2 - 1) + 3;
          offset_bits = (VRAM_BANK_BIT - 1) AND NOT 3;
          bank = (offset32 AND VRAM_BANK_BIT) div VRAM_BANK_BIT;
          rv = offset32 AND static_bits;
          rv = rv OR (offset32 AND offset_bits) * 2
      in rv OR bank * 4)"

definition pvr_read32p8 :: "u32 \<Rightarrow> u32 \<Rightarrow> 'q sh4_machine \<Rightarrow> u8" where
  "pvr_read32p8 VM addr s = vram_of s (unat (pvr_map32 VM addr))"

definition pvr_read32p16 :: "u32 \<Rightarrow> u32 \<Rightarrow> 'q sh4_machine \<Rightarrow> u16" where
  "pvr_read32p16 VM addr s = get16 (vram_of s) (unat (pvr_map32 VM addr AND NOT 1))"

definition pvr_read32p32 :: "u32 \<Rightarrow> u32 \<Rightarrow> 'q sh4_machine \<Rightarrow> u32" where
  "pvr_read32p32 VM addr s = get32 (vram_of s) (unat (pvr_map32 VM addr AND NOT 3))"

definition fb_watch :: "u32 \<Rightarrow> u32 \<Rightarrow> 'q sh4_machine \<Rightarrow> 'q sh4_machine" where
  "fb_watch VM addr s =
     (let vaddr = addr AND VM in
      if fb_watch_addr_start (pvrs s) \<le> vaddr \<and> vaddr < fb_watch_addr_end (pvrs s) then upd_pvr (\<lambda>p. p\<lparr>fb_dirty := True\<rparr>) s else s)"

text \<open>A write of one byte is not possible.\<close>

definition pvr_write32p8 :: "u32 \<Rightarrow> u32 \<Rightarrow> u8 \<Rightarrow> 'q sh4_machine \<Rightarrow> 'q sh4_machine" where
  "pvr_write32p8 VM addr v s = s"

definition pvr_write32p16 :: "u32 \<Rightarrow> u32 \<Rightarrow> u16 \<Rightarrow> 'q sh4_machine \<Rightarrow> 'q sh4_machine" where
  "pvr_write32p16 VM addr v s =
     (let addr = addr AND NOT 1 in upd_block vram (put16 (unat (pvr_map32 VM addr)) v) (fb_watch VM addr s))"

definition pvr_write32p32 :: "u32 \<Rightarrow> u32 \<Rightarrow> u32 \<Rightarrow> 'q sh4_machine \<Rightarrow> 'q sh4_machine" where
  "pvr_write32p32 VM addr v s =
     (let addr = addr AND NOT 3 in upd_block vram (put32 (unat (pvr_map32 VM addr)) v) (fb_watch VM addr s))"

definition access32 :: "bool \<Rightarrow> 'q sh4_machine \<Rightarrow> bool" where
  "access32 upper s = ((if upper then SB_LMMODE1 (chip s) else SB_LMMODE0 (chip s)) = 1)"

definition pvr_read_area4_8 :: "u32 \<Rightarrow> bool \<Rightarrow> u32 \<Rightarrow> 'q sh4_machine \<Rightarrow> u8 \<times> 'q sh4_machine" where
  "pvr_read_area4_8 VM upper addr s =
     (if access32 upper s then pvr_read32p8 VM addr s else vram_of s (unat (addr AND VM)), s)"

definition pvr_read_area4_16 :: "u32 \<Rightarrow> bool \<Rightarrow> u32 \<Rightarrow> 'q sh4_machine \<Rightarrow> u16 \<times> 'q sh4_machine" where
  "pvr_read_area4_16 VM upper addr s =
     (if access32 upper s then pvr_read32p16 VM addr s else get16 (vram_of s) (unat (addr AND VM)), s)"

definition pvr_read_area4_32 :: "u32 \<Rightarrow> bool \<Rightarrow> u32 \<Rightarrow> 'q sh4_machine \<Rightarrow> u32 \<times> 'q sh4_machine" where
  "pvr_read_area4_32 VM upper addr s =
     (if access32 upper s then pvr_read32p32 VM addr s else get32 (vram_of s) (unat (addr AND VM)), s)"

definition pvr_write_area4_8 :: "u32 \<Rightarrow> bool \<Rightarrow> u32 \<Rightarrow> u8 \<Rightarrow> 'q sh4_machine \<Rightarrow> 'q sh4_machine" where
  "pvr_write_area4_8 VM upper addr v s =
     (if access32 upper s then pvr_write32p8 VM addr v s else upd_block vram (\<lambda>b. b(unat (addr AND VM) := v)) s)"

definition pvr_write_area4_16 :: "u32 \<Rightarrow> bool \<Rightarrow> u32 \<Rightarrow> u16 \<Rightarrow> 'q sh4_machine \<Rightarrow> 'q sh4_machine" where
  "pvr_write_area4_16 VM upper addr v s =
     (if access32 upper s then pvr_write32p16 VM addr v s else upd_block vram (put16 (unat (addr AND VM)) v) s)"

definition pvr_write_area4_32 :: "u32 \<Rightarrow> bool \<Rightarrow> u32 \<Rightarrow> u32 \<Rightarrow> 'q sh4_machine \<Rightarrow> 'q sh4_machine" where
  "pvr_write_area4_32 VM upper addr v s =
     (if access32 upper s then pvr_write32p32 VM addr v s else upd_block vram (put32 (unat (addr AND VM)) v) s)"

subsection \<open>The YUV converter\<close>

definition yuv_u_size :: "pvr_state \<Rightarrow> u32" where "yuv_u_size p = TA_YUV_TEX_CTRL p AND 0x3F"
definition yuv_v_size :: "pvr_state \<Rightarrow> u32" where "yuv_v_size p = drop_bit 8 (TA_YUV_TEX_CTRL p) AND 0x3F"
definition yuv_form :: "pvr_state \<Rightarrow> bool" where "yuv_form p = bit (TA_YUV_TEX_CTRL p) 24"

definition YUV_init :: "u32 \<Rightarrow> 'q sh4_machine \<Rightarrow> 'q sh4_machine" where
  "YUV_init VM s =
     upd_pvr (\<lambda>p. p\<lparr>YUV_x_curr := 0, YUV_y_curr := 0, YUV_dest := TA_YUV_TEX_BASE p AND VM, TA_YUV_TEX_CNT := 0,
        YUV_blockcount := (yuv_u_size p + 1) * (yuv_v_size p + 1), YUV_x_size := (yuv_u_size p + 1) * 16,
        YUV_y_size := (yuv_v_size p + 1) * 16, YUV_index := 0\<rparr>) s"

text \<open>Four bytes stored at an offset.\<close>

definition store4 :: "nat \<Rightarrow> u8 \<Rightarrow> u8 \<Rightarrow> u8 \<Rightarrow> u8 \<Rightarrow> (nat \<Rightarrow> u8) \<Rightarrow> nat \<Rightarrow> u8" where
  "store4 i a b c d m = m(i := a, i + 1 := b, i + 2 := c, i + 3 := d)"

text \<open>The loops of \<open>YUV_Block8x8\<close> with its pointers: into the input for chroma and luma, and to two lines of output.\<close>

type_synonym yuv_ptrs = "nat \<times> nat \<times> nat \<times> nat \<times> (nat \<Rightarrow> u8)"

definition yuv_quad :: "(nat \<Rightarrow> u8) \<Rightarrow> yuv_ptrs \<Rightarrow> yuv_ptrs" where
  "yuv_quad inp st =
     (case st of (inuv, iny, line_out_0, line_out_1, m) \<Rightarrow>
        (let u = inp inuv; v = inp (inuv + 64);
             m = store4 line_out_0 u (inp iny) v (inp (iny + 1)) m;
             m = store4 line_out_1 u (inp (iny + 8)) v (inp (iny + 9)) m
         in (inuv + 1, iny + 2, line_out_0 + 4, line_out_1 + 4, m)))"

definition yuv_lines :: "nat \<Rightarrow> (nat \<Rightarrow> u8) \<Rightarrow> yuv_ptrs \<Rightarrow> yuv_ptrs" where
  "yuv_lines xs inp st =
     (case (yuv_quad inp ^^ 4) st of (inuv, iny, line_out_0, line_out_1, m) \<Rightarrow>
        (inuv + 4, iny + 8, line_out_0 + (xs * 4 - 8 * 2), line_out_1 + (xs * 4 - 8 * 2), m))"

definition YUV_Block8x8 :: "nat \<Rightarrow> (nat \<Rightarrow> u8) \<Rightarrow> nat \<Rightarrow> nat \<Rightarrow> nat \<Rightarrow> (nat \<Rightarrow> u8) \<Rightarrow> nat \<Rightarrow> u8" where
  "YUV_Block8x8 xs inp inuv iny out m =
     (case (yuv_lines xs inp ^^ 4) (inuv, iny, out, out + xs * 2, m) of (_, _, _, _, m) \<Rightarrow> m)"

definition YUV_Block384 :: "nat \<Rightarrow> (nat \<Rightarrow> u8) \<Rightarrow> nat \<Rightarrow> (nat \<Rightarrow> u8) \<Rightarrow> nat \<Rightarrow> u8" where
  "YUV_Block384 xs inp out m =
     (let iny = 128;
          m = YUV_Block8x8 xs inp 0 iny out m;
          m = YUV_Block8x8 xs inp 4 (iny + 64) (out + 8 * 2) m;
          m = YUV_Block8x8 xs inp 32 (iny + 128) (out + xs * 8 * 2) m
      in YUV_Block8x8 xs inp 36 (iny + 192) (out + xs * 8 * 2 + 8 * 2) m)"

definition yuv_advance :: "pvr_state \<Rightarrow> pvr_state" where
  "yuv_advance p =
     (let p = p\<lparr>YUV_dest := YUV_dest p + 32, YUV_x_curr := YUV_x_curr p + 16\<rparr> in
      if YUV_x_curr p = YUV_x_size p then
        (let p = p\<lparr>YUV_dest := YUV_dest p + 15 * YUV_x_size p * 2, YUV_x_curr := 0, YUV_y_curr := YUV_y_curr p + 16\<rparr> in
         if YUV_y_curr p = YUV_y_size p then p\<lparr>YUV_y_curr := 0\<rparr> else p)
      else p)"

abbreviation (input) holly_YUV_DMA :: u32 where "holly_YUV_DMA \<equiv> 6"

definition YUV_ConvertMacroBlock :: "(nat \<Rightarrow> u8) \<Rightarrow> 'q sh4_machine \<Rightarrow> 'q sh4_machine" where
  "YUV_ConvertMacroBlock datap s =
     (let s = upd_pvr (\<lambda>p. p\<lparr>TA_YUV_TEX_CNT := TA_YUV_TEX_CNT p + 1\<rparr>) s;
          s = upd_block vram (YUV_Block384 (unat (YUV_x_size (pvrs s))) datap (unat (YUV_dest (pvrs s)))) s;
          s = upd_pvr yuv_advance s
      in if YUV_blockcount (pvrs s) = TA_YUV_TEX_CNT (pvrs s) then raise_asic holly_YUV_DMA s else s)"

text \<open>\<open>memcpy\<close> into \<open>YUV_tempdata\<close>, in units of 32 bytes.\<close>

definition yuv_copy :: "nat \<Rightarrow> (nat \<Rightarrow> u8) \<Rightarrow> nat \<Rightarrow> 'q sh4_machine \<Rightarrow> 'q sh4_machine" where
  "yuv_copy i data n s =
     upd_pvr (\<lambda>p. p\<lparr>YUV_tempdata := (\<lambda>k. if 32 * i \<le> k \<and> k < 32 * (i + n) then data (k - 32 * i) else YUV_tempdata p k)\<rparr>) s"

lemma pvr_simps [simp]:
  "pvrs (upd_pvr f s) = f (pvrs s)" "pvrs (upd_block k g s) = pvrs s" "chip (upd_block k g s) = chip s"
  "blocks (dev (upd_pvr f s)) = blocks (dev s)" "pvrs (raise_asic i s) = pvrs s" "blocks (dev (raise_asic i s)) = blocks (dev s)"
  "blocks (dev (upd_block k g s)) = (blocks (dev s))(k := g (blocks (dev s) k))"
  by (simp_all add: upd_pvr_def upd_block_def raise_asic_def Let_def upd_chip_def)

lemma advance_index [simp]: "YUV_index (yuv_advance p) = YUV_index p"
  by (simp add: yuv_advance_def Let_def)

lemma convert_index [simp]: "YUV_index (pvrs (YUV_ConvertMacroBlock d s)) = YUV_index (pvrs s)"
  by (simp add: YUV_ConvertMacroBlock_def Let_def)

lemma copy_index [simp]: "YUV_index (pvrs (yuv_copy i d n s)) = YUV_index (pvrs s)"
  by (simp add: yuv_copy_def)

text \<open>The loop of \<open>YUV_data\<close>; \<open>YUV_index\<close> is below 12, and the subtraction is exact.\<close>

function YUV_loop :: "(nat \<Rightarrow> u8) \<Rightarrow> nat \<Rightarrow> 'q sh4_machine \<Rightarrow> 'q sh4_machine" where
  "YUV_loop data count s =
     (if count = 0 then s
      else
        (let i = unat (YUV_index (pvrs s)) in
         if i + count \<ge> 12 then
           (let dr = 12 - i;
                s = (if i = 0 then YUV_ConvertMacroBlock data s
                     else upd_pvr (\<lambda>p. p\<lparr>YUV_index := 0\<rparr>)
                       (let s = yuv_copy i data dr s in YUV_ConvertMacroBlock (YUV_tempdata (pvrs s)) s))
            in YUV_loop (\<lambda>k. data (k + 32 * dr)) (count - dr) s)
         else upd_pvr (\<lambda>p. p\<lparr>YUV_index := YUV_index p + of_nat count\<rparr>) (yuv_copy i data count s)))"
  by pat_completeness auto

termination
proof (relation "measure (\<lambda>(d, n, s). 2 * n + (if YUV_index (pvrs s) = 0 then 0 else 1))", goal_cases)
  case (2 data count s i dr x)
  then show ?case by (auto simp: unat_eq_0 Let_def)
qed simp

definition YUV_data :: "u32 \<Rightarrow> (nat \<Rightarrow> u8) \<Rightarrow> nat \<Rightarrow> 'q sh4_machine \<Rightarrow> 'q sh4_machine" where
  "YUV_data VM data count s =
     (if YUV_blockcount (pvrs s) = 0 then s
      else
        (let s = (if YUV_blockcount (pvrs s) = TA_YUV_TEX_CNT (pvrs s) then YUV_init VM s else s)
         in if yuv_form (pvrs s) then s else YUV_loop data count s))"

definition YUV_reset :: "'q sh4_machine \<Rightarrow> 'q sh4_machine" where
  "YUV_reset s =
     upd_pvr (\<lambda>p. p\<lparr>YUV_tempdata := (\<lambda>_. 0), YUV_dest := 0, YUV_blockcount := 0, YUV_x_curr := 0, YUV_y_curr := 0, YUV_x_size := 0,
        YUV_y_size := 0, YUV_index := 0\<rparr>) s"

subsection \<open>Writes to the tile accelerator\<close>

type_synonym 'q ta_input = "(nat \<Rightarrow> u8) \<Rightarrow> 'q sh4_machine \<Rightarrow> 'q sh4_machine"

definition ta_vtx_data32 :: "'q ta_input \<Rightarrow> (nat \<Rightarrow> u8) \<Rightarrow> 'q sh4_machine \<Rightarrow> 'q sh4_machine" where
  "ta_vtx_data32 ta_thd_data32_i data s = ta_thd_data32_i data s"

definition ta_vtx_data :: "'q ta_input \<Rightarrow> (nat \<Rightarrow> u8) \<Rightarrow> nat \<Rightarrow> 'q sh4_machine \<Rightarrow> 'q sh4_machine" where
  "ta_vtx_data ta_thd_data32_i data n s = fold (\<lambda>k. ta_thd_data32_i (\<lambda>i. data (32 * k + i))) [0..<n] s"

definition TAWrite :: "u32 \<Rightarrow> 'q ta_input \<Rightarrow> u32 \<Rightarrow> (nat \<Rightarrow> u8) \<Rightarrow> nat \<Rightarrow> 'q sh4_machine \<Rightarrow> 'q sh4_machine" where
  "TAWrite VM ta address data count s =
     (if address AND 0x800000 = 0 then ta_vtx_data ta data count s else YUV_data VM data count s)"

definition TAWriteSQ :: "u32 \<Rightarrow> 'q ta_input \<Rightarrow> u32 \<Rightarrow> 'q sh4_machine \<Rightarrow> 'q sh4_machine" where
  "TAWriteSQ VM ta address s =
     (let address_w = address AND 0x01FFFFE0;
          sq = (\<lambda>k. blocks (dev s) sq_buffer (sq_index address + k))
      in if address_w < 0x800000 then ta_vtx_data32 ta sq s
         else if address_w < 0x1000000 then YUV_data VM sq 1 s
         else if (if address AND 0x02000000 \<noteq> 0 then SB_LMMODE1 (chip s) else SB_LMMODE0 (chip s)) = 0 then
           (let p = unat (address_w AND VM) in upd_block vram (\<lambda>b i. if p \<le> i \<and> i < p + 32 then sq (i - p) else b i) s)
         else fold (\<lambda>i. pvr_write32p32 VM (address_w + of_nat (4 * i)) (get32 sq (4 * i))) [0..<8] s)"

subsection \<open>Mapping\<close>

definition map_area1 :: "u32 \<Rightarrow> nat \<Rightarrow> nat \<Rightarrow> 'q onchip addr_map \<Rightarrow> 'q onchip addr_map" where
  "map_area1 VM area1_32b base A =
     mirrorMapping (0x06 + base) (0x04 + base) 2
       (mapHandler area1_32b (0x05 + base) (0x05 + base) (mapBlock vram (0x04 + base) (0x04 + base) VM A))"

definition map_area1_init :: "u32 \<Rightarrow> 'q onchip addr_map \<Rightarrow> nat \<times> 'q onchip addr_map" where
  "map_area1_init VM =
     registerHandler (Some (\<lambda>a s. (pvr_read32p8 VM a s, s))) (Some (\<lambda>a s. (pvr_read32p16 VM a s, s))) (Some (\<lambda>a s. (pvr_read32p32 VM a s, s)))
       (Some (pvr_write32p8 VM)) (Some (pvr_write32p16 VM)) (Some (pvr_write32p32 VM))"

definition map_area4_init :: "u32 \<Rightarrow> 'q onchip addr_map \<Rightarrow> nat \<times> nat \<times> 'q onchip addr_map" where
  "map_area4_init VM A =
     (let reg = (\<lambda>up. registerHandler (Some (pvr_read_area4_8 VM up)) (Some (pvr_read_area4_16 VM up)) (Some (pvr_read_area4_32 VM up))
            (Some (pvr_write_area4_8 VM up)) (Some (pvr_write_area4_16 VM up)) (Some (pvr_write_area4_32 VM up)));
          (lower, A) = reg False A;
          (upper, A) = reg True A
      in (lower, upper, A))"

definition map_area4 :: "nat \<Rightarrow> nat \<Rightarrow> nat \<Rightarrow> 'q onchip addr_map \<Rightarrow> 'q onchip addr_map" where
  "map_area4 lower upper base A = mapHandler upper (0x13 + base) (0x13 + base) (mapHandler lower (0x11 + base) (0x11 + base) A)"

subsection \<open>The 32-bit path reaches every word once\<close>

definition vram_mask :: "u32 \<Rightarrow> bool" where "vram_mask VM \<longleftrightarrow> VM = 0x7FFFFF \<or> VM = 0xFFFFFF"

lemma below_32: "n < 32 \<longleftrightarrow> n \<in> set [0, 1, 2, 3, 4, 5, 6, 7, 8, 9, 10, 11, 12, 13, 14, 15, 16, 17, 18, 19, 20, 21, 22, 23, 24, 25, 26, 27, 28, 29, 30, 31 :: nat]"
proof -
  have "[0..<32] = [0, 1, 2, 3, 4, 5, 6, 7, 8, 9, 10, 11, 12, 13, 14, 15, 16, 17, 18, 19, 20, 21, 22, 23, 24, 25, 26, 27, 28, 29, 30, 31 :: nat]" by code_simp
  moreover have "n < 32 \<longleftrightarrow> n \<in> set [0..<32]" by simp
  ultimately show ?thesis by (simp only:)
qed

lemma map32_alt:
  "pvr_map32 VM a = (a AND (VM - 0x7FFFFC)) OR push_bit 1 (a AND 0x3FFFFC) OR push_bit 2 (drop_bit 22 a AND 1)"
proof -
  have "(a AND 0x400000) div 0x400000 = drop_bit 22 (a AND 0x400000)" by (simp add: drop_bit_eq_div)
  also have "\<dots> = drop_bit 22 a AND 1" by (simp add: drop_bit_and)
  finally have b: "(a AND 0x400000) div 0x400000 = drop_bit 22 a AND 1" .
  have "VM - (0x400000 * 2 - 1) + 3 = VM - 0x7FFFFC" by simp
  then show ?thesis unfolding pvr_map32_def Let_def b by (simp add: push_bit_eq_mult or.assoc)
qed

lemma map32_bit:
  assumes "vram_mask VM"
  shows "bit (pvr_map32 VM a) n \<longleftrightarrow>
    (if n < 2 then bit a n else if n = 2 then bit a 22 else if n < 23 then bit a (n - 1) else n = 23 \<and> VM = 0xFFFFFF \<and> bit a 23)"
proof (cases "n < 32")
  case True
  show ?thesis
    using assms True unfolding vram_mask_def below_32 map32_alt
    by (simp only: list.set) (elim disjE insertE emptyE; simp only: bit_or_iff bit_and_iff bit_push_bit_iff bit_drop_bit_eq comp_apply; simp add: bit_simps)
next
  case False
  then show ?thesis by (auto simp: bit_simps dest: bit_imp_le_length)
qed

lemma vm_bit: "vram_mask VM \<Longrightarrow> bit VM n \<longleftrightarrow> n < 23 \<or> n = 23 \<and> VM = 0xFFFFFF"
proof -
  have m: "(0x7FFFFF :: u32) = mask 23" "(0xFFFFFF :: u32) = mask 24" by (simp_all add: mask_eq_exp_minus_1)
  have "bit (0x7FFFFF :: u32) n \<longleftrightarrow> n < 23" "bit (0xFFFFFF :: u32) n \<longleftrightarrow> n < 24"
    unfolding m by (auto simp: bit_mask_iff)
  then show "vram_mask VM \<Longrightarrow> bit VM n \<longleftrightarrow> n < 23 \<or> n = 23 \<and> VM = 0xFFFFFF" by (auto simp: vram_mask_def)
qed

lemma map32_inj:
  assumes "vram_mask VM"
  shows "pvr_map32 VM a = pvr_map32 VM b \<longleftrightarrow> a AND VM = b AND VM"
proof
  assume e: "pvr_map32 VM a = pvr_map32 VM b"
  have "bit a n = bit b n" if "bit VM n" for n
  proof -
    define k where "k = (if n < 2 then n else if n < 22 then n + 1 else if n = 22 then 2 else n)"
    have "bit (pvr_map32 VM a) k = bit (pvr_map32 VM b) k" using e by simp
    then show ?thesis using that by (auto simp: map32_bit [OF assms] vm_bit [OF assms] k_def split: if_splits)
  qed
  then show "a AND VM = b AND VM" by (auto simp: bit_eq_iff bit_and_iff)
next
  assume "a AND VM = b AND VM"
  then have "bit a n = bit b n" if "bit VM n" for n using that by (metis bit_and_iff)
  then have h: "n < 23 \<or> n = 23 \<and> VM = 0xFFFFFF \<Longrightarrow> bit a n = bit b n" for n by (simp only: vm_bit [OF assms])
  have p: "n < 23 \<Longrightarrow> bit a (n - 1) = bit b (n - 1)" for n using h [of "n - 1"] by linarith
  have "bit (pvr_map32 VM a) n = bit (pvr_map32 VM b) n" for n
    unfolding map32_bit [OF assms] using h [of n] p [of n] h [of 22] h [of 23] by auto
  then show "pvr_map32 VM a = pvr_map32 VM b" by (intro bit_eqI) simp
qed

lemma not3_bit: "bit (x AND - 4 :: u32) n \<longleftrightarrow> bit x n \<and> 2 \<le> n"
proof -
  have "(- 4 :: u32) = NOT (mask 2)" by (simp add: mask_eq_exp_minus_1)
  then show ?thesis by (auto simp only: bit_and_iff bit_not_iff bit_mask_iff dest: bit_imp_le_length) (auto dest: bit_imp_le_length)
qed

lemma map32_aligned: "vram_mask VM \<Longrightarrow> pvr_map32 VM (a AND - 4) = pvr_map32 VM a AND - 4"
  by (rule bit_eqI) (auto simp: map32_bit not3_bit)

lemma aligned_unat: "\<exists>k. unat (x AND - 4 :: u32) = 4 * k"
proof -
  have "2 \<le> n \<Longrightarrow> Suc (Suc (n - 2)) = n" for n :: nat by simp
  then have "(x AND - 4) = push_bit 2 (drop_bit 2 x)" by (intro bit_word_eqI) (auto simp: not3_bit bit_push_bit_iff bit_drop_bit_eq)
  then have "4 dvd unat (x AND - 4)" by (simp add: push_bit_eq_mult unat_word_ariths dvd_mod)
  then show ?thesis by (auto elim: dvdE)
qed

lemma get_put32: "get32 (put32 i v b) i = v"
proof -
  have g: "get16 (put16 j w c) j = w" for j w c
    by (rule bit_word_eqI) (auto simp: get16_def put16_def bit_simps)
  have "get16 (put16 (i + 2) x (put16 i y b)) i = get16 (put16 i y b) i" for x y by (simp add: get16_def put16_def)
  then show ?thesis unfolding get32_def put32_def g
    by (intro bit_word_eqI) (auto simp: g bit_simps)
qed

lemma get_put32_other: "i + 4 \<le> j \<or> j + 4 \<le> i \<Longrightarrow> get32 (put32 i v b) j = get32 b j"
  by (auto simp: get32_def put32_def get16_def put16_def)

lemma fb_watch_blocks [simp]: "blocks (dev (fb_watch VM a s)) = blocks (dev s)"
  by (simp add: fb_watch_def Let_def)

lemma path_write:
  assumes "vram_mask VM"
  shows "pvr_read32p32 VM b (pvr_write32p32 VM a v s) = (if a AND VM AND - 4 = b AND VM AND - 4 then v else pvr_read32p32 VM b s)"
proof -
  let ?i = "unat (pvr_map32 VM (a AND - 4))" and ?j = "unat (pvr_map32 VM (b AND - 4))"
  have r: "pvr_read32p32 VM b t = get32 (vram_of t) ?j" for t :: "'a sh4_machine"
    by (simp add: pvr_read32p32_def map32_aligned [OF assms])
  have w: "vram_of (pvr_write32p32 VM a v s) = put32 ?i v (vram_of s)"
    by (simp add: pvr_write32p32_def Let_def)
  have eq: "?i = ?j \<longleftrightarrow> a AND VM AND - 4 = b AND VM AND - 4"
    unfolding word_unat_eq_iff [symmetric] map32_inj [OF assms] by (simp only: and.assoc and.commute [of "- 4" VM])
  have "?i = ?j \<or> ?i + 4 \<le> ?j \<or> ?j + 4 \<le> ?i"
  proof -
    obtain k l where "?i = 4 * k" "?j = 4 * l" using aligned_unat map32_aligned [OF assms] by metis
    then show ?thesis by (cases k l rule: linorder_cases) auto
  qed
  then show ?thesis unfolding r w eq [symmetric] using get_put32 get_put32_other by metis
qed

text \<open>The words \<open>k\<close> of bank 0 and of bank 1 are the two halves of the 64-bit word \<open>k\<close>.\<close>

lemma banks_interleave:
  "pvr_map32 0x7FFFFF (push_bit 2 (take_bit 20 k)) = push_bit 3 (take_bit 20 k)"
  "pvr_map32 0x7FFFFF (push_bit 2 (take_bit 20 k) OR 0x400000) = push_bit 3 (take_bit 20 k) OR 4"
proof -
  have vm: "vram_mask 0x7FFFFF" by (simp add: vram_mask_def)
  have b: "bit (0x400000 :: u32) n \<longleftrightarrow> n = 22" "bit (4 :: u32) n \<longleftrightarrow> n = 2" for n
    using bit_exp_iff [where ?'a = "32 word", of 22 n] bit_exp_iff [where ?'a = "32 word", of 2 n] by (auto simp: bit_exp_iff)
  have three: "n < 3 \<longleftrightarrow> n = 0 \<or> n = 1 \<or> n = 2" for n :: nat by auto
  have lo: "(bit (pvr_map32 0x7FFFFF (push_bit 2 (take_bit 20 k))) n = bit (push_bit 3 (take_bit 20 k)) n)
      \<and> (bit (pvr_map32 0x7FFFFF (push_bit 2 (take_bit 20 k) OR 0x400000)) n = bit (push_bit 3 (take_bit 20 k) OR 4) n)" if "n < 32" for n
  proof (cases "n < 3")
    case True
    then show "(bit (pvr_map32 0x7FFFFF (push_bit 2 (take_bit 20 k))) n = bit (push_bit 3 (take_bit 20 k)) n)
      \<and> (bit (pvr_map32 0x7FFFFF (push_bit 2 (take_bit 20 k) OR 0x400000)) n = bit (push_bit 3 (take_bit 20 k) OR 4) n)"
      unfolding three map32_bit [OF vm] bit_push_bit_iff bit_take_bit_iff bit_or_iff b by auto
  next
    case False
    then obtain m where m: "n = m + 3" by (metis add.commute le_Suc_ex linorder_not_less)
    have "m + 3 - 1 - 2 = m" "m + 3 - 1 \<noteq> 22 \<longleftrightarrow> m \<noteq> 20" "m + 3 - 3 = m" "2 \<le> m + 3 - 1" by auto
    then show "(bit (pvr_map32 0x7FFFFF (push_bit 2 (take_bit 20 k))) n = bit (push_bit 3 (take_bit 20 k)) n)
      \<and> (bit (pvr_map32 0x7FFFFF (push_bit 2 (take_bit 20 k) OR 0x400000)) n = bit (push_bit 3 (take_bit 20 k) OR 4) n)"
      using that unfolding m map32_bit [OF vm] bit_push_bit_iff bit_take_bit_iff bit_or_iff b by auto
  qed
  show "pvr_map32 0x7FFFFF (push_bit 2 (take_bit 20 k)) = push_bit 3 (take_bit 20 k)"
    "pvr_map32 0x7FFFFF (push_bit 2 (take_bit 20 k) OR 0x400000) = push_bit 3 (take_bit 20 k) OR 4"
    using lo by (auto intro!: bit_word_eqI)
qed

subsection \<open>Both paths see the same words\<close>

lemma map32_in_vram: "vram_mask VM \<Longrightarrow> pvr_map32 VM a AND VM = pvr_map32 VM a"
  by (rule bit_word_eqI) (auto simp: bit_and_iff map32_bit vm_bit)

text \<open>
  Property C38: the 32-bit path to video memory is a rearrangement of it.  A word written at an address is what a read of the same
  address gives, whatever the size of the memory and however many mirrors the address has, and a read of another word is not affected;
  the word lies inside video memory, at the place where the 64-bit path finds it too; two addresses share a place exactly when
  they agree in the bits of the mask; and the words at \<open>4 k\<close> and \<open>4 MB + 4 k\<close> are the two halves of the 64-bit word \<open>k\<close>.
\<close>

theorem vram_paths:
  assumes "vram_mask VM"
  shows "pvr_read32p32 VM b (pvr_write32p32 VM a v s) = (if a AND VM AND - 4 = b AND VM AND - 4 then v else pvr_read32p32 VM b s)
    \<and> (SB_LMMODE0 (chip s) \<noteq> 1 \<longrightarrow> fst (pvr_read_area4_32 VM False (pvr_map32 VM (a AND - 4)) (pvr_write32p32 VM a v s)) = v)
    \<and> pvr_map32 VM a \<le> VM \<and> (pvr_map32 VM a = pvr_map32 VM b \<longleftrightarrow> a AND VM = b AND VM)
    \<and> pvr_map32 0x7FFFFF (push_bit 2 (take_bit 20 k)) = push_bit 3 (take_bit 20 k)
    \<and> pvr_map32 0x7FFFFF (push_bit 2 (take_bit 20 k) OR 0x400000) = push_bit 3 (take_bit 20 k) OR 4"
proof -
  have "chip (pvr_write32p32 VM a v s) = chip s \<or> chip (pvr_write32p32 VM a v s) = chip (upd_pvr (\<lambda>p. p\<lparr>fb_dirty := True\<rparr>) s)"
    by (simp add: pvr_write32p32_def fb_watch_def Let_def)
  then have "SB_LMMODE0 (chip (pvr_write32p32 VM a v s)) = SB_LMMODE0 (chip s)" by (auto simp: upd_pvr_def)
  then have b: "SB_LMMODE0 (chip s) \<noteq> 1 \<longrightarrow> fst (pvr_read_area4_32 VM False (pvr_map32 VM (a AND - 4)) (pvr_write32p32 VM a v s)) = v"
    by (simp add: pvr_read_area4_32_def access32_def map32_in_vram [OF assms] get_put32 pvr_write32p32_def Let_def)
  have c: "pvr_map32 VM a \<le> VM" using map32_in_vram [OF assms, of a] word_and_le1 [of "pvr_map32 VM a" VM] by metis
  show ?thesis using path_write [OF assms, of b a v s] b c map32_inj [OF assms, of a b] banks_interleave [of k] by blast
qed

theorem vram_paths_witness:
  "pvr_read32p32 0x7FFFFF 0x400010 (pvr_write32p32 0x7FFFFF 0x400012 0xCAFE (blank_machine ())) = 0xCAFE
    \<and> fst (pvr_read_area4_32 0x7FFFFF False (pvr_map32 0x7FFFFF (0x400012 AND - 4)) (pvr_write32p32 0x7FFFFF 0x400012 0xCAFE (blank_machine ()))) = 0xCAFE"
proof -
  have vm: "vram_mask 0x7FFFFF" by (simp add: vram_mask_def)
  have l: "SB_LMMODE0 (chip (blank_machine ())) \<noteq> 1" by (simp add: blank_machine_def blank_chip_def)
  have a: "0x400012 AND 0x7FFFFF AND - 4 = (0x400010 AND 0x7FFFFF AND - 4 :: u32)" by simp
  show ?thesis using vram_paths [OF vm, of "0x400010" "0x400012" "0xCAFE" "blank_machine ()"] l unfolding if_P [OF a] by blast
qed

end
