(* ===== verification/Yuv.thy ===== *)
theory Yuv
  imports Pvr_Mem
begin

subsection \<open>A macroblock becomes 16 by 16 pixels\<close>

definition spec8 :: "(nat \<Rightarrow> u8) \<Rightarrow> nat \<Rightarrow> nat \<Rightarrow> nat \<Rightarrow> nat \<Rightarrow> u8" where
  "spec8 inp uv y r c =
     (if c mod 4 = 0 then inp (uv + 8 * (r div 2) + c div 4)
      else if c mod 4 = 2 then inp (uv + 64 + 8 * (r div 2) + c div 4) else inp (y + 8 * r + c div 2))"

lemma store4_apply:
  "store4 i a b c d m p = (if i \<le> p \<and> p < i + 4 then (if p = i then a else if p = i + 1 then b else if p = i + 2 then c else d) else m p)"
  by (auto simp: store4_def)

lemma store4_other: "\<not> (i \<le> p \<and> p < i + 4) \<Longrightarrow> store4 i a b c d m p = m p"
  by (auto simp: store4_def)

lemma below_4: "j < 4 \<Longrightarrow> j = 0 \<or> j = 1 \<or> j = 2 \<or> j = (3 :: nat)"
  by auto

lemma store_quad:
  assumes "i \<le> p" "p < i + 4" "\<And>j. j < 4 \<Longrightarrow> f (4 * n + j) = (if j = 0 then a else if j = 1 then b else if j = 2 then c else d)"
  shows "store4 i a b c d m p = f (p + 4 * n - i)"
proof -
  obtain j where j: "p = i + j" "j < 4" using assms(1,2) by (metis add_less_cancel_left le_Suc_ex)
  have e: "p + 4 * n - i = 4 * n + j" using j by simp
  show ?thesis unfolding e using assms(3) [OF j(2)] j below_4 [OF j(2)] by (auto simp: store4_apply)
qed

lemma quad_line:
  assumes "j < 4"
  shows "spec8 inp uv y 0 (4 * n + j) =
    (if j = 0 then inp (uv + n) else if j = 1 then inp (y + 2 * n) else if j = 2 then inp (uv + 64 + n) else inp (y + (2 * n + 1)))"
proof -
  have h: "(4 * n + 0) mod 4 = 0" "(4 * n + 1) mod 4 = 1" "(4 * n + 2) mod 4 = 2" "(4 * n + 3) mod 4 = 3" "(4 * n + 0) div 4 = n"
    "(4 * n + 1) div 2 = 2 * n" "(4 * n + 2) div 4 = n" "(4 * n + 3) div 2 = 2 * n + 1" by presburger+
  have z: "8 * (0 div 2) = (0 :: nat)" "8 * 0 = (0 :: nat)" by simp_all
  from below_4 [OF assms] show ?thesis
    by (elim disjE) (simp_all only: spec8_def h z, simp_all)
qed

lemma quad_step:
  "yuv_quad inp (uv, y, a, b, m) = (uv + 1, y + 2, a + 4, b + 4,
     store4 b (inp uv) (inp (y + 8)) (inp (uv + 64)) (inp (y + 9)) (store4 a (inp uv) (inp y) (inp (uv + 64)) (inp (y + 1)) m))"
  by (simp add: yuv_quad_def Let_def)

lemma quads:
  assumes "n \<le> 4" "a + 16 \<le> b"
  shows "(yuv_quad inp ^^ n) (uv, y, a, b, m) =
    (uv + n, y + 2 * n, a + 4 * n, b + 4 * n,
     \<lambda>p. if a \<le> p \<and> p < a + 4 * n then spec8 inp uv y 0 (p - a)
       else if b \<le> p \<and> p < b + 4 * n then spec8 inp uv (y + 8) 0 (p - b) else m p)"
  using assms(1)
proof (induction n)
  case (Suc n)
  let ?M = "\<lambda>p. if a \<le> p \<and> p < a + 4 * n then spec8 inp uv y 0 (p - a)
       else if b \<le> p \<and> p < b + 4 * n then spec8 inp uv (y + 8) 0 (p - b) else m p"
  let ?m0 = "store4 (a + 4 * n) (inp (uv + n)) (inp (y + 2 * n)) (inp (uv + n + 64)) (inp (y + 2 * n + 1)) ?M"
  let ?m1 = "store4 (b + 4 * n) (inp (uv + n)) (inp (y + 2 * n + 8)) (inp (uv + n + 64)) (inp (y + 2 * n + 9)) ?m0"
  have "(yuv_quad inp ^^ Suc n) (uv, y, a, b, m) = (uv + Suc n, y + 2 * Suc n, a + 4 * Suc n, b + 4 * Suc n, ?m1)"
    unfolding funpow.simps comp_apply Suc.IH [OF Suc_leD [OF Suc.prems]] quad_step by simp
  moreover have "?m1 p = (if a \<le> p \<and> p < a + 4 * Suc n then spec8 inp uv y 0 (p - a)
       else if b \<le> p \<and> p < b + 4 * Suc n then spec8 inp uv (y + 8) 0 (p - b) else m p)" for p
  proof (cases "b + 4 * n \<le> p \<and> p < b + 4 * n + 4")
    case True
    have "?m1 p = spec8 inp uv (y + 8) 0 (p + 4 * n - (b + 4 * n))"
    proof (rule store_quad)
      have e: "y + 2 * n + 8 = y + 8 + 2 * n" "uv + n + 64 = uv + 64 + n" "y + 2 * n + 9 = y + 8 + (2 * n + 1)" by simp_all
      fix j :: nat assume "j < 4"
      from quad_line [OF this, of inp uv "y + 8" n]
      show "spec8 inp uv (y + 8) 0 (4 * n + j) =
        (if j = 0 then inp (uv + n) else if j = 1 then inp (y + 2 * n + 8) else if j = 2 then inp (uv + n + 64) else inp (y + 2 * n + 9))"
        by (simp only: e)
    qed (use True in auto)
    then show ?thesis using True assms Suc.prems by auto
  next
    case b: False
    then have e: "?m1 p = ?m0 p" by (rule store4_other)
    show ?thesis
    proof (cases "a + 4 * n \<le> p \<and> p < a + 4 * n + 4")
      case True
      have "?m0 p = spec8 inp uv y 0 (p + 4 * n - (a + 4 * n))"
        proof (rule store_quad)
        fix j :: nat assume "j < 4"
        from quad_line [OF this, of inp uv y n]
        show "spec8 inp uv y 0 (4 * n + j) =
          (if j = 0 then inp (uv + n) else if j = 1 then inp (y + 2 * n) else if j = 2 then inp (uv + n + 64) else inp (y + 2 * n + 1))"
          by (simp only: ac_simps)
      qed (use True in auto)
      then show ?thesis using True e assms Suc.prems by auto
    next
      case False
      then have "?m0 p = ?M p" by (rule store4_other)
      then show ?thesis using e b False assms Suc.prems by auto
    qed
  qed
  ultimately show ?case by (simp only: fun_eq_iff prod.inject) simp
qed (auto simp: fun_eq_iff)

text \<open>Positions in lines of \<open>W\<close> bytes.\<close>

lemma in_row:
  fixes out :: nat
  assumes "c0 + w \<le> W"
  shows "out + c0 + W * r \<le> p \<and> p < out + c0 + W * r + w \<longleftrightarrow>
      out \<le> p \<and> (p - out) div W = r \<and> c0 \<le> (p - out) mod W \<and> (p - out) mod W < c0 + w"
    and "out \<le> p \<Longrightarrow> (p - out) div W = r \<Longrightarrow> p - (out + c0 + W * r) = (p - out) mod W - c0"
proof -
  show "out + c0 + W * r \<le> p \<and> p < out + c0 + W * r + w \<longleftrightarrow>
      out \<le> p \<and> (p - out) div W = r \<and> c0 \<le> (p - out) mod W \<and> (p - out) mod W < c0 + w"
  proof
    assume a: "out + c0 + W * r \<le> p \<and> p < out + c0 + W * r + w"
    define c where "c = p - (out + c0 + W * r)"
    have c: "c < w" "p - out = W * r + (c0 + c)" using a by (auto simp: c_def)
    then have "c0 + c < W" using assms by simp
    then have "(p - out) div W = r" "(p - out) mod W = c0 + c" unfolding c(2) by simp_all
    then show "out \<le> p \<and> (p - out) div W = r \<and> c0 \<le> (p - out) mod W \<and> (p - out) mod W < c0 + w" using a c(1) by simp
  next
    assume a: "out \<le> p \<and> (p - out) div W = r \<and> c0 \<le> (p - out) mod W \<and> (p - out) mod W < c0 + w"
    have "W * r + (p - out) mod W = p - out" using a mult_div_mod_eq [of W "p - out"] by metis
    then have "p = out + W * r + (p - out) mod W" using a by linarith
    then show "out + c0 + W * r \<le> p \<and> p < out + c0 + W * r + w" using a by linarith
  qed
  show "out \<le> p \<Longrightarrow> (p - out) div W = r \<Longrightarrow> p - (out + c0 + W * r) = (p - out) mod W - c0"
    using mult_div_mod_eq [of W "p - out"] by auto
qed

lemma merge_rows:
  fixes R :: nat
  assumes "A \<longleftrightarrow> k \<and> R = r \<and> c" "B \<longleftrightarrow> k \<and> R = r + 1 \<and> c" "k \<Longrightarrow> R = r \<Longrightarrow> x = d" "k \<Longrightarrow> R = r + 1 \<Longrightarrow> y = d"
    "\<And>n. g n = f 1 n"
  shows "(if A then f 0 x else if B then g y else z) = (if k \<and> r \<le> R \<and> R < r + 2 \<and> c then f (R - r) d else z)"
proof -
  have "r \<le> R \<and> R < r + 2 \<longleftrightarrow> R = r \<or> R = r + 1" by auto
  then show ?thesis using assms by auto
qed

lemma lines_step:
  assumes "16 \<le> xs" "c0 + 16 \<le> 2 * xs"
  shows "yuv_lines xs inp (uv, y, out + c0 + 2 * xs * r, out + c0 + 2 * xs * (r + 1), m) =
    (uv + 8, y + 16, out + c0 + 2 * xs * (r + 2), out + c0 + 2 * xs * (r + 3),
     \<lambda>p. if out \<le> p \<and> r \<le> (p - out) div (2 * xs) \<and> (p - out) div (2 * xs) < r + 2
            \<and> c0 \<le> (p - out) mod (2 * xs) \<and> (p - out) mod (2 * xs) < c0 + 16
       then spec8 inp uv y ((p - out) div (2 * xs) - r) ((p - out) mod (2 * xs) - c0) else m p)"
proof -
  let ?W = "2 * xs"
  let ?a = "out + c0 + ?W * r" and ?b = "out + c0 + ?W * (r + 1)"
  have ab: "?a + 16 \<le> ?b" using assms by (simp add: algebra_simps)
  have s8: "spec8 inp uv (y + 8) 0 c = spec8 inp uv y 1 c" for c by (simp add: spec8_def)
  have "(if ?a \<le> p \<and> p < ?a + 4 * 4 then spec8 inp uv y 0 (p - ?a)
       else if ?b \<le> p \<and> p < ?b + 4 * 4 then spec8 inp uv (y + 8) 0 (p - ?b) else m p) =
     (if out \<le> p \<and> r \<le> (p - out) div ?W \<and> (p - out) div ?W < r + 2 \<and> c0 \<le> (p - out) mod ?W \<and> (p - out) mod ?W < c0 + 16
       then spec8 inp uv y ((p - out) div ?W - r) ((p - out) mod ?W - c0) else m p)" for p
  proof (rule merge_rows [where f = "spec8 inp uv y" and g = "spec8 inp uv (y + 8) 0"])
    have f: "(4 :: nat) * 4 = 16" by simp
    show "?a \<le> p \<and> p < ?a + 4 * 4 \<longleftrightarrow> out \<le> p \<and> (p - out) div ?W = r \<and> c0 \<le> (p - out) mod ?W \<and> (p - out) mod ?W < c0 + 16"
      unfolding f by (rule in_row(1) [OF assms(2)])
    show "?b \<le> p \<and> p < ?b + 4 * 4 \<longleftrightarrow> out \<le> p \<and> (p - out) div ?W = r + 1 \<and> c0 \<le> (p - out) mod ?W \<and> (p - out) mod ?W < c0 + 16"
      unfolding f by (rule in_row(1) [OF assms(2)])
    show "out \<le> p \<Longrightarrow> (p - out) div ?W = r \<Longrightarrow> p - ?a = (p - out) mod ?W - c0" by (rule in_row(2) [OF assms(2)])
    show "spec8 inp uv (y + 8) 0 n = spec8 inp uv y 1 n" for n by (rule s8)
    show "out \<le> p \<Longrightarrow> (p - out) div ?W = r + 1 \<Longrightarrow> p - ?b = (p - out) mod ?W - c0" by (rule in_row(2) [OF assms(2)])
  qed
  then have m: "(\<lambda>p. if ?a \<le> p \<and> p < ?a + 4 * 4 then spec8 inp uv y 0 (p - ?a)
       else if ?b \<le> p \<and> p < ?b + 4 * 4 then spec8 inp uv (y + 8) 0 (p - ?b) else m p) =
     (\<lambda>p. if out \<le> p \<and> r \<le> (p - out) div ?W \<and> (p - out) div ?W < r + 2 \<and> c0 \<le> (p - out) mod ?W \<and> (p - out) mod ?W < c0 + 16
       then spec8 inp uv y ((p - out) div ?W - r) ((p - out) mod ?W - c0) else m p)" by (rule ext)
  have l: "?a + 4 * 4 + (xs * 4 - 8 * 2) = out + c0 + ?W * (r + 2)" "?b + 4 * 4 + (xs * 4 - 8 * 2) = out + c0 + ?W * (r + 3)"
    using assms(1) by (simp_all add: algebra_simps)
  show ?thesis unfolding yuv_lines_def quads [OF order_refl ab] prod.case m l by simp
qed

lemma lines_run:
  assumes "16 \<le> xs" "c0 + 16 \<le> 2 * xs"
  shows "(yuv_lines xs inp ^^ n) (uv, y, out + c0 + 2 * xs * r, out + c0 + 2 * xs * (r + 1), m) =
    (uv + 8 * n, y + 16 * n, out + c0 + 2 * xs * (r + 2 * n), out + c0 + 2 * xs * (r + 2 * n + 1),
     \<lambda>p. if out \<le> p \<and> r \<le> (p - out) div (2 * xs) \<and> (p - out) div (2 * xs) < r + 2 * n
            \<and> c0 \<le> (p - out) mod (2 * xs) \<and> (p - out) mod (2 * xs) < c0 + 16
       then spec8 inp uv y ((p - out) div (2 * xs) - r) ((p - out) mod (2 * xs) - c0) else m p)"
proof (induction n)
  case (Suc n)
  have shift: "spec8 inp (uv + 8 * n) (y + 16 * n) (R - (r + 2 * n)) C = spec8 inp uv y (R - r) C" if R: "r + 2 * n \<le> R" for R C
  proof -
    obtain k where k: "R = r + 2 * n + k" using R le_Suc_ex by blast
    have "R - r = 2 * n + k" "R - (r + 2 * n) = k" "(2 * n + k) div 2 = n + k div 2" using k by simp_all
    then show ?thesis by (simp add: spec8_def algebra_simps)
  qed
  have f: "(if A \<and> r + 2 * n \<le> R \<and> R < r + 2 * n + 2 \<and> c \<and> d then spec8 inp (uv + 8 * n) (y + 16 * n) (R - (r + 2 * n)) C
      else if A \<and> r \<le> R \<and> R < r + 2 * n \<and> c \<and> d then spec8 inp uv y (R - r) C else z) =
    (if A \<and> r \<le> R \<and> R < r + 2 * Suc n \<and> c \<and> d then spec8 inp uv y (R - r) C else z)" for A R c d C z
    using shift [of R C] by auto
  show ?case
    unfolding funpow.simps comp_apply Suc.IH lines_step [OF assms] f by (simp add: add_mult_distrib2)
qed (auto simp: fun_eq_iff)

lemma block8:
  assumes "16 \<le> xs" "c0 + 16 \<le> 2 * xs"
  shows "YUV_Block8x8 xs inp uv y (out + c0 + 2 * xs * r) m p =
    (if out \<le> p \<and> r \<le> (p - out) div (2 * xs) \<and> (p - out) div (2 * xs) < r + 8
            \<and> c0 \<le> (p - out) mod (2 * xs) \<and> (p - out) mod (2 * xs) < c0 + 16
       then spec8 inp uv y ((p - out) div (2 * xs) - r) ((p - out) mod (2 * xs) - c0) else m p)"
proof -
  have o: "out + c0 + 2 * xs * r + xs * 2 = out + c0 + 2 * xs * (r + 1)" by (simp add: algebra_simps)
  show ?thesis unfolding YUV_Block8x8_def o lines_run [OF assms] by simp
qed

text \<open>The byte at column \<open>c\<close> of row \<open>r\<close> of the picture of a macroblock: blue and red difference for pairs of pixels, and luma.\<close>

definition yuv_byte :: "(nat \<Rightarrow> u8) \<Rightarrow> nat \<Rightarrow> nat \<Rightarrow> u8" where
  "yuv_byte inp r c =
     (if c mod 4 = 0 then inp (8 * (r div 2) + c div 4)
      else if c mod 4 = 2 then inp (64 + 8 * (r div 2) + c div 4)
      else (let x = c div 2 in inp (128 + 64 * (2 * (r div 8) + x div 8) + 8 * (r mod 8) + x mod 8)))"

lemma quadrants:
  assumes "r < 8" "c < 16"
  shows "spec8 inp 0 128 r c = yuv_byte inp r c" "spec8 inp 4 (128 + 64) r c = yuv_byte inp r (16 + c)"
    "spec8 inp 32 (128 + 128) r c = yuv_byte inp (8 + r) c" "spec8 inp 36 (128 + 192) r c = yuv_byte inp (8 + r) (16 + c)"
proof -
  define k where "k = c div 2"
  have k: "k < 8" using assms(2) by (simp add: k_def)
  have h: "(16 + c) mod 4 = c mod 4" "(16 + c) div 4 = 4 + c div 4" "(16 + c) div 2 = 8 + k" "(8 + r) div 2 = 4 + r div 2"
    unfolding k_def by presburger+
  have g: "(8 + r) div 8 = 1" "(8 + r) mod 8 = r" "r div 8 = 0" "r mod 8 = r" using assms(1) by simp_all
  have f: "k div 8 = 0" "k mod 8 = k" "(8 + k) div 8 = 1" "(8 + k) mod 8 = k" using k by simp_all
  note u = spec8_def yuv_byte_def Let_def h g f k_def [symmetric]
  show "spec8 inp 0 128 r c = yuv_byte inp r c" unfolding u by simp
  show "spec8 inp 4 (128 + 64) r c = yuv_byte inp r (16 + c)" unfolding u by (simp add: ac_simps)
  show "spec8 inp 32 (128 + 128) r c = yuv_byte inp (8 + r) c" unfolding u by (simp add: ac_simps)
  show "spec8 inp 36 (128 + 192) r c = yuv_byte inp (8 + r) (16 + c)" unfolding u by (simp add: ac_simps)
qed

lemma macroblock_picture:
  assumes "16 \<le> xs"
  shows "YUV_Block384 xs inp out m p =
    (if out \<le> p \<and> (p - out) div (2 * xs) < 16 \<and> (p - out) mod (2 * xs) < 32
     then yuv_byte inp ((p - out) div (2 * xs)) ((p - out) mod (2 * xs)) else m p)"
proof -
  define R where "R = (p - out) div (2 * xs)"
  define C where "C = (p - out) mod (2 * xs)"
  have c: "0 + 16 \<le> 2 * xs" "16 + 16 \<le> 2 * xs" using assms by simp_all
  have o: "YUV_Block384 xs inp out m =
     YUV_Block8x8 xs inp 36 (128 + 192) (out + 16 + 2 * xs * 8)
       (YUV_Block8x8 xs inp 32 (128 + 128) (out + 0 + 2 * xs * 8)
         (YUV_Block8x8 xs inp 4 (128 + 64) (out + 16 + 2 * xs * 0) (YUV_Block8x8 xs inp 0 128 (out + 0 + 2 * xs * 0) m)))"
    by (simp add: YUV_Block384_def Let_def ac_simps)
  have e: "YUV_Block384 xs inp out m p =
     (if out \<le> p \<and> 8 \<le> R \<and> R < 8 + 8 \<and> 16 \<le> C \<and> C < 16 + 16 then spec8 inp 36 (128 + 192) (R - 8) (C - 16)
      else if out \<le> p \<and> 8 \<le> R \<and> R < 8 + 8 \<and> 0 \<le> C \<and> C < 0 + 16 then spec8 inp 32 (128 + 128) (R - 8) (C - 0)
      else if out \<le> p \<and> 0 \<le> R \<and> R < 0 + 8 \<and> 16 \<le> C \<and> C < 16 + 16 then spec8 inp 4 (128 + 64) (R - 0) (C - 16)
      else if out \<le> p \<and> 0 \<le> R \<and> R < 0 + 8 \<and> 0 \<le> C \<and> C < 0 + 16 then spec8 inp 0 128 (R - 0) (C - 0) else m p)"
    unfolding o block8 [OF assms c(1)] block8 [OF assms c(2)] R_def C_def by (rule refl)
  show ?thesis
  proof (cases "out \<le> p \<and> R < 16 \<and> C < 32")
    case True
    have q: "8 \<le> R \<Longrightarrow> 8 + (R - 8) = R" "16 \<le> C \<Longrightarrow> 16 + (C - 16) = C" by simp_all
    have l: "R - 8 < 8" "C - 16 < 16" using True by linarith+
    show ?thesis
      using True e quadrants [of R C inp] quadrants [of "R - 8" C inp] quadrants [of R "C - 16" inp] quadrants [of "R - 8" "C - 16" inp] q l
      unfolding R_def [symmetric] C_def [symmetric] by (cases "R < 8"; cases "C < 16") simp_all
  next
    case False
    then show ?thesis unfolding R_def [symmetric] C_def [symmetric] e by auto
  qed
qed

subsection \<open>Where the picture goes\<close>

text \<open>The destination is the pixel of the current position in a texture that begins at \<open>base\<close>.\<close>

definition yuv_at :: "u32 \<Rightarrow> pvr_state \<Rightarrow> bool" where
  "yuv_at base p \<longleftrightarrow> YUV_dest p = base + 2 * (YUV_y_curr p * YUV_x_size p + YUV_x_curr p)"

definition yuv_last :: "pvr_state \<Rightarrow> bool" where
  "yuv_last p \<longleftrightarrow> YUV_x_curr p + 16 = YUV_x_size p \<and> YUV_y_curr p + 16 = YUV_y_size p"

lemma advance_at:
  assumes "yuv_at base p" "\<not> yuv_last p"
  shows "yuv_at base (yuv_advance p)"
proof (cases "YUV_x_curr p + 16 = YUV_x_size p")
  case True
  then have "YUV_x_size p = YUV_x_curr p + 16" by simp
  then show ?thesis using assms by (simp add: yuv_at_def yuv_last_def yuv_advance_def Let_def algebra_simps)
next
  case False
  then show ?thesis using assms by (simp add: yuv_at_def yuv_advance_def Let_def algebra_simps)
qed

text \<open>
  After the last macroblock of a texture the position is the first again and the destination is not: it is the first byte after the
  texture, until \<open>YUV_init\<close> is called at the beginning of the next transfer.
\<close>

lemma yuv_overrun:
  assumes "yuv_at base p" "yuv_last p"
  shows "YUV_x_curr (yuv_advance p) = 0 \<and> YUV_y_curr (yuv_advance p) = 0
    \<and> YUV_dest (yuv_advance p) = base + 2 * (YUV_y_size p * YUV_x_size p)"
proof -
  have e: "YUV_x_size p = YUV_x_curr p + 16" "YUV_y_size p = YUV_y_curr p + 16" using assms(2) by (simp_all add: yuv_last_def)
  then have "yuv_advance p = p\<lparr>YUV_dest := YUV_dest p + 32 + 15 * YUV_x_size p * 2, YUV_x_curr := 0, YUV_y_curr := 0\<rparr>"
    by (simp add: yuv_advance_def Let_def)
  then show ?thesis using assms(1) by (simp add: yuv_at_def e algebra_simps)
qed

lemma convert_pvr: "pvrs (YUV_ConvertMacroBlock d s) = yuv_advance ((pvrs s)\<lparr>TA_YUV_TEX_CNT := TA_YUV_TEX_CNT (pvrs s) + 1\<rparr>)"
  by (simp add: YUV_ConvertMacroBlock_def Let_def)

lemma advance_frame: "YUV_x_size (yuv_advance p) = YUV_x_size p \<and> TA_YUV_TEX_CNT (yuv_advance p) = TA_YUV_TEX_CNT p"
  by (simp add: yuv_advance_def Let_def)

lemma convert_vram:
  "vram_of (YUV_ConvertMacroBlock d s) = YUV_Block384 (unat (YUV_x_size (pvrs s))) d (unat (YUV_dest (pvrs s))) (vram_of s)"
  by (simp add: YUV_ConvertMacroBlock_def Let_def)


definition yuv_example :: "unit sh4_machine" where
  "yuv_example = upd_pvr (\<lambda>p. p\<lparr>YUV_dest := 0x1000, YUV_x_size := 32, YUV_y_size := 16\<rparr>) (blank_machine ())"


end
