(* ===== verification/Sh4_Cycles.thy ===== *)
theory Sh4_Cycles
  imports Sh4_Sched
begin

unbundle bit_operations_syntax

section \<open>The cost of external accesses\<close>

text \<open>
  Models the functions of \<^verbatim>\<open>core/hw/sh4/sh4_cycles.cpp\<close> that give the cycles of an access by address, size and platform, and
  the members of \<open>Sh4Cycles\<close> (\<^verbatim>\<open>sh4_cycles.h\<close>) built on them; the cycles of an instruction are in theory \<open>Sh4_Run\<close>.  The
  ratio of the clocks is 1 in every object of the class.
\<close>

datatype platform = dreamcast | naomi | naomi2 | atomiswave | systemsp

definition isConsole :: "platform \<Rightarrow> bool" where "isConsole p = (p = dreamcast)"
definition isAtomiswave :: "platform \<Rightarrow> bool" where "isAtomiswave p = (p = atomiswave)"
definition isArcade :: "platform \<Rightarrow> bool" where "isArcade p = (\<not> isConsole p)"

definition by_size :: "u32 \<Rightarrow> int \<Rightarrow> int \<Rightarrow> int \<Rightarrow> int \<Rightarrow> int" where
  "by_size sz a b c d = (if sz = 1 then a else if sz = 2 then b else if sz = 4 then c else d)"

definition within :: "u32 \<Rightarrow> u32 \<Rightarrow> u32 \<Rightarrow> bool" where "within a lo hi = (lo \<le> a \<and> a \<le> hi)"

text \<open>Area 0 behind the boot and flash memories, with the address reduced to 25 bits; \<open>None\<close> leaves the \<open>switch\<close>.\<close>

definition read_area0 :: "platform \<Rightarrow> u32 \<Rightarrow> u32 \<Rightarrow> int option" where
  "read_area0 p addr sz =
     (if within addr 0x005F6800 0x005F69FF then Some 5
      else if within addr 0x005F6C00 0x005F6CFF then Some 22
      else if within addr 0x005F7000 0x005F70FF then (if isArcade p then Some 20 else Some 39)
      else if within addr 0x005F7400 0x005F74FF then Some 24
      else if within addr 0x005F7800 0x005F78FF then Some 38
      else if within addr 0x005F7C00 0x005F7CFF then Some 24
      else if within addr 0x005F8000 0x005F9FFF then Some 34
      else if within addr 0x00600000 0x006007FF then (if isConsole p then Some 20 else Some 67)
      else if within addr 0x00700000 0x00FFFFFF then Some (uint (40 * sz div 4))
      else if within addr 0x01000000 0x01FFFFFF then Some (by_size sz 56 56 60 84)
      else None)"

definition readExternalAccessCycles :: "platform \<Rightarrow> u32 \<Rightarrow> u32 \<Rightarrow> u32 \<Rightarrow> int" where
  "readExternalAccessCycles p flash_size addr0 sz =
     (if addr0 AND 0xFC000000 = 0xE0000000 then 0
      else
        (let addr = addr0 AND 0x1FFFFFFF; area = drop_bit 26 addr; unmapped = 60 in
         if area = 0 then
           (if \<not> isAtomiswave p \<and> addr < 0x00200000 then by_size sz 44 63 99 618
            else if \<not> isAtomiswave p \<and> addr < 0x00200000 + flash_size then by_size sz 41 55 83 489
            else if isAtomiswave p \<and> (addr < 0x00020000 \<or> addr \<ge> 0x00200000 \<and> addr < 0x00200000 + flash_size) then by_size sz 41 55 83 489
            else (case read_area0 p (addr AND 0x01FFFFFF) sz of Some c \<Rightarrow> c | None \<Rightarrow> unmapped))
         else if area = 1 then by_size sz 41 41 41 61
         else if area = 2 then 60
         else if area = 3 then 7
         else if area = 4 then (if within addr 0x11000000 0x11FFFFFF \<or> within addr 0x13000000 0x13FFFFFF then 61 else unmapped)
         else if area = 5 then by_size sz 56 56 60 84
         else if area = 6 then 60
         else 0))"

definition write_area0 :: "platform \<Rightarrow> u32 \<Rightarrow> u32 \<Rightarrow> int option" where
  "write_area0 p addr sz =
     (if within addr 0x005F6800 0x005F69FF then Some 5
      else if within addr 0x005F6C00 0x005F6CFF then Some 12
      else if within addr 0x005F7000 0x005F70FF then (if isArcade p then Some 14 else Some 28)
      else if within addr 0x005F7400 0x005F74FF then Some 12
      else if within addr 0x005F7800 0x005F78FF then Some 12
      else if within addr 0x005F7C00 0x005F7CFF then Some 12
      else if within addr 0x005F8000 0x005F9FFF then Some 14
      else if within addr 0x00600000 0x006007FF then (if isAtomiswave p then Some 14 else Some 44)
      else if within addr 0x00700000 0x00FFFFFF then Some (uint (12 * sz div 4))
      else if within addr 0x01000000 0x01FFFFFF then Some (by_size sz 28 28 28 52)
      else None)"

definition writeExternalAccessCycles :: "platform \<Rightarrow> u32 \<Rightarrow> u32 \<Rightarrow> u32 \<Rightarrow> int" where
  "writeExternalAccessCycles p flash_size addr0 sz =
     (if addr0 AND 0xFC000000 = 0xE0000000 then 0
      else
        (let addr = addr0 AND 0x1FFFFFFF; area = drop_bit 26 addr; unmapped = 14 in
         if area = 0 then
           (if \<not> isAtomiswave p \<and> addr < 0x00200000 then 99
            else if \<not> isAtomiswave p \<and> addr < 0x00200000 + flash_size then 28
            else if isAtomiswave p \<and> addr < 0x00020000 then 28
            else if isAtomiswave p \<and> addr \<ge> 0x00200000 \<and> addr < 0x00200000 + flash_size then 14
            else (case write_area0 p (addr AND 0x01FFFFFF) sz of Some c \<Rightarrow> c | None \<Rightarrow> unmapped))
         else if area = 1 then by_size sz 12 12 12 38
         else if area = 2 then 12
         else if area = 3 then 4
         else if area = 4 then
           (if within addr 0x10000000 0x107FFFFF \<or> within addr 0x12000000 0x127FFFFF then 7
            else if within addr 0x10800000 0x10FFFFFF \<or> within addr 0x12800000 0x12FFFFFF then 9
            else if within addr 0x11000000 0x11FFFFFF \<or> within addr 0x13000000 0x13FFFFFF then 5 else unmapped)
         else if area = 5 then by_size sz 28 28 28 52
         else if area = 6 then 14
         else 0))"

text \<open>Members of the class; the platform and the size of the flash memory are settings.\<close>

record settings =
  set_platform :: platform
  set_flash_size :: u32

definition readAccessCycles :: "settings \<Rightarrow> u32 \<Rightarrow> u32 \<Rightarrow> int" where
  "readAccessCycles p addr sz = readExternalAccessCycles (set_platform p) (set_flash_size p) addr sz * 2"

definition writeAccessCycles :: "settings \<Rightarrow> u32 \<Rightarrow> u32 \<Rightarrow> int" where
  "writeAccessCycles p addr sz = writeExternalAccessCycles (set_platform p) (set_flash_size p) addr sz * 2"

definition add_cycles :: "int \<Rightarrow> 'q sh4_machine \<Rightarrow> 'q sh4_machine" where
  "add_cycles cycles s = s\<lparr>cycle_counter := cycle_counter s - cycles\<rparr>"

definition addReadAccessCycles :: "settings \<Rightarrow> u32 \<Rightarrow> u32 \<Rightarrow> 'q sh4_machine \<Rightarrow> 'q sh4_machine" where
  "addReadAccessCycles p addr sz s = add_cycles (readAccessCycles p addr sz) s"

definition addWriteAccessCycles :: "settings \<Rightarrow> u32 \<Rightarrow> u32 \<Rightarrow> 'q sh4_machine \<Rightarrow> 'q sh4_machine" where
  "addWriteAccessCycles p addr sz s = add_cycles (writeAccessCycles p addr sz) s"

definition cycles_now :: "'q sh4_machine \<Rightarrow> u64" where
  "cycles_now s = sh4_sched_now64 s + 448 - word_of_int (cycle_counter s)"

subsection \<open>Bounds\<close>

lemma by_size_bound:
  "0 \<le> a \<Longrightarrow> 0 \<le> b \<Longrightarrow> 0 \<le> c \<Longrightarrow> 0 \<le> d \<Longrightarrow> 0 \<le> by_size sz a b c d"
  "a \<le> M \<Longrightarrow> b \<le> M \<Longrightarrow> c \<le> M \<Longrightarrow> d \<le> M \<Longrightarrow> by_size sz a b c d \<le> M"
  by (simp_all add: by_size_def)

text \<open>An access of at most 32 bytes costs at most 618 cycles of the bus.\<close>

lemma scaled_bound:
  assumes "sz \<le> (32 :: u32)"
  shows "uint (40 * sz div 4) \<le> 320" "uint (12 * sz div 4) \<le> 96"
proof -
  have "unat sz \<le> 32" using assms by (simp add: word_le_nat_alt)
  then have "unat (40 * sz) = 40 * unat sz" "unat (12 * sz) = 12 * unat sz"
    by (simp_all add: unat_word_ariths)
  then have "unat (40 * sz div 4) = 10 * unat sz" "unat (12 * sz div 4) = 3 * unat sz" by (simp_all add: unat_div)
  then have "unat (40 * sz div 4) \<le> 320" "unat (12 * sz div 4) \<le> 96" using \<open>unat sz \<le> 32\<close> by simp_all
  then show "uint (40 * sz div 4) \<le> 320" "uint (12 * sz div 4) \<le> 96" by (simp_all only: uint_nat of_nat_numeral [symmetric, where ?'a = int] of_nat_le_iff)
qed

lemma read_cycles_bound:
  assumes "sz \<le> 32"
  shows "0 \<le> readExternalAccessCycles p f addr sz \<and> readExternalAccessCycles p f addr sz \<le> 618"
proof -
  have "0 \<le> c \<and> c \<le> 618" if "read_area0 p a sz = Some c" for a c
    using scaled_bound [OF assms] that by (auto simp: read_area0_def by_size_bound split: if_splits)
  then have "0 \<le> (case read_area0 p a sz of Some c \<Rightarrow> c | None \<Rightarrow> 60) \<and> (case read_area0 p a sz of Some c \<Rightarrow> c | None \<Rightarrow> 60) \<le> 618" for a
    by (cases "read_area0 p a sz") simp_all
  then show ?thesis by (simp add: readExternalAccessCycles_def Let_def by_size_bound)
qed

text \<open>On the console the modem's registers are read at the rate of an arcade board's, and the arcade boards at the modem's.\<close>

lemma modem_cycles_swapped:
  "readExternalAccessCycles dreamcast 0x20000 0xA0600004 1 = 20" "readExternalAccessCycles atomiswave 0x20000 0xA0600004 1 = 67"
  "writeExternalAccessCycles dreamcast 0x20000 0xA0600004 1 = 44" "writeExternalAccessCycles atomiswave 0x20000 0xA0600004 1 = 14"
  by code_simp+

end
