(* ===== verification/Sh4_Cache.thy ===== *)
theory Sh4_Cache
  imports Sh4_Cycles
begin

unbundle bit_operations_syntax

section \<open>The caches and the exact MMU of the SH-4\<close>

text \<open>
  Models \<^verbatim>\<open>core/hw/sh4/sh4_cache.h\<close> with the translation it uses when the emulator is built with \<^verbatim>\<open>STRICT_MODE\<close>: the functions of
  \<^verbatim>\<open>mmu.cpp\<close> that search the UTLB and the ITLB as the processor does.  In other builds only the cache arrays in the region P4
  are left of the caches.  A failed \<open>verify\<close> is the outcome \<open>Fatal\<close>.
\<close>

subsection \<open>The exact MMU\<close>

definition PR_of :: "TLB_Entry \<Rightarrow> nat" where "PR_of t = unat (drop_bit 5 (Data t) AND 3)"
definition C_of :: "TLB_Entry \<Rightarrow> bool" where "C_of t = bit (Data t) 3"
definition D_of :: "TLB_Entry \<Rightarrow> bool" where "D_of t = bit (Data t) 2"
definition WT_of :: "TLB_Entry \<Rightarrow> bool" where "WT_of t = bit (Data t) 0"
definition MMUCR_SV :: "u32 \<Rightarrow> bool" where "MMUCR_SV v = bit v 8"
definition MMUCR_SQMD :: "u32 \<Rightarrow> bool" where "MMUCR_SQMD v = bit v 9"
definition MMUCR_URB :: "u32 \<Rightarrow> nat" where "MMUCR_URB v = unat (drop_bit 18 v AND 0x3F)"
definition MMUCR_LRUI :: "u32 \<Rightarrow> u32" where "MMUCR_LRUI v = drop_bit 26 v"

abbreviation user_mode :: "'p machine \<Rightarrow> bool" where "user_mode s \<equiv> \<not> sr_MD (sr_status (cx s))"

definition mmu_match :: "u32 \<Rightarrow> TLB_Entry \<Rightarrow> 'p machine \<Rightarrow> bool" where
  "mmu_match va t s =
     (V_of t \<and> page_of t AND mmu_mask (size_of t) = va AND mmu_mask (size_of t)
      \<and> (let needAsidMatch = (\<not> SH_of t \<and> (user_mode s \<or> \<not> MMUCR_SV (CCN_MMUCR (dev s))))
         in \<not> needAsidMatch \<or> ASID_of (Address t) = ASID_of (CCN_PTEH (dev s))))"

definition translated :: "u32 \<Rightarrow> TLB_Entry \<Rightarrow> u32" where
  "translated va t = (frame_of t AND mmu_mask (size_of t)) OR (va AND NOT (mmu_mask (size_of t)))"

text \<open>The search of a table: one match, none, or several.\<close>

definition tlb_search :: "u32 \<Rightarrow> (nat \<Rightarrow> TLB_Entry) \<Rightarrow> nat \<Rightarrow> 'p machine \<Rightarrow> MmuError + nat" where
  "tlb_search va tlb n s =
     (case filter (\<lambda>i. mmu_match va (tlb i) s) [0..<n] of [] \<Rightarrow> Inl TLB_MISS | [i] \<Rightarrow> Inr i | _ \<Rightarrow> Inl TLB_MHIT)"

definition next_URC :: "u32 \<Rightarrow> u32" where
  "next_URC v =
     (let urc = (MMUCR_URC v + 1) mod 64; urc = (if MMUCR_URB v = urc then 0 else urc)
      in (v AND NOT 0xFC00) OR push_bit 10 (of_nat urc))"

definition strict_full_lookup :: "u32 \<Rightarrow> 'p machine \<Rightarrow> (MmuError + TLB_Entry \<times> u32) \<times> 'p machine" where
  "strict_full_lookup va s =
     (let s = upd_dev (\<lambda>d. d\<lparr>CCN_MMUCR := next_URC (CCN_MMUCR d)\<rparr>) s
      in (case tlb_search va (UTLB (dev s)) 64 s of Inl e \<Rightarrow> Inl e | Inr i \<Rightarrow> Inr (UTLB (dev s) i, translated va (UTLB (dev s) i)), s))"

definition mmu_QACR_SQ :: "u32 \<Rightarrow> 'p machine \<Rightarrow> u32" where
  "mmu_QACR_SQ va s = push_bit 26 (QACR_Area (if bit va 5 then CCN_QACR1 (dev s) else CCN_QACR0 (dev s))) OR (va AND 0x03FFFFE0)"

text \<open>What the protection of a page says to an access.\<close>

definition protection :: "bool \<Rightarrow> TLB_Entry \<Rightarrow> 'p machine \<Rightarrow> MmuError" where
  "protection write t s =
     (if PR_of t div 2 = 0 \<and> user_mode s then PROTECTED
      else if write \<and> PR_of t mod 2 = 0 then PROTECTED
      else if write \<and> \<not> D_of t then FIRSTWRITE
      else MMU_NONE)"

definition strict_full_SQ :: "bool \<Rightarrow> u32 \<Rightarrow> 'p machine \<Rightarrow> (MmuError + u32) \<times> 'p machine" where
  "strict_full_SQ write va s =
     (if va AND 3 \<noteq> 0 \<or> MMUCR_SQMD (CCN_MMUCR (dev s)) \<and> user_mode s then (Inl BADADDR, s)
      else if MMUCR_AT (CCN_MMUCR (dev s)) then
        (case strict_full_lookup va s of
           (Inl e, s) \<Rightarrow> (Inl e, s)
         | (Inr (t, rv), s) \<Rightarrow> (case protection write t s of MMU_NONE \<Rightarrow> Inr (rv AND NOT 31) | e \<Rightarrow> Inl e, s))
      else (Inr (mmu_QACR_SQ va s), s))"

text \<open>The translations of data and of instructions that other accesses use in such a build.\<close>

definition strict_data_translation :: "bool \<Rightarrow> u32 \<Rightarrow> 'p machine \<Rightarrow> (MmuError + u32) \<times> 'p machine" where
  "strict_data_translation write va s =
     (if write \<and> va AND 0xFC000000 = 0xE0000000 then
        (case strict_full_SQ True va s of (Inl e, s) \<Rightarrow> (Inl e, s) | (Inr _, s) \<Rightarrow> (Inr va, s))
      else if user_mode s \<and> bit va 31 then (Inl BADADDR, s)
      else if va AND 0xFC000000 = 0x7C000000 then (Inr va, s)
      else if fast_reg_lut (drop_bit 29 va) then (Inr va, s)
      else
        (case strict_full_lookup va s of
           (Inl e, s) \<Rightarrow> (Inl e, s)
         | (Inr (t, rv), s) \<Rightarrow>
             (case protection write t s of
                MMU_NONE \<Rightarrow> Inr (if rv AND 0x1C000000 = 0x1C000000 then rv OR 0xF0000000 else rv) | e \<Rightarrow> Inl e, s)))"

text \<open>The least recently used entry of the ITLB, from the six bits LRUI.\<close>

definition ITLB_LRU_OR :: "u32 list" where "ITLB_LRU_OR = [0x00, 0x20, 0x14, 0x0B]"
definition ITLB_LRU_AND :: "u32 list" where "ITLB_LRU_AND = [0x07, 0x39, 0x3E, 0x3F]"

definition ITLB_LRU_USE :: "u32 \<Rightarrow> nat option" where
  "ITLB_LRU_USE i =
     find (\<lambda>e. let match_key = NOT (ITLB_LRU_AND ! e) AND 0x3F; match_mask = match_key OR ITLB_LRU_OR ! e
               in i AND match_mask = match_key) [0..<4]"

definition touch_itlb :: "nat \<Rightarrow> u32 \<Rightarrow> u32" where
  "touch_itlb e lrui = (lrui AND ITLB_LRU_AND ! e) OR ITLB_LRU_OR ! e"

definition set_LRUI :: "u32 \<Rightarrow> u32 \<Rightarrow> u32" where
  "set_LRUI lrui v = (v AND 0x03FFFFFF) OR push_bit 26 lrui"

definition itlb_hit :: "u32 \<Rightarrow> nat \<Rightarrow> 'q sh4_machine \<Rightarrow> (MmuError + TLB_Entry \<times> u32, 'q onchip mem_sys) outcome" where
  "itlb_hit va e s =
     Done (Inr (ITLB (chip s) e, translated va (ITLB (chip s) e)))
       (upd_dev (\<lambda>d. d\<lparr>CCN_MMUCR := set_LRUI (touch_itlb e (MMUCR_LRUI (CCN_MMUCR d))) (CCN_MMUCR d)\<rparr>) s)"

definition mmu_instruction_lookup :: "u32 \<Rightarrow> (MmuError + TLB_Entry \<times> u32, 'q onchip mem_sys) act" where
  "mmu_instruction_lookup va s =
     (case tlb_search va (ITLB (chip s)) 4 s of
        Inl TLB_MISS \<Rightarrow>
          (case strict_full_lookup va s of
             (Inl e, s) \<Rightarrow> Done (Inl e) s
           | (Inr (t, _), s) \<Rightarrow>
               (case ITLB_LRU_USE (MMUCR_LRUI (CCN_MMUCR (dev s))) of
                  None \<Rightarrow> Fatal
                | Some r \<Rightarrow>
                    (let s = upd_chip (\<lambda>c. c\<lparr>ITLB := (ITLB c)(r := t)\<rparr>) s in
                     case tlb_search va (ITLB (chip s)) 4 s of
                       Inl TLB_MISS \<Rightarrow> Fatal
                     | Inl e \<Rightarrow> Done (Inl e) s
                     | Inr e \<Rightarrow> itlb_hit va e s)))
      | Inl e \<Rightarrow> Done (Inl e) s
      | Inr e \<Rightarrow> itlb_hit va e s)"

definition strict_instruction_translation :: "u32 \<Rightarrow> (MmuError + u32, 'q onchip mem_sys) act" where
  "strict_instruction_translation va s =
     (if user_mode s \<and> bit va 31 then Done (Inl BADADDR) s
      else if drop_bit 29 va = 7 then Done (Inl BADADDR) s
      else if fast_reg_lut (drop_bit 29 va) then Done (Inr va) s
      else bnd (mmu_instruction_lookup va s)
        (\<lambda>r s. case r of Inl e \<Rightarrow> Done (Inl e) s
          | Inr (t, rv) \<Rightarrow> if PR_of t div 2 = 0 \<and> user_mode s then Done (Inl PROTECTED) s else Done (Inr rv) s))"

subsection \<open>Areas\<close>

definition cachedArea :: "u32 \<Rightarrow> bool" where "cachedArea area = ([True, True, True, True, True, False, True, False] ! unat area)"
definition translatedArea :: "u32 \<Rightarrow> bool" where "translatedArea area = ([True, True, True, True, False, False, True, False] ! unat area)"

definition CCR_OCE :: "u32 \<Rightarrow> bool" where "CCR_OCE v = bit v 0"
definition CCR_WT :: "u32 \<Rightarrow> bool" where "CCR_WT v = bit v 1"
definition CCR_CB :: "u32 \<Rightarrow> bool" where "CCR_CB v = bit v 2"
definition CCR_ORA :: "u32 \<Rightarrow> bool" where "CCR_ORA v = bit v 5"
definition CCR_OIX :: "u32 \<Rightarrow> bool" where "CCR_OIX v = bit v 7"
definition CCR_ICE :: "u32 \<Rightarrow> bool" where "CCR_ICE v = bit v 8"
definition CCR_IIX :: "u32 \<Rightarrow> bool" where "CCR_IIX v = bit v 15"

abbreviation ccr :: "'p machine \<Rightarrow> u32" where "ccr s \<equiv> CCN_CCR (dev s)"

text \<open>\<open>GetMemPtr\<close>: the place in system memory, for an address in area 3 whose bytes do not run over the end.\<close>

definition GetMemPtr :: "u32 \<Rightarrow> u32 \<Rightarrow> u32 \<Rightarrow> nat option" where
  "GetMemPtr RAM_MASK addr sz =
     (if drop_bit 29 addr = 7 then None
      else if drop_bit 26 addr AND 7 = 3 then
        (if (addr AND RAM_MASK) + sz > RAM_MASK + 1 then None else Some (unat (addr AND RAM_MASK)))
      else None)"

text \<open>The parameters of the caches: the mask of system memory, the address map and the settings.\<close>

record 'q cache_env =
  ce_mask :: u32
  ce_map :: "'q onchip addr_map"
  ce_set :: settings

definition tag_of :: "u32 \<Rightarrow> u32" where "tag_of physAddr = drop_bit 10 physAddr AND 0x7FFFF"

text \<open>The 32 bytes of a line from memory.\<close>

definition fetch_line :: "'q cache_env \<Rightarrow> u32 \<Rightarrow> 'q sh4_machine \<Rightarrow> (nat \<Rightarrow> u8) \<times> 'q sh4_machine" where
  "fetch_line E line_addr s =
     (case GetMemPtr (ce_mask E) line_addr 32 of
        Some p \<Rightarrow> (\<lambda>k. blocks (dev s) mem_b (p + k), s)
      | None \<Rightarrow> fold (\<lambda>i (b, s). let (v, s) = addrspace_read32 (ce_map E) (line_addr + of_nat (4 * i)) s in (put32 (4 * i) v b, s))
                  [0..<8] (\<lambda>_. 0, s))"

subsection \<open>The instruction cache\<close>

definition set_iline :: "nat \<Rightarrow> cache_line \<Rightarrow> 'q sh4_machine \<Rightarrow> 'q sh4_machine" where
  "set_iline i l s = upd_chip (\<lambda>c. c\<lparr>icache_lines := (icache_lines c)(i := l)\<rparr>) s"

definition icache_translate :: "u32 \<Rightarrow> (MmuError + u32 \<times> bool, 'q onchip mem_sys) act" where
  "icache_translate address s =
     (let area = drop_bit 29 address; cached = (CCR_ICE (ccr s) \<and> cachedArea area) in
      if bit address 0 then Done (Inl BADADDR) s
      else if user_mode s \<and> bit address 31 then Done (Inl BADADDR) s
      else if \<not> user_mode s \<and> area = 7 then Done (Inl BADADDR) s
      else if \<not> MMUCR_AT (CCN_MMUCR (dev s)) \<or> \<not> translatedArea area \<or> address AND 0xFC000000 = 0x7C000000 then Done (Inr (address, cached)) s
      else bnd (mmu_instruction_lookup address s)
        (\<lambda>r s. case r of Inl e \<Rightarrow> Done (Inl e) s
          | Inr (t, physAddr) \<Rightarrow>
              if user_mode s \<and> PR_of t div 2 = 0 then Done (Inl PROTECTED) s else Done (Inr (physAddr, cached \<and> C_of t)) s))"

definition icache_index :: "u32 \<Rightarrow> u32 \<Rightarrow> nat" where
  "icache_index c address =
     unat (if CCR_IIX c then (drop_bit 5 address AND 0x7F) OR (drop_bit 18 address AND 0x80) else drop_bit 5 address AND 0xFF)"

definition icache_ReadMem :: "'q cache_env \<Rightarrow> u32 \<Rightarrow> (u16, 'q onchip mem_sys) act" where
  "icache_ReadMem E address s =
     bnd (icache_translate address s)
       (\<lambda>r s. case r of Inl e \<Rightarrow> mmu_raise_exception e address MMU_TT_IREAD s
         | Inr (physAddr, cacheOn) \<Rightarrow>
             if \<not> cacheOn then (case addrspace_read16 (ce_map E) physAddr (addReadAccessCycles (ce_set E) physAddr 2 s) of (v, s) \<Rightarrow> Done v s)
             else
               (let i = icache_index (ccr s) address; line = icache_lines (chip s) i;
                    s = (if \<not> cl_valid line \<or> tag_of physAddr \<noteq> cl_address line then
                           (let (b, s) = fetch_line E (physAddr AND NOT 0x1F) s
                            in addReadAccessCycles (ce_set E) physAddr 32
                                 (set_iline i (line\<lparr>cl_valid := True, cl_address := tag_of physAddr, cl_data := b\<rparr>) s))
                         else s)
                in Done (get16 (cl_data (icache_lines (chip s) i)) (unat (physAddr AND 0x1F))) s))"

definition icache_Invalidate :: "'q sh4_machine \<Rightarrow> 'q sh4_machine" where
  "icache_Invalidate s = upd_chip (\<lambda>c. c\<lparr>icache_lines := (\<lambda>i. (icache_lines c i)\<lparr>cl_valid := False\<rparr>)\<rparr>) s"

definition zero_line :: cache_line where "zero_line = \<lparr>cl_valid = False, cl_dirty = False, cl_address = 0, cl_data = (\<lambda>_. 0)\<rparr>"

definition icache_Reset :: "bool \<Rightarrow> 'q sh4_machine \<Rightarrow> 'q sh4_machine" where
  "icache_Reset hard s = (if hard then upd_chip (\<lambda>c. c\<lparr>icache_lines := (\<lambda>_. zero_line)\<rparr>) s else s)"

definition icache_ReadAddressArray :: "u32 \<Rightarrow> 'q sh4_machine \<Rightarrow> u32" where
  "icache_ReadAddressArray addr s =
     (let line = icache_lines (chip s) (unat (drop_bit 5 addr AND 0xFF)) in of_bool (cl_valid line) OR push_bit 10 (cl_address line))"

definition icache_WriteAddressArray :: "u32 \<Rightarrow> u32 \<Rightarrow> (unit, 'q onchip mem_sys) act" where
  "icache_WriteAddressArray addr data s =
     (let i = unat (drop_bit 5 addr AND 0xFF) in
      if \<not> bit addr 3 then
        act (set_iline i ((icache_lines (chip s) i)\<lparr>cl_valid := bit data 0, cl_address := drop_bit 10 data AND 0x7FFFF\<rparr>)) s
      else
        bnd (icache_translate (data AND NOT 0x3FF) s)
          (\<lambda>r s. case r of Inl TLB_MISS \<Rightarrow> Done () s
            | Inl e \<Rightarrow> mmu_raise_exception e (data AND NOT 0x3FF) MMU_TT_IREAD s
            | Inr (physAddr, _) \<Rightarrow>
                (let line = icache_lines (chip s) i in
                 if \<not> cl_valid line \<or> tag_of physAddr \<noteq> cl_address line then Done () s
                 else Done () (set_iline i (line\<lparr>cl_valid := bit data 0\<rparr>) s))))"

definition icache_ReadDataArray :: "u32 \<Rightarrow> 'q sh4_machine \<Rightarrow> u32" where
  "icache_ReadDataArray addr s = get32 (cl_data (icache_lines (chip s) (unat (drop_bit 5 addr AND 0xFF)))) (unat (addr AND 0x1C))"

definition icache_WriteDataArray :: "u32 \<Rightarrow> u32 \<Rightarrow> 'q sh4_machine \<Rightarrow> 'q sh4_machine" where
  "icache_WriteDataArray addr data s =
     (let i = unat (drop_bit 5 addr AND 0xFF); line = icache_lines (chip s) i
      in set_iline i (line\<lparr>cl_data := put32 (unat (addr AND 0x1C)) data (cl_data line)\<rparr>) s)"

subsection \<open>The operand cache\<close>

definition set_oline :: "nat \<Rightarrow> cache_line \<Rightarrow> 'q sh4_machine \<Rightarrow> 'q sh4_machine" where
  "set_oline i l s = upd_chip (\<lambda>c. c\<lparr>ocache_lines := (ocache_lines c)(i := l)\<rparr>) s"

abbreviation oline :: "'q sh4_machine \<Rightarrow> nat \<Rightarrow> cache_line" where "oline s i \<equiv> ocache_lines (chip s) i"

text \<open>The result of a translation: the physical address, and whether the access is cached and copied back.\<close>

definition ocache_translate :: "bool \<Rightarrow> u32 \<Rightarrow> u32 \<Rightarrow> 'q sh4_machine \<Rightarrow> (MmuError + u32 \<times> bool \<times> bool) \<times> 'q sh4_machine" where
  "ocache_translate write sz address s =
     (let area = drop_bit 29 address; cached = (CCR_OCE (ccr s) \<and> cachedArea area);
          copyBack = (if area = 4 then CCR_CB (ccr s) else \<not> CCR_WT (ccr s)) in
      if address AND (sz - 1) \<noteq> 0 then (Inl BADADDR, s)
      else if write \<and> address AND 0xFC000000 = 0xE0000000 then
        (case strict_full_SQ True address s of (Inl e, s) \<Rightarrow> (Inl e, s) | (Inr _, s) \<Rightarrow> (Inr (address, False, False), s))
      else if user_mode s \<and> bit address 31 then (Inl BADADDR, s)
      else if \<not> MMUCR_AT (CCN_MMUCR (dev s)) \<or> \<not> translatedArea area \<or> address AND 0xFC000000 = 0x7C000000 then
        (Inr (address, cached, copyBack), s)
      else
        (case strict_full_lookup address s of
           (Inl e, s) \<Rightarrow> (Inl e, s)
         | (Inr (t, physAddr), s) \<Rightarrow>
             (case protection write t s of
                MMU_NONE \<Rightarrow>
                  Inr (if physAddr AND 0x1C000000 = 0x1C000000 then physAddr OR 0xF0000000 else physAddr, cached \<and> C_of t,
                       copyBack \<and> \<not> WT_of t)
              | e \<Rightarrow> Inl e, s)))"

text \<open>With translation on, the cache reaches the same physical address, or the same error, as an access that bypasses it.\<close>

lemma areas_agree: "translatedArea (drop_bit 29 a) = (\<not> fast_reg_lut (drop_bit 29 a))" for a :: u32
proof -
  have "unat a < 8 * 2 ^ 29" using unsigned_less [of a, where ?'a = nat] by simp
  then have "unat a div 2 ^ 29 < 8" by (rule less_mult_imp_div_less)
  then have "unat (drop_bit 29 a) < 8" by (simp only: unat_drop_bit_eq drop_bit_eq_div [where ?'a = nat])
  then have "unat (drop_bit 29 a) \<in> {0, 1, 2, 3, 4, 5, 6, 7}" by auto
  then have "drop_bit 29 a \<in> {0, 1, 2, 3, 4, 5, 6, 7}" by (auto simp: word_unat_eq_iff)
  then show ?thesis by (auto simp: translatedArea_def fast_reg_lut_def)
qed

lemma cache_translates:
  assumes "MMUCR_AT (CCN_MMUCR (dev s))" and "address AND (sz - 1) = 0"
  shows "(case ocache_translate write sz address s of (Inl e, t) \<Rightarrow> (Inl e, t) | (Inr (a, _), t) \<Rightarrow> (Inr a, t)) = strict_data_translation write address s"
proof -
  define sq where "sq = (write \<and> address AND 0xFC000000 = 0xE0000000)"
  define low where "low = (address AND 0xFC000000 = 0x7C000000)"
  obtain r t where l: "strict_full_lookup address s = (r, t)" by (rule prod.exhaust)
  obtain q u where q: "strict_full_SQ True address s = (q, u)" by (rule prod.exhaust)
  note unfold = ocache_translate_def strict_data_translation_def Let_def l q areas_agree sq_def [symmetric] low_def [symmetric]
  show ?thesis
  proof (cases sq)
    case True
    then show ?thesis unfolding unfold using assms(2) by (cases q) simp_all
  next
    case False
    show ?thesis
    proof (cases "low \<or> fast_reg_lut (drop_bit 29 address) \<or> (user_mode s \<and> bit address 31)")
      case True
      then show ?thesis unfolding unfold using False assms(2) by auto
    next
      case here: False
      show ?thesis
        unfolding unfold using False here assms
        by (cases r; cases "protection write (fst (projr r)) t") (auto split: prod.split)
    qed
  qed
qed

definition lineIndex :: "u32 \<Rightarrow> u32 \<Rightarrow> nat" where
  "lineIndex c address =
     (let index = (if CCR_OIX c
            then (drop_bit 17 address AND 0x100) OR (drop_bit 5 address AND (if CCR_ORA c then 0x7F else 0xFF))
            else drop_bit 5 address AND (if CCR_ORA c then 0x17F else 0x1FF))
      in unat (if CCR_ORA c \<and> drop_bit 29 address = 3 then index OR 0x80 else index))"

definition readCacheLine :: "'q cache_env \<Rightarrow> u32 \<Rightarrow> nat \<Rightarrow> 'q sh4_machine \<Rightarrow> 'q sh4_machine" where
  "readCacheLine E address i s =
     (let (b, s) = fetch_line E (address AND NOT 0x1F) s
      in addReadAccessCycles (ce_set E) address 32
           (set_oline i ((oline s i)\<lparr>cl_valid := True, cl_dirty := False, cl_data := b\<rparr>) s))"

definition addWriteBackCycles :: "settings \<Rightarrow> u32 \<Rightarrow> 'q sh4_machine \<Rightarrow> 'q sh4_machine" where
  "addWriteBackCycles p addr s =
     (let now = cycles_now s;
          s = (if writeBackBufferCycles (chip s) > now then add_cycles (sint (ucast (writeBackBufferCycles (chip s) - now) :: u32)) s else s)
      in upd_chip (\<lambda>c. c\<lparr>writeBackBufferCycles := now + word_of_int (writeAccessCycles p addr 32)\<rparr>) s)"

definition addWriteThroughCycles :: "settings \<Rightarrow> u32 \<Rightarrow> u32 \<Rightarrow> 'q sh4_machine \<Rightarrow> 'q sh4_machine" where
  "addWriteThroughCycles p addr sz s =
     (let now = cycles_now s;
          s = (if writeThroughBufferCycles (chip s) > now then add_cycles (sint (ucast (writeThroughBufferCycles (chip s) - now) :: u32)) s else s);
          cycles = writeAccessCycles p addr (min sz 8);
          s = (if sz = 32 then add_cycles (cycles * 3) s else s)
      in upd_chip (\<lambda>c. c\<lparr>writeThroughBufferCycles := now + word_of_int cycles\<rparr>) s)"

definition doWriteBack :: "'q cache_env \<Rightarrow> nat \<Rightarrow> 'q sh4_machine \<Rightarrow> 'q sh4_machine" where
  "doWriteBack E i s =
     (if CCR_ORA (ccr s) \<and> bit i 7 then s
      else
        (let line = oline s i;
             line_addr = push_bit 10 (cl_address line) OR push_bit 5 (of_nat i AND 0x1F);
             s = (case GetMemPtr (ce_mask E) line_addr 32 of
                    Some p \<Rightarrow> upd_block mem_b (\<lambda>b k. if p \<le> k \<and> k < p + 32 then cl_data line (k - p) else b k) s
                  | None \<Rightarrow> fold (\<lambda>k. addrspace_write32 (ce_map E) (line_addr + of_nat (4 * k)) (get32 (cl_data line) (4 * k))) [0..<8] s)
         in addWriteBackCycles (ce_set E) line_addr s))"

definition line_hit :: "nat \<Rightarrow> u32 \<Rightarrow> 'q sh4_machine \<Rightarrow> bool" where
  "line_hit i physAddr s = (cl_valid (oline s i) \<and> tag_of physAddr = cl_address (oline s i))"

text \<open>A miss that fills the line: a modified line goes back to memory first.\<close>

definition fill_line :: "'q cache_env \<Rightarrow> nat \<Rightarrow> u32 \<Rightarrow> 'q sh4_machine \<Rightarrow> 'q sh4_machine" where
  "fill_line E i physAddr s =
     (let s = (if cl_dirty (oline s i) \<and> cl_valid (oline s i) then doWriteBack E i s else s);
          s = set_oline i ((oline s i)\<lparr>cl_address := tag_of physAddr\<rparr>) s
      in readCacheLine E physAddr i s)"

text \<open>
  The templates for the type of an access: its size, the functions that read and write it in bytes and the address map's functions.
\<close>

record ('a, 'q) access =
  ac_size :: u32
  ac_get :: "(nat \<Rightarrow> u8) \<Rightarrow> nat \<Rightarrow> 'a"
  ac_put :: "nat \<Rightarrow> 'a \<Rightarrow> (nat \<Rightarrow> u8) \<Rightarrow> nat \<Rightarrow> u8"
  ac_read :: "'q onchip addr_map \<Rightarrow> u32 \<Rightarrow> 'q sh4_machine \<Rightarrow> 'a \<times> 'q sh4_machine"
  ac_write :: "'q onchip addr_map \<Rightarrow> u32 \<Rightarrow> 'a \<Rightarrow> 'q sh4_machine \<Rightarrow> 'q sh4_machine"

definition access8 :: "(u8, 'q) access" where
  "access8 = \<lparr>ac_size = 1, ac_get = (\<lambda>b i. b i), ac_put = (\<lambda>i v b. b(i := v)), ac_read = addrspace_read8, ac_write = addrspace_write8\<rparr>"
definition access16 :: "(u16, 'q) access" where
  "access16 = \<lparr>ac_size = 2, ac_get = get16, ac_put = put16, ac_read = addrspace_read16, ac_write = addrspace_write16\<rparr>"
definition access32b :: "(u32, 'q) access" where
  "access32b = \<lparr>ac_size = 4, ac_get = get32, ac_put = put32, ac_read = addrspace_read32, ac_write = addrspace_write32\<rparr>"
definition access64 :: "(u64, 'q) access" where
  "access64 = \<lparr>ac_size = 8, ac_get = get64, ac_put = put64, ac_read = addrspace_read64, ac_write = addrspace_write64\<rparr>"

definition ocache_ReadMem :: "('a, 'q) access \<Rightarrow> 'q cache_env \<Rightarrow> u32 \<Rightarrow> ('a, 'q onchip mem_sys) act" where
  "ocache_ReadMem T E address s =
     (case ocache_translate False (ac_size T) address s of
        (Inl e, s) \<Rightarrow> mmu_raise_exception e address MMU_TT_DREAD s
      | (Inr (physAddr, cacheOn, _), s) \<Rightarrow>
          if \<not> cacheOn then
            (case ac_read T (ce_map E) physAddr (addReadAccessCycles (ce_set E) physAddr (ac_size T) s) of (v, s) \<Rightarrow> Done v s)
          else
            (let i = lineIndex (ccr s) address; s = (if line_hit i physAddr s then s else fill_line E i physAddr s)
             in Done (ac_get T (cl_data (oline s i)) (unat (physAddr AND 0x1F))) s))"

definition write_line :: "('a, 'q) access \<Rightarrow> nat \<Rightarrow> u32 \<Rightarrow> 'a \<Rightarrow> bool \<Rightarrow> 'q sh4_machine \<Rightarrow> 'q sh4_machine" where
  "write_line T i physAddr v dirty s =
     set_oline i ((oline s i)\<lparr>cl_dirty := dirty, cl_data := ac_put T (unat (physAddr AND 0x1F)) v (cl_data (oline s i))\<rparr>) s"

definition ocache_WriteMem :: "('a, 'q) access \<Rightarrow> 'q cache_env \<Rightarrow> u32 \<Rightarrow> 'a \<Rightarrow> (unit, 'q onchip mem_sys) act" where
  "ocache_WriteMem T E address v s =
     (case ocache_translate True (ac_size T) address s of
        (Inl e, s) \<Rightarrow> mmu_raise_exception e address MMU_TT_DWRITE s
      | (Inr (physAddr, cacheOn, copyBack), s) \<Rightarrow>
          if \<not> cacheOn then Done () (ac_write T (ce_map E) physAddr v (addWriteThroughCycles (ce_set E) physAddr (ac_size T) s))
          else
            (let i = lineIndex (ccr s) address in
             if copyBack then
               (let s = (if line_hit i physAddr s then s else fill_line E i physAddr s) in Done () (write_line T i physAddr v True s))
             else
               (let s = (if line_hit i physAddr s then write_line T i physAddr v (cl_dirty (oline s i)) s else s)
                in Done () (addWriteThroughCycles (ce_set E) physAddr (ac_size T) (ac_write T (ce_map E) physAddr v s)))))"

text \<open>The instructions \<open>ocbi\<close>, \<open>ocbp\<close> and \<open>ocbwb\<close>, and \<open>pref\<close>.\<close>

definition ocache_WriteBack :: "'q cache_env \<Rightarrow> u32 \<Rightarrow> bool \<Rightarrow> bool \<Rightarrow> (unit, 'q onchip mem_sys) act" where
  "ocache_WriteBack E address write_back invalidate s =
     (case ocache_translate True 1 address s of
        (Inl e, s) \<Rightarrow> mmu_raise_exception e address MMU_TT_DWRITE s
      | (Inr (physAddr, cached, _), s) \<Rightarrow>
          (let i = lineIndex (ccr s) address in
           if \<not> cached \<or> \<not> line_hit i physAddr s then Done () s
           else
             (let s = (if write_back \<and> cl_dirty (oline s i) then doWriteBack E i s else s)
              in Done () (set_oline i ((oline s i)\<lparr>cl_valid := \<not> invalidate, cl_dirty := False\<rparr>) s))))"

definition ocache_Prefetch :: "'q cache_env \<Rightarrow> u32 \<Rightarrow> 'q sh4_machine \<Rightarrow> 'q sh4_machine" where
  "ocache_Prefetch E address s =
     (let address = address AND NOT 0x1F in
      case ocache_translate False 1 address s of
        (Inl e, s) \<Rightarrow> s
      | (Inr (physAddr, cached, _), s) \<Rightarrow>
          (let i = lineIndex (ccr s) address in if \<not> cached \<or> line_hit i physAddr s then s else fill_line E i physAddr s))"

definition ocache_Invalidate :: "'q sh4_machine \<Rightarrow> 'q sh4_machine" where
  "ocache_Invalidate s = upd_chip (\<lambda>c. c\<lparr>ocache_lines := (\<lambda>i. (ocache_lines c i)\<lparr>cl_dirty := False, cl_valid := False\<rparr>)\<rparr>) s"

definition ocache_Reset :: "bool \<Rightarrow> 'q sh4_machine \<Rightarrow> 'q sh4_machine" where
  "ocache_Reset hard s = (if hard then upd_chip (\<lambda>c. c\<lparr>ocache_lines := (\<lambda>_. zero_line)\<rparr>) s else s)"

definition ocache_ReadAddressArray :: "u32 \<Rightarrow> 'q sh4_machine \<Rightarrow> u32" where
  "ocache_ReadAddressArray addr s =
     (let line = oline s (unat (drop_bit 5 addr AND 0x1FF))
      in of_bool (cl_valid line) OR push_bit 1 (of_bool (cl_dirty line)) OR push_bit 10 (cl_address line))"

definition ocache_WriteAddressArray :: "'q cache_env \<Rightarrow> u32 \<Rightarrow> u32 \<Rightarrow> (unit, 'q onchip mem_sys) act" where
  "ocache_WriteAddressArray E addr data s =
     (let i = unat (drop_bit 5 addr AND 0x1FF);
          finish = (\<lambda>s. Done () (set_oline i ((oline s i)\<lparr>cl_valid := bit data 0, cl_dirty := bit data 1\<rparr>) s)) in
      if \<not> bit addr 3 then
        (let s = (if cl_valid (oline s i) \<and> cl_dirty (oline s i) then doWriteBack E i s else s)
         in finish (set_oline i ((oline s i)\<lparr>cl_address := drop_bit 10 data AND 0x7FFFF\<rparr>) s))
      else
        (case ocache_translate False 1 (data AND NOT 0x3FF) s of
           (Inl TLB_MISS, s) \<Rightarrow> Done () s
         | (Inl e, s) \<Rightarrow> mmu_raise_exception e (data AND NOT 0x3FF) MMU_TT_DREAD s
         | (Inr (physAddr, _, _), s) \<Rightarrow>
             (if \<not> line_hit i physAddr s then Done () s
              else finish (if data AND 3 \<noteq> 0 \<and> cl_dirty (oline s i) then doWriteBack E i s else s))))"

definition ocache_ReadDataArray :: "u32 \<Rightarrow> 'q sh4_machine \<Rightarrow> u32" where
  "ocache_ReadDataArray addr s = get32 (cl_data (oline s (unat (drop_bit 5 addr AND 0x1FF)))) (unat (addr AND 0x1C))"

definition ocache_WriteDataArray :: "u32 \<Rightarrow> u32 \<Rightarrow> 'q sh4_machine \<Rightarrow> 'q sh4_machine" where
  "ocache_WriteDataArray addr data s =
     (let i = unat (drop_bit 5 addr AND 0x1FF); line = oline s i
      in set_oline i (line\<lparr>cl_data := put32 (unat (addr AND 0x1C)) data (cl_data line)\<rparr>) s)"

definition ocache_WriteBackAll :: "'q cache_env \<Rightarrow> 'q sh4_machine \<Rightarrow> 'q sh4_machine" where
  "ocache_WriteBackAll E s =
     fold (\<lambda>i s. let s = (if cl_valid (oline s i) \<and> cl_dirty (oline s i) then doWriteBack E i s else s)
            in set_oline i ((oline s i)\<lparr>cl_valid := False, cl_dirty := False\<rparr>) s) [0..<512] s"

end
