(* ===== verification/Cache_Spec.thy ===== *)
theory Cache_Spec
  imports Sh4_Cache
begin

unbundle bit_operations_syntax

section \<open>The operand cache is invisible\<close>

text \<open>
  What a program sees through the operand cache is a plain memory: \<open>cview\<close>, the bytes of system memory with the bytes of the valid
  lines put over them.  The theory proves this for addresses of system memory with the cache on, the MMU off and the cache
  neither in the RAM mode nor in the index mode, both for copy-back and for write-through.
\<close>

subsection \<open>Addresses of system memory\<close>

definition ram_mask :: "u32 \<Rightarrow> bool" where "ram_mask M \<longleftrightarrow> M = 0xFFFFFF \<or> M = 0x1FFFFFF"

definition ram_off :: "u32 \<Rightarrow> u32 \<Rightarrow> nat" where "ram_off M a = unat (a AND M)"

text \<open>An address in a cached area, of the first image of system memory.\<close>

definition ram_addr :: "u32 \<Rightarrow> u32 \<Rightarrow> bool" where
  "ram_addr M a \<longleftrightarrow> unat a mod 2 ^ 29 = 0x0C000000 + ram_off M a \<and> cachedArea (drop_bit 29 a)"

lemma unat_and_mask: "unat (w AND mask n) = unat w mod 2 ^ n" for w :: u32
proof -
  have "unat (w AND mask n) = take_bit n (unat w)" by (simp only: take_bit_eq_mask [symmetric] unsigned_take_bit_eq)
  then show ?thesis by (simp only: take_bit_eq_mod [where ?'a = nat])
qed

lemma unat_drop: "unat (drop_bit n w) = unat w div 2 ^ n" for w :: u32
proof -
  have "unat (drop_bit n w) = drop_bit n (unat w)" by (simp only: unat_drop_bit_eq)
  then show ?thesis by (simp only: drop_bit_eq_div [where ?'a = nat])
qed

lemma mask_off:
  assumes "ram_mask M"
  shows "ram_off M a = unat a mod (unat M + 1)"
proof -
  have m: "(0xFFFFFF :: u32) = mask 24" "(0x1FFFFFF :: u32) = mask 25" by (simp_all add: mask_eq_exp_minus_1)
  have "unat (0xFFFFFF :: u32) + 1 = 2 ^ 24" "unat (0x1FFFFFF :: u32) + 1 = 2 ^ 25" by simp_all
  then show ?thesis
    using assms unat_and_mask [of a 24] unat_and_mask [of a 25] unfolding ram_mask_def ram_off_def m by (elim disjE) (simp_all only:)
qed

lemma div_mod_pow: "(x :: nat) div 2 ^ i mod 2 ^ j = x mod 2 ^ (i + j) div 2 ^ i"
  using mod_mult2_eq [of x "2 ^ i" "2 ^ j"] by (simp add: power_add)

lemma mod_of_mod: "x mod 2 ^ 29 = y \<Longrightarrow> n \<le> 29 \<Longrightarrow> (x :: nat) mod 2 ^ n = y mod 2 ^ n"
  using mod_mod_cancel [OF le_imp_power_dvd [of n 29 "2 :: nat"], of x] by simp

lemma ram_facts:
  assumes "ram_mask M" "ram_addr M a"
  shows "unat (tag_of a) = 0x30000 + ram_off M a div 1024"
    and "unat (drop_bit 5 a AND 0x1FF) = ram_off M a div 32 mod 512"
    and "unat (a AND 0x1F) = ram_off M a mod 32"
    and "GetMemPtr M (a AND NOT 0x1F) 32 = Some (32 * (ram_off M a div 32))"
proof -
  define x where "x = unat a"
  define o1 where "o1 = ram_off M a"
  have x: "x mod 2 ^ 29 = 0x0C000000 + o1" using assms(2) by (simp add: ram_addr_def x_def o1_def)
  have lim: "o1 < 2 ^ 25" using assms(1) mask_off [OF assms(1), of a] by (auto simp: ram_mask_def o1_def intro: order.strict_trans2 [OF mod_less_divisor])
  have mk: "(0x7FFFF :: u32) = mask 19" "(0x1FF :: u32) = mask 9" "(0x1F :: u32) = mask 5" "(7 :: u32) = mask 3" by (simp_all add: mask_eq_exp_minus_1)
  note ub = unat_and_mask
  note ud = unat_drop
  have "unat (tag_of a) = x div 2 ^ 10 mod 2 ^ 19" by (simp only: tag_of_def mk ub ud x_def)
  also have "\<dots> = (0x0C000000 + o1) div 2 ^ 10" using div_mod_pow [of x 10 19] x by simp
  finally show "unat (tag_of a) = 0x30000 + ram_off M a div 1024" by (simp add: o1_def)
  have "unat (drop_bit 5 a AND 0x1FF) = x div 2 ^ 5 mod 2 ^ 9" by (simp only: mk ub ud x_def)
  also have "\<dots> = (0x0C000000 + o1) mod 2 ^ 14 div 2 ^ 5" using div_mod_pow [of x 5 9] mod_of_mod [OF x, of 14] by simp
  also have "\<dots> = o1 mod 2 ^ 14 div 2 ^ 5" by (simp add: mod_add_eq [symmetric, of "0x0C000000"])
  also have "\<dots> = o1 div 2 ^ 5 mod 2 ^ 9" using div_mod_pow [of o1 5 9] by simp
  finally show "unat (drop_bit 5 a AND 0x1FF) = ram_off M a div 32 mod 512" by (simp add: o1_def)
  have "unat (a AND 0x1F) = x mod 2 ^ 5" by (simp only: mk ub x_def)
  also have "\<dots> = (0x0C000000 + o1) mod 2 ^ 5" using mod_of_mod [OF x, of 5] by simp
  also have "\<dots> = o1 mod 2 ^ 5" by (simp add: mod_add_eq [symmetric, of "0x0C000000"])
  finally show "unat (a AND 0x1F) = ram_off M a mod 32" by (simp add: o1_def)
  show "GetMemPtr M (a AND NOT 0x1F) 32 = Some (32 * (ram_off M a div 32))"
  proof -
    define a' where "a' = a AND NOT (0x1F :: u32)"
    define y where "y = unat a'"
    have "a' = push_bit 5 (drop_bit 5 a)"
      by (rule bit_word_eqI) (simp only: a'_def mk bit_and_iff bit_not_iff bit_mask_iff bit_push_bit_iff bit_drop_bit_eq, auto)
    then have "y = unat (drop_bit 5 a) * 32 mod 2 ^ 32" by (simp add: y_def push_bit_eq_mult unat_word_ariths)
    moreover have "unat (drop_bit 5 a) * 32 < 2 ^ 32"
    proof -
      have "unat a div 2 ^ 5 * 32 \<le> unat a" using div_times_less_eq_dividend [of "unat a" 32] by simp
      moreover have "unat a < 2 ^ 32" using unsigned_less [of a, where ?'a = nat] by simp
      ultimately show ?thesis unfolding ud by linarith
    qed
    ultimately have y: "y = 32 * (x div 32)" by (simp add: ud x_def)
    have r: "y mod 2 ^ 29 = 0x0C000000 + 32 * (o1 div 32)"
    proof -
      have "y mod 2 ^ 29 = 32 * (x div 32 mod 2 ^ 24)" unfolding y using mult_mod_right [of 32 "x div 32" "2 ^ 24"] by simp
      also have "x div 32 mod 2 ^ 24 = (0x0C000000 + o1) div 32" using div_mod_pow [of x 5 24] x by simp
      also have "(0x0C000000 + o1) div 32 = 0x600000 + o1 div 32" using div_mult_self3 [of 32 "0x600000" o1] by simp
      finally show ?thesis by simp
    qed
    have "unat (drop_bit 26 a' AND 7) = 3" using div_mod_pow [of y 26 3] r lim by (simp only: mk ub ud y_def [symmetric]) simp
    then have three: "drop_bit 26 a' AND 7 = 3" by (simp add: word_unat_eq_iff)
    have "unat (drop_bit 29 a') = unat (drop_bit 29 a)" unfolding ud y_def [symmetric] y x_def [symmetric] by (simp add: div_mult2_eq [symmetric])
    then have "drop_bit 29 a' = drop_bit 29 a" by (simp add: word_unat_eq_iff)
    moreover have "drop_bit 29 a \<noteq> 7" using assms(2) by (auto simp: ram_addr_def cachedArea_def)
    ultimately have seven: "drop_bit 29 a' \<noteq> 7" by simp
    have M: "\<exists>k. unat M + 1 = 32 * k" "unat M + 1 \<le> 2 ^ 25" using assms(1) by (auto simp: ram_mask_def intro: exI [of _ "2 ^ 19"] exI [of _ "2 ^ 20"])
    then obtain k where k: "unat M + 1 = 32 * k" by blast
    have o: "unat (a' AND M) = 32 * (o1 div 32)"
    proof -
      have "unat (a' AND M) = y mod (32 * k)" using mask_off [OF assms(1), of a'] by (simp only: ram_off_def y_def k)
      also have "\<dots> = 32 * (x div 32 mod k)" by (simp only: y mult_mod_right)
      also have "x div 32 mod k = x mod (32 * k) div 32" by (simp add: mod_mult2_eq)
      finally show ?thesis by (simp only: o1_def x_def k mask_off [OF assms(1), of a])
    qed
    have "0 < k" using k by (cases k) simp_all
    then have "o1 < 32 * k" unfolding o1_def mask_off [OF assms(1), of a] k by simp
    then have "o1 div 32 < k" by (simp add: less_mult_imp_div_less mult.commute)
    then have b: "32 * (o1 div 32) + 32 \<le> unat M + 1" unfolding k by linarith
    have "unat ((a' AND M) + 32) = 32 * (o1 div 32) + 32" using o b M(2) by (simp add: unat_word_ariths)
    moreover have "unat (M + 1) = unat M + 1" using assms(1) by (auto simp: ram_mask_def)
    ultimately have "\<not> (a' AND M) + 32 > M + 1" using b by (simp add: word_less_nat_alt)
    then show ?thesis using three seven o unfolding GetMemPtr_def a'_def [symmetric] o1_def [symmetric] by simp
  qed
qed

subsection \<open>What the cache holds\<close>

abbreviation sysmem :: "'q sh4_machine \<Rightarrow> nat \<Rightarrow> u8" where "sysmem s \<equiv> blocks (dev s) mem_b"

definition line_no :: "nat \<Rightarrow> nat" where "line_no p = p div 32 mod 512"

definition owns :: "'q sh4_machine \<Rightarrow> nat \<Rightarrow> nat \<Rightarrow> bool" where
  "owns s i p \<longleftrightarrow> cl_valid (oline s i) \<and> line_no p = i \<and> unat (cl_address (oline s i)) = 0x30000 + p div 1024"

definition cview :: "'q sh4_machine \<Rightarrow> nat \<Rightarrow> u8" where
  "cview s p = (if owns s (line_no p) p then cl_data (oline s (line_no p)) (p mod 32) else sysmem s p)"

text \<open>Every valid line is a line of system memory, and agrees with it unless it is marked as modified.\<close>

definition ocache_ok :: "u32 \<Rightarrow> 'q sh4_machine \<Rightarrow> bool" where
  "ocache_ok M s \<longleftrightarrow>
     (\<forall>i. cl_valid (oline s i) \<longrightarrow>
        (\<exists>o1 \<le> unat M. owns s i o1) \<and> (\<not> cl_dirty (oline s i) \<longrightarrow> (\<forall>p. owns s i p \<longrightarrow> cl_data (oline s i) (p mod 32) = sysmem s p)))"

text \<open>The cache is on, without the RAM and index modes; the MMU is off and the mode is privileged.\<close>

definition cache_on :: "'q sh4_machine \<Rightarrow> bool" where
  "cache_on s \<longleftrightarrow> CCR_OCE (ccr s) \<and> \<not> CCR_ORA (ccr s) \<and> \<not> CCR_OIX (ccr s) \<and> \<not> MMUCR_AT (CCN_MMUCR (dev s)) \<and> \<not> user_mode s"

definition cache_state :: "'q sh4_machine \<Rightarrow> (nat \<Rightarrow> cache_line) \<times> (nat \<Rightarrow> u8) \<times> u32 \<times> u32 \<times> bool" where
  "cache_state s = (ocache_lines (chip s), sysmem s, ccr s, CCN_MMUCR (dev s), sr_MD (sr_status (cx s)))"

lemma state_facts:
  "cache_state t = cache_state s \<Longrightarrow> oline t i = oline s i \<and> sysmem t = sysmem s \<and> owns t = owns s \<and> cview t = cview s \<and> ocache_ok M t = ocache_ok M s
    \<and> cache_on t = cache_on s \<and> ccr t = ccr s \<and> line_hit j a t = line_hit j a s"
  by (simp add: cache_state_def owns_def cview_def ocache_ok_def cache_on_def fun_eq_iff line_hit_def)

lemma cycles_state [simp]:
  "cache_state (add_cycles n s) = cache_state s" "cache_state (addReadAccessCycles p a sz s) = cache_state s"
  "cache_state (addWriteBackCycles p a s) = cache_state s" "cache_state (addWriteThroughCycles p a sz s) = cache_state s"
proof -
  show c: "cache_state (add_cycles n s) = cache_state s" for n and s :: "'q sh4_machine"
    by (simp add: add_cycles_def cache_state_def)
  have u: "cache_state (upd_chip f s) = cache_state s" if "\<And>c. ocache_lines (f c) = ocache_lines c" for f and s :: "'q sh4_machine"
    using that by (simp add: cache_state_def upd_chip_def)
  show "cache_state (addReadAccessCycles p a sz s) = cache_state s" by (simp add: addReadAccessCycles_def c)
  show "cache_state (addWriteBackCycles p a s) = cache_state s" by (simp add: addWriteBackCycles_def Let_def c u)
  show "cache_state (addWriteThroughCycles p a sz s) = cache_state s" by (simp add: addWriteThroughCycles_def Let_def c u)
qed

lemma line_split: "p div 32 = p div 1024 * 32 + line_no p mod 32"
proof -
  have "p div 32 mod 512 mod 32 = p div 32 mod (32 :: nat)" by (rule mod_mod_cancel) simp
  moreover have "p div 1024 = p div 32 div 32" by (simp add: div_mult2_eq [symmetric])
  ultimately show ?thesis unfolding line_no_def by simp
qed

lemma owns_line:
  assumes "owns s i o1"
  shows "owns s i p \<longleftrightarrow> p div 32 = o1 div 32"
proof
  assume "owns s i p"
  then have "p div 1024 = o1 div 1024" "line_no p = line_no o1" using assms by (simp_all add: owns_def)
  then show "p div 32 = o1 div 32" using line_split [of p] line_split [of o1] by simp
next
  assume "p div 32 = o1 div 32"
  moreover have "q div 1024 = q div 32 div 32" for q :: nat by (simp add: div_mult2_eq [symmetric])
  ultimately have "p div 1024 = o1 div 1024" "line_no p = line_no o1" by (simp_all add: line_no_def)
  then show "owns s i p" using assms by (simp add: owns_def)
qed

lemma in_line:
  fixes p o1 :: nat
  shows "32 * (o1 div 32) \<le> p \<and> p < 32 * (o1 div 32) + 32 \<longleftrightarrow> p div 32 = o1 div 32"
    and "p div 32 = o1 div 32 \<Longrightarrow> p - 32 * (o1 div 32) = p mod 32"
proof -
  have "32 * k \<le> p \<and> p < 32 * k + 32 \<longleftrightarrow> p div 32 = k" for k :: nat by (auto simp: div_nat_eqI mult.commute)
  then show "32 * (o1 div 32) \<le> p \<and> p < 32 * (o1 div 32) + 32 \<longleftrightarrow> p div 32 = o1 div 32" .
  show "p div 32 = o1 div 32 \<Longrightarrow> p - 32 * (o1 div 32) = p mod 32" by (metis minus_mult_div_eq_mod)
qed

text \<open>The address of a line is that of its first byte.\<close>

lemma line_address:
  assumes "ram_mask M" "o1 \<le> unat M" "unat t = 0x30000 + o1 div 1024" "line_no o1 = i"
  shows "GetMemPtr M (push_bit 10 t OR push_bit 5 (of_nat i AND 0x1F)) 32 = Some (32 * (o1 div 32))"
proof -
  define L where "L = push_bit 10 t OR push_bit 5 (of_nat i AND 0x1F)"
  have M: "unat M + 1 = 2 ^ 24 \<or> unat M + 1 = 2 ^ 25" using assms(1) by (auto simp: ram_mask_def)
  then have o1: "o1 < 2 ^ 25" using assms(2) by auto
  have tl: "unat t < 2 ^ 19" using assms(3) o1 by simp
  have i5: "unat (of_nat i AND 0x1F :: u32) = i mod 32"
  proof -
    have "unat (of_nat i AND mask 5 :: u32) = i mod 2 ^ 32 mod 2 ^ 5" by (simp only: unat_and_mask unat_of_nat) simp
    then show ?thesis by (simp add: mask_eq_exp_minus_1 mod_mod_cancel)
  qed
  have z: "push_bit 10 t AND push_bit 5 (of_nat i AND 0x1F) = 0"
  proof (rule bit_word_eqI)
    have m: "(0x1F :: u32) = mask 5" by (simp add: mask_eq_exp_minus_1)
    show "bit (push_bit 10 t AND push_bit 5 (of_nat i AND 0x1F)) n = bit 0 n" for n
      by (simp only: m bit_and_iff bit_push_bit_iff bit_mask_iff) auto
  qed
  have "L = push_bit 10 t + push_bit 5 (of_nat i AND 0x1F)" unfolding L_def using z by (rule disjunctive_add_eq_or [symmetric])
  moreover have "unat (push_bit 10 t) = unat t * 1024" using tl by (simp add: push_bit_eq_mult unat_word_ariths)
  moreover have "unat (push_bit 5 (of_nat i AND 0x1F :: u32)) = i mod 32 * 32" using i5 by (simp add: push_bit_eq_mult unat_word_ariths)
  ultimately have "unat L = (unat t * 1024 + i mod 32 * 32) mod 2 ^ 32" by (simp add: unat_word_ariths)
  also have "unat t * 1024 + i mod 32 * 32 = 0x0C000000 + 32 * (o1 div 32)"
    using assms(3,4) line_split [of o1] by simp
  finally have L: "unat L = 0x0C000000 + 32 * (o1 div 32)" using o1 by simp
  have off: "ram_off M L = 32 * (o1 div 32)"
  proof -
    have "(0x0C000000 + x) mod (unat M + 1) = x mod (unat M + 1)" for x :: nat
      using M mod_add_eq [of "0x0C000000" "unat M + 1" x] by auto
    then show ?thesis unfolding mask_off [OF assms(1)] L using assms(2) by (simp add: le_imp_less_Suc)
  qed
  have "drop_bit 29 L = 0" using L o1 by (simp add: word_unat_eq_iff unat_drop)
  then have "ram_addr M L" using L o1 off by (simp add: ram_addr_def cachedArea_def)
  note f = ram_facts [OF assms(1) this]
  have "L AND NOT 0x1F = L"
  proof -
    have "L AND 0x1F = 0" using f(3) off by (simp add: word_unat_eq_iff)
    moreover have "(L AND 0x1F) OR (L AND NOT 0x1F) = L" by (rule bit_word_eqI) (simp only: bit_or_iff bit_and_iff bit_not_iff, auto)
    ultimately show ?thesis by simp
  qed
  then show ?thesis using f(4) off by (simp add: L_def)
qed

subsection \<open>Lines come and go\<close>

text \<open>The state after a change of one line and of the memory.\<close>

definition put_state :: "nat \<Rightarrow> cache_line \<Rightarrow> (nat \<Rightarrow> u8) \<Rightarrow> 'q sh4_machine \<Rightarrow> 'q sh4_machine" where
  "put_state i l b s = set_oline i l (upd_block mem_b (\<lambda>_. b) s)"

lemma put_state_simps [simp]:
  "oline (put_state i l b s) = (oline s)(i := l)" "sysmem (put_state i l b s) = b"
  "cache_on (put_state i l b s) = cache_on s" "ccr (put_state i l b s) = ccr s"
  by (simp_all add: put_state_def set_oline_def upd_block_def cache_on_def upd_chip_def fun_eq_iff)

lemma state_put: "cache_state (set_oline i l s) = cache_state (put_state i l (sysmem s) s)"
  by (simp add: cache_state_def put_state_def set_oline_def upd_block_def upd_chip_def)

lemma write_back:
  assumes "ram_mask (ce_mask E)" "cache_on s" "cl_valid (oline s i)" "owns s i o1" "o1 \<le> unat (ce_mask E)"
  shows "cache_state (doWriteBack E i s) =
    cache_state (put_state i (oline s i) (\<lambda>p. if owns s i p then cl_data (oline s i) (p mod 32) else sysmem s p) s)"
proof -
  have ora: "\<not> CCR_ORA (ccr s)" using assms(2) by (simp add: cache_on_def)
  have g: "GetMemPtr (ce_mask E) (push_bit 10 (cl_address (oline s i)) OR push_bit 5 (of_nat i AND 0x1F)) 32 = Some (32 * (o1 div 32))"
    using assms(4) by (intro line_address [OF assms(1,5)]) (simp_all add: owns_def)
  let ?b = "\<lambda>p. if owns s i p then cl_data (oline s i) (p mod 32) else sysmem s p"
  have "(\<lambda>p. if 32 * (o1 div 32) \<le> p \<and> p < 32 * (o1 div 32) + 32 then cl_data (oline s i) (p - 32 * (o1 div 32)) else sysmem s p) = ?b"
    unfolding in_line(1) owns_line [OF assms(4)] using in_line(2) [of _ o1] by (intro ext) simp
  then have b: "upd_block mem_b (\<lambda>b p. if 32 * (o1 div 32) \<le> p \<and> p < 32 * (o1 div 32) + 32 then cl_data (oline s i) (p - 32 * (o1 div 32)) else b p) s
    = upd_block mem_b (\<lambda>_. ?b) s" by (simp add: upd_block_def)
  have "cache_state (doWriteBack E i s) = cache_state (upd_block mem_b (\<lambda>_. ?b) s)"
    unfolding doWriteBack_def Let_def g by (simp only: ora simp_thms if_False option.case cycles_state b)
  then show ?thesis by (simp add: cache_state_def put_state_def set_oline_def upd_block_def upd_chip_def)
qed

text \<open>After a line was written back if need be, memory agrees with the view wherever the line could be.\<close>

definition evicted :: "nat \<Rightarrow> 'q sh4_machine \<Rightarrow> nat \<Rightarrow> u8" where
  "evicted i s p = (if line_no p = i then cview s p else sysmem s p)"

lemma evict:
  assumes "ram_mask (ce_mask E)" "cache_on s" "ocache_ok (ce_mask E) s"
  shows "cache_state (if cl_dirty (oline s i) \<and> cl_valid (oline s i) then doWriteBack E i s else s) = cache_state (put_state i (oline s i) (evicted i s) s)"
proof (cases "cl_valid (oline s i)")
  case v: True
  then obtain o1 where o1: "o1 \<le> unat (ce_mask E)" "owns s i o1" using assms(3) unfolding ocache_ok_def by blast
  have e: "evicted i s p = (if owns s i p then cl_data (oline s i) (p mod 32) else sysmem s p)" for p
    by (auto simp: evicted_def cview_def owns_def)
  show ?thesis
  proof (cases "cl_dirty (oline s i)")
    case True
    have "evicted i s = (\<lambda>p. if owns s i p then cl_data (oline s i) (p mod 32) else sysmem s p)" using e by (intro ext)
    then show ?thesis using True write_back [OF assms(1,2) v o1(2,1)] v by simp
  next
    case False
    then have "evicted i s = sysmem s" using assms(3) v e unfolding ocache_ok_def by (intro ext) auto
    then show ?thesis using False by (simp add: state_put [symmetric]) (simp add: cache_state_def set_oline_def upd_chip_def)
  qed
next
  case False
  then have "evicted i s = sysmem s" by (intro ext) (auto simp: evicted_def cview_def owns_def)
  then show ?thesis using False by (simp add: state_put [symmetric]) (simp add: cache_state_def set_oline_def upd_chip_def)
qed

text \<open>What a new line and a new memory make of the view.\<close>

lemma owns_put: "owns (put_state i l b s) j p \<longleftrightarrow> (if j = i then cl_valid l \<and> line_no p = i \<and> unat (cl_address l) = 0x30000 + p div 1024 else owns s j p)"
  by (simp add: owns_def)

lemma put_view:
  assumes "\<And>p. line_no p \<noteq> i \<Longrightarrow> b p = sysmem s p"
  shows "cview (put_state i l b s) p =
    (if line_no p = i then (if cl_valid l \<and> unat (cl_address l) = 0x30000 + p div 1024 then cl_data l (p mod 32) else b p) else cview s p)"
  using assms [of p] by (simp add: cview_def owns_put)

lemma put_ok:
  assumes "ocache_ok M s" "\<And>p. line_no p \<noteq> i \<Longrightarrow> b p = sysmem s p"
    and "cl_valid l \<Longrightarrow> \<exists>o1 \<le> unat M. line_no o1 = i \<and> unat (cl_address l) = 0x30000 + o1 div 1024"
    and "\<And>p. cl_valid l \<Longrightarrow> \<not> cl_dirty l \<Longrightarrow> line_no p = i \<Longrightarrow> unat (cl_address l) = 0x30000 + p div 1024 \<Longrightarrow> cl_data l (p mod 32) = b p"
  shows "ocache_ok M (put_state i l b s)"
  unfolding ocache_ok_def
proof (intro allI impI)
  fix j assume v: "cl_valid (oline (put_state i l b s) j)"
  show "(\<exists>o1 \<le> unat M. owns (put_state i l b s) j o1) \<and> (\<not> cl_dirty (oline (put_state i l b s) j) \<longrightarrow>
      (\<forall>p. owns (put_state i l b s) j p \<longrightarrow> cl_data (oline (put_state i l b s) j) (p mod 32) = sysmem (put_state i l b s) p))"
  proof (cases "j = i")
    case True
    then show ?thesis using v assms(3,4) by (auto simp: owns_put)
  next
    case False
    then have "cl_valid (oline s j)" using v by simp
    moreover have "owns s j p \<Longrightarrow> b p = sysmem s p" for p using False assms(2) [of p] by (auto simp: owns_def)
    ultimately show ?thesis using assms(1) False by (auto simp: owns_put ocache_ok_def)
  qed
qed

subsection \<open>Hits and misses\<close>

definition new_line :: "nat \<Rightarrow> u32 \<Rightarrow> (nat \<Rightarrow> u8) \<Rightarrow> cache_line" where
  "new_line o1 t b = \<lparr>cl_valid = True, cl_dirty = False, cl_address = t, cl_data = (\<lambda>k. b (32 * (o1 div 32) + k))\<rparr>"

lemma put_put: "put_state i l b (put_state i m c s) = put_state i l b s"
  by (simp add: put_state_def set_oline_def upd_block_def upd_chip_def)

lemma state_set: "cache_state t = cache_state (put_state i m b s) \<Longrightarrow> cache_state (set_oline i l t) = cache_state (put_state i l b s)"
  by (simp add: cache_state_def put_state_def set_oline_def upd_block_def upd_chip_def)

lemma fill_state:
  assumes "ram_mask (ce_mask E)" "cache_on s" "ocache_ok (ce_mask E) s" "ram_addr (ce_mask E) a"
  shows "cache_state (fill_line E i a s) =
    cache_state (put_state i (new_line (ram_off (ce_mask E) a) (tag_of a) (evicted i s)) (evicted i s) s)"
proof -
  define s1 where "s1 = (if cl_dirty (oline s i) \<and> cl_valid (oline s i) then doWriteBack E i s else s)"
  define s2 where "s2 = set_oline i ((oline s1 i)\<lparr>cl_address := tag_of a\<rparr>) s1"
  have s1: "cache_state s1 = cache_state (put_state i (oline s i) (evicted i s) s)" unfolding s1_def by (rule evict [OF assms(1-3)])
  have s2: "cache_state s2 = cache_state (put_state i ((oline s1 i)\<lparr>cl_address := tag_of a\<rparr>) (evicted i s) s)"
    unfolding s2_def by (rule state_set [OF s1])
  then have m: "sysmem s2 = evicted i s" by (simp add: cache_state_def)
  have f: "fetch_line E (a AND NOT 0x1F) s2 = (\<lambda>k. evicted i s (32 * (ram_off (ce_mask E) a div 32) + k), s2)"
    unfolding fetch_line_def ram_facts(4) [OF assms(1,4)] option.case m ..
  have l: "(oline s2 i)\<lparr>cl_valid := True, cl_dirty := False, cl_data := b\<rparr> = \<lparr>cl_valid = True, cl_dirty = False, cl_address = tag_of a, cl_data = b\<rparr>" for b
    using s2 by (simp add: cache_state_def)
  have "fill_line E i a s = readCacheLine E a i s2"
    unfolding fill_line_def Let_def s1_def [symmetric] s2_def [symmetric] ..
  also have "cache_state (readCacheLine E a i s2) = cache_state (put_state i (new_line (ram_off (ce_mask E) a) (tag_of a) (evicted i s)) (evicted i s) s)"
    unfolding readCacheLine_def f prod.case Let_def cycles_state l new_line_def by (rule state_set [OF s2])
  finally show ?thesis .
qed

lemma evicted_other: "line_no p \<noteq> i \<Longrightarrow> evicted i s p = sysmem s p"
  by (simp add: evicted_def)

lemma ram_line:
  assumes "ram_mask M" "ram_addr M a"
  shows "ram_off M a \<le> unat M" "cache_on s \<Longrightarrow> lineIndex (ccr s) a = line_no (ram_off M a)"
    "line_hit (line_no (ram_off M a)) a s \<longleftrightarrow> owns s (line_no (ram_off M a)) (ram_off M a)"
proof -
  have "ram_off M a < unat M + 1" unfolding mask_off [OF assms(1)] by (rule mod_less_divisor) simp
  then show "ram_off M a \<le> unat M" by simp
  show "cache_on s \<Longrightarrow> lineIndex (ccr s) a = line_no (ram_off M a)"
    using ram_facts(2) [OF assms] by (simp add: cache_on_def lineIndex_def line_no_def Let_def)
  show "line_hit (line_no (ram_off M a)) a s \<longleftrightarrow> owns s (line_no (ram_off M a)) (ram_off M a)"
    using ram_facts(1) [OF assms] by (auto simp: line_hit_def owns_def word_unat_eq_iff)
qed

lemma same_line: "p div 32 = o1 div 32 \<Longrightarrow> line_no p = line_no o1 \<and> p div 1024 = (o1 :: nat) div 1024"
proof -
  have "q div 1024 = q div 32 div 32" for q :: nat by (simp add: div_mult2_eq [symmetric])
  then show "p div 32 = o1 div 32 \<Longrightarrow> line_no p = line_no o1 \<and> p div 1024 = (o1 :: nat) div 1024" by (simp add: line_no_def)
qed

lemma new_line_owns:
  assumes "ram_mask M" "ram_addr M a" "line_no p = line_no (ram_off M a)" "unat (tag_of a) = 0x30000 + p div 1024"
  shows "cl_data (new_line (ram_off M a) t b) (p mod 32) = b p"
proof -
  have "p div 1024 = ram_off M a div 1024" using assms(4) ram_facts(1) [OF assms(1,2)] by simp
  then have "p div 32 = ram_off M a div 32" using assms(3) line_split [of p] line_split [of "ram_off M a"] by simp
  then have "32 * (ram_off M a div 32) + p mod 32 = p" using mult_div_mod_eq [of 32 p] by simp
  then show ?thesis by (simp add: new_line_def)
qed

lemma fill_ok:
  assumes "ram_mask (ce_mask E)" "cache_on s" "ocache_ok (ce_mask E) s" "ram_addr (ce_mask E) a"
    and i: "i = line_no (ram_off (ce_mask E) a)" and t: "t = fill_line E i a s"
  shows "cview t = cview s \<and> ocache_ok (ce_mask E) t \<and> cache_on t \<and> line_hit i a t"
proof -
  let ?l = "new_line (ram_off (ce_mask E) a) (tag_of a) (evicted i s)"
  let ?u = "put_state i ?l (evicted i s) s"
  have st: "cache_state t = cache_state ?u" unfolding t by (rule fill_state [OF assms(1-4)])
  have nl: "cl_valid ?l" "cl_address ?l = tag_of a" by (simp_all add: new_line_def)
  have "cview ?u p = cview s p" for p
  proof -
    have "cview ?u p = (if line_no p = i then (if cl_valid ?l \<and> unat (cl_address ?l) = 0x30000 + p div 1024 then cl_data ?l (p mod 32) else evicted i s p)
        else cview s p)" by (rule put_view) (rule evicted_other)
    then show ?thesis using new_line_owns [OF assms(1,4), of p] i nl by (simp add: evicted_def)
  qed
  moreover have "ocache_ok (ce_mask E) ?u"
  proof (rule put_ok [OF assms(3) evicted_other])
    show "\<exists>o1 \<le> unat (ce_mask E). line_no o1 = i \<and> unat (cl_address ?l) = 0x30000 + o1 div 1024"
      using ram_line(1) [OF assms(1,4)] ram_facts(1) [OF assms(1,4)] i nl by auto
    show "cl_data ?l (p mod 32) = evicted i s p" if "line_no p = i" "unat (cl_address ?l) = 0x30000 + p div 1024" for p
      using new_line_owns [OF assms(1,4)] that i nl by simp
  qed simp_all
  moreover have "line_hit i a ?u" by (simp add: line_hit_def nl)
  ultimately show ?thesis using state_facts [OF st] assms(2) by (auto simp: fun_eq_iff)
qed

lemma present:
  assumes "ram_mask (ce_mask E)" "cache_on s" "ocache_ok (ce_mask E) s" "ram_addr (ce_mask E) a"
    and i: "i = line_no (ram_off (ce_mask E) a)" and t: "t = (if line_hit i a s then s else fill_line E i a s)"
  shows "cview t = cview s \<and> ocache_ok (ce_mask E) t \<and> cache_on t \<and> owns t i (ram_off (ce_mask E) a)"
  using fill_ok [OF assms(1-5) refl] ram_line(3) [OF assms(1,4)] assms(2,3) i t by auto

subsection \<open>Accesses\<close>

lemma not_store_queue: "cachedArea (drop_bit 29 a) \<Longrightarrow> a AND 0xFC000000 \<noteq> 0xE0000000"
proof
  assume c: "cachedArea (drop_bit 29 a)" and "a AND 0xFC000000 = 0xE0000000"
  then have "drop_bit 29 (a AND 0xFC000000) = drop_bit 29 (0xE0000000 :: u32)" by simp
  then have "drop_bit 29 a AND 7 = 7" by (simp add: drop_bit_and)
  moreover have "drop_bit 29 a AND 7 = drop_bit 29 a"
  proof -
    have "unat (drop_bit 29 a AND mask 3) = unat a div 2 ^ 29 mod 2 ^ 3" by (simp only: unat_and_mask unat_drop)
    moreover have "unat a div 2 ^ 29 < 2 ^ 3" using unsigned_less [of a, where ?'a = nat] by (simp add: less_mult_imp_div_less)
    ultimately have "unat (drop_bit 29 a AND mask 3) = unat (drop_bit 29 a)" by (simp add: unat_drop)
    then show ?thesis by (simp add: word_unat_eq_iff [symmetric] mask_eq_exp_minus_1)
  qed
  ultimately show False using c by (simp add: cachedArea_def)
qed

lemma translate_on:
  assumes "cache_on s" "cachedArea (drop_bit 29 a)" "a AND (sz - 1) = 0"
  shows "ocache_translate w sz a s = (Inr (a, True, if drop_bit 29 a = 4 then CCR_CB (ccr s) else \<not> CCR_WT (ccr s)), s)"
  using assms not_store_queue [OF assms(2)] by (simp add: ocache_translate_def cache_on_def Let_def)

text \<open>The pages of system memory are mapped to it.\<close>

definition maps_ram :: "u32 \<Rightarrow> 'q onchip addr_map \<Rightarrow> bool" where
  "maps_ram M A \<longleftrightarrow>
     (\<forall>a. ram_addr M a \<longrightarrow> (\<exists>n. memInfo_ptr A (unat (drop_bit 24 a)) = Block mem_b n \<and> block_offset n a = ram_off M a))"

definition env_ok :: "'q cache_env \<Rightarrow> bool" where
  "env_ok E \<longleftrightarrow> ram_mask (ce_mask E) \<and> maps_ram (ce_mask E) (ce_map E)"

definition fits :: "('a, 'q) access \<Rightarrow> u32 \<Rightarrow> bool" where "fits T a \<longleftrightarrow> a AND (ac_size T - 1) = 0"

text \<open>
  The contract of an access: its size is a power of two, it reads and writes the bytes at its place and no others, and the address
  map does the same to a page that is a block of memory.
\<close>

locale memory_access =
  fixes T :: "('a, 'q) access" and bytes :: "'a \<Rightarrow> nat \<Rightarrow> u8"
  assumes size: "ac_size T \<in> {1, 2, 4, 8}"
    and put: "ac_put T i v b k = (if i \<le> k \<and> k < i + unat (ac_size T) then bytes v (k - i) else b k)"
    and get: "(\<And>k. k < unat (ac_size T) \<Longrightarrow> b (i + k) = c (j + k)) \<Longrightarrow> ac_get T b i = ac_get T c j"
    and write_block: "memInfo_ptr A (unat (drop_bit 24 a)) = Block k n \<Longrightarrow> ac_write T A a v s = upd_block k (ac_put T (block_offset n a) v) s"
begin

lemma inside:
  assumes "ram_mask M" "ram_addr M a" "fits T a" "k < unat (ac_size T)"
  shows "(ram_off M a + k) div 32 = ram_off M a div 32" "(ram_off M a + k) mod 32 = ram_off M a mod 32 + k"
proof -
  have sz: "\<exists>n \<le> 3. unat (ac_size T) = 2 ^ n \<and> ac_size T - 1 = mask n"
    using size by (auto simp: mask_eq_exp_minus_1 intro: exI [of _ 0] exI [of _ 1] exI [of _ 2] exI [of _ 3])
  then obtain n where n: "n \<le> 3" "unat (ac_size T) = 2 ^ n" "ac_size T - 1 = mask n" by blast
  have "unat a mod 2 ^ n = 0" using assms(3) unat_and_mask [of a n] by (simp add: fits_def n)
  moreover have "ram_off M a mod 32 = unat a mod 32"
    using ram_facts(3) [OF assms(1,2)] unat_and_mask [of a 5] by (simp add: mask_eq_exp_minus_1)
  ultimately have z: "ram_off M a mod 32 mod 2 ^ n = 0" using n(1) by (simp add: mod_mod_cancel le_imp_power_dvd [of n 5 "2 :: nat", simplified])
  have "ram_off M a mod 32 + 2 ^ n \<le> 32"
  proof -
    obtain q where q: "ram_off M a mod 32 = 2 ^ n * q" using z by auto
    have "n = 0 \<or> n = 1 \<or> n = 2 \<or> n = 3" using n(1) by auto
    moreover have "2 ^ n * q < 32" using q by (metis mod_less_divisor zero_less_numeral)
    ultimately show ?thesis unfolding q by (elim disjE) simp_all
  qed
  then have k: "ram_off M a mod 32 + k < 32" using assms(4) n(2) by simp
  have "ram_off M a + k = 32 * (ram_off M a div 32) + (ram_off M a mod 32 + k)" by simp
  then show "(ram_off M a + k) div 32 = ram_off M a div 32" "(ram_off M a + k) mod 32 = ram_off M a mod 32 + k"
    using k by (metis div_mult_self4 div_less add_0 add.right_neutral zero_neq_numeral, metis mod_mult_self4 mod_less)
qed

lemma read_ok:
  assumes "env_ok E" "cache_on s" "ocache_ok (ce_mask E) s" "ram_addr (ce_mask E) a" "fits T a"
  shows "\<exists>t. ocache_ReadMem T E a s = Done (ac_get T (cview s) (ram_off (ce_mask E) a)) t \<and> cview t = cview s \<and> ocache_ok (ce_mask E) t \<and> cache_on t"
proof -
  define i where "i = line_no (ram_off (ce_mask E) a)"
  define t where "t = (if line_hit i a s then s else fill_line E i a s)"
  have m: "ram_mask (ce_mask E)" using assms(1) by (simp add: env_ok_def)
  have p: "cview t = cview s \<and> ocache_ok (ce_mask E) t \<and> cache_on t \<and> owns t i (ram_off (ce_mask E) a)"
    by (rule present [OF m assms(2-4) i_def t_def])
  have "cachedArea (drop_bit 29 a)" using assms(4) by (simp add: ram_addr_def)
  then have "ocache_ReadMem T E a s = Done (ac_get T (cl_data (oline t i)) (unat (a AND 0x1F))) t"
    using translate_on [OF assms(2), of a "ac_size T" False] assms(5) ram_line(2) [OF m assms(4,2)]
    by (auto simp: ocache_ReadMem_def fits_def Let_def i_def [symmetric] t_def)
  moreover have "ac_get T (cl_data (oline t i)) (unat (a AND 0x1F)) = ac_get T (cview s) (ram_off (ce_mask E) a)"
  proof (rule get)
    fix k assume k: "k < unat (ac_size T)"
    note q = inside [OF m assms(4,5) k]
    have "owns t i (ram_off (ce_mask E) a + k)" using p owns_line q(1) by blast
    then have "cview t (ram_off (ce_mask E) a + k) = cl_data (oline t i) (ram_off (ce_mask E) a mod 32 + k)"
      using q(2) by (auto simp: cview_def owns_def)
    then show "cl_data (oline t i) (unat (a AND 0x1F) + k) = cview s (ram_off (ce_mask E) a + k)"
      using p ram_facts(3) [OF m assms(4)] by simp
  qed
  ultimately show ?thesis using p by auto
qed

lemma ac_put_cong: "(\<And>p. b p = c p) \<Longrightarrow> ac_put T i v b = ac_put T i v c"
  by (metis ext)

text \<open>What a write to the line and to memory does to the view.\<close>

lemma put_line:
  assumes "ram_mask M" "ram_addr M a" "fits T a" "owns s i (ram_off M a)" "ocache_ok M s"
    and b: "b = sysmem s \<and> d \<or> b = ac_put T (ram_off M a) v (sysmem s) \<and> d = cl_dirty (oline s i)"
    and l: "l = (oline s i)\<lparr>cl_dirty := d, cl_data := ac_put T (unat (a AND 0x1F)) v (cl_data (oline s i))\<rparr>"
  shows "cview (put_state i l b s) = ac_put T (ram_off M a) v (cview s) \<and> ocache_ok M (put_state i l b s)"
proof -
  let ?o = "ram_off M a"
  have i: "line_no ?o = i" "cl_valid (oline s i)" "unat (cl_address (oline s i)) = 0x30000 + ?o div 1024" using assms(4) by (simp_all add: owns_def)
  have o5: "unat (a AND 0x1F) = ?o mod 32" by (rule ram_facts(3) [OF assms(1,2)])
  have r: "?o \<le> p \<and> p < ?o + unat (ac_size T) \<Longrightarrow> p div 32 = ?o div 32 \<and> p mod 32 = ?o mod 32 + (p - ?o)" for p
    using inside [OF assms(1-3), of "p - ?o"] by auto
  have w: "cl_data l (p mod 32) = (if ?o \<le> p \<and> p < ?o + unat (ac_size T) then bytes v (p - ?o) else cl_data (oline s i) (p mod 32))"
    if "owns s i p" for p
  proof -
    have d: "p div 32 = ?o div 32" using that owns_line [OF assms(4)] by blast
    have "p = 32 * (?o div 32) + p mod 32" "?o = 32 * (?o div 32) + ?o mod 32" using d mult_div_mod_eq [of 32 p] by simp_all
    then have "?o mod 32 \<le> p mod 32 \<and> p mod 32 < ?o mod 32 + unat (ac_size T) \<longleftrightarrow> ?o \<le> p \<and> p < ?o + unat (ac_size T)"
      "p mod 32 - ?o mod 32 = p - ?o" by linarith+
    then show ?thesis by (simp add: l o5 put)
  qed
  have other: "line_no p \<noteq> i \<Longrightarrow> b p = sysmem s p" for p
    using b r [of p] i(1) same_line [of p ?o] by (auto simp: put)
  have v: "cview (put_state i l b s) p = ac_put T ?o v (cview s) p" for p
  proof (cases "owns s i p")
    case True
    then have "line_no p = i" "unat (cl_address l) = 0x30000 + p div 1024" "cl_valid l" by (simp_all add: owns_def l)
    moreover have "cview s p = cl_data (oline s i) (p mod 32)" using True by (simp add: cview_def owns_def)
    ultimately show ?thesis using w [OF True] by (simp add: put_view [OF other] put)
  next
    case False
    then have "\<not> (?o \<le> p \<and> p < ?o + unat (ac_size T))" using r [of p] owns_line [OF assms(4)] by blast
    then have bp: "b p = sysmem s p" "ac_put T ?o v (cview s) p = cview s p" using b by (auto simp: put)
    have "cview (put_state i l b s) p = cview s p"
      using False i(2) bp(1) by (auto simp: put_view [OF other] cview_def owns_def l)
    then show ?thesis using bp(2) by simp
  qed
  have "ocache_ok M (put_state i l b s)"
  proof (rule put_ok [OF assms(5) other])
    show "\<exists>o1 \<le> unat M. line_no o1 = i \<and> unat (cl_address l) = 0x30000 + o1 div 1024"
      using ram_line(1) [OF assms(1,2)] i by (auto simp: l)
  next
    fix p assume p: "cl_valid l" "\<not> cl_dirty l" "line_no p = i" "unat (cl_address l) = 0x30000 + p div 1024"
    then have own: "owns s i p" using i(2) by (simp add: owns_def l)
    have b2: "b = ac_put T ?o v (sysmem s)" "\<not> cl_dirty (oline s i)" using b p(2) by (auto simp: l)
    then have "cl_data (oline s i) (p mod 32) = sysmem s p" using assms(5) i(2) own unfolding ocache_ok_def by blast
    then show "cl_data l (p mod 32) = b p" using w [OF own] b2(1) by (simp add: put)
  qed simp_all
  then show ?thesis using v by blast
qed

lemma put_memory:
  assumes "ram_mask M" "ram_addr M a" "fits T a" "\<not> owns s (line_no (ram_off M a)) (ram_off M a)" "ocache_ok M s"
    and t: "t = upd_block mem_b (ac_put T (ram_off M a) v) s"
  shows "cview t = ac_put T (ram_off M a) v (cview s) \<and> ocache_ok M t"
proof -
  let ?o = "ram_off M a"
  have m: "oline t = oline s" "sysmem t = ac_put T ?o v (sysmem s)" "owns t = owns s" by (simp_all add: t upd_block_def owns_def fun_eq_iff)
  have free: "\<not> owns s j p" if "?o \<le> p \<and> p < ?o + unat (ac_size T)" for j p
  proof
    assume own: "owns s j p"
    have "p div 32 = ?o div 32" using inside(1) [OF assms(1-3), of "p - ?o"] that by auto
    then have "owns s j ?o" using own owns_line by (metis)
    moreover then have "j = line_no ?o" by (simp add: owns_def)
    ultimately show False using assms(4) by simp
  qed
  have "cview t p = ac_put T ?o v (cview s) p" for p
    using free [of p] by (auto simp: cview_def m put)
  moreover have "ocache_ok M t"
    using assms(5) free unfolding ocache_ok_def m by (auto simp: put)
  ultimately show ?thesis by blast
qed

lemma write_ok:
  assumes "env_ok E" "cache_on s" "ocache_ok (ce_mask E) s" "ram_addr (ce_mask E) a" "fits T a"
  shows "\<exists>t. ocache_WriteMem T E a v s = Done () t \<and> cview t = ac_put T (ram_off (ce_mask E) a) v (cview s) \<and> ocache_ok (ce_mask E) t \<and> cache_on t"
proof -
  define i where "i = line_no (ram_off (ce_mask E) a)"
  let ?o = "ram_off (ce_mask E) a"
  have m: "ram_mask (ce_mask E)" using assms(1) by (simp add: env_ok_def)
  have c: "cachedArea (drop_bit 29 a)" using assms(4) by (simp add: ram_addr_def)
  define cb where "cb = (if drop_bit 29 a = 4 then CCR_CB (ccr s) else \<not> CCR_WT (ccr s))"
  note tr = translate_on [OF assms(2) c, of "ac_size T" True, folded cb_def]
  have ix: "lineIndex (ccr s) a = i" using ram_line(2) [OF m assms(4,2)] by (simp add: i_def)
  have wr: "ac_write T (ce_map E) a v u = upd_block mem_b (ac_put T ?o v) u" for u
  proof -
    obtain n where "memInfo_ptr (ce_map E) (unat (drop_bit 24 a)) = Block mem_b n" "block_offset n a = ?o"
      using assms(1,4) unfolding env_ok_def maps_ram_def by blast
    then show ?thesis using write_block [of "ce_map E" a mem_b n v u] by simp
  qed
  show ?thesis
  proof (cases cb)
    case True
    define s1 where "s1 = (if line_hit i a s then s else fill_line E i a s)"
    have p: "cview s1 = cview s \<and> ocache_ok (ce_mask E) s1 \<and> cache_on s1 \<and> owns s1 i ?o"
      by (rule present [OF m assms(2-4) i_def s1_def])
    define l where "l = (oline s1 i)\<lparr>cl_dirty := True, cl_data := ac_put T (unat (a AND 0x1F)) v (cl_data (oline s1 i))\<rparr>"
    have "ocache_WriteMem T E a v s = Done () (set_oline i l s1)"
      using True tr assms(5) by (simp add: ocache_WriteMem_def fits_def Let_def ix s1_def write_line_def l_def)
    moreover have st: "cache_state (set_oline i l s1) = cache_state (put_state i l (sysmem s1) s1)" by (rule state_put)
    moreover have "cview (put_state i l (sysmem s1) s1) = ac_put T ?o v (cview s1) \<and> ocache_ok (ce_mask E) (put_state i l (sysmem s1) s1)"
      by (rule put_line [OF m assms(4,5) _ _ _ l_def]) (use p in simp_all)
    ultimately show ?thesis using p state_facts [OF st] by auto
  next
    case False
    show ?thesis
    proof (cases "line_hit i a s")
      case hit: True
      have own: "owns s i ?o" using ram_line(3) [OF m assms(4), of s] hit by (simp add: i_def)
      define l where "l = (oline s i)\<lparr>cl_dirty := cl_dirty (oline s i), cl_data := ac_put T (unat (a AND 0x1F)) v (cl_data (oline s i))\<rparr>"
      define t where "t = addWriteThroughCycles (ce_set E) a (ac_size T) (upd_block mem_b (ac_put T ?o v) (set_oline i l s))"
      have "ocache_WriteMem T E a v s = Done () t"
        using False hit tr assms(5) by (simp add: ocache_WriteMem_def fits_def Let_def ix write_line_def l_def t_def wr)
      moreover have st: "cache_state t = cache_state (put_state i l (ac_put T ?o v (sysmem s)) s)"
        by (simp add: t_def) (simp add: cache_state_def put_state_def set_oline_def upd_block_def upd_chip_def)
      moreover have "cview (put_state i l (ac_put T ?o v (sysmem s)) s) = ac_put T ?o v (cview s)
          \<and> ocache_ok (ce_mask E) (put_state i l (ac_put T ?o v (sysmem s)) s)"
        by (rule put_line [OF m assms(4,5) own assms(3) _ l_def]) simp
      ultimately show ?thesis using state_facts [OF st] assms(2) by auto
    next
      case miss: False
      have own: "\<not> owns s (line_no ?o) ?o" using ram_line(3) [OF m assms(4), of s] miss by (simp add: i_def)
      define u where "u = upd_block mem_b (ac_put T ?o v) s"
      define t where "t = addWriteThroughCycles (ce_set E) a (ac_size T) u"
      have "ocache_WriteMem T E a v s = Done () t"
        using False miss tr assms(5) by (simp add: ocache_WriteMem_def fits_def Let_def ix t_def wr u_def)
      moreover have st: "cache_state t = cache_state u" by (simp add: t_def)
      moreover have "cview u = ac_put T ?o v (cview s) \<and> ocache_ok (ce_mask E) u" by (rule put_memory [OF m assms(4,5) own assms(3) u_def])
      moreover have "cache_on u = cache_on s" by (simp add: u_def upd_block_def cache_on_def)
      ultimately show ?thesis using state_facts [OF st] assms(2) by auto
    qed
  qed
qed

end

subsection \<open>Write-back, prefetch and the whole cache\<close>

definition sees :: "u32 \<Rightarrow> (nat \<Rightarrow> u8) \<Rightarrow> 'q sh4_machine \<Rightarrow> bool" where
  "sees M b t \<longleftrightarrow> cview t = b \<and> ocache_ok M t \<and> cache_on t"

lemma sees_state: "cache_state t = cache_state s \<Longrightarrow> sees M b t = sees M b s"
  using state_facts [of t s, where M = M] by (simp add: sees_def)

text \<open>A line that was written back may be given up or kept as it is.\<close>

lemma drop_line:
  assumes "ocache_ok M s" "cache_on s" "\<And>p. b p = evicted i s p"
    and l: "\<not> cl_valid l \<or> cl_valid (oline s i) \<and> cl_address l = cl_address (oline s i) \<and> cl_data l = cl_data (oline s i)"
  shows "sees M (cview s) (put_state i l b s)"
proof -
  have other: "line_no p \<noteq> i \<Longrightarrow> b p = sysmem s p" for p by (simp add: assms(3) evicted_def)
  have own: "cl_valid l \<Longrightarrow> line_no p = i \<Longrightarrow> unat (cl_address l) = 0x30000 + p div 1024 \<Longrightarrow> cview s p = cl_data l (p mod 32)" for p
    using l by (auto simp: cview_def owns_def)
  have "cview (put_state i l b s) p = cview s p" for p
    using own [of p] by (auto simp: put_view [OF other] assms(3) evicted_def)
  moreover have "ocache_ok M (put_state i l b s)"
  proof (rule put_ok [OF assms(1) other])
    show "\<exists>o1 \<le> unat M. line_no o1 = i \<and> unat (cl_address l) = 0x30000 + o1 div 1024" if "cl_valid l"
      using that l assms(1) by (auto simp: ocache_ok_def owns_def)
    show "cl_data l (p mod 32) = b p" if "cl_valid l" "line_no p = i" "unat (cl_address l) = 0x30000 + p div 1024" for p
      using own [OF that] that(2) by (simp add: assms(3) evicted_def)
  qed simp_all
  ultimately show ?thesis using assms(2) by (auto simp: sees_def fun_eq_iff)
qed

lemma writeback_sees:
  assumes "env_ok E" "cache_on s" "ocache_ok (ce_mask E) s" "ram_addr (ce_mask E) a"
  shows "\<exists>t. ocache_WriteBack E a True invd s = Done () t \<and> sees (ce_mask E) (cview s) t"
proof -
  define i where "i = line_no (ram_off (ce_mask E) a)"
  have m: "ram_mask (ce_mask E)" using assms(1) by (simp add: env_ok_def)
  have c: "cachedArea (drop_bit 29 a)" using assms(4) by (simp add: ram_addr_def)
  have ix: "lineIndex (ccr s) a = i" using ram_line(2) [OF m assms(4,2)] by (simp add: i_def)
  note tr = translate_on [OF assms(2) c, of 1 True, simplified]
  show ?thesis
  proof (cases "line_hit i a s")
    case True
    then have v: "cl_valid (oline s i)" by (simp add: line_hit_def)
    define u where "u = (if cl_dirty (oline s i) \<and> cl_valid (oline s i) then doWriteBack E i s else s)"
    have u: "cache_state u = cache_state (put_state i (oline s i) (evicted i s) s)" unfolding u_def by (rule evict [OF m assms(2,3)])
    then have ou: "oline u i = oline s i" by (simp add: cache_state_def)
    let ?l = "(oline s i)\<lparr>cl_valid := \<not> invd, cl_dirty := False\<rparr>"
    have "ocache_WriteBack E a True invd s = Done () (set_oline i ((oline u i)\<lparr>cl_valid := \<not> invd, cl_dirty := False\<rparr>) u)"
      using True tr v by (simp add: ocache_WriteBack_def Let_def ix u_def)
    then have "ocache_WriteBack E a True invd s = Done () (set_oline i ?l u)" using ou by simp
    moreover have "cache_state (set_oline i ?l u) = cache_state (put_state i ?l (evicted i s) s)" by (rule state_set [OF u])
    moreover have "sees (ce_mask E) (cview s) (put_state i ?l (evicted i s) s)"
      by (rule drop_line [OF assms(3,2)]) (use v in simp_all)
    ultimately show ?thesis using sees_state by auto
  next
    case False
    then have "ocache_WriteBack E a True invd s = Done () s" using tr by (simp add: ocache_WriteBack_def Let_def ix)
    then show ?thesis using assms(2,3) by (simp add: sees_def)
  qed
qed

lemma prefetch_sees:
  assumes "env_ok E" "cache_on s" "ocache_ok (ce_mask E) s" "ram_addr (ce_mask E) a" "a AND 0x1F = 0"
  shows "sees (ce_mask E) (cview s) (ocache_Prefetch E a s)"
proof -
  have m: "ram_mask (ce_mask E)" using assms(1) by (simp add: env_ok_def)
  have c: "cachedArea (drop_bit 29 a)" using assms(4) by (simp add: ram_addr_def)
  have "(a AND 0x1F) OR (a AND NOT 0x1F) = a" by (rule bit_word_eqI) (simp only: bit_or_iff bit_and_iff bit_not_iff, auto)
  then have a: "a AND NOT 0x1F = a" using assms(5) by simp
  let ?i = "line_no (ram_off (ce_mask E) a)"
  have "ocache_Prefetch E a s = (if line_hit ?i a s then s else fill_line E ?i a s)"
    using translate_on [OF assms(2) c, of 1 False, simplified] ram_line(2) [OF m assms(4,2)] unfolding ocache_Prefetch_def a Let_def by simp
  then show ?thesis using present [OF m assms(2-4) refl refl] by (simp add: sees_def)
qed

lemma flush_sees:
  assumes "env_ok E" "cache_on s" "ocache_ok (ce_mask E) s"
  shows "sees (ce_mask E) (cview s) (ocache_WriteBackAll E s) \<and> (\<forall>p. sysmem (ocache_WriteBackAll E s) p = cview s p)"
proof -
  have m: "ram_mask (ce_mask E)" using assms(1) by (simp add: env_ok_def)
  let ?f = "\<lambda>i s. let s = (if cl_valid (oline s i) \<and> cl_dirty (oline s i) then doWriteBack E i s else s)
            in set_oline i ((oline s i)\<lparr>cl_valid := False, cl_dirty := False\<rparr>) s"
  have step: "sees (ce_mask E) (cview s) (?f i s) \<and> \<not> cl_valid (oline (?f i s) i) \<and> (\<forall>j. j \<noteq> i \<longrightarrow> oline (?f i s) j = oline s j)"
    if "cache_on s" "ocache_ok (ce_mask E) s" for i and s :: "'a sh4_machine"
  proof -
    define u where "u = (if cl_dirty (oline s i) \<and> cl_valid (oline s i) then doWriteBack E i s else s)"
    have u: "cache_state u = cache_state (put_state i (oline s i) (evicted i s) s)" unfolding u_def by (rule evict [OF m that])
    let ?l = "(oline u i)\<lparr>cl_valid := False, cl_dirty := False\<rparr>"
    have f: "?f i s = set_oline i ?l u" by (simp add: u_def Let_def conj_commute)
    have st: "cache_state (set_oline i ?l u) = cache_state (put_state i ?l (evicted i s) s)" by (rule state_set [OF u])
    have "sees (ce_mask E) (cview s) (put_state i ?l (evicted i s) s)" by (rule drop_line [OF that(2,1)]) simp_all
    then show ?thesis unfolding f using sees_state [OF st] st by (simp add: cache_state_def)
  qed
  have "sees (ce_mask E) (cview s) (fold ?f [0..<n] s) \<and> (\<forall>i < n. \<not> cl_valid (oline (fold ?f [0..<n] s) i))" for n
  proof (induction n)
    case (Suc n)
    let ?t = "fold ?f [0..<n] s"
    have t: "cache_on ?t" "ocache_ok (ce_mask E) ?t" "cview ?t = cview s" using Suc by (simp_all add: sees_def)
    show ?case using step [OF t(1,2), of n] Suc t(3) by (auto simp: less_Suc_eq)
  qed (use assms in \<open>simp add: sees_def\<close>)
  from this [of 512] have a: "sees (ce_mask E) (cview s) (ocache_WriteBackAll E s)" "\<forall>i < 512. \<not> cl_valid (oline (ocache_WriteBackAll E s) i)"
    by (simp_all add: ocache_WriteBackAll_def)
  have "sysmem (ocache_WriteBackAll E s) p = cview (ocache_WriteBackAll E s) p" for p
  proof -
    have "line_no p < 512" by (simp add: line_no_def)
    then show ?thesis using a(2) by (simp add: cview_def owns_def)
  qed
  then show ?thesis using a(1) by (simp add: sees_def)
qed

subsection \<open>The accesses of the processor\<close>

definition byte_of :: "'a::len word \<Rightarrow> nat \<Rightarrow> u8" where "byte_of v k = ucast (drop_bit (8 * k) v)"

lemma put16_byte: "put16 i v b k = (if i \<le> k \<and> k < i + 2 then byte_of v (k - i) else b k)"
proof (cases "i \<le> k \<and> k < i + 2")
  case True
  then have "k = i \<or> k = i + 1" by auto
  then show ?thesis by (auto simp: put16_def byte_of_def)
qed (auto simp: put16_def)

lemma byte_high: "j < n \<Longrightarrow> 8 * n \<le> LENGTH('a) \<Longrightarrow> byte_of (ucast v :: 'a::len word) j = byte_of v j"
  "j < n \<Longrightarrow> 8 * n \<le> LENGTH('a) \<Longrightarrow> byte_of (ucast (drop_bit (8 * m) v) :: 'a word) j = byte_of v (j + m)" for v :: "'b::len word"
  by (rule bit_word_eqI; auto simp: byte_of_def bit_simps algebra_simps dest: bit_imp_le_length)+

lemma put_halves:
  assumes "\<And>j. j < n \<Longrightarrow> f j = h j" "\<And>j. j < n \<Longrightarrow> g j = h (j + n)"
  shows "(if i + n \<le> k \<and> k < i + n + n then g (k - (i + n)) else if i \<le> k \<and> k < i + n then f (k - i) else z) =
    (if i \<le> k \<and> k < i + (n + n :: nat) then h (k - i) else z)"
proof -
  have "i + n \<le> k \<Longrightarrow> k < i + n + n \<Longrightarrow> g (k - (i + n)) = h (k - i)" using assms(2) [of "k - (i + n)"] by simp
  then show ?thesis using assms(1) [of "k - i"] by auto
qed

lemma put32_byte: "put32 i v b k = (if i \<le> k \<and> k < i + 4 then byte_of v (k - i) else b k)"
proof -
  have "(if i + 2 \<le> k \<and> k < i + 2 + 2 then byte_of (ucast (drop_bit 16 v) :: u16) (k - (i + 2)) else if i \<le> k \<and> k < i + 2 then byte_of (ucast v :: u16) (k - i) else b k) =
    (if i \<le> k \<and> k < i + (2 + 2) then byte_of v (k - i) else b k)"
    by (rule put_halves) (use byte_high(1) [of _ 2 v, where ?'a = 16] byte_high(2) [of _ 2 2 v, where ?'a = 16] in simp_all)
  then show ?thesis by (simp only: put32_def put16_byte) simp
qed

lemma put64_byte: "put64 i v b k = (if i \<le> k \<and> k < i + 8 then byte_of v (k - i) else b k)"
proof -
  have "(if i + 4 \<le> k \<and> k < i + 4 + 4 then byte_of (ucast (drop_bit 32 v) :: u32) (k - (i + 4)) else if i \<le> k \<and> k < i + 4 then byte_of (ucast v :: u32) (k - i) else b k) =
    (if i \<le> k \<and> k < i + (4 + 4) then byte_of v (k - i) else b k)"
    by (rule put_halves) (use byte_high(1) [of _ 4 v, where ?'a = 32] byte_high(2) [of _ 4 4 v, where ?'a = 32] in simp_all)
  then show ?thesis by (simp only: put64_def put32_byte) simp
qed

lemma get16_cong: "(\<And>k. k < 2 \<Longrightarrow> b (i + k) = c (j + k)) \<Longrightarrow> get16 b i = get16 c j"
proof -
  assume a: "\<And>k. k < 2 \<Longrightarrow> b (i + k) = c (j + k)"
  show ?thesis using a [of 0] a [of 1] by (simp add: get16_def)
qed

lemma get_halves: "(\<And>k. k < n + n \<Longrightarrow> b (i + k) = c (j + k)) \<Longrightarrow> k < n \<Longrightarrow> b (i + k) = c (j + k) \<and> b ((i + n) + k) = c ((j + n) + (k :: nat))"
proof -
  assume a: "\<And>k. k < n + n \<Longrightarrow> b (i + k) = c (j + k)" and k: "k < n"
  show ?thesis using a [of k] a [of "n + k"] k by (simp add: add.assoc)
qed

lemma get32_cong: "(\<And>k. k < 2 + 2 \<Longrightarrow> b (i + k) = c (j + k)) \<Longrightarrow> get32 b i = get32 c j"
proof -
  assume a: "\<And>k. k < 2 + 2 \<Longrightarrow> b (i + k) = c (j + k)"
  have "get16 b i = get16 c j" "get16 b (i + 2) = get16 c (j + 2)"
    using get_halves [of 2 b i c j, OF a] by (auto intro!: get16_cong)
  then show ?thesis by (simp add: get32_def)
qed

lemma get64_cong: "(\<And>k. k < 4 + 4 \<Longrightarrow> b (i + k) = c (j + k)) \<Longrightarrow> get64 b i = get64 c j"
proof -
  assume a: "\<And>k. k < 4 + 4 \<Longrightarrow> b (i + k) = c (j + k)"
  have f: "(2 :: nat) + 2 = 4" by simp
  have "get32 b i = get32 c j" "get32 b (i + 4) = get32 c (j + 4)"
    using get_halves [of 4 b i c j, OF a] by (auto intro!: get32_cong simp: f)
  then show ?thesis by (simp add: get64_def)
qed

lemma access_simps [simp]:
  "ac_size access8 = 1" "ac_size access16 = 2" "ac_size access32b = 4" "ac_size access64 = 8"
  "ac_get access8 b i = b i" "ac_get access16 = get16" "ac_get access32b = get32" "ac_get access64 = get64"
  "ac_put access8 i v8 b = b(i := v8)" "ac_put access16 = put16" "ac_put access32b = put32" "ac_put access64 = put64"
  "ac_write access8 = addrspace_write8" "ac_write access16 = addrspace_write16" "ac_write access32b = addrspace_write32" "ac_write access64 = addrspace_write64"
  by (simp_all add: access8_def access16_def access32b_def access64_def)

interpretation acc8: memory_access "access8 :: (u8, 'q) access" byte_of
proof
  show "ac_get access8 b i = ac_get access8 c j" if "\<And>k. k < unat (ac_size access8) \<Longrightarrow> b (i + k) = c (j + k)" for b c i j
    using that [of 0] by simp
  show "ac_put access8 i v b k = (if i \<le> k \<and> k < i + unat (ac_size access8) then byte_of v (k - i) else b k)" for i v b k
    by (auto simp: byte_of_def)
qed (simp_all add: addrspace_write8_def access8_def)

interpretation acc16: memory_access "access16 :: (u16, 'q) access" byte_of
proof
  show "ac_get access16 b i = ac_get access16 c j" if "\<And>k. k < unat (ac_size access16) \<Longrightarrow> b (i + k) = c (j + k)" for b c i j
    unfolding access_simps by (rule get16_cong) (rule that, simp)
qed (simp_all add: put16_byte addrspace_write16_def)

interpretation acc32: memory_access "access32b :: (u32, 'q) access" byte_of
proof
  show "ac_get access32b b i = ac_get access32b c j" if "\<And>k. k < unat (ac_size access32b) \<Longrightarrow> b (i + k) = c (j + k)" for b c i j
    unfolding access_simps by (rule get32_cong) (rule that, simp)
qed (simp_all add: put32_byte addrspace_write32_def)

interpretation acc64: memory_access "access64 :: (u64, 'q) access" byte_of
proof
  show "ac_get access64 b i = ac_get access64 c j" if "\<And>k. k < unat (ac_size access64) \<Longrightarrow> b (i + k) = c (j + k)" for b c i j
    unfolding access_simps by (rule get64_cong) (rule that, simp)
qed (simp_all add: put64_byte addrspace_write64_def)

subsection \<open>Refinement of a plain memory\<close>

datatype cache_op = Load8 u32 | Load16 u32 | Load32 u32 | Load64 u32 | Store8 u32 u8 | Store16 u32 u16 | Store32 u32 u32 | Store64 u32 u64
  | Write_back u32 bool | Prefetch u32 | Flush

fun cached_op :: "'q cache_env \<Rightarrow> cache_op \<Rightarrow> (u64, 'q onchip mem_sys) act" where
  "cached_op E (Load8 a) s = bnd (ocache_ReadMem access8 E a s) (\<lambda>v. Done (ucast v))"
| "cached_op E (Load16 a) s = bnd (ocache_ReadMem access16 E a s) (\<lambda>v. Done (ucast v))"
| "cached_op E (Load32 a) s = bnd (ocache_ReadMem access32b E a s) (\<lambda>v. Done (ucast v))"
| "cached_op E (Load64 a) s = ocache_ReadMem access64 E a s"
| "cached_op E (Store8 a v) s = bnd (ocache_WriteMem access8 E a v s) (\<lambda>_. Done 0)"
| "cached_op E (Store16 a v) s = bnd (ocache_WriteMem access16 E a v s) (\<lambda>_. Done 0)"
| "cached_op E (Store32 a v) s = bnd (ocache_WriteMem access32b E a v s) (\<lambda>_. Done 0)"
| "cached_op E (Store64 a v) s = bnd (ocache_WriteMem access64 E a v s) (\<lambda>_. Done 0)"
| "cached_op E (Write_back a invd) s = bnd (ocache_WriteBack E a True invd s) (\<lambda>_. Done 0)"
| "cached_op E (Prefetch a) s = Done 0 (ocache_Prefetch E a s)"
| "cached_op E Flush s = Done 0 (ocache_WriteBackAll E s)"

text \<open>The same operations on a plain memory: the cache instructions do nothing.\<close>

fun plain_op :: "u32 \<Rightarrow> cache_op \<Rightarrow> (nat \<Rightarrow> u8) \<Rightarrow> u64 \<times> (nat \<Rightarrow> u8)" where
  "plain_op M (Load8 a) b = (ucast (b (ram_off M a)), b)"
| "plain_op M (Load16 a) b = (ucast (get16 b (ram_off M a)), b)"
| "plain_op M (Load32 a) b = (ucast (get32 b (ram_off M a)), b)"
| "plain_op M (Load64 a) b = (get64 b (ram_off M a), b)"
| "plain_op M (Store8 a v) b = (0, b(ram_off M a := v))"
| "plain_op M (Store16 a v) b = (0, put16 (ram_off M a) v b)"
| "plain_op M (Store32 a v) b = (0, put32 (ram_off M a) v b)"
| "plain_op M (Store64 a v) b = (0, put64 (ram_off M a) v b)"
| "plain_op M _ b = (0, b)"

text \<open>Operations on aligned addresses of system memory.\<close>

fun op_valid :: "u32 \<Rightarrow> cache_op \<Rightarrow> bool" where
  "op_valid M (Load8 a) = ram_addr M a"
| "op_valid M (Load16 a) = (ram_addr M a \<and> a AND 1 = 0)"
| "op_valid M (Load32 a) = (ram_addr M a \<and> a AND 3 = 0)"
| "op_valid M (Load64 a) = (ram_addr M a \<and> a AND 7 = 0)"
| "op_valid M (Store8 a v) = ram_addr M a"
| "op_valid M (Store16 a v) = (ram_addr M a \<and> a AND 1 = 0)"
| "op_valid M (Store32 a v) = (ram_addr M a \<and> a AND 3 = 0)"
| "op_valid M (Store64 a v) = (ram_addr M a \<and> a AND 7 = 0)"
| "op_valid M (Write_back a invd) = ram_addr M a"
| "op_valid M (Prefetch a) = (ram_addr M a \<and> a AND 0x1F = 0)"
| "op_valid M Flush = True"

fun run_cached :: "'q cache_env \<Rightarrow> cache_op list \<Rightarrow> (u64 list, 'q onchip mem_sys) act" where
  "run_cached E [] s = Done [] s"
| "run_cached E (c # cs) s = bnd (cached_op E c s) (\<lambda>v s. bnd (run_cached E cs s) (\<lambda>vs. Done (v # vs)))"

fun run_plain :: "u32 \<Rightarrow> cache_op list \<Rightarrow> (nat \<Rightarrow> u8) \<Rightarrow> u64 list \<times> (nat \<Rightarrow> u8)" where
  "run_plain M [] b = ([], b)"
| "run_plain M (c # cs) b = (let (v, b) = plain_op M c b; (vs, b) = run_plain M cs b in (v # vs, b))"

lemma fits_access:
  "fits access8 a" "fits access16 a = (a AND 1 = 0)" "fits access32b a = (a AND 3 = 0)" "fits access64 a = (a AND 7 = 0)"
  by (simp_all add: fits_def)

lemma cached_op_refines:
  assumes "env_ok E" "cache_on s" "ocache_ok (ce_mask E) s" "op_valid (ce_mask E) c"
  shows "\<exists>t. cached_op E c s = Done (fst (plain_op (ce_mask E) c (cview s))) t \<and> sees (ce_mask E) (snd (plain_op (ce_mask E) c (cview s))) t"
proof -
  note rd = acc8.read_ok [OF assms(1-3)] acc16.read_ok [OF assms(1-3)] acc32.read_ok [OF assms(1-3)] acc64.read_ok [OF assms(1-3)]
  note wr = acc8.write_ok [OF assms(1-3)] acc16.write_ok [OF assms(1-3)] acc32.write_ok [OF assms(1-3)] acc64.write_ok [OF assms(1-3)]
  show ?thesis
  proof (cases c)
    case (Write_back a invd)
    then show ?thesis using writeback_sees [OF assms(1-3), of a invd] assms(4) by auto
  next
    case (Prefetch a)
    then show ?thesis using prefetch_sees [OF assms(1-3), of a] assms(4) by auto
  next
    case Flush
    then show ?thesis using flush_sees [OF assms(1-3)] by simp
  next
    case (Load8 a)
    then show ?thesis using rd(1) [of a] assms(4) by (auto simp: sees_def fits_access)
  next
    case (Load16 a)
    then show ?thesis using rd(2) [of a] assms(4) by (auto simp: sees_def fits_access)
  next
    case (Load32 a)
    then show ?thesis using rd(3) [of a] assms(4) by (auto simp: sees_def fits_access)
  next
    case (Load64 a)
    then show ?thesis using rd(4) [of a] assms(4) by (auto simp: sees_def fits_access)
  next
    case (Store8 a v)
    then show ?thesis using wr(1) [of a v] assms(4) by (auto simp: sees_def fits_access)
  next
    case (Store16 a v)
    then show ?thesis using wr(2) [of a v] assms(4) by (auto simp: sees_def fits_access)
  next
    case (Store32 a v)
    then show ?thesis using wr(3) [of a v] assms(4) by (auto simp: sees_def fits_access)
  next
    case (Store64 a v)
    then show ?thesis using wr(4) [of a v] assms(4) by (auto simp: sees_def fits_access)
  qed
qed

lemma run_refines:
  assumes "env_ok E" "cache_on s" "ocache_ok (ce_mask E) s" "\<forall>c \<in> set cs. op_valid (ce_mask E) c"
  shows "\<exists>t. run_cached E cs s = Done (fst (run_plain (ce_mask E) cs (cview s))) t \<and> sees (ce_mask E) (snd (run_plain (ce_mask E) cs (cview s))) t"
  using assms(2-4)
proof (induction cs arbitrary: s)
  case Nil
  then show ?case by (simp add: sees_def)
next
  case (Cons c cs)
  obtain t where t: "cached_op E c s = Done (fst (plain_op (ce_mask E) c (cview s))) t" "sees (ce_mask E) (snd (plain_op (ce_mask E) c (cview s))) t"
    using cached_op_refines [OF assms(1) Cons.prems(1,2), of c] Cons.prems(3) by auto
  then have "cache_on t" "ocache_ok (ce_mask E) t" "cview t = snd (plain_op (ce_mask E) c (cview s))" by (simp_all add: sees_def)
  with Cons.IH [of t] Cons.prems(3) t(1) show ?case by (auto simp: split_def Let_def)
qed

text \<open>An empty cache shows memory as it is.\<close>

lemma empty_cache: "\<forall>i. \<not> cl_valid (oline s i) \<Longrightarrow> ocache_ok M s \<and> cview s = sysmem s"
  by (simp add: ocache_ok_def fun_eq_iff cview_def owns_def)

text \<open>
  Property C40: the operand cache refines a plain memory.  With the cache on, the MMU off, privileged mode and any setting of
  copy-back and write-through, any sequence of loads and stores of any size to system memory, of cache-line write-backs with or without
  invalidation, of prefetches and of flushes of the whole cache returns what a memory without cache returns, and raises no exception;
  flushing the cache then leaves exactly that memory.
\<close>

theorem cache_refines_memory:
  assumes "env_ok E" "cache_on s" "ocache_ok (ce_mask E) s" "\<forall>c \<in> set cs. op_valid (ce_mask E) c"
  shows "\<exists>t. run_cached E cs s = Done (fst (run_plain (ce_mask E) cs (cview s))) t
    \<and> cache_on t \<and> ocache_ok (ce_mask E) t \<and> cview t = snd (run_plain (ce_mask E) cs (cview s))
    \<and> (\<forall>p. blocks (dev (ocache_WriteBackAll E t)) mem_b p = snd (run_plain (ce_mask E) cs (cview s)) p)"
proof -
  obtain t where t: "run_cached E cs s = Done (fst (run_plain (ce_mask E) cs (cview s))) t"
    "sees (ce_mask E) (snd (run_plain (ce_mask E) cs (cview s))) t" using run_refines [OF assms] by blast
  then have "cache_on t" "ocache_ok (ce_mask E) t" "cview t = snd (run_plain (ce_mask E) cs (cview s))" by (simp_all add: sees_def)
  then show ?thesis using t(1) flush_sees [OF assms(1), of t] by auto
qed

text \<open>System memory as area 3 maps it, in all eight mirrors.\<close>

definition ram_map :: "'q onchip addr_map" where
  "ram_map = fold (\<lambda>i. map_area3 0x1000000 (32 * i)) [0..<8] addrspace_init"

lemma ram_pages: "\<forall>k \<in> set [0..<8]. memInfo_ptr ram_map (12 + 32 * k) = Block 0 8"
  unfolding ram_map_def by code_simp

lemma ram_map_ok: "maps_ram 0xFFFFFF ram_map"
  unfolding maps_ram_def
proof (intro allI impI)
  fix a assume a: "ram_addr 0xFFFFFF a"
  have m: "ram_mask 0xFFFFFF" by (simp add: ram_mask_def)
  have o1: "ram_off 0xFFFFFF a = unat a mod 2 ^ 24" using mask_off [OF m] by simp
  have "unat a mod 2 ^ 29 div 2 ^ 24 = 12" using a by (simp add: ram_addr_def o1)
  moreover have "unat a mod 2 ^ 29 div 2 ^ 24 = unat a div 2 ^ 24 mod 2 ^ 5" using div_mod_pow [of "unat a" 24 5] by simp
  ultimately have "unat a div 2 ^ 24 = 12 + 32 * (unat a div 2 ^ 24 div 32)" using mult_div_mod_eq [of 32 "unat a div 2 ^ 24"] by simp
  moreover have "unat a div 2 ^ 24 div 32 < 8"
  proof -
    have "unat a < 2 ^ 32" using unsigned_less [of a, where ?'a = nat] by simp
    then show ?thesis by (simp add: div_mult2_eq [symmetric] less_mult_imp_div_less)
  qed
  ultimately have p: "memInfo_ptr ram_map (unat (drop_bit 24 a)) = Block mem_b 8" using ram_pages unfolding unat_drop by (metis atLeastLessThan_iff set_upt zero_le)
  have "block_offset 8 a = ram_off 0xFFFFFF a"
  proof -
    have "drop_bit 8 (push_bit 8 a) = a AND mask 24"
      by (rule bit_word_eqI) (auto simp: bit_drop_bit_eq bit_push_bit_iff bit_and_iff bit_mask_iff)
    then show ?thesis by (simp add: block_offset_def ram_off_def mask_eq_exp_minus_1)
  qed
  then show "\<exists>n. memInfo_ptr ram_map (unat (drop_bit 24 a)) = Block mem_b n \<and> block_offset n a = ram_off 0xFFFFFF a" using p by blast
qed

definition cache_example :: "unit sh4_machine" where
  "cache_example = (let s = blank_machine ()
     in s\<lparr>cx := (cx s)\<lparr>sr_status := sr_status (cx s) OR 0x40000000\<rparr>, dev := (dev s)\<lparr>CCN_CCR := 5\<rparr>\<rparr>)"

theorem cache_refines_memory_witness:
  "\<exists>t. run_cached \<lparr>ce_mask = 0xFFFFFF, ce_map = ram_map, ce_set = \<lparr>set_platform = dreamcast, set_flash_size = 0x20000\<rparr>\<rparr>
     [Store8 0x8C000010 7, Load8 0x8C000010, Load8 0x0C000011] cache_example = Done [0, 7, 0] t"
proof -
  let ?E = "\<lparr>ce_mask = 0xFFFFFF, ce_map = ram_map, ce_set = \<lparr>set_platform = dreamcast, set_flash_size = 0x20000\<rparr>\<rparr> :: unit cache_env"
  let ?cs = "[Store8 0x8C000010 7, Load8 0x8C000010, Load8 0x0C000011]"
  have e: "env_ok ?E" by (simp add: env_ok_def ram_mask_def ram_map_ok)
  have on: "cache_on cache_example"
    by (simp add: cache_on_def cache_example_def blank_machine_def Let_def CCR_OCE_def CCR_ORA_def CCR_OIX_def MMUCR_AT_def sr_MD_def bit_simps)
  have v: "\<forall>i. \<not> cl_valid (oline cache_example i)" "sysmem cache_example = (\<lambda>_. 0)"
    by (simp_all add: cache_example_def blank_machine_def blank_chip_def Let_def)
  have ok: "ocache_ok (ce_mask ?E) cache_example" "cview cache_example = (\<lambda>_. 0)" using empty_cache [OF v(1)] v(2) by simp_all
  have a: "ram_addr 0xFFFFFF 0x8C000010" "ram_addr 0xFFFFFF 0x0C000011" "ram_off 0xFFFFFF 0x8C000010 = 0x10" "ram_off 0xFFFFFF 0x0C000011 = 0x11"
    by (simp_all add: ram_addr_def ram_off_def cachedArea_def)
  have "\<forall>c \<in> set ?cs. op_valid (ce_mask ?E) c" by (simp add: a)
  from cache_refines_memory [OF e on ok(1) this] show ?thesis by (auto simp: ok(2) a)
qed

end
