(* ===== verification/Spec2Isabelle.thy ===== *)
theory Spec2Isabelle
  imports Arm7_Decode_Transfer Aica_Machine Aica_Props Sgc_Props Sh4_Table Sh4_Props Sh4_Timeline Yuv Cache_Spec
begin

text \<open>
  Flycast emulates the Dreamcast and the Naomi and Atomiswave boards.  This development models the machine it emulates, from
  the sources under \<^verbatim>\<open>src/flycast/core/hw\<close>; paths below are relative to that directory.

  \<^bold>\<open>The parts and how they interact.\<close>  The SH-4 (\<^verbatim>\<open>sh4/\<close>) fetches, loads and stores through function pointers that lead to
  the page table of \<^verbatim>\<open>mem/addrspace.cpp\<close>, directly or through the MMU.  Its interrupt controller (\<^verbatim>\<open>sh4/sh4_interrupts.cpp\<close>)
  takes one of 28 sources; three of them are the lines of the Holly chip (\<^verbatim>\<open>holly/holly_intc.cpp\<close>), which collects the events of
  the board.  One of these events comes from the sound chip AICA (\<^verbatim>\<open>aica/\<close>): 64 channels, a DSP, timers, a real-time clock and an
  ARM7 processor (\<^verbatim>\<open>arm7/\<close>) that runs from the sound memory and sees the registers of the AICA through a window.  The SH-4 and the
  ARM7 interrupt each other through registers of the AICA.

  \<^bold>\<open>Prelude.\<close>  \<open>Prelude\<close>: bit fields, bytes and words, loops over lists; \<open>Signed_Words\<close>: signed readings of words.

  \<^bold>\<open>ARM7.\<close>
  \<^item> \<open>Arm7_State\<close>: \<^verbatim>\<open>arm7/arm7.h\<close>, the modes and exceptions of \<^verbatim>\<open>arm7.cpp\<close>, \<^verbatim>\<open>arm_mem.cpp\<close>.  The record \<open>arm_state\<close> holds the array
    \<open>arm_Reg\<close> as a function on indices; the AICA registers are the field \<open>periph\<close> behind the record of functions \<open>aica_bus\<close>.
  \<^item> \<open>Arm7_Alu\<close>, \<open>Arm7_Transfer\<close>, \<open>Arm7_Block\<close>, \<open>Arm7_Misc\<close>: the macros and the \<open>case\<close> blocks of \<^verbatim>\<open>arm-new.h\<close>, one definition each.
  \<^item> \<open>Arm7_Interp\<close>: condition codes, the hash and the \<open>switch\<close> as a list of cases in source order, the fetch, \<open>runInterpreter\<close>.
  \<^item> \<open>Arm7_Reference\<close>, \<open>Arm7_Decode\<close>, \<open>Arm7_Decode_Transfer\<close>: the instructions as the architecture defines them (barrel shifter, 33-bit
    adder, addressing modes), and that the case found for an opcode does what the reference says.
  \<^item> \<open>Arm7_Modes\<close>: an abstract banked register file which the mode switch refines; entry to and return from exceptions.
  \<^item> \<open>Arm7_Frame\<close>: the locales \<open>arm_frame\<close> and its extensions: what every instruction keeps, and that slices end.

  \<^bold>\<open>Interrupts.\<close>  \<open>Sh4_Intc\<close>: the cache of sources sorted by level, its rebuild, interrupt and exception entry, against two sets of
  sources and against a scan for the highest level.  \<open>Holly\<close>: status and mask registers and the three lines.

  \<^bold>\<open>AICA.\<close>
  \<^item> \<open>Aica_State\<close>, \<open>Aica\<close>, \<open>Aica_Clock\<close>: registers as bytes with bit fields on top, interrupts, timers, DMA, real-time clock, MIDI, a
    sample of the machine (\<open>timeStep\<close>), \<open>arm_run\<close>.
  \<^item> \<open>Sgc\<close>, \<open>Sgc_Ok\<close>, \<open>Sgc_Props\<close>: the channels (\<^verbatim>\<open>sgc_if.cpp\<close>): envelopes, streams, ADPCM, filter, mixer; bounds and the decoder.
  \<^item> \<open>Dsp\<close>, \<open>Dsp_Props\<close>: the DSP interpreter, its 16-bit float format, confinement of its stores.
  \<^item> \<open>Aica_Regs\<close>, \<open>Aica_Props\<close>: reads after writes, timers, clock protocol, MIDI, DMA.
  \<^item> \<open>Aica_Safe\<close>, \<open>Machine_Walk\<close>, \<open>Aica_Machine\<close>: a relation kept by every operation, the reachable states of the whole sound machine
    with its lines to Holly and the SH-4, and the invariant.

  \<^bold>\<open>SH-4.\<close>
  \<^item> \<open>Sh4_Cpu\<close>: \<open>Sh4Context\<close>, cycle counters, and outcomes: an instruction is done, throws \<open>SH4ThrownException\<close> with the state reached,
    or stops the emulator.  The environment \<open>sh4_env\<close> holds the function pointers of the source.
  \<^item> \<open>Sh4_Ops\<close>, \<open>Sh4_Fpu\<close>: the handlers of \<^verbatim>\<open>sh4_opcodes.cpp\<close> and \<^verbatim>\<open>sh4_fpu.cpp\<close> under their names, which spell the bit pattern.
  \<^item> \<open>Sh4_Decode\<close>: the instruction table and \<open>BuildOpcodeTables\<close>, cycles, delay slots, \<open>Step\<close> and \<open>Run\<close>, \<open>Reset\<close>.
  \<^item> \<open>Addrspace\<close>, \<open>Sh4_Mmu\<close>, \<open>Sh4_Machine\<close>: the page table, the fast MMU, the registers of the cache and TLB controller, the store queues,
    the register region, the memory interface as an environment.
  \<^item> \<open>Sh4_Frame\<close>, \<open>Sh4_Run\<close>: the judgement every handler satisfies (a thrown exception leaves everything as it was; the registers stay
    consistent; time passes), for the locales \<open>sh4_bus\<close> and \<open>sh4_slot\<close>; steps and slices.  \<open>Sh4_Machine\<close> proves the laws for the memory
    interface over any lawful devices (\<open>sh4_handlers\<close>).
  \<^item> \<open>Sh4_Table\<close>, \<open>Sh4_Arith\<close>, \<open>Sh4_Tlb\<close>, \<open>Sh4_Props\<close>: exactness of the opcode table, the division program, the hash chains of the MMU,
    precise exceptions, termination of slices and the invariant.
  \<^item> \<open>Sh4_Sched\<close>, \<open>Sh4_Tmu\<close>, \<open>Sh4_Scif\<close>: the scheduler (\<^verbatim>\<open>sh4_sched.cpp\<close>), the timers (\<^verbatim>\<open>modules/tmu.cpp\<close>) and the serial port
    (\<^verbatim>\<open>modules/serial.cpp\<close>), their state in the record \<open>onchip\<close>.  The scheduler's lemmas are proved for any callbacks that satisfy
    the locale \<open>sched_clients\<close>.  \<open>Sh4_Timeline\<close> interprets it on the timers, the serial port and the board's events, and shows that
    no event is ever overdue.
  \<^item> \<open>Sh4_Cycles\<close>, \<open>Sh4_Cache\<close>: the cost of accesses, the exact UTLB and ITLB, the instruction and operand caches (\<^verbatim>\<open>sh4_cache.h\<close>) that a
    build with \<^verbatim>\<open>STRICT_MODE\<close> uses.  \<open>Cache_Spec\<close>: the operand cache refines plain memory; the locale \<open>memory_access\<close> holds the laws of an
    access, interpreted for the four widths.

  \<^bold>\<open>Video memory.\<close>  \<open>Pvr_Mem\<close>: both paths to video memory and the writes to the tile accelerator (\<^verbatim>\<open>pvr/pvr_mem.cpp\<close>); \<open>Yuv\<close>: the
  converter of macroblocks.

  \<^bold>\<open>Bounds and fuel.\<close>  A loop that may run forever is a \<open>partial_function (option)\<close>: \<open>run_loop\<close> of the ARM (it does not return when the ARM
  program keeps interrupting the SH-4, as \<open>Aica_Machine.arm_slice_ends\<close> says) and \<open>run_slice\<close> of the SH-4 (it always returns).  The
  nesting of delay slots (\<open>slots\<close>) and of DMA transfers (\<open>writeReg_depth\<close>) is bounded by the host's stack; the bound is a
  parameter and reaching it is an outcome.  \<open>dma_clear_regs\<close> has 0x2000 turns, as many as there are bytes of registers; \<open>sleep_loop\<close> has the
  1002 turns of the source.  The cycle counters of both processors are unbounded integers: the source keeps them within a few
  slices of zero.

  \<^bold>\<open>Not modelled.\<close>  Code generators (\<^verbatim>\<open>arm7_rec*\<close>, \<^verbatim>\<open>dsp_x64.cpp\<close> and the like, \<^verbatim>\<open>sh4/dyna\<close>): they emit host machine code through
  assembler libraries.  Saved states, debugger hooks, logging and user interface.  Host floating-point arithmetic and the tables
  computed with it at start-up are parameters.  The tile accelerator's parser and the pipe plugged into the serial port are
  parameters.  The devices behind the address map other than those above are parameters under the laws of
  \<open>sh4_handlers\<close>.
\<close>

unbundle bit_operations_syntax

lemma switch_swi: "switch arm_switch 0xf00 = Some ARM_SWI"
  by (simp add: arm_switch_def switch_append switch_outside [OF ranges(1)] switch_outside [OF ranges(2)]
      switch_outside [OF ranges(3)] switch_outside [OF low_range] cases_high_def)





text \<open>
  A logical instruction with flags whose operand is rotated by a register with a zero low byte sets
  the carry from bit 31 of the operand; the architecture keeps the carry.
\<close>

theorem ror_by_zero_carry:
  assumes "rs_amount opcode s = 0" "fld opcode 12 \<noteq> 15" "fld opcode 0 \<noteq> 15"
  shows "C_FLAG (LOGICAL_nobase_ROR_Rs OP_MOVS OP_MOV b opcode s) = bit (reg s (fld opcode 0)) 31
    \<and> snd (ref_reg_shift 3 opcode s) = C_FLAG s"
proof -
  have "C_FLAG (logic_flags v c t) = c" for v c and t :: "'a arm_state"
    by (simp add: logic_flags_def Let_def)
  then show ?thesis
    using assms
    by (simp add: LOGICAL_nobase_Rs_blocks run_nop_def data_tail_def src_ror_rs_def OP_MOVS_def rs_cycle_def
        ref_reg_shift_def sr_of_def Let_def)
qed

theorem ror_by_zero_carry_witness:
  "C_FLAG (LOGICAL_nobase_ROR_Rs OP_MOVS OP_MOV flat_bus 0xE1B00271 (set_reg 1 0x80000000 arm_zero))
   \<and> \<not> C_FLAG arm_zero"
proof -
  have "rs_amount 0xE1B00271 (set_reg 1 0x80000000 arm_zero) = 0" "fld 0xE1B00271 12 \<noteq> 15" "fld 0xE1B00271 0 \<noteq> 15"
    "bit (reg (set_reg 1 0x80000000 arm_zero) (fld 0xE1B00271 0)) 31" "\<not> C_FLAG arm_zero"
    by code_simp+
  then show ?thesis using ror_by_zero_carry [of "0xE1B00271" "set_reg 1 0x80000000 arm_zero" flat_bus] by simp
qed



end
